(* ===== verification/Newton_Prelude.thy ===== *)
theory Newton_Prelude
  imports Main "HOL-Library.Word" "HOL-Library.Monad_Syntax"
begin

text \<open>
  Shared vocabulary of the development: the machine types of the 32-bit ARM target
  (\<open>ULong\<close>, \<open>long\<close>, bytes and the 16-bit \<open>UniChar\<close>), the C reading of unsigned and
  signed 32-bit results (\<open>u32\<close>, \<open>s32\<close>), C division, and the list facts about
  memory blocks (a prefix of a block overwritten, a block cut in two) that the buffer
  components share. The collections \<open>handler_defs\<close> and \<open>ce_frame\<close> are filled by
  the connection-end theories.
\<close>

named_theorems handler_defs "definitions of the connection end's handlers"
named_theorems ce_frame "fields of the connection end a helper leaves unchanged"

type_synonym byte = "8 word"
type_synonym bytes = "byte list"
type_synonym unichar = "16 word"
type_synonym ustring = "unichar list"
type_synonym ulong = "32 word"

text \<open>\<open>noErr\<close> of NewtonOS.\<close>

abbreviation (input) noErr :: int where
  "noErr \<equiv> 0"

subsection \<open>C arithmetic on 32-bit integers\<close>

text \<open>The value of an \<open>unsigned\<close> expression: reduced modulo \<open>2 ^ 32\<close>.\<close>

definition u32 :: "int \<Rightarrow> int" where
  "u32 x = x mod 2 ^ 32"

text \<open>The value of an \<open>int\<close> or \<open>long\<close> expression stored in 32 bits of two's complement.\<close>

definition s32 :: "int \<Rightarrow> int" where
  "s32 x = (x + 2 ^ 31) mod 2 ^ 32 - 2 ^ 31"

text \<open>Signed division of C truncates towards zero.\<close>

definition c_div :: "int \<Rightarrow> int \<Rightarrow> int" where
  "c_div a b = sgn a * sgn b * (\<bar>a\<bar> div \<bar>b\<bar>)"

lemma u32_id [simp]: "0 \<le> x \<Longrightarrow> x < 2 ^ 32 \<Longrightarrow> u32 x = x"
  by (simp add: u32_def)

lemma u32_range: "0 \<le> u32 x \<and> u32 x < 2 ^ 32"
  by (simp add: u32_def)

lemma u32_idem [simp]: "u32 (u32 x) = u32 x"
  by (simp add: u32_def)

lemma u32_uint: "u32 x = uint (word_of_int x :: 32 word)"
  by (simp add: u32_def uint_word_of_int)

lemma s32_id [simp]: "- (2 ^ 31) \<le> x \<Longrightarrow> x < 2 ^ 31 \<Longrightarrow> s32 x = x"
  by (simp add: s32_def)

lemma s32_range: "- (2 ^ 31) \<le> s32 x \<and> s32 x < 2 ^ 31"
  by (simp add: s32_def)

lemma c_div_nonneg [simp]: "0 \<le> a \<Longrightarrow> 0 < b \<Longrightarrow> c_div a b = a div b"
  by (cases "a = 0") (simp_all add: c_div_def)

text \<open>Sums of the 32-bit unsigned integers, without and with a wrap.\<close>

lemma ulong_less: "unat (x :: ulong) < 2 ^ 32"
  using unsigned_less [of x, where ?'a = nat] by simp

lemma unat_ulong_wrap:
  fixes x y :: ulong
  assumes "2 ^ 32 \<le> unat y + unat x"
  shows "unat (x + y) = unat y + unat x - 2 ^ 32"
proof -
  define m :: nat where "m = 2 ^ LENGTH(32)"
  have m: "m = 2 ^ 32" by (simp add: m_def)
  have "unat y < m" "unat x < m" "m \<le> unat y + unat x"
    using ulong_less assms unfolding m by blast+
  moreover have "unat (x + y) = (unat x + unat y) mod m"
    unfolding m_def by (rule unat_word_ariths(1))
  moreover have "(unat x + unat y) mod m = unat y + unat x - m"
    using calculation(1,2,3) by (simp add: le_mod_geq add.commute)
  ultimately show ?thesis unfolding m by (rule_tac trans)
qed

subsection \<open>Memory blocks\<close>

text \<open>
  \<open>overwrite xs i ys\<close> is the block \<open>xs\<close> after \<open>ys\<close> has been copied over it from
  offset \<open>i\<close>; the copy is cut at the end of the block.
\<close>

definition overwrite :: "'a list \<Rightarrow> nat \<Rightarrow> 'a list \<Rightarrow> 'a list" where
  "overwrite xs i ys =
     take i xs @ take (length xs - i) ys @ drop (i + length ys) xs"

lemma length_overwrite [simp]: "i \<le> length xs \<Longrightarrow> length (overwrite xs i ys) = length xs"
  by (simp add: overwrite_def)

lemma take_overwrite: "i + length ys \<le> length xs \<Longrightarrow>
    take (i + length ys) (overwrite xs i ys) = take i xs @ ys"
  by (simp add: overwrite_def)

lemma take_overwrite_same: "i \<le> length xs \<Longrightarrow> take i (overwrite xs i ys) = take i xs"
  by (simp add: overwrite_def)

lemma overwrite_all: "length ys = length xs \<Longrightarrow> overwrite xs 0 ys = ys"
  by (simp add: overwrite_def)

lemma overwrite_Nil [simp]: "overwrite xs i [] = xs"
  by (simp add: overwrite_def)

end
