(* ===== verification/Root_Certificates.thy ===== *)
theory Root_Certificates
  imports Newton_Prelude
begin

text \<open>
  The root certificate store of \<^verbatim>\<open>Protocol/PMbedTLS.cpp\<close>: the static methods
  \<^verbatim>\<open>GetRootCertificate\<close> and \<^verbatim>\<open>ListRootCertificates\<close>, which read the certificates of
  the package (read-only, built in) and of the union soup \<^verbatim>\<open>CACertificates:Kallisys\<close>
  (the user's additions and overrides). The soups, their index comparison and the
  exceptions NewtonScript may throw are parameters, in the record \<open>soups\<close>.
\<close>

section \<open>The NewtonScript side\<close>

text \<open>
  Exceptions, with the \<^verbatim>\<open>data\<close> word read by the handlers; \<^verbatim>\<open>exStoreError\<close> and
  \<^verbatim>\<open>exInterpreterWithFrameData\<close> are below \<^verbatim>\<open>exFrames\<close>.
\<close>

datatype ns_exn =
    ExStoreError int
  | ExInterpreterWithFrameData int
  | ExFrames int
  | ExOther int

datatype slot = SNil | SBinary bytes | SOther

record soup_entry =
  e_tag :: ustring
  e_trust :: bool
  e_pem :: slot
  e_der :: slot

text \<open>
  \<open>package_soup\<close> is what \<^verbatim>\<open>GetPackageStore\<close>, \<^verbatim>\<open>GetSoup\<close> and \<^verbatim>\<open>Query\<close> find (or the
  exception they throw), \<open>union_soup\<close> what \<^verbatim>\<open>GetUnionSoup\<close> finds (\<open>None\<close> for NIL),
  \<open>union_index_exn\<close> the exception of \<^verbatim>\<open>CursorEntry\<close> on a query by tag. \<open>same_key\<close> is
  the comparison of the tag index, \<open>mk_string\<close> is \<^verbatim>\<open>MakeString\<close> and \<open>MAKEINT\<close> the
  word of an integer \<^verbatim>\<open>Ref\<close>.
\<close>

record soups =
  package_soup :: "ns_exn + soup_entry list"
  union_soup :: "ns_exn + soup_entry list option"
  union_index_exn :: "ns_exn option"
  same_key :: "ustring \<Rightarrow> ustring \<Rightarrow> bool"
  mk_string :: "bytes \<Rightarrow> ustring"
  MAKEINT :: "int \<Rightarrow> int"

definition query_tag :: "soups \<Rightarrow> ustring \<Rightarrow> soup_entry list \<Rightarrow> soup_entry option" where
  "query_tag W tag es = find (\<lambda>e. same_key W (e_tag e) tag) es"

section \<open>GetRootCertificate\<close>

text \<open>
  The entry for a name: the union soup first, where a store error is ignored (a bad index
  in the union soup), then the package.
\<close>

definition find_certificate :: "soups \<Rightarrow> bytes \<Rightarrow> ns_exn + soup_entry option" where
  "find_certificate W name =
     (let nameStr = mk_string W name;
          from_union =
            (case union_soup W of
               Inl x \<Rightarrow> Inl x
             | Inr None \<Rightarrow> Inr None
             | Inr (Some es) \<Rightarrow>
                 (case union_index_exn W of
                    Some (ExStoreError _) \<Rightarrow> Inr None
                  | Some x \<Rightarrow> Inl x
                  | None \<Rightarrow> Inr (query_tag W nameStr es)))
      in case from_union of
           Inl x \<Rightarrow> Inl x
         | Inr (Some e) \<Rightarrow> Inr (Some e)
         | Inr None \<Rightarrow>
             (case package_soup W of
                Inl x \<Rightarrow> Inl x
              | Inr es \<Rightarrow> Inr (query_tag W nameStr es)))"

fun get_catch :: "ns_exn \<Rightarrow> int" where
  "get_catch (ExInterpreterWithFrameData _) = - 1"
| "get_catch (ExFrames d) = (if d > 0 then - 1 else d)"
| "get_catch (ExStoreError d) = (if d > 0 then - 1 else d)"
| "get_catch (ExOther _) = - 1"

text \<open>The result, the caller's buffer and the caller's size after the call.\<close>

definition GetRootCertificate ::
    "soups \<Rightarrow> bytes \<Rightarrow> bytes \<Rightarrow> nat option \<Rightarrow> int \<times> bytes \<times> nat option" where
  "GetRootCertificate W name outBuf ioSize =
     (case find_certificate W name of
        Inl x \<Rightarrow> (get_catch x, outBuf, ioSize)
      | Inr None \<Rightarrow> (- 1, outBuf, ioSize)
      | Inr (Some entry) \<Rightarrow>
          if \<not> e_trust entry then (- 1, outBuf, ioSize)
          else
            (case (if e_pem entry = SNil then e_der entry else e_pem entry) of
               SBinary cert \<Rightarrow>
                 (case ioSize of
                    None \<Rightarrow> (int (length cert), outBuf, None)
                  | Some n \<Rightarrow>
                      if length cert \<le> n
                      then (int (length cert), overwrite outBuf 0 cert, Some (length cert))
                      else (int (length cert), outBuf, Some n))
             | _ \<Rightarrow> (- 1, outBuf, ioSize)))"

section \<open>ListRootCertificates\<close>

text \<open>
  The inner loop of both listings: one byte per UniChar, cut to 8 bits, up to and with the
  first one that is zero.
\<close>

fun tag_chars :: "ustring \<Rightarrow> bytes" where
  "tag_chars [] = [0]"
| "tag_chars (u # us) = (let c = ucast u in if c = 0 then [0] else c # tag_chars us)"

text \<open>
  The output: \<open>live\<close> is \<^verbatim>\<open>bufCursor != NULL\<close>, \<open>written\<close> the bytes from \<^verbatim>\<open>outBuf\<close> on,
  \<open>total\<close> is \<^verbatim>\<open>totalSize\<close>. \<open>cap\<close> is the size at \<^verbatim>\<open>endCursor\<close>, compared only after a
  byte is written, as the code does.
\<close>

record listing =
  live :: bool
  written :: bytes
  total :: nat

definition put_char :: "nat \<Rightarrow> byte \<Rightarrow> listing \<Rightarrow> listing" where
  "put_char cap c s =
     (if live s
      then s\<lparr>written := written s @ [c], live := (length (written s) + 1 \<noteq> cap), total := total s + 1\<rparr>
      else s\<lparr>total := total s + 1\<rparr>)"

definition put_tag :: "nat \<Rightarrow> ustring \<Rightarrow> listing \<Rightarrow> listing" where
  "put_tag cap tag s = fold (put_char cap) (tag_chars tag) s"

text \<open>The loop over the package: a tag is listed unless the union soup has an entry for it.\<close>

fun list_package ::
    "soups \<Rightarrow> nat \<Rightarrow> soup_entry list option \<Rightarrow> soup_entry list \<Rightarrow> listing \<Rightarrow> ns_exn + listing" where
  "list_package W cap u [] s = Inr s"
| "list_package W cap u (e # es) s =
     (case u of
        None \<Rightarrow> list_package W cap u es (put_tag cap (e_tag e) s)
      | Some us \<Rightarrow>
          (case union_index_exn W of
             Some x \<Rightarrow> Inl x
           | None \<Rightarrow>
               list_package W cap u es
                 (if query_tag W (e_tag e) us = None then put_tag cap (e_tag e) s else s)))"

text \<open>The loop over the union soup, whose cursor moves by \<open>k\<close> entries at a time.\<close>

function list_union :: "nat \<Rightarrow> nat \<Rightarrow> soup_entry list \<Rightarrow> listing \<Rightarrow> listing" where
  "list_union k cap [] s = s"
| "list_union k cap (e # es) s = list_union k cap (drop (k - 1) es) (put_tag cap (e_tag e) s)"
  by pat_completeness auto
termination
  by (relation "measure (\<lambda>(k, cap, es, s). length es)") auto

fun list_catch :: "ns_exn \<Rightarrow> int" where
  "list_catch (ExOther _) = - 1"
| "list_catch (ExFrames d) = d"
| "list_catch (ExStoreError d) = d"
| "list_catch (ExInterpreterWithFrameData d) = d"

text \<open>
  \<open>dest = None\<close> is the call with two NULL pointers, \<open>dest = Some n\<close> the call with a buffer
  and \<^verbatim>\<open>*ioSize = n\<close>. The result, the bytes stored from \<^verbatim>\<open>outBuf\<close> on, and \<^verbatim>\<open>*ioSize\<close>.
\<close>

definition ListRootCertificates :: "soups \<Rightarrow> nat option \<Rightarrow> int \<times> bytes \<times> nat option" where
  "ListRootCertificates W dest =
     (let cap = (case dest of None \<Rightarrow> 0 | Some n \<Rightarrow> n);
          s0 = \<lparr>live = (dest \<noteq> None), written = [], total = 0\<rparr>
      in case package_soup W of
           Inl x \<Rightarrow> (list_catch x, [], dest)
         | Inr es \<Rightarrow>
             (case union_soup W of
                Inl x \<Rightarrow> (list_catch x, [], dest)
              | Inr u \<Rightarrow>
                  (case list_package W cap u es s0 of
                     Inl x \<Rightarrow> (list_catch x, [], dest)
                   | Inr s1 \<Rightarrow>
                       (let s2 = (case u of
                                    None \<Rightarrow> s1
                                  | Some us \<Rightarrow> list_union (nat (MAKEINT W 1)) cap us s1)
                        in (int (total s2), written s2,
                            (case dest of None \<Rightarrow> None | Some _ \<Rightarrow> Some (length (written s2))))))))"

section \<open>What a listing holds\<close>

text \<open>The entries the two loops visit, in order.\<close>

function every :: "nat \<Rightarrow> 'a list \<Rightarrow> 'a list" where
  "every k [] = []"
| "every k (x # xs) = x # every k (drop (k - 1) xs)"
  by pat_completeness auto
termination
  by (relation "measure (\<lambda>(k, xs). length xs)") auto

definition listed :: "soups \<Rightarrow> soup_entry list \<Rightarrow> soup_entry list option \<Rightarrow> soup_entry list" where
  "listed W es u =
     (case u of
        None \<Rightarrow> es
      | Some us \<Rightarrow> filter (\<lambda>e. query_tag W (e_tag e) us = None) es @ every (nat (MAKEINT W 1)) us)"

definition names_of :: "soup_entry list \<Rightarrow> bytes" where
  "names_of es = concat (map (\<lambda>e. tag_chars (e_tag e)) es)"

lemma names_of_simps [simp]:
  "names_of [] = []" "names_of (e # es) = tag_chars (e_tag e) @ names_of es"
  "names_of (es @ fs) = names_of es @ names_of fs"
  by (simp_all add: names_of_def)

lemma every_1 [simp]: "every (Suc 0) xs = xs"
  by (induction xs) auto

lemma tag_chars_nonempty [simp]: "tag_chars us \<noteq> []"
  by (cases us) (auto simp: Let_def)

lemma every_nth:
  "every (Suc k) xs = map (\<lambda>i. xs ! (Suc k * i)) [0..<(length xs + k) div Suc k]"
proof (induction "Suc k" xs rule: every.induct)
  case 1
  then show ?case by simp
next
  case (2 x xs)
  let ?n = "length xs div Suc k"
  have n: "(length (drop k xs) + k) div Suc k = ?n"
    by (cases "k \<le> length xs") simp_all
  have "(length (x # xs) + k) div Suc k = Suc ?n"
  proof -
    have "length (x # xs) + k = Suc k + length xs" by simp
    then show ?thesis by (simp only: div_add_self1)
  qed
  then have "map (\<lambda>i. (x # xs) ! (Suc k * i)) [0..<(length (x # xs) + k) div Suc k]
      = x # map (\<lambda>i. (x # xs) ! (Suc k * Suc i)) [0..<?n]"
    by (simp only: map_upt_Suc mult_0_right nth_Cons_0)
  also have "map (\<lambda>i. (x # xs) ! (Suc k * Suc i)) [0..<?n] = map (\<lambda>i. drop k xs ! (Suc k * i)) [0..<?n]"
  proof (rule map_cong [OF refl])
    fix i assume "i \<in> set [0..<?n]"
    then have "k \<le> length xs" by (cases "k \<le> length xs") auto
    then show "(x # xs) ! (Suc k * Suc i) = drop k xs ! (Suc k * i)"
      by (simp add: algebra_simps)
  qed
  finally have "map (\<lambda>i. (x # xs) ! (Suc k * i)) [0..<(length (x # xs) + k) div Suc k]
    = x # map (\<lambda>i. drop k xs ! (Suc k * i)) [0..<?n]" .
  moreover have "every (Suc k) (x # xs) = x # map (\<lambda>i. drop k xs ! (Suc k * i)) [0..<?n]"
    using 2 by (simp only: every.simps diff_Suc_1 n)
  ultimately show ?case by (simp only:)
qed

text \<open>What a run of \<open>put_char\<close> does to a listing that has room, or is closed.\<close>

definition emit :: "nat \<Rightarrow> bytes \<Rightarrow> listing \<Rightarrow> listing" where
  "emit cap bs s = fold (put_char cap) bs s"

lemma emit_append: "emit cap (bs @ cs) s = emit cap cs (emit cap bs s)"
  by (simp add: emit_def)

lemma emit_Nil [simp]: "emit cap [] s = s"
  by (simp add: emit_def)

lemma put_tag_emit: "put_tag cap tag s = emit cap (tag_chars tag) s"
  by (simp add: put_tag_def emit_def)

lemma emit_total [simp]: "total (emit cap bs s) = total s + length bs"
  unfolding emit_def by (induction bs arbitrary: s) (auto simp: put_char_def)

lemma emit_closed: "\<not> live s \<Longrightarrow> written (emit cap bs s) = written s \<and> \<not> live (emit cap bs s)"
  unfolding emit_def by (induction bs arbitrary: s) (auto simp: put_char_def)

lemma emit_open:
  assumes "live s" "length (written s) < cap"
  shows "written (emit cap bs s) = take cap (written s @ bs)
    \<and> (live (emit cap bs s) \<longleftrightarrow> length (written s @ bs) < cap)"
  using assms
proof (induction bs arbitrary: s rule: list.induct)
  case Nil
  then show ?case by simp
next
  case (Cons b bs)
  have step: "emit cap (b # bs) s = emit cap bs (put_char cap b s)" by (simp add: emit_def)
  show ?case
  proof (cases "length (written s) + 1 = cap")
    case True
    then show ?thesis
      using Cons.prems emit_closed [of "put_char cap b s" cap bs] unfolding step
      by (auto simp: put_char_def)
  next
    case False
    then show ?thesis
      using Cons.prems Cons.IH [of "put_char cap b s"] unfolding step by (auto simp: put_char_def)
  qed
qed

text \<open>A listing that starts at its end writes without bound: the comparison comes too late.\<close>

lemma emit_zero_cap: "live s \<Longrightarrow> written (emit 0 bs s) = written s @ bs \<and> live (emit 0 bs s)"
  unfolding emit_def by (induction bs arbitrary: s) (auto simp: put_char_def)

lemma list_package_emit:
  "list_package W cap u es s =
     (if u \<noteq> None \<and> es \<noteq> [] \<and> union_index_exn W \<noteq> None then Inl (the (union_index_exn W))
      else Inr (emit cap (names_of (filter (\<lambda>e. case u of None \<Rightarrow> True | Some us \<Rightarrow> query_tag W (e_tag e) us = None) es)) s))"
  by (induction es arbitrary: s) (auto simp: emit_append put_tag_emit split: option.splits)

lemma list_union_emit: "list_union k cap us s = emit cap (names_of (every k us)) s"
  by (induction k cap us s rule: list_union.induct) (auto simp: emit_append put_tag_emit)

section \<open>Properties\<close>

lemma ListRootCertificates_eq:
  fixes dest :: "nat option"
  assumes "package_soup W = Inr es" "union_soup W = Inr u" "u = None \<or> union_index_exn W = None"
  defines "s \<equiv> emit (case dest of None \<Rightarrow> 0 | Some n \<Rightarrow> n) (names_of (listed W es u))
                  \<lparr>live = (dest \<noteq> None), written = [], total = 0\<rparr>"
  shows "ListRootCertificates W dest =
    (int (total s), written s, (case dest of None \<Rightarrow> None | Some _ \<Rightarrow> Some (length (written s))))"
  using assms(3)
  by (auto simp: ListRootCertificates_def assms(1,2) list_package_emit list_union_emit listed_def
      s_def emit_append Let_def split: option.splits)

lemma list_certificates_bounded_aux:
  assumes "package_soup W = Inr es" "union_soup W = Inr u" "u = None \<or> union_index_exn W = None"
    and "0 < cap"
  shows "ListRootCertificates W (Some cap) =
    (int (length (names_of (listed W es u))), take cap (names_of (listed W es u)),
     Some (min cap (length (names_of (listed W es u)))))"
  using ListRootCertificates_eq [OF assms(1-3), of "Some cap"] assms(4)
    emit_open [of "\<lparr>live = True, written = [], total = 0\<rparr>" cap]
  by (simp add: min.commute)

text \<open>
  C22. Listing the root certificates is safe and complete for every buffer of at least one
  byte: the result is the size of the whole list of NUL-terminated names, the first bytes of
  it that fit are stored and nothing is stored past the end of the buffer.
\<close>

theorem list_certificates_bounded:
  assumes "package_soup W = Inr es" "union_soup W = Inr u" "u = None \<or> union_index_exn W = None"
    and "0 < cap"
  shows "ListRootCertificates W (Some cap) =
    (int (length (names_of (listed W es u))), take cap (names_of (listed W es u)),
     Some (min cap (length (names_of (listed W es u)))))"
  using assms by (rule list_certificates_bounded_aux)

definition demo_package :: "soup_entry list" where
  "demo_package =
     [\<lparr>e_tag = [65, 66], e_trust = True, e_pem = SNil, e_der = SBinary [1, 2]\<rparr>,
      \<lparr>e_tag = [67], e_trust = True, e_pem = SNil, e_der = SBinary [3]\<rparr>]"

definition demo_user :: "soup_entry list" where
  "demo_user =
     [\<lparr>e_tag = [67], e_trust = False, e_pem = SNil, e_der = SNil\<rparr>,
      \<lparr>e_tag = [68], e_trust = True, e_pem = SBinary [4, 5, 6], e_der = SNil\<rparr>]"

definition demo_soups :: soups where
  "demo_soups =
     \<lparr>package_soup = Inr demo_package, union_soup = Inr (Some demo_user), union_index_exn = None,
      same_key = (=), mk_string = map ucast, MAKEINT = (\<lambda>n. 4 * n)\<rparr>"

lemma demo_soups_sel [simp]:
  "package_soup demo_soups = Inr demo_package" "union_soup demo_soups = Inr (Some demo_user)"
  "union_index_exn demo_soups = None" "MAKEINT demo_soups 1 = 4"
  by (simp_all add: demo_soups_def)

lemma demo_names:
  "names_of (listed demo_soups demo_package (Some demo_user)) = [65, 66, 0, 67, 0]"
  "length (listed demo_soups demo_package (Some demo_user)) = 2"
  by code_simp+

theorem list_certificates_bounded_witness:
  "ListRootCertificates demo_soups (Some 3) = (5, [65, 66, 0], Some 3)"
  using list_certificates_bounded [of demo_soups demo_package "Some demo_user" 3]
  by (simp add: demo_names)

lemma list_certificates_first:
  assumes "package_soup W = Inr es" "union_soup W = Inr u" "u = None \<or> union_index_exn W = None"
  shows "ListRootCertificates W None = (int (length (names_of (listed W es u))), [], None)"
  using ListRootCertificates_eq [OF assms, of None]
    emit_closed [of "\<lparr>live = False, written = [], total = 0\<rparr>"] by simp

text \<open>
  The two calls \<^verbatim>\<open>SSLConfigure\<close> makes agree: the size the first returns, for NULL
  pointers, is the size of a buffer that the second fills completely, with the same result.
\<close>

theorem list_certificates_two_calls:
  assumes "package_soup W = Inr es" "union_soup W = Inr u" "u = None \<or> union_index_exn W = None"
    and "listed W es u \<noteq> []"
  defines "n \<equiv> fst (ListRootCertificates W None)"
  shows "0 < n \<and> ListRootCertificates W None = (n, [], None)
    \<and> ListRootCertificates W (Some (nat n)) = (n, names_of (listed W es u), Some (nat n))"
proof -
  have n: "ListRootCertificates W None = (int (length (names_of (listed W es u))), [], None)"
    by (rule list_certificates_first [OF assms(1-3)])
  have "names_of (listed W es u) \<noteq> []" using assms(4) by (cases "listed W es u") auto
  then show ?thesis
    using list_certificates_bounded_aux [OF assms(1-3)] by (simp add: n_def n)
qed

theorem list_certificates_two_calls_witness:
  "fst (ListRootCertificates demo_soups None) = 5
   \<and> ListRootCertificates demo_soups (Some 5) = (5, [65, 66, 0, 67, 0], Some 5)"
  using list_certificates_two_calls [of demo_soups demo_package "Some demo_user"]
    list_certificates_first [of demo_soups demo_package "Some demo_user"] demo_names
  by (cases "listed demo_soups demo_package (Some demo_user) = []") simp_all

text \<open>
  A buffer of size zero is overrun: the comparison with \<^verbatim>\<open>endCursor\<close> follows the store
  and never holds, so the whole list is written past the end of the buffer.
\<close>

theorem list_certificates_zero_buffer_overrun:
  assumes "package_soup W = Inr es" "union_soup W = Inr u" "u = None \<or> union_index_exn W = None"
  shows "ListRootCertificates W (Some 0) =
    (int (length (names_of (listed W es u))), names_of (listed W es u),
     Some (length (names_of (listed W es u))))"
  using ListRootCertificates_eq [OF assms(1-3), of "Some 0"]
    emit_zero_cap [of "\<lparr>live = True, written = [], total = 0\<rparr>"] by simp

theorem list_certificates_zero_buffer_overrun_witness:
  "ListRootCertificates demo_soups (Some 0) = (5, [65, 66, 0, 67, 0], Some 5)"
  using list_certificates_zero_buffer_overrun [of demo_soups demo_package "Some demo_user"]
  by (simp add: demo_names)

text \<open>
  The user's soup overrides the package: when it has an entry for a name, that entry
  alone decides, and an entry that is not trusted disables the built-in certificate whatever
  the package holds.
\<close>

theorem user_entry_decides:
  assumes "union_soup W = Inr (Some us)" "union_index_exn W = None"
    and "query_tag W (mk_string W name) us = Some e"
  shows "GetRootCertificate W name buf sz =
      GetRootCertificate (W\<lparr>package_soup := Inr []\<rparr>) name buf sz
    \<and> (\<not> e_trust e \<longrightarrow> GetRootCertificate W name buf sz = (- 1, buf, sz))"
  using assms by (simp add: GetRootCertificate_def find_certificate_def query_tag_def)

theorem user_entry_decides_witness:
  "GetRootCertificate demo_soups [67] [0, 0] (Some 2) = (- 1, [0, 0], Some 2)"
proof -
  have "query_tag demo_soups (mk_string demo_soups [67]) demo_user = Some (hd demo_user)" by code_simp
  from user_entry_decides [THEN conjunct2, OF demo_soups_sel(2,3) this, of "[0, 0]" "Some 2"]
  show ?thesis by (simp add: demo_user_def)
qed

text \<open>
  A certificate is copied only into a buffer it fits in: a non-negative result is the
  certificate's length, the buffer keeps its size and starts with the certificate when
  the given size allows, and is untouched otherwise.
\<close>

theorem get_certificate_copies:
  assumes "GetRootCertificate W name buf (Some n) = (r, buf', size')" "0 \<le> r" "n \<le> length buf"
    and "find_certificate W name \<noteq> Inl (ExFrames 0)" "find_certificate W name \<noteq> Inl (ExStoreError 0)"
  shows "length buf' = length buf
    \<and> (if nat r \<le> n
        then size' = Some (nat r)
          \<and> (\<exists>e. find_certificate W name = Inr (Some e) \<and> e_trust e
               \<and> (if e_pem e = SNil then e_der e else e_pem e) = SBinary (take (nat r) buf'))
        else buf' = buf \<and> size' = Some n)"
proof -
  have "get_catch x < 0" if "find_certificate W name = Inl x" for x
    using that assms(4,5) by (cases x) auto
  then show ?thesis
    using assms(1-3)
    by (auto simp: GetRootCertificate_def overwrite_def split: sum.splits option.splits if_splits slot.splits)
qed

theorem get_certificate_copies_witness:
  "length (fst (snd (GetRootCertificate demo_soups [68] [0, 0, 0, 9] (Some 4)))) = 4"
proof -
  have "find_certificate demo_soups [68] = Inr (Some (demo_user ! 1))" by code_simp
  moreover have "GetRootCertificate demo_soups [68] [0, 0, 0, 9] (Some 4) = (3, [4, 5, 6, 9], Some 3)"
    by code_simp
  ultimately show ?thesis
    using get_certificate_copies [of demo_soups "[68]" "[0, 0, 0, 9]" 4 3 "[4, 5, 6, 9]" "Some 3"] by simp
qed

text \<open>
  The union soup's cursor is moved by the word of the \<^verbatim>\<open>Ref\<close> of 1: where that word is
  4, as integers are tagged by a shift of two bits, only every fourth of the user's
  certificates is listed, the others are skipped.
\<close>

theorem user_certificates_skipped:
  assumes "MAKEINT W 1 = 4"
  shows "listed W es (Some us) =
    filter (\<lambda>e. query_tag W (e_tag e) us = None) es @ map (\<lambda>i. us ! (4 * i)) [0..<(length us + 3) div 4]"
proof -
  have "every 4 us = map (\<lambda>i. us ! (4 * i)) [0..<(length us + 3) div 4]"
    using every_nth [of 3 us] by simp
  then show ?thesis by (simp add: listed_def assms)
qed

theorem user_certificates_skipped_witness:
  "listed demo_soups [] (Some [\<lparr>e_tag = [67], e_trust = True, e_pem = SNil, e_der = SNil\<rparr>,
                               \<lparr>e_tag = [68], e_trust = True, e_pem = SNil, e_der = SNil\<rparr>])
   = [\<lparr>e_tag = [67], e_trust = True, e_pem = SNil, e_der = SNil\<rparr>]"
  by (subst user_certificates_skipped) simp_all

end
