(* ===== verification/Task_Bindings.thy ===== *)
theory Task_Bindings
  imports Root_Certificates
begin

unbundle bit_operations_syntax

text \<open>
  The task bindings: every call into NewtonScript has to run in the NewtApp task. This
  theory models the services of \<^verbatim>\<open>PMbedTLS\<close> that run there, the events of
  \<^verbatim>\<open>mbedTLSEvents.h\<close> and their handlers in \<^verbatim>\<open>mbedTLSEvents.cpp\<close> (with the dispatch by
  event identifier of \<^verbatim>\<open>TAEventHandlerProxy\<close>), and the bindings of \<^verbatim>\<open>NewtonBindings.cpp\<close>,
  which call the service directly or send the event. Also the C library functions of
  \<^verbatim>\<open>NewtonRuntime.cpp\<close>.
\<close>

section \<open>The NewtApp side\<close>

text \<open>
  What the services ask of NewtonScript: the entropy collector, the stored seed, the user's
  location (\<open>user_gmt\<close>: the slot, when the location and the slot exist), the ROM serial
  number, and the certificate soups. \<open>stack_long\<close> is the value of a local variable the
  code does not initialise.
\<close>

record newt =
  entropy_data :: "nat \<Rightarrow> bytes option"
  nv_seed :: "bytes option"
  user_gmt :: "int option"
  rom_serial :: "ns_exn + bytes"
  cert_soups :: soups
  stack_long :: int

text \<open>The services take the caller's buffer and return the result with the buffer after.\<close>

definition HardwarePoll :: "newt \<Rightarrow> bytes \<Rightarrow> nat \<Rightarrow> nat \<times> bytes" where
  "HardwarePoll N output len =
     (case entropy_data N len of
        None \<Rightarrow> (0, output)
      | Some d \<Rightarrow>
          (let numBytes = (if length d > len then len else length d)
           in (numBytes, overwrite output 0 (take numBytes d))))"

definition NVSeedRead :: "newt \<Rightarrow> bytes \<Rightarrow> nat \<Rightarrow> int \<times> bytes" where
  "NVSeedRead N buf buf_len =
     (case nv_seed N of
        None \<Rightarrow> (- 1, buf)
      | Some d \<Rightarrow>
          (let numBytes = (if length d > buf_len then buf_len else length d)
           in (int numBytes, overwrite buf 0 (take numBytes d))))"

definition NVSeedWrite :: "newt \<Rightarrow> bytes \<Rightarrow> nat \<Rightarrow> int \<times> newt" where
  "NVSeedWrite N buf buf_len = (int buf_len, N\<lparr>nv_seed := Some (take buf_len buf)\<rparr>)"

definition GetGMTDelta :: "newt \<Rightarrow> int" where
  "GetGMTDelta N = (case user_gmt N of None \<Rightarrow> stack_long N | Some g \<Rightarrow> g)"

definition SERIAL_NUMBER_LEN :: nat where
  "SERIAL_NUMBER_LEN = 8"

definition GetSerialNumber_newt :: "newt \<Rightarrow> bytes \<Rightarrow> int \<times> bytes" where
  "GetSerialNumber_newt N serialNumber =
     (case rom_serial N of
        Inl (ExOther _) \<Rightarrow> (- 1, serialNumber)
      | Inl (ExFrames d) \<Rightarrow> (d, serialNumber)
      | Inl (ExStoreError d) \<Rightarrow> (d, serialNumber)
      | Inl (ExInterpreterWithFrameData d) \<Rightarrow> (d, serialNumber)
      | Inr s \<Rightarrow>
          if length s = SERIAL_NUMBER_LEN then (0, overwrite serialNumber 0 s) else (- 1, serialNumber))"

section \<open>Events\<close>

text \<open>
  The event classes with their fields; a buffer field is the memory the pointer leads to,
  so a handler's reply carries the memory after the call.
\<close>

datatype event =
    HardwarePollEvent bytes nat
  | NVSeedReadEvent bytes nat
  | NVSeedWriteEvent bytes nat
  | GetGMTDeltaEvent
  | GetSerialNumberEvent bytes nat
  | ListRootCertificatesEvent "nat option"
  | GetRootCertificateEvent bytes bytes "nat option"

text \<open>The four-character identifiers of \<^verbatim>\<open>mbedTLSEvents.h\<close>.\<close>

definition fourcc :: "string \<Rightarrow> ulong" where
  "fourcc cs = foldl (\<lambda>w c. push_bit 8 w OR word_of_nat (of_char c)) 0 cs"

definition kMbedTLSEventClass :: ulong where
  "kMbedTLSEventClass = fourcc ''mTLS''"

fun event_id :: "event \<Rightarrow> ulong" where
  "event_id (HardwarePollEvent _ _) = fourcc ''hpol''"
| "event_id (NVSeedReadEvent _ _) = fourcc ''nvsr''"
| "event_id (NVSeedWriteEvent _ _) = fourcc ''nvsw''"
| "event_id GetGMTDeltaEvent = fourcc ''ggmt''"
| "event_id (GetSerialNumberEvent _ _) = fourcc ''gsrl''"
| "event_id (ListRootCertificatesEvent _) = fourcc ''lcrt''"
| "event_id (GetRootCertificateEvent _ _ _) = fourcc ''gcrt''"

text \<open>The reply of a handler: the word, the buffer and the size in memory after the call.\<close>

type_synonym reply = "ulong \<times> bytes \<times> nat option"

definition hardware_poll_handler :: "newt \<Rightarrow> event \<Rightarrow> (reply \<times> newt) option" where
  "hardware_poll_handler N e =
     (case e of
        HardwarePollEvent buf len \<Rightarrow>
          (let (olen, buf') = HardwarePoll N buf len in Some ((of_nat olen, buf', None), N))
      | _ \<Rightarrow> None)"

definition nv_seed_read_handler :: "newt \<Rightarrow> event \<Rightarrow> (reply \<times> newt) option" where
  "nv_seed_read_handler N e =
     (case e of
        NVSeedReadEvent buf len \<Rightarrow>
          (let (r, buf') = NVSeedRead N buf len in Some ((of_int r, buf', None), N))
      | _ \<Rightarrow> None)"

definition nv_seed_write_handler :: "newt \<Rightarrow> event \<Rightarrow> (reply \<times> newt) option" where
  "nv_seed_write_handler N e =
     (case e of
        NVSeedWriteEvent buf len \<Rightarrow>
          (let (r, N') = NVSeedWrite N buf len in Some ((of_int r, buf, None), N'))
      | _ \<Rightarrow> None)"

definition gmt_delta_handler :: "newt \<Rightarrow> event \<Rightarrow> (reply \<times> newt) option" where
  "gmt_delta_handler N e =
     (case e of
        GetGMTDeltaEvent \<Rightarrow> Some ((of_int (GetGMTDelta N), [], None), N)
      | _ \<Rightarrow> None)"

definition serial_number_handler :: "newt \<Rightarrow> event \<Rightarrow> (reply \<times> newt) option" where
  "serial_number_handler N e =
     (case e of
        GetSerialNumberEvent buf len \<Rightarrow>
          (let (r, buf') = GetSerialNumber_newt N buf in Some ((of_int r, buf', None), N))
      | _ \<Rightarrow> None)"

definition root_certificate_handler :: "newt \<Rightarrow> event \<Rightarrow> (reply \<times> newt) option" where
  "root_certificate_handler N e =
     (case e of
        GetRootCertificateEvent name buf ioLen \<Rightarrow>
          (let (r, buf', io) = GetRootCertificate (cert_soups N) name buf ioLen
           in Some ((of_int r, buf', io), N))
      | _ \<Rightarrow> None)"

definition list_certificates_handler :: "newt \<Rightarrow> event \<Rightarrow> (reply \<times> newt) option" where
  "list_certificates_handler N e =
     (case e of
        ListRootCertificatesEvent ioLen \<Rightarrow>
          (let (r, bs, io) = ListRootCertificates (cert_soups N) ioLen in Some ((of_int r, bs, io), N))
      | _ \<Rightarrow> None)"

text \<open>
  The handlers \<^verbatim>\<open>PMbedTLS::New\<close> creates, each registered by its constructor under an
  identifier of the class. A handler runs on an event with its identifier; it reads the
  event as its own kind, so a handler given another kind of event is \<open>None\<close>.
\<close>

definition registered_handlers :: "(ulong \<times> (newt \<Rightarrow> event \<Rightarrow> (reply \<times> newt) option)) list" where
  "registered_handlers =
     [(fourcc ''hpol'', hardware_poll_handler), (fourcc ''nvsr'', nv_seed_read_handler),
      (fourcc ''nvsw'', nv_seed_write_handler), (fourcc ''ggmt'', gmt_delta_handler),
      (fourcc ''gsrl'', serial_number_handler), (fourcc ''lcrt'', list_certificates_handler),
      (fourcc ''gcrt'', root_certificate_handler)]"

definition dispatch :: "newt \<Rightarrow> event \<Rightarrow> (reply \<times> newt) option" where
  "dispatch N e =
     (case map_of registered_handlers (event_id e) of
        None \<Rightarrow> None
      | Some h \<Rightarrow> h N e)"

section \<open>Bindings\<close>

text \<open>
  Where the caller runs: \<open>in_newt\<close> is \<^verbatim>\<open>IsInNewtTask\<close>, \<open>rpc_error\<close> what \<^verbatim>\<open>SendRPC\<close> on
  the NewtApp port returns (0 when the event was handled).
\<close>

record task =
  in_newt :: bool
  rpc_error :: int

text \<open>
  \<^verbatim>\<open>SendRPCToNewtApp\<close>: the error and, when there is none, the reply; \<open>outResult\<close> is the
  caller's word before the call, kept when the event is not answered.
\<close>

definition SendRPCToNewtApp :: "task \<Rightarrow> newt \<Rightarrow> event \<Rightarrow> int \<times> (reply \<times> newt) option" where
  "SendRPCToNewtApp T N e =
     (if rpc_error T \<noteq> noErr then (rpc_error T, None) else (noErr, dispatch N e))"

definition mbedtls_hardclock_poll :: "bytes \<Rightarrow> bytes \<Rightarrow> nat \<Rightarrow> int \<times> bytes \<times> nat" where
  "mbedtls_hardclock_poll timer output len =
     (if len < 4 then (0, output, 0) else (0, overwrite output 0 timer, 4))"

definition mbedtls_hardware_poll :: "task \<Rightarrow> newt \<Rightarrow> bytes \<Rightarrow> nat \<Rightarrow> int \<times> bytes \<times> nat" where
  "mbedtls_hardware_poll T N output len =
     (if in_newt T then (let (olen, output') = HardwarePoll N output len in (0, output', olen))
      else
        (case SendRPCToNewtApp T N (HardwarePollEvent output len) of
           (theErr, Some ((result, output', _), _)) \<Rightarrow>
             (if theErr \<noteq> 0 then theErr else 0, output', unat result)
         | (theErr, None) \<Rightarrow> (if theErr \<noteq> 0 then theErr else 0, output, 0)))"

definition mbedtls_platform_std_nv_seed_read :: "task \<Rightarrow> newt \<Rightarrow> bytes \<Rightarrow> nat \<Rightarrow> int \<times> bytes" where
  "mbedtls_platform_std_nv_seed_read T N buf buf_len =
     (if in_newt T then (let (r, buf') = NVSeedRead N buf buf_len in (s32 (u32 r), buf'))
      else
        (case SendRPCToNewtApp T N (NVSeedReadEvent buf buf_len) of
           (theErr, Some ((result, buf', _), _)) \<Rightarrow>
             (if theErr \<noteq> 0 then s32 (u32 theErr) else s32 (uint result), buf')
         | (theErr, None) \<Rightarrow> (if theErr \<noteq> 0 then s32 (u32 theErr) else 0, buf)))"

definition mbedtls_platform_std_nv_seed_write :: "task \<Rightarrow> newt \<Rightarrow> bytes \<Rightarrow> nat \<Rightarrow> int \<times> newt" where
  "mbedtls_platform_std_nv_seed_write T N buf buf_len =
     (if in_newt T then (let (r, N') = NVSeedWrite N buf buf_len in (s32 (u32 r), N'))
      else
        (case SendRPCToNewtApp T N (NVSeedWriteEvent buf buf_len) of
           (theErr, Some ((result, _), N')) \<Rightarrow>
             (if theErr \<noteq> 0 then s32 (u32 theErr) else s32 (uint result), N')
         | (theErr, None) \<Rightarrow> (if theErr \<noteq> 0 then s32 (u32 theErr) else 0, N)))"

definition mbedtls_platform_zeroize :: "bytes \<Rightarrow> nat \<Rightarrow> bytes" where
  "mbedtls_platform_zeroize buf len =
     (if len > 0 then overwrite buf 0 (replicate len 0) else buf)"

text \<open>
  In the three bindings for the connection end the result variable is not initialised: its
  value when the event is not answered is the parameter \<open>stack_long\<close>.
\<close>

definition GetSerialNumber :: "task \<Rightarrow> newt \<Rightarrow> bytes \<Rightarrow> int \<times> bytes" where
  "GetSerialNumber T N outSerial =
     (if in_newt T then GetSerialNumber_newt N outSerial
      else
        (case SendRPCToNewtApp T N (GetSerialNumberEvent outSerial SERIAL_NUMBER_LEN) of
           (theErr, Some ((result, buf', _), _)) \<Rightarrow>
             (if theErr \<noteq> 0 then theErr else s32 (uint result), buf')
         | (theErr, None) \<Rightarrow> (if theErr \<noteq> 0 then theErr else stack_long N, outSerial)))"

definition ListRootCertificates_task :: "task \<Rightarrow> newt \<Rightarrow> nat option \<Rightarrow> int \<times> bytes \<times> nat option" where
  "ListRootCertificates_task T N dest =
     (if in_newt T then ListRootCertificates (cert_soups N) dest
      else
        (case SendRPCToNewtApp T N (ListRootCertificatesEvent dest) of
           (theErr, Some ((result, bs, io), _)) \<Rightarrow>
             (if theErr \<noteq> 0 then theErr else s32 (uint result), bs, io)
         | (theErr, None) \<Rightarrow> (if theErr \<noteq> 0 then theErr else stack_long N, [], dest)))"

definition GetRootCertificate_task ::
    "task \<Rightarrow> newt \<Rightarrow> bytes \<Rightarrow> bytes \<Rightarrow> nat option \<Rightarrow> int \<times> bytes \<times> nat option" where
  "GetRootCertificate_task T N name outBuf ioSize =
     (if in_newt T then GetRootCertificate (cert_soups N) name outBuf ioSize
      else
        (case SendRPCToNewtApp T N (GetRootCertificateEvent name outBuf ioSize) of
           (theErr, Some ((result, buf', io), _)) \<Rightarrow>
             (if theErr \<noteq> 0 then theErr else s32 (uint result), buf', io)
         | (theErr, None) \<Rightarrow> (if theErr \<noteq> 0 then theErr else stack_long N, outBuf, ioSize)))"

section \<open>The runtime library\<close>

text \<open>
  \<^verbatim>\<open>calloc\<close>: the product of the two sizes is a 32-bit \<^verbatim>\<open>size_t\<close>; \<open>mem_error\<close> is
  \<^verbatim>\<open>MemError\<close> after the allocation, whose block (all zero) is the result.
\<close>

definition calloc :: "(ulong \<Rightarrow> int) \<Rightarrow> ulong \<Rightarrow> ulong \<Rightarrow> bytes option" where
  "calloc mem_error cnt sz =
     (let total_size = cnt * sz
      in if mem_error total_size = noErr then Some (replicate (unat total_size) 0) else None)"

definition time_of_clock :: "int \<Rightarrow> int option \<Rightarrow> int \<times> int option" where
  "time_of_clock RealClockSeconds timer =
     (RealClockSeconds, (case timer of None \<Rightarrow> None | Some _ \<Rightarrow> Some RealClockSeconds))"

section \<open>Facts about the bindings\<close>

lemma s32_uint_of_int [simp]: "s32 (uint (of_int r :: ulong)) = s32 r"
  by (simp add: s32_def uint_word_of_int mod_simps)

lemma s32_u32 [simp]: "s32 (u32 r) = s32 r"
  by (simp add: s32_def u32_def mod_simps)

lemma u32_s32 [simp]: "u32 (s32 r) = u32 r"
  by (simp add: s32_def u32_def mod_simps)

lemma event_ids_distinct: "distinct (List.map fst registered_handlers)"
  by (simp add: registered_handlers_def fourcc_def)

text \<open>The identifiers are pairwise different, so each event reaches the handler of its kind.\<close>

lemma dispatch_simps [simp]:
  "dispatch N (HardwarePollEvent b l) = hardware_poll_handler N (HardwarePollEvent b l)"
  "dispatch N (NVSeedReadEvent b l) = nv_seed_read_handler N (NVSeedReadEvent b l)"
  "dispatch N (NVSeedWriteEvent b l) = nv_seed_write_handler N (NVSeedWriteEvent b l)"
  "dispatch N GetGMTDeltaEvent = gmt_delta_handler N GetGMTDeltaEvent"
  "dispatch N (GetSerialNumberEvent b l) = serial_number_handler N (GetSerialNumberEvent b l)"
  "dispatch N (ListRootCertificatesEvent i) = list_certificates_handler N (ListRootCertificatesEvent i)"
  "dispatch N (GetRootCertificateEvent n b i) = root_certificate_handler N (GetRootCertificateEvent n b i)"
  by (simp_all add: dispatch_def registered_handlers_def fourcc_def)

lemma HardwarePoll_le: "fst (HardwarePoll N out len) \<le> len"
  by (simp add: HardwarePoll_def Let_def split: option.split)

lemma unat_of_nat_fit: "n < 2 ^ 32 \<Longrightarrow> unat (of_nat n :: ulong) = n"
  by (simp add: unat_of_nat take_bit_nat_eq_self)

lemma s32_of_nat_fit [simp]: "n < 2 ^ 31 \<Longrightarrow> s32 (uint (of_nat n :: ulong)) = int n"
  using s32_uint_of_int [of "int n"] by simp

text \<open>A NewtApp world and the two places a caller can be in, for the examples.\<close>

definition demo_newt :: newt where
  "demo_newt = \<lparr>entropy_data = (\<lambda>_. Some [1, 2, 3]), nv_seed = None, user_gmt = None,
     rom_serial = Inr [], cert_soups = demo_soups, stack_long = 7\<rparr>"

definition other_task :: task where
  "other_task = \<lparr>in_newt = False, rpc_error = 0\<rparr>"

definition newt_task :: task where
  "newt_task = \<lparr>in_newt = True, rpc_error = 0\<rparr>"

lemma demo_newt_simps [simp]:
  "entropy_data demo_newt n = Some [1, 2, 3]" "cert_soups demo_newt = demo_soups"
  "rpc_error other_task = 0" "rpc_error newt_task = 0"
  "other_task\<lparr>in_newt := True\<rparr> = newt_task" "other_task\<lparr>in_newt := False\<rparr> = other_task"
  by (simp_all add: demo_newt_def other_task_def newt_task_def)

lemmas service_defs = HardwarePoll_def NVSeedRead_def NVSeedWrite_def GetSerialNumber_newt_def

lemmas handler_proc_defs = hardware_poll_handler_def nv_seed_read_handler_def
  nv_seed_write_handler_def gmt_delta_handler_def serial_number_handler_def
  root_certificate_handler_def list_certificates_handler_def

lemmas binding_defs = mbedtls_hardware_poll_def mbedtls_platform_std_nv_seed_read_def
  mbedtls_platform_std_nv_seed_write_def GetSerialNumber_def ListRootCertificates_task_def
  GetRootCertificate_task_def SendRPCToNewtApp_def

text \<open>
  C14. Transparency of the task switch: when the event is answered, each binding called from
  another task gives what it gives in the NewtApp task (a signed result is read back from
  the 32-bit reply), with the same buffer, size and stored seed after it.
\<close>

theorem bindings_transparent:
  assumes "rpc_error T = noErr" and "len < 2 ^ 32"
  defines "A \<equiv> T\<lparr>in_newt := False\<rparr>" and "B \<equiv> T\<lparr>in_newt := True\<rparr>"
  shows "mbedtls_hardware_poll A N buf len = mbedtls_hardware_poll B N buf len
    \<and> mbedtls_platform_std_nv_seed_read A N buf len = mbedtls_platform_std_nv_seed_read B N buf len
    \<and> mbedtls_platform_std_nv_seed_write A N buf len = mbedtls_platform_std_nv_seed_write B N buf len
    \<and> GetSerialNumber A N buf = apfst s32 (GetSerialNumber B N buf)
    \<and> ListRootCertificates_task A N io = apfst s32 (ListRootCertificates_task B N io)
    \<and> GetRootCertificate_task A N name buf io = apfst s32 (GetRootCertificate_task B N name buf io)"
proof -
  have "unat (of_nat (fst (HardwarePoll N buf len)) :: ulong) = fst (HardwarePoll N buf len)"
    using HardwarePoll_le [of N buf len] assms(2) by (intro unat_of_nat_fit) simp
  then show ?thesis
    using assms(1) by (simp add: A_def B_def binding_defs handler_proc_defs split_beta Let_def apfst_def map_prod_def)
qed

theorem bindings_transparent_witness:
  "GetRootCertificate_task other_task demo_newt (tag_chars [65]) [0, 0, 0, 0] (Some 4)
    = apfst s32 (GetRootCertificate_task newt_task demo_newt (tag_chars [65]) [0, 0, 0, 0] (Some 4))"
  using bindings_transparent [of other_task 4 demo_newt "[0, 0, 0, 0]" "Some 4" "tag_chars [65]"]
  by simp

text \<open>
  The entropy source keeps to its buffer: it reports at most the length asked for, the
  reported bytes are the collector's and the rest of the buffer is untouched.
\<close>

theorem hardware_poll_bounded:
  assumes "len \<le> length buf" and "len < 2 ^ 32" and "rpc_error T = noErr"
    and "entropy_data N len = Some d"
  shows "case mbedtls_hardware_poll T N buf len of (r, buf', olen) \<Rightarrow>
     r = 0 \<and> olen = min len (length d) \<and> take olen buf' = take olen d
     \<and> drop olen buf' = drop olen buf \<and> length buf' = length buf"
proof -
  have "HardwarePoll N buf len = (min len (length d), overwrite buf 0 (take len d))"
    using assms(4) by (simp add: HardwarePoll_def Let_def min_def)
  moreover have "unat (of_nat (min len (length d)) :: ulong) = min len (length d)"
    using assms(2) by (intro unat_of_nat_fit) simp
  ultimately have "mbedtls_hardware_poll T N buf len
      = (0, overwrite buf 0 (take len d), min len (length d))"
    using assms(3) by (simp add: binding_defs handler_proc_defs)
  then show ?thesis
    using assms(1) by (auto simp: overwrite_def min_def)
qed

theorem hardware_poll_bounded_witness:
  "case mbedtls_hardware_poll other_task demo_newt [0, 0, 0, 0] 2 of (r, buf', olen) \<Rightarrow>
     r = 0 \<and> olen = 2 \<and> length buf' = 4"
  using hardware_poll_bounded [of 2 "[0, 0, 0, 0]" other_task demo_newt "[1, 2, 3]"]
  by (auto simp: split_beta)

text \<open>
  The stored seed comes back: a seed written from either task and then read into a
  buffer of the same size, from either task, is the seed written, with its length.
\<close>

theorem nv_seed_roundtrip:
  assumes "rpc_error T = noErr" and "rpc_error T' = noErr" and "length seed < 2 ^ 31"
    and "length buf = length seed"
  shows "case mbedtls_platform_std_nv_seed_write T N seed (length seed) of (r, N') \<Rightarrow>
     r = int (length seed)
     \<and> mbedtls_platform_std_nv_seed_read T' N' buf (length seed) = (int (length seed), seed)"
proof -
  have "mbedtls_platform_std_nv_seed_write T N seed (length seed)
      = (int (length seed), N\<lparr>nv_seed := Some seed\<rparr>)"
    using assms(1,3) by (simp add: binding_defs handler_proc_defs NVSeedWrite_def)
  moreover have "NVSeedRead (N\<lparr>nv_seed := Some seed\<rparr>) buf (length seed) = (int (length seed), seed)"
    using assms(4) by (simp add: NVSeedRead_def overwrite_all)
  ultimately show ?thesis
    using assms(2,3) by (simp add: binding_defs handler_proc_defs)
qed

theorem nv_seed_roundtrip_witness:
  "mbedtls_platform_std_nv_seed_read newt_task
     (snd (mbedtls_platform_std_nv_seed_write other_task demo_newt [9, 8] 2)) [0, 0] 2 = (2, [9, 8])"
  using nv_seed_roundtrip [of other_task newt_task "[9, 8]" "[0, 0]" demo_newt]
  by (simp add: split_beta flip: numeral_2_eq_2)

text \<open>
  \<open>calloc\<close> does not check its multiplication: when the two sizes multiply past 32 bits
  and the allocation succeeds, the block is shorter than the caller asked for.
\<close>

theorem calloc_overflow_short:
  assumes "unat cnt * unat sz \<ge> 2 ^ 32" and "calloc mem_error cnt sz = Some block"
  shows "length block < unat cnt * unat sz"
proof -
  have "length block = unat (cnt * sz)"
    using assms(2) by (auto simp: calloc_def Let_def split: if_splits)
  also have "\<dots> < 2 ^ 32"
    using unsigned_less [of "cnt * sz"] by simp
  finally show ?thesis
    using assms(1) by simp
qed

theorem calloc_overflow_short_witness:
  "length (the (calloc (\<lambda>_. 0) 65536 65536)) < unat (65536 :: ulong) * unat (65536 :: ulong)"
  by (rule calloc_overflow_short [of 65536 65536 "\<lambda>_. 0"]) (simp_all add: calloc_def)

end
