(* ===== verification/Calendar.thy ===== *)
theory Calendar
  imports Newton_Prelude
begin

text \<open>
  The date arithmetic of \<^verbatim>\<open>Protocol/NewtonBindings.cpp\<close>: the civil-date half of
  \<^verbatim>\<open>mbedtls_platform_gmtime_r\<close> (the certificate clock of mbed TLS) and
  \<^verbatim>\<open>TimeToLocal1904Minutes\<close> (the NewtonScript date of a certificate field). The
  specification is the calendar's own rule, \<open>next_day\<close>, iterated from a known date.
\<close>

section \<open>The code's conversions\<close>

text \<open>The fields of \<^verbatim>\<open>struct tm\<close> that the code fills in.\<close>

record tm =
  tm_sec :: int
  tm_min :: int
  tm_hour :: int
  tm_mday :: int
  tm_mon :: int
  tm_year :: int
  tm_wday :: int
  tm_yday :: int

definition NEWTON_EPOCH_DELTA :: int where
  "NEWTON_EPOCH_DELTA = 2082841761"

text \<open>
  The conversion of a number of days since 1970-01-01 to year, month (0 to 11), day and
  the code's \<open>doy\<close>. Unsigned intermediate values carry their \<open>u32\<close>; \<open>era\<close> is C's
  truncating division with the code's guard for negative days.
\<close>

definition civil_of_day :: "int \<Rightarrow> int \<times> int \<times> int \<times> int" where
  "civil_of_day gmt_day =
     (let gmt_shift = gmt_day + 719468;
          era = c_div (if gmt_shift \<ge> 0 then gmt_shift else gmt_shift - 146096) 146097;
          doe = u32 (gmt_shift - era * 146097);
          yoe = u32 (doe - doe div 1460 + doe div 36524 - doe div 146096) div 365;
          y = yoe + era * 400;
          doy = u32 (doe - u32 (365 * yoe + yoe div 4 - yoe div 100));
          mp = u32 (5 * doy + 2) div 153;
          d = u32 (doy - u32 (153 * mp + 2) div 5 + 1);
          m = u32 (mp + (if mp < 10 then 2 else u32 (- 10)));
          civil_y = u32 (y + (if m \<le> 1 then 1 else 0))
      in (civil_y, m, d, doy))"

definition gmtime_convert :: "int \<Rightarrow> int \<Rightarrow> tm" where
  "gmtime_convert tt gmtdelta =
     (let gmt_sec = u32 (tt - gmtdelta - NEWTON_EPOCH_DELTA);
          gmt_min = gmt_sec div 60;
          gmt_hour = gmt_min div 60;
          gmt_day = gmt_hour div 24;
          (civil_y, m, d, doy) = civil_of_day gmt_day;
          wday = u32 (if gmt_day \<ge> - 4 then (gmt_day + 4) mod 7 else (gmt_day + 5) mod 7 + 6)
      in \<lparr>tm_sec = gmt_sec mod 60, tm_min = gmt_min mod 60, tm_hour = gmt_hour mod 24,
          tm_mday = d, tm_mon = m, tm_year = civil_y - 1900, tm_wday = wday, tm_yday = doy\<rparr>)"

text \<open>The date fields of \<^verbatim>\<open>mbedtls_x509_time\<close> that the code reads.\<close>

record x509_time =
  x_year :: int
  x_mon :: int
  x_day :: int

definition NEWTON_000301_DELTA_DAYS :: int where
  "NEWTON_000301_DELTA_DAYS = 695361"

definition days000301 :: "int \<Rightarrow> int \<Rightarrow> int \<Rightarrow> int" where
  "days000301 year m d =
     (let y = year - (if m \<le> 2 then 1 else 0);
          era = c_div (if y \<ge> 0 then y else y - 399) 400;
          yoe = u32 (y - era * 400);
          doy = u32 (c_div (153 * (m + (if m > 2 then - 3 else 9)) + 2) 5 + d - 1);
          doe = u32 (yoe * 365 + yoe div 4 - yoe div 100 + doy)
      in era * 146097 + doe)"

definition TimeToLocal1904Minutes :: "x509_time \<Rightarrow> int" where
  "TimeToLocal1904Minutes t =
     s32 ((days000301 (x_year t) (x_mon t) (x_day t) - NEWTON_000301_DELTA_DAYS) * 1440)"

section \<open>The Gregorian calendar\<close>

definition leap :: "int \<Rightarrow> bool" where
  "leap y \<longleftrightarrow> y mod 4 = 0 \<and> (y mod 100 \<noteq> 0 \<or> y mod 400 = 0)"

definition month_length :: "int \<Rightarrow> int \<Rightarrow> int" where
  "month_length y m =
     (if m = 2 then (if leap y then 29 else 28)
      else if m \<in> {4, 6, 9, 11} then 30 else 31)"

definition valid_date :: "int \<times> int \<times> int \<Rightarrow> bool" where
  "valid_date = (\<lambda>(y, m, d). 1 \<le> m \<and> m \<le> 12 \<and> 1 \<le> d \<and> d \<le> month_length y m)"

definition next_day :: "int \<times> int \<times> int \<Rightarrow> int \<times> int \<times> int" where
  "next_day = (\<lambda>(y, m, d).
     if d < month_length y m then (y, m, d + 1)
     else if m < 12 then (y, m + 1, 1) else (y + 1, 1, 1))"

lemma month_length_range: "28 \<le> month_length y m \<and> month_length y m \<le> 31"
  by (simp add: month_length_def)

lemma valid_next_day: "valid_date p \<Longrightarrow> valid_date (next_day p)"
  by (auto simp: valid_date_def next_day_def month_length_def split: prod.splits if_splits)

section \<open>The closed form of the day number\<close>

definition day_number :: "int \<Rightarrow> int \<Rightarrow> int \<Rightarrow> int" where
  "day_number z mp d = 365 * z + z div 4 - z div 100 + z div 400 + (153 * mp + 2) div 5 + d - 1"

lemma divs_400:
  fixes e r :: int
  shows "(400 * e + r) div 4 = 100 * e + r div 4" "(400 * e + r) div 100 = 4 * e + r div 100"
    "0 \<le> r \<Longrightarrow> r < 400 \<Longrightarrow> (400 * e + r) div 400 = e"
proof -
  have "400 * e + r = r + 4 * (100 * e)" "400 * e + r = r + 100 * (4 * e)" by simp_all
  then show "(400 * e + r) div 4 = 100 * e + r div 4" "(400 * e + r) div 100 = 4 * e + r div 100"
    by (simp_all only: div_mult_self2)
  show "0 \<le> r \<Longrightarrow> r < 400 \<Longrightarrow> (400 * e + r) div 400 = e" by simp
qed

definition shift_month :: "int \<Rightarrow> int" where
  "shift_month m = m + (if m > 2 then - 3 else 9)"

lemma days000301_eq:
  assumes "0 \<le> z" "z = y - (if m \<le> 2 then 1 else 0)" "1 \<le> m" "m \<le> 12" "1 \<le> d" "d \<le> 31"
  shows "days000301 y m d = day_number z (shift_month m) d"
proof -
  define e where "e = z div 400"
  define r where "r = z mod 400"
  have zr: "z = 400 * e + r" "0 \<le> r" "r < 400" by (auto simp: e_def r_def)
  define k where "k = 153 * shift_month m + 2"
  have k: "2 \<le> k" "k \<le> 1685" using assms by (auto simp: k_def shift_month_def)
  define q where "q = k div 5"
  have q: "0 \<le> q" "q \<le> 337" using k by (auto simp: q_def)
  have u1: "u32 (z - e * 400) = r" using zr by (subst u32_id) auto
  have u2: "u32 (q + d - 1) = q + d - 1" using q assms by (intro u32_id) auto
  define a where "a = r * 365 + r div 4 - r div 100"
  have a: "0 \<le> a" "a < 200000" using zr by (auto simp: a_def)
  have u3: "u32 (a + (q + d - 1)) = a + (q + d - 1)"
    using q a assms by (intro u32_id) auto
  have "days000301 y m d = e * 146097 + (a + (q + d - 1))"
    using assms(1) k unfolding days000301_def Let_def assms(2)[symmetric] shift_month_def[symmetric] k_def[symmetric] 
    by (simp add: e_def[symmetric] u1 q_def[symmetric] u2 a_def[symmetric] u3)
  also have "\<dots> = day_number z (shift_month m) d"
    using zr by (simp add: day_number_def a_def q_def k_def divs_400)
  finally show ?thesis .
qed

definition dn :: "int \<times> int \<times> int \<Rightarrow> int" where
  "dn = (\<lambda>(y, m, d). day_number (y - (if m \<le> 2 then 1 else 0)) (shift_month m) d)"

lemma div_pred_gen:
  fixes y k :: int
  assumes "0 < k"
  shows "y div k = (y - 1) div k + (if y mod k = 0 then 1 else 0)"
proof (cases "y mod k = 0")
  case True
  have "(y - 1) div k = y div k - 1"
    by (rule int_div_pos_eq [of _ _ _ "k - 1"])
      (use assms True div_mult_mod_eq [of y k] in \<open>simp_all add: algebra_simps\<close>)
  with True show ?thesis by simp
next
  case False
  have "(y - 1) div k = y div k"
    by (rule int_div_pos_eq [of _ _ _ "y mod k - 1"])
      (use assms False div_mult_mod_eq [of y k] pos_mod_sign [OF assms, of y] pos_mod_bound [OF assms, of y]
        in \<open>auto simp: algebra_simps\<close>)
  with False show ?thesis by simp
qed

lemma div_pred:
  fixes y :: int
  shows "y div 4 = (y - 1) div 4 + (if y mod 4 = 0 then 1 else 0)"
    "y div 100 = (y - 1) div 100 + (if y mod 100 = 0 then 1 else 0)"
    "y div 400 = (y - 1) div 400 + (if y mod 400 = 0 then 1 else 0)"
  by (rule div_pred_gen, simp)+

lemma leap_days:
  "(if y mod 4 = 0 then 1 else 0) - (if y mod 100 = 0 then 1 else 0)
     + (if y mod 400 = 0 then 1 else 0) = (if leap y then 1 else (0::int))"
proof -
  have "y mod 100 = 0 \<Longrightarrow> y mod 4 = 0" "y mod 400 = 0 \<Longrightarrow> y mod 100 = 0"
    by (auto simp: mod_eq_0_iff_dvd elim!: dvd_trans [rotated])
  then show ?thesis
    by (cases "y mod 400 = 0"; cases "y mod 100 = 0"; cases "y mod 4 = 0") (simp_all add: leap_def)
qed

lemma march_year_length:
  "day_number y 0 1 = day_number (y - 1) 11 (if leap y then 29 else 28) + 1"
proof -
  have sum: "\<And>A B C A' B' C' i j k x :: int. A = A' + i \<Longrightarrow> B = B' + j \<Longrightarrow> C = C' + k \<Longrightarrow> i - j + k = x
    \<Longrightarrow> 365 * y + A - B + C = 365 * (y - 1) + A' - B' + C' + 365 + x"
    by (simp add: algebra_simps)
  have "365 * y + y div 4 - y div 100 + y div 400 =
    365 * (y - 1) + (y - 1) div 4 - (y - 1) div 100 + (y - 1) div 400 + 365 + (if leap y then 1 else 0)"
    by (rule sum [OF div_pred leap_days])
  then show ?thesis by (simp add: day_number_def)
qed

lemma month_cases:
  fixes m :: int
  assumes "1 \<le> m" "m \<le> 12"
  obtains "m = 1" | "m = 2" | "m = 3" | "m = 4" | "m = 5" | "m = 6"
    | "m = 7" | "m = 8" | "m = 9" | "m = 10" | "m = 11" | "m = 12"
proof -
  have "m = 1 \<or> m = 2 \<or> m = 3 \<or> m = 4 \<or> m = 5 \<or> m = 6 \<or> m = 7 \<or> m = 8 \<or> m = 9 \<or> m = 10 \<or> m = 11 \<or> m = 12"
    using assms by presburger
  then show thesis using that by blast
qed

lemma dn_next_day: "valid_date p \<Longrightarrow> dn (next_day p) = dn p + 1"
proof (cases p)
  case (fields y m d)
  assume "valid_date p"
  with fields have v: "1 \<le> m" "m \<le> 12" "1 \<le> d" "d \<le> month_length y m"
    by (auto simp: valid_date_def)
  show ?thesis
  proof (cases "d < month_length y m")
    case True
    then show ?thesis using fields by (simp add: next_day_def dn_def day_number_def)
  next
    case False
    with v have d: "d = month_length y m" by simp
    show ?thesis
      using v(1,2) by (cases rule: month_cases)
        (use d fields in \<open>auto simp: next_day_def dn_def shift_month_def month_length_def march_year_length\<close>;
         simp add: day_number_def)+
  qed
qed

lemma valid_prev_day:
  assumes "valid_date (y, m, d)" "Y \<le> y" "(y, m, d) \<noteq> (Y, 1, 1)"
  obtains y' m' d' where "valid_date (y', m', d')" "Y \<le> y'" "next_day (y', m', d') = (y, m, d)"
proof (cases "1 < d")
  case True
  with assms show ?thesis
    by (intro that [of y m "d - 1"]) (auto simp: valid_date_def next_day_def)
next
  case False
  with assms(1) have d: "d = 1" by (auto simp: valid_date_def)
  show ?thesis
  proof (cases "1 < m")
    case True
    with assms d show ?thesis
      by (intro that [of y "m - 1" "month_length y (m - 1)"])
        (use month_length_range [of y "m - 1"] in \<open>auto simp: valid_date_def next_day_def\<close>)
  next
    case False
    with assms(1) have "m = 1" by (auto simp: valid_date_def)
    with assms d show ?thesis
      by (intro that [of "y - 1" 12 31]) (auto simp: valid_date_def next_day_def month_length_def)
  qed
qed

lemma dn_nonneg: "valid_date (y, m, d) \<Longrightarrow> 1 \<le> y \<Longrightarrow> 0 \<le> dn (y, m, d)"
proof -
  assume a: "valid_date (y, m, d)" "1 \<le> y"
  define z where "z = y - (if m \<le> 2 then 1 else 0)"
  have "0 \<le> z" "0 \<le> shift_month m" "1 \<le> d" using a by (auto simp: z_def shift_month_def valid_date_def)
  moreover have "z div 100 \<le> z" "0 \<le> z div 4" "0 \<le> z div 400"
    using \<open>0 \<le> z\<close> div_mult_mod_eq [of z 100] pos_mod_sign [of 100 z] pos_imp_zdiv_nonneg_iff [of 100 z]
    by (linarith, simp, simp)
  moreover have "0 \<le> (153 * shift_month m + 2) div 5" using calculation by simp
  ultimately show ?thesis
    unfolding dn_def prod.case z_def [symmetric] day_number_def by linarith
qed

lemma dn_iterate: "valid_date p \<Longrightarrow> valid_date ((next_day ^^ n) p) \<and> dn ((next_day ^^ n) p) = dn p + int n"
  by (induction n) (auto simp: valid_next_day dn_next_day)

lemma valid_date_reached:
  assumes "1 \<le> Y"
  shows "valid_date (y, m, d) \<Longrightarrow> Y \<le> y \<Longrightarrow> \<exists>n. (y, m, d) = (next_day ^^ n) (Y, 1, 1)"
proof (induction "nat (dn (y, m, d))" arbitrary: y m d rule: less_induct)
  case less
  show ?case
  proof (cases "(y, m, d) = (Y, 1, 1)")
    case True
    then show ?thesis by (intro exI [of _ 0]) simp
  next
    case False
    with less.prems obtain y' m' d' where p: "valid_date (y', m', d')" "Y \<le> y'"
      and n: "next_day (y', m', d') = (y, m, d)"
      by (rule valid_prev_day)
    have "nat (dn (y', m', d')) < nat (dn (y, m, d))"
      using dn_next_day [OF p(1)] dn_nonneg [OF p(1)] p(2) assms unfolding n by simp
    with less.hyps p obtain k where "(y', m', d') = (next_day ^^ k) (Y, 1, 1)" by blast
    with n show ?thesis by (intro exI [of _ "Suc k"]) simp
  qed
qed

lemma date_by_number:
  assumes "valid_date (y, m, d)" "1 \<le> y" "valid_date (Y, M, D)" "1 \<le> Y"
    and "dn (y, m, d) = dn (Y, M, D) + int n"
  shows "(y, m, d) = (next_day ^^ n) (Y, M, D)"
proof -
  obtain k K where k: "(y, m, d) = (next_day ^^ k) (1, 1, 1)" and K: "(Y, M, D) = (next_day ^^ K) (1, 1, 1)"
    using valid_date_reached [of 1] assms by blast
  have "valid_date (1, 1, 1)" by (simp add: valid_date_def month_length_def)
  from dn_iterate [OF this] assms(5) have "k = n + K" unfolding k K by simp
  with k K show ?thesis by (simp add: funpow_add)
qed

lemma year_of_century:
  fixes c r :: int
  assumes c: "0 \<le> c" "c \<le> 3" and r: "0 \<le> r" "r < 36524"
  defines "s \<equiv> (r - (r + 24 * c) div 1460) div 365"
  shows "0 \<le> s \<and> s \<le> 99 \<and> 365 * s + s div 4 \<le> r
    \<and> r < 365 * (s + 1) + (s + 1) div 4 - (if s = 99 then 1 else 0)"
proof -
  define q where "q = r div 1461"
  define t where "t = r mod 1461"
  have rq: "r = 1461 * q + t" and t: "0 \<le> t" "t < 1461" by (auto simp: q_def t_def)
  with r have q: "0 \<le> q" "q \<le> 24" by auto
  define w :: int where "w = (q + t + 24 * c) div 1460"
  have w: "0 \<le> w" "w \<le> 1" using c q t by (auto simp: w_def)
  have "(r + 24 * c) div 1460 = (q + t + 24 * c + 1460 * q) div 1460" by (simp add: rq)
  also have "\<dots> = q + w" by (simp add: w_def)
  finally have num: "r - (r + 24 * c) div 1460 = (t - w) + 365 * (4 * q)" by (simp add: rq)
  define u where "u = (t - w) div 365"
  have s: "s = 4 * q + u" unfolding s_def num u_def by (simp only: div_mult_self2)
  have big: "1364 \<le> t \<or> w = 0" using c q t by (auto simp: w_def)
  have t1460: "t = 1460 \<Longrightarrow> w = 1" using c q by (auto simp: w_def)
  have v: "0 \<le> t - w" "t - w < 1460" using big t t1460 w by linarith+
  have u: "0 \<le> u" "u \<le> 3" "365 * u \<le> t - w" "t - w < 365 * (u + 1)"
    using v by (auto simp: u_def)
  have u3: "u < 3 \<Longrightarrow> t < 365 * (u + 1)" using u big w by (cases "w = 0") auto
  have d4: "s div 4 = q" using u by (simp add: s)
  have d4': "(s + 1) div 4 = (if u = 3 then q + 1 else q)" using u by (auto simp: s)
  have last: "s = 99 \<longleftrightarrow> q = 24 \<and> u = 3" using q u(1,2) unfolding s by presburger
  show ?thesis
    using d4 d4' last s u u3 w q t rq r by (auto split: if_splits)
qed
lemma year_of_era:
  fixes doe :: int
  assumes doe: "0 \<le> doe" "doe < 146097"
  defines "yoe \<equiv> (doe - doe div 1460 + doe div 36524 - doe div 146096) div 365"
  shows "0 \<le> yoe \<and> yoe \<le> 399 \<and> 365 * yoe + yoe div 4 - yoe div 100 \<le> doe
    \<and> doe < 365 * (yoe + 1) + (yoe + 1) div 4 - (yoe + 1) div 100 + (if yoe = 399 then 1 else 0)"
proof (cases "doe = 146096")
  case True
  then show ?thesis by (simp add: yoe_def)
next
  case False
  define c where "c = doe div 36524"
  define r where "r = doe mod 36524"
  have dr: "doe = 36524 * c + r" and r: "0 \<le> r" "r < 36524" by (auto simp: c_def r_def)
  with doe False have c: "0 \<le> c" "c \<le> 3" by auto
  define s where "s = (r - (r + 24 * c) div 1460) div 365"
  have s: "0 \<le> s" "s \<le> 99" "365 * s + s div 4 \<le> r"
    "r < 365 * (s + 1) + (s + 1) div 4 - (if s = 99 then 1 else 0)"
    using year_of_century [OF c r] unfolding s_def by auto
  have d1: "doe div 1460 = 25 * c + (r + 24 * c) div 1460"
  proof -
    have "doe = (r + 24 * c) + 1460 * (25 * c)" by (simp add: dr)
    then show ?thesis by (simp only: div_mult_self2)
  qed
  have d2: "doe div 146096 = 0" using doe False by auto
  have "doe - doe div 1460 + doe div 36524 - doe div 146096 =
      (r - (r + 24 * c) div 1460) + 365 * (100 * c)"
    unfolding d1 d2 c_def [symmetric] by (simp add: dr)
  then have y: "yoe = 100 * c + s"
    unfolding yoe_def s_def by (simp only: div_mult_self2)
  have y4: "yoe div 4 = 25 * c + s div 4" "(yoe + 1) div 4 = 25 * c + (s + 1) div 4"
  proof -
    have "yoe = s + 4 * (25 * c)" "yoe + 1 = (s + 1) + 4 * (25 * c)" by (simp_all add: y)
    then show "yoe div 4 = 25 * c + s div 4" "(yoe + 1) div 4 = 25 * c + (s + 1) div 4"
      by (simp_all only: div_mult_self2)
  qed
  have y100: "yoe div 100 = c" "(yoe + 1) div 100 = (if s = 99 then c + 1 else c)"
    using s(1,2) by (auto simp: y)
  have e: "yoe = 399 \<longleftrightarrow> c = 3 \<and> s = 99" using c s(1,2) unfolding y by presburger
  show ?thesis
    using s c unfolding y4 y100 dr e by (cases "s = 99") (auto simp: y)
qed

text \<open>The months of the March-based year: the code's \<open>(5 doy + 2) / 153\<close>.\<close>

lemma month_of_doy:
  fixes doy :: int
  assumes "0 \<le> doy" "doy \<le> 365"
  defines "mp \<equiv> (5 * doy + 2) div 153"
  shows "0 \<le> mp \<and> mp \<le> 11 \<and> (153 * mp + 2) div 5 \<le> doy
    \<and> doy < (if mp = 11 then 366 else (153 * (mp + 1) + 2) div 5)"
  using assms(1,2) unfolding mp_def by auto
lemma year_step:
  fixes w :: int
  assumes "0 \<le> w" "w \<le> 399"
  shows "(w + 1) div 4 - w div 4 - ((w + 1) div 100 - w div 100) + (if w = 399 then 1 else 0)
    = (if leap (w + 1) then 1 else 0)"
proof -
  have "(w + 1) mod 400 = 0 \<longleftrightarrow> w = 399"
    using assms by (cases "w = 399") auto
  then have i: "(if (w + 1) mod 400 = 0 then 1 else 0) = (if w = 399 then 1 else (0::int))" by simp
  have "\<And>A B A' B' i j k x :: int. A = A' + i \<Longrightarrow> B = B' + j \<Longrightarrow> i - j + k = x
    \<Longrightarrow> A - A' - (B - B') + k = x"
    by simp
  from this [OF div_pred(1,2) leap_days, of "w + 1"] show ?thesis
    unfolding i add_diff_cancel_right' .
qed

text \<open>The civil date of the code, in the form the calendar's rule needs.\<close>

lemma civil_of_day_eq:
  assumes g: "0 \<le> g" "g < 100000000"
  defines "z \<equiv> g + 719468"
  defines "e \<equiv> z div 146097"
  defines "doe \<equiv> z mod 146097"
  defines "yoe \<equiv> (doe - doe div 1460 + doe div 36524 - doe div 146096) div 365"
  defines "doy \<equiv> doe - (365 * yoe + yoe div 4 - yoe div 100)"
  defines "mp \<equiv> (5 * doy + 2) div 153"
  shows "civil_of_day g =
    (yoe + e * 400 + (if mp < 10 then 0 else 1), if mp < 10 then mp + 2 else mp - 10,
     doy - (153 * mp + 2) div 5 + 1, doy)"
    and "0 \<le> doy" "doy \<le> 365" "0 \<le> yoe" "yoe \<le> 399" "0 \<le> e"
    and "doy < 365 + (yoe + 1) div 4 - yoe div 4 - ((yoe + 1) div 100 - yoe div 100) + (if yoe = 399 then 1 else 0)"
proof -
  have ze: "z = e * 146097 + doe" and doe: "0 \<le> doe" "doe < 146097" and e: "0 \<le> e" "e < 1000"
    using g by (auto simp: e_def doe_def z_def)
  have Y: "0 \<le> yoe" "yoe \<le> 399" "365 * yoe + yoe div 4 - yoe div 100 \<le> doe"
    "doe < 365 * (yoe + 1) + (yoe + 1) div 4 - (yoe + 1) div 100 + (if yoe = 399 then 1 else 0)"
    using year_of_era [OF doe] unfolding yoe_def by auto
  show D0: "0 \<le> doy" using Y by (simp add: doy_def)
  show "doy < 365 + (yoe + 1) div 4 - yoe div 4 - ((yoe + 1) div 100 - yoe div 100) + (if yoe = 399 then 1 else 0)"
    using Y(4) by (simp add: doy_def)
  with year_step [OF Y(1,2)] show D1: "doy \<le> 365" by (simp split: if_splits)
  show "0 \<le> yoe" "yoe \<le> 399" "0 \<le> e" using Y e by simp_all
  have M: "0 \<le> mp" "mp \<le> 11" "(153 * mp + 2) div 5 \<le> doy"
    using month_of_doy [OF D0 D1] unfolding mp_def by auto
  have era: "c_div (if z \<ge> 0 then z else z - 146096) 146097 = e"
    using g by (simp add: z_def e_def)
  have u1: "u32 (z - e * 146097) = doe" using ze doe by simp
  have num: "0 \<le> doe - doe div 1460 + doe div 36524 - doe div 146096"
    "doe - doe div 1460 + doe div 36524 - doe div 146096 < 200000"
  proof -
    have le: "doe div 1460 \<le> doe" "doe div 146096 \<le> doe div 36524" "doe div 36524 \<le> 36524"
      using doe(1) zdiv_mono2 [of doe 1 1460] zdiv_mono2 [of doe 36524 146096]
        zdiv_mono1 [of doe 146097 36524] doe(2) by simp_all
    have ge: "0 \<le> doe div 1460" "0 \<le> doe div 146096"
      using doe(1) by (simp_all add: pos_imp_zdiv_nonneg_iff)
    show "0 \<le> doe - doe div 1460 + doe div 36524 - doe div 146096" using le by linarith
    show "doe - doe div 1460 + doe div 36524 - doe div 146096 < 200000"
      using le ge doe by linarith
  qed
  have u2: "u32 (doe - doe div 1460 + doe div 36524 - doe div 146096) div 365 = yoe"
    using num by (simp add: yoe_def)
  have b: "0 \<le> 365 * yoe + yoe div 4 - yoe div 100" "365 * yoe + yoe div 4 - yoe div 100 < 200000"
    using Y doe by auto
  have u3: "u32 (doe - u32 (365 * yoe + yoe div 4 - yoe div 100)) = doy"
    using b D0 D1 by (simp add: doy_def)
  have u4: "u32 (5 * doy + 2) div 153 = mp" using D0 D1 by (simp add: mp_def)
  have u5: "u32 (153 * mp + 2) = 153 * mp + 2" using M by simp
  have u6: "u32 (doy - (153 * mp + 2) div 5 + 1) = doy - (153 * mp + 2) div 5 + 1"
    using M D1 by (intro u32_id) auto
  have u7: "u32 (mp + (if mp < 10 then 2 else u32 (- 10))) = (if mp < 10 then mp + 2 else mp - 10)"
  proof -
    have "mp < 10 \<or> mp = 10 \<or> mp = 11" using M by arith
    then show ?thesis using M by (auto simp: u32_def)
  qed
  show "civil_of_day g =
    (yoe + e * 400 + (if mp < 10 then 0 else 1), if mp < 10 then mp + 2 else mp - 10,
     doy - (153 * mp + 2) div 5 + 1, doy)"
    using M Y(1,2) e unfolding civil_of_day_def Let_def z_def [symmetric] era u1 u2 u3 u4 u5 u6 u7
    by auto
qed
lemma leap_400: "leap (400 * e + w) = leap w"
proof -
  have e: "400 * e + w = w + 4 * (100 * e)" "400 * e + w = w + 100 * (4 * e)" by simp_all
  have "(400 * e + w) mod 4 = w mod 4" unfolding e(1) by (rule mod_mult_self2)
  moreover have "(400 * e + w) mod 100 = w mod 100" unfolding e(2) by (rule mod_mult_self2)
  moreover have "(400 * e + w) mod 400 = w mod 400" by simp
  ultimately show ?thesis by (simp add: leap_def)
qed

lemma civil_of_day_dn:
  assumes "0 \<le> g" "g < 100000000" "civil_of_day g = (y, m, d, doy)"
  shows "valid_date (y, m + 1, d)" "dn (y, m + 1, d) = g + 719468" "1 \<le> y"
    "0 \<le> doy" "dn (y, m + 1, d) = dn (if m + 1 \<le> 2 then y - 1 else y, 3, 1) + doy"
    "1 \<le> (if m + 1 \<le> 2 then y - 1 else y)"
proof -
  define z where "z = g + 719468"
  define e where "e = z div 146097"
  define doe where "doe = z mod 146097"
  define yoe where "yoe = (doe - doe div 1460 + doe div 36524 - doe div 146096) div 365"
  define t where "t = doe - (365 * yoe + yoe div 4 - yoe div 100)"
  define mp where "mp = (5 * t + 2) div 153"
  note defs = yoe_def [symmetric] t_def [symmetric] mp_def [symmetric]
  note C = civil_of_day_eq [OF assms(1,2), folded z_def, folded e_def doe_def, folded yoe_def,
      folded t_def, folded mp_def]
  have M: "0 \<le> mp" "mp \<le> 11" "(153 * mp + 2) div 5 \<le> t"
    "t < (if mp = 11 then 366 else (153 * (mp + 1) + 2) div 5)"
    using month_of_doy [OF C(2,3)] unfolding mp_def by auto
  have eqs: "y = yoe + e * 400 + (if mp < 10 then 0 else 1)" "m = (if mp < 10 then mp + 2 else mp - 10)"
    "d = t - (153 * mp + 2) div 5 + 1"
    using C(1) assms(3) by auto
  have "4 \<le> e" using assms(1) by (simp add: e_def z_def)
  with C(4) eqs(1) show "1 \<le> y" by (auto split: if_splits)
  have march: "y - (if m + 1 \<le> 2 then 1 else 0) = 400 * e + yoe" "shift_month (m + 1) = mp"
    using M(1,2) by (auto simp: eqs shift_month_def)
  have "dn (y, m + 1, d) = day_number (400 * e + yoe) mp d"
    unfolding dn_def prod.case march ..
  also have "\<dots> = 146097 * e + (365 * yoe + yoe div 4 - yoe div 100) + t"
    using C(4,5) by (simp add: day_number_def divs_400 eqs(3))
  finally have D: "dn (y, m + 1, d) = 146097 * e + (365 * yoe + yoe div 4 - yoe div 100) + t" .
  have "dn (if m + 1 \<le> 2 then y - 1 else y, 3, 1) = day_number (400 * e + yoe) 0 1"
    using march(1) by (simp add: dn_def shift_month_def split: if_splits)
  also have "\<dots> = 146097 * e + (365 * yoe + yoe div 4 - yoe div 100)"
    using C(4,5) by (simp add: day_number_def divs_400)
  finally show "dn (y, m + 1, d) = dn (if m + 1 \<le> 2 then y - 1 else y, 3, 1) + doy"
    using D C(1) assms(3) by simp
  show "0 \<le> doy" using C(1,2) assms(3) by simp
  show "1 \<le> (if m + 1 \<le> 2 then y - 1 else y)" using march(1) C(4) \<open>4 \<le> e\<close> by (simp split: if_splits)
  note D
  also have "146097 * e + (365 * yoe + yoe div 4 - yoe div 100) + t = z" by (simp add: t_def e_def doe_def)
  finally show "dn (y, m + 1, d) = g + 719468" by (simp add: z_def)
  show "valid_date (y, m + 1, d)"
  proof (cases "mp = 11")
    case False
    have "mp \<in> {0, 1, 2, 3, 4, 5, 6, 7, 8, 9, 10}"
      using M(1,2) False unfolding insert_iff empty_iff by presburger
    with M(3,4) show ?thesis by (auto simp: valid_date_def month_length_def eqs)
  next
    case True
    have Y: "y = 400 * e + (yoe + 1)" by (simp add: eqs True)
    have "t < 365 + (if leap (yoe + 1) then 1 else 0)"
      using C(7) year_step [OF C(4,5)] by linarith
    then have "t < 366 + (if leap y then 0 else - 1)"
      by (auto simp: Y(1) leap_400)
    with M(3) show ?thesis by (auto simp: valid_date_def month_length_def eqs True)
  qed
qed
section \<open>Correctness of the conversions\<close>

lemma valid_new_year [simp]: "valid_date (y, 1, 1)"
  by (simp add: valid_date_def month_length_def)

lemma dn_1970: "dn (1970, 1, 1) = 719468"
  by (simp add: dn_def day_number_def shift_month_def)

lemma dn_1904: "dn (1904, 1, 1) = 695361"
  by (simp add: dn_def day_number_def shift_month_def)

lemma civil_of_day_date:
  assumes "0 \<le> g" "g < 100000000" "civil_of_day g = (y, m, d, doy)"
  shows "(y, m + 1, d) = (next_day ^^ nat g) (1970, 1, 1)"
  by (rule date_by_number)
    (use civil_of_day_dn(1,2) [OF assms] civil_of_day_dn(3) [OF assms] assms(1) in \<open>simp_all add: dn_1970\<close>)

lemma year_next_day: "fst p \<le> fst (next_day p)"
  by (auto simp: next_day_def split: prod.splits)

lemma year_iterate: "fst p \<le> fst ((next_day ^^ n) p)"
  by (induction n) (auto intro: order_trans [OF _ year_next_day])

lemma days000301_dn:
  assumes "valid_date (y, m, d)" "1 \<le> y"
  shows "days000301 y m d = dn (y, m, d)"
proof -
  have "1 \<le> m" "m \<le> 12" "1 \<le> d" "d \<le> 31"
    using assms(1) month_length_range [of y m] by (auto simp: valid_date_def)
  then show ?thesis
    using days000301_eq [of "y - (if m \<le> 2 then 1 else 0)" y m d] assms(2)
    by (simp add: dn_def)
qed

lemma days_since_1904:
  assumes "(y, m, d) = (next_day ^^ n) (1904, 1, 1)"
  shows "days000301 y m d - NEWTON_000301_DELTA_DAYS = int n"
proof -
  have v: "valid_date (y, m, d)" "dn (y, m, d) = dn (1904, 1, 1) + int n"
    using dn_iterate [of "(1904, 1, 1)" n] by (simp_all add: assms)
  moreover have "1904 \<le> y" using year_iterate [of "(1904, 1, 1)" n] assms [symmetric] by simp
  ultimately show ?thesis by (simp add: days000301_dn dn_1904 NEWTON_000301_DELTA_DAYS_def)
qed

lemma x1904_1970: "(1970, 1, 1) = (next_day ^^ 24107) (1904, 1, 1)"
  by (rule date_by_number) (simp_all add: dn_1970 dn_1904)

definition gmt_seconds :: "int \<Rightarrow> int \<Rightarrow> int" where
  "gmt_seconds tt gmtdelta = u32 (tt - gmtdelta - NEWTON_EPOCH_DELTA)"

lemma gmt_seconds_range: "0 \<le> gmt_seconds tt delta" "gmt_seconds tt delta < 2 ^ 32"
  using u32_range by (simp_all add: gmt_seconds_def)

lemma gmtime_convert_fields:
  assumes "civil_of_day (gmt_seconds tt delta div 86400) = (y, m, d, doy)"
  shows "gmtime_convert tt delta =
    (let s = gmt_seconds tt delta in
     \<lparr>tm_sec = s mod 60, tm_min = s div 60 mod 60, tm_hour = s div 3600 mod 24,
      tm_mday = d, tm_mon = m, tm_year = y - 1900, tm_wday = (s div 86400 + 4) mod 7, tm_yday = doy\<rparr>)"
proof -
  define s where "s = gmt_seconds tt delta"
  have s: "0 \<le> s" using gmt_seconds_range by (simp add: s_def)
  have h: "s div 60 div 60 = s div 3600" "s div 3600 div 24 = s div 86400"
    by (simp_all add: zdiv_zmult2_eq [symmetric])
  have "0 \<le> s div 86400" using s by (simp add: pos_imp_zdiv_nonneg_iff)
  moreover have "u32 ((s div 86400 + 4) mod 7) = (s div 86400 + 4) mod 7"
    by (intro u32_id) (auto intro: order_less_trans [OF pos_mod_bound])
  ultimately show ?thesis
    using assms unfolding gmtime_convert_def gmt_seconds_def [symmetric] Let_def s_def [symmetric] h
    by simp
qed

section \<open>Properties\<close>


lemma seconds_of_day:
  fixes s :: int
  shows "3600 * (s div 3600 mod 24) + 60 * (s div 60 mod 60) + s mod 60 = s mod 86400"
proof -
  have e: "\<And>a b c d e :: int. a = 60 * b + e \<Longrightarrow> b = 60 * c + d \<Longrightarrow> a = 3600 * c + 60 * d + e"
    by simp
  have "s = 3600 * (s div 60 div 60) + 60 * (s div 60 mod 60) + s mod 60"
    by (rule e) simp_all
  moreover have h: "s div 60 div 60 = s div 3600" by (simp add: zdiv_zmult2_eq [symmetric])
  moreover have "s div 3600 = 24 * (s div 86400) + s div 3600 mod 24"
  proof -
    have "s div 86400 = s div 3600 div 24" by (simp add: zdiv_zmult2_eq [symmetric])
    then show ?thesis by simp
  qed
  moreover have "s mod 86400 = s - 86400 * (s div 86400)" by (simp add: minus_mult_div_eq_mod)
  ultimately show ?thesis unfolding h by linarith
qed

text \<open>
  The time of day and the weekday are right and in range: hours, minutes and seconds
  recompose the second count of the day, and the weekday is the day count from a Thursday.
\<close>

theorem gmtime_time_of_day:
  "let t = gmtime_convert tt delta; s = gmt_seconds tt delta in
     3600 * tm_hour t + 60 * tm_min t + tm_sec t = s mod 86400
   \<and> tm_sec t \<in> {0..59} \<and> tm_min t \<in> {0..59} \<and> tm_hour t \<in> {0..23}
   \<and> tm_wday t = (s div 86400 + 4) mod 7"
proof -
  obtain y m d doy where c: "civil_of_day (gmt_seconds tt delta div 86400) = (y, m, d, doy)"
    by (metis prod_cases4)
  have r: "\<And>a k :: int. 0 < k \<Longrightarrow> a mod k \<in> {0..k - 1}" by simp
  show ?thesis
    using r [of 60] r [of 24] unfolding gmtime_convert_fields [OF c] Let_def
    by (simp add: seconds_of_day del: atLeastAtMost_iff)
qed

text \<open>
  The day-of-year field is the number of days since the previous first of March, not
  since the first of January as \<^verbatim>\<open>struct tm\<close> requires: the date is that many days after
  1 March of its own year or of the year before.
\<close>

theorem gmtime_yday_counts_from_march:
  "let t = gmtime_convert tt delta; y = tm_year t + 1900; m = tm_mon t + 1 in
     (y, m, tm_mday t) = (next_day ^^ nat (tm_yday t)) (if m \<le> 2 then y - 1 else y, 3, 1)"
proof -
  obtain y m d doy where c: "civil_of_day (gmt_seconds tt delta div 86400) = (y, m, d, doy)"
    by (metis prod_cases4)
  define g where "g = gmt_seconds tt delta div 86400"
  have g: "0 \<le> g" "g < 100000000"
    using gmt_seconds_range [of tt delta] by (auto simp: g_def)
  note V = civil_of_day_dn [OF g c [folded g_def]]
  have "(y, m + 1, d) = (next_day ^^ nat doy) (if m + 1 \<le> 2 then y - 1 else y, 3, 1)"
  proof (rule date_by_number [OF V(1,3)])
    show "valid_date (if m + 1 \<le> 2 then y - 1 else y, 3, 1)"
      by (simp add: valid_date_def month_length_def)
    show "1 \<le> (if m + 1 \<le> 2 then y - 1 else y)" "dn (y, m + 1, d) = dn (if m + 1 \<le> 2 then y - 1 else y, 3, 1) + int (nat doy)"
      using V(4-6) by simp_all
  qed
  then show ?thesis
    by (simp add: gmtime_convert_fields [OF c] Let_def)
qed


lemma date_after_1904:
  assumes "valid_date (y, m, d)" "1904 \<le> y"
  shows "(y, m, d) = (next_day ^^ nat (dn (y, m, d) - 695361)) (1904, 1, 1)"
proof -
  obtain n where n: "(y, m, d) = (next_day ^^ n) (1904, 1, 1)"
    using valid_date_reached [of 1904 y m d] assms by auto
  with dn_iterate [of "(1904, 1, 1)" n] have "dn (y, m, d) = 695361 + int n" by (simp add: dn_1904)
  with n show ?thesis by simp
qed


text \<open>
  The expiry date RFC 5280 prescribes for certificates that do not expire, 9999-12-31,
  overflows the 32-bit \<^verbatim>\<open>long\<close>: the date handed to NewtonScript is negative, a time before
  1904, and so is every date from 5987-02-10 until the count wraps back to zero.
\<close>

theorem minutes_1904_overflow:
  assumes "(y, m, d) = (next_day ^^ n) (1904, 1, 1)" and "1491309 \<le> n" and "n \<le> 2982616"
  shows "TimeToLocal1904Minutes \<lparr>x_year = y, x_mon = m, x_day = d\<rparr> = 1440 * int n - 2 ^ 32
    \<and> TimeToLocal1904Minutes \<lparr>x_year = y, x_mon = m, x_day = d\<rparr> < 0"
proof -
  have "s32 (int n * 1440) = 1440 * int n - 2 ^ 32"
  proof -
    have "int n * 1440 + 2 ^ 31 = (int n * 1440 - 2 ^ 31) + 2 ^ 32" by simp
    moreover have "0 \<le> int n * 1440 - 2 ^ 31" "int n * 1440 - 2 ^ 31 < 2 ^ 32" using assms(2,3) by simp_all
    ultimately have "(int n * 1440 + 2 ^ 31) mod 2 ^ 32 = int n * 1440 - 2 ^ 31"
      by (simp only: mod_add_self2 mod_pos_pos_trivial)
    then show ?thesis by (simp add: s32_def)
  qed
  then show ?thesis
    using days_since_1904 [OF assms(1)] assms(3) by (simp add: TimeToLocal1904Minutes_def)
qed

theorem minutes_1904_overflow_witness:
  "TimeToLocal1904Minutes \<lparr>x_year = 9999, x_mon = 12, x_day = 31\<rparr> = - 36882976"
proof -
  have n: "(9999, 12, 31) = (next_day ^^ 2957003) (1904, 1, 1)"
    by (subst date_after_1904)
      (simp_all add: valid_date_def month_length_def dn_def day_number_def shift_month_def)
  from minutes_1904_overflow [OF n] show ?thesis by simp
qed

text \<open>
  The two conversions of the file disagree on the epoch: a clock value of midnight,
  \<open>n\<close> days after 1904-01-01 by \<^verbatim>\<open>TimeToLocal1904Minutes\<close>, is the same date at 00:50:39
  for \<^verbatim>\<open>mbedtls_platform_gmtime_r\<close>. Its constant is 3039 seconds short of the 24107 days
  from 1904 to 1970.
\<close>

theorem epochs_disagree:
  assumes "(y, m, d) = (next_day ^^ n) (1904, 1, 1)" and "24107 \<le> n" and "n \<le> 49710"
  defines "t \<equiv> gmtime_convert (60 * TimeToLocal1904Minutes \<lparr>x_year = y, x_mon = m, x_day = d\<rparr>) 0"
  shows "(tm_year t + 1900, tm_mon t + 1, tm_mday t) = (y, m, d)
    \<and> (tm_hour t, tm_min t, tm_sec t) = (0, 50, 39)"
proof -
  define clock where "clock = 60 * TimeToLocal1904Minutes \<lparr>x_year = y, x_mon = m, x_day = d\<rparr>"
  have "clock = 86400 * int n"
    using days_since_1904 [OF assms(1)] assms(3) by (simp add: clock_def TimeToLocal1904Minutes_def)
  then have s: "gmt_seconds clock 0 = 86400 * int (n - 24107) + 3039"
    using assms(2,3) by (simp add: gmt_seconds_def NEWTON_EPOCH_DELTA_def of_nat_diff)
  obtain y' m' d' doy where c: "civil_of_day (gmt_seconds clock 0 div 86400) = (y', m', d', doy)"
    by (metis prod_cases4)
  have q: "gmt_seconds clock 0 div 86400 = int (n - 24107)" by (simp add: s)
  have "(y', m' + 1, d') = (next_day ^^ (n - 24107)) ((next_day ^^ 24107) (1904, 1, 1))"
    using civil_of_day_date [OF _ _ c] assms(3) unfolding q x1904_1970 by simp
  also have "\<dots> = (next_day ^^ (n - 24107 + 24107)) (1904, 1, 1)"
    by (simp only: funpow_add comp_apply)
  also have "\<dots> = (y, m, d)" using assms(1,2) by simp
  finally have "(y', m' + 1, d') = (y, m, d)" .
  moreover have "t = gmtime_convert clock 0" by (simp add: t_def clock_def)
  moreover have "s div 3600 mod 24 = 0" "s div 60 mod 60 = 50" "s mod 60 = 39"
    if "s = 3039 + 3600 * (24 * k)" for s k :: int
  proof -
    have "s = 3039 + 60 * (60 * (24 * k))" using that by simp
    then have "s div 60 = 50 + 60 * (24 * k)" "s mod 60 = 39" by (simp_all only: div_mult_self2 mod_mult_self2) simp_all
    moreover have "(50 + 60 * (24 * k)) mod 60 = 50" by (simp only: mod_mult_self2) simp
    ultimately show "s div 60 mod 60 = 50" "s mod 60 = 39" by simp_all
    have "s div 3600 = 0 + 24 * k" unfolding that by (simp only: div_mult_self2)
    then show "s div 3600 mod 24 = 0" by simp
  qed
  from this [of "gmt_seconds clock 0" "int (n - 24107)"]
  have "gmt_seconds clock 0 div 3600 mod 24 = 0" "gmt_seconds clock 0 div 60 mod 60 = 50"
    "gmt_seconds clock 0 mod 60 = 39" unfolding s by simp_all
  ultimately show ?thesis
    by (simp add: gmtime_convert_fields [OF c] Let_def)
qed

theorem epochs_disagree_witness:
  "let t = gmtime_convert (60 * TimeToLocal1904Minutes \<lparr>x_year = 2020, x_mon = 6, x_day = 3\<rparr>) 0 in
     (tm_year t + 1900, tm_mon t + 1, tm_mday t) = (2020, 6, 3)
   \<and> (tm_hour t, tm_min t, tm_sec t) = (0, 50, 39)"
proof -
  have n: "(2020, 6, 3) = (next_day ^^ 42523) (1904, 1, 1)"
    by (subst date_after_1904)
      (simp_all add: valid_date_def month_length_def dn_def day_number_def shift_month_def)
  from epochs_disagree [OF n] show ?thesis by (simp only: Let_def)
qed

end
