(* ===== verification/Platform_Time.thy ===== *)
theory Platform_Time
  imports Task_Bindings Calendar
begin

text \<open>
  The time functions the library takes from the system: the C \<^verbatim>\<open>time\<close> of
  \<^verbatim>\<open>NewtonRuntime.cpp\<close> and \<^verbatim>\<open>mbedtls_platform_gmtime_r\<close> of \<^verbatim>\<open>NewtonBindings.cpp\<close>, which
  fetches the user's offset from the NewtApp task and converts.
\<close>

definition mbedtls_platform_gmtime_r :: "task \<Rightarrow> newt \<Rightarrow> int \<Rightarrow> tm" where
  "mbedtls_platform_gmtime_r T N tt =
     (let gmtdelta =
        (if in_newt T then GetGMTDelta N
         else (case SendRPCToNewtApp T N GetGMTDeltaEvent of
                 (_, Some ((result, _), _)) \<Rightarrow> s32 (uint result)
               | (_, None) \<Rightarrow> 0))
      in gmtime_convert tt gmtdelta)"

lemma gmtime_r_offset:
  "rpc_error T = noErr \<Longrightarrow> - (2 ^ 31) \<le> GetGMTDelta N \<Longrightarrow> GetGMTDelta N < 2 ^ 31 \<Longrightarrow>
    mbedtls_platform_gmtime_r T N tt = gmtime_convert tt (GetGMTDelta N)"
  by (simp add: mbedtls_platform_gmtime_r_def SendRPCToNewtApp_def gmt_delta_handler_def)

lemma gmtime_r_unanswered:
  "\<not> in_newt T \<Longrightarrow> rpc_error T \<noteq> noErr \<Longrightarrow> mbedtls_platform_gmtime_r T N tt = gmtime_convert tt 0"
  by (simp add: mbedtls_platform_gmtime_r_def SendRPCToNewtApp_def)

end
