(* ===== verification/CE_Buffers.thy ===== *)
theory CE_Buffers
  imports Newton_Prelude
begin

text \<open>
  The buffers of NewtonOS the connection end works with, \<^verbatim>\<open>CBufferList\<close> and
  \<^verbatim>\<open>CBufferSegment\<close>. They are ROM classes whose interface \<^verbatim>\<open>BufferInterface.md\<close> describes; the
  development takes them as a record of operations, an argument of everything that uses
  them. The locale \<open>buffer_list\<close> states what the code relies on: a list is a sequence of
  segments with one position over their concatenated bytes, which \<open>Getn\<close> and \<open>Putn\<close>
  advance, \<open>Reset\<close> and \<open>Seek\<close> set, and which the insertion of a segment at the end leaves
  alone. The loop that moves every segment of one list to another is proved in it. The
  record \<open>cbuf\<close> is a list of segments as the document has it; it satisfies the laws.
\<close>

section \<open>The interface\<close>

text \<open>
  \<open>seg_init\<close> is \<^verbatim>\<open>New\<close> and \<^verbatim>\<open>Init(ptr, len, true)\<close> of a segment with the bytes of a block,
  \<open>seg_room\<close> \<^verbatim>\<open>New\<close> and \<^verbatim>\<open>Init(len)\<close>, a segment with a new block of that size; \<open>buf_new\<close> is
  \<^verbatim>\<open>New\<close> and \<^verbatim>\<open>Init(true)\<close> of a list. \<open>Getn\<close> returns the bytes it copies, \<open>Putn\<close> how many it
  stored.
\<close>

record ('b, 'g) buffer_ops =
  seg_init :: "bytes \<Rightarrow> 'g"
  seg_room :: "nat \<Rightarrow> 'g"
  seg_Reset :: "'g \<Rightarrow> 'g"
  buf_new :: 'b
  GetSize :: "'b \<Rightarrow> nat"
  Position :: "'b \<Rightarrow> nat"
  AtEOF :: "'b \<Rightarrow> bool"
  Getn :: "'b \<Rightarrow> nat \<Rightarrow> bytes \<times> 'b"
  Putn :: "'b \<Rightarrow> bytes \<Rightarrow> nat \<times> 'b"
  buf_Reset :: "'b \<Rightarrow> 'b"
  Seek :: "'b \<Rightarrow> nat \<Rightarrow> int \<Rightarrow> 'b"
  InsertLast :: "'b \<Rightarrow> 'g \<Rightarrow> 'b"
  First :: "'b \<Rightarrow> 'g option"
  Remove :: "'b \<Rightarrow> 'g \<Rightarrow> 'b"
  DeleteAll :: "'b \<Rightarrow> 'b"

section \<open>Moving the segments\<close>

text \<open>
  The loop of \<^verbatim>\<open>SSLSendCallback\<close> and of \<^verbatim>\<open>PutCompleteCB\<close>: every segment of the send buffer is
  removed, reset and inserted at the end of the put buffer. The result also tells whether
  any was moved (\<^verbatim>\<open>moreSegments\<close>).
\<close>

partial_function (option) move_segments ::
    "('b, 'g) buffer_ops \<Rightarrow> 'b \<Rightarrow> 'b \<Rightarrow> bool \<Rightarrow> ('b \<times> 'b \<times> bool) option" where
  "move_segments B send put moved =
     (case First B send of
        None \<Rightarrow> Some (send, put, moved)
      | Some segment \<Rightarrow>
          move_segments B (Remove B send segment) (InsertLast B put (seg_Reset B segment)) True)"

declare move_segments.simps [code]

section \<open>What the code relies on\<close>

text \<open>
  The bytes of a list given its segments (\<open>segs\<close>) and the bytes of each (\<open>data\<close>), the bytes
  from its position on, and a list in use, whose position is within its bytes.
\<close>

definition buf_whole :: "('b \<Rightarrow> 'g list) \<Rightarrow> ('g \<Rightarrow> bytes) \<Rightarrow> 'b \<Rightarrow> bytes" where
  "buf_whole segs data b = concat (map data (segs b))"

definition buf_unread :: "('b, 'g) buffer_ops \<Rightarrow> ('b \<Rightarrow> 'g list) \<Rightarrow> ('g \<Rightarrow> bytes) \<Rightarrow> 'b \<Rightarrow> bytes" where
  "buf_unread B segs data b = drop (Position B b) (buf_whole segs data b)"

definition buf_valid :: "('b, 'g) buffer_ops \<Rightarrow> ('b \<Rightarrow> 'g list) \<Rightarrow> ('g \<Rightarrow> bytes) \<Rightarrow> 'b \<Rightarrow> bool" where
  "buf_valid B segs data b \<longleftrightarrow> Position B b \<le> length (buf_whole segs data b)"

locale buffer_list =
  fixes B :: "('b, 'g) buffer_ops"
    and segs :: "'b \<Rightarrow> 'g list"
    and data :: "'g \<Rightarrow> bytes"
  assumes data_init: "data (seg_init B bs) = bs"
    and data_room: "length (data (seg_room B n)) = n"
    and data_reset: "data (seg_Reset B g) = data g"
    and segs_new: "segs (buf_new B) = []"
    and pos_new: "Position B (buf_new B) = 0"
    and size: "GetSize B b = length (concat (map data (segs b)))"
    and eof: "AtEOF B b = (GetSize B b \<le> Position B b)"
    and getn: "Position B b \<le> GetSize B b \<Longrightarrow>
       fst (Getn B b n) = take n (drop (Position B b) (concat (map data (segs b))))"
    and getn_data: "concat (map data (segs (snd (Getn B b n)))) = concat (map data (segs b))"
    and getn_pos: "Position B b \<le> GetSize B b \<Longrightarrow>
       Position B (snd (Getn B b n)) = min (GetSize B b) (Position B b + n)"
    and putn: "Position B b \<le> GetSize B b \<Longrightarrow>
       fst (Putn B b bs) = min (length bs) (GetSize B b - Position B b)"
    and putn_data: "Position B b \<le> GetSize B b \<Longrightarrow>
       concat (map data (segs (snd (Putn B b bs))))
         = overwrite (concat (map data (segs b))) (Position B b) bs"
    and putn_pos: "Position B b \<le> GetSize B b \<Longrightarrow>
       Position B (snd (Putn B b bs)) = Position B b + fst (Putn B b bs)"
    and reset_data: "segs (buf_Reset B b) = segs b"
    and reset_pos: "Position B (buf_Reset B b) = 0"
    and seek_data: "segs (Seek B b n d) = segs b"
    and seek_pos: "n \<le> GetSize B b \<Longrightarrow> Position B (Seek B b n (- 1)) = n"
    and insert_segs: "segs (InsertLast B b g) = segs b @ [g]"
    and insert_pos: "Position B (InsertLast B b g) = Position B b"
    and first: "First B b = (case segs b of [] \<Rightarrow> None | g # _ \<Rightarrow> Some g)"
    and remove: "segs b = g # gs \<Longrightarrow> segs (Remove B b g) = gs"
    and delete_segs: "segs (DeleteAll B b) = []"
    and delete_pos: "Position B (DeleteAll B b) = 0"
begin

abbreviation "whole \<equiv> buf_whole segs data"
abbreviation "unread \<equiv> buf_unread B segs data"
abbreviation "valid \<equiv> buf_valid B segs data"

lemmas whole_def = buf_whole_def [of segs data]
lemmas unread_def = buf_unread_def [of B segs data]
lemmas valid_def = buf_valid_def [of B segs data]

lemma whole_simps [simp]:
  "whole (buf_new B) = []" "whole (DeleteAll B b) = []"
  "whole (InsertLast B b g) = whole b @ data g"
  "whole (buf_Reset B b) = whole b" "whole (Seek B b n d) = whole b"
  "whole (snd (Getn B b n)) = whole b"
  "GetSize B b = length (whole b)"
  by (simp_all add: whole_def segs_new delete_segs insert_segs reset_data seek_data getn_data size)

lemma valid_simps [simp]:
  "valid (buf_new B)" "valid (DeleteAll B b)" "valid (buf_Reset B b)"
  "valid b \<Longrightarrow> valid (InsertLast B b g)"
  by (simp_all add: valid_def pos_new delete_pos reset_pos insert_pos)

lemma unread_simps [simp]:
  "unread (buf_new B) = []" "unread (DeleteAll B b) = []"
  "unread (buf_Reset B b) = whole b"
  "valid b \<Longrightarrow> unread (InsertLast B b g) = unread b @ data g"
  by (simp_all add: unread_def reset_pos insert_pos valid_def)

lemma AtEOF_unread: "AtEOF B b = (unread b = [])"
  by (simp add: eof unread_def)

lemma getn_unread [simp]:
  "valid b \<Longrightarrow> fst (Getn B b n) = take n (unread b)"
  "valid b \<Longrightarrow> unread (snd (Getn B b n)) = drop n (unread b)"
  "valid b \<Longrightarrow> valid (snd (Getn B b n))"
  by (simp_all add: valid_def unread_def getn getn_pos whole_def size add.commute min_def
      del: whole_simps) (simp_all add: add.commute getn_data getn_pos min_def size)

lemma seek_unread: "n \<le> length (whole b) \<Longrightarrow> unread (Seek B b n (- 1)) = drop n (whole b)"
  by (simp add: unread_def seek_pos)

lemma move_segments_all:
  "\<exists>send'. move_segments B send put moved
       = Some (send', fold (\<lambda>g b. InsertLast B b (seg_Reset B g)) (segs send) put, moved \<or> segs send \<noteq> [])
     \<and> segs send' = []"
proof (induction "segs send" arbitrary: send put moved)
  case Nil
  then show ?case
    by (simp add: move_segments.simps [of B send] first)
next
  case (Cons g gs)
  then show ?case
    using Cons.hyps(1) [of "Remove B send g" "InsertLast B put (seg_Reset B g)" True]
    by (simp add: move_segments.simps [of B send] first remove flip: Cons.hyps(2))
qed

lemma fold_insert:
  "valid put \<Longrightarrow>
    unread (fold (\<lambda>g b. InsertLast B b (seg_Reset B g)) gs put) = unread put @ concat (map data gs)
    \<and> valid (fold (\<lambda>g b. InsertLast B b (seg_Reset B g)) gs put)"
  by (induction gs arbitrary: put) (simp_all add: data_reset)

text \<open>The loop ends, empties the send buffer and keeps the order of the bytes.\<close>

lemma move_segments_bytes:
  assumes "valid put"
  obtains send' put' where "move_segments B send put moved = Some (send', put', moved \<or> segs send \<noteq> [])"
    and "segs send' = []" "valid put'" "unread put' = unread put @ whole send"
  using move_segments_all [of send put moved] fold_insert [OF assms, of "segs send"]
  by (auto simp: whole_def)

text \<open>What is put into an empty list with one new segment comes back after a reset.\<close>

lemma putn_reset:
  assumes "valid b"
  shows "fst (Putn B b bs) = min (length bs) (length (unread b))"
    and "whole (snd (Putn B b bs)) = overwrite (whole b) (Position B b) bs"
  using assms by (simp_all add: putn putn_data unread_def whole_def size valid_def del: whole_simps)

end

section \<open>Lists of segments\<close>

text \<open>
  A list as the document describes it: the blocks of its segments and the position over
  all of them.
\<close>

record cbuf =
  blocks :: "bytes list"
  cpos :: nat

text \<open>A run of bytes cut back into blocks of the given sizes.\<close>

fun recut :: "bytes list \<Rightarrow> bytes \<Rightarrow> bytes list" where
  "recut [] bs = []"
| "recut (x # xs) bs = take (length x) bs # recut xs (drop (length x) bs)"

definition cbuf_ops :: "(cbuf, bytes) buffer_ops" where
  "cbuf_ops =
     \<lparr>seg_init = (\<lambda>bs. bs), seg_room = (\<lambda>n. replicate n 0), seg_Reset = (\<lambda>g. g),
      buf_new = \<lparr>blocks = [], cpos = 0\<rparr>,
      GetSize = (\<lambda>b. length (concat (blocks b))), Position = cpos,
      AtEOF = (\<lambda>b. length (concat (blocks b)) \<le> cpos b),
      Getn = (\<lambda>b n. (take n (drop (cpos b) (concat (blocks b))),
                      b\<lparr>cpos := min (length (concat (blocks b))) (cpos b + n)\<rparr>)),
      Putn = (\<lambda>b bs. let n = min (length bs) (length (concat (blocks b)) - cpos b)
                      in (n, \<lparr>blocks = recut (blocks b) (overwrite (concat (blocks b)) (cpos b) bs),
                              cpos = cpos b + n\<rparr>)),
      buf_Reset = (\<lambda>b. b\<lparr>cpos := 0\<rparr>),
      Seek = (\<lambda>b n d. b\<lparr>cpos := n\<rparr>),
      InsertLast = (\<lambda>b g. b\<lparr>blocks := blocks b @ [g]\<rparr>),
      First = (\<lambda>b. case blocks b of [] \<Rightarrow> None | g # _ \<Rightarrow> Some g),
      Remove = (\<lambda>b g. b\<lparr>blocks := remove1 g (blocks b)\<rparr>),
      DeleteAll = (\<lambda>b. \<lparr>blocks = [], cpos = 0\<rparr>)\<rparr>"

lemma recut_concat: "length bs = length (concat xs) \<Longrightarrow> concat (recut xs bs) = bs"
  by (induction xs arbitrary: bs) simp_all

interpretation cbufs: buffer_list cbuf_ops blocks "\<lambda>g. g"
  by unfold_locales
    (simp_all add: cbuf_ops_def Let_def recut_concat split: list.splits)

end
