(* ===== verification/CE_State.thy ===== *)
theory CE_State
  imports CE_Buffers Task_Bindings
begin

text \<open>
  The state of \<^verbatim>\<open>PMbedTLSConnectionEnd\<close>, the proxy that runs TLS between a client and the
  NIE connection end (the inet tool), and what surrounds it. The class members of
  \<^verbatim>\<open>PMbedTLSConnectionEnd.impl.h\<close> are the first fields of the record \<open>ce\<close>; the others
  are the environment: the clock, the current heap, the client's buffers, the replies the
  inet tool gives while a call is still running, and what has been observed of the
  connection end. The mbed TLS library is the field of operations \<open>platform\<close>: each call
  that can call back is an \<open>io\<close> tree, so that what is proved holds for every behaviour
  of the library.
\<close>

section \<open>Calls of the library\<close>

text \<open>
  A call of mbed TLS: it returns, or calls one of the four callbacks that were set and
  goes on with what the callback returned.
\<close>

datatype 'r io =
    Ret 'r
  | Send bytes "int \<Rightarrow> 'r io"
  | Recv nat "int \<Rightarrow> bytes \<Rightarrow> 'r io"
  | SetTimer ulong ulong "'r io"
  | GetTimer "int \<Rightarrow> 'r io"

text \<open>Every leaf of a call satisfies a condition, whatever the callbacks return.\<close>

primrec returns :: "('r \<Rightarrow> bool) \<Rightarrow> 'r io \<Rightarrow> bool" where
  "returns Q (Ret r) = Q r"
| "returns Q (Send bs k) = (\<forall>x. returns Q (k x))"
| "returns Q (Recv n k) = (\<forall>x bs. returns Q (k x bs))"
| "returns Q (SetTimer a b k) = returns Q k"
| "returns Q (GetTimer k) = (\<forall>x. returns Q (k x))"

section \<open>Observed calls\<close>

text \<open>
  The calls on \<^verbatim>\<open>mInetPConnectionEnd\<close> and on \<^verbatim>\<open>mInetCECallBack\<close> that ask for something to
  be done, with their arguments; a pointer the connection end only passes on is a number.
\<close>

datatype inet_call =
    iInit nat nat nat
  | iHandleInternalRequest nat
  | iHandleInternalEvent
  | iOpenStart
  | iCloseStart
  | iBindStart
  | iUnbindStart
  | iConnectStart
  | iListenStart
  | iAcceptStart
  | iReleaseStart
  | iTerminateStart
  | iPutBytesStart
  | iPutFramedBytesStart bool
  | iKillPutStart
  | iGetBytesStart
  | iGetFramedBytesStart
  | iGetBytesImmediateStart nat
  | iKillGetStart
  | iHandleTimerTick
  | iHandleRequest nat nat nat ulong
  | iHandleReply ulong ulong
  | iKillControlStart
  | iKillGetCommEventStart
  | iGetCommEvent
  | iProcessOptionStart ulong ulong
  | iProcessPutBytesOptionStart ulong ulong
  | iProcessGetBytesOptionStart ulong ulong
  | iResArbReleaseStart nat nat
  | iResArbClaimNotification nat nat
  | iForwardOptions
  | iPutData
  | iGetData nat
  | iDelete

datatype client_call =
    cInit nat
  | cOpenComplete int
  | cCloseComplete int
  | cBindComplete int
  | cUnbindComplete int
  | cConnectComplete int
  | cListenComplete int
  | cAcceptComplete int
  | cTerminateComplete
  | cPutComplete int nat
  | cKillPutComplete int
  | cGetComplete int bool nat
  | cKillGetComplete int
  | cHandleRequest nat nat nat ulong
  | cHandleReply ulong ulong
  | cKillControlComplete int
  | cKillGetCommEventComplete int
  | cGetCommEvent
  | cPostCommEvent nat int
  | cProcessOptionComplete ulong
  | cProcessPutBytesOptionComplete ulong
  | cProcessGetBytesOptionComplete ulong
  | cResArbReleaseComplete int
  | cFlushChannel ulong int
  | cStartAbort int
  | cSetTerminationEvent ulong
  | cInitAsyncRPCMsg nat ulong
  | cSetToolConnectState ulong
  | cSetConnectInfo nat
  | cSetCMOTransportInfo nat
  | cSetPassiveClaim bool
  | cSetPassiveState bool
  | cSetWaitingForResNotify bool
  | cDelete

text \<open>
  \<open>iPutData\<close> and \<open>iGetData n\<close> are \<^verbatim>\<open>PutBytesStart(mPutDataBuffer)\<close> and
  \<^verbatim>\<open>GetBytesImmediateStart(mGetDataBuffer, n)\<close>, the calls with the connection end's own
  buffers; the others carry the client's. \<open>PortSend\<close> is the message posted to the tool's
  own port.
\<close>

datatype observed = Inet inet_call | Client client_call | PortSend ulong

text \<open>
  What the inet tool does before \<^verbatim>\<open>PutBytesStart\<close> returns: nothing yet, or take bytes and
  complete; and the same for a get, with the bytes it has received.
\<close>

datatype put_reply = PutLater | PutNow int nat
datatype get_reply = GetLater | GetNow int bytes

section \<open>The members\<close>

text \<open>
  A pointer is an option (\<open>None\<close> is NULL). The five mbed TLS objects \<^verbatim>\<open>mEntropy\<close>,
  \<^verbatim>\<open>mCtrDrbg\<close>, \<^verbatim>\<open>mSSLCAChain\<close>, \<^verbatim>\<open>mSSLConfig\<close> and \<^verbatim>\<open>mSSLContext\<close> are one value \<open>mbed\<close>.
  \<open>accepted\<close>, \<open>taken\<close>, \<open>received\<close> and \<open>delivered\<close> record, since the last
  configuration, the bytes \<^verbatim>\<open>SSLSendCallback\<close> accepted, those the inet tool has taken to
  send, those it has delivered, and those \<^verbatim>\<open>SSLRecvCallback\<close> has given to the library.
\<close>

record ('b, 'm) ce =
  mThisCECallBack :: "nat option"
  mInetPConnectionEndClassInfo :: nat
  mInetPConnectionEnd :: "nat option"
  mInetCECallBack :: "nat option"
  mInetCEPort :: "nat option"
  mAsyncReadMessage :: "nat option"
  mRootCertificatesHeap :: "nat option"
  mSSLEnabled :: bool
  mSSLConfigured :: bool
  mSendPending :: bool
  mRecvPending :: bool
  mSSLReceiveInProgress :: bool
  mEstablished :: bool
  mUpgradable :: bool
  mClosing :: bool
  mPeerClosed :: bool
  mSSLLoadRootCertificates :: bool
  mSSLTimerFired :: bool
  mSSLHostname :: "bytes option"
  mSSLAuthMode :: ulong
  mbed :: 'm
  mPutDataBuffer :: "'b option"
  mGetDataBuffer :: "'b option"
  mSendBuffer :: "'b option"
  mSSLRecvBuffer :: "bytes option"
  mSSLRecvBufferSize :: nat
  mSSLReadBuffer :: "bytes option"
  mSSLReadBufferSize :: nat
  mSSLReadCount :: nat
  mSendError :: int
  mRecvError :: int
  mSSLTimerInt :: ulong
  mSSLTimerFin :: ulong
  clock_ms :: ulong
  cur_heap :: "nat option"
  client_put :: 'b
  client_get :: 'b
  client_threshold :: "nat option"
  put_replies :: "put_reply list"
  get_replies :: "get_reply list"
  trace :: "observed list"
  accepted :: bytes
  taken :: bytes
  received :: bytes
  delivered :: bytes

section \<open>The surroundings\<close>

text \<open>
  Memory: \<open>new_ptr\<close> is \<^verbatim>\<open>NewPtr\<close> (a block with whatever the memory holds, or NULL),
  \<open>realloc_ptr\<close> \<^verbatim>\<open>ReallocPtr\<close>, and \<open>past_end\<close> the bytes that follow a block. The
  error codes are those of the NewtonOS and mbed TLS headers.
\<close>

record ('b, 'g, 'm) platform =
  bufs :: "('b, 'g) buffer_ops"
  new_ptr :: "nat \<Rightarrow> bytes option"
  realloc_ptr :: "bytes \<Rightarrow> nat \<Rightarrow> bytes option"
  past_end :: "nat \<Rightarrow> bytes"
  new_vm_heap :: "int \<times> nat option"
  name_server_lookup :: "int \<times> nat"
  class_new :: "nat \<Rightarrow> nat option"
  cecallback_new :: "nat option"
  connection_end_port :: "nat option"
  new_async_message :: "nat option"
  inet_init :: "int"
  inet_option_result :: "ulong \<Rightarrow> ulong \<Rightarrow> ulong"
  the_task :: task
  the_newt :: newt
  entropy_init :: "'m \<Rightarrow> 'm"
  ctr_drbg_init :: "'m \<Rightarrow> 'm"
  x509_crt_init :: "'m \<Rightarrow> 'm"
  ssl_config_init :: "'m \<Rightarrow> 'm"
  ssl_init :: "'m \<Rightarrow> 'm"
  ssl_free :: "'m \<Rightarrow> 'm"
  ssl_config_free :: "'m \<Rightarrow> 'm"
  x509_crt_free :: "'m \<Rightarrow> 'm"
  ctr_drbg_free :: "'m \<Rightarrow> 'm"
  entropy_free :: "'m \<Rightarrow> 'm"
  entropy_add_hardclock :: "'m \<Rightarrow> 'm"
  ctr_drbg_seed :: "bytes \<Rightarrow> 'm \<Rightarrow> int \<times> 'm"
  x509_crt_parse :: "bytes \<Rightarrow> 'm \<Rightarrow> int \<times> 'm"
  ssl_config_defaults :: "'m \<Rightarrow> 'm"
  ssl_conf_rng :: "'m \<Rightarrow> 'm"
  ssl_conf_ca_chain :: "'m \<Rightarrow> 'm"
  ssl_conf_authmode :: "ulong \<Rightarrow> 'm \<Rightarrow> 'm"
  ssl_setup :: "'m \<Rightarrow> 'm"
  ssl_set_bio :: "'m \<Rightarrow> 'm"
  ssl_set_timer_cb :: "'m \<Rightarrow> 'm io"
  ssl_set_hostname :: "bytes \<Rightarrow> 'm \<Rightarrow> 'm"
  ssl_handshake :: "'m \<Rightarrow> (int \<times> 'm) io"
  ssl_read :: "nat \<Rightarrow> 'm \<Rightarrow> (int \<times> bytes \<times> 'm) io"
  ssl_write :: "bytes \<Rightarrow> 'm \<Rightarrow> (int \<times> 'm) io"
  ssl_close_notify :: "'m \<Rightarrow> (int \<times> 'm) io"
  ssl_session_reset :: "'m \<Rightarrow> 'm io"
  ssl_peer_cert :: "'m \<Rightarrow> bytes list"
  ERR_SSL_WANT_READ :: int
  ERR_SSL_WANT_WRITE :: int
  ERR_SSL_PEER_CLOSE_NOTIFY :: int
  ERR_SSL_CONN_EOF :: int
  SSL_VERIFY_NONE :: ulong
  SSL_VERIFY_REQUIRED :: ulong
  kError_Not_Registered :: int
  kCommErrConnectionAborted :: int
  kCommErrNotConnected :: int
  kCommErrMethodNotImplemented :: int
  kCommErrCommandInProgress :: int
  opSuccess :: ulong
  opFailure :: ulong
  opInProgress :: ulong
  opNotSupported :: ulong
  kMsgType_ReservedMask :: ulong

section \<open>Calls through the two pointers\<close>

text \<open>A method call through NULL does not return: \<open>None\<close>.\<close>

definition inet :: "inet_call \<Rightarrow> ('b, 'm) ce \<Rightarrow> ('b, 'm) ce option" where
  "inet c s = (case mInetPConnectionEnd s of
      None \<Rightarrow> None
    | Some _ \<Rightarrow> Some (s\<lparr>trace := trace s @ [Inet c]\<rparr>))"

definition client :: "client_call \<Rightarrow> ('b, 'm) ce \<Rightarrow> ('b, 'm) ce option" where
  "client c s = (case mInetCECallBack s of
      None \<Rightarrow> None
    | Some _ \<Rightarrow> Some (s\<lparr>trace := trace s @ [Client c]\<rparr>))"

definition port_send :: "ulong \<Rightarrow> ('b, 'm) ce \<Rightarrow> ('b, 'm) ce option" where
  "port_send t s = (case mInetCEPort s of
      None \<Rightarrow> None
    | Some _ \<Rightarrow> Some (s\<lparr>trace := trace s @ [PortSend t]\<rparr>))"

lemma inet_Some [simp]:
  "mInetPConnectionEnd s = Some p \<Longrightarrow> inet c s = Some (s\<lparr>trace := trace s @ [Inet c]\<rparr>)"
  by (simp add: inet_def)

lemma client_Some [simp]:
  "mInetCECallBack s = Some p \<Longrightarrow> client c s = Some (s\<lparr>trace := trace s @ [Client c]\<rparr>)"
  by (simp add: client_def)

lemma port_send_Some [simp]:
  "mInetCEPort s = Some p \<Longrightarrow> port_send t s = Some (s\<lparr>trace := trace s @ [PortSend t]\<rparr>)"
  by (simp add: port_send_def)

end
