(* ===== verification/Root_Loading.thy ===== *)
theory Root_Loading
  imports CE_State
begin

text \<open>
  The loading of the root certificates in \<^verbatim>\<open>PMbedTLSConnectionEnd::SSLConfigure\<close>: the names
  are listed with the two calls of \<^verbatim>\<open>ListRootCertificates\<close>; then each certificate is read
  into a block that is replaced by a larger one when it is too small, and parsed. The
  loop is proved to end, and to parse exactly the certificates that can be read, in the
  order of the list.
\<close>

section \<open>The code\<close>

text \<open>The characters of a C string, without its NUL.\<close>

definition c_string :: "bytes \<Rightarrow> bytes" where
  "c_string bs = takeWhile (\<lambda>c. c \<noteq> 0) bs"

text \<open>
  The loop over \<open>names\<close>, the rest of the list from the pointer \<^verbatim>\<open>name\<close>: \<open>cert\<close> and
  \<open>certPtrSize\<close> are the block and its size. \<open>None\<close>: it does not end, or writes through NULL.
\<close>

partial_function (option) load_certificates ::
    "('b, 'g, 'm) platform \<Rightarrow> bytes \<Rightarrow> bytes \<Rightarrow> nat \<Rightarrow> 'm \<Rightarrow> 'm option" where
  "load_certificates P names cert certPtrSize m =
     (if names = [] then Some m
      else
        (case GetRootCertificate_task (the_task P) (the_newt P) (c_string names) cert (Some certPtrSize) of
           (r, cert', io) \<Rightarrow>
             if 0 \<le> r \<and> int (the io) < r then
               (case new_ptr P (nat r) of
                  None \<Rightarrow> None
                | Some cert'' \<Rightarrow> load_certificates P names cert'' (nat r) m)
             else
               load_certificates P (drop (length (c_string names) + 1) names) cert' certPtrSize
                 (if 0 \<le> r then snd (x509_crt_parse P (take (the io) cert') m) else m)))"

declare load_certificates.simps [code]

text \<open>
  The block of \<^verbatim>\<open>SSLConfigure\<close> under \<^verbatim>\<open>mSSLLoadRootCertificates\<close>: the result is negative
  when it returns from the function, which leaves the heap it has switched to current.
\<close>

definition load_root_certificates ::
    "('b, 'g, 'm) platform \<Rightarrow> ('b, 'm) ce \<Rightarrow> (int \<times> ('b, 'm) ce) option" where
  "load_root_certificates P s =
     (let s1 = (if mRootCertificatesHeap s = None
                then s\<lparr>mRootCertificatesHeap := snd (new_vm_heap P)\<rparr> else s);
          callerHeap = cur_heap s1;
          s2 = s1\<lparr>cur_heap := mRootCertificatesHeap s1\<rparr>;
          (r, _, _) = ListRootCertificates_task (the_task P) (the_newt P) None
      in if r < 0 then Some (r, s2)
         else
           (let (r, bs, io) = ListRootCertificates_task (the_task P) (the_newt P) (Some (nat r))
            in if r < 0 then Some (r, s2)
               else do {
                 m \<leftarrow> load_certificates P (take (the io) bs) (case new_ptr P 0 of None \<Rightarrow> [] | Some p \<Rightarrow> p) 0 (mbed s2);
                 Some (0, s2\<lparr>mbed := m, cur_heap := callerHeap\<rparr>)
               }))"

section \<open>The loop ends\<close>

text \<open>The certificate a name stands for, when it can be used.\<close>

definition usable_certificate :: "soups \<Rightarrow> bytes \<Rightarrow> bytes option" where
  "usable_certificate W name =
     (case find_certificate W name of
        Inr (Some e) \<Rightarrow>
          if e_trust e
          then (case (if e_pem e = SNil then e_der e else e_pem e) of SBinary cert \<Rightarrow> Some cert | _ \<Rightarrow> None)
          else None
      | _ \<Rightarrow> None)"

text \<open>The names of a list, and the parser run on the usable certificates in order.\<close>

function c_strings :: "bytes \<Rightarrow> bytes list" where
  "c_strings names =
     (if names = [] then [] else c_string names # c_strings (drop (length (c_string names) + 1) names))"
  by pat_completeness auto

termination
  by (relation "measure length") auto

declare c_strings.simps [simp del]

definition parse_all :: "('b, 'g, 'm) platform \<Rightarrow> bytes list \<Rightarrow> 'm \<Rightarrow> 'm" where
  "parse_all P names m =
     fold (\<lambda>cert m. snd (x509_crt_parse P cert m))
       (List.map_filter (usable_certificate (cert_soups (the_newt P))) names) m"

text \<open>
  What the loop relies on: the other task answers, memory is available, the certificates
  are shorter than \<open>2 ^ 31\<close> bytes and no NewtonScript exception carries the data 0, which
  would read as an empty certificate.
\<close>

definition certificates_ok :: "('b, 'g, 'm) platform \<Rightarrow> bool" where
  "certificates_ok P \<longleftrightarrow> rpc_error (the_task P) = noErr
     \<and> (\<forall>n. \<exists>p. new_ptr P n = Some p \<and> length p = n)
     \<and> (\<forall>name. (\<forall>cert. usable_certificate (cert_soups (the_newt P)) name = Some cert \<longrightarrow> length cert < 2 ^ 31)
          \<and> (\<forall>x. find_certificate (cert_soups (the_newt P)) name = Inl x \<longrightarrow> - (2 ^ 31) \<le> get_catch x \<and> get_catch x < 0))"

lemma GetRootCertificate_usable:
  "usable_certificate W name = Some cert \<Longrightarrow>
    GetRootCertificate W name buf (Some n) =
      (if length cert \<le> n then (int (length cert), overwrite buf 0 cert, Some (length cert))
       else (int (length cert), buf, Some n))"
  by (auto simp: usable_certificate_def GetRootCertificate_def split: sum.splits option.splits
      if_splits slot.splits)

lemma GetRootCertificate_unusable:
  "usable_certificate W name = None \<Longrightarrow> (\<And>x. find_certificate W name = Inl x \<Longrightarrow> - (2 ^ 31) \<le> get_catch x \<and> get_catch x < 0) \<Longrightarrow>
    \<exists>r. GetRootCertificate W name buf (Some n) = (r, buf, Some n) \<and> - (2 ^ 31) \<le> r \<and> r < 0"
  by (auto simp: usable_certificate_def GetRootCertificate_def split: sum.splits option.splits
      if_splits slot.splits)

lemma task_certificate:
  "rpc_error T = noErr \<Longrightarrow> GetRootCertificate (cert_soups N) name buf io = (r, b, i) \<Longrightarrow>
    - (2 ^ 31) \<le> r \<Longrightarrow> r < 2 ^ 31 \<Longrightarrow> GetRootCertificate_task T N name buf io = (r, b, i)"
  by (simp add: GetRootCertificate_task_def SendRPCToNewtApp_def root_certificate_handler_def)

lemma load_certificates_fits:
  assumes "certificates_ok P" "names \<noteq> []" "length cert = sz"
    and "usable_certificate (cert_soups (the_newt P)) (c_string names) = Some c" "length c \<le> sz"
  shows "\<exists>cert'. length cert' = sz \<and> load_certificates P names cert sz m
     = load_certificates P (drop (length (c_string names) + 1) names) cert' sz (snd (x509_crt_parse P c m))"
proof -
  have "length c < 2 ^ 31" "rpc_error (the_task P) = noErr"
    using assms(1,4) unfolding certificates_ok_def by blast+
  then have "GetRootCertificate_task (the_task P) (the_newt P) (c_string names) cert (Some sz)
      = (int (length c), overwrite cert 0 c, Some (length c))"
    by (intro task_certificate) (simp_all add: GetRootCertificate_usable [OF assms(4)] assms(5))
  moreover have "take (length c) (overwrite cert 0 c) = c"
    using assms(3,5) by (simp add: overwrite_def)
  ultimately show ?thesis
    using assms(2,3) by (intro exI [of _ "overwrite cert 0 c"])
      (simp add: load_certificates.simps [of P names])
qed

lemma load_certificates_step:
  assumes "certificates_ok P" "names \<noteq> []" "length cert = sz"
  shows "\<exists>cert' sz'. length cert' = sz' \<and> load_certificates P names cert sz m
     = load_certificates P (drop (length (c_string names) + 1) names) cert' sz'
         (parse_all P [c_string names] m)"
proof (cases "usable_certificate (cert_soups (the_newt P)) (c_string names)")
  case None
  then obtain r where "GetRootCertificate (cert_soups (the_newt P)) (c_string names) cert (Some sz)
      = (r, cert, Some sz)" "- (2 ^ 31) \<le> r" "r < 0"
    using GetRootCertificate_unusable [OF None] assms(1) unfolding certificates_ok_def by metis
  moreover from this have "GetRootCertificate_task (the_task P) (the_newt P) (c_string names) cert (Some sz)
      = (r, cert, Some sz)"
    using assms(1) by (intro task_certificate) (simp_all add: certificates_ok_def)
  ultimately show ?thesis
    using assms(2,3) None
    by (intro exI [of _ cert] exI [of _ sz])
      (simp add: load_certificates.simps [of P names] parse_all_def List.map_filter_def)
next
  case (Some c)
  have parse: "parse_all P [c_string names] m = snd (x509_crt_parse P c m)"
    using Some by (simp add: parse_all_def List.map_filter_def)
  show ?thesis
  proof (cases "length c \<le> sz")
    case True
    then show ?thesis
      using load_certificates_fits [OF assms Some True, of m] parse by metis
  next
    case False
    have "length c < 2 ^ 31" "rpc_error (the_task P) = noErr"
      using assms(1) Some unfolding certificates_ok_def by blast+
    then have "GetRootCertificate_task (the_task P) (the_newt P) (c_string names) cert (Some sz)
        = (int (length c), cert, Some sz)"
      by (intro task_certificate) (simp_all add: GetRootCertificate_usable [OF Some] False)
    moreover obtain p where p: "new_ptr P (length c) = Some p" "length p = length c"
      using assms(1) unfolding certificates_ok_def by metis
    ultimately have "load_certificates P names cert sz m = load_certificates P names p (length c) m"
      using assms(2) False by (simp add: load_certificates.simps [of P names cert])
    then show ?thesis
      using load_certificates_fits [OF assms(1,2) p(2) Some order.refl, of m] parse by metis
  qed
qed

lemma load_certificates_all:
  "certificates_ok P \<Longrightarrow> length cert = sz \<Longrightarrow>
    load_certificates P names cert sz m = Some (parse_all P (c_strings names) m)"
proof (induction names arbitrary: cert sz m rule: c_strings.induct)
  case (1 names)
  show ?case
  proof (cases "names = []")
    case True
    then show ?thesis
      by (simp add: load_certificates.simps [of P] c_strings.simps [of "[]"] parse_all_def List.map_filter_def)
  next
    case False
    obtain cert' sz' where "length cert' = sz'" "load_certificates P names cert sz m
       = load_certificates P (drop (length (c_string names) + 1) names) cert' sz'
           (parse_all P [c_string names] m)"
      using load_certificates_step [OF 1(2) False 1(3)] by blast
    then show ?thesis
      using 1(1) [OF False 1(2), of cert' sz'] False
      by (simp add: c_strings.simps [of names] parse_all_def List.map_filter_def split: option.splits)
  qed
qed

section \<open>Which certificates are loaded\<close>

lemma tag_chars_string: "\<exists>cs. tag_chars us = cs @ [0] \<and> 0 \<notin> set cs"
proof (induction us)
  case Nil
  then show ?case by simp
next
  case (Cons u us)
  then obtain cs where "tag_chars us = cs @ [0]" "0 \<notin> set cs" by blast
  then show ?case
    by (cases "(ucast u :: byte) = 0") (auto intro: exI [of _ "ucast u # cs"])
qed

lemma c_strings_names_of: "c_strings (names_of es) = map (\<lambda>e. butlast (tag_chars (e_tag e))) es"
proof (induction es)
  case Nil
  then show ?case by (simp add: c_strings.simps)
next
  case (Cons e es)
  obtain cs where cs: "tag_chars (e_tag e) = cs @ [0]" "0 \<notin> set cs"
    using tag_chars_string by blast
  then have "c_string (names_of (e # es)) = cs"
    by (simp add: c_string_def takeWhile_append2 takeWhile_append)
  then show ?case
    using cs Cons by (simp add: c_strings.simps [of "cs @ 0 # names_of es"])
qed

lemma ListRootCertificates_all:
  assumes "package_soup W = Inr es" "union_soup W = Inr u" "u = None \<or> union_index_exn W = None"
  defines "n \<equiv> length (names_of (listed W es u))"
  shows "ListRootCertificates W (Some n) = (int n, names_of (listed W es u), Some n)"
proof (cases "n = 0")
  case True
  then show ?thesis
    using ListRootCertificates_eq [OF assms(1-3), of "Some n"]
      emit_zero_cap [of "\<lparr>live = True, written = [], total = 0\<rparr>"]
    by (simp add: n_def)
next
  case False
  then show ?thesis
    using list_certificates_bounded_aux [OF assms(1-3), of n] by (simp add: n_def)
qed

lemma ListRootCertificates_task_all:
  "rpc_error T = noErr \<Longrightarrow> ListRootCertificates (cert_soups N) dest = (r, bs, io) \<Longrightarrow> 0 \<le> r \<Longrightarrow> r < 2 ^ 31 \<Longrightarrow>
    ListRootCertificates_task T N dest = (r, bs, io)"
  by (simp add: ListRootCertificates_task_def SendRPCToNewtApp_def list_certificates_handler_def)

lemma load_root_certificates_eq:
  assumes "certificates_ok P"
    and "package_soup (cert_soups (the_newt P)) = Inr es" "union_soup (cert_soups (the_newt P)) = Inr u"
    and "u = None \<or> union_index_exn (cert_soups (the_newt P)) = None"
    and "length (names_of (listed (cert_soups (the_newt P)) es u)) < 2 ^ 31"
  shows "load_root_certificates P s =
     Some (0, s\<lparr>mRootCertificatesHeap := (if mRootCertificatesHeap s = None then snd (new_vm_heap P)
                                          else mRootCertificatesHeap s),
        mbed := parse_all P (map (\<lambda>e. butlast (tag_chars (e_tag e)))
                   (listed (cert_soups (the_newt P)) es u)) (mbed s)\<rparr>)"
proof -
  let ?W = "cert_soups (the_newt P)"
  let ?n = "length (names_of (listed ?W es u))"
  have rpc: "rpc_error (the_task P) = noErr"
    using assms(1) unfolding certificates_ok_def by blast
  obtain p where p: "new_ptr P 0 = Some p" "length p = 0"
    using assms(1) unfolding certificates_ok_def by metis
  have "ListRootCertificates_task (the_task P) (the_newt P) None = (int ?n, [], None)"
    by (rule ListRootCertificates_task_all [OF rpc list_certificates_first [OF assms(2-4)]])
      (use assms(5) in simp_all)
  moreover have "ListRootCertificates_task (the_task P) (the_newt P) (Some ?n)
      = (int ?n, names_of (listed ?W es u), Some ?n)"
    by (rule ListRootCertificates_task_all [OF rpc ListRootCertificates_all [OF assms(2-4)]])
      (use assms(5) in simp_all)
  ultimately show ?thesis
    using load_certificates_all [OF assms(1), of p 0] p
    by (simp add: load_root_certificates_def Let_def c_strings_names_of)
qed

end
