(* ===== verification/CE_Engine.thy ===== *)
theory CE_Engine
  imports Root_Loading
begin

text \<open>
  The engine of the connection end, after \<^verbatim>\<open>PMbedTLSConnectionEnd.cpp\<close>: the send and
  receive callbacks given to mbed TLS, the completions of the inet tool that feed them,
  the two timer callbacks, the execution of a call of the library with its callbacks, and
  \<^verbatim>\<open>DoSSLRead\<close>, \<^verbatim>\<open>DoSSLHandshake\<close>, \<^verbatim>\<open>SSLConfigure\<close> and \<^verbatim>\<open>SSLUnconfigure\<close>. The value
  \<open>None\<close> is a call that does not return: a call or a store through NULL, or a loop that
  does not end.
\<close>

section \<open>Sending\<close>

text \<open>The inet tool takes \<open>n\<close> bytes of the put buffer.\<close>

definition inet_take :: "('b, 'g, 'm) platform \<Rightarrow> nat \<Rightarrow> ('b, 'm) ce \<Rightarrow> ('b, 'm) ce option" where
  "inet_take P n s = do {
     b \<leftarrow> mPutDataBuffer s;
     let (bs, b') = Getn (bufs P) b n;
     Some (s\<lparr>mPutDataBuffer := Some b', taken := taken s @ bs\<rparr>)
   }"

text \<open>
  \<^verbatim>\<open>PutCompleteCB\<close>; \<open>put\<close> is its call of \<^verbatim>\<open>PutBytesStart(mPutDataBuffer)\<close>, which may complete
  in turn before it returns.
\<close>

definition PutCompleteCB_with ::
    "('b, 'g, 'm) platform \<Rightarrow> (('b, 'm) ce \<Rightarrow> ('b, 'm) ce option) \<Rightarrow> int \<Rightarrow> nat \<Rightarrow> ('b, 'm) ce
      \<Rightarrow> ('b, 'm) ce option" where
  "PutCompleteCB_with P put result putBytesCount s =
     (if mSSLConfigured s then
        (let s1 = s\<lparr>mSendPending := False\<rparr>
         in if result \<noteq> noErr then Some (s1\<lparr>mSendError := result\<rparr>)
            else do {
              putb \<leftarrow> mPutDataBuffer s1;
              if AtEOF (bufs P) putb then do {
                sendb \<leftarrow> mSendBuffer s1;
                (sendb', putb', moreSegments) \<leftarrow> move_segments (bufs P) sendb (DeleteAll (bufs P) putb) False;
                let s2 = s1\<lparr>mSendBuffer := Some sendb', mPutDataBuffer := Some putb'\<rparr>;
                if moreSegments then put (s2\<lparr>mSendPending := True\<rparr>) else Some s2
              }
              else put (s1\<lparr>mSendPending := True\<rparr>)
            })
      else client (cPutComplete result putBytesCount) s)"

text \<open>The call of the inet tool, given the replies it will make while it runs.\<close>

fun inet_put :: "('b, 'g, 'm) platform \<Rightarrow> put_reply list \<Rightarrow> ('b, 'm) ce \<Rightarrow> ('b, 'm) ce option" where
  "inet_put P [] s = inet iPutData (s\<lparr>put_replies := []\<rparr>)"
| "inet_put P (PutLater # rs) s = inet iPutData (s\<lparr>put_replies := rs\<rparr>)"
| "inet_put P (PutNow result n # rs) s = do {
     s \<leftarrow> inet iPutData (s\<lparr>put_replies := rs\<rparr>);
     s \<leftarrow> inet_take P n s;
     PutCompleteCB_with P (\<lambda>s. inet_put P rs s) result n s
   }"

definition PutBytesStart_data :: "('b, 'g, 'm) platform \<Rightarrow> ('b, 'm) ce \<Rightarrow> ('b, 'm) ce option" where
  "PutBytesStart_data P s = inet_put P (put_replies s) s"

definition PutCompleteCB ::
    "('b, 'g, 'm) platform \<Rightarrow> int \<Rightarrow> nat \<Rightarrow> ('b, 'm) ce \<Rightarrow> ('b, 'm) ce option" where
  "PutCompleteCB P = PutCompleteCB_with P (PutBytesStart_data P)"

definition SSLSendCallback ::
    "('b, 'g, 'm) platform \<Rightarrow> bytes \<Rightarrow> ('b, 'm) ce \<Rightarrow> (int \<times> ('b, 'm) ce) option" where
  "SSLSendCallback P buf s =
     (if mSendError s \<noteq> noErr then Some (mSendError s, s)
      else do {
        ptr \<leftarrow> new_ptr P (length buf);
        sendb \<leftarrow> mSendBuffer s;
        let s1 = s\<lparr>mSendBuffer := Some (InsertLast (bufs P) sendb (seg_init (bufs P) (overwrite ptr 0 buf))),
                   accepted := accepted s @ buf\<rparr>;
        s2 \<leftarrow> (if \<not> mSendPending s1 then do {
                 sendb \<leftarrow> mSendBuffer s1;
                 putb \<leftarrow> mPutDataBuffer s1;
                 (sendb', putb', _) \<leftarrow> move_segments (bufs P) sendb putb False;
                 PutBytesStart_data P
                   (s1\<lparr>mSendBuffer := Some sendb', mPutDataBuffer := Some putb', mSendPending := True\<rparr>)
               }
               else Some s1);
        Some (int (length buf), s2)
      })"

section \<open>Receiving\<close>

definition kAsyncReadMessageType :: ulong where
  "kAsyncReadMessageType = 0x00544C53"

definition GetCompleteCB ::
    "('b, 'g, 'm) platform \<Rightarrow> int \<Rightarrow> bool \<Rightarrow> nat \<Rightarrow> ('b, 'm) ce \<Rightarrow> ('b, 'm) ce option" where
  "GetCompleteCB P result endOfFrame getBytesCount s =
     (if mSSLConfigured s then do {
        let s1 = s\<lparr>mRecvPending := False\<rparr>;
        s2 \<leftarrow> (if result = 0 then
                 (if getBytesCount = 0 then Some (s1\<lparr>mPeerClosed := True\<rparr>)
                  else do {
                    let s3 = (case mSSLRecvBuffer s1 of
                        Some p \<Rightarrow> s1\<lparr>mSSLRecvBuffer := realloc_ptr P p (mSSLRecvBufferSize s1 + getBytesCount)\<rparr>
                      | None \<Rightarrow> s1\<lparr>mSSLRecvBuffer := new_ptr P getBytesCount, mSSLRecvBufferSize := 0\<rparr>);
                    getb \<leftarrow> mGetDataBuffer s3;
                    recv \<leftarrow> mSSLRecvBuffer s3;
                    let (bs, getb') = Getn (bufs P) (buf_Reset (bufs P) getb) getBytesCount;
                    Some (s3\<lparr>mSSLRecvBuffer := Some (overwrite recv (mSSLRecvBufferSize s3) bs),
                             mGetDataBuffer := Some (DeleteAll (bufs P) getb'),
                             mSSLRecvBufferSize := mSSLRecvBufferSize s3 + getBytesCount\<rparr>)
                  })
               else Some (s1\<lparr>mRecvError := result\<rparr>));
        if \<not> mSSLReceiveInProgress s2 then port_send kAsyncReadMessageType s2 else Some s2
      }
      else client (cGetComplete result endOfFrame getBytesCount) s)"

text \<open>The inet tool stores what it received in the get buffer and completes.\<close>

definition inet_deliver ::
    "('b, 'g, 'm) platform \<Rightarrow> int \<Rightarrow> bytes \<Rightarrow> ('b, 'm) ce \<Rightarrow> ('b, 'm) ce option" where
  "inet_deliver P result bs s = do {
     getb \<leftarrow> mGetDataBuffer s;
     let (n, getb') = Putn (bufs P) getb bs;
     GetCompleteCB P result True n
       (s\<lparr>mGetDataBuffer := Some getb',
          received := (if result = noErr then received s @ take n bs else received s)\<rparr>)
   }"

definition GetBytesImmediateStart_data ::
    "('b, 'g, 'm) platform \<Rightarrow> nat \<Rightarrow> ('b, 'm) ce \<Rightarrow> ('b, 'm) ce option" where
  "GetBytesImmediateStart_data P threshold s = do {
     s \<leftarrow> inet (iGetData threshold) s;
     case get_replies s of
       [] \<Rightarrow> Some s
     | GetLater # rs \<Rightarrow> Some (s\<lparr>get_replies := rs\<rparr>)
     | GetNow result bs # rs \<Rightarrow> inet_deliver P result bs (s\<lparr>get_replies := rs\<rparr>)
   }"

text \<open>
  The copy out of the receive buffer. When bytes are left, the code moves the block that
  starts at the end of the buffer (\<^verbatim>\<open>mSSLRecvBuffer + mSSLRecvBufferSize\<close>) to its start.
\<close>

definition consume_received ::
    "('b, 'g, 'm) platform \<Rightarrow> nat \<Rightarrow> ('b, 'm) ce \<Rightarrow> (int \<times> bytes \<times> ('b, 'm) ce) option" where
  "consume_received P len s = do {
     recv \<leftarrow> mSSLRecvBuffer s;
     let copied = (if mSSLRecvBufferSize s > len then len else mSSLRecvBufferSize s);
     let out = take copied recv;
     let s1 = s\<lparr>delivered := delivered s @ out\<rparr>;
     if copied = mSSLRecvBufferSize s
     then Some (int copied, out, s1\<lparr>mSSLRecvBuffer := None, mSSLRecvBufferSize := 0\<rparr>)
     else
       (let left = mSSLRecvBufferSize s - copied;
            recv' = overwrite recv 0 (past_end P left)
        in Some (int copied, out, s1\<lparr>mSSLRecvBuffer := realloc_ptr P recv' left, mSSLRecvBufferSize := left\<rparr>))
   }"

definition SSLRecvCallback ::
    "('b, 'g, 'm) platform \<Rightarrow> nat \<Rightarrow> ('b, 'm) ce \<Rightarrow> (int \<times> bytes \<times> ('b, 'm) ce) option" where
  "SSLRecvCallback P len s =
     (if mRecvError s \<noteq> noErr then Some (mRecvError s, [], s)
      else if mPeerClosed s then Some (0, [], s)
      else do {
        s1 \<leftarrow> (if mSSLRecvBufferSize s < len \<and> \<not> mRecvPending s then do {
                 getb \<leftarrow> mGetDataBuffer s;
                 let segment = seg_room (bufs P) (len - mSSLRecvBufferSize s);
                 s2 \<leftarrow> GetBytesImmediateStart_data P 1
                         (s\<lparr>mRecvPending := True, mGetDataBuffer := Some (InsertLast (bufs P) getb segment),
                            mSSLReceiveInProgress := True\<rparr>);
                 Some (s2\<lparr>mSSLReceiveInProgress := False\<rparr>)
               }
               else Some s);
        if mRecvError s1 \<noteq> noErr then Some (mRecvError s1, [], s1)
        else if mSSLRecvBufferSize s1 = 0 then Some (ERR_SSL_WANT_READ P, [], s1)
        else consume_received P len s1
      })"

section \<open>The timer\<close>

definition SSLSetTimerCallback :: "ulong \<Rightarrow> ulong \<Rightarrow> ('b, 'm) ce \<Rightarrow> ('b, 'm) ce" where
  "SSLSetTimerCallback int_ms fin_ms s =
     (if fin_ms = 0
      then s\<lparr>mSSLTimerInt := 0, mSSLTimerFin := 0, mSSLTimerFired := False\<rparr>
      else (let nowms = clock_ms s
            in s\<lparr>mSSLTimerInt := int_ms + nowms, mSSLTimerFin := fin_ms + nowms, mSSLTimerFired := False\<rparr>))"

definition SSLGetTimerCallback :: "('b, 'm) ce \<Rightarrow> int" where
  "SSLGetTimerCallback s =
     (if mSSLTimerFin s = 0 then - 1
      else (let nowms = clock_ms s
            in if nowms \<ge> mSSLTimerFin s then 2
               else if nowms \<ge> mSSLTimerInt s then 1
               else 0))"

section \<open>Calls of the library\<close>

primrec run :: "'r io \<Rightarrow> ('b, 'g, 'm) platform \<Rightarrow> ('b, 'm) ce \<Rightarrow> ('r \<times> ('b, 'm) ce) option" where
  "run (Ret r) P s = Some (r, s)"
| "run (Send bs k) P s =
     (case SSLSendCallback P bs s of None \<Rightarrow> None | Some (x, s') \<Rightarrow> run (k x) P s')"
| "run (Recv n k) P s =
     (case SSLRecvCallback P n s of None \<Rightarrow> None | Some (x, bs, s') \<Rightarrow> run (k x bs) P s')"
| "run (SetTimer a b k) P s = run k P (SSLSetTimerCallback a b s)"
| "run (GetTimer k) P s = run (k (SSLGetTimerCallback s)) P s"

definition close_notify :: "('b, 'g, 'm) platform \<Rightarrow> ('b, 'm) ce \<Rightarrow> ('b, 'm) ce option" where
  "close_notify P s = do {
     ((r, m), s) \<leftarrow> run (ssl_close_notify P (mbed s)) P s;
     Some (s\<lparr>mbed := m\<rparr>)
   }"

definition session_reset :: "('b, 'g, 'm) platform \<Rightarrow> ('b, 'm) ce \<Rightarrow> ('b, 'm) ce option" where
  "session_reset P s = do {
     (m, s) \<leftarrow> run (ssl_session_reset P (mbed s)) P s;
     Some (s\<lparr>mbed := m\<rparr>)
   }"

section \<open>Reading\<close>

text \<open>
  The library stores what it read at \<^verbatim>\<open>mSSLReadBuffer + mSSLReadCount\<close>; nothing is stored
  for no byte, even at NULL.
\<close>

definition store_read :: "bytes \<Rightarrow> ('b, 'm) ce \<Rightarrow> ('b, 'm) ce option" where
  "store_read bs s =
     (if bs = [] then Some s
      else do {
        p \<leftarrow> mSSLReadBuffer s;
        Some (s\<lparr>mSSLReadBuffer := Some (overwrite p (mSSLReadCount s) bs)\<rparr>)
      })"

text \<open>\<^verbatim>\<open>Putn\<close> of the read bytes to the client's buffer, and the read buffer disposed of.\<close>

definition hand_over :: "('b, 'g, 'm) platform \<Rightarrow> ('b, 'm) ce \<Rightarrow> ('b, 'm) ce option" where
  "hand_over P s = do {
     bs \<leftarrow> (if mSSLReadCount s = 0 then Some [] else map_option (take (mSSLReadCount s)) (mSSLReadBuffer s));
     let (copied, b) = Putn (bufs P) (client_get s) bs;
     Some (s\<lparr>client_get := b, mSSLReadBuffer := None, mSSLReadBufferSize := 0\<rparr>)
   }"

text \<open>One round of the loop: it goes on (\<open>Inl\<close>) or breaks (\<open>Inr\<close>).\<close>

definition DoSSLRead_step ::
    "('b, 'g, 'm) platform \<Rightarrow> nat \<Rightarrow> ('b, 'm) ce \<Rightarrow> (('b, 'm) ce + ('b, 'm) ce) option" where
  "DoSSLRead_step P threshold s = do {
     ((r, bs, m), s) \<leftarrow> run (ssl_read P (mSSLReadBufferSize s - mSSLReadCount s) (mbed s)) P s;
     s \<leftarrow> store_read bs (s\<lparr>mbed := m\<rparr>);
     if r \<ge> 0 then
       (let s = s\<lparr>mSSLReadCount := mSSLReadCount s + nat r\<rparr>
        in if mSSLReadCount s \<ge> threshold then do {
             s \<leftarrow> hand_over P s;
             s \<leftarrow> client (cGetComplete 0 True (mSSLReadCount s)) s;
             Some (Inr (s\<lparr>mSSLReadCount := 0\<rparr>))
           }
           else Some (Inl s))
     else if r = ERR_SSL_WANT_READ P \<or> r = ERR_SSL_WANT_WRITE P then Some (Inr s)
     else do {
       s \<leftarrow> (if r = ERR_SSL_PEER_CLOSE_NOTIFY P then close_notify P s else Some s);
       let err = (if r = ERR_SSL_PEER_CLOSE_NOTIFY P \<or> r = ERR_SSL_CONN_EOF P then 0 else r);
       let s = s\<lparr>mEstablished := False, mClosing := True\<rparr>;
       s \<leftarrow> (if mSSLReadCount s > 0 then hand_over P s else Some s);
       s \<leftarrow> session_reset P s;
       s \<leftarrow> client (cGetComplete err True (mSSLReadCount s)) s;
       Some (Inr s)
     }
   }"

partial_function (option) DoSSLRead ::
    "('b, 'g, 'm) platform \<Rightarrow> nat \<Rightarrow> ('b, 'm) ce \<Rightarrow> ('b, 'm) ce option" where
  "DoSSLRead P threshold s =
     (case DoSSLRead_step P threshold s of
        None \<Rightarrow> None
      | Some (Inl s') \<Rightarrow> DoSSLRead P threshold s'
      | Some (Inr s') \<Rightarrow> Some s')"

declare DoSSLRead.simps [code]

section \<open>The handshake\<close>

definition DoSSLHandshake :: "('b, 'g, 'm) platform \<Rightarrow> ('b, 'm) ce \<Rightarrow> ('b, 'm) ce option" where
  "DoSSLHandshake P s = do {
     ((r, m), s) \<leftarrow> run (ssl_handshake P (mbed s)) P s;
     let s = s\<lparr>mbed := m\<rparr>;
     if r = 0 then
       (let s = s\<lparr>mEstablished := True\<rparr>
        in if mUpgradable s then client (cProcessOptionComplete (opSuccess P)) s
           else client (cConnectComplete 0) s)
     else if r \<noteq> ERR_SSL_WANT_READ P \<and> r \<noteq> ERR_SSL_WANT_WRITE P then do {
       s \<leftarrow> session_reset P (s\<lparr>mEstablished := False, mClosing := True\<rparr>);
       client (cConnectComplete r) s
     }
     else Some s
   }"

section \<open>Configuration\<close>

text \<open>
  The part of \<^verbatim>\<open>SSLConfigure\<close> after the root certificates: the configuration, the context
  with its callbacks, and the members.
\<close>

definition setup_context :: "('b, 'g, 'm) platform \<Rightarrow> ('b, 'm) ce \<Rightarrow> ('b, 'm) ce option" where
  "setup_context P s = do {
     let m = ssl_set_bio P (ssl_setup P (ssl_conf_authmode P (mSSLAuthMode s)
               (ssl_conf_ca_chain P (ssl_conf_rng P (ssl_config_defaults P (mbed s))))));
     (m, s) \<leftarrow> run (ssl_set_timer_cb P m) P s;
     let s = s\<lparr>mbed := (case mSSLHostname s of None \<Rightarrow> m | Some h \<Rightarrow> ssl_set_hostname P (c_string h) m),
               mSSLHostname := None\<rparr>;
     msg \<leftarrow> new_async_message P;
     Some (s\<lparr>mAsyncReadMessage := Some msg,
             mPutDataBuffer := Some (buf_new (bufs P)), mSendBuffer := Some (buf_new (bufs P)),
             mSendPending := False, mSendError := noErr,
             mGetDataBuffer := Some (buf_new (bufs P)),
             mSSLRecvBuffer := None, mSSLRecvBufferSize := 0,
             mRecvPending := False, mSSLReceiveInProgress := False, mRecvError := noErr,
             mSSLConfigured := True, mEstablished := False, mClosing := False, mPeerClosed := False,
             mSSLReadBuffer := None, mSSLReadBufferSize := 0,
             accepted := [], taken := [], received := [], delivered := []\<rparr>)
   }"

definition SSLConfigure :: "('b, 'g, 'm) platform \<Rightarrow> ('b, 'm) ce \<Rightarrow> (int \<times> ('b, 'm) ce) option" where
  "SSLConfigure P s = do {
     _ \<leftarrow> mInetCECallBack s;
     let s = s\<lparr>mInetCEPort := connection_end_port P\<rparr>;
     let serialNumber = snd (GetSerialNumber (the_task P) (the_newt P) (past_end P SERIAL_NUMBER_LEN));
     let (r, m) = ctr_drbg_seed P serialNumber (entropy_add_hardclock P (mbed s));
     let s = s\<lparr>mbed := m\<rparr>;
     if r \<noteq> 0 then Some (r, s)
     else do {
       (r, s) \<leftarrow> (if mSSLLoadRootCertificates s then load_root_certificates P s else Some (0, s));
       if r < 0 then Some (r, s)
       else do {
         s \<leftarrow> setup_context P s;
         Some (0, s)
       }
     }
   }"

definition SSLUnconfigure :: "('b, 'm) ce \<Rightarrow> ('b, 'm) ce" where
  "SSLUnconfigure s =
     s\<lparr>mPutDataBuffer := None, mSendBuffer := None, mGetDataBuffer := None, mSSLRecvBuffer := None,
       mSSLReadBuffer := None, mAsyncReadMessage := None, mSSLHostname := None, mSSLConfigured := False\<rparr>"

end
