(* ===== verification/CE_Requests.thy ===== *)
theory CE_Requests
  imports CE_Engine
begin

text \<open>
  The requests of the client to the connection end, \<^verbatim>\<open>PMbedTLSConnectionEnd\<close>'s methods up
  to \<^verbatim>\<open>ForwardOptions\<close>, and its construction and destruction. A request that TLS does not
  concern, or that arrives when TLS is not configured, goes to the inet tool. The buffer
  the client passes with a put or a get is its current put or get buffer, the one
  \<^verbatim>\<open>GetCurPutData\<close> and \<^verbatim>\<open>GetCurGetData\<close> return: the fields \<open>client_put\<close> and
  \<open>client_get\<close> of the state.
\<close>

section \<open>Life of the object\<close>

text \<open>
  \<^verbatim>\<open>New\<close> gives NULL (\<open>Some None\<close>) when the inet tool's class is not registered. The object
  is made in memory that holds anything (\<open>raw\<close>): the members it does not set keep it.
\<close>

definition CE_New :: "('b, 'g, 'm) platform \<Rightarrow> ('b, 'm) ce \<Rightarrow> ('b, 'm) ce option option" where
  "CE_New P raw =
     (let (theErr, info) = name_server_lookup P
      in if theErr = kError_Not_Registered P then Some None
         else
           (case cecallback_new P of
              None \<Rightarrow> None
            | Some cb \<Rightarrow> Some (Some (raw\<lparr>
                mInetPConnectionEndClassInfo := info, mInetPConnectionEnd := class_new P info,
                mThisCECallBack := Some cb,
                mSSLConfigured := False, mUpgradable := False, mInetCECallBack := None,
                mPutDataBuffer := None, mGetDataBuffer := None, mSendBuffer := None,
                mSSLRecvBuffer := None, mSSLReadBuffer := None, mAsyncReadMessage := None,
                mSSLHostname := None, mSSLAuthMode := SSL_VERIFY_REQUIRED P,
                mbed := ssl_init P (ssl_config_init P (x509_crt_init P (ctr_drbg_init P (entropy_init P (mbed raw))))),
                mSSLLoadRootCertificates := True, mRootCertificatesHeap := None\<rparr>))))"

definition CE_Delete :: "('b, 'g, 'm) platform \<Rightarrow> ('b, 'm) ce \<Rightarrow> ('b, 'm) ce option" where
  "CE_Delete P s = do {
     let s = (if mSSLConfigured s then SSLUnconfigure s else s);
     let s = s\<lparr>mbed := entropy_free P (ctr_drbg_free P (x509_crt_free P (ssl_config_free P (ssl_free P (mbed s))))),
               mRootCertificatesHeap := None\<rparr>;
     s \<leftarrow> inet iDelete s;
     case mInetCECallBack s of
       None \<Rightarrow> Some s
     | Some _ \<Rightarrow> client cDelete s
   }"

definition CE_Init ::
    "('b, 'g, 'm) platform \<Rightarrow> nat \<Rightarrow> nat \<Rightarrow> nat \<Rightarrow> ('b, 'm) ce \<Rightarrow> (int \<times> ('b, 'm) ce) option" where
  "CE_Init P pmuxToolPtr ceCallBack ceNumber s = do {
     let s = s\<lparr>mInetCECallBack := Some ceCallBack\<rparr>;
     cb \<leftarrow> mThisCECallBack s;
     s \<leftarrow> inet (iInit pmuxToolPtr cb ceNumber) s;
     Some (inet_init P, s)
   }"

section \<open>Requests handed on\<close>

definition HandleInternalRequest :: "nat \<Rightarrow> ('b, 'm) ce \<Rightarrow> ('b, 'm) ce option" where
  "HandleInternalRequest msgBuf s = inet (iHandleInternalRequest msgBuf) s"

definition HandleInternalEvent :: "('b, 'm) ce \<Rightarrow> ('b, 'm) ce option" where
  "HandleInternalEvent s = inet iHandleInternalEvent s"

definition BindStart :: "('b, 'm) ce \<Rightarrow> ('b, 'm) ce option" where
  "BindStart s = inet iBindStart s"

definition UnbindStart :: "('b, 'm) ce \<Rightarrow> ('b, 'm) ce option" where
  "UnbindStart s = inet iUnbindStart s"

definition ListenStart :: "('b, 'm) ce \<Rightarrow> ('b, 'm) ce option" where
  "ListenStart s = inet iListenStart s"

definition AcceptStart :: "('b, 'm) ce \<Rightarrow> ('b, 'm) ce option" where
  "AcceptStart s = inet iAcceptStart s"

definition ReleaseStart :: "('b, 'm) ce \<Rightarrow> ('b, 'm) ce option" where
  "ReleaseStart s = inet iReleaseStart s"

definition HandleReply :: "ulong \<Rightarrow> ulong \<Rightarrow> ('b, 'm) ce \<Rightarrow> ('b, 'm) ce option" where
  "HandleReply userRefCon msgType s = inet (iHandleReply userRefCon msgType) s"

definition KillControlStart :: "('b, 'm) ce \<Rightarrow> ('b, 'm) ce option" where
  "KillControlStart s = inet iKillControlStart s"

definition KillGetCommEventStart :: "('b, 'm) ce \<Rightarrow> ('b, 'm) ce option" where
  "KillGetCommEventStart s = inet iKillGetCommEventStart s"

definition GetCommEvent :: "('b, 'm) ce \<Rightarrow> ('b, 'm) ce option" where
  "GetCommEvent s = inet iGetCommEvent s"

definition ResArbReleaseStart :: "nat \<Rightarrow> nat \<Rightarrow> ('b, 'm) ce \<Rightarrow> ('b, 'm) ce option" where
  "ResArbReleaseStart resName resType s = inet (iResArbReleaseStart resName resType) s"

definition ResArbClaimNotification :: "nat \<Rightarrow> nat \<Rightarrow> ('b, 'm) ce \<Rightarrow> ('b, 'm) ce option" where
  "ResArbClaimNotification resName resType s = inet (iResArbClaimNotification resName resType) s"

definition ForwardOptions :: "('b, 'm) ce \<Rightarrow> ('b, 'm) ce option" where
  "ForwardOptions s = inet iForwardOptions s"

definition ProcessPutBytesOptionStart ::
    "('b, 'g, 'm) platform \<Rightarrow> ulong \<Rightarrow> ulong \<Rightarrow> ('b, 'm) ce \<Rightarrow> (ulong \<times> ('b, 'm) ce) option" where
  "ProcessPutBytesOptionStart P label opcode s = do {
     s \<leftarrow> inet (iProcessPutBytesOptionStart label opcode) s;
     Some (inet_option_result P label opcode, s)
   }"

definition ProcessGetBytesOptionStart ::
    "('b, 'g, 'm) platform \<Rightarrow> ulong \<Rightarrow> ulong \<Rightarrow> ('b, 'm) ce \<Rightarrow> (ulong \<times> ('b, 'm) ce) option" where
  "ProcessGetBytesOptionStart P label opcode s = do {
     s \<leftarrow> inet (iProcessGetBytesOptionStart label opcode) s;
     Some (inet_option_result P label opcode, s)
   }"

section \<open>Opening, connecting and closing\<close>

definition OpenStart :: "('b, 'm) ce \<Rightarrow> ('b, 'm) ce option" where
  "OpenStart s = inet iOpenStart (s\<lparr>mSSLEnabled := False, mSSLConfigured := False\<rparr>)"

definition CloseStart :: "('b, 'm) ce \<Rightarrow> ('b, 'm) ce option" where
  "CloseStart s = do {
     s \<leftarrow> inet iCloseStart s;
     Some (if mSSLConfigured s then SSLUnconfigure s else s)
   }"

definition ConnectStart :: "('b, 'g, 'm) platform \<Rightarrow> ('b, 'm) ce \<Rightarrow> ('b, 'm) ce option" where
  "ConnectStart P s =
     (if mSSLEnabled s then do {
        (r, s) \<leftarrow> SSLConfigure P s;
        if r \<noteq> 0 then client (cConnectComplete r) s else inet iConnectStart s
      }
      else inet iConnectStart s)"

definition TerminateStart :: "('b, 'g, 'm) platform \<Rightarrow> ('b, 'm) ce \<Rightarrow> ('b, 'm) ce option" where
  "TerminateStart P s = do {
     s \<leftarrow> (if mSSLConfigured s \<and> mEstablished s then do {
             s \<leftarrow> close_notify P s;
             Some (s\<lparr>mEstablished := False, mClosing := True\<rparr>)
           }
           else Some s);
     inet iTerminateStart s
   }"

section \<open>Putting and getting bytes\<close>

definition PutBytesStart :: "('b, 'g, 'm) platform \<Rightarrow> ('b, 'm) ce \<Rightarrow> ('b, 'm) ce option" where
  "PutBytesStart P s =
     (if mSSLConfigured s then
        (if mClosing s then client (cPutComplete (kCommErrConnectionAborted P) 0) s
         else if mEstablished s then do {
           let totalSize = GetSize (bufs P) (client_put s);
           let pos = Position (bufs P) (client_put s);
           let (buf, clientBuffer) = Getn (bufs P) (client_put s) (totalSize - pos);
           let len = length buf;
           ((r, m), s) \<leftarrow> run (ssl_write P buf (mbed s)) P (s\<lparr>client_put := clientBuffer\<rparr>);
           let s = s\<lparr>mbed := m\<rparr>;
           if r \<ge> 0 then
             (let s = (if r < int len
                       then s\<lparr>client_put := Seek (bufs P) (client_put s) (pos + nat r) (- 1)\<rparr> else s)
              in client (cPutComplete 0 (nat r)) s)
           else do {
             s \<leftarrow> session_reset P (s\<lparr>mEstablished := False\<rparr>);
             client (cPutComplete (kCommErrConnectionAborted P) 0) s
           }
         }
         else client (cPutComplete (kCommErrNotConnected P) 0) s)
      else inet iPutBytesStart s)"

definition PutFramedBytesStart ::
    "('b, 'g, 'm) platform \<Rightarrow> bool \<Rightarrow> ('b, 'm) ce \<Rightarrow> ('b, 'm) ce option" where
  "PutFramedBytesStart P endOfFrame s =
     (if mSSLConfigured s then client (cPutComplete (kCommErrMethodNotImplemented P) 0) s
      else inet (iPutFramedBytesStart endOfFrame) s)"

definition KillPutStart :: "('b, 'g, 'm) platform \<Rightarrow> ('b, 'm) ce \<Rightarrow> ('b, 'm) ce option" where
  "KillPutStart P s =
     (if mSSLConfigured s then client (cKillPutComplete (kCommErrMethodNotImplemented P)) s
      else inet iKillPutStart s)"

definition GetBytesStart :: "('b, 'g, 'm) platform \<Rightarrow> ('b, 'm) ce \<Rightarrow> ('b, 'm) ce option" where
  "GetBytesStart P s =
     (if mSSLConfigured s then
        (if mEstablished s then
           (if mSSLReadBuffer s \<noteq> None
            then client (cGetComplete (kCommErrCommandInProgress P) False 0) s
            else
              (let totalSize = GetSize (bufs P) (client_get s);
                   pos = Position (bufs P) (client_get s)
               in DoSSLRead P 0 (s\<lparr>mSSLReadBufferSize := totalSize - pos,
                     mSSLReadBuffer := new_ptr P (totalSize - pos), mSSLReadCount := 0\<rparr>)))
         else client (cGetComplete (kCommErrNotConnected P) False 0) s)
      else inet iGetBytesStart s)"

definition GetFramedBytesStart :: "('b, 'g, 'm) platform \<Rightarrow> ('b, 'm) ce \<Rightarrow> ('b, 'm) ce option" where
  "GetFramedBytesStart P s =
     (if mSSLConfigured s then client (cGetComplete (kCommErrMethodNotImplemented P) False 0) s
      else inet iGetFramedBytesStart s)"

definition GetBytesImmediateStart ::
    "('b, 'g, 'm) platform \<Rightarrow> nat \<Rightarrow> ('b, 'm) ce \<Rightarrow> ('b, 'm) ce option" where
  "GetBytesImmediateStart P threshold s =
     (if mSSLConfigured s then
        (if mEstablished s then
           (if mSSLReadBuffer s \<noteq> None
            then client (cGetComplete (kCommErrCommandInProgress P) False 0) s
            else
              (let totalSize = GetSize (bufs P) (client_get s);
                   pos = Position (bufs P) (client_get s)
               in DoSSLRead P threshold (s\<lparr>mSSLReadBufferSize := totalSize - pos,
                     mSSLReadBuffer := new_ptr P (totalSize - pos), mSSLReadCount := 0\<rparr>)))
         else client (cGetComplete (kCommErrNotConnected P) False 0) s)
      else inet (iGetBytesImmediateStart threshold) s)"

definition KillGetStart :: "('b, 'g, 'm) platform \<Rightarrow> ('b, 'm) ce \<Rightarrow> ('b, 'm) ce option" where
  "KillGetStart P s =
     (if mSSLConfigured s then client (cKillGetComplete (kCommErrMethodNotImplemented P)) s
      else inet iKillGetStart s)"

section \<open>The timer and the messages of the tool's port\<close>

definition HandleTimerTick :: "('b, 'g, 'm) platform \<Rightarrow> ('b, 'm) ce \<Rightarrow> ('b, 'm) ce option" where
  "HandleTimerTick P s = do {
     s \<leftarrow> (if mSSLConfigured s \<and> \<not> mEstablished s \<and> \<not> mClosing s \<and> mSSLTimerFin s \<noteq> 0
              \<and> \<not> mSSLTimerFired s
           then (let nowms = clock_ms s
                 in if nowms \<ge> mSSLTimerFin s then DoSSLHandshake P s else Some s)
           else Some s);
     inet iHandleTimerTick s
   }"

text \<open>
  The message this object posts to its own port resumes the handshake or the read; the
  client's tool is then told of the request too.
\<close>

definition HandleRequest ::
    "('b, 'g, 'm) platform \<Rightarrow> nat \<Rightarrow> nat \<Rightarrow> nat \<Rightarrow> ulong \<Rightarrow> ('b, 'm) ce \<Rightarrow> ('b, 'm) ce option" where
  "HandleRequest P request requestSize msgToken msgType s =
     (if msgType AND kMsgType_ReservedMask P = kAsyncReadMessageType then do {
        s \<leftarrow> (if \<not> mClosing s then
                (if \<not> mEstablished s then DoSSLHandshake P s
                 else if mSSLReadBuffer s \<noteq> None then do {
                   _ \<leftarrow> mInetCECallBack s;
                   let threshold = (case client_threshold s of None \<Rightarrow> 0 | Some t \<Rightarrow> t);
                   DoSSLRead P threshold s
                 }
                 else Some s)
              else Some s);
        client (cHandleRequest request requestSize msgToken msgType) s
      }
      else inet (iHandleRequest request requestSize msgToken msgType) s)"

section \<open>Options\<close>

text \<open>
  The views of an option's bytes as \<^verbatim>\<open>TCMOSSLEnable\<close>, \<^verbatim>\<open>TCMOSSLHostname\<close>,
  \<^verbatim>\<open>TCMOSSLVerifyMode\<close> and \<^verbatim>\<open>TCMOSSLCertificate\<close>; the label says which one is meant.
\<close>

record toption =
  enabled :: bool
  hostname :: bytes
  verifyMode :: ulong
  cert_length :: ulong
  indexInChain :: ulong
  certificate :: bytes

definition kSSLEnableLabel :: ulong where
  "kSSLEnableLabel = fourcc ''SSL ''"

definition kSSLHostnameLabel :: ulong where
  "kSSLHostnameLabel = fourcc ''SSLh''"

definition kSSLVerifyModeLabel :: ulong where
  "kSSLVerifyModeLabel = fourcc ''SSLv''"

definition kSSLCertificateAuthorityLabel :: ulong where
  "kSSLCertificateAuthorityLabel = fourcc ''SSLA''"

definition kSSLPeerCertificateLabel :: ulong where
  "kSSLPeerCertificateLabel = fourcc ''SSLp''"

text \<open>
  The host name is a C string: one with no NUL in the option is read past its end, which
  is no defined behaviour (\<open>None\<close>).
\<close>

definition option_hostname :: "('b, 'g, 'm) platform \<Rightarrow> toption \<Rightarrow> ('b, 'm) ce \<Rightarrow> ('b, 'm) ce option" where
  "option_hostname P opt s =
     (if mSSLHostname s = None then
        (if 0 \<in> set (hostname opt) then
           (let len = length (c_string (hostname opt)) + 1
            in case new_ptr P len of
                 None \<Rightarrow> None
               | Some p \<Rightarrow> Some (s\<lparr>mSSLHostname := Some (overwrite p 0 (take len (hostname opt)))\<rparr>))
         else None)
      else Some s)"

text \<open>
  The walk down the peer's chain: \<open>Some None\<close> is \<^verbatim>\<open>opFailure\<close>, \<open>None\<close> a call through the
  NULL the library gives for a peer without a certificate.
\<close>

fun peer_cert_at :: "bytes list \<Rightarrow> nat \<Rightarrow> bytes option option" where
  "peer_cert_at [] ix = None"
| "peer_cert_at (c # cs) 0 = Some (Some c)"
| "peer_cert_at (c # cs) (Suc ix) = (if cs = [] then Some None else peer_cert_at cs ix)"

definition option_peer_certificate ::
    "('b, 'g, 'm) platform \<Rightarrow> toption \<Rightarrow> ('b, 'm) ce \<Rightarrow> (ulong \<times> toption) option" where
  "option_peer_certificate P opt s =
     (if mSSLConfigured s \<and> mEstablished s then
        (case peer_cert_at (ssl_peer_cert P (mbed s)) (unat (indexInChain opt)) of
           None \<Rightarrow> None
         | Some None \<Rightarrow> Some (opFailure P, opt)
         | Some (Some c) \<Rightarrow>
             (let certSize = length c;
                  o1 = (if certSize \<le> unat (cert_length opt)
                        then opt\<lparr>certificate := overwrite (certificate opt) 0 c\<rparr> else opt)
              in Some (opSuccess P, o1\<lparr>cert_length := of_nat certSize\<rparr>)))
      else Some (opNotSupported P, opt))"

definition ProcessOptionStart ::
    "('b, 'g, 'm) platform \<Rightarrow> toption \<Rightarrow> ulong \<Rightarrow> ulong \<Rightarrow> ('b, 'm) ce \<Rightarrow> (ulong \<times> toption \<times> ('b, 'm) ce) option" where
  "ProcessOptionStart P opt label opcode s =
     (if label = kSSLEnableLabel then
        (let s = s\<lparr>mSSLEnabled := enabled opt\<rparr>
         in if mUpgradable s \<and> mSSLEnabled s then do {
              (r, s) \<leftarrow> SSLConfigure P s;
              if r = 0 then do {
                s \<leftarrow> DoSSLHandshake P s;
                Some (opInProgress P, opt, s)
              }
              else Some (opFailure P, opt, s)
            }
            else Some (opSuccess P, opt, s))
      else if label = kSSLHostnameLabel then do {
        s \<leftarrow> option_hostname P opt s;
        Some (opSuccess P, opt, s)
      }
      else if label = kSSLVerifyModeLabel then
        (let s = s\<lparr>mSSLAuthMode := verifyMode opt\<rparr>
         in Some (opSuccess P, opt,
              if mSSLAuthMode s = SSL_VERIFY_NONE P then s\<lparr>mSSLLoadRootCertificates := False\<rparr> else s))
      else if label = kSSLCertificateAuthorityLabel then
        (let s = s\<lparr>mSSLLoadRootCertificates := False\<rparr>;
             (theErr, heap) = (if mRootCertificatesHeap s = None then new_vm_heap P
                               else (noErr, mRootCertificatesHeap s));
             s = s\<lparr>mRootCertificatesHeap := heap\<rparr>
         in if theErr \<noteq> noErr then Some (word_of_int theErr, opt, s)
            else
              (let (result, m) = x509_crt_parse P (take (unat (cert_length opt)) (certificate opt)) (mbed s)
               in Some (if result < 0 then opFailure P else opSuccess P, opt, s\<lparr>mbed := m\<rparr>)))
      else if label = kSSLPeerCertificateLabel then do {
        (r, o1) \<leftarrow> option_peer_certificate P opt s;
        Some (r, o1, s)
      }
      else do {
        s \<leftarrow> inet (iProcessOptionStart label opcode) s;
        Some (inet_option_result P label opcode, opt, s)
      })"

end
