(* ===== verification/CE_Callbacks.thy ===== *)
theory CE_Callbacks
  imports CE_Requests
begin

text \<open>
  The callbacks of the inet tool to its client, which \<^verbatim>\<open>PMbedTLSCECallBack\<close> brings to the
  methods of \<^verbatim>\<open>PMbedTLSConnectionEnd\<close> whose names end in \<^verbatim>\<open>CB\<close>. All but the completions of
  \<open>CE_Engine\<close> and \<^verbatim>\<open>ConnectCompleteCB\<close> hand on to the client. The answers of the
  client's tool are the record \<open>client_info\<close>; a getter gives \<open>None\<close> when there is no
  client to ask.
\<close>

record client_info =
  AbortErr :: int
  TerminationEvent :: ulong
  ToolConnectState :: ulong
  ConnectInfo :: nat
  CMOTransportInfo :: nat
  ReceiveMessageBufSize :: ulong
  ConnectionEndPort :: nat
  ControlOptionsInfo :: nat
  GetBytesOptionsInfo :: nat
  PutBytesOptionsInfo :: nat
  CurPutFrameData :: bool
  CurPutEndOfFrame :: bool
  CurGetFrameData :: bool
  PassiveClaim :: bool
  PassiveState :: bool
  WaitingForResNotify :: bool
  CurRequestOpCode :: ulong
  client_result :: "client_call \<Rightarrow> int"

section \<open>Completions handed on\<close>

definition InitCB :: "nat \<Rightarrow> ('b, 'm) ce \<Rightarrow> ('b, 'm) ce option" where
  "InitCB cePtr s = client (cInit cePtr) s"

definition OpenCompleteCB :: "int \<Rightarrow> ('b, 'm) ce \<Rightarrow> ('b, 'm) ce option" where
  "OpenCompleteCB result s = client (cOpenComplete result) s"

definition CloseCompleteCB :: "int \<Rightarrow> ('b, 'm) ce \<Rightarrow> ('b, 'm) ce option" where
  "CloseCompleteCB result s = client (cCloseComplete result) s"

definition BindCompleteCB :: "int \<Rightarrow> ('b, 'm) ce \<Rightarrow> ('b, 'm) ce option" where
  "BindCompleteCB result s = client (cBindComplete result) s"

definition UnbindCompleteCB :: "int \<Rightarrow> ('b, 'm) ce \<Rightarrow> ('b, 'm) ce option" where
  "UnbindCompleteCB result s = client (cUnbindComplete result) s"

definition ListenCompleteCB :: "int \<Rightarrow> ('b, 'm) ce \<Rightarrow> ('b, 'm) ce option" where
  "ListenCompleteCB result s = client (cListenComplete result) s"

definition AcceptCompleteCB :: "int \<Rightarrow> ('b, 'm) ce \<Rightarrow> ('b, 'm) ce option" where
  "AcceptCompleteCB result s = client (cAcceptComplete result) s"

definition TerminateCompleteCB :: "('b, 'm) ce \<Rightarrow> ('b, 'm) ce option" where
  "TerminateCompleteCB s = client cTerminateComplete s"

definition KillPutCompleteCB :: "int \<Rightarrow> ('b, 'm) ce \<Rightarrow> ('b, 'm) ce option" where
  "KillPutCompleteCB result s = client (cKillPutComplete result) s"

definition KillGetCompleteCB :: "int \<Rightarrow> ('b, 'm) ce \<Rightarrow> ('b, 'm) ce option" where
  "KillGetCompleteCB result s = client (cKillGetComplete result) s"

definition HandleRequestCB :: "nat \<Rightarrow> nat \<Rightarrow> nat \<Rightarrow> ulong \<Rightarrow> ('b, 'm) ce \<Rightarrow> ('b, 'm) ce option" where
  "HandleRequestCB request requestSize msgToken msgType s = client (cHandleRequest request requestSize msgToken msgType) s"

definition HandleReplyCB :: "ulong \<Rightarrow> ulong \<Rightarrow> ('b, 'm) ce \<Rightarrow> ('b, 'm) ce option" where
  "HandleReplyCB userRefCon msgType s = client (cHandleReply userRefCon msgType) s"

definition KillControlCompleteCB :: "int \<Rightarrow> ('b, 'm) ce \<Rightarrow> ('b, 'm) ce option" where
  "KillControlCompleteCB result s = client (cKillControlComplete result) s"

definition KillGetCommEventCompleteCB :: "int \<Rightarrow> ('b, 'm) ce \<Rightarrow> ('b, 'm) ce option" where
  "KillGetCommEventCompleteCB result s = client (cKillGetCommEventComplete result) s"

definition GetCommEventCB :: "('b, 'm) ce \<Rightarrow> ('b, 'm) ce option" where
  "GetCommEventCB s = client cGetCommEvent s"

definition ProcessOptionCompleteCB :: "ulong \<Rightarrow> ('b, 'm) ce \<Rightarrow> ('b, 'm) ce option" where
  "ProcessOptionCompleteCB optResult s = client (cProcessOptionComplete optResult) s"

definition ProcessPutBytesOptionCompleteCB :: "ulong \<Rightarrow> ('b, 'm) ce \<Rightarrow> ('b, 'm) ce option" where
  "ProcessPutBytesOptionCompleteCB optResult s = client (cProcessPutBytesOptionComplete optResult) s"

definition ProcessGetBytesOptionCompleteCB :: "ulong \<Rightarrow> ('b, 'm) ce \<Rightarrow> ('b, 'm) ce option" where
  "ProcessGetBytesOptionCompleteCB optResult s = client (cProcessGetBytesOptionComplete optResult) s"

definition ResArbReleaseCompleteCB :: "int \<Rightarrow> ('b, 'm) ce \<Rightarrow> ('b, 'm) ce option" where
  "ResArbReleaseCompleteCB result s = client (cResArbReleaseComplete result) s"

definition SetTerminationEventCB :: "ulong \<Rightarrow> ('b, 'm) ce \<Rightarrow> ('b, 'm) ce option" where
  "SetTerminationEventCB ev s = client (cSetTerminationEvent ev) s"

definition SetToolConnectStateCB :: "ulong \<Rightarrow> ('b, 'm) ce \<Rightarrow> ('b, 'm) ce option" where
  "SetToolConnectStateCB state s = client (cSetToolConnectState state) s"

definition SetConnectInfoCB :: "nat \<Rightarrow> ('b, 'm) ce \<Rightarrow> ('b, 'm) ce option" where
  "SetConnectInfoCB info s = client (cSetConnectInfo info) s"

definition SetCMOTransportInfoCB :: "nat \<Rightarrow> ('b, 'm) ce \<Rightarrow> ('b, 'm) ce option" where
  "SetCMOTransportInfoCB info s = client (cSetCMOTransportInfo info) s"

definition SetPassiveClaimCB :: "bool \<Rightarrow> ('b, 'm) ce \<Rightarrow> ('b, 'm) ce option" where
  "SetPassiveClaimCB passiveClaim s = client (cSetPassiveClaim passiveClaim) s"

definition SetPassiveStateCB :: "bool \<Rightarrow> ('b, 'm) ce \<Rightarrow> ('b, 'm) ce option" where
  "SetPassiveStateCB passiveState s = client (cSetPassiveState passiveState) s"

definition SetWaitingForResNotifyCB :: "bool \<Rightarrow> ('b, 'm) ce \<Rightarrow> ('b, 'm) ce option" where
  "SetWaitingForResNotifyCB waitingForResNotify s = client (cSetWaitingForResNotify waitingForResNotify) s"

text \<open>Calls of the client that return a result.\<close>

definition client_call_result ::
    "client_info \<Rightarrow> client_call \<Rightarrow> ('b, 'm) ce \<Rightarrow> (int \<times> ('b, 'm) ce) option" where
  "client_call_result C c s = do {
     s \<leftarrow> client c s;
     Some (client_result C c, s)
   }"

definition PostCommEventCB ::
    "client_info \<Rightarrow> nat \<Rightarrow> int \<Rightarrow> ('b, 'm) ce \<Rightarrow> (int \<times> ('b, 'm) ce) option" where
  "PostCommEventCB C theEvent result s = client_call_result C (cPostCommEvent theEvent result) s"

definition FlushChannelCB ::
    "client_info \<Rightarrow> ulong \<Rightarrow> int \<Rightarrow> ('b, 'm) ce \<Rightarrow> (int \<times> ('b, 'm) ce) option" where
  "FlushChannelCB C flt flushResult s = client_call_result C (cFlushChannel flt flushResult) s"

definition StartAbortCB ::
    "client_info \<Rightarrow> int \<Rightarrow> ('b, 'm) ce \<Rightarrow> (int \<times> ('b, 'm) ce) option" where
  "StartAbortCB C abortError s = client_call_result C (cStartAbort abortError) s"

definition InitAsyncRPCMsgCB ::
    "client_info \<Rightarrow> nat \<Rightarrow> ulong \<Rightarrow> ('b, 'm) ce \<Rightarrow> (int \<times> ('b, 'm) ce) option" where
  "InitAsyncRPCMsgCB C asyncMsg refCon s = client_call_result C (cInitAsyncRPCMsg asyncMsg refCon) s"

section \<open>Getters\<close>

definition ask_client :: "'r \<Rightarrow> ('b, 'm) ce \<Rightarrow> 'r option" where
  "ask_client r s = (case mInetCECallBack s of None \<Rightarrow> None | Some _ \<Rightarrow> Some r)"

definition GetAbortErrCB :: "client_info \<Rightarrow> ('b, 'm) ce \<Rightarrow> int option" where
  "GetAbortErrCB C s = ask_client (AbortErr C) s"

definition GetTerminationEventCB :: "client_info \<Rightarrow> ('b, 'm) ce \<Rightarrow> ulong option" where
  "GetTerminationEventCB C s = ask_client (TerminationEvent C) s"

definition GetToolConnectStateCB :: "client_info \<Rightarrow> ('b, 'm) ce \<Rightarrow> ulong option" where
  "GetToolConnectStateCB C s = ask_client (ToolConnectState C) s"

definition GetConnectInfoCB :: "client_info \<Rightarrow> ('b, 'm) ce \<Rightarrow> nat option" where
  "GetConnectInfoCB C s = ask_client (ConnectInfo C) s"

definition GetCMOTransportInfoCB :: "client_info \<Rightarrow> ('b, 'm) ce \<Rightarrow> nat option" where
  "GetCMOTransportInfoCB C s = ask_client (CMOTransportInfo C) s"

definition GetReceiveMessageBufSizeCB :: "client_info \<Rightarrow> ('b, 'm) ce \<Rightarrow> ulong option" where
  "GetReceiveMessageBufSizeCB C s = ask_client (ReceiveMessageBufSize C) s"

definition GetConnectionEndPortCB :: "client_info \<Rightarrow> ('b, 'm) ce \<Rightarrow> nat option" where
  "GetConnectionEndPortCB C s = ask_client (ConnectionEndPort C) s"

definition GetControlOptionsInfoCB :: "client_info \<Rightarrow> ('b, 'm) ce \<Rightarrow> nat option" where
  "GetControlOptionsInfoCB C s = ask_client (ControlOptionsInfo C) s"

definition GetGetBytesOptionsInfoCB :: "client_info \<Rightarrow> ('b, 'm) ce \<Rightarrow> nat option" where
  "GetGetBytesOptionsInfoCB C s = ask_client (GetBytesOptionsInfo C) s"

definition GetPutBytesOptionsInfoCB :: "client_info \<Rightarrow> ('b, 'm) ce \<Rightarrow> nat option" where
  "GetPutBytesOptionsInfoCB C s = ask_client (PutBytesOptionsInfo C) s"

definition GetPassiveClaimCB :: "client_info \<Rightarrow> ('b, 'm) ce \<Rightarrow> bool option" where
  "GetPassiveClaimCB C s = ask_client (PassiveClaim C) s"

definition GetPassiveStateCB :: "client_info \<Rightarrow> ('b, 'm) ce \<Rightarrow> bool option" where
  "GetPassiveStateCB C s = ask_client (PassiveState C) s"

definition GetWaitingForResNotifyCB :: "client_info \<Rightarrow> ('b, 'm) ce \<Rightarrow> bool option" where
  "GetWaitingForResNotifyCB C s = ask_client (WaitingForResNotify C) s"

definition GetCurRequestOpCodeCB :: "client_info \<Rightarrow> ('b, 'm) ce \<Rightarrow> ulong option" where
  "GetCurRequestOpCodeCB C s = ask_client (CurRequestOpCode C) s"

text \<open>
  The getters of the data and the modes of the current put and get: with TLS the inet tool
  works on the connection end's own buffers, without frames and without a threshold.
\<close>

definition GetCurPutDataCB :: "client_info \<Rightarrow> ('b, 'm) ce \<Rightarrow> 'b option option" where
  "GetCurPutDataCB C s = (if mSSLConfigured s then Some (mPutDataBuffer s) else ask_client (Some (client_put s)) s)"

definition GetCurPutFrameDataCB :: "client_info \<Rightarrow> ('b, 'm) ce \<Rightarrow> bool option" where
  "GetCurPutFrameDataCB C s = (if mSSLConfigured s then Some False else ask_client (CurPutFrameData C) s)"

definition GetCurPutEndOfFrameCB :: "client_info \<Rightarrow> ('b, 'm) ce \<Rightarrow> bool option" where
  "GetCurPutEndOfFrameCB C s = (if mSSLConfigured s then Some False else ask_client (CurPutEndOfFrame C) s)"

definition GetCurGetDataCB :: "client_info \<Rightarrow> ('b, 'm) ce \<Rightarrow> 'b option option" where
  "GetCurGetDataCB C s = (if mSSLConfigured s then Some (mGetDataBuffer s) else ask_client (Some (client_get s)) s)"

definition GetCurGetFrameDataCB :: "client_info \<Rightarrow> ('b, 'm) ce \<Rightarrow> bool option" where
  "GetCurGetFrameDataCB C s = (if mSSLConfigured s then Some False else ask_client (CurGetFrameData C) s)"

definition GetCurGetNonBlockingCB :: "client_info \<Rightarrow> ('b, 'm) ce \<Rightarrow> bool option" where
  "GetCurGetNonBlockingCB C s = (if mSSLConfigured s then Some False else ask_client (client_threshold s \<noteq> None) s)"

definition GetCurGetThresholdCB :: "client_info \<Rightarrow> ('b, 'm) ce \<Rightarrow> nat option" where
  "GetCurGetThresholdCB C s = (if mSSLConfigured s then Some 0 else ask_client (case client_threshold s of None \<Rightarrow> 0 | Some t \<Rightarrow> t) s)"

section \<open>The connection\<close>

definition ConnectCompleteCB :: "('b, 'g, 'm) platform \<Rightarrow> int \<Rightarrow> ('b, 'm) ce \<Rightarrow> ('b, 'm) ce option" where
  "ConnectCompleteCB P result s =
     (if mSSLEnabled s \<and> result = 0 then DoSSLHandshake P s
      else client (cConnectComplete result) (if result = 0 then s\<lparr>mUpgradable := True\<rparr> else s))"

end
