(* ===== verification/CE_Streams.thy ===== *)
theory CE_Streams
  imports CE_Callbacks
begin

text \<open>
  What every call of the library keeps: the locale \<open>callback_invariant\<close> is the contract of
  the callbacks for a condition on the state, \<open>callback_contract\<close> adds that they return,
  and both are extended from the callbacks to whole calls by induction on the \<open>io\<close> tree.
  The condition \<open>engine_ok\<close> is then proved to meet the contract: the connection end is
  configured, its buffers exist, the bytes accepted for sending are those the inet tool has
  taken, then those of the put buffer, then those of the send buffer, and the receive
  buffer matches its size.
\<close>

section \<open>The contract of the callbacks\<close>

locale callback_invariant =
  fixes P :: "('b, 'g, 'm) platform" and Q :: "('b, 'm) ce \<Rightarrow> bool"
  assumes send: "Q s \<Longrightarrow> SSLSendCallback P bs s = Some (x, s') \<Longrightarrow> Q s'"
    and recv: "Q s \<Longrightarrow> SSLRecvCallback P n s = Some (x, rs, s') \<Longrightarrow> Q s'"
    and timer: "Q s \<Longrightarrow> Q (SSLSetTimerCallback a b s)"
begin

lemma run_invariant: "Q s \<Longrightarrow> run io P s = Some (r, s') \<Longrightarrow> Q s'"
proof (induction io arbitrary: s)
  case (Send bs k)
  then obtain x s1 where "SSLSendCallback P bs s = Some (x, s1)" "run (k x) P s1 = Some (r, s')"
    by (auto split: option.splits)
  then show ?case using Send.IH [OF rangeI] send Send.prems(1) by blast
next
  case (Recv n k)
  then obtain x bs s1 where "SSLRecvCallback P n s = Some (x, bs, s1)" "run (k x bs) P s1 = Some (r, s')"
    by (auto split: option.splits)
  then show ?case using Recv.IH [OF rangeI rangeI] recv Recv.prems(1) by blast
next
  case (SetTimer a b k)
  then show ?case using timer [OF SetTimer.prems(1), of a b] by simp
next
  case (GetTimer k)
  then show ?case using GetTimer.IH [OF rangeI] by simp
qed simp

lemma close_notify_invariant:
  "Q s \<Longrightarrow> close_notify P s = Some s' \<Longrightarrow> (\<And>s m. Q s \<Longrightarrow> Q (s\<lparr>mbed := m\<rparr>)) \<Longrightarrow> Q s'"
  by (auto simp: close_notify_def bind_eq_Some_conv intro: run_invariant)

end

locale callback_contract = callback_invariant +
  assumes send_returns: "Q s \<Longrightarrow> SSLSendCallback P bs s \<noteq> None"
    and recv_returns: "Q s \<Longrightarrow> SSLRecvCallback P n s \<noteq> None"
begin

lemma run_returns:
  "Q s \<Longrightarrow> returns R io \<Longrightarrow> \<exists>r s'. run io P s = Some (r, s') \<and> R r \<and> Q s'"
proof (induction io arbitrary: s)
  case (Send bs k)
  obtain x s1 where "SSLSendCallback P bs s = Some (x, s1)"
    using send_returns [OF Send.prems(1)] by fastforce
  then show ?case
    using Send.IH [OF rangeI, of s1 x] Send.prems send by auto
next
  case (Recv n k)
  obtain x rs s1 where "SSLRecvCallback P n s = Some (x, rs, s1)"
    using recv_returns [OF Recv.prems(1)] by (metis option.exhaust prod_cases3)
  then show ?case
    using Recv.IH [OF rangeI rangeI, of s1 x rs] Recv.prems recv by auto
next
  case (SetTimer a b k)
  then show ?case using timer by simp
next
  case (GetTimer k)
  then show ?case by simp
qed simp

end

lemma returns_True [simp]: "returns (\<lambda>_. True) io"
  by (induction io) auto

section \<open>What the connection end relies on\<close>

text \<open>
  Memory is available and the objects of the system exist; a read of the library stores as
  many bytes as it returns, at most as many as it was asked for; setting the timer
  callbacks, and resetting a session, do not send or receive.
\<close>

primrec quiet :: "'r io \<Rightarrow> bool" where
  "quiet (Ret r) = True"
| "quiet (Send bs k) = False"
| "quiet (Recv n k) = False"
| "quiet (SetTimer a b k) = quiet k"
| "quiet (GetTimer k) = (\<forall>x. quiet (k x))"

definition platform_ok :: "('b, 'g, 'm) platform \<Rightarrow> bool" where
  "platform_ok P \<longleftrightarrow>
     (\<forall>n. \<exists>p. new_ptr P n = Some p \<and> length p = n)
     \<and> (\<forall>p n. \<exists>q. realloc_ptr P p n = Some q \<and> length q = n \<and> take (length p) q = take n p)
     \<and> (\<forall>n. length (past_end P n) = n)
     \<and> connection_end_port P \<noteq> None \<and> new_async_message P \<noteq> None
     \<and> (\<forall>n m. returns (\<lambda>(r, bs, m'). length bs = nat r \<and> r \<le> int n) (ssl_read P n m))
     \<and> (\<forall>m. quiet (ssl_set_timer_cb P m)) \<and> (\<forall>m. quiet (ssl_session_reset P m))"

lemma platform_ok_memory:
  assumes "platform_ok P"
  obtains p where "new_ptr P n = Some p" "length p = n"
  using assms unfolding platform_ok_def by blast

lemma platform_ok_realloc:
  assumes "platform_ok P"
  obtains q where "realloc_ptr P p n = Some q" "length q = n" "take (length p) q = take n p"
  using assms unfolding platform_ok_def by blast

section \<open>The condition\<close>

text \<open>
  The parts of the state that no callback touches; of the observed calls, those on the
  client.
\<close>

definition client_calls :: "observed list \<Rightarrow> client_call list" where
  "client_calls os = List.map_filter (\<lambda>x. case x of Client c \<Rightarrow> Some c | _ \<Rightarrow> None) os"

lemma client_calls_simps [simp]:
  "client_calls [] = []" "client_calls (xs @ ys) = client_calls xs @ client_calls ys"
  "client_calls [Inet c] = []" "client_calls [PortSend t] = []" "client_calls [Client d] = [d]"
  by (simp_all add: client_calls_def List.map_filter_def)

definition core where
  "core s = ((mThisCECallBack s, mInetPConnectionEnd s, mInetCECallBack s, mInetCEPort s),
     (mAsyncReadMessage s, mRootCertificatesHeap s, mSSLEnabled s, mSSLConfigured s),
     (mEstablished s, mUpgradable s, mClosing s, mSSLLoadRootCertificates s),
     (mSSLHostname s, mSSLAuthMode s, mbed s),
     (mSSLReadBuffer s, mSSLReadBufferSize s, mSSLReadCount s, mSSLReceiveInProgress s),
     (clock_ms s, cur_heap s, client_put s, client_get s, client_threshold s),
     client_calls (trace s))"

lemma core_eq:
  "core s = core t \<longleftrightarrow> mThisCECallBack s = mThisCECallBack t \<and> mInetPConnectionEnd s = mInetPConnectionEnd t
     \<and> mInetCECallBack s = mInetCECallBack t \<and> mInetCEPort s = mInetCEPort t
     \<and> mAsyncReadMessage s = mAsyncReadMessage t \<and> mRootCertificatesHeap s = mRootCertificatesHeap t
     \<and> mSSLEnabled s = mSSLEnabled t \<and> mSSLConfigured s = mSSLConfigured t
     \<and> mEstablished s = mEstablished t \<and> mUpgradable s = mUpgradable t \<and> mClosing s = mClosing t
     \<and> mSSLLoadRootCertificates s = mSSLLoadRootCertificates t \<and> mSSLHostname s = mSSLHostname t
     \<and> mSSLAuthMode s = mSSLAuthMode t \<and> mbed s = mbed t
     \<and> mSSLReadBuffer s = mSSLReadBuffer t \<and> mSSLReadBufferSize s = mSSLReadBufferSize t
     \<and> mSSLReadCount s = mSSLReadCount t \<and> mSSLReceiveInProgress s = mSSLReceiveInProgress t
     \<and> clock_ms s = clock_ms t \<and> cur_heap s = cur_heap t \<and> client_put s = client_put t
     \<and> client_get s = client_get t \<and> client_threshold s = client_threshold t
     \<and> client_calls (trace s) = client_calls (trace t)"
  by (auto simp: core_def)

lemma core_fields:
  assumes "core s = core t"
  shows "mInetPConnectionEnd s = mInetPConnectionEnd t" "mInetCECallBack s = mInetCECallBack t"
    "mInetCEPort s = mInetCEPort t" "mSSLConfigured s = mSSLConfigured t"
    "mSSLReceiveInProgress s = mSSLReceiveInProgress t" "mEstablished s = mEstablished t"
    "mClosing s = mClosing t" "mSSLReadBuffer s = mSSLReadBuffer t"
    "mSSLReadBufferSize s = mSSLReadBufferSize t" "mSSLReadCount s = mSSLReadCount t"
    "client_get s = client_get t" "client_put s = client_put t" "client_threshold s = client_threshold t"
    "mbed s = mbed t" "client_calls (trace s) = client_calls (trace t)" "mUpgradable s = mUpgradable t"
    "mSSLEnabled s = mSSLEnabled t"
  using assms by (simp_all add: core_eq)

text \<open>The sending side, while a put is being started (\<open>busy\<close>) and otherwise.\<close>

definition send_bytes_ok ::
    "('b, 'g, 'm) platform \<Rightarrow> ('b \<Rightarrow> 'g list) \<Rightarrow> ('g \<Rightarrow> bytes) \<Rightarrow> ('b, 'm) ce \<Rightarrow> bool" where
  "send_bytes_ok P segs data s \<longleftrightarrow>
     (\<exists>putb sendb. mPutDataBuffer s = Some putb \<and> mSendBuffer s = Some sendb
        \<and> buf_valid (bufs P) segs data putb
        \<and> accepted s = taken s @ buf_unread (bufs P) segs data putb @ buf_whole segs data sendb)"

definition send_idle :: 
    "('b, 'g, 'm) platform \<Rightarrow> ('b \<Rightarrow> 'g list) \<Rightarrow> ('g \<Rightarrow> bytes) \<Rightarrow> ('b, 'm) ce \<Rightarrow> bool" where
  "send_idle P segs data s \<longleftrightarrow>
     (\<not> mSendPending s \<and> mSendError s = noErr \<longrightarrow>
        (\<exists>putb sendb. mPutDataBuffer s = Some putb \<and> mSendBuffer s = Some sendb
           \<and> buf_unread (bufs P) segs data putb = [] \<and> segs sendb = []))"

definition recv_bytes_ok ::
    "('b, 'g, 'm) platform \<Rightarrow> ('b \<Rightarrow> 'g list) \<Rightarrow> ('g \<Rightarrow> bytes) \<Rightarrow> ('b, 'm) ce \<Rightarrow> bool" where
  "recv_bytes_ok P segs data s \<longleftrightarrow>
     (\<exists>getb. mGetDataBuffer s = Some getb \<and> buf_valid (bufs P) segs data getb)
     \<and> length (case mSSLRecvBuffer s of None \<Rightarrow> [] | Some p \<Rightarrow> p) = mSSLRecvBufferSize s"

definition engine_ok ::
    "('b, 'g, 'm) platform \<Rightarrow> ('b \<Rightarrow> 'g list) \<Rightarrow> ('g \<Rightarrow> bytes) \<Rightarrow> ('b, 'm) ce \<Rightarrow> bool" where
  "engine_ok P segs data s \<longleftrightarrow>
     mSSLConfigured s \<and> mInetPConnectionEnd s \<noteq> None \<and> mInetCECallBack s \<noteq> None
     \<and> mInetCEPort s \<noteq> None \<and> \<not> mSSLReceiveInProgress s
     \<and> send_bytes_ok P segs data s \<and> send_idle P segs data s \<and> recv_bytes_ok P segs data s"

text \<open>The part of \<^verbatim>\<open>SSLRecvCallback\<close> that asks the inet tool for the bytes that are missing.\<close>

definition ask_inet :: "('b, 'g, 'm) platform \<Rightarrow> nat \<Rightarrow> ('b, 'm) ce \<Rightarrow> ('b, 'm) ce option" where
  "ask_inet P len s =
     (if mSSLRecvBufferSize s < len \<and> \<not> mRecvPending s then do {
        getb \<leftarrow> mGetDataBuffer s;
        s2 \<leftarrow> GetBytesImmediateStart_data P 1
                (s\<lparr>mRecvPending := True,
                   mGetDataBuffer := Some (InsertLast (bufs P) getb (seg_room (bufs P) (len - mSSLRecvBufferSize s))),
                   mSSLReceiveInProgress := True\<rparr>);
        Some (s2\<lparr>mSSLReceiveInProgress := False\<rparr>)
      }
      else Some s)"

lemma SSLRecvCallback_asks:
  "SSLRecvCallback P len s =
     (if mRecvError s \<noteq> noErr then Some (mRecvError s, [], s)
      else if mPeerClosed s then Some (0, [], s)
      else do {
        s1 \<leftarrow> ask_inet P len s;
        if mRecvError s1 \<noteq> noErr then Some (mRecvError s1, [], s1)
        else if mSSLRecvBufferSize s1 = 0 then Some (ERR_SSL_WANT_READ P, [], s1)
        else consume_received P len s1
      })"
  by (simp add: SSLRecvCallback_def ask_inet_def)

section \<open>Sending keeps the condition\<close>

definition recv_part where
  "recv_part s = ((mRecvPending s, mPeerClosed s, mSSLRecvBuffer s, mSSLRecvBufferSize s),
     (mGetDataBuffer s, mRecvError s, received s, delivered s, get_replies s))"

definition send_part where
  "send_part s = ((mSendPending s, mSendError s, mPutDataBuffer s, mSendBuffer s),
     (accepted s, taken s, put_replies s))"

lemma recv_part_eq:
  "recv_part s = recv_part t \<longleftrightarrow> mRecvPending s = mRecvPending t \<and> mPeerClosed s = mPeerClosed t
     \<and> mSSLRecvBuffer s = mSSLRecvBuffer t \<and> mSSLRecvBufferSize s = mSSLRecvBufferSize t
     \<and> mGetDataBuffer s = mGetDataBuffer t \<and> mRecvError s = mRecvError t
     \<and> received s = received t \<and> delivered s = delivered t \<and> get_replies s = get_replies t"
  by (auto simp: recv_part_def)

lemma send_part_eq:
  "send_part s = send_part t \<longleftrightarrow> mSendPending s = mSendPending t \<and> mSendError s = mSendError t
     \<and> mPutDataBuffer s = mPutDataBuffer t \<and> mSendBuffer s = mSendBuffer t
     \<and> accepted s = accepted t \<and> taken s = taken t \<and> put_replies s = put_replies t"
  by (auto simp: send_part_def)

text \<open>What a step of the sending side does to the state.\<close>

definition send_step ::
    "('b, 'g, 'm) platform \<Rightarrow> ('b \<Rightarrow> 'g list) \<Rightarrow> ('g \<Rightarrow> bytes) \<Rightarrow> ('b, 'm) ce \<Rightarrow> ('b, 'm) ce \<Rightarrow> bool" where
  "send_step P segs data s s' \<longleftrightarrow>
     send_bytes_ok P segs data s' \<and> send_idle P segs data s' \<and> core s' = core s
     \<and> recv_part s' = recv_part s \<and> accepted s' = accepted s"

lemma send_step_trans:
  "core t = core s \<Longrightarrow> recv_part t = recv_part s \<Longrightarrow> accepted t = accepted s \<Longrightarrow>
    send_step P segs data t t' \<Longrightarrow> send_step P segs data s t'"
  by (simp add: send_step_def)

context buffer_list
begin

lemma inet_take_ok:
  assumes "bufs P = B" "send_bytes_ok P segs data s"
  shows "\<exists>s'. inet_take P n s = Some s' \<and> send_bytes_ok P segs data s' \<and> core s' = core s
     \<and> recv_part s' = recv_part s \<and> accepted s' = accepted s \<and> mSendError s' = mSendError s"
proof -
  obtain putb sendb where *: "mPutDataBuffer s = Some putb" "mSendBuffer s = Some sendb" "valid putb"
    "accepted s = taken s @ unread putb @ whole sendb"
    using assms by (auto simp: send_bytes_ok_def)
  then show ?thesis
    by (simp add: inet_take_def assms(1) split_beta send_bytes_ok_def core_eq recv_part_eq)
qed

lemma PutCompleteCB_with_ok:
  assumes "bufs P = B" "send_bytes_ok P segs data s" "mSSLConfigured s"
    and put: "\<And>t. send_bytes_ok P segs data t \<Longrightarrow> mSendPending t \<Longrightarrow> mSSLConfigured t \<Longrightarrow>
      mInetPConnectionEnd t = mInetPConnectionEnd s \<Longrightarrow> \<exists>t'. put t = Some t' \<and> send_step P segs data t t'"
  shows "\<exists>s'. PutCompleteCB_with P put r n s = Some s' \<and> send_step P segs data s s'"
proof -
  obtain putb sendb where *: "mPutDataBuffer s = Some putb" "mSendBuffer s = Some sendb" "valid putb"
    "accepted s = taken s @ unread putb @ whole sendb"
    using assms by (auto simp: send_bytes_ok_def)
  show ?thesis
  proof (cases "r = noErr")
    case False
    then show ?thesis
      using * by (simp add: PutCompleteCB_with_def assms send_step_def send_bytes_ok_def send_idle_def
          core_eq recv_part_eq)
  next
    case r: True
    show ?thesis
    proof (cases "unread putb = []")
      case True
      obtain sendb' putb' where mv: "move_segments B sendb (DeleteAll B putb) False
            = Some (sendb', putb', segs sendb \<noteq> [])"
        "segs sendb' = []" "valid putb'" "unread putb' = whole sendb"
        using move_segments_bytes [of "DeleteAll B putb" sendb False] by auto
      let ?t = "s\<lparr>mSendPending := False, mSendBuffer := Some sendb', mPutDataBuffer := Some putb'\<rparr>"
      have t: "send_bytes_ok P segs data ?t" "core ?t = core s" "recv_part ?t = recv_part s"
        using * mv True assms(1)
        by (simp_all add: send_bytes_ok_def core_eq recv_part_eq whole_def)
      show ?thesis
      proof (cases "segs sendb = []")
        case empty: True
        then have "send_idle P segs data ?t"
          using mv by (simp add: send_idle_def whole_def assms(1))
        then show ?thesis
          using * mv(1) t r True empty assms(1,3)
          by (simp add: PutCompleteCB_with_def AtEOF_unread send_step_def)
      next
        case False
        obtain t' where "put (?t\<lparr>mSendPending := True\<rparr>) = Some t'"
          "send_step P segs data (?t\<lparr>mSendPending := True\<rparr>) t'"
          using put [of "?t\<lparr>mSendPending := True\<rparr>"] t assms(3) by (auto simp: send_bytes_ok_def)
        then show ?thesis
          using * mv(1) r True False assms(1,3)
          by (auto simp: PutCompleteCB_with_def AtEOF_unread core_eq recv_part_eq
              intro: send_step_trans [where t = "?t\<lparr>mSendPending := True\<rparr>"])
      qed
    next
      case False
      obtain t' where "put (s\<lparr>mSendPending := True\<rparr>) = Some t'"
        "send_step P segs data (s\<lparr>mSendPending := True\<rparr>) t'"
        using put [of "s\<lparr>mSendPending := True\<rparr>"] assms(2,3) by (auto simp: send_bytes_ok_def)
      then show ?thesis
        using * r False assms(1,3)
        by (auto simp: PutCompleteCB_with_def AtEOF_unread core_eq recv_part_eq
            intro: send_step_trans [where t = "s\<lparr>mSendPending := True\<rparr>"])
    qed
  qed
qed

lemma inet_put_ok:
  "bufs P = B \<Longrightarrow> send_bytes_ok P segs data s \<Longrightarrow> mSendPending s \<Longrightarrow> mSSLConfigured s \<Longrightarrow>
    mInetPConnectionEnd s = Some q \<Longrightarrow> \<exists>s'. inet_put P rs s = Some s' \<and> send_step P segs data s s'"
proof (induction rs arbitrary: s)
  case Nil
  then show ?case
    by (simp add: send_step_def send_bytes_ok_def send_idle_def core_eq recv_part_eq)
next
  case (Cons reply rs)
  let ?s1 = "s\<lparr>put_replies := rs, trace := trace s @ [Inet iPutData]\<rparr>"
  have s1: "send_bytes_ok P segs data ?s1" "core ?s1 = core s" "recv_part ?s1 = recv_part s"
    using Cons.prems by (simp_all add: send_bytes_ok_def core_eq recv_part_eq)
  show ?case
  proof (cases reply)
    case PutLater
    then show ?thesis
      using Cons.prems s1 by (simp add: send_step_def send_idle_def)
  next
    case (PutNow r n)
    obtain s2 where s2: "inet_take P n ?s1 = Some s2" "send_bytes_ok P segs data s2"
      "core s2 = core ?s1" "recv_part s2 = recv_part ?s1" "accepted s2 = accepted ?s1"
      using inet_take_ok [OF Cons.prems(1) s1(1)] by blast
    have c: "mInetPConnectionEnd s2 = Some q" "mSSLConfigured s2"
      using core_fields [OF s2(3)] Cons.prems(4,5) by simp_all
    obtain s' where "PutCompleteCB_with P (\<lambda>s. inet_put P rs s) r n s2 = Some s'"
      "send_step P segs data s2 s'"
      using PutCompleteCB_with_ok [OF Cons.prems(1) s2(2) c(2), of "\<lambda>s. inet_put P rs s"]
        Cons.IH [OF Cons.prems(1)] c(1) by fastforce
    moreover have "core s2 = core s" "recv_part s2 = recv_part s" "accepted s2 = accepted s"
      using s2(3-5) s1(2,3) by simp_all
    ultimately show ?thesis
      using PutNow Cons.prems(5) s2(1) send_step_trans by auto
  qed
qed

lemma SSLSendCallback_ok:
  assumes "bufs P = B" "platform_ok P" "engine_ok P segs data s"
  shows "\<exists>x s'. SSLSendCallback P buf s = Some (x, s') \<and> engine_ok P segs data s' \<and> core s' = core s
     \<and> recv_part s' = recv_part s
     \<and> (if mSendError s = noErr then x = int (length buf) \<and> accepted s' = accepted s @ buf
        else x = mSendError s \<and> s' = s)"
proof (cases "mSendError s = noErr")
  case False
  then show ?thesis using assms(3) by (simp add: SSLSendCallback_def)
next
  case err: True
  obtain putb sendb where *: "mPutDataBuffer s = Some putb" "mSendBuffer s = Some sendb" "valid putb"
    "accepted s = taken s @ unread putb @ whole sendb"
    using assms by (auto simp: engine_ok_def send_bytes_ok_def)
  obtain ptr where ptr: "new_ptr P (length buf) = Some ptr" "length ptr = length buf"
    using platform_ok_memory [OF assms(2)] by blast
  define sendb1 where "sendb1 = InsertLast B sendb (seg_init B buf)"
  let ?s1 = "s\<lparr>mSendBuffer := Some sendb1, accepted := accepted s @ buf\<rparr>"
  have w1: "whole sendb1 = whole sendb @ buf" by (simp add: sendb1_def data_init)
  have fields: "mSSLConfigured s" "mInetPConnectionEnd s \<noteq> None" "mInetCECallBack s \<noteq> None"
    "mInetCEPort s \<noteq> None" "\<not> mSSLReceiveInProgress s" "recv_bytes_ok P segs data s"
    using assms(3) by (simp_all add: engine_ok_def)
  show ?thesis
  proof (cases "mSendPending s")
    case True
    have "engine_ok P segs data ?s1"
      using * w1 fields True assms(1) by (simp add: engine_ok_def send_bytes_ok_def send_idle_def recv_bytes_ok_def)
    then show ?thesis
      using * err ptr True assms(1)
      by (simp add: SSLSendCallback_def sendb1_def overwrite_all core_eq recv_part_eq)
  next
    case False
    obtain sendb' putb' where mv: "move_segments B sendb1 putb False = Some (sendb', putb', segs sendb1 \<noteq> [])"
      "segs sendb' = []" "valid putb'" "unread putb' = unread putb @ whole sendb1"
      using move_segments_bytes [OF *(3), of sendb1 False] by auto
    let ?s2 = "?s1\<lparr>mSendBuffer := Some sendb', mPutDataBuffer := Some putb', mSendPending := True\<rparr>"
    have "send_bytes_ok P segs data ?s2"
      using * mv w1 assms(1) by (simp add: send_bytes_ok_def whole_def)
    then obtain s3 where s3: "inet_put P (put_replies ?s2) ?s2 = Some s3" "send_step P segs data ?s2 s3"
      using inet_put_ok [OF assms(1), of ?s2] fields by auto
    have "SSLSendCallback P buf s = Some (int (length buf), s3)"
      using * err ptr False assms(1) s3(1) mv(1)
      by (simp add: SSLSendCallback_def PutBytesStart_data_def overwrite_all sendb1_def)
    moreover have "core s3 = core s" "recv_part s3 = recv_part s" "accepted s3 = accepted s @ buf"
      "send_bytes_ok P segs data s3" "send_idle P segs data s3"
      using s3(2) by (simp_all add: send_step_def core_eq recv_part_eq)
    moreover from this have "engine_ok P segs data s3"
      using fields core_fields [of s3 s] by (simp add: engine_ok_def recv_bytes_ok_def recv_part_eq)
    ultimately show ?thesis using err by simp
  qed
qed

section \<open>Receiving keeps the condition\<close>

lemma GetCompleteCB_ok:
  assumes "bufs P = B" "platform_ok P" "recv_bytes_ok P segs data s" "mSSLConfigured s"
    "mInetCEPort s \<noteq> None"
  shows "\<exists>s'. GetCompleteCB P r eof n s = Some s' \<and> core s' = core s \<and> send_part s' = send_part s
     \<and> recv_bytes_ok P segs data s'"
proof -
  obtain getb where getb: "mGetDataBuffer s = Some getb" "valid getb"
    using assms by (auto simp: recv_bytes_ok_def)
  obtain port where port: "mInetCEPort s = Some port" using assms(5) by blast
  obtain p where p: "new_ptr P n = Some p" "length p = n"
    using platform_ok_memory [OF assms(2)] by blast
  show ?thesis
  proof (cases "mSSLRecvBuffer s")
    case None
    then show ?thesis
      using assms(1,3,4) getb port p
      by (simp add: GetCompleteCB_def split_beta Let_def core_eq send_part_eq recv_bytes_ok_def)
  next
    case (Some b)
    obtain q where q: "realloc_ptr P b (mSSLRecvBufferSize s + n) = Some q"
      "length q = mSSLRecvBufferSize s + n"
      using platform_ok_realloc [OF assms(2)] by blast
    then show ?thesis
      using Some assms(1,3,4) getb port
      by (simp add: GetCompleteCB_def split_beta Let_def core_eq send_part_eq recv_bytes_ok_def)
  qed
qed

lemma inet_deliver_ok:
  assumes "bufs P = B" "platform_ok P" "recv_bytes_ok P segs data s" "mSSLConfigured s"
    "mInetCEPort s \<noteq> None"
  shows "\<exists>s'. inet_deliver P r bs s = Some s' \<and> core s' = core s \<and> send_part s' = send_part s
     \<and> recv_bytes_ok P segs data s'"
proof -
  obtain getb where getb: "mGetDataBuffer s = Some getb" "valid getb"
    using assms by (auto simp: recv_bytes_ok_def)
  obtain n getb' where n: "Putn B getb bs = (n, getb')" by fastforce
  have "valid getb'"
    using putn_reset [OF getb(2), of bs] putn_pos [of getb bs] getb(2) n
    by (auto simp: valid_def unread_def)
  let ?t = "s\<lparr>mGetDataBuffer := Some getb', received := (if r = noErr then received s @ take n bs else received s)\<rparr>"
  have "recv_bytes_ok P segs data ?t"
    using assms(1,3) \<open>valid getb'\<close> by (simp add: recv_bytes_ok_def)
  then obtain s' where "GetCompleteCB P r True n ?t = Some s'" "core s' = core ?t"
    "send_part s' = send_part ?t" "recv_bytes_ok P segs data s'"
    using GetCompleteCB_ok [OF assms(1,2), of ?t r True n] assms(4,5) by auto
  then show ?thesis
    using getb n assms(1) by (simp add: inet_deliver_def core_eq send_part_eq)
qed

lemma consume_received_ok:
  assumes "platform_ok P" "recv_bytes_ok P segs data s" "mSSLRecvBufferSize s \<noteq> 0"
  shows "\<exists>x bs s'. consume_received P len s = Some (x, bs, s') \<and> core s' = core s
     \<and> send_part s' = send_part s \<and> recv_bytes_ok P segs data s'"
proof -
  obtain recv where recv: "mSSLRecvBuffer s = Some recv" "length recv = mSSLRecvBufferSize s"
    using assms by (auto simp: recv_bytes_ok_def split: option.splits)
  obtain q where q: "realloc_ptr P (overwrite recv 0 (past_end P (mSSLRecvBufferSize s - len))) (mSSLRecvBufferSize s - len)
      = Some q" "length q = mSSLRecvBufferSize s - len"
    using platform_ok_realloc [OF assms(1)] by blast
  then show ?thesis
    using assms(2) recv
    by (auto simp: consume_received_def Let_def core_eq send_part_eq recv_bytes_ok_def)
qed

text \<open>A get that asks the inet tool for bytes, whenever the answer comes.\<close>

lemma get_data_ok:
  assumes "bufs P = B" "platform_ok P" "recv_bytes_ok P segs data s" "mSSLConfigured s"
    "mInetPConnectionEnd s \<noteq> None" "mInetCEPort s \<noteq> None"
  shows "\<exists>s'. GetBytesImmediateStart_data P n s = Some s' \<and> core s' = core s \<and> send_part s' = send_part s
     \<and> recv_bytes_ok P segs data s'"
proof -
  let ?t = "s\<lparr>trace := trace s @ [Inet (iGetData n)]\<rparr>"
  have t: "recv_bytes_ok P segs data ?t" "core ?t = core s" "send_part ?t = send_part s"
    using assms(3) by (simp_all add: recv_bytes_ok_def core_eq send_part_eq)
  have inet: "inet (iGetData n) s = Some ?t"
    using assms(5) by auto
  show ?thesis
  proof (cases "get_replies s")
    case Nil
    then show ?thesis using inet t by (simp add: GetBytesImmediateStart_data_def)
  next
    case (Cons reply rs)
    let ?u = "?t\<lparr>get_replies := rs\<rparr>"
    have u: "recv_bytes_ok P segs data ?u" "core ?u = core s" "send_part ?u = send_part s"
      "mSSLConfigured ?u" "mInetCEPort ?u \<noteq> None"
      using t assms(4,6) by (simp_all add: recv_bytes_ok_def core_eq send_part_eq)
    then show ?thesis
      using inet_deliver_ok [OF assms(1,2) u(1,4,5)] inet Cons
      by (cases reply) (auto simp: GetBytesImmediateStart_data_def)
  qed
qed

lemma ask_inet_ok:
  assumes "bufs P = B" "platform_ok P" "engine_ok P segs data s"
  shows "\<exists>s'. ask_inet P len s = Some s' \<and> core s' = core s \<and> send_part s' = send_part s
     \<and> recv_bytes_ok P segs data s'"
proof (cases "mSSLRecvBufferSize s < len \<and> \<not> mRecvPending s")
  case False
  then show ?thesis
    using assms(3) by (auto simp: ask_inet_def engine_ok_def)
next
  case True
  have fields: "mSSLConfigured s" "mInetPConnectionEnd s \<noteq> None" "mInetCEPort s \<noteq> None"
    "\<not> mSSLReceiveInProgress s" "recv_bytes_ok P segs data s"
    using assms(3) by (simp_all add: engine_ok_def)
  obtain getb where getb: "mGetDataBuffer s = Some getb" "valid getb"
    using fields(5) assms(1) by (auto simp: recv_bytes_ok_def)
  let ?s1 = "s\<lparr>mRecvPending := True,
      mGetDataBuffer := Some (InsertLast B getb (seg_room B (len - mSSLRecvBufferSize s))),
      mSSLReceiveInProgress := True\<rparr>"
  have "recv_bytes_ok P segs data ?s1"
    using fields(5) getb assms(1) by (simp add: recv_bytes_ok_def)
  then obtain s2 where "GetBytesImmediateStart_data P 1 ?s1 = Some s2" "core s2 = core ?s1"
      "send_part s2 = send_part ?s1" "recv_bytes_ok P segs data s2"
    using get_data_ok [OF assms(1,2), of ?s1 1] fields(1-3) by auto
  then show ?thesis
    using True getb(1) assms(1) fields(4)
    by (simp add: ask_inet_def core_eq send_part_eq recv_bytes_ok_def)
qed

lemma SSLRecvCallback_ok:
  assumes "bufs P = B" "platform_ok P" "engine_ok P segs data s"
  shows "\<exists>x bs s'. SSLRecvCallback P len s = Some (x, bs, s') \<and> engine_ok P segs data s' \<and> core s' = core s
     \<and> send_part s' = send_part s"
proof -
  have engine: "engine_ok P segs data t"
    if "core t = core s" "send_part t = send_part s" "recv_bytes_ok P segs data t" for t
    using that assms(3) core_fields [OF that(1)]
    by (simp add: engine_ok_def send_bytes_ok_def send_idle_def send_part_eq)
  obtain s3 where s3: "ask_inet P len s = Some s3" "core s3 = core s" "send_part s3 = send_part s"
      "recv_bytes_ok P segs data s3"
    using ask_inet_ok [OF assms] by blast
  obtain x bs s' where "mSSLRecvBufferSize s3 \<noteq> 0 \<longrightarrow> consume_received P len s3 = Some (x, bs, s')
     \<and> core s' = core s3 \<and> send_part s' = send_part s3 \<and> recv_bytes_ok P segs data s'"
    using consume_received_ok [OF assms(2) s3(4)] by blast
  then show ?thesis
    using assms(3) s3 engine by (simp add: SSLRecvCallback_asks)
qed

end

section \<open>The connection end meets the contract\<close>

lemma core_timer [simp]: "core (SSLSetTimerCallback a b s) = core s"
  by (simp add: SSLSetTimerCallback_def Let_def core_eq)

lemma engine_ok_timer [simp]: "engine_ok P segs data (SSLSetTimerCallback a b s) = engine_ok P segs data s"
  by (simp add: SSLSetTimerCallback_def Let_def engine_ok_def send_bytes_ok_def send_idle_def recv_bytes_ok_def)

text \<open>
  The condition with what it relies on, for the parts \<open>c\<close> that callbacks do not touch.
\<close>

definition engine_inv where
  "engine_inv P segs data c s \<longleftrightarrow> buffer_list (bufs P) segs data \<and> platform_ok P
     \<and> engine_ok P segs data s \<and> core s = c"

interpretation engine: callback_contract P "engine_inv P segs data c" for P segs data c
proof
  fix s bs x s' assume "engine_inv P segs data c s" "SSLSendCallback P bs s = Some (x, s')"
  then show "engine_inv P segs data c s'"
    using buffer_list.SSLSendCallback_ok [of "bufs P" segs data P s bs] by (auto simp: engine_inv_def)
next
  fix s n x rs s' assume "engine_inv P segs data c s" "SSLRecvCallback P n s = Some (x, rs, s')"
  then show "engine_inv P segs data c s'"
    using buffer_list.SSLRecvCallback_ok [of "bufs P" segs data P s n] by (auto simp: engine_inv_def)
next
  fix s a b assume "engine_inv P segs data c s"
  then show "engine_inv P segs data c (SSLSetTimerCallback a b s)"
    by (simp add: engine_inv_def)
next
  fix s bs assume "engine_inv P segs data c s"
  then show "SSLSendCallback P bs s \<noteq> None"
    using buffer_list.SSLSendCallback_ok [of "bufs P" segs data P s bs] by (auto simp: engine_inv_def)
next
  fix s n assume "engine_inv P segs data c s"
  then show "SSLRecvCallback P n s \<noteq> None"
    using buffer_list.SSLRecvCallback_ok [of "bufs P" segs data P s n] by (auto simp: engine_inv_def)
qed

lemma run_ok:
  assumes "buffer_list (bufs P) segs data" "platform_ok P" "engine_ok P segs data s" "returns R io"
  shows "\<exists>r s'. run io P s = Some (r, s') \<and> R r \<and> engine_ok P segs data s' \<and> core s' = core s"
  using engine.run_returns [of P segs data "core s" s R io] assms by (auto simp: engine_inv_def)

end
