(* ===== verification/CE_Handlers.thy ===== *)
theory CE_Handlers
  imports CE_Streams
begin

text \<open>
  The engine's routines keep the connection end in order: what \<^verbatim>\<open>DoSSLRead\<close>,
  \<^verbatim>\<open>DoSSLHandshake\<close>, \<^verbatim>\<open>SSLConfigure\<close> and each request or completion do to a state that
  satisfies \<open>ce_ok\<close>, for every behaviour of the library that \<open>platform_ok\<close> allows. Each
  lemma says that the routine returns, and what it has reported to the client.
\<close>

section \<open>What the condition does not depend on\<close>

lemma engine_ok_simps [simp]:
  "engine_ok P segs data (s\<lparr>mbed := m\<rparr>) = engine_ok P segs data s"
  "engine_ok P segs data (s\<lparr>mEstablished := b\<rparr>) = engine_ok P segs data s"
  "engine_ok P segs data (s\<lparr>mClosing := b\<rparr>) = engine_ok P segs data s"
  "engine_ok P segs data (s\<lparr>mUpgradable := b\<rparr>) = engine_ok P segs data s"
  "engine_ok P segs data (s\<lparr>mSSLEnabled := b\<rparr>) = engine_ok P segs data s"
  "engine_ok P segs data (s\<lparr>mSSLReadBuffer := rb\<rparr>) = engine_ok P segs data s"
  "engine_ok P segs data (s\<lparr>mSSLReadBufferSize := n\<rparr>) = engine_ok P segs data s"
  "engine_ok P segs data (s\<lparr>mSSLReadCount := n\<rparr>) = engine_ok P segs data s"
  "engine_ok P segs data (s\<lparr>mSSLHostname := h\<rparr>) = engine_ok P segs data s"
  "engine_ok P segs data (s\<lparr>mSSLAuthMode := a\<rparr>) = engine_ok P segs data s"
  "engine_ok P segs data (s\<lparr>mSSLLoadRootCertificates := b\<rparr>) = engine_ok P segs data s"
  "engine_ok P segs data (s\<lparr>mRootCertificatesHeap := hp\<rparr>) = engine_ok P segs data s"
  "engine_ok P segs data (s\<lparr>cur_heap := hp\<rparr>) = engine_ok P segs data s"
  "engine_ok P segs data (s\<lparr>clock_ms := t\<rparr>) = engine_ok P segs data s"
  "engine_ok P segs data (s\<lparr>client_get := g\<rparr>) = engine_ok P segs data s"
  "engine_ok P segs data (s\<lparr>client_put := g\<rparr>) = engine_ok P segs data s"
  "engine_ok P segs data (s\<lparr>client_threshold := th\<rparr>) = engine_ok P segs data s"
  "engine_ok P segs data (s\<lparr>put_replies := prs\<rparr>) = engine_ok P segs data s"
  "engine_ok P segs data (s\<lparr>get_replies := grs\<rparr>) = engine_ok P segs data s"
  "engine_ok P segs data (s\<lparr>trace := tr\<rparr>) = engine_ok P segs data s"
  by (simp_all add: engine_ok_def send_bytes_ok_def send_idle_def recv_bytes_ok_def)

text \<open>The client is told something.\<close>

lemma client_ok:
  assumes "engine_ok P segs data s"
  shows "client c s = Some (s\<lparr>trace := trace s @ [Client c]\<rparr>)"
  using assms by (auto simp: engine_ok_def)

lemma inet_ok:
  assumes "engine_ok P segs data s"
  shows "inet c s = Some (s\<lparr>trace := trace s @ [Inet c]\<rparr>)"
  using assms by (auto simp: engine_ok_def)

text \<open>The parts of the state the engine's routines do not change.\<close>

definition setup_of where
  "setup_of s = ((mThisCECallBack s, mInetPConnectionEnd s, mInetCECallBack s, mInetCEPort s),
     (mSSLConfigured s, mUpgradable s, mSSLEnabled s, mSSLLoadRootCertificates s),
     (clock_ms s, cur_heap s, client_put s, client_threshold s))"

lemma setup_of_eq:
  "setup_of s = setup_of t \<longleftrightarrow> mThisCECallBack s = mThisCECallBack t
     \<and> mInetPConnectionEnd s = mInetPConnectionEnd t
     \<and> mInetCECallBack s = mInetCECallBack t \<and> mInetCEPort s = mInetCEPort t
     \<and> mSSLConfigured s = mSSLConfigured t \<and> mUpgradable s = mUpgradable t
     \<and> mSSLEnabled s = mSSLEnabled t \<and> mSSLLoadRootCertificates s = mSSLLoadRootCertificates t
     \<and> clock_ms s = clock_ms t \<and> cur_heap s = cur_heap t \<and> client_put s = client_put t
     \<and> client_threshold s = client_threshold t"
  by (auto simp: setup_of_def)

lemma core_setup: "core s = core t \<Longrightarrow> setup_of s = setup_of t"
  by (simp add: core_eq setup_of_eq)

lemma returns_conj:
  "returns Q io \<Longrightarrow> returns R io \<Longrightarrow> returns (\<lambda>r. Q r \<and> R r) io"
proof (induction io)
  case (Send bs k)
  show ?case using Send.prems by (auto intro: Send.IH [OF rangeI])
next
  case (Recv n k)
  show ?case using Recv.prems by (auto intro: Recv.IH [OF rangeI rangeI])
next
  case (GetTimer k)
  show ?case using GetTimer.prems by (auto intro: GetTimer.IH [OF rangeI])
qed simp_all

lemma returns_mono: "(\<And>r. Q r \<Longrightarrow> R r) \<Longrightarrow> returns Q io \<Longrightarrow> returns R io"
proof (induction io)
  case (Send bs k)
  show ?case using Send.prems(2) by (auto intro: Send.IH [OF rangeI Send.prems(1)])
next
  case (Recv n k)
  show ?case using Recv.prems(2) by (auto intro: Recv.IH [OF rangeI rangeI Recv.prems(1)])
next
  case (GetTimer k)
  show ?case using GetTimer.prems(2) by (auto intro: GetTimer.IH [OF rangeI GetTimer.prems(1)])
qed simp_all

lemma session_reset_ok:
  assumes "buffer_list (bufs P) segs data" "platform_ok P" "engine_ok P segs data s"
  shows "\<exists>s' m. session_reset P s = Some (s'\<lparr>mbed := m\<rparr>) \<and> engine_ok P segs data s' \<and> core s' = core s"
proof -
  obtain m s' where "run (ssl_session_reset P (mbed s)) P s = Some (m, s')" "engine_ok P segs data s'"
    "core s' = core s"
    using run_ok [OF assms returns_True, of "ssl_session_reset P (mbed s)"] by auto
  then show ?thesis by (auto simp: session_reset_def)
qed

lemma close_notify_ok:
  assumes "buffer_list (bufs P) segs data" "platform_ok P" "engine_ok P segs data s"
  shows "\<exists>s' m. close_notify P s = Some (s'\<lparr>mbed := m\<rparr>) \<and> engine_ok P segs data s' \<and> core s' = core s"
proof -
  obtain r m s' where "run (ssl_close_notify P (mbed s)) P s = Some ((r, m), s')" "engine_ok P segs data s'"
    "core s' = core s"
    using run_ok [OF assms returns_True, of "ssl_close_notify P (mbed s)"] by auto
  then show ?thesis by (auto simp: close_notify_def)
qed

section \<open>Reading\<close>

text \<open>
  A read of the library for at least one byte does not return 0: the threshold of a read
  is only reached under this condition.
\<close>

definition reads_progress :: "('b, 'g, 'm) platform \<Rightarrow> bool" where
  "reads_progress P \<longleftrightarrow> (\<forall>n m. 0 < n \<longrightarrow> returns (\<lambda>(r, bs, m'). r \<noteq> 0) (ssl_read P n m))"

text \<open>A read is under way: its buffer has room for what the client's buffer can take.\<close>

definition read_under_way ::
    "('b, 'g, 'm) platform \<Rightarrow> ('b \<Rightarrow> 'g list) \<Rightarrow> ('g \<Rightarrow> bytes) \<Rightarrow> ('b, 'm) ce \<Rightarrow> bool" where
  "read_under_way P segs data s \<longleftrightarrow>
     (\<exists>p. mSSLReadBuffer s = Some p \<and> length p = mSSLReadBufferSize s)
     \<and> mSSLReadCount s \<le> mSSLReadBufferSize s
     \<and> buf_valid (bufs P) segs data (client_get s)
     \<and> mSSLReadBufferSize s = length (buf_unread (bufs P) segs data (client_get s))"

lemma read_under_way_simps [simp]:
  "read_under_way P segs data (s\<lparr>mbed := m\<rparr>) = read_under_way P segs data s"
  "read_under_way P segs data (s\<lparr>mEstablished := b\<rparr>) = read_under_way P segs data s"
  "read_under_way P segs data (s\<lparr>mClosing := b\<rparr>) = read_under_way P segs data s"
  "read_under_way P segs data (s\<lparr>mUpgradable := b\<rparr>) = read_under_way P segs data s"
  "read_under_way P segs data (s\<lparr>mSSLEnabled := b\<rparr>) = read_under_way P segs data s"
  "read_under_way P segs data (s\<lparr>trace := tr\<rparr>) = read_under_way P segs data s"
  "read_under_way P segs data (s\<lparr>clock_ms := c\<rparr>) = read_under_way P segs data s"
  "read_under_way P segs data (s\<lparr>client_put := pb\<rparr>) = read_under_way P segs data s"
  by (simp_all add: read_under_way_def)

lemma setup_of_simps [simp]:
  "setup_of (s\<lparr>mbed := m\<rparr>) = setup_of s"
  "setup_of (s\<lparr>mEstablished := b\<rparr>) = setup_of s"
  "setup_of (s\<lparr>mClosing := b\<rparr>) = setup_of s"
  "setup_of (s\<lparr>trace := tr\<rparr>) = setup_of s"
  "setup_of (s\<lparr>mSSLReadBuffer := rb\<rparr>) = setup_of s"
  "setup_of (s\<lparr>mSSLReadBufferSize := n\<rparr>) = setup_of s"
  "setup_of (s\<lparr>mSSLReadCount := n\<rparr>) = setup_of s"
  "setup_of (s\<lparr>client_get := g\<rparr>) = setup_of s"
  by (simp_all add: setup_of_def)

definition threshold_ok :: "('b, 'g, 'm) platform \<Rightarrow> nat \<Rightarrow> nat \<Rightarrow> bool" where
  "threshold_ok P t n \<longleftrightarrow> t = 0 \<or> reads_progress P \<and> t \<le> n"

text \<open>
  How a read may stand when \<^verbatim>\<open>DoSSLRead\<close> returns: still under way, completed with \<open>n\<close>
  bytes stored in the client's buffer, or ended with the connection.
\<close>

datatype read_result = Waiting | Completed nat | Ended int nat

definition read_outcome ::
    "('b, 'g, 'm) platform \<Rightarrow> ('b \<Rightarrow> 'g list) \<Rightarrow> ('g \<Rightarrow> bytes) \<Rightarrow> nat \<Rightarrow> ('b, 'm) ce \<Rightarrow> read_result \<Rightarrow> ('b, 'm) ce \<Rightarrow> bool" where
  "read_outcome P segs data t s q s' \<longleftrightarrow>
     engine_ok P segs data s' \<and> setup_of s' = setup_of s
     \<and> (case q of
          Waiting \<Rightarrow> read_under_way P segs data s' \<and> mSSLReadBufferSize s' = mSSLReadBufferSize s
            \<and> mEstablished s' = mEstablished s \<and> mClosing s' = mClosing s
            \<and> client_calls (trace s') = client_calls (trace s)
        | Completed n \<Rightarrow> mSSLReadBuffer s' = None \<and> mEstablished s' = mEstablished s \<and> mClosing s' = mClosing s
            \<and> t \<le> n \<and> n \<le> mSSLReadBufferSize s
            \<and> Position (bufs P) (client_get s') = Position (bufs P) (client_get s) + n
            \<and> client_calls (trace s') = client_calls (trace s) @ [cGetComplete 0 True n]
        | Ended e n \<Rightarrow> \<not> mEstablished s' \<and> mClosing s'
            \<and> Position (bufs P) (client_get s') = Position (bufs P) (client_get s) + n
            \<and> client_calls (trace s') = client_calls (trace s) @ [cGetComplete e True n])"

lemma hand_over_ok:
  assumes "buffer_list (bufs P) segs data" "engine_ok P segs data s" "read_under_way P segs data s"
  shows "\<exists>b. hand_over P s = Some (s\<lparr>client_get := b, mSSLReadBuffer := None, mSSLReadBufferSize := 0\<rparr>)
     \<and> Position (bufs P) b = Position (bufs P) (client_get s) + mSSLReadCount s"
proof -
  obtain p where p: "mSSLReadBuffer s = Some p" "length p = mSSLReadBufferSize s"
    "mSSLReadCount s \<le> mSSLReadBufferSize s" "buf_valid (bufs P) segs data (client_get s)"
    "mSSLReadBufferSize s = length (buf_unread (bufs P) segs data (client_get s))"
    using assms(3) by (auto simp: read_under_way_def)
  obtain n b where n: "Putn (bufs P) (client_get s) (take (mSSLReadCount s) p) = (n, b)" by fastforce
  have "n = mSSLReadCount s"
    using buffer_list.putn_reset(1) [OF assms(1) p(4), of "take (mSSLReadCount s) p"] n p by simp
  moreover have "Position (bufs P) b = Position (bufs P) (client_get s) + n"
    using buffer_list.putn_pos [OF assms(1), of "client_get s" "take (mSSLReadCount s) p"] n p(4)
    by (simp add: buf_valid_def buffer_list.whole_simps(7) [OF assms(1)])
  moreover have "(if mSSLReadCount s = 0 then Some [] else map_option (take (mSSLReadCount s)) (mSSLReadBuffer s))
      = Some (take (mSSLReadCount s) p)"
    using p(1) by simp
  ultimately show ?thesis
    using n by (intro exI [of _ b]) (simp add: hand_over_def)
qed

lemma read_under_way_frame:
  assumes "core s' = core s" "read_under_way P segs data s"
  shows "read_under_way P segs data s'"
  using assms(2) core_fields(8-11) [OF assms(1)] by (auto simp: read_under_way_def)

text \<open>Still reading, with the same client's buffer.\<close>

definition still_reading where
  "still_reading P segs data s s' \<longleftrightarrow> engine_ok P segs data s' \<and> setup_of s' = setup_of s
     \<and> read_under_way P segs data s' \<and> mSSLReadBufferSize s' = mSSLReadBufferSize s
     \<and> mEstablished s' = mEstablished s \<and> mClosing s' = mClosing s
     \<and> client_calls (trace s') = client_calls (trace s) \<and> client_get s' = client_get s"

lemma still_reading_core:
  assumes "still_reading P segs data s s'" "core t = core s'" "engine_ok P segs data t"
  shows "still_reading P segs data s (t\<lparr>mbed := m\<rparr>)"
  using assms(1,3) read_under_way_frame [OF assms(2), of P segs data] core_setup [OF assms(2)] core_fields [OF assms(2)]
  by (simp add: still_reading_def)

lemma store_read_ok:
  assumes "still_reading P segs data s s'"
  shows "\<exists>s''. store_read bs s' = Some s'' \<and> still_reading P segs data s s''
     \<and> mSSLReadCount s'' = mSSLReadCount s' \<and> mbed s'' = mbed s'"
proof (cases "bs = []")
  case True
  then show ?thesis using assms by (simp add: store_read_def)
next
  case False
  obtain p where "mSSLReadBuffer s' = Some p" "length p = mSSLReadBufferSize s'" "mSSLReadCount s' \<le> mSSLReadBufferSize s'"
    using assms by (auto simp: still_reading_def read_under_way_def)
  then show ?thesis
    using assms False by (auto simp: store_read_def still_reading_def read_under_way_def)
qed

lemma still_reading_refl:
  "engine_ok P segs data s \<Longrightarrow> read_under_way P segs data s \<Longrightarrow> still_reading P segs data s s"
  by (simp add: still_reading_def)

lemma still_reading_outcome:
  "still_reading P segs data s s' \<Longrightarrow> read_outcome P segs data t s Waiting s'"
  by (simp add: still_reading_def read_outcome_def)

text \<open>The completion and the end of a read.\<close>

lemma complete_read:
  assumes "buffer_list (bufs P) segs data" "still_reading P segs data s s'" "t \<le> mSSLReadCount s'"
  shows "\<exists>s''. (do { s \<leftarrow> hand_over P s'; s \<leftarrow> client (cGetComplete 0 True (mSSLReadCount s)) s;
                 Some (Inr (s\<lparr>mSSLReadCount := 0\<rparr>)) }) = Some (Inr s'' :: ('b, 'm) ce + ('b, 'm) ce)
     \<and> read_outcome P segs data t s (Completed (mSSLReadCount s')) s''"
proof -
  have s': "engine_ok P segs data s'" "read_under_way P segs data s'"
    using assms(2) by (simp_all add: still_reading_def)
  obtain b where b: "hand_over P s' = Some (s'\<lparr>client_get := b, mSSLReadBuffer := None, mSSLReadBufferSize := 0\<rparr>)"
    "Position (bufs P) b = Position (bufs P) (client_get s') + mSSLReadCount s'"
    using hand_over_ok [OF assms(1) s'] by blast
  moreover have "mSSLReadCount s' \<le> mSSLReadBufferSize s'"
    using s'(2) by (simp add: read_under_way_def)
  ultimately show ?thesis
    using assms(2,3) s'
    by (simp add: client_ok [of P segs data] still_reading_def read_outcome_def)
qed

lemma end_read:
  assumes "buffer_list (bufs P) segs data" "platform_ok P" "still_reading P segs data s s'"
  shows "\<exists>s''. (do { s \<leftarrow> (if mSSLReadCount s' > 0
                       then hand_over P (s'\<lparr>mEstablished := False, mClosing := True\<rparr>)
                       else Some (s'\<lparr>mEstablished := False, mClosing := True\<rparr>));
                 s \<leftarrow> session_reset P s; s \<leftarrow> client (cGetComplete e True (mSSLReadCount s)) s;
                 Some (Inr s) }) = Some (Inr s'' :: ('b, 'm) ce + ('b, 'm) ce)
     \<and> read_outcome P segs data t s (Ended e (mSSLReadCount s')) s''"
proof -
  let ?s1 = "s'\<lparr>mEstablished := False, mClosing := True\<rparr>"
  have s1: "engine_ok P segs data ?s1" "read_under_way P segs data ?s1"
    using assms(3) by (simp_all add: still_reading_def)
  obtain s2 where s2: "(if mSSLReadCount s' > 0 then hand_over P ?s1 else Some ?s1) = Some s2"
    "engine_ok P segs data s2" "setup_of s2 = setup_of ?s1" "\<not> mEstablished s2" "mClosing s2"
    "client_calls (trace s2) = client_calls (trace ?s1)" "mSSLReadCount s2 = mSSLReadCount ?s1"
    "Position (bufs P) (client_get s2) = Position (bufs P) (client_get s') + mSSLReadCount s'"
    using hand_over_ok [OF assms(1) s1] s1(1) by (cases "mSSLReadCount s' > 0") (auto simp: setup_of_eq)
  obtain s3 m where s3: "session_reset P s2 = Some (s3\<lparr>mbed := m\<rparr>)" "engine_ok P segs data s3" "core s3 = core s2"
    using session_reset_ok [OF assms(1,2) s2(2)] by blast
  have "(do { s \<leftarrow> Some s2; s \<leftarrow> session_reset P s; s \<leftarrow> client (cGetComplete e True (mSSLReadCount s)) s;
            Some (Inr s) }) = Some (Inr (s3\<lparr>mbed := m, trace := trace s3 @ [Client (cGetComplete e True (mSSLReadCount s'))]\<rparr>)
               :: ('b, 'm) ce + ('b, 'm) ce)"
    using s3 core_fields [OF s3(3)] s2(7) by (simp add: client_ok [of P segs data])
  moreover have "read_outcome P segs data t s (Ended e (mSSLReadCount s'))
      (s3\<lparr>mbed := m, trace := trace s3 @ [Client (cGetComplete e True (mSSLReadCount s'))]\<rparr>)"
    using s3(2) core_fields [OF s3(3)] core_setup [OF s3(3)] s2 assms(3)
    by (simp add: read_outcome_def still_reading_def setup_of_eq)
  ultimately show ?thesis
    unfolding s2(1) by blast
qed

text \<open>One round: it goes on with more bytes read, below the threshold, or the read stands somewhere.\<close>

lemma ssl_read_returns:
  assumes "platform_ok P"
  shows "returns (\<lambda>(r, bs, m'). length bs = nat r \<and> r \<le> int n \<and> (reads_progress P \<and> 0 < n \<longrightarrow> r \<noteq> 0))
    (ssl_read P n m)"
proof (cases "reads_progress P \<and> 0 < n")
  case True
  have base: "returns (\<lambda>(r, bs, m'). length bs = nat r \<and> r \<le> int n) (ssl_read P n m)"
    using assms by (simp add: platform_ok_def)
  have "returns (\<lambda>(r, bs, m'). r \<noteq> 0) (ssl_read P n m)"
    using True by (simp add: reads_progress_def)
  from returns_conj [OF base this] show ?thesis
    by (rule returns_mono [rotated]) auto
next
  case False
  have "returns (\<lambda>(r, bs, m'). length bs = nat r \<and> r \<le> int n) (ssl_read P n m)"
    using assms by (simp add: platform_ok_def)
  then show ?thesis by (rule returns_mono [rotated]) (use False in auto)
qed

text \<open>A read that failed for good: the get is completed, the session reset.\<close>

lemma failed_read_step:
  fixes s :: "('b, 'm) ce"
  assumes "buffer_list (bufs P) segs data" "platform_ok P"
    and "run (ssl_read P (mSSLReadBufferSize s - mSSLReadCount s) (mbed s)) P s = Some ((r, bs, m), s1)"
    and "store_read bs (s1\<lparr>mbed := m\<rparr>) = Some s2" "still_reading P segs data s s2"
    and "r < 0" "r \<noteq> ERR_SSL_WANT_READ P" "r \<noteq> ERR_SSL_WANT_WRITE P"
  shows "\<exists>s' q. DoSSLRead_step P t s = Some (Inr s') \<and> read_outcome P segs data t s q s'"
proof -
  obtain s3 where s3: "(if r = ERR_SSL_PEER_CLOSE_NOTIFY P then close_notify P s2 else Some s2) = Some s3"
    "still_reading P segs data s s3"
  proof (cases "r = ERR_SSL_PEER_CLOSE_NOTIFY P")
    case True
    have "engine_ok P segs data s2" using assms(5) by (simp add: still_reading_def)
    then show ?thesis
      using close_notify_ok [OF assms(1,2)] still_reading_core [OF assms(5)] True that by metis
  qed (use assms(5) that in auto)
  obtain s4 where s4: "(do { s \<leftarrow> (if mSSLReadCount s3 > 0
                   then hand_over P (s3\<lparr>mEstablished := False, mClosing := True\<rparr>)
                   else Some (s3\<lparr>mEstablished := False, mClosing := True\<rparr>));
             s \<leftarrow> session_reset P s;
             s \<leftarrow> client (cGetComplete (if r = ERR_SSL_PEER_CLOSE_NOTIFY P \<or> r = ERR_SSL_CONN_EOF P then 0 else r)
                True (mSSLReadCount s)) s;
             Some (Inr s) }) = Some (Inr s4 :: ('b, 'm) ce + ('b, 'm) ce)"
    "\<exists>q. read_outcome P segs data t s q s4"
    using end_read [OF assms(1,2) s3(2)] by blast
  have "DoSSLRead_step P t s = Some (Inr s4)"
    using s4(1) assms(3,4,6-8) s3(1) by (simp add: DoSSLRead_step_def Let_def)
  then show ?thesis using s4(2) by blast
qed

lemma DoSSLRead_step_ok:
  fixes s :: "('b, 'm) ce"
  assumes "buffer_list (bufs P) segs data" "platform_ok P" "engine_ok P segs data s"
    and "read_under_way P segs data s" "threshold_ok P t (mSSLReadBufferSize s)"
  shows "(\<exists>s'. DoSSLRead_step P t s = Some (Inl s') \<and> still_reading P segs data s s'
        \<and> mSSLReadCount s < mSSLReadCount s' \<and> mSSLReadCount s' < t)
     \<or> (\<exists>s' q. DoSSLRead_step P t s = Some (Inr s') \<and> read_outcome P segs data t s q s')"
proof -
  let ?n = "mSSLReadBufferSize s - mSSLReadCount s"
  obtain r bs m s1 where run: "run (ssl_read P ?n (mbed s)) P s = Some ((r, bs, m), s1)"
    "engine_ok P segs data s1" "core s1 = core s"
    "r \<le> int ?n" "reads_progress P \<and> 0 < ?n \<longrightarrow> r \<noteq> 0"
    using run_ok [OF assms(1-3) ssl_read_returns [OF assms(2)], of ?n "mbed s"] by auto
  have "still_reading P segs data s (s1\<lparr>mbed := m\<rparr>)"
    using still_reading_core [OF still_reading_refl [OF assms(3,4)] run(3,2)] .
  then obtain s2 where s2: "store_read bs (s1\<lparr>mbed := m\<rparr>) = Some s2" "still_reading P segs data s s2"
    "mSSLReadCount s2 = mSSLReadCount s"
    using store_read_ok [of P segs data s "s1\<lparr>mbed := m\<rparr>" bs] core_fields(10) [OF run(3)] by auto
  have count: "mSSLReadCount s \<le> mSSLReadBufferSize s"
    using assms(4) by (simp add: read_under_way_def)
  show ?thesis
  proof (cases "r \<ge> 0")
    case True
    let ?s3 = "s2\<lparr>mSSLReadCount := mSSLReadCount s2 + nat r\<rparr>"
    have s3: "still_reading P segs data s ?s3"
      using s2 True run(4) count by (auto simp: still_reading_def read_under_way_def setup_of_eq)
    show ?thesis
    proof (cases "t \<le> mSSLReadCount ?s3")
      case full: True
      then show ?thesis
        using complete_read [OF assms(1) s3 full] run(1) s2(1) True
        by (auto simp: DoSSLRead_step_def Let_def)
    next
      case False
      then have "reads_progress P" "t \<le> mSSLReadBufferSize s"
        using assms(5) by (auto simp: threshold_ok_def)
      then have "r \<noteq> 0" using run(5) False s2(3) by auto
      moreover have "DoSSLRead_step P t s = Some (Inl ?s3)"
        using run(1) s2(1) True False by (simp add: DoSSLRead_step_def Let_def)
      ultimately show ?thesis
        using s3 s2(3) True False by (intro disjI1 exI [of _ ?s3]) simp
    qed
  next
    case neg: False
    show ?thesis
    proof (cases "r = ERR_SSL_WANT_READ P \<or> r = ERR_SSL_WANT_WRITE P")
      case True
      then show ?thesis
        using run(1) s2 neg still_reading_outcome [OF s2(2)]
        by (auto simp: DoSSLRead_step_def Let_def)
    next
      case False
      then show ?thesis
        using failed_read_step [OF assms(1,2) run(1) s2(1,2)] neg by auto
    qed
  qed
qed

text \<open>The loop ends, as each round reads at least one byte.\<close>

lemma DoSSLRead_ok:
  assumes "buffer_list (bufs P) segs data" "platform_ok P"
  shows "engine_ok P segs data s \<Longrightarrow> read_under_way P segs data s \<Longrightarrow> threshold_ok P t (mSSLReadBufferSize s) \<Longrightarrow>
    \<exists>s' q. DoSSLRead P t s = Some s' \<and> read_outcome P segs data t s q s'"
proof (induction "t - mSSLReadCount s" arbitrary: s rule: less_induct)
  case less
  from DoSSLRead_step_ok [OF assms less.prems]
  show ?case
  proof (elim disjE exE conjE)
    fix s1 assume s1: "DoSSLRead_step P t s = Some (Inl s1)" "still_reading P segs data s s1"
      "mSSLReadCount s < mSSLReadCount s1" "mSSLReadCount s1 < t"
    have "t - mSSLReadCount s1 < t - mSSLReadCount s" using s1(3,4) by arith
    from less.hyps [OF this]
    obtain s' q where "DoSSLRead P t s1 = Some s'" "read_outcome P segs data t s1 q s'"
      using s1(2) less.prems(3) unfolding still_reading_def by metis
    moreover from this(2) have "read_outcome P segs data t s q s'"
      using s1(2) by (auto simp: read_outcome_def still_reading_def split: read_result.splits)
    ultimately show ?thesis
      using s1(1) by (simp add: DoSSLRead.simps [of P t s]) blast
  next
    fix s1 q assume "DoSSLRead_step P t s = Some (Inr s1)" "read_outcome P segs data t s q s1"
    then show ?thesis by (simp add: DoSSLRead.simps [of P t s]) blast
  qed
qed

section \<open>The handshake\<close>

datatype handshake_result = Shaking | Shaken | Refused int

definition same_read where
  "same_read s s' \<longleftrightarrow> mSSLReadBuffer s' = mSSLReadBuffer s \<and> mSSLReadBufferSize s' = mSSLReadBufferSize s
     \<and> mSSLReadCount s' = mSSLReadCount s \<and> client_get s' = client_get s"

definition handshake_outcome ::
    "('b, 'g, 'm) platform \<Rightarrow> ('b \<Rightarrow> 'g list) \<Rightarrow> ('g \<Rightarrow> bytes) \<Rightarrow> ('b, 'm) ce \<Rightarrow> handshake_result \<Rightarrow> ('b, 'm) ce \<Rightarrow> bool" where
  "handshake_outcome P segs data s q s' \<longleftrightarrow>
     engine_ok P segs data s' \<and> setup_of s' = setup_of s \<and> same_read s s'
     \<and> (case q of
          Shaking \<Rightarrow> mEstablished s' = mEstablished s \<and> mClosing s' = mClosing s
            \<and> client_calls (trace s') = client_calls (trace s)
        | Shaken \<Rightarrow> mEstablished s' \<and> mClosing s' = mClosing s
            \<and> client_calls (trace s') = client_calls (trace s)
                @ [if mUpgradable s then cProcessOptionComplete (opSuccess P) else cConnectComplete 0]
        | Refused r \<Rightarrow> \<not> mEstablished s' \<and> mClosing s' \<and> r \<noteq> 0
            \<and> client_calls (trace s') = client_calls (trace s) @ [cConnectComplete r])"

lemma core_read: "core s' = core s \<Longrightarrow> same_read s s'"
  by (simp add: same_read_def core_eq)

lemma same_read_under_way:
  "same_read s s' \<Longrightarrow> read_under_way P segs data s' = read_under_way P segs data s"
  by (auto simp: same_read_def read_under_way_def)

lemma same_read_simps [simp]:
  "same_read s (s'\<lparr>mbed := m\<rparr>) = same_read s s'" "same_read s (s'\<lparr>mEstablished := b\<rparr>) = same_read s s'"
  "same_read s (s'\<lparr>mClosing := b\<rparr>) = same_read s s'" "same_read s (s'\<lparr>trace := tr\<rparr>) = same_read s s'"
  by (simp_all add: same_read_def)

lemma DoSSLHandshake_ok:
  assumes "buffer_list (bufs P) segs data" "platform_ok P" "engine_ok P segs data s"
  shows "\<exists>s' q. DoSSLHandshake P s = Some s' \<and> handshake_outcome P segs data s q s'"
proof -
  obtain r m s1 where run: "run (ssl_handshake P (mbed s)) P s = Some ((r, m), s1)"
    "engine_ok P segs data s1" "core s1 = core s"
    using run_ok [OF assms returns_True, of "ssl_handshake P (mbed s)"] by auto
  note frame = core_setup [OF run(3)] core_read [OF run(3)] core_fields [OF run(3)]
  consider "r = 0" | "r = ERR_SSL_WANT_READ P \<or> r = ERR_SSL_WANT_WRITE P" "r \<noteq> 0"
    | "r \<noteq> 0" "r \<noteq> ERR_SSL_WANT_READ P" "r \<noteq> ERR_SSL_WANT_WRITE P" by blast
  then show ?thesis
  proof cases
    case 1
    let ?c = "if mUpgradable s then cProcessOptionComplete (opSuccess P) else cConnectComplete 0"
    let ?s' = "s1\<lparr>mbed := m, mEstablished := True, trace := trace s1 @ [Client ?c]\<rparr>"
    have "DoSSLHandshake P s = Some ?s'"
      using run(1,2) 1 frame by (simp add: DoSSLHandshake_def client_ok [of P segs data])
    moreover have "handshake_outcome P segs data s Shaken ?s'"
      using run(2) frame by (simp add: handshake_outcome_def)
    ultimately show ?thesis by blast
  next
    case 2
    have "DoSSLHandshake P s = Some (s1\<lparr>mbed := m\<rparr>)"
      using run(1) 2 by (auto simp: DoSSLHandshake_def)
    moreover have "handshake_outcome P segs data s Shaking (s1\<lparr>mbed := m\<rparr>)"
      using run(2) frame by (simp add: handshake_outcome_def)
    ultimately show ?thesis by blast
  next
    case 3
    let ?s2 = "s1\<lparr>mbed := m, mEstablished := False, mClosing := True\<rparr>"
    obtain s3 m' where s3: "session_reset P ?s2 = Some (s3\<lparr>mbed := m'\<rparr>)" "engine_ok P segs data s3"
      "core s3 = core ?s2"
      using session_reset_ok [OF assms(1,2), of ?s2] run(2) by auto
    let ?s' = "s3\<lparr>mbed := m', trace := trace s3 @ [Client (cConnectComplete r)]\<rparr>"
    have "DoSSLHandshake P s = Some ?s'"
      using run(1) 3 s3(1,2) by (simp add: DoSSLHandshake_def client_ok [of P segs data])
    moreover have "same_read s s3" "setup_of s3 = setup_of s"
      using core_read [OF s3(3)] core_setup [OF s3(3)] frame(1,2) by (simp_all add: same_read_def)
    then have "handshake_outcome P segs data s (Refused r) ?s'"
      using 3 s3(2) core_fields [OF s3(3)] frame by (simp add: handshake_outcome_def)
    ultimately show ?thesis by blast
  qed
qed

section \<open>Configuration\<close>

text \<open>A call that neither sends nor receives only sets the timer.\<close>

lemma run_quiet:
  "quiet io \<Longrightarrow> \<exists>r a b f. run io P s = Some (r, s\<lparr>mSSLTimerInt := a, mSSLTimerFin := b, mSSLTimerFired := f\<rparr>)"
proof (induction io arbitrary: s)
  case (Ret r)
  show ?case by (intro exI [of _ r] exI [of _ "mSSLTimerInt s"] exI [of _ "mSSLTimerFin s"]
      exI [of _ "mSSLTimerFired s"]) simp
next
  case (SetTimer a b k)
  obtain r a' b' f where "run k P (SSLSetTimerCallback a b s) = Some (r, (SSLSetTimerCallback a b s)\<lparr>mSSLTimerInt := a',
      mSSLTimerFin := b', mSSLTimerFired := f\<rparr>)"
    using SetTimer.IH [of "SSLSetTimerCallback a b s"] SetTimer.prems by auto
  then show ?case by (auto simp: SSLSetTimerCallback_def Let_def split: if_splits)
next
  case (GetTimer k)
  show ?case using GetTimer.IH [OF rangeI, of "SSLGetTimerCallback s" s] GetTimer.prems by simp
qed simp_all

lemma load_root_certificates_returns:
  assumes "certificates_ok P"
  shows "\<exists>r h m c. load_root_certificates P s
     = Some (r, s\<lparr>mRootCertificatesHeap := h, mbed := m, cur_heap := c\<rparr>) \<and> r \<le> 0"
proof -
  obtain p where p: "new_ptr P 0 = Some p" "length p = 0"
    using assms unfolding certificates_ok_def by metis
  obtain r1 b1 i1 where l1: "ListRootCertificates_task (the_task P) (the_newt P) None = (r1, b1, i1)"
    by (metis prod_cases3)
  obtain r2 b2 i2 where l2: "ListRootCertificates_task (the_task P) (the_newt P) (Some (nat r1)) = (r2, b2, i2)"
    by (metis prod_cases3)
  define s1 where "s1 = s\<lparr>mRootCertificatesHeap :=
     (if mRootCertificatesHeap s = None then snd (new_vm_heap P) else mRootCertificatesHeap s)\<rparr>"
  have s1: "(if mRootCertificatesHeap s = None
                then s\<lparr>mRootCertificatesHeap := snd (new_vm_heap P)\<rparr> else s) = s1"
    by (simp add: s1_def)
  obtain m where m: "load_certificates P (take (the i2) b2) p 0 (mbed s) = Some m"
    using load_certificates_all [OF assms, of p 0] p by blast
  consider "r1 < 0" | "r1 \<ge> 0" "r2 < 0" | "r1 \<ge> 0" "r2 \<ge> 0" by linarith
  then show ?thesis
  proof cases
    case 1
    then have "load_root_certificates P s = Some (r1, s1\<lparr>cur_heap := mRootCertificatesHeap s1\<rparr>)"
      by (simp add: load_root_certificates_def s1 l1 Let_def)
    then show ?thesis
      using 1 by (intro exI [of _ r1] exI [of _ "mRootCertificatesHeap s1"] exI [of _ "mbed s"]
          exI [of _ "mRootCertificatesHeap s1"]) (simp add: s1_def)
  next
    case 2
    then have "load_root_certificates P s = Some (r2, s1\<lparr>cur_heap := mRootCertificatesHeap s1\<rparr>)"
      by (simp add: load_root_certificates_def s1 l1 l2 Let_def)
    then show ?thesis
      using 2 by (intro exI [of _ r2] exI [of _ "mRootCertificatesHeap s1"] exI [of _ "mbed s"]
          exI [of _ "mRootCertificatesHeap s1"]) (simp add: s1_def)
  next
    case 3
    then have "load_root_certificates P s = Some (0, s1\<lparr>mbed := m, cur_heap := cur_heap s1\<rparr>)"
      using m p by (simp add: load_root_certificates_def s1 l1 l2 Let_def s1_def)
    then show ?thesis
      by (intro exI [of _ 0] exI [of _ "mRootCertificatesHeap s1"] exI [of _ m]
          exI [of _ "cur_heap s1"]) (simp add: s1_def)
  qed
qed

text \<open>
  \<^verbatim>\<open>SSLConfigure\<close> returns: on success TLS is configured with empty buffers and no
  handshake done, on failure the connection end is as it was, up to the library's objects,
  the port and the heaps.
\<close>

text \<open>The part of \<^verbatim>\<open>SSLConfigure\<close> that cannot fail: the context and the buffers.\<close>

lemma setup_context_ok:
  assumes "buffer_list (bufs P) segs data" "platform_ok P" "mInetCEPort s = connection_end_port P"
    "mInetCECallBack s \<noteq> None" "mInetPConnectionEnd s \<noteq> None"
  shows "\<exists>s'. setup_context P s = Some s' \<and> engine_ok P segs data s' \<and> trace s' = trace s
    \<and> mSSLEnabled s' = mSSLEnabled s \<and> mUpgradable s' = mUpgradable s \<and> mInetCECallBack s' = mInetCECallBack s
    \<and> mInetPConnectionEnd s' = mInetPConnectionEnd s \<and> client_get s' = client_get s
    \<and> client_threshold s' = client_threshold s \<and> \<not> mEstablished s' \<and> \<not> mClosing s'
    \<and> mSSLReadBuffer s' = None \<and> accepted s' = [] \<and> received s' = []"
proof -
  obtain port msg where pm: "connection_end_port P = Some port" "new_async_message P = Some msg"
    using assms(2) by (auto simp: platform_ok_def)
  let ?m = "ssl_set_bio P (ssl_setup P (ssl_conf_authmode P (mSSLAuthMode s)
           (ssl_conf_ca_chain P (ssl_conf_rng P (ssl_config_defaults P (mbed s))))))"
  obtain m ti tf f where run: "run (ssl_set_timer_cb P ?m) P s
      = Some (m, s\<lparr>mSSLTimerInt := ti, mSSLTimerFin := tf, mSSLTimerFired := f\<rparr>)"
    using run_quiet [of "ssl_set_timer_cb P ?m" P s] assms(2) by (auto simp: platform_ok_def)
  obtain s' where s': "setup_context P s = Some s'"
    using run pm by (auto simp: setup_context_def Let_def)
  moreover have "engine_ok P segs data s'"
    using s' run pm assms(3-5) buffer_list.valid_simps(1) [OF assms(1)]
      buffer_list.unread_simps(1) [OF assms(1)] buffer_list.segs_new [OF assms(1)]
    by (auto simp: setup_context_def Let_def engine_ok_def send_bytes_ok_def send_idle_def
        recv_bytes_ok_def buf_whole_def)
  ultimately show ?thesis
    using run pm by (auto simp: setup_context_def Let_def)
qed

lemma SSLConfigure_ok:
  assumes "buffer_list (bufs P) segs data" "platform_ok P" "certificates_ok P"
    and "mInetCECallBack s \<noteq> None" "mInetPConnectionEnd s \<noteq> None"
  shows "\<exists>r s'. SSLConfigure P s = Some (r, s') \<and> trace s' = trace s \<and> mSSLEnabled s' = mSSLEnabled s
     \<and> mUpgradable s' = mUpgradable s \<and> mInetCECallBack s' = mInetCECallBack s
     \<and> mInetPConnectionEnd s' = mInetPConnectionEnd s \<and> client_get s' = client_get s
     \<and> client_threshold s' = client_threshold s
     \<and> (if r = 0 then engine_ok P segs data s' \<and> \<not> mEstablished s' \<and> \<not> mClosing s' \<and> mSSLReadBuffer s' = None
          \<and> accepted s' = [] \<and> received s' = []
        else (\<exists>m h c. s' = s\<lparr>mInetCEPort := connection_end_port P, mbed := m, mRootCertificatesHeap := h,
                cur_heap := c\<rparr>))"
proof -
  obtain cb where cb: "mInetCECallBack s = Some cb" using assms(4) by blast
  let ?s1 = "s\<lparr>mInetCEPort := connection_end_port P\<rparr>"
  obtain r m where seed: "ctr_drbg_seed P (snd (GetSerialNumber (the_task P) (the_newt P) (past_end P SERIAL_NUMBER_LEN)))
      (entropy_add_hardclock P (mbed s)) = (r, m)" by fastforce
  show ?thesis
  proof (cases "r = 0")
    case False
    then have "SSLConfigure P s = Some (r, ?s1\<lparr>mbed := m\<rparr>)"
      using cb seed by (simp add: SSLConfigure_def Let_def)
    moreover have "\<exists>m' h c. ?s1\<lparr>mbed := m\<rparr> = s\<lparr>mInetCEPort := connection_end_port P, mbed := m',
        mRootCertificatesHeap := h, cur_heap := c\<rparr>"
      by (rule exI [of _ m], rule exI [of _ "mRootCertificatesHeap s"], rule exI [of _ "cur_heap s"]) simp
    ultimately show ?thesis
      using False by auto
  next
    case True
    obtain r2 h m2 c where load: "(if mSSLLoadRootCertificates s then load_root_certificates P (?s1\<lparr>mbed := m\<rparr>)
        else Some (0, ?s1\<lparr>mbed := m\<rparr>))
          = Some (r2, ?s1\<lparr>mRootCertificatesHeap := h, mbed := m2, cur_heap := c\<rparr>)" "r2 \<le> 0"
    proof (cases "mSSLLoadRootCertificates s")
      case True
      then show ?thesis
        using load_root_certificates_returns [OF assms(3), of "?s1\<lparr>mbed := m\<rparr>"] that by auto
    next
      case False
      show ?thesis
        by (rule that [of 0 "cur_heap s" m "mRootCertificatesHeap s"]) (simp_all add: False)
    qed
    let ?s2 = "?s1\<lparr>mRootCertificatesHeap := h, mbed := m2, cur_heap := c\<rparr>"
    show ?thesis
    proof (cases "r2 = 0")
      case False
      then have "SSLConfigure P s = Some (r2, ?s2)"
        using cb seed True load by (simp add: SSLConfigure_def Let_def)
      moreover have "\<exists>m' h' c'. ?s2 = s\<lparr>mInetCEPort := connection_end_port P, mbed := m',
          mRootCertificatesHeap := h', cur_heap := c'\<rparr>"
        by (rule exI [of _ m2], rule exI [of _ h], rule exI [of _ c]) simp
      ultimately show ?thesis using False by auto
    next
      case zero: True
      obtain s' where s': "setup_context P ?s2 = Some s'" "engine_ok P segs data s'"
        "trace s' = trace s" "mSSLEnabled s' = mSSLEnabled s" "mUpgradable s' = mUpgradable s"
        "mInetCECallBack s' = mInetCECallBack s" "mInetPConnectionEnd s' = mInetPConnectionEnd s"
        "client_get s' = client_get s" "client_threshold s' = client_threshold s" "\<not> mEstablished s'"
        "\<not> mClosing s'" "mSSLReadBuffer s' = None" "accepted s' = []" "received s' = []"
        using setup_context_ok [OF assms(1,2), of ?s2] assms(4,5) by auto
      then have "SSLConfigure P s = Some (0, s')"
        using cb seed True load zero by (simp add: SSLConfigure_def Let_def)
      then show ?thesis using s' by auto
    qed
  qed
qed

end
