(* ===== verification/CE_Machine.thy ===== *)
theory CE_Machine
  imports CE_Handlers
begin

text \<open>
  The connection end as a machine: what can happen to it (\<open>stimulus\<close>), the method that
  handles it (\<open>handle\<close>), the order in which a client and the inet tool may call
  (\<open>admissible\<close>), and the states reached. The invariant \<open>ce_ok\<close> holds in all of them, and
  every admissible stimulus is handled: no call through NULL, no endless loop.
\<close>

section \<open>Stimuli\<close>

text \<open>
  \<open>handed_request\<close> are the requests and \<open>handed_callback\<close> the callbacks that are only handed
  on. Of the stimuli the first four change the surroundings: the clock, the client's current buffers, the
  replies the inet tool will make while a call runs. A constructor with \<open>q\<close> is any other request
  of the client, one with \<open>a\<close> any other callback of the inet tool. A completed put comes with the
  number of bytes the tool has taken from the buffer, a completed get with the bytes it
  stores there.
\<close>


datatype handed_request =
    hHandleInternalRequest nat
  | hHandleInternalEvent
  | hBindStart
  | hUnbindStart
  | hListenStart
  | hAcceptStart
  | hReleaseStart
  | hHandleReply ulong ulong
  | hKillControlStart
  | hKillGetCommEventStart
  | hGetCommEvent
  | hResArbReleaseStart nat nat
  | hResArbClaimNotification nat nat
  | hForwardOptions
  | hProcessPutBytesOptionStart ulong ulong
  | hProcessGetBytesOptionStart ulong ulong

datatype handed_callback =
    aOpenComplete int
  | aCloseComplete int
  | aBindComplete int
  | aUnbindComplete int
  | aListenComplete int
  | aAcceptComplete int
  | aTerminateComplete
  | aKillPutComplete int
  | aKillGetComplete int
  | aHandleRequest nat nat nat ulong
  | aHandleReply ulong ulong
  | aKillControlComplete int
  | aKillGetCommEventComplete int
  | aGetCommEvent
  | aProcessOptionComplete ulong
  | aProcessPutBytesOptionComplete ulong
  | aProcessGetBytesOptionComplete ulong
  | aResArbReleaseComplete int
  | aSetTerminationEvent ulong
  | aSetToolConnectState ulong
  | aSetConnectInfo nat
  | aSetCMOTransportInfo nat
  | aSetPassiveClaim bool
  | aSetPassiveState bool
  | aSetWaitingForResNotify bool

datatype 'b stimulus =
    Clock ulong
  | ClientPut 'b
  | ClientGet 'b "nat option"
  | Replies "put_reply list" "get_reply list"
  | Handed handed_request
  | Told handed_callback
  | qOpenStart
  | qCloseStart
  | qConnectStart
  | qTerminateStart
  | qPutBytesStart
  | qPutFramedBytesStart bool
  | qKillPutStart
  | qGetBytesStart
  | qGetFramedBytesStart
  | qGetBytesImmediateStart nat
  | qKillGetStart
  | qHandleTimerTick
  | qHandleRequest nat nat nat ulong
  | qProcessOptionStart toption ulong ulong
  | aConnectComplete int
  | aPutComplete int nat
  | aGetComplete int bytes

text \<open>
  The method each stimulus calls. The bytes of a completed put or get go through the
  connection end's own buffers when TLS is configured, and through the client's otherwise,
  which the tool handles itself.
\<close>

fun handed :: "('b, 'g, 'm) platform \<Rightarrow> handed_request \<Rightarrow> ('b, 'm) ce \<Rightarrow> ('b, 'm) ce option" where
  "handed P (hHandleInternalRequest a1) s = HandleInternalRequest a1 s"
| "handed P hHandleInternalEvent s = HandleInternalEvent s"
| "handed P hBindStart s = BindStart s"
| "handed P hUnbindStart s = UnbindStart s"
| "handed P hListenStart s = ListenStart s"
| "handed P hAcceptStart s = AcceptStart s"
| "handed P hReleaseStart s = ReleaseStart s"
| "handed P (hHandleReply a1 a2) s = HandleReply a1 a2 s"
| "handed P hKillControlStart s = KillControlStart s"
| "handed P hKillGetCommEventStart s = KillGetCommEventStart s"
| "handed P hGetCommEvent s = GetCommEvent s"
| "handed P (hResArbReleaseStart a1 a2) s = ResArbReleaseStart a1 a2 s"
| "handed P (hResArbClaimNotification a1 a2) s = ResArbClaimNotification a1 a2 s"
| "handed P hForwardOptions s = ForwardOptions s"
| "handed P (hProcessPutBytesOptionStart label opcode) s =
     map_option snd (ProcessPutBytesOptionStart P label opcode s)"
| "handed P (hProcessGetBytesOptionStart label opcode) s =
     map_option snd (ProcessGetBytesOptionStart P label opcode s)"

fun told :: "handed_callback \<Rightarrow> ('b, 'm) ce \<Rightarrow> ('b, 'm) ce option" where
  "told (aOpenComplete a1) s = OpenCompleteCB a1 s"
| "told (aCloseComplete a1) s = CloseCompleteCB a1 s"
| "told (aBindComplete a1) s = BindCompleteCB a1 s"
| "told (aUnbindComplete a1) s = UnbindCompleteCB a1 s"
| "told (aListenComplete a1) s = ListenCompleteCB a1 s"
| "told (aAcceptComplete a1) s = AcceptCompleteCB a1 s"
| "told aTerminateComplete s = TerminateCompleteCB s"
| "told (aKillPutComplete a1) s = KillPutCompleteCB a1 s"
| "told (aKillGetComplete a1) s = KillGetCompleteCB a1 s"
| "told (aHandleRequest a1 a2 a3 a4) s = HandleRequestCB a1 a2 a3 a4 s"
| "told (aHandleReply a1 a2) s = HandleReplyCB a1 a2 s"
| "told (aKillControlComplete a1) s = KillControlCompleteCB a1 s"
| "told (aKillGetCommEventComplete a1) s = KillGetCommEventCompleteCB a1 s"
| "told aGetCommEvent s = GetCommEventCB s"
| "told (aProcessOptionComplete a1) s = ProcessOptionCompleteCB a1 s"
| "told (aProcessPutBytesOptionComplete a1) s = ProcessPutBytesOptionCompleteCB a1 s"
| "told (aProcessGetBytesOptionComplete a1) s = ProcessGetBytesOptionCompleteCB a1 s"
| "told (aResArbReleaseComplete a1) s = ResArbReleaseCompleteCB a1 s"
| "told (aSetTerminationEvent a1) s = SetTerminationEventCB a1 s"
| "told (aSetToolConnectState a1) s = SetToolConnectStateCB a1 s"
| "told (aSetConnectInfo a1) s = SetConnectInfoCB a1 s"
| "told (aSetCMOTransportInfo a1) s = SetCMOTransportInfoCB a1 s"
| "told (aSetPassiveClaim a1) s = SetPassiveClaimCB a1 s"
| "told (aSetPassiveState a1) s = SetPassiveStateCB a1 s"
| "told (aSetWaitingForResNotify a1) s = SetWaitingForResNotifyCB a1 s"

fun handle :: "('b, 'g, 'm) platform \<Rightarrow> 'b stimulus \<Rightarrow> ('b, 'm) ce \<Rightarrow> ('b, 'm) ce option" where
  "handle P (Clock t) s = Some (s\<lparr>clock_ms := t\<rparr>)"
| "handle P (ClientPut b) s = Some (s\<lparr>client_put := b\<rparr>)"
| "handle P (ClientGet b t) s = Some (s\<lparr>client_get := b, client_threshold := t\<rparr>)"
| "handle P (Replies ps gs) s = Some (s\<lparr>put_replies := ps, get_replies := gs\<rparr>)"
| "handle P (Handed r) s = handed P r s"
| "handle P (Told c) s = told c s"
| "handle P qOpenStart s = OpenStart s"
| "handle P qCloseStart s = CloseStart s"
| "handle P qConnectStart s = ConnectStart P s"
| "handle P qTerminateStart s = TerminateStart P s"
| "handle P qPutBytesStart s = PutBytesStart P s"
| "handle P (qPutFramedBytesStart a1) s = PutFramedBytesStart P a1 s"
| "handle P qKillPutStart s = KillPutStart P s"
| "handle P qGetBytesStart s = GetBytesStart P s"
| "handle P qGetFramedBytesStart s = GetFramedBytesStart P s"
| "handle P (qGetBytesImmediateStart a1) s = GetBytesImmediateStart P a1 s"
| "handle P qKillGetStart s = KillGetStart P s"
| "handle P qHandleTimerTick s = HandleTimerTick P s"
| "handle P (qHandleRequest a1 a2 a3 a4) s = HandleRequest P a1 a2 a3 a4 s"
| "handle P (qProcessOptionStart opt label opcode) s =
     map_option (\<lambda>(r, opt', s'). s') (ProcessOptionStart P opt label opcode s)"
| "handle P (aConnectComplete r) s = ConnectCompleteCB P r s"
| "handle P (aPutComplete r n) s = do {
     s \<leftarrow> (if mSSLConfigured s then inet_take P n s else Some s);
     PutCompleteCB P r n s
   }"
| "handle P (aGetComplete r bs) s =
     (if mSSLConfigured s then inet_deliver P r bs s else GetCompleteCB P r True (length bs) s)"

lemmas pass_defs = HandleInternalRequest_def HandleInternalEvent_def BindStart_def UnbindStart_def ListenStart_def AcceptStart_def ReleaseStart_def HandleReply_def KillControlStart_def KillGetCommEventStart_def GetCommEvent_def ResArbReleaseStart_def ResArbClaimNotification_def ForwardOptions_def OpenCompleteCB_def CloseCompleteCB_def BindCompleteCB_def UnbindCompleteCB_def ListenCompleteCB_def AcceptCompleteCB_def TerminateCompleteCB_def KillPutCompleteCB_def KillGetCompleteCB_def HandleRequestCB_def HandleReplyCB_def KillControlCompleteCB_def KillGetCommEventCompleteCB_def GetCommEventCB_def ProcessOptionCompleteCB_def ProcessPutBytesOptionCompleteCB_def ProcessGetBytesOptionCompleteCB_def ResArbReleaseCompleteCB_def SetTerminationEventCB_def SetToolConnectStateCB_def SetConnectInfoCB_def SetCMOTransportInfoCB_def SetPassiveClaimCB_def SetPassiveStateCB_def SetWaitingForResNotifyCB_def
  ProcessPutBytesOptionStart_def ProcessGetBytesOptionStart_def

section \<open>When a stimulus may come\<close>

text \<open>
  The client does not change its get buffer while a read is under way and asks for no more
  than the buffer can take; the tool tells of an established connection once TLS has been
  configured, when it was enabled; the message of the connection end's own port comes
  while TLS is configured; a host name ends with NUL; and the peer's certificate is asked for
  when the library has one.
\<close>

definition admissible ::
    "('b, 'g, 'm) platform \<Rightarrow> ('b \<Rightarrow> 'g list) \<Rightarrow> ('g \<Rightarrow> bytes) \<Rightarrow> 'b stimulus \<Rightarrow> ('b, 'm) ce \<Rightarrow> bool" where
  "admissible P segs data q s \<longleftrightarrow>
     (case q of
        ClientGet b t \<Rightarrow> mSSLConfigured s \<and> \<not> mClosing s \<longrightarrow> mSSLReadBuffer s = None
      | qGetBytesStart \<Rightarrow> mSSLConfigured s \<longrightarrow>
          buf_valid (bufs P) segs data (client_get s) \<and> client_threshold s = None
      | qGetBytesImmediateStart t \<Rightarrow> mSSLConfigured s \<longrightarrow>
          buf_valid (bufs P) segs data (client_get s) \<and> client_threshold s = Some t
          \<and> threshold_ok P t (length (buf_unread (bufs P) segs data (client_get s)))
      | qHandleRequest request size_ token msgType \<Rightarrow>
          msgType AND kMsgType_ReservedMask P = kAsyncReadMessageType \<longrightarrow> mSSLConfigured s
      | aConnectComplete r \<Rightarrow> mSSLEnabled s \<and> r = 0 \<longrightarrow> mSSLConfigured s \<and> \<not> mClosing s
      | qProcessOptionStart opt label opcode \<Rightarrow> 
          (label = kSSLHostnameLabel \<longrightarrow> 0 \<in> set (hostname opt))
          \<and> (label = kSSLPeerCertificateLabel \<longrightarrow> ssl_peer_cert P (mbed s) \<noteq> [])
      | _ \<Rightarrow> True)"

section \<open>The invariant\<close>

definition reading_ok ::
    "('b, 'g, 'm) platform \<Rightarrow> ('b \<Rightarrow> 'g list) \<Rightarrow> ('g \<Rightarrow> bytes) \<Rightarrow> ('b, 'm) ce \<Rightarrow> bool" where
  "reading_ok P segs data s \<longleftrightarrow>
     (\<not> mClosing s \<and> mSSLReadBuffer s \<noteq> None \<longrightarrow>
        read_under_way P segs data s
        \<and> threshold_ok P (case client_threshold s of None \<Rightarrow> 0 | Some t \<Rightarrow> t) (mSSLReadBufferSize s))"

definition ce_ok ::
    "('b, 'g, 'm) platform \<Rightarrow> ('b \<Rightarrow> 'g list) \<Rightarrow> ('g \<Rightarrow> bytes) \<Rightarrow> ('b, 'm) ce \<Rightarrow> bool" where
  "ce_ok P segs data s \<longleftrightarrow>
     mInetPConnectionEnd s \<noteq> None \<and> mInetCECallBack s \<noteq> None
     \<and> (mSSLConfigured s \<longrightarrow> engine_ok P segs data s \<and> (mClosing s \<longrightarrow> \<not> mEstablished s)
          \<and> reading_ok P segs data s)"

text \<open>What the proxy relies on: buffers, memory, the library, the certificates.\<close>

definition world_ok :: "('b, 'g, 'm) platform \<Rightarrow> ('b \<Rightarrow> 'g list) \<Rightarrow> ('g \<Rightarrow> bytes) \<Rightarrow> bool" where
  "world_ok P segs data \<longleftrightarrow> buffer_list (bufs P) segs data \<and> platform_ok P \<and> certificates_ok P"

lemma ce_ok_simps [simp]:
  "ce_ok P segs data (s\<lparr>trace := tr\<rparr>) = ce_ok P segs data s"
  "ce_ok P segs data (s\<lparr>clock_ms := t\<rparr>) = ce_ok P segs data s"
  "ce_ok P segs data (s\<lparr>client_put := b\<rparr>) = ce_ok P segs data s"
  "ce_ok P segs data (s\<lparr>mUpgradable := u\<rparr>) = ce_ok P segs data s"
  "ce_ok P segs data (s\<lparr>mSSLEnabled := u\<rparr>) = ce_ok P segs data s"
  "ce_ok P segs data (s\<lparr>mbed := m\<rparr>) = ce_ok P segs data s"
  "ce_ok P segs data (s\<lparr>mSSLHostname := h\<rparr>) = ce_ok P segs data s"
  "ce_ok P segs data (s\<lparr>mSSLAuthMode := a\<rparr>) = ce_ok P segs data s"
  "ce_ok P segs data (s\<lparr>mSSLLoadRootCertificates := b'\<rparr>) = ce_ok P segs data s"
  "ce_ok P segs data (s\<lparr>mRootCertificatesHeap := hp\<rparr>) = ce_ok P segs data s"
  "ce_ok P segs data (s\<lparr>cur_heap := hp\<rparr>) = ce_ok P segs data s"
  "ce_ok P segs data (s\<lparr>put_replies := ps, get_replies := gs\<rparr>) = ce_ok P segs data s"
  by (simp_all add: ce_ok_def reading_ok_def read_under_way_def)

lemma ce_ok_inet:
  "ce_ok P segs data s \<Longrightarrow> inet c s = Some (s\<lparr>trace := trace s @ [Inet c]\<rparr>)"
  by (auto simp: ce_ok_def)

lemma ce_ok_client:
  "ce_ok P segs data s \<Longrightarrow> client c s = Some (s\<lparr>trace := trace s @ [Client c]\<rparr>)"
  by (auto simp: ce_ok_def)

lemma ce_ok_unconfigured:
  "ce_ok P segs data s \<Longrightarrow> mSSLConfigured s' = False \<Longrightarrow> mInetPConnectionEnd s' = mInetPConnectionEnd s \<Longrightarrow>
    mInetCECallBack s' = mInetCECallBack s \<Longrightarrow> ce_ok P segs data s'"
  by (simp add: ce_ok_def)

lemma ce_ok_core:
  assumes "ce_ok P segs data s" "mSSLConfigured s" "core s' = core s" "engine_ok P segs data s'"
  shows "ce_ok P segs data s'"
proof -
  note f = core_fields [OF assms(3)]
  have "read_under_way P segs data s' = read_under_way P segs data s"
    by (rule same_read_under_way [OF core_read [OF assms(3)]])
  then show ?thesis
    using assms(1,2,4) f by (simp add: ce_ok_def reading_ok_def)
qed

section \<open>Every request is handled\<close>

lemma handed_ok: "ce_ok P segs data s \<Longrightarrow> \<exists>s'. handed P r s = Some s' \<and> ce_ok P segs data s'"
  by (cases r) (simp_all add: pass_defs ce_ok_inet)

lemma told_ok: "ce_ok P segs data s \<Longrightarrow> \<exists>s'. told c s = Some s' \<and> ce_ok P segs data s'"
  by (cases c) (simp_all add: pass_defs ce_ok_client)

lemma handshake_ce_ok:
  assumes "world_ok P segs data" "ce_ok P segs data s" "mSSLConfigured s" "\<not> mClosing s"
  shows "\<exists>s'. DoSSLHandshake P s = Some s' \<and> ce_ok P segs data s'"
proof -
  obtain s' q where s': "DoSSLHandshake P s = Some s'" "handshake_outcome P segs data s q s'"
    using DoSSLHandshake_ok [of P segs data s] assms by (auto simp: world_ok_def ce_ok_def)
  have frame: "engine_ok P segs data s'" "setup_of s' = setup_of s" "same_read s s'"
    "mClosing s' \<longrightarrow> \<not> mEstablished s'"
    using s'(2) assms(4) by (auto simp: handshake_outcome_def split: handshake_result.splits)
  then have "reading_ok P segs data s'"
    using assms(2-4) same_read_under_way [OF frame(3)]
    by (auto simp: ce_ok_def reading_ok_def same_read_def setup_of_eq)
  then show ?thesis
    using s'(1) frame assms(2) by (simp add: ce_ok_def setup_of_eq)
qed

lemma read_ce_ok:
  assumes "world_ok P segs data" "ce_ok P segs data s" "mSSLConfigured s" "\<not> mClosing s"
    and "read_under_way P segs data s" "threshold_ok P t (mSSLReadBufferSize s)"
    and "t = (case client_threshold s of None \<Rightarrow> 0 | Some t \<Rightarrow> t)"
  shows "\<exists>s'. DoSSLRead P t s = Some s' \<and> ce_ok P segs data s'"
proof -
  obtain s' q where s': "DoSSLRead P t s = Some s'" "read_outcome P segs data t s q s'"
    using DoSSLRead_ok [of P segs data s t] assms by (auto simp: world_ok_def ce_ok_def)
  have frame: "engine_ok P segs data s'" "setup_of s' = setup_of s"
    using s'(2) by (auto simp: read_outcome_def)
  have "reading_ok P segs data s' \<and> (mClosing s' \<longrightarrow> \<not> mEstablished s')"
  proof (cases q)
    case Waiting
    then show ?thesis
      using s'(2) assms(4,6,7) by (simp add: read_outcome_def reading_ok_def setup_of_eq)
  next
    case (Completed n)
    then show ?thesis
      using s'(2) assms(4) by (simp add: read_outcome_def reading_ok_def)
  next
    case (Ended e n)
    then show ?thesis
      using s'(2) by (simp add: read_outcome_def reading_ok_def)
  qed
  then show ?thesis
    using s'(1) frame assms(2) by (simp add: ce_ok_def setup_of_eq)
qed

lemma configure_ce_ok:
  assumes "world_ok P segs data" "ce_ok P segs data s"
  shows "\<exists>r s'. SSLConfigure P s = Some (r, s') \<and> ce_ok P segs data s'
     \<and> (r = 0 \<longrightarrow> mSSLConfigured s' \<and> \<not> mClosing s')"
proof -
  obtain r s' where c: "SSLConfigure P s = Some (r, s')" "mInetCECallBack s' = mInetCECallBack s"
    "mInetPConnectionEnd s' = mInetPConnectionEnd s"
    "if r = 0 then engine_ok P segs data s' \<and> \<not> mEstablished s' \<and> \<not> mClosing s' \<and> mSSLReadBuffer s' = None
          \<and> accepted s' = [] \<and> received s' = []
        else (\<exists>m h c. s' = s\<lparr>mInetCEPort := connection_end_port P, mbed := m, mRootCertificatesHeap := h,
                cur_heap := c\<rparr>)"
    using SSLConfigure_ok [of P segs data s] assms by (auto simp: world_ok_def ce_ok_def)
  show ?thesis
  proof (cases "r = 0")
    case True
    then have "ce_ok P segs data s'" "mSSLConfigured s'" "\<not> mClosing s'"
      using c assms(2) by (auto simp: ce_ok_def reading_ok_def engine_ok_def)
    then show ?thesis using c(1) by blast
  next
    case False
    then obtain m h cc where s': "s' = s\<lparr>mInetCEPort := connection_end_port P, mbed := m,
        mRootCertificatesHeap := h, cur_heap := cc\<rparr>"
      using c(4) by auto
    have "ce_ok P segs data (s\<lparr>mInetCEPort := connection_end_port P\<rparr>)"
      using assms by (auto simp: world_ok_def platform_ok_def ce_ok_def reading_ok_def read_under_way_def
          engine_ok_def send_bytes_ok_def send_idle_def recv_bytes_ok_def)
    then have "ce_ok P segs data s'" unfolding s' by simp
    then show ?thesis using c(1) False by auto
  qed
qed

lemma terminate_ok:
  assumes "world_ok P segs data" "ce_ok P segs data s"
  shows "\<exists>s'. TerminateStart P s = Some s' \<and> ce_ok P segs data s'"
proof (cases "mSSLConfigured s \<and> mEstablished s")
  case True
  then obtain s1 m where s1: "close_notify P s = Some (s1\<lparr>mbed := m\<rparr>)" "engine_ok P segs data s1" "core s1 = core s"
    using close_notify_ok [of P segs data s] assms by (auto simp: world_ok_def ce_ok_def)
  have "ce_ok P segs data (s1\<lparr>mbed := m, mEstablished := False, mClosing := True\<rparr>)"
    using s1(2) core_fields [OF s1(3)] assms(2) by (simp add: ce_ok_def reading_ok_def)
  then show ?thesis
    using True s1(1) by (simp add: TerminateStart_def ce_ok_inet)
next
  case False
  then show ?thesis
    using assms(2) by (auto simp: TerminateStart_def ce_ok_inet)
qed

lemma put_ok:
  assumes "world_ok P segs data" "ce_ok P segs data s"
  shows "\<exists>s'. PutBytesStart P s = Some s' \<and> ce_ok P segs data s'"
proof (cases "mSSLConfigured s \<and> \<not> mClosing s \<and> mEstablished s")
  case False
  then show ?thesis
    using assms(2) by (auto simp: PutBytesStart_def ce_ok_client ce_ok_inet)
next
  case True
  obtain buf b where buf: "Getn (bufs P) (client_put s)
      (GetSize (bufs P) (client_put s) - Position (bufs P) (client_put s)) = (buf, b)" by fastforce
  let ?s1 = "s\<lparr>client_put := b\<rparr>"
  have ok1: "ce_ok P segs data ?s1" "mSSLConfigured ?s1"
    using assms(2) True by simp_all
  then have eng1: "engine_ok P segs data ?s1" by (simp add: ce_ok_def)
  obtain r m s2 where run: "run (ssl_write P buf (mbed s)) P ?s1 = Some ((r, m), s2)"
    "engine_ok P segs data s2" "core s2 = core ?s1"
    using run_ok [OF _ _ eng1 returns_True, of "ssl_write P buf (mbed s)"] assms(1)
    by (auto simp: world_ok_def)
  have ok2: "ce_ok P segs data s2" by (rule ce_ok_core [OF ok1 run(3,2)])
  show ?thesis
  proof (cases "r \<ge> 0")
    case r: True
    then show ?thesis
      using True run(1) buf ok2 by (simp add: PutBytesStart_def Let_def ce_ok_client)
  next
    case False
    have "mSSLConfigured s2" using run(2) by (simp add: engine_ok_def)
    let ?s3 = "s2\<lparr>mbed := m, mEstablished := False\<rparr>"
    have ok3: "ce_ok P segs data ?s3" "mSSLConfigured ?s3" "engine_ok P segs data ?s3"
      using ok2 run(2) \<open>mSSLConfigured s2\<close> by (auto simp: ce_ok_def reading_ok_def)
    obtain s4 m' where s4: "session_reset P ?s3 = Some (s4\<lparr>mbed := m'\<rparr>)" "engine_ok P segs data s4"
      "core s4 = core ?s3"
      using session_reset_ok [of P segs data ?s3] assms(1) run(2) by (auto simp: world_ok_def)
    have "ce_ok P segs data s4" by (rule ce_ok_core [OF ok3(1,2) s4(3,2)])
    then show ?thesis
      using True False run(1) buf s4(1)
      by (simp add: PutBytesStart_def Let_def ce_ok_client [of P segs data])
  qed
qed

lemma start_read_ok:
  assumes "world_ok P segs data" "ce_ok P segs data s" "mSSLConfigured s" "mEstablished s"
    and "buf_valid (bufs P) segs data (client_get s)"
    and "threshold_ok P t (length (buf_unread (bufs P) segs data (client_get s)))"
    and "t = (case client_threshold s of None \<Rightarrow> 0 | Some t \<Rightarrow> t)"
  defines "n \<equiv> GetSize (bufs P) (client_get s) - Position (bufs P) (client_get s)"
  shows "\<exists>s'. DoSSLRead P t (s\<lparr>mSSLReadBufferSize := n, mSSLReadBuffer := new_ptr P n, mSSLReadCount := 0\<rparr>) = Some s'
     \<and> ce_ok P segs data s'"
proof (rule read_ce_ok [OF assms(1)])
  let ?s = "s\<lparr>mSSLReadBufferSize := n, mSSLReadBuffer := new_ptr P n, mSSLReadCount := 0\<rparr>"
  have B: "buffer_list (bufs P) segs data" using assms(1) by (simp add: world_ok_def)
  have n: "n = length (buf_unread (bufs P) segs data (client_get s))"
    by (simp add: n_def buf_unread_def buffer_list.whole_simps(7) [OF B])
  obtain p where p: "new_ptr P n = Some p" "length p = n"
    using assms(1) platform_ok_memory by (auto simp: world_ok_def)
  show read: "read_under_way P segs data ?s"
    using p n assms(5) by (simp add: read_under_way_def)
  show "mSSLConfigured ?s" "\<not> mClosing ?s" using assms(2-4) by (auto simp: ce_ok_def)
  show "threshold_ok P t (mSSLReadBufferSize ?s)" using assms(6) n by simp
  show "t = (case client_threshold ?s of None \<Rightarrow> 0 | Some t \<Rightarrow> t)" using assms(7) by simp
  show "ce_ok P segs data ?s"
    using assms(2-4,6,7) read n by (simp add: ce_ok_def reading_ok_def)
qed

lemma get_ok:
  assumes "world_ok P segs data" "ce_ok P segs data s" "admissible P segs data qGetBytesStart s"
  shows "\<exists>s'. GetBytesStart P s = Some s' \<and> ce_ok P segs data s'"
proof (cases "mSSLConfigured s \<and> mEstablished s \<and> mSSLReadBuffer s = None")
  case True
  then have adm: "buf_valid (bufs P) segs data (client_get s)" "client_threshold s = None"
    using assms(3) by (simp_all add: admissible_def)
  have th: "threshold_ok P 0 (length (buf_unread (bufs P) segs data (client_get s)))"
    by (simp add: threshold_ok_def)
  have t0: "0 = (case client_threshold s of None \<Rightarrow> 0 | Some t \<Rightarrow> t)" by (simp add: adm(2))
  from start_read_ok [OF assms(1,2) _ _ adm(1) th t0] True
  show ?thesis by (simp add: GetBytesStart_def Let_def)
next
  case False
  then show ?thesis
    using ce_ok_client [OF assms(2)] ce_ok_inet [OF assms(2)] assms(2)
    by (cases "mSSLConfigured s"; cases "mEstablished s") (simp_all add: GetBytesStart_def)
qed

lemma get_immediate_ok:
  assumes "world_ok P segs data" "ce_ok P segs data s" "admissible P segs data (qGetBytesImmediateStart t) s"
  shows "\<exists>s'. GetBytesImmediateStart P t s = Some s' \<and> ce_ok P segs data s'"
proof (cases "mSSLConfigured s \<and> mEstablished s \<and> mSSLReadBuffer s = None")
  case True
  then have adm: "buf_valid (bufs P) segs data (client_get s)" "client_threshold s = Some t"
    "threshold_ok P t (length (buf_unread (bufs P) segs data (client_get s)))"
    using assms(3) by (simp_all add: admissible_def)
  have t0: "t = (case client_threshold s of None \<Rightarrow> 0 | Some t \<Rightarrow> t)" by (simp add: adm(2))
  from start_read_ok [OF assms(1,2) _ _ adm(1,3) t0] True
  show ?thesis by (simp add: GetBytesImmediateStart_def Let_def)
next
  case False
  then show ?thesis
    using ce_ok_client [OF assms(2)] ce_ok_inet [OF assms(2)] assms(2)
    by (cases "mSSLConfigured s"; cases "mEstablished s") (simp_all add: GetBytesImmediateStart_def)
qed

lemma timer_ok:
  assumes "world_ok P segs data" "ce_ok P segs data s"
  shows "\<exists>s'. HandleTimerTick P s = Some s' \<and> ce_ok P segs data s'"
proof (cases "mSSLConfigured s \<and> \<not> mEstablished s \<and> \<not> mClosing s \<and> mSSLTimerFin s \<noteq> 0
              \<and> \<not> mSSLTimerFired s \<and> clock_ms s \<ge> mSSLTimerFin s")
  case True
  then show ?thesis
    using handshake_ce_ok [OF assms] by (auto simp: HandleTimerTick_def Let_def ce_ok_inet)
next
  case False
  then show ?thesis
    using assms(2) by (auto simp: HandleTimerTick_def Let_def ce_ok_inet)
qed

lemma message_ok:
  assumes "world_ok P segs data" "ce_ok P segs data s" "admissible P segs data (qHandleRequest a b c t) s"
  shows "\<exists>s'. HandleRequest P a b c t s = Some s' \<and> ce_ok P segs data s'"
proof (cases "t AND kMsgType_ReservedMask P = kAsyncReadMessageType")
  case False
  then show ?thesis using assms(2) by (simp add: HandleRequest_def ce_ok_inet)
next
  case True
  then have conf: "mSSLConfigured s" using assms(3) by (simp add: admissible_def)
  let ?th = "case client_threshold s of None \<Rightarrow> 0 | Some t \<Rightarrow> t"
  have "\<exists>s'. (if \<not> mClosing s then
                (if \<not> mEstablished s then DoSSLHandshake P s
                 else if mSSLReadBuffer s \<noteq> None then do {
                   _ \<leftarrow> mInetCECallBack s; let threshold = ?th; DoSSLRead P threshold s }
                 else Some s)
              else Some s) = Some s' \<and> ce_ok P segs data s'"
  proof (cases "mClosing s")
    case False
    obtain cb where cb: "mInetCECallBack s = Some cb" using assms(2) by (auto simp: ce_ok_def)
    show ?thesis
    proof (cases "\<not> mEstablished s \<or> mSSLReadBuffer s = None")
      case True
      then show ?thesis
        using handshake_ce_ok [OF assms(1,2) conf False] False assms(2) by auto
    next
      case read: False
      then have "reading_ok P segs data s" using assms(2) conf by (simp add: ce_ok_def)
      then show ?thesis
        using read_ce_ok [OF assms(1,2) conf False, of ?th] read False cb by (simp add: reading_ok_def)
    qed
  qed (use assms(2) in simp)
  then obtain s' where "(if \<not> mClosing s then
                (if \<not> mEstablished s then DoSSLHandshake P s
                 else if mSSLReadBuffer s \<noteq> None then do {
                   _ \<leftarrow> mInetCECallBack s; let threshold = ?th; DoSSLRead P threshold s }
                 else Some s)
              else Some s) = Some s'" "ce_ok P segs data s'" by blast
  then show ?thesis
    using True by (simp only: HandleRequest_def if_True bind.bind_lunit) (simp add: ce_ok_client)
qed

lemma peer_cert_at_Some: "cs \<noteq> [] \<Longrightarrow> \<exists>y. peer_cert_at cs i = Some y"
  by (induction cs i rule: peer_cert_at.induct) auto

lemma option_ok:
  assumes "world_ok P segs data" "ce_ok P segs data s" "admissible P segs data (qProcessOptionStart opt label opcode) s"
  shows "\<exists>r opt' s'. ProcessOptionStart P opt label opcode s = Some (r, opt', s') \<and> ce_ok P segs data s'"
proof -
  have ok1: "ce_ok P segs data (s\<lparr>mSSLEnabled := enabled opt\<rparr>)" using assms(2) by simp
  consider "label = kSSLEnableLabel" | "label = kSSLHostnameLabel" "label \<noteq> kSSLEnableLabel"
    | "label = kSSLPeerCertificateLabel" "label \<noteq> kSSLEnableLabel" "label \<noteq> kSSLHostnameLabel"
       "label \<noteq> kSSLVerifyModeLabel" "label \<noteq> kSSLCertificateAuthorityLabel"
    | "label \<noteq> kSSLEnableLabel" "label \<noteq> kSSLHostnameLabel" "label \<noteq> kSSLPeerCertificateLabel \<or> label = kSSLVerifyModeLabel
        \<or> label = kSSLCertificateAuthorityLabel"
    by blast
  then show ?thesis
  proof cases
    case 1
    show ?thesis
    proof (cases "mUpgradable s \<and> enabled opt")
      case False
      then show ?thesis using 1 ok1 by (auto simp: ProcessOptionStart_def Let_def)
    next
      case True
      obtain r s1 where c: "SSLConfigure P (s\<lparr>mSSLEnabled := enabled opt\<rparr>) = Some (r, s1)" "ce_ok P segs data s1"
        "r = 0 \<longrightarrow> mSSLConfigured s1 \<and> \<not> mClosing s1"
        using configure_ce_ok [OF assms(1) ok1] by blast
      then show ?thesis
        using handshake_ce_ok [OF assms(1) c(2)] 1 True
        by (cases "r = 0") (auto simp: ProcessOptionStart_def Let_def)
    qed
  next
    case 2
    then have nul: "0 \<in> set (hostname opt)"
      using assms(3) unfolding admissible_def stimulus.case by blast
    obtain p where p: "new_ptr P (length (c_string (hostname opt)) + 1) = Some p"
      using platform_ok_memory [of P "length (c_string (hostname opt)) + 1"] assms(1) by (auto simp: world_ok_def)
    show ?thesis
      using 2 nul p assms(2) by (simp add: ProcessOptionStart_def option_hostname_def Let_def)
  next
    case 3
    have "ssl_peer_cert P (mbed s) \<noteq> []" using assms(3) 3 by (simp add: admissible_def)
    then obtain y where "peer_cert_at (ssl_peer_cert P (mbed s)) (unat (indexInChain opt)) = Some y"
      using peer_cert_at_Some by blast
    then have "option_peer_certificate P opt s \<noteq> None"
      by (auto simp: option_peer_certificate_def Let_def split: option.splits)
    then show ?thesis using 3 assms(2) by (auto simp: ProcessOptionStart_def)
  next
    case 4
    then show ?thesis
      using assms(2) by (auto simp: ProcessOptionStart_def Let_def ce_ok_inet split_beta)
  qed
qed

lemma put_complete_core:
  assumes "world_ok P segs data" "ce_ok P segs data s" and True: "mSSLConfigured s"
  shows "\<exists>s'. handle P (aPutComplete r n) s = Some s' \<and> ce_ok P segs data s' \<and> core s' = core s"
proof -
  have B: "buffer_list (bufs P) segs data" using assms(1) by (simp add: world_ok_def)
  have eng: "engine_ok P segs data s" using assms(2) True by (simp add: ce_ok_def)
  then have send: "send_bytes_ok P segs data s" by (simp add: engine_ok_def)
  obtain s1 where s1: "inet_take P n s = Some s1" "send_bytes_ok P segs data s1" "core s1 = core s"
    "recv_part s1 = recv_part s"
    using buffer_list.inet_take_ok [OF B refl send] by blast
  have conf1: "mSSLConfigured s1" "mInetPConnectionEnd s1 \<noteq> None"
    using core_fields [OF s1(3)] True assms(2) by (simp_all add: ce_ok_def)
  obtain s2 where s2: "PutCompleteCB P r n s1 = Some s2" "send_step P segs data s1 s2"
    using buffer_list.PutCompleteCB_with_ok [OF B refl s1(2) conf1(1), of "PutBytesStart_data P"]
      buffer_list.inet_put_ok [OF B refl] conf1(2)
    by (force simp: PutCompleteCB_def PutBytesStart_data_def)
  have "engine_ok P segs data s2"
    using s2(2) eng s1(3,4) core_fields [of s2 s]
    by (simp add: send_step_def engine_ok_def recv_bytes_ok_def recv_part_eq)
  then have "ce_ok P segs data s2"
    using ce_ok_core [OF assms(2) True] s2(2) s1(3) by (simp add: send_step_def)
  then show ?thesis using s1(1,3) s2 True by (simp add: send_step_def)
qed

lemma put_complete_ok:
  assumes "world_ok P segs data" "ce_ok P segs data s"
  shows "\<exists>s'. handle P (aPutComplete r n) s = Some s' \<and> ce_ok P segs data s'"
proof (cases "mSSLConfigured s")
  case False
  then show ?thesis
    using assms(2) by (simp add: PutCompleteCB_def PutCompleteCB_with_def ce_ok_client)
qed (use put_complete_core [OF assms] in blast)

lemma get_complete_core:
  assumes "world_ok P segs data" "ce_ok P segs data s" and True: "mSSLConfigured s"
  shows "\<exists>s'. handle P (aGetComplete r bs) s = Some s' \<and> ce_ok P segs data s' \<and> core s' = core s"
proof -
  have B: "buffer_list (bufs P) segs data" "platform_ok P" using assms(1) by (simp_all add: world_ok_def)
  have eng: "engine_ok P segs data s" using assms(2) True by (simp add: ce_ok_def)
  then obtain s1 where s1: "inet_deliver P r bs s = Some s1" "core s1 = core s" "send_part s1 = send_part s"
    "recv_bytes_ok P segs data s1"
    using buffer_list.inet_deliver_ok [OF B(1) refl B(2) _ True] by (auto simp: engine_ok_def)
  have "engine_ok P segs data s1"
    using eng s1(4) core_fields [OF s1(2)] s1(3)
    by (simp add: engine_ok_def send_bytes_ok_def send_idle_def send_part_eq)
  then show ?thesis
    using ce_ok_core [OF assms(2) True s1(2)] s1(1,2) True by simp
qed

lemma get_complete_ok:
  assumes "world_ok P segs data" "ce_ok P segs data s"
  shows "\<exists>s'. handle P (aGetComplete r bs) s = Some s' \<and> ce_ok P segs data s'"
proof (cases "mSSLConfigured s")
  case False
  then show ?thesis
    using assms(2) by (simp add: GetCompleteCB_def ce_ok_client)
qed (use get_complete_core [OF assms] in blast)

lemma connect_complete_ok:
  assumes "world_ok P segs data" "ce_ok P segs data s" "admissible P segs data (aConnectComplete r) s"
  shows "\<exists>s'. ConnectCompleteCB P r s = Some s' \<and> ce_ok P segs data s'"
proof (cases "mSSLEnabled s \<and> r = 0")
  case True
  then have "mSSLConfigured s" "\<not> mClosing s" using assms(3) by (simp_all add: admissible_def)
  then show ?thesis
    using handshake_ce_ok [OF assms(1,2)] True by (simp add: ConnectCompleteCB_def)
next
  case False
  define t where "t = (if r = 0 then s\<lparr>mUpgradable := True\<rparr> else s)"
  have ok: "ce_ok P segs data t" using assms(2) by (simp add: t_def)
  have "ConnectCompleteCB P r s = client (cConnectComplete r) t"
    using False unfolding ConnectCompleteCB_def t_def by (rule if_not_P)
  then show ?thesis using ce_ok_client [OF ok] ok by simp
qed

lemma connect_ok:
  assumes "world_ok P segs data" "ce_ok P segs data s"
  shows "\<exists>s'. ConnectStart P s = Some s' \<and> ce_ok P segs data s'"
proof (cases "mSSLEnabled s")
  case False
  then show ?thesis using assms(2) by (simp add: ConnectStart_def ce_ok_inet)
next
  case True
  obtain r s1 where "SSLConfigure P s = Some (r, s1)" "ce_ok P segs data s1"
    using configure_ce_ok [OF assms] by blast
  then show ?thesis
    using True by (simp add: ConnectStart_def ce_ok_inet ce_ok_client)
qed

text \<open>The lemmas of the single requests, for the case analysis over the stimuli.\<close>

lemmas stimulus_ok = connect_ok terminate_ok put_ok get_ok get_immediate_ok
  timer_ok message_ok put_complete_ok get_complete_ok connect_complete_ok

lemma handle_ok:
  assumes "world_ok P segs data" "ce_ok P segs data s" "admissible P segs data q s"
  shows "\<exists>s'. handle P q s = Some s' \<and> ce_ok P segs data s'"
proof (cases q)
  case (ClientGet b t)
  then have "mSSLConfigured s \<and> \<not> mClosing s \<longrightarrow> mSSLReadBuffer s = None"
    using assms(3) by (simp add: admissible_def)
  then have "ce_ok P segs data (s\<lparr>client_get := b, client_threshold := t\<rparr>)"
    using assms(2) by (auto simp: ce_ok_def reading_ok_def)
  then show ?thesis using ClientGet by simp
next
  case qOpenStart
  have "ce_ok P segs data (s\<lparr>mSSLEnabled := False, mSSLConfigured := False\<rparr>)"
    by (rule ce_ok_unconfigured [OF assms(2)]) simp_all
  then show ?thesis using qOpenStart by (simp add: OpenStart_def ce_ok_inet)
next
  case qCloseStart
  let ?s1 = "s\<lparr>trace := trace s @ [Inet iCloseStart]\<rparr>"
  have "ce_ok P segs data ?s1" using assms(2) by simp
  moreover have "ce_ok P segs data (SSLUnconfigure ?s1)"
    by (rule ce_ok_unconfigured [OF calculation]) (simp_all add: SSLUnconfigure_def)
  ultimately show ?thesis
    using qCloseStart ce_ok_inet [OF assms(2), of iCloseStart] by (auto simp: CloseStart_def)
next
  case (qProcessOptionStart opt label opcode)
  then show ?thesis using option_ok [OF assms(1,2)] assms(3) by force
qed (use assms stimulus_ok [OF assms(1,2)] handed_ok [OF assms(2)] told_ok [OF assms(2)] in
    \<open>simp_all add: ce_ok_inet ce_ok_client PutFramedBytesStart_def KillPutStart_def
       GetFramedBytesStart_def KillGetStart_def\<close>)

section \<open>The states reached\<close>

text \<open>
  From the construction, in memory with any contents, through admissible stimuli.
\<close>

inductive reachable ::
    "('b, 'g, 'm) platform \<Rightarrow> ('b \<Rightarrow> 'g list) \<Rightarrow> ('g \<Rightarrow> bytes) \<Rightarrow> ('b, 'm) ce \<Rightarrow> bool"
  for P segs data where
    created: "CE_New P raw = Some (Some s) \<Longrightarrow> mInetPConnectionEnd s \<noteq> None \<Longrightarrow>
      CE_Init P mux callback number s = Some (r, s') \<Longrightarrow> reachable P segs data s'"
  | handled: "reachable P segs data s \<Longrightarrow> admissible P segs data q s \<Longrightarrow> handle P q s = Some s' \<Longrightarrow>
      reachable P segs data s'"

inductive_cases reachableE: "reachable P segs data s"
inductive_simps reachable_simp: "reachable P segs data s"

lemma created_ok:
  assumes "CE_New P raw = Some (Some s)" "mInetPConnectionEnd s \<noteq> None"
    "CE_Init P mux callback number s = Some (r, s')"
  shows "ce_ok P segs data s'"
proof -
  have "\<not> mSSLConfigured s"
    using assms(1) by (auto simp: CE_New_def Let_def split: prod.splits if_splits option.splits)
  then show ?thesis
    using assms(2,3) by (auto simp: CE_Init_def Let_def ce_ok_def bind_eq_Some_conv inet_def split: option.splits)
qed

lemma reachable_ok:
  assumes "world_ok P segs data"
  shows "reachable P segs data s \<Longrightarrow> ce_ok P segs data s"
proof (induction rule: reachable.induct)
  case (created raw s mux callback number r s')
  then show ?case by (rule created_ok)
next
  case (handled s q s')
  then show ?case using handle_ok [OF assms, of s q] by auto
qed

end
