(* ===== verification/CE_Receive.thy ===== *)
theory CE_Receive
  imports CE_Streams
begin

text \<open>
  The receiving side: the bytes the inet tool delivers reach the library in order, without
  loss or change, as long as the library asks again for what it asked before, less what it
  got. The callback's copy is wrong when it is asked for less than what is buffered, which
  the size of the get buffer then prevents.
\<close>

definition recv_content :: "('b, 'm) ce \<Rightarrow> bytes" where
  "recv_content s = (case mSSLRecvBuffer s of None \<Rightarrow> [] | Some p \<Rightarrow> p)"

text \<open>The bytes the get buffer can still bring.\<close>

definition recv_room :: "('b \<Rightarrow> 'g list) \<Rightarrow> ('g \<Rightarrow> bytes) \<Rightarrow> ('b, 'm) ce \<Rightarrow> nat" where
  "recv_room segs data s = (case mGetDataBuffer s of None \<Rightarrow> 0 | Some b \<Rightarrow> length (buf_whole segs data b))"

definition recv_stream ::
    "('b, 'g, 'm) platform \<Rightarrow> ('b \<Rightarrow> 'g list) \<Rightarrow> ('g \<Rightarrow> bytes) \<Rightarrow> ('b, 'm) ce \<Rightarrow> bool" where
  "recv_stream P segs data s \<longleftrightarrow>
     received s = delivered s @ recv_content s
     \<and> (mRecvError s = noErr \<and> \<not> mPeerClosed s \<longrightarrow>
          (\<exists>getb. mGetDataBuffer s = Some getb \<and> Position (bufs P) getb = 0
             \<and> (\<not> mRecvPending s \<longrightarrow> buf_whole segs data getb = [])))
     \<and> (mRecvPending s \<longrightarrow> mRecvError s = noErr \<and> \<not> mPeerClosed s)"

text \<open>
  A call of the library that always asks for at least what it has asked for and not got:
  \<open>k\<close> bytes to begin with. The fetch loop of mbed TLS asks for the missing bytes of a
  record until it has them all.
\<close>

primrec asks_rest :: "'r io \<Rightarrow> nat \<Rightarrow> bool" where
  "asks_rest (Ret r) k = True"
| "asks_rest (Send bs f) k = (\<forall>x. asks_rest (f x) k)"
| "asks_rest (Recv n f) k = (k \<le> n \<and> (\<forall>x bs. length bs \<le> n \<longrightarrow> asks_rest (f x bs) (n - length bs)))"
| "asks_rest (SetTimer a b f) k = asks_rest f k"
| "asks_rest (GetTimer f) k = (\<forall>x. asks_rest (f x) k)"

lemma recv_content_length:
  "recv_bytes_ok P segs data s \<Longrightarrow> length (recv_content s) = mSSLRecvBufferSize s"
  by (simp add: recv_bytes_ok_def recv_content_def)

lemma recv_simps [simp]:
  "recv_stream P segs data (s\<lparr>trace := tr\<rparr>) = recv_stream P segs data s"
  "recv_stream P segs data (s\<lparr>get_replies := gs\<rparr>) = recv_stream P segs data s"
  "recv_stream P segs data (s\<lparr>mSSLReceiveInProgress := b\<rparr>) = recv_stream P segs data s"
  "recv_room segs data (s\<lparr>trace := tr\<rparr>) = recv_room segs data s"
  "recv_room segs data (s\<lparr>get_replies := gs\<rparr>) = recv_room segs data s"
  "recv_room segs data (s\<lparr>mSSLReceiveInProgress := b\<rparr>) = recv_room segs data s"
  "recv_bytes_ok P segs data (s\<lparr>get_replies := gs\<rparr>) = recv_bytes_ok P segs data s"
  "recv_bytes_ok P segs data (s\<lparr>mSSLReceiveInProgress := b\<rparr>) = recv_bytes_ok P segs data s"
  by (simp_all add: recv_stream_def recv_content_def recv_room_def recv_bytes_ok_def)

lemma GetCompleteCB_stores:
  assumes "mSSLConfigured s" "0 < n"
    and "s3 = (case mSSLRecvBuffer (s\<lparr>mRecvPending := False\<rparr>) of
        Some p \<Rightarrow> s\<lparr>mRecvPending := False,
          mSSLRecvBuffer := realloc_ptr P p (mSSLRecvBufferSize (s\<lparr>mRecvPending := False\<rparr>) + n)\<rparr>
      | None \<Rightarrow> s\<lparr>mRecvPending := False, mSSLRecvBuffer := new_ptr P n, mSSLRecvBufferSize := 0\<rparr>)"
    and "mGetDataBuffer s3 = Some g" "mSSLRecvBuffer s3 = Some p"
    and "v = s3\<lparr>mSSLRecvBuffer :=
           Some (overwrite p (mSSLRecvBufferSize s3) (fst (Getn (bufs P) (buf_Reset (bufs P) g) n))),
         mGetDataBuffer := Some (DeleteAll (bufs P) (snd (Getn (bufs P) (buf_Reset (bufs P) g) n))),
         mSSLRecvBufferSize := mSSLRecvBufferSize s3 + n\<rparr>"
  shows "GetCompleteCB P 0 eof n s = (if \<not> mSSLReceiveInProgress v then port_send kAsyncReadMessageType v else Some v)"
  using assms by (cases "mSSLRecvBuffer s") (simp_all add: GetCompleteCB_def Let_def split_beta)

context buffer_list
begin

text \<open>The bytes of a completed get are appended to the receive buffer.\<close>

lemma store_received:
  assumes "platform_ok P" "recv_bytes_ok P segs data s" "0 < n"
    and "s3 = (case mSSLRecvBuffer s of
          Some p \<Rightarrow> s\<lparr>mSSLRecvBuffer := realloc_ptr P p (mSSLRecvBufferSize s + n)\<rparr>
        | None \<Rightarrow> s\<lparr>mSSLRecvBuffer := new_ptr P n, mSSLRecvBufferSize := 0\<rparr>)"
    and "length bs = n"
  shows "\<exists>p. mSSLRecvBuffer s3 = Some p \<and> mSSLRecvBufferSize s3 = mSSLRecvBufferSize s
     \<and> overwrite p (mSSLRecvBufferSize s) bs = recv_content s @ bs \<and> mGetDataBuffer s3 = mGetDataBuffer s"
proof (cases "mSSLRecvBuffer s")
  case None
  then have "mSSLRecvBufferSize s = 0" using assms(2) by (simp add: recv_bytes_ok_def)
  moreover obtain p where "new_ptr P n = Some p" "length p = n"
    using platform_ok_memory [OF assms(1)] by blast
  ultimately show ?thesis
    using None assms(4,5) by (simp add: recv_content_def overwrite_all)
next
  case (Some q)
  then have q: "length q = mSSLRecvBufferSize s" using assms(2) by (simp add: recv_bytes_ok_def)
  obtain p where p: "realloc_ptr P q (mSSLRecvBufferSize s + n) = Some p" "length p = mSSLRecvBufferSize s + n"
    "take (length q) p = take (mSSLRecvBufferSize s + n) q"
    using platform_ok_realloc [OF assms(1)] by blast
  then have "take (mSSLRecvBufferSize s) p = q" using q by simp
  then show ?thesis
    using Some assms(4,5) p by (simp add: recv_content_def overwrite_def)
qed

text \<open>What the inet tool does with the get buffer: the bytes lie at its start.\<close>

lemma put_received:
  assumes "Position B getb = 0" "Putn B getb bs = (n, getb')"
  shows "n = min (length bs) (length (whole getb))" "length (whole getb') = length (whole getb)"
    "take n (whole getb') = take n bs" "valid getb'"
proof -
  have valid: "valid getb" using assms(1) by (simp add: valid_def)
  show n: "n = min (length bs) (length (whole getb))"
    using putn_reset [OF valid, of bs] assms by (simp add: unread_def)
  have whole: "whole getb' = overwrite (whole getb) 0 bs"
    using putn_reset [OF valid, of bs] assms by (simp add: unread_def)
  then show "length (whole getb') = length (whole getb)" by simp
  show "take n (whole getb') = take n bs"
    using whole by (simp add: n overwrite_def min_def)
  show "valid getb'"
    using putn_pos [of getb bs] whole valid assms n by (auto simp: valid_def)
qed

text \<open>An error or an end of file brings no bytes; the library is told to ask again.\<close>

lemma library_told:
  fixes u :: "('b, 'm) ce"
  assumes "mInetCEPort u \<noteq> None"
  shows "\<exists>tr. (if \<not> mSSLReceiveInProgress u then port_send kAsyncReadMessageType u else Some u) =
    Some (u\<lparr>trace := tr\<rparr>)"
  using assms by (auto intro: exI [of _ "trace u"])

lemma GetCompleteCB_ends:
  fixes s :: "('b, 'm) ce" and P :: "('b, 'g, 'm) platform"
  assumes "mSSLConfigured s" "mInetCEPort s \<noteq> None"
  shows "r \<noteq> 0 \<Longrightarrow> \<exists>tr. GetCompleteCB P r True n s = Some (s\<lparr>mRecvPending := False, mRecvError := r, trace := tr\<rparr>)"
    "\<exists>tr. GetCompleteCB P 0 True 0 s = Some (s\<lparr>mRecvPending := False, mPeerClosed := True, trace := tr\<rparr>)"
  using library_told [of "s\<lparr>mRecvPending := False, mRecvError := r\<rparr>"]
    library_told [of "s\<lparr>mRecvPending := False, mPeerClosed := True\<rparr>"] assms
  by (simp_all add: GetCompleteCB_def Let_def)

lemma GetCompleteCB_appends:
  fixes s :: "('b, 'm) ce" and P :: "('b, 'g, 'm) platform"
  assumes "bufs P = B" "platform_ok P" "recv_bytes_ok P segs data s" "mSSLConfigured s" "mInetCEPort s \<noteq> None"
    "mGetDataBuffer s = Some getb'" "take n (whole getb') = bs" "length bs = n" "0 < n"
  shows "\<exists>v tr. GetCompleteCB P 0 True n s = Some (v\<lparr>trace := tr\<rparr>) \<and>
    recv_content v = recv_content s @ bs \<and>
    mGetDataBuffer v = Some (DeleteAll B (snd (Getn B (buf_Reset B getb') n))) \<and>
    mSSLRecvBufferSize v = mSSLRecvBufferSize s + n \<and> \<not> mRecvPending v \<and>
    mRecvError v = mRecvError s \<and> mPeerClosed v = mPeerClosed s \<and> received v = received s \<and>
    delivered v = delivered s"
proof -
  let ?u = "s\<lparr>mRecvPending := False\<rparr>"
  obtain port where port: "mInetCEPort s = Some port" using assms(5) by blast
  define s3 where "s3 = (case mSSLRecvBuffer ?u of
        Some p \<Rightarrow> ?u\<lparr>mSSLRecvBuffer := realloc_ptr P p (mSSLRecvBufferSize ?u + n)\<rparr>
      | None \<Rightarrow> ?u\<lparr>mSSLRecvBuffer := new_ptr P n, mSSLRecvBufferSize := 0\<rparr>)"
  have u: "recv_bytes_ok P segs data ?u"
    using assms(3) by (simp add: recv_bytes_ok_def)
  obtain p where p: "mSSLRecvBuffer s3 = Some p" "mSSLRecvBufferSize s3 = mSSLRecvBufferSize s"
    "overwrite p (mSSLRecvBufferSize s) bs = recv_content s @ bs" "mGetDataBuffer s3 = Some getb'"
    using store_received [OF assms(2) u assms(9) s3_def assms(8)] assms(6) by (auto simp: recv_content_def)
  define v where "v = s3\<lparr>mSSLRecvBuffer := Some (recv_content s @ bs),
      mGetDataBuffer := Some (DeleteAll B (snd (Getn B (buf_Reset B getb') n))),
      mSSLRecvBufferSize := mSSLRecvBufferSize s + n\<rparr>"
  have rest: "mInetCEPort v = Some port" "\<not> mRecvPending v" "mRecvError v = mRecvError s"
    "mPeerClosed v = mPeerClosed s" "received v = received s" "delivered v = delivered s"
    using port by (auto simp: v_def s3_def split: option.splits)
  have "GetCompleteCB P 0 True n s =
      (if \<not> mSSLReceiveInProgress v then port_send kAsyncReadMessageType v else Some v)"
    by (rule GetCompleteCB_stores [where s = s and ?s3.0 = s3 and g = getb' and p = p])
      (use assms p in \<open>simp_all add: s3_def v_def\<close>)
  moreover obtain tr where "(if \<not> mSSLReceiveInProgress v then port_send kAsyncReadMessageType v else Some v) =
      Some (v\<lparr>trace := tr\<rparr>)"
    using library_told [of v] rest(1) by auto
  ultimately have "GetCompleteCB P 0 True n s = Some (v\<lparr>trace := tr\<rparr>)"
    by simp
  moreover have "recv_content v = recv_content s @ bs"
    unfolding recv_content_def [of v] by (simp add: v_def)
  moreover have "mGetDataBuffer v = Some (DeleteAll B (snd (Getn B (buf_Reset B getb') n)))"
      "mSSLRecvBufferSize v = mSSLRecvBufferSize s + n"
    by (simp_all add: v_def)
  ultimately show ?thesis
    using rest by blast
qed

lemma inet_deliver_stream:
  fixes s :: "('b, 'm) ce" and P :: "('b, 'g, 'm) platform"
  assumes "bufs P = B" "platform_ok P" "recv_bytes_ok P segs data s" "mSSLConfigured s"
    "mInetCEPort s \<noteq> None" "recv_stream P segs data s" "mRecvPending s"
  shows "\<exists>s'. inet_deliver P r bs s = Some s' \<and> recv_stream P segs data s' \<and> delivered s' = delivered s
     \<and> mSSLRecvBufferSize s' + recv_room segs data s' \<le> mSSLRecvBufferSize s + recv_room segs data s"
proof -
  have ok: "mRecvError s = noErr" "\<not> mPeerClosed s" "received s = delivered s @ recv_content s"
    using assms(6,7) by (simp_all add: recv_stream_def)
  obtain getb where getb: "mGetDataBuffer s = Some getb" "Position B getb = 0"
    using assms(1,6) ok by (auto simp: recv_stream_def)
  obtain n getb' where n: "Putn B getb bs = (n, getb')" by fastforce
  note n' = put_received [OF getb(2) n]
  let ?t = "s\<lparr>mGetDataBuffer := Some getb',
      received := (if r = noErr then received s @ take n bs else received s)\<rparr>"
  have step: "inet_deliver P r bs s = GetCompleteCB P r True n ?t"
    using getb(1) n assms(1) by (simp add: inet_deliver_def)
  show ?thesis
  proof (cases "r = 0 \<and> 0 < n")
    case False
    have "mSSLConfigured ?t" "mInetCEPort ?t \<noteq> None"
      using assms(4,5) by simp_all
    note ends = GetCompleteCB_ends(1) [OF this, where r = r and n = n and P = P] GetCompleteCB_ends(2) [OF this, where P = P]
    from False consider "r \<noteq> 0" | "r = 0" "n = 0" by blast
    then show ?thesis
      using ends ok getb(1) n'(2) step
      by cases (auto simp: recv_stream_def recv_content_def recv_room_def)
  next
    case True
    have t: "recv_bytes_ok P segs data ?t" "mSSLConfigured ?t" "mInetCEPort ?t \<noteq> None"
        "mGetDataBuffer ?t = Some getb'" "take n (whole getb') = take n bs" "length (take n bs) = n" "0 < n"
      using assms(1,3,4,5) n' True by (simp_all add: recv_bytes_ok_def)
    obtain v tr where v: "GetCompleteCB P 0 True n ?t = Some (v\<lparr>trace := tr\<rparr>)"
        "recv_content v = recv_content ?t @ take n bs"
        "mGetDataBuffer v = Some (DeleteAll B (snd (Getn B (buf_Reset B getb') n)))"
        "mSSLRecvBufferSize v = mSSLRecvBufferSize ?t + n" "\<not> mRecvPending v" "mRecvError v = mRecvError ?t"
        "mPeerClosed v = mPeerClosed ?t" "received v = received ?t" "delivered v = delivered ?t"
      using GetCompleteCB_appends [OF assms(1,2) t] by blast
    have "recv_content ?t = recv_content s" "received ?t = received s @ take n bs"
      using True by (simp_all add: recv_content_def)
    then have "recv_stream P segs data v" "delivered v = delivered s"
      using v ok assms(1) by (simp_all add: recv_stream_def delete_pos)
    moreover have "mSSLRecvBufferSize v + recv_room segs data v \<le> mSSLRecvBufferSize s + recv_room segs data s"
      using v(3,4) getb(1) n'(1) by (simp add: recv_room_def)
    moreover have "inet_deliver P r bs s = Some (v\<lparr>trace := tr\<rparr>)"
      using v(1) step True by simp
    ultimately show ?thesis by simp
  qed
qed

lemma get_data_stream:
  fixes s :: "('b, 'm) ce" and P :: "('b, 'g, 'm) platform"
  assumes "bufs P = B" "platform_ok P" "recv_bytes_ok P segs data s" "mSSLConfigured s"
    "mInetPConnectionEnd s \<noteq> None" "mInetCEPort s \<noteq> None" "recv_stream P segs data s" "mRecvPending s"
  shows "\<exists>s'. GetBytesImmediateStart_data P k s = Some s' \<and> recv_stream P segs data s' \<and>
    delivered s' = delivered s \<and>
    mSSLRecvBufferSize s' + recv_room segs data s' \<le> mSSLRecvBufferSize s + recv_room segs data s"
proof -
  let ?t = "s\<lparr>trace := trace s @ [Inet (iGetData k)]\<rparr>"
  have t: "inet (iGetData k) s = Some ?t"
    using assms(5) by auto
  show ?thesis
  proof (cases "get_replies s")
    case Nil
    then show ?thesis
      using t assms(7) by (simp add: GetBytesImmediateStart_data_def)
  next
    case (Cons reply rs)
    let ?u = "?t\<lparr>get_replies := rs\<rparr>"
    have u: "recv_bytes_ok P segs data ?u" "mSSLConfigured ?u" "mInetCEPort ?u \<noteq> None" "recv_stream P segs data ?u"
        "mRecvPending ?u"
      using assms by (simp_all add: recv_bytes_ok_def)
    then show ?thesis
      using inet_deliver_stream [OF assms(1,2) u] t Cons
      by (cases reply) (auto simp: GetBytesImmediateStart_data_def)
  qed
qed

lemma ask_inet_stream:
  fixes s :: "('b, 'm) ce" and P :: "('b, 'g, 'm) platform"
  assumes "bufs P = B" "platform_ok P" "engine_ok P segs data s" "recv_stream P segs data s"
    "mSSLRecvBufferSize s + recv_room segs data s \<le> len" "mRecvError s = noErr" "\<not> mPeerClosed s"
  shows "\<exists>s'. ask_inet P len s = Some s' \<and> recv_stream P segs data s' \<and> delivered s' = delivered s
     \<and> mSSLRecvBufferSize s' + recv_room segs data s' \<le> len"
proof (cases "mSSLRecvBufferSize s < len \<and> \<not> mRecvPending s")
  case False
  then show ?thesis using assms(4,5) by (auto simp: ask_inet_def)
next
  case True
  have fields: "mSSLConfigured s" "mInetPConnectionEnd s \<noteq> None" "mInetCEPort s \<noteq> None"
    "recv_bytes_ok P segs data s"
    using assms(3) by (simp_all add: engine_ok_def)
  obtain getb where getb: "mGetDataBuffer s = Some getb" "Position B getb = 0" "whole getb = []"
    using assms(1,4,6,7) True by (auto simp: recv_stream_def)
  let ?s1 = "s\<lparr>mRecvPending := True,
      mGetDataBuffer := Some (InsertLast B getb (seg_room B (len - mSSLRecvBufferSize s))),
      mSSLReceiveInProgress := True\<rparr>"
  have stream: "recv_stream P segs data ?s1" "recv_bytes_ok P segs data ?s1"
      "mSSLRecvBufferSize ?s1 + recv_room segs data ?s1 = len"
    using assms(1,4,6,7) fields(4) True getb
    by (simp_all add: recv_stream_def recv_content_def recv_bytes_ok_def recv_room_def insert_pos data_room)
  then obtain s2 where "GetBytesImmediateStart_data P 1 ?s1 = Some s2" "recv_stream P segs data s2"
      "delivered s2 = delivered s" "mSSLRecvBufferSize s2 + recv_room segs data s2 \<le> len"
    using get_data_stream [OF assms(1,2) stream(2), of 1] fields by auto
  then show ?thesis
    using True getb(1) assms(1) by (simp add: ask_inet_def)
qed

text \<open>
  The callback keeps the stream, and gives all that is buffered, when it is asked for at
  least what was asked for before and has not come.
\<close>

lemma SSLRecvCallback_stream:
  fixes s :: "('b, 'm) ce" and P :: "('b, 'g, 'm) platform"
  assumes "bufs P = B" "platform_ok P" "engine_ok P segs data s" "recv_stream P segs data s"
    and "mSSLRecvBufferSize s + recv_room segs data s \<le> len"
  shows "\<exists>x bs s'. SSLRecvCallback P len s = Some (x, bs, s') \<and> recv_stream P segs data s'
     \<and> delivered s' = delivered s @ bs \<and> length bs \<le> len
     \<and> mSSLRecvBufferSize s' + recv_room segs data s' \<le> len - length bs"
proof (cases "mRecvError s = noErr \<and> \<not> mPeerClosed s")
  case False
  then show ?thesis using assms(4,5) by (auto simp: SSLRecvCallback_asks)
next
  case open_end: True
  obtain s3 where s3: "ask_inet P len s = Some s3" "recv_stream P segs data s3" "delivered s3 = delivered s"
      "mSSLRecvBufferSize s3 + recv_room segs data s3 \<le> len" "recv_bytes_ok P segs data s3"
    using ask_inet_stream [OF assms] ask_inet_ok [OF assms(1-3), of len] open_end by auto
  show ?thesis
  proof (cases "mRecvError s3 = noErr \<and> mSSLRecvBufferSize s3 \<noteq> 0")
    case False
    then show ?thesis using open_end s3 by (auto simp: SSLRecvCallback_asks)
  next
    case True
    then obtain p where p: "mSSLRecvBuffer s3 = Some p" "length p = mSSLRecvBufferSize s3"
      using s3(5) by (auto simp: recv_bytes_ok_def split: option.splits)
    let ?s' = "s3\<lparr>delivered := delivered s3 @ p, mSSLRecvBuffer := None, mSSLRecvBufferSize := 0\<rparr>"
    have "SSLRecvCallback P len s = Some (int (length p), p, ?s')"
      using open_end s3(1,4) True p by (simp add: SSLRecvCallback_asks consume_received_def)
    moreover have "recv_stream P segs data ?s'" "recv_room segs data ?s' = recv_room segs data s3"
      using s3(2) p(1) by (simp_all add: recv_stream_def recv_content_def recv_room_def)
    ultimately show ?thesis using s3 p(2) by simp
  qed
qed

text \<open>A whole call keeps the stream.\<close>

lemma recv_part_stream:
  "recv_part s' = recv_part s \<Longrightarrow> recv_stream P segs data s' = recv_stream P segs data s
    \<and> recv_room segs data s' = recv_room segs data s \<and> mSSLRecvBufferSize s' = mSSLRecvBufferSize s
    \<and> delivered s' = delivered s"
  by (simp add: recv_part_eq recv_stream_def recv_content_def recv_room_def)

lemma recv_part_timer: "recv_part (SSLSetTimerCallback a b s) = recv_part s"
  by (simp add: SSLSetTimerCallback_def Let_def recv_part_eq)

lemma run_received:
  assumes "bufs P = B" "platform_ok P"
  shows "engine_ok P segs data s \<Longrightarrow> recv_stream P segs data s \<Longrightarrow>
    mSSLRecvBufferSize s + recv_room segs data s \<le> k \<Longrightarrow> asks_rest io k \<Longrightarrow>
    \<exists>r s' bs. run io P s = Some (r, s') \<and> engine_ok P segs data s' \<and> recv_stream P segs data s'
      \<and> delivered s' = delivered s @ bs"
proof (induction io arbitrary: s k)
  case (Ret r)
  then show ?case by simp
next
  case (Send bs f)
  obtain x s1 where s1: "SSLSendCallback P bs s = Some (x, s1)" "engine_ok P segs data s1" "recv_part s1 = recv_part s"
    using SSLSendCallback_ok [OF assms Send.prems(1)] by blast
  then show ?case
    using Send.IH [OF rangeI, of s1 k x] recv_part_stream [OF s1(3)] Send.prems(2-4) by simp
next
  case (Recv n f)
  have "mSSLRecvBufferSize s + recv_room segs data s \<le> n" using Recv.prems(3,4) by simp
  then obtain x bs s1 where s1: "SSLRecvCallback P n s = Some (x, bs, s1)" "recv_stream P segs data s1"
    "delivered s1 = delivered s @ bs" "length bs \<le> n"
    "mSSLRecvBufferSize s1 + recv_room segs data s1 \<le> n - length bs"
    using SSLRecvCallback_stream [OF assms Recv.prems(1,2)] by blast
  moreover have "engine_ok P segs data s1"
    using SSLRecvCallback_ok [OF assms Recv.prems(1), of n] s1(1) by auto
  moreover have "asks_rest (f x bs) (n - length bs)" using Recv.prems(4) s1(4) by simp
  ultimately show ?case
    using Recv.IH [OF rangeI rangeI, of s1 "n - length bs" x bs] by fastforce
next
  case (SetTimer a b f)
  then show ?case
    using SetTimer.IH [of "SSLSetTimerCallback a b s" k] recv_part_stream [OF recv_part_timer, of P a b s]
    by simp
next
  case (GetTimer f)
  then show ?case using GetTimer.IH [OF rangeI, of s k "SSLGetTimerCallback s"] by simp
qed

end

end
