(* ===== verification/CE_Demo.thy ===== *)
theory CE_Demo
  imports CE_Callbacks
begin

text \<open>
  A small world for the examples: the buffers are lists of segments, memory is never
  short, and the library is a toy that greets with two bytes, waits for two bytes of
  answer and then passes the bytes of the application through unchanged. The witnesses of
  the properties are computed in it.
\<close>

record toy =
  greeted :: bool
  parsed :: "bytes list"
  peer :: "bytes list"
  app_data :: bytes

definition toy_handshake :: "toy \<Rightarrow> (int \<times> toy) io" where
  "toy_handshake m =
     (let await = (\<lambda>m. Recv 2 (\<lambda>r bs. Ret (if r > 0 then 0 else if r = 0 then - 80 else r, m)))
      in if greeted m then await m
         else Send [22, 1] (\<lambda>x. if x < 0 then Ret (x, m) else await (m\<lparr>greeted := True\<rparr>)))"

definition toy_read :: "nat \<Rightarrow> toy \<Rightarrow> (int \<times> bytes \<times> toy) io" where
  "toy_read n m =
     (if app_data m \<noteq> [] then Ret (int (min n (length (app_data m))), take n (app_data m), m\<lparr>app_data := drop n (app_data m)\<rparr>)
      else Recv 4 (\<lambda>r bs.
        if r < 0 then Ret (r, [], m) else if bs = [] then Ret (- 72, [], m)
        else Ret (int (min n (length bs)), take n bs, m\<lparr>app_data := drop n bs\<rparr>)))"

definition toy_write :: "bytes \<Rightarrow> toy \<Rightarrow> (int \<times> toy) io" where
  "toy_write bs m = Send bs (\<lambda>x. Ret (x, m))"

definition demo_platform :: "(cbuf, bytes, toy) platform" where
  "demo_platform =
     \<lparr>bufs = cbuf_ops, new_ptr = (\<lambda>n. Some (replicate n 0)),
      realloc_ptr = (\<lambda>p n. Some (take n (p @ replicate n 0))), past_end = (\<lambda>n. replicate n 255),
      new_vm_heap = (0, Some 5), name_server_lookup = (0, 1), class_new = (\<lambda>_. Some 2),
      cecallback_new = Some 3, connection_end_port = Some 4, new_async_message = Some 6,
      inet_init = 0, inet_option_result = (\<lambda>_ _. 0), the_task = other_task, the_newt = demo_newt,
      entropy_init = (\<lambda>m. m), ctr_drbg_init = (\<lambda>m. m), x509_crt_init = (\<lambda>m. m\<lparr>parsed := []\<rparr>),
      ssl_config_init = (\<lambda>m. m), ssl_init = (\<lambda>m. m\<lparr>greeted := False, app_data := []\<rparr>),
      ssl_free = (\<lambda>m. m), ssl_config_free = (\<lambda>m. m), x509_crt_free = (\<lambda>m. m), ctr_drbg_free = (\<lambda>m. m),
      entropy_free = (\<lambda>m. m), entropy_add_hardclock = (\<lambda>m. m), ctr_drbg_seed = (\<lambda>bs m. (0, m)),
      x509_crt_parse = (\<lambda>c m. (0, m\<lparr>parsed := parsed m @ [c]\<rparr>)),
      ssl_config_defaults = (\<lambda>m. m), ssl_conf_rng = (\<lambda>m. m), ssl_conf_ca_chain = (\<lambda>m. m),
      ssl_conf_authmode = (\<lambda>_ m. m), ssl_setup = (\<lambda>m. m\<lparr>greeted := False, app_data := []\<rparr>),
      ssl_set_bio = (\<lambda>m. m), ssl_set_timer_cb = (\<lambda>m. SetTimer 0 0 (Ret m)),
      ssl_set_hostname = (\<lambda>_ m. m), ssl_handshake = toy_handshake, ssl_read = toy_read, ssl_write = toy_write,
      ssl_close_notify = (\<lambda>m. Send [21] (\<lambda>x. Ret (0, m))),
      ssl_session_reset = (\<lambda>m. SetTimer 0 0 (Ret (m\<lparr>greeted := False, app_data := []\<rparr>))),
      ssl_peer_cert = peer,
      ERR_SSL_WANT_READ = - 69, ERR_SSL_WANT_WRITE = - 68, ERR_SSL_PEER_CLOSE_NOTIFY = - 78,
      ERR_SSL_CONN_EOF = - 72, SSL_VERIFY_NONE = 0, SSL_VERIFY_REQUIRED = 2, kError_Not_Registered = - 10022,
      kCommErrConnectionAborted = - 16005, kCommErrNotConnected = - 16009,
      kCommErrMethodNotImplemented = - 16027, kCommErrCommandInProgress = - 16014,
      opSuccess = 0, opFailure = 0xFF, opInProgress = 1, opNotSupported = 0xFE,
      kMsgType_ReservedMask = 0x00FFFFFF\<rparr>"

text \<open>The connection end after \<^verbatim>\<open>New\<close> and \<^verbatim>\<open>Init\<close>, in memory full of ones and zeros.\<close>

definition raw_memory :: "(cbuf, toy) ce" where
  "raw_memory =
     \<lparr>mThisCECallBack = Some 99, mInetPConnectionEndClassInfo = 99, mInetPConnectionEnd = Some 99,
      mInetCECallBack = Some 99, mInetCEPort = Some 99, mAsyncReadMessage = Some 99,
      mRootCertificatesHeap = Some 99, mSSLEnabled = True, mSSLConfigured = True, mSendPending = True,
      mRecvPending = True, mSSLReceiveInProgress = True, mEstablished = True, mUpgradable = True,
      mClosing = True, mPeerClosed = True, mSSLLoadRootCertificates = False, mSSLTimerFired = True,
      mSSLHostname = Some [], mSSLAuthMode = 99,
      mbed = \<lparr>greeted = True, parsed = [[1]], peer = [], app_data = [7]\<rparr>,
      mPutDataBuffer = None, mGetDataBuffer = None, mSendBuffer = None, mSSLRecvBuffer = Some [],
      mSSLRecvBufferSize = 99, mSSLReadBuffer = Some [], mSSLReadBufferSize = 99, mSSLReadCount = 99,
      mSendError = 99, mRecvError = 99, mSSLTimerInt = 99, mSSLTimerFin = 99, clock_ms = 1000,
      cur_heap = Some 0, client_put = \<lparr>blocks = [], cpos = 0\<rparr>, client_get = \<lparr>blocks = [], cpos = 0\<rparr>,
      client_threshold = None, put_replies = [], get_replies = [], trace = [], accepted = [], taken = [],
      received = [], delivered = []\<rparr>"

definition fresh :: "(cbuf, toy) ce" where
  "fresh = snd (the (CE_Init demo_platform 1 7 1 (the (the (CE_New demo_platform raw_memory)))))"

end
