(* ===== verification/CE_Examples.thy ===== *)
theory CE_Examples
  imports CE_Machine CE_Receive CE_Demo
begin

text \<open>
  The demonstration world satisfies what the properties ask of the surroundings: its
  buffers are buffer lists, its memory and its library behave as \<open>platform_ok\<close> asks, its
  certificates can be loaded, and its library reads at least a byte or fails. The states
  the examples start from are reached in it.
\<close>

lemma demo_sel [simp]:
  "bufs demo_platform = cbuf_ops" "the_task demo_platform = other_task" "the_newt demo_platform = demo_newt"
  "new_ptr demo_platform n = Some (replicate n 0)" "past_end demo_platform n = replicate n 255"
  "realloc_ptr demo_platform p n = Some (take n (p @ replicate n 0))"
  "ssl_read demo_platform = toy_read" "ssl_handshake demo_platform = toy_handshake"
  "ssl_write demo_platform = toy_write"
  "kMsgType_ReservedMask demo_platform = 0x00FFFFFF"
  by (simp_all add: demo_platform_def)

lemma take_padded: "take (min (length p) n) (p @ xs) = take n p"
  by (cases "n \<le> length p") simp_all

lemma demo_platform_ok: "platform_ok demo_platform"
  unfolding platform_ok_def
  by (auto simp: demo_platform_def toy_read_def take_padded simp del: take_append take_replicate)

lemma demo_reads_progress: "reads_progress demo_platform"
  by (auto simp: reads_progress_def toy_read_def)

lemma find_mem: "find Q xs = Some e \<Longrightarrow> e \<in> set xs"
  by (auto simp: find_Some_iff)

lemma demo_certificates:
  "find_certificate demo_soups name = Inr (Some e) \<Longrightarrow> e \<in> set demo_user \<or> e \<in> set demo_package"
  "find_certificate demo_soups name \<noteq> Inl x"
  by (auto simp: find_certificate_def query_tag_def Let_def demo_soups_def dest: find_mem
      split: option.splits)

lemma demo_usable: "usable_certificate demo_soups name = Some c \<Longrightarrow> length c < 2 ^ 31"
  using demo_certificates(1) [of name]
  by (auto simp: usable_certificate_def demo_user_def demo_package_def
      split: sum.splits option.splits if_splits slot.splits)

lemma demo_certificates_ok: "certificates_ok demo_platform"
  unfolding certificates_ok_def using demo_usable by (simp add: demo_certificates(2))

lemma demo_world_ok: "world_ok demo_platform blocks (\<lambda>g. g)"
  unfolding world_ok_def
  using demo_platform_ok demo_certificates_ok cbufs.buffer_list_axioms by simp

section \<open>Runs\<close>

primrec handle_all ::
    "('b, 'g, 'm) platform \<Rightarrow> 'b stimulus list \<Rightarrow> ('b, 'm) ce \<Rightarrow> ('b, 'm) ce option" where
  "handle_all P [] s = Some s"
| "handle_all P (q # qs) s = (case handle P q s of None \<Rightarrow> None | Some s' \<Rightarrow> handle_all P qs s')"

primrec all_admissible ::
    "('b, 'g, 'm) platform \<Rightarrow> ('b \<Rightarrow> 'g list) \<Rightarrow> ('g \<Rightarrow> bytes) \<Rightarrow> 'b stimulus list \<Rightarrow> ('b, 'm) ce \<Rightarrow> bool" where
  "all_admissible P segs data [] s = True"
| "all_admissible P segs data (q # qs) s \<longleftrightarrow> admissible P segs data q s
     \<and> (case handle P q s of None \<Rightarrow> False | Some s' \<Rightarrow> all_admissible P segs data qs s')"

lemma reachable_all:
  "reachable P segs data s \<Longrightarrow> all_admissible P segs data qs s \<Longrightarrow> handle_all P qs s = Some s' \<Longrightarrow>
    reachable P segs data s'"
  by (induction qs arbitrary: s) (auto split: option.splits intro: reachable.handled)

lemma reachable_run:
  assumes "reachable P segs data s" "handle_all P qs s = Some s'"
    and "\<And>q t. q \<in> set qs \<Longrightarrow> admissible P segs data q t"
  shows "reachable P segs data s'"
proof -
  have "all_admissible P segs data qs s"
    using assms(2,3) by (induction qs arbitrary: s) (auto split: option.splits)
  then show ?thesis using reachable_all assms(1,2) by blast
qed

text \<open>Stimuli that may come at any time.\<close>

lemma all_admissible_free:
  assumes "world_ok P segs data"
  shows "reachable P segs data s \<Longrightarrow> (\<And>q t. q \<in> set qs \<Longrightarrow> admissible P segs data q t) \<Longrightarrow>
    all_admissible P segs data qs s"
proof (induction qs arbitrary: s)
  case (Cons q qs)
  obtain s1 where "handle P q s = Some s1"
    using handle_ok [OF assms reachable_ok [OF assms Cons.prems(1)], of q] Cons.prems(2) by auto
  moreover from this have "reachable P segs data s1"
    using reachable.handled [OF Cons.prems(1) Cons.prems(2)] by (meson list.set_intros(1))
  ultimately show ?case using Cons by simp
qed simp

text \<open>
  A connection: TLS is enabled, configured when the connection starts, and greets when it
  is there; the greeting is sent, the answer comes, and the connection is established.
\<close>

definition enable_option :: toption where
  "enable_option = \<lparr>enabled = True, hostname = [0], verifyMode = 2, cert_length = 0, indexInChain = 0,
     certificate = []\<rparr>"

definition connecting :: "cbuf stimulus list" where
  "connecting = [qOpenStart, qProcessOptionStart enable_option kSSLEnableLabel 0, qConnectStart]"

definition answered :: "cbuf stimulus list" where
  "answered = [aPutComplete 0 2, aGetComplete 0 [7, 8]]"

definition handshaking_demo :: "(cbuf, toy) ce" where
  "handshaking_demo =
     \<lparr>mThisCECallBack = Some 3, mInetPConnectionEndClassInfo = 1, mInetPConnectionEnd = Some 2,
      mInetCECallBack = Some 7, mInetCEPort = Some 4, mAsyncReadMessage = Some 6,
      mRootCertificatesHeap = Some 5, mSSLEnabled = True, mSSLConfigured = True, mSendPending = True,
      mRecvPending = True, mSSLReceiveInProgress = False, mEstablished = False, mUpgradable = False,
      mClosing = False, mPeerClosed = False, mSSLLoadRootCertificates = True, mSSLTimerFired = False,
      mSSLHostname = None, mSSLAuthMode = 2,
      mbed = \<lparr>greeted = True, parsed = [[1, 2]], peer = [], app_data = []\<rparr>,
      mPutDataBuffer = Some \<lparr>blocks = [[22, 1]], cpos = 0\<rparr>,
      mGetDataBuffer = Some \<lparr>blocks = [[0, 0]], cpos = 0\<rparr>,
      mSendBuffer = Some \<lparr>blocks = [], cpos = 0\<rparr>, mSSLRecvBuffer = None,
      mSSLRecvBufferSize = 0, mSSLReadBuffer = None, mSSLReadBufferSize = 0, mSSLReadCount = 99,
      mSendError = 0, mRecvError = 0, mSSLTimerInt = 0, mSSLTimerFin = 0, clock_ms = 1000,
      cur_heap = Some 0, client_put = \<lparr>blocks = [], cpos = 0\<rparr>, client_get = \<lparr>blocks = [], cpos = 0\<rparr>,
      client_threshold = None, put_replies = [], get_replies = [],
      trace = [Inet (iInit 1 3 1), Inet iOpenStart, Inet iConnectStart, Inet iPutData, Inet (iGetData 1)],
      accepted = [22, 1], taken = [], received = [], delivered = []\<rparr>"

definition configured_demo :: "(cbuf, toy) ce" where
  "configured_demo = handshaking_demo
     \<lparr>mSendPending := False, mRecvPending := False,
      mbed := \<lparr>greeted = False, parsed = [[1, 2]], peer = [], app_data = []\<rparr>,
      mPutDataBuffer := Some \<lparr>blocks = [], cpos = 0\<rparr>, mGetDataBuffer := Some \<lparr>blocks = [], cpos = 0\<rparr>,
      trace := [Inet (iInit 1 3 1), Inet iOpenStart, Inet iConnectStart], accepted := []\<rparr>"

definition answered_demo :: "(cbuf, toy) ce" where
  "answered_demo = handshaking_demo
     \<lparr>mSendPending := False, mRecvPending := False, mSSLRecvBuffer := Some [7, 8], mSSLRecvBufferSize := 2,
      mPutDataBuffer := Some \<lparr>blocks = [], cpos = 0\<rparr>, mGetDataBuffer := Some \<lparr>blocks = [], cpos = 0\<rparr>,
      trace := [Inet (iInit 1 3 1), Inet iOpenStart, Inet iConnectStart, Inet iPutData, Inet (iGetData 1),
        PortSend kAsyncReadMessageType],
      taken := [22, 1], received := [7, 8]\<rparr>"

definition established_demo :: "(cbuf, toy) ce" where
  "established_demo = handshaking_demo
     \<lparr>mSendPending := False, mRecvPending := False, mEstablished := True,
      mPutDataBuffer := Some \<lparr>blocks = [], cpos = 0\<rparr>, mGetDataBuffer := Some \<lparr>blocks = [], cpos = 0\<rparr>,
      trace := [Inet (iInit 1 3 1), Inet iOpenStart, Inet iConnectStart, Inet iPutData, Inet (iGetData 1),
        PortSend kAsyncReadMessageType, Client (cConnectComplete 0), Client (cHandleRequest 1 2 3 kAsyncReadMessageType)],
      taken := [22, 1], received := [7, 8], delivered := [7, 8]\<rparr>"

lemma fresh_reachable: "reachable demo_platform blocks (\<lambda>g. g) fresh"
proof (rule reachable.created)
  show "CE_New demo_platform raw_memory = Some (Some (the (the (CE_New demo_platform raw_memory))))"
    "mInetPConnectionEnd (the (the (CE_New demo_platform raw_memory))) \<noteq> None"
    "CE_Init demo_platform 1 7 1 (the (the (CE_New demo_platform raw_memory))) = Some (0, fresh)"
    unfolding fresh_def by code_simp+
qed

lemma connecting_run: "handle_all demo_platform connecting fresh = Some configured_demo"
  by code_simp

lemma labels: "kSSLEnableLabel \<noteq> kSSLHostnameLabel" "kSSLEnableLabel \<noteq> kSSLPeerCertificateLabel"
  by code_simp+

lemma connecting_admissible: "q \<in> set connecting \<Longrightarrow> admissible P segs data q s"
  by (auto simp: connecting_def admissible_def labels)

lemma handshaking_step: "handle demo_platform (aConnectComplete 0) configured_demo = Some handshaking_demo"
  by code_simp

lemma answered_run: "handle_all demo_platform answered handshaking_demo = Some answered_demo"
  by code_simp

lemma established_step:
  "handle demo_platform (qHandleRequest 1 2 3 kAsyncReadMessageType) answered_demo = Some established_demo"
  by code_simp

lemma configured_reachable: "reachable demo_platform blocks (\<lambda>g. g) configured_demo"
  by (rule reachable_run [OF fresh_reachable connecting_run connecting_admissible])

lemma handshaking_reachable: "reachable demo_platform blocks (\<lambda>g. g) handshaking_demo"
proof (rule reachable.handled [OF configured_reachable _ handshaking_step])
  show "admissible demo_platform blocks (\<lambda>g. g) (aConnectComplete 0) configured_demo"
    by (simp add: admissible_def configured_demo_def handshaking_demo_def)
qed

lemma answered_reachable: "reachable demo_platform blocks (\<lambda>g. g) answered_demo"
  by (rule reachable_run [OF handshaking_reachable answered_run]) (auto simp: answered_def admissible_def)

lemma established_reachable: "reachable demo_platform blocks (\<lambda>g. g) established_demo"
proof (rule reachable.handled [OF answered_reachable _ established_step])
  show "admissible demo_platform blocks (\<lambda>g. g) (qHandleRequest 1 2 3 kAsyncReadMessageType) answered_demo"
    by (simp add: admissible_def answered_demo_def handshaking_demo_def)
qed

end
