(* ===== verification/CE_Properties.thy ===== *)
theory CE_Properties
  imports CE_Examples
begin

text \<open>
  The properties of the connection end with TLS: it handles everything that may come, the
  bytes it is given to send and those it receives keep their order, each request of the
  client is answered as the code means to, and what goes wrong where it does. The examples
  run in the demonstration world.
\<close>

section \<open>Nothing crashes\<close>



section \<open>Sending\<close>

text \<open>
  C3. No byte is lost, repeated or reordered on the way out: in every reachable state with
  TLS configured, the bytes \<^verbatim>\<open>SSLSendCallback\<close> has accepted since the configuration are those
  the inet tool has taken, then the unread ones of the put buffer, then those of the send
  buffer; and when no put is pending and none has failed, the tool has taken all of them.
\<close>

theorem sent_in_order:
  assumes "world_ok P segs data" "reachable P segs data s" "mSSLConfigured s"
  shows "\<exists>putb sendb. mPutDataBuffer s = Some putb \<and> mSendBuffer s = Some sendb
     \<and> accepted s = taken s @ buf_unread (bufs P) segs data putb @ buf_whole segs data sendb
     \<and> (\<not> mSendPending s \<and> mSendError s = noErr \<longrightarrow> accepted s = taken s)"
proof -
  have "send_bytes_ok P segs data s" "send_idle P segs data s"
    using reachable_ok [OF assms(1,2)] assms(3) by (simp_all add: ce_ok_def engine_ok_def)
  then show ?thesis
    by (auto simp: send_bytes_ok_def send_idle_def buf_whole_def)
qed

theorem sent_in_order_witness:
  "accepted established_demo = taken established_demo"
  using sent_in_order [OF demo_world_ok established_reachable]
  by (simp add: established_demo_def handshaking_demo_def)

text \<open>
  \<^verbatim>\<open>SSLSendCallback\<close> never blocks and never accepts in part: after an error of the inet tool
  it returns that error and does nothing; otherwise it accepts all the bytes, whether a put
  is pending or not and whatever the tool does while its put runs.
\<close>

theorem send_accepts_all:
  assumes "world_ok P segs data" "reachable P segs data s" "mSSLConfigured s"
  shows "\<exists>x s'. SSLSendCallback P buf s = Some (x, s')
     \<and> (if mSendError s = noErr then x = int (length buf) \<and> accepted s' = accepted s @ buf
        else x = mSendError s \<and> s' = s)"
proof -
  have "engine_ok P segs data s" "buffer_list (bufs P) segs data" "platform_ok P"
    using reachable_ok [OF assms(1,2)] assms(1,3) by (simp_all add: ce_ok_def world_ok_def)
  then show ?thesis
    using buffer_list.SSLSendCallback_ok [of "bufs P" segs data P s buf] by blast
qed

theorem send_accepts_all_witness:
  "\<exists>x s'. SSLSendCallback demo_platform [5] handshaking_demo = Some (x, s')
     \<and> x = 1 \<and> accepted s' = [22, 1, 5]"
  using send_accepts_all [OF demo_world_ok handshaking_reachable, of "[5]"]
  by (auto simp: handshaking_demo_def)

section \<open>Receiving\<close>



text \<open>
  Asked for less than it holds, the receive callback spoils the rest: it gives the first
  \<open>len\<close> bytes, then fills its buffer from past its end, so that what remains does not depend
  on the bytes received.
\<close>

theorem partial_receive_spoils:
  assumes "platform_ok P" "mSSLRecvBuffer s = Some p" "length p = mSSLRecvBufferSize s"
    and "mRecvError s = noErr" "\<not> mPeerClosed s" "len < length p"
  shows "\<exists>s'. SSLRecvCallback P len s = Some (int len, take len p, s')
     \<and> mSSLRecvBuffer s' = Some (past_end P (length p - len))"
proof -
  let ?left = "length p - len"
  obtain q where q: "realloc_ptr P (overwrite p 0 (past_end P ?left)) ?left = Some q" "length q = ?left"
    "take (length p) q = take ?left (overwrite p 0 (past_end P ?left))"
    using platform_ok_realloc [OF assms(1)] by (metis length_overwrite le0)
  have "length (past_end P ?left) = ?left" using assms(1) by (simp add: platform_ok_def)
  then have "q = past_end P ?left"
    using q by (simp add: overwrite_def)
  then show ?thesis
    using q(1) assms by (simp add: SSLRecvCallback_def consume_received_def Let_def)
qed

theorem partial_receive_spoils_witness:
  "\<exists>s'. SSLRecvCallback demo_platform 1 answered_demo = Some (1, [7], s') \<and> mSSLRecvBuffer s' = Some [255]"
proof -
  have "mSSLRecvBuffer answered_demo = Some [7, 8]" "length [7 :: byte, 8] = mSSLRecvBufferSize answered_demo"
    "mRecvError answered_demo = 0" "\<not> mPeerClosed answered_demo"
    by (simp_all add: answered_demo_def handshaking_demo_def)
  from partial_receive_spoils [OF demo_platform_ok this, of 1]
  show ?thesis by simp
qed

section \<open>Reading\<close>

text \<open>How a read started for the client stands, in terms of the outcomes of the loop.\<close>

lemma start_read_outcome:
  assumes "world_ok P segs data" "ce_ok P segs data s" "mSSLConfigured s" "mEstablished s"
    and "buf_valid (bufs P) segs data (client_get s)"
    and "threshold_ok P t (length (buf_unread (bufs P) segs data (client_get s)))"
  defines "n \<equiv> GetSize (bufs P) (client_get s) - Position (bufs P) (client_get s)"
  defines "s0 \<equiv> s\<lparr>mSSLReadBufferSize := n, mSSLReadBuffer := new_ptr P n, mSSLReadCount := 0\<rparr>"
  shows "\<exists>s' q. DoSSLRead P t s0 = Some s' \<and> read_outcome P segs data t s0 q s'"
proof -
  have B: "buffer_list (bufs P) segs data" "platform_ok P" using assms(1) by (simp_all add: world_ok_def)
  have n: "n = length (buf_unread (bufs P) segs data (client_get s))"
    by (simp add: n_def buf_unread_def buffer_list.whole_simps(7) [OF B(1)])
  obtain p where "new_ptr P n = Some p" "length p = n" using platform_ok_memory [OF B(2)] by blast
  then have "read_under_way P segs data s0" "engine_ok P segs data s0" "threshold_ok P t (mSSLReadBufferSize s0)"
    using assms(2,3,5,6) n by (simp_all add: s0_def read_under_way_def ce_ok_def)
  from DoSSLRead_ok [OF B this(2,1,3)] show ?thesis .
qed

text \<open>
  C8. A get is answered at most once, and truthfully: started on an established connection, it
  either waits without a word to the client, or completes with at least the threshold and at
  most the room asked for, or ends the connection; in the last two cases the client is told
  once, of exactly the number of bytes by which its buffer has advanced.
\<close>

theorem get_answered_once:
  assumes "world_ok P segs data" "reachable P segs data s"
    and "admissible P segs data (qGetBytesImmediateStart t) s"
    and "mSSLConfigured s" "mEstablished s" "mSSLReadBuffer s = None"
  shows "\<exists>s'. GetBytesImmediateStart P t s = Some s'
     \<and> (mSSLReadBuffer s' \<noteq> None \<and> mEstablished s' \<and> client_calls (trace s') = client_calls (trace s)
        \<or> (\<exists>e n. client_calls (trace s') = client_calls (trace s) @ [cGetComplete e True n]
             \<and> Position (bufs P) (client_get s') = Position (bufs P) (client_get s) + n
             \<and> (if mClosing s' then \<not> mEstablished s'
                else e = 0 \<and> mEstablished s' \<and> mSSLReadBuffer s' = None \<and> t \<le> n
                  \<and> n \<le> GetSize (bufs P) (client_get s) - Position (bufs P) (client_get s))))"
proof -
  have ok: "ce_ok P segs data s" by (rule reachable_ok [OF assms(1,2)])
  then have "\<not> mClosing s" using assms(4,5) by (auto simp: ce_ok_def)
  have adm: "buf_valid (bufs P) segs data (client_get s)"
    "threshold_ok P t (length (buf_unread (bufs P) segs data (client_get s)))"
    using assms(3,4) by (simp_all add: admissible_def)
  from start_read_outcome [OF assms(1) ok assms(4,5) adm]
  obtain s' q where s': "GetBytesImmediateStart P t s = Some s'"
    and q: "read_outcome P segs data t (s\<lparr>mSSLReadBufferSize := GetSize (bufs P) (client_get s) - Position (bufs P) (client_get s),
       mSSLReadBuffer := new_ptr P (GetSize (bufs P) (client_get s) - Position (bufs P) (client_get s)),
       mSSLReadCount := 0\<rparr>) q s'"
    using assms(4-6) by (auto simp: GetBytesImmediateStart_def Let_def)
  show ?thesis
    using q \<open>\<not> mClosing s\<close> assms(5)
    by (intro exI [of _ s'] conjI s') (cases q; fastforce simp: read_outcome_def read_under_way_def)
qed

theorem get_answered_once_witness:
  "\<exists>s'. GetBytesImmediateStart demo_platform 1
       (established_demo\<lparr>client_get := \<lparr>blocks = [[0, 0]], cpos = 0\<rparr>, client_threshold := Some 1\<rparr>) = Some s'
     \<and> (mSSLReadBuffer s' \<noteq> None \<and> mEstablished s' \<and> client_calls (trace s') = client_calls (trace established_demo)
        \<or> (\<exists>e n. client_calls (trace s') = client_calls (trace established_demo) @ [cGetComplete e True n]))"
proof -
  let ?s = "established_demo\<lparr>client_get := \<lparr>blocks = [[0, 0]], cpos = 0\<rparr>, client_threshold := Some 1\<rparr>"
  have "reachable demo_platform blocks (\<lambda>g. g) ?s"
    by (rule reachable.handled [OF established_reachable, of "ClientGet \<lparr>blocks = [[0, 0]], cpos = 0\<rparr> (Some 1)"])
      (simp_all add: admissible_def established_demo_def handshaking_demo_def)
  from get_answered_once [OF demo_world_ok this, of 1] show ?thesis
    using demo_reads_progress
    by (force simp: admissible_def established_demo_def handshaking_demo_def threshold_ok_def
        buf_valid_def buf_whole_def buf_unread_def cbuf_ops_def)
qed



text \<open>A round that brings nothing changes nothing.\<close>

lemma DoSSLRead_step_stuck:
  assumes "\<And>n m. ssl_read P n m = Ret (0, [], m)" "mSSLReadCount s < threshold"
  shows "DoSSLRead_step P threshold s = Some (Inl s)"
  using assms by (simp add: DoSSLRead_step_def store_read_def)

text \<open>
  It does not end when the library has nothing more to give: a read that returns 0, as mbed
  TLS does once the connection has been closed by the peer, leaves the count below the
  threshold, and the loop reads again for ever.
\<close>

theorem read_at_end_loops:
  fixes P :: "('b, 'g, 'm) platform"
  assumes "\<And>n m. ssl_read P n m = Ret (0, [], m)" "mSSLReadCount s < threshold"
  shows "DoSSLRead P threshold s = None"
proof (rule ccontr)
  define stuck :: "((('b, 'g, 'm) platform \<times> nat) \<times> ('b, 'm) ce) \<Rightarrow> bool" where
    "stuck = (\<lambda>((P, t), s). (\<forall>n m. ssl_read P n m = Ret (0, [], m)) \<and> mSSLReadCount s < t)"
  assume "DoSSLRead P threshold s \<noteq> None"
  then obtain y where "DoSSLRead P threshold s = Some y" by blast
  then have "\<not> stuck ((P, threshold), s)"
  proof (rule DoSSLRead.raw_induct [where Pa = "\<lambda>x y. \<not> stuck x", rotated])
    fix f and P :: "('b, 'g, 'm) platform" and t s y
    assume IH: "\<And>P t s y. f P t s = Some y \<Longrightarrow> \<not> stuck ((P, t), s)"
      and step: "(case DoSSLRead_step P t s of None \<Rightarrow> None
        | Some (Inl s') \<Rightarrow> f P t s' | Some (Inr s') \<Rightarrow> Some s') = Some y"
    show "\<not> stuck ((P, t), s)"
      using IH [of P t s y] step DoSSLRead_step_stuck [of P s t] by (auto simp: stuck_def)
  qed
  then show False using assms by (simp add: stuck_def)
qed

theorem read_at_end_loops_witness:
  "DoSSLRead (demo_platform\<lparr>ssl_read := \<lambda>n m. Ret (0, [], m)\<rparr>) 1 (established_demo\<lparr>mSSLReadCount := 0\<rparr>) = None"
  by (rule read_at_end_loops) simp_all

section \<open>The handshake\<close>

text \<open>
  C10. A handshake is reported once, when it is over: the client is told nothing while it goes
  on, of the success when it succeeds (as the completion of the option when the connection
  was upgraded, of the connect otherwise), and of the library's error when it fails.
\<close>

theorem handshake_reported_once:
  assumes "world_ok P segs data" "reachable P segs data s" "mSSLConfigured s" "\<not> mClosing s"
    and "run (ssl_handshake P (mbed s)) P s = Some ((r, m), s1)"
  defines "goes_on \<equiv> r \<noteq> 0 \<and> (r = ERR_SSL_WANT_READ P \<or> r = ERR_SSL_WANT_WRITE P)"
  shows "\<exists>s'. DoSSLHandshake P s = Some s'
     \<and> mEstablished s' = (r = 0 \<or> goes_on \<and> mEstablished s)
     \<and> mClosing s' = (r \<noteq> 0 \<and> \<not> goes_on)
     \<and> client_calls (trace s') = client_calls (trace s) @
         (if r = 0 then [if mUpgradable s then cProcessOptionComplete (opSuccess P) else cConnectComplete 0]
          else if goes_on then [] else [cConnectComplete r])"
proof -
  have B: "buffer_list (bufs P) segs data" "platform_ok P" and eng: "engine_ok P segs data s"
    using assms(1,3) reachable_ok [OF assms(1,2)] by (simp_all add: world_ok_def ce_ok_def)
  have run: "engine_ok P segs data s1" "core s1 = core s"
    using run_ok [OF B eng returns_True, of "ssl_handshake P (mbed s)"] assms(5) by auto
  note frame = core_fields [OF run(2)]
  consider "r = 0" | "goes_on" | "r \<noteq> 0" "\<not> goes_on" by (auto simp: goes_on_def)
  then show ?thesis
  proof cases
    case 1
    then show ?thesis
      using assms(3-5) frame run(1) by (simp add: DoSSLHandshake_def client_ok [of P segs data] goes_on_def)
  next
    case 2
    then show ?thesis
      using assms(3-5) frame by (auto simp: DoSSLHandshake_def goes_on_def)
  next
    case 3
    obtain s2 m2 where s2: "session_reset P (s1\<lparr>mbed := m, mEstablished := False, mClosing := True\<rparr>) = Some (s2\<lparr>mbed := m2\<rparr>)"
      "engine_ok P segs data s2" "core s2 = core (s1\<lparr>mbed := m, mEstablished := False, mClosing := True\<rparr>)"
      using session_reset_ok [OF B, of "s1\<lparr>mbed := m, mEstablished := False, mClosing := True\<rparr>"] run(1) by auto
    then show ?thesis
      using 3 assms(5) frame core_fields [OF s2(3)]
      by (simp add: DoSSLHandshake_def client_ok [of P segs data] goes_on_def)
  qed
qed

theorem handshake_reported_once_witness:
  "\<exists>s'. DoSSLHandshake demo_platform answered_demo = Some s' \<and> mEstablished s'
     \<and> client_calls (trace s') = client_calls (trace answered_demo) @ [cConnectComplete 0]"
proof -
  have "fst (fst (the (run (ssl_handshake demo_platform (mbed answered_demo)) demo_platform answered_demo))) = 0"
    "run (ssl_handshake demo_platform (mbed answered_demo)) demo_platform answered_demo \<noteq> None"
    by code_simp+
  then obtain m s1 where run: "run (ssl_handshake demo_platform (mbed answered_demo)) demo_platform answered_demo = Some ((0, m), s1)"
    by auto
  have "mSSLConfigured answered_demo" "\<not> mClosing answered_demo" "\<not> mUpgradable answered_demo"
    by (simp_all add: answered_demo_def handshaking_demo_def)
  then show ?thesis
    using handshake_reported_once [OF demo_world_ok answered_reachable _ _ run] by auto
qed

section \<open>Writing\<close>

text \<open>
  C11. A put reports the bytes the library accepted and leaves the client's buffer after
  them, whether the library took all of them or a part: the next put starts where this one
  stopped.
\<close>

theorem put_reports_accepted:
  assumes "world_ok P segs data" "reachable P segs data s" "mSSLConfigured s" "mEstablished s"
    and "buf_valid (bufs P) segs data (client_put s)"
    and "run (ssl_write P (buf_unread (bufs P) segs data (client_put s)) (mbed s)) P
       (s\<lparr>client_put := snd (Getn (bufs P) (client_put s) (length (buf_unread (bufs P) segs data (client_put s))))\<rparr>)
         = Some ((r, m), s1)"
    and "0 \<le> r" "r \<le> int (length (buf_unread (bufs P) segs data (client_put s)))"
  shows "\<exists>s'. PutBytesStart P s = Some s'
     \<and> client_calls (trace s') = client_calls (trace s) @ [cPutComplete 0 (nat r)]
     \<and> buf_unread (bufs P) segs data (client_put s') = drop (nat r) (buf_unread (bufs P) segs data (client_put s))"
proof -
  have B: "buffer_list (bufs P) segs data" "platform_ok P" and eng: "engine_ok P segs data s" and cl: "\<not> mClosing s"
    using assms(1,3,4) reachable_ok [OF assms(1,2)] by (auto simp: world_ok_def ce_ok_def)
  let ?all = "buf_unread (bufs P) segs data (client_put s)"
  have all: "GetSize (bufs P) (client_put s) - Position (bufs P) (client_put s) = length ?all"
    by (simp add: buf_unread_def buffer_list.whole_simps(7) [OF B(1)])
  define b where "b = snd (Getn (bufs P) (client_put s) (length ?all))"
  have get: "Getn (bufs P) (client_put s) (length ?all) = (?all, b)"
    using buffer_list.getn_unread(1) [OF B(1) assms(5), of "length ?all"] by (simp add: b_def prod_eq_iff)
  have b: "buf_unread (bufs P) segs data b = []"
    "buf_whole segs data b = buf_whole segs data (client_put s)"
    using buffer_list.getn_unread(2) [OF B(1) assms(5), of "length ?all"] buffer_list.whole_simps(6) [OF B(1)]
    by (simp_all add: b_def)
  have run: "engine_ok P segs data s1" "core s1 = core (s\<lparr>client_put := b\<rparr>)"
    using run_ok [OF B _ returns_True, of "s\<lparr>client_put := b\<rparr>" "ssl_write P ?all (mbed s)"] eng assms(6)
    by (auto simp flip: b_def)
  note frame = core_fields [OF run(2)]
  let ?cp = "if r < int (length ?all)
     then Seek (bufs P) b (Position (bufs P) (client_put s) + nat r) (- 1) else b"
  have "PutBytesStart P s = Some (s1\<lparr>mbed := m, client_put := ?cp,
      trace := trace s1 @ [Client (cPutComplete 0 (nat r))]\<rparr>)"
    using assms(3,4,6,7) cl all get frame run(1) client_ok [of P segs data]
    by (simp add: PutBytesStart_def flip: b_def)
  moreover have "buf_unread (bufs P) segs data ?cp = drop (nat r) ?all"
  proof (cases "r < int (length ?all)")
    case True
    then have "Position (bufs P) (client_put s) + nat r \<le> length (buf_whole segs data b)"
      using assms(7) by (simp add: b(2)) (simp add: buf_unread_def)
    from buffer_list.seek_unread [OF B(1) this] True show ?thesis
      by (simp add: b(2)) (simp add: buf_unread_def add.commute)
  next
    case False
    then show ?thesis using b(1) assms(8) by simp
  qed
  ultimately show ?thesis
    using frame by simp
qed

theorem put_reports_accepted_witness:
  "\<exists>s'. PutBytesStart demo_platform (established_demo\<lparr>client_put := \<lparr>blocks = [[4, 5], [6]], cpos = 1\<rparr>\<rparr>) = Some s'
     \<and> client_calls (trace s') = client_calls (trace established_demo) @ [cPutComplete 0 2]"
proof -
  let ?s = "established_demo\<lparr>client_put := \<lparr>blocks = [[4, 5], [6]], cpos = 1\<rparr>\<rparr>"
  have "reachable demo_platform blocks (\<lambda>g. g) ?s"
    by (rule reachable.handled [OF established_reachable, of "ClientPut \<lparr>blocks = [[4, 5], [6]], cpos = 1\<rparr>"])
      (simp_all add: admissible_def)
  moreover have un: "buf_unread (bufs demo_platform) blocks (\<lambda>g. g) (client_put ?s) = [5, 6]"
    and valid: "buf_valid (bufs demo_platform) blocks (\<lambda>g. g) (client_put ?s)"
    by (simp_all add: buf_unread_def buf_whole_def buf_valid_def cbuf_ops_def)
  moreover have "fst (fst (the (run (ssl_write demo_platform [5, 6] (mbed ?s)) demo_platform
        (?s\<lparr>client_put := snd (Getn (bufs demo_platform) (client_put ?s) (length [5 :: byte, 6]))\<rparr>)))) = 2"
    "run (ssl_write demo_platform [5, 6] (mbed ?s)) demo_platform
        (?s\<lparr>client_put := snd (Getn (bufs demo_platform) (client_put ?s) (length [5 :: byte, 6]))\<rparr>) \<noteq> None"
    by code_simp+
  then obtain m s1 where run: "run (ssl_write demo_platform [5, 6] (mbed ?s)) demo_platform
        (?s\<lparr>client_put := snd (Getn (bufs demo_platform) (client_put ?s) (length [5 :: byte, 6]))\<rparr>) = Some ((2, m), s1)"
    by auto
  moreover have "mSSLConfigured ?s" "mEstablished ?s"
    by (simp_all add: established_demo_def handshaking_demo_def)
  ultimately show ?thesis
    using put_reports_accepted [OF demo_world_ok, of ?s 2 m s1] by (auto simp del: demo_sel)
qed

text \<open>
  A write error does not close the connection: the client is told that it is aborted, but
  the connection end is neither established nor closing, so that the next message of its own
  port starts a new handshake on the reset session.
\<close>

theorem write_failure_restarts_handshake:
  assumes "world_ok P segs data" "reachable P segs data s" "mSSLConfigured s" "mEstablished s"
    and "Getn (bufs P) (client_put s) (GetSize (bufs P) (client_put s) - Position (bufs P) (client_put s)) = (buf, b)"
    and "run (ssl_write P buf (mbed s)) P (s\<lparr>client_put := b\<rparr>) = Some ((r, m), s1)" "r < 0"
    and "t AND kMsgType_ReservedMask P = kAsyncReadMessageType"
  shows "\<exists>s'. PutBytesStart P s = Some s'
     \<and> client_calls (trace s') = client_calls (trace s) @ [cPutComplete (kCommErrConnectionAborted P) 0]
     \<and> HandleRequest P x y z t s' = Option.bind (DoSSLHandshake P s') (client (cHandleRequest x y z t))"
proof -
  have B: "buffer_list (bufs P) segs data" "platform_ok P" and eng: "engine_ok P segs data s" and cl: "\<not> mClosing s"
    using assms(1,3,4) reachable_ok [OF assms(1,2)] by (auto simp: world_ok_def ce_ok_def)
  have run: "engine_ok P segs data s1" "core s1 = core (s\<lparr>client_put := b\<rparr>)"
    using run_ok [OF B _ returns_True, of "s\<lparr>client_put := b\<rparr>" "ssl_write P buf (mbed s)"] eng assms(6) by auto
  let ?s2 = "s1\<lparr>mbed := m, mEstablished := False\<rparr>"
  obtain s3 m3 where s3: "session_reset P ?s2 = Some (s3\<lparr>mbed := m3\<rparr>)" "engine_ok P segs data s3" "core s3 = core ?s2"
    using session_reset_ok [OF B, of ?s2] run(1) by auto
  note frame = core_fields [OF run(2)] core_fields [OF s3(3)]
  let ?s' = "s3\<lparr>mbed := m3, trace := trace s3 @ [Client (cPutComplete (kCommErrConnectionAborted P) 0)]\<rparr>"
  have "PutBytesStart P s = Some ?s'"
    using assms(3-7) cl s3(1,2) client_ok [of P segs data] by (simp add: PutBytesStart_def)
  moreover have "\<not> mEstablished ?s'" "\<not> mClosing ?s'" using frame cl by simp_all
  then have "HandleRequest P x y z t ?s' = Option.bind (DoSSLHandshake P ?s') (client (cHandleRequest x y z t))"
    using assms(8) by (simp add: HandleRequest_def)
  ultimately show ?thesis using frame by (intro exI [of _ ?s']) simp
qed

theorem write_failure_restarts_handshake_witness:
  "\<exists>s'. PutBytesStart demo_platform (established_demo\<lparr>mSendError := - 5\<rparr>) = Some s'
     \<and> client_calls (trace s') = client_calls (trace established_demo)
         @ [cPutComplete (kCommErrConnectionAborted demo_platform) 0]
     \<and> HandleRequest demo_platform 1 2 3 kAsyncReadMessageType s'
         = Option.bind (DoSSLHandshake demo_platform s') (client (cHandleRequest 1 2 3 kAsyncReadMessageType))"
proof -
  let ?s = "established_demo\<lparr>mSendError := - 5\<rparr>"
  have "handle demo_platform (aPutComplete (- 5) 0) established_demo = Some ?s" by code_simp
  then have r: "reachable demo_platform blocks (\<lambda>g. g) ?s"
    by (rule reachable.handled [OF established_reachable, rotated]) (simp add: admissible_def)
  obtain buf b where get: "Getn (bufs demo_platform) (client_put ?s) (GetSize (bufs demo_platform) (client_put ?s)
      - Position (bufs demo_platform) (client_put ?s)) = (buf, b)" by fastforce
  have run: "run (ssl_write demo_platform buf (mbed ?s)) demo_platform (?s\<lparr>client_put := b\<rparr>)
      = Some ((- 5, mbed ?s), ?s\<lparr>client_put := b\<rparr>)"
    by (simp add: toy_write_def SSLSendCallback_def)
  have msg: "kAsyncReadMessageType AND kMsgType_ReservedMask demo_platform = kAsyncReadMessageType" by code_simp
  have "mSSLConfigured ?s" "mEstablished ?s" by (simp_all add: established_demo_def handshaking_demo_def)
  from write_failure_restarts_handshake [OF demo_world_ok r this get run _ msg, of 1 2 3]
  show ?thesis by simp
qed

section \<open>What goes wrong\<close>

text \<open>
  C24. A message that is still in the port when the connection is closed finds no buffers:
  \<^verbatim>\<open>HandleRequest\<close> does not ask whether TLS is configured, runs the handshake, and the
  library's first send goes through a NULL send buffer.
\<close>

theorem late_message_crashes:
  assumes "platform_ok P" "mSSLConfigured s" "\<not> mEstablished s" "\<not> mClosing s" "mSendError s = noErr"
    and "t AND kMsgType_ReservedMask P = kAsyncReadMessageType" "ssl_handshake P (mbed s) = Send bs k"
    and "CloseStart s = Some s1"
  shows "HandleRequest P x y z t s1 = None"
proof -
  obtain q where q: "mInetPConnectionEnd s = Some q"
    using assms(8) by (cases "mInetPConnectionEnd s") (simp_all add: CloseStart_def inet_def)
  then have s1: "s1 = SSLUnconfigure (s\<lparr>trace := trace s @ [Inet iCloseStart]\<rparr>)"
    using assms(2,8) by (simp add: CloseStart_def)
  obtain p where "new_ptr P (length bs) = Some p"
    using platform_ok_memory [OF assms(1)] by blast
  then have "SSLSendCallback P bs s1 = None"
    using assms(5) by (simp add: s1 SSLUnconfigure_def SSLSendCallback_def)
  then have "DoSSLHandshake P s1 = None"
    using assms(7) by (simp add: s1 SSLUnconfigure_def DoSSLHandshake_def)
  moreover have "\<not> mClosing s1" "\<not> mEstablished s1" using assms(3,4) by (simp_all add: s1 SSLUnconfigure_def)
  ultimately show ?thesis using assms(6) by (simp add: HandleRequest_def)
qed

theorem late_message_crashes_witness:
  "HandleRequest demo_platform 1 2 3 kAsyncReadMessageType (the (CloseStart configured_demo)) = None"
proof -
  have msg: "kAsyncReadMessageType AND kMsgType_ReservedMask demo_platform = kAsyncReadMessageType"
    and close: "CloseStart configured_demo = Some (the (CloseStart configured_demo))" by code_simp+
  obtain k where send: "ssl_handshake demo_platform (mbed configured_demo) = Send [22, 1] k"
    by (simp add: toy_handshake_def configured_demo_def handshaking_demo_def)
  show ?thesis
    by (rule late_message_crashes [OF demo_platform_ok _ _ _ _ msg send close])
      (simp_all add: configured_demo_def handshaking_demo_def)
qed

text \<open>
  C23. A peer that closes while the receive callback asks for bytes goes unnoticed: the
  callback says that it would block, but no get is pending and no message was posted, so
  nothing will ask the library again.
\<close>

theorem synchronous_close_stalls:
  assumes "world_ok P segs data" "reachable P segs data s" "mSSLConfigured s"
    and "mRecvError s = noErr" "\<not> mPeerClosed s" "\<not> mRecvPending s" "mSSLRecvBufferSize s = 0" "0 < len"
    and "get_replies s = GetNow 0 [] # rs"
  shows "\<exists>s'. SSLRecvCallback P len s = Some (ERR_SSL_WANT_READ P, [], s')
     \<and> mPeerClosed s' \<and> \<not> mRecvPending s' \<and> trace s' = trace s @ [Inet (iGetData 1)]"
proof -
  have B: "buffer_list (bufs P) segs data" and eng: "engine_ok P segs data s"
    using assms(1,3) reachable_ok [OF assms(1,2)] by (simp_all add: world_ok_def ce_ok_def)
  obtain getb q where getb: "mGetDataBuffer s = Some getb" "buf_valid (bufs P) segs data getb"
    "mInetPConnectionEnd s = Some q"
    using eng by (auto simp: engine_ok_def recv_bytes_ok_def)
  let ?b = "InsertLast (bufs P) getb (seg_room (bufs P) len)"
  have "fst (Putn (bufs P) ?b []) = 0"
    using buffer_list.putn_reset(1) [OF B buffer_list.valid_simps(4) [OF B getb(2)], of _ "[]"] by simp
  then obtain b' where "Putn (bufs P) ?b [] = (0, b')" by (cases "Putn (bufs P) ?b []") simp
  then show ?thesis
    using assms(3-9) getb
    by (simp add: SSLRecvCallback_def GetBytesImmediateStart_data_def inet_deliver_def GetCompleteCB_def)
qed

theorem synchronous_close_stalls_witness:
  "\<exists>s'. SSLRecvCallback demo_platform 4 (established_demo\<lparr>put_replies := [], get_replies := [GetNow 0 []]\<rparr>)
       = Some (ERR_SSL_WANT_READ demo_platform, [], s') \<and> mPeerClosed s' \<and> \<not> mRecvPending s'"
proof -
  let ?s = "established_demo\<lparr>put_replies := [], get_replies := [GetNow 0 []]\<rparr>"
  have "reachable demo_platform blocks (\<lambda>g. g) ?s"
    by (rule reachable.handled [OF established_reachable, of "Replies [] [GetNow 0 []]"])
      (simp_all add: admissible_def)
  from synchronous_close_stalls [OF demo_world_ok this, of 4 "[]"] show ?thesis
    by (auto simp: established_demo_def handshaking_demo_def)
qed

section \<open>The timer\<close>

text \<open>
  Between the setting of the timer and the wrap of the millisecond clock, the callbacks
  tell the library what it expects: cancelled for a final delay of 0, and otherwise whether
  the final, the intermediate or no delay has passed.
\<close>

theorem timer_reports:
  assumes "unat (clock_ms s) + unat fin_ms < 2 ^ 32" "unat (clock_ms s) + unat int_ms < 2 ^ 32"
    and "unat (clock_ms s) + unat d < 2 ^ 32"
  shows "SSLGetTimerCallback ((SSLSetTimerCallback int_ms fin_ms s)\<lparr>clock_ms := clock_ms s + d\<rparr>)
     = (if fin_ms = 0 then - 1 else if fin_ms \<le> d then 2 else if int_ms \<le> d then 1 else 0)"
proof -
  have sum: "unat (clock_ms s + x) = unat (clock_ms s) + unat x" if "unat (clock_ms s) + unat x < 2 ^ 32" for x
    using that by (simp add: unat_word_ariths)
  have "fin_ms + clock_ms s \<noteq> 0" if "fin_ms \<noteq> 0"
    using that sum [OF assms(1)] by (metis add.commute add_is_0 unat_eq_zero)
  then show ?thesis
    using sum [OF assms(1)] sum [OF assms(2)] sum [OF assms(3)]
    by (auto simp: SSLSetTimerCallback_def SSLGetTimerCallback_def Let_def word_le_nat_alt add.commute)
qed

theorem timer_reports_witness:
  "SSLGetTimerCallback ((SSLSetTimerCallback 100 200 fresh)\<lparr>clock_ms := clock_ms fresh + 150\<rparr>) = 1"
proof -
  have "clock_ms fresh = 1000" unfolding fresh_def by code_simp
  then show ?thesis using timer_reports [of fresh 200 100 150] by simp
qed

text \<open>
  A delay that takes the clock past its wrap is misjudged at once: the timer counts as
  cancelled when it would end at 0, and as expired otherwise.
\<close>

theorem timer_wrap:
  assumes "fin_ms \<noteq> 0" "2 ^ 32 \<le> unat (clock_ms s) + unat fin_ms"
  shows "SSLGetTimerCallback (SSLSetTimerCallback int_ms fin_ms s)
     = (if fin_ms + clock_ms s = 0 then - 1 else 2)"
proof -
  have "fin_ms + clock_ms s \<le> clock_ms s"
    unfolding word_le_nat_alt unat_ulong_wrap [OF assms(2)] using ulong_less [of fin_ms] by linarith
  then show ?thesis
    using assms(1) by (simp add: SSLSetTimerCallback_def SSLGetTimerCallback_def Let_def)
qed

theorem timer_wrap_witness:
  "SSLGetTimerCallback (SSLSetTimerCallback 1 4294966296 fresh) = - 1"
proof -
  have clock: "clock_ms fresh = 1000" unfolding fresh_def by code_simp
  have "(4294966296 :: ulong) \<noteq> 0" "2 ^ 32 \<le> unat (clock_ms fresh) + unat (4294966296 :: ulong)"
    "(4294966296 :: ulong) + clock_ms fresh = 0"
    unfolding clock by simp_all
  from timer_wrap [OF this(1,2), of 1] this(3) show ?thesis by (simp only: if_True simp_thms)
qed

section \<open>Certificates\<close>

text \<open>
  C12. The root certificates are loaded in the order of the list, each usable one parsed once
  and the others skipped, whatever the sizes of the certificates, and the caller's heap is
  current again.
\<close>

theorem root_certificates_loaded:
  assumes "certificates_ok P"
    and "package_soup (cert_soups (the_newt P)) = Inr es" "union_soup (cert_soups (the_newt P)) = Inr u"
    and "u = None \<or> union_index_exn (cert_soups (the_newt P)) = None"
    and "length (names_of (listed (cert_soups (the_newt P)) es u)) < 2 ^ 31"
  shows "\<exists>s'. load_root_certificates P s = Some (0, s') \<and> cur_heap s' = cur_heap s
     \<and> mbed s' = fold (\<lambda>cert m. snd (x509_crt_parse P cert m))
          (List.map_filter (usable_certificate (cert_soups (the_newt P)))
             (map (\<lambda>e. butlast (tag_chars (e_tag e))) (listed (cert_soups (the_newt P)) es u))) (mbed s)"
  using load_root_certificates_eq [OF assms, of s] by (simp add: parse_all_def)

theorem root_certificates_loaded_witness:
  "\<exists>s'. load_root_certificates demo_platform fresh = Some (0, s') \<and> parsed (mbed s') = [[1, 2]]"
proof -
  let ?W = "cert_soups (the_newt demo_platform)"
  have "listed ?W demo_package (Some demo_user) = listed demo_soups demo_package (Some demo_user)" by simp
  have small: "length (names_of (listed ?W demo_package (Some demo_user))) < 2 ^ 31"
    using demo_names by simp
  obtain s' where s': "load_root_certificates demo_platform fresh = Some (0, s')"
    "mbed s' = fold (\<lambda>cert m. snd (x509_crt_parse demo_platform cert m))
          (List.map_filter (usable_certificate ?W)
             (map (\<lambda>e. butlast (tag_chars (e_tag e))) (listed ?W demo_package (Some demo_user)))) (mbed fresh)"
    using root_certificates_loaded [OF demo_certificates_ok _ _ _ small, of fresh] by auto
  moreover have "parsed (fold (\<lambda>cert m. snd (x509_crt_parse demo_platform cert m))
          (List.map_filter (usable_certificate demo_soups)
             (map (\<lambda>e. butlast (tag_chars (e_tag e))) (listed demo_soups demo_package (Some demo_user)))) (mbed fresh)) = [[1, 2]]"
    by code_simp
  ultimately show ?thesis by simp
qed

text \<open>
  When the certificates cannot be listed, the configuration fails with the error of the
  list and leaves the heap of the root certificates current: the return inside
  \<^verbatim>\<open>unwind_protect\<close> skips the restoration.
\<close>

theorem configure_error_keeps_heap:
  assumes "mInetCECallBack s \<noteq> None" "mSSLLoadRootCertificates s" "mRootCertificatesHeap s = Some h"
    and "fst (ctr_drbg_seed P (snd (GetSerialNumber (the_task P) (the_newt P) (past_end P SERIAL_NUMBER_LEN)))
           (entropy_add_hardclock P (mbed s))) = 0"
    and "ListRootCertificates_task (the_task P) (the_newt P) None = (r, x, y)" "r < 0"
  shows "\<exists>s'. SSLConfigure P s = Some (r, s') \<and> cur_heap s' = Some h \<and> mSSLConfigured s' = mSSLConfigured s"
proof -
  obtain m where "ctr_drbg_seed P (snd (GetSerialNumber (the_task P) (the_newt P) (past_end P SERIAL_NUMBER_LEN)))
           (entropy_add_hardclock P (mbed s)) = (0, m)"
    using assms(4) by (metis prod.collapse)
  then show ?thesis
    using assms by (auto simp: SSLConfigure_def load_root_certificates_def Let_def)
qed

theorem configure_error_keeps_heap_witness:
  "\<exists>s'. SSLConfigure (demo_platform\<lparr>the_newt := demo_newt\<lparr>cert_soups := demo_soups\<lparr>package_soup := Inl (ExOther 0)\<rparr>\<rparr>\<rparr>)
       configured_demo = Some (- 1, s') \<and> cur_heap s' = Some 5 \<and> cur_heap configured_demo = Some 0"
proof -
  let ?P = "demo_platform\<lparr>the_newt := demo_newt\<lparr>cert_soups := demo_soups\<lparr>package_soup := Inl (ExOther 0)\<rparr>\<rparr>\<rparr>"
  have "fst (ctr_drbg_seed ?P (snd (GetSerialNumber (the_task ?P) (the_newt ?P) (past_end ?P SERIAL_NUMBER_LEN)))
           (entropy_add_hardclock ?P (mbed configured_demo))) = 0"
    "fst (ListRootCertificates_task (the_task ?P) (the_newt ?P) None) = - 1"
    by code_simp+
  then obtain x y where *: "fst (ctr_drbg_seed ?P (snd (GetSerialNumber (the_task ?P) (the_newt ?P) (past_end ?P SERIAL_NUMBER_LEN)))
           (entropy_add_hardclock ?P (mbed configured_demo))) = 0"
    "ListRootCertificates_task (the_task ?P) (the_newt ?P) None = (- 1, x, y)"
    by (metis prod.collapse)
  have "mInetCECallBack configured_demo \<noteq> None" "mSSLLoadRootCertificates configured_demo"
    "mRootCertificatesHeap configured_demo = Some 5" "cur_heap configured_demo = Some 0"
    by (simp_all add: configured_demo_def handshaking_demo_def)
  from configure_error_keeps_heap [OF this(1-3) *] this(4) show ?thesis by auto
qed

text \<open>
  The peer certificate option never writes past the certificate of the option: the
  certificate is copied when the given length holds it, and its length is reported in any
  case.
\<close>

theorem peer_certificate_bounded:
  assumes "option_peer_certificate P opt s = Some (r, opt')" "unat (cert_length opt) \<le> length (certificate opt)"
  shows "length (certificate opt') = length (certificate opt)
     \<and> (opt' = opt \<or> (\<exists>c. peer_cert_at (ssl_peer_cert P (mbed s)) (unat (indexInChain opt)) = Some (Some c)
          \<and> r = opSuccess P \<and> cert_length opt' = of_nat (length c)
          \<and> (if length c \<le> unat (cert_length opt) then take (length c) (certificate opt') = c
             else certificate opt' = certificate opt)))"
proof (cases "mSSLConfigured s \<and> mEstablished s")
  case False
  then show ?thesis using assms(1) by (auto simp: option_peer_certificate_def)
next
  case True
  consider "peer_cert_at (ssl_peer_cert P (mbed s)) (unat (indexInChain opt)) = Some None"
    | c where "peer_cert_at (ssl_peer_cert P (mbed s)) (unat (indexInChain opt)) = Some (Some c)"
    using assms(1) True by (auto simp: option_peer_certificate_def split: option.splits)
  then show ?thesis
  proof cases
    case 1
    then show ?thesis using assms(1) True by (auto simp: option_peer_certificate_def)
  next
    case 2
    then show ?thesis
      using assms True by (auto simp: option_peer_certificate_def Let_def overwrite_def)
  qed
qed

theorem peer_certificate_bounded_witness:
  "\<exists>r o'. option_peer_certificate demo_platform (enable_option\<lparr>certificate := [0, 0, 0], cert_length := 3\<rparr>)
       (established_demo\<lparr>mbed := (mbed established_demo)\<lparr>peer := [[8, 9]]\<rparr>\<rparr>) = Some (r, o')
     \<and> length (certificate o') = 3 \<and> certificate o' = [8, 9, 0] \<and> cert_length o' = 2"
proof -
  let ?o = "enable_option\<lparr>certificate := [0, 0, 0], cert_length := 3\<rparr>"
  let ?s = "established_demo\<lparr>mbed := (mbed established_demo)\<lparr>peer := [[8, 9]]\<rparr>\<rparr>"
  have *: "option_peer_certificate demo_platform ?o ?s = Some (0, ?o\<lparr>certificate := [8, 9, 0], cert_length := 2\<rparr>)"
    by code_simp
  have "unat (cert_length ?o) \<le> length (certificate ?o)" by simp
  from peer_certificate_bounded [OF * this] * show ?thesis by auto
qed

end
