(* ===== verification/CE_Plain.thy ===== *)
theory CE_Plain
  imports CE_Examples
begin

text \<open>
  The connection end without TLS is a forwarder: \<open>plain_forward\<close> is the reference, what each
  request hands to the inet tool and each completion to the client, and the proxy does the
  same for every sequence of stimuli that does not enable TLS.
\<close>

fun handed_call :: "handed_request \<Rightarrow> inet_call" where
  "handed_call (hHandleInternalRequest a) = iHandleInternalRequest a"
| "handed_call hHandleInternalEvent = iHandleInternalEvent"
| "handed_call hBindStart = iBindStart"
| "handed_call hUnbindStart = iUnbindStart"
| "handed_call hListenStart = iListenStart"
| "handed_call hAcceptStart = iAcceptStart"
| "handed_call hReleaseStart = iReleaseStart"
| "handed_call (hHandleReply a b) = iHandleReply a b"
| "handed_call hKillControlStart = iKillControlStart"
| "handed_call hKillGetCommEventStart = iKillGetCommEventStart"
| "handed_call hGetCommEvent = iGetCommEvent"
| "handed_call (hResArbReleaseStart a b) = iResArbReleaseStart a b"
| "handed_call (hResArbClaimNotification a b) = iResArbClaimNotification a b"
| "handed_call hForwardOptions = iForwardOptions"
| "handed_call (hProcessPutBytesOptionStart a b) = iProcessPutBytesOptionStart a b"
| "handed_call (hProcessGetBytesOptionStart a b) = iProcessGetBytesOptionStart a b"

fun told_call :: "handed_callback \<Rightarrow> client_call" where
  "told_call (aOpenComplete r) = cOpenComplete r"
| "told_call (aCloseComplete r) = cCloseComplete r"
| "told_call (aBindComplete r) = cBindComplete r"
| "told_call (aUnbindComplete r) = cUnbindComplete r"
| "told_call (aListenComplete r) = cListenComplete r"
| "told_call (aAcceptComplete r) = cAcceptComplete r"
| "told_call aTerminateComplete = cTerminateComplete"
| "told_call (aKillPutComplete r) = cKillPutComplete r"
| "told_call (aKillGetComplete r) = cKillGetComplete r"
| "told_call (aHandleRequest a b c d) = cHandleRequest a b c d"
| "told_call (aHandleReply a b) = cHandleReply a b"
| "told_call (aKillControlComplete r) = cKillControlComplete r"
| "told_call (aKillGetCommEventComplete r) = cKillGetCommEventComplete r"
| "told_call aGetCommEvent = cGetCommEvent"
| "told_call (aProcessOptionComplete r) = cProcessOptionComplete r"
| "told_call (aProcessPutBytesOptionComplete r) = cProcessPutBytesOptionComplete r"
| "told_call (aProcessGetBytesOptionComplete r) = cProcessGetBytesOptionComplete r"
| "told_call (aResArbReleaseComplete r) = cResArbReleaseComplete r"
| "told_call (aSetTerminationEvent e) = cSetTerminationEvent e"
| "told_call (aSetToolConnectState e) = cSetToolConnectState e"
| "told_call (aSetConnectInfo i) = cSetConnectInfo i"
| "told_call (aSetCMOTransportInfo i) = cSetCMOTransportInfo i"
| "told_call (aSetPassiveClaim b) = cSetPassiveClaim b"
| "told_call (aSetPassiveState b) = cSetPassiveState b"
| "told_call (aSetWaitingForResNotify b) = cSetWaitingForResNotify b"

text \<open>The options the proxy handles itself.\<close>

definition tls_labels :: "ulong list" where
  "tls_labels = [kSSLEnableLabel, kSSLHostnameLabel, kSSLVerifyModeLabel, kSSLCertificateAuthorityLabel,
     kSSLPeerCertificateLabel]"

fun plain_forward :: "'b stimulus \<Rightarrow> observed list" where
  "plain_forward (Clock t) = []"
| "plain_forward (ClientPut b) = []"
| "plain_forward (ClientGet b t) = []"
| "plain_forward (Replies ps gs) = []"
| "plain_forward (Handed r) = [Inet (handed_call r)]"
| "plain_forward (Told c) = [Client (told_call c)]"
| "plain_forward qOpenStart = [Inet iOpenStart]"
| "plain_forward qCloseStart = [Inet iCloseStart]"
| "plain_forward qConnectStart = [Inet iConnectStart]"
| "plain_forward qTerminateStart = [Inet iTerminateStart]"
| "plain_forward qPutBytesStart = [Inet iPutBytesStart]"
| "plain_forward (qPutFramedBytesStart e) = [Inet (iPutFramedBytesStart e)]"
| "plain_forward qKillPutStart = [Inet iKillPutStart]"
| "plain_forward qGetBytesStart = [Inet iGetBytesStart]"
| "plain_forward qGetFramedBytesStart = [Inet iGetFramedBytesStart]"
| "plain_forward (qGetBytesImmediateStart t) = [Inet (iGetBytesImmediateStart t)]"
| "plain_forward qKillGetStart = [Inet iKillGetStart]"
| "plain_forward qHandleTimerTick = [Inet iHandleTimerTick]"
| "plain_forward (qHandleRequest a b c t) = [Inet (iHandleRequest a b c t)]"
| "plain_forward (qProcessOptionStart opt label opcode) =
     (if label \<in> set tls_labels then [] else [Inet (iProcessOptionStart label opcode)])"
| "plain_forward (aConnectComplete r) = [Client (cConnectComplete r)]"
| "plain_forward (aPutComplete r n) = [Client (cPutComplete r n)]"
| "plain_forward (aGetComplete r bs) = [Client (cGetComplete r True (length bs))]"

fun enables_tls :: "'b stimulus \<Rightarrow> bool" where
  "enables_tls (qProcessOptionStart opt label opcode) = (label = kSSLEnableLabel \<and> enabled opt)"
| "enables_tls _ = False"

definition without_tls :: "('b, 'm) ce \<Rightarrow> bool" where
  "without_tls s \<longleftrightarrow> \<not> mSSLConfigured s \<and> \<not> mSSLEnabled s"

lemma handed_plain: "ce_ok P segs data s \<Longrightarrow> handed P r s = Some (s\<lparr>trace := trace s @ [Inet (handed_call r)]\<rparr>)"
  by (cases r) (simp_all add: pass_defs ce_ok_inet)

lemma told_plain: "ce_ok P segs data s \<Longrightarrow> told c s = Some (s\<lparr>trace := trace s @ [Client (told_call c)]\<rparr>)"
  by (cases c) (simp_all add: pass_defs ce_ok_client)

lemma option_plain:
  assumes "world_ok P segs data" "ce_ok P segs data s" "without_tls s"
    and "admissible P segs data (qProcessOptionStart opt label opcode) s"
    and "\<not> enables_tls (qProcessOptionStart opt label opcode)"
  shows "\<exists>s'. handle P (qProcessOptionStart opt label opcode) s = Some s' \<and> without_tls s'
     \<and> trace s' = trace s @ plain_forward (qProcessOptionStart opt label opcode)"
proof -
  obtain r opt' s' where s': "ProcessOptionStart P opt label opcode s = Some (r, opt', s')"
    using option_ok [OF assms(1,2,4)] by blast
  moreover have "option_peer_certificate P opt s = Some (opNotSupported P, opt)"
    using assms(3) by (simp add: option_peer_certificate_def without_tls_def)
  then have "without_tls s' \<and> trace s' = trace s @ plain_forward (qProcessOptionStart opt label opcode)"
    using s' assms(3,5) ce_ok_inet [OF assms(2)]
    by (auto simp: ProcessOptionStart_def Let_def without_tls_def tls_labels_def option_hostname_def
        split: if_splits prod.splits option.splits)
  ultimately show ?thesis by simp
qed

lemma plain_step:
  assumes "world_ok P segs data" "ce_ok P segs data s" "without_tls s"
    and "admissible P segs data q s" "\<not> enables_tls q"
  shows "\<exists>s'. handle P q s = Some s' \<and> without_tls s' \<and> trace s' = trace s @ plain_forward q"
proof (cases q)
  case (qProcessOptionStart opt label opcode)
  then show ?thesis using option_plain [OF assms(1-3)] assms(4,5) by simp
next
  case (qHandleRequest a b c t)
  then show ?thesis
    using assms(3,4) ce_ok_inet [OF assms(2)] by (auto simp: without_tls_def admissible_def HandleRequest_def)
next
  case qCloseStart
  then show ?thesis
    using assms(3) ce_ok_inet [OF assms(2)] by (auto simp: without_tls_def CloseStart_def)
next
  case qOpenStart
  obtain t where "mInetPConnectionEnd s = Some t" using assms(2) by (auto simp: ce_ok_def)
  then show ?thesis using qOpenStart by (auto simp: without_tls_def OpenStart_def)
next
  case (aConnectComplete r)
  obtain t where "mInetCECallBack s = Some t" using assms(2) by (auto simp: ce_ok_def)
  then show ?thesis using aConnectComplete assms(3) by (auto simp: without_tls_def ConnectCompleteCB_def)
qed (use assms(3) handed_plain [OF assms(2)] told_plain [OF assms(2)] ce_ok_inet [OF assms(2)] ce_ok_client [OF assms(2)] in
    \<open>auto simp: without_tls_def ConnectStart_def TerminateStart_def PutBytesStart_def PutFramedBytesStart_def
       KillPutStart_def GetBytesStart_def GetFramedBytesStart_def GetBytesImmediateStart_def KillGetStart_def
       HandleTimerTick_def PutCompleteCB_def PutCompleteCB_with_def GetCompleteCB_def\<close>)

text \<open>Stimuli that may come at any time without TLS.\<close>

lemma all_admissible_plain:
  assumes "world_ok P segs data"
  shows "reachable P segs data s \<Longrightarrow> without_tls s \<Longrightarrow>
    \<forall>q\<in>set qs. \<not> enables_tls q \<and> (\<forall>t. without_tls t \<longrightarrow> admissible P segs data q t) \<Longrightarrow>
    all_admissible P segs data qs s"
proof (induction qs arbitrary: s)
  case (Cons q qs)
  then obtain s1 where "handle P q s = Some s1" "without_tls s1"
    using plain_step [OF assms reachable_ok [OF assms], of s q] by auto
  moreover from this(1) have "reachable P segs data s1"
    using reachable.handled [OF Cons.prems(1)] Cons.prems(2,3) by (meson list.set_intros(1))
  ultimately show ?case using Cons by simp
qed simp

text \<open>
  C4. With TLS neither configured nor enabled the proxy is transparent: any sequence of
  admissible requests and completions that does not enable TLS is handled, and what the inet
  tool and the client see is what the forwarder would have shown them, in the same order.
\<close>

theorem plain_transparent:
  assumes "world_ok P segs data" "reachable P segs data s" "without_tls s"
    and "all_admissible P segs data qs s" "\<forall>q\<in>set qs. \<not> enables_tls q"
  shows "\<exists>s'. handle_all P qs s = Some s' \<and> without_tls s'
     \<and> trace s' = trace s @ concat (map plain_forward qs)"
  using assms(2-5)
proof (induction qs arbitrary: s)
  case Nil
  then show ?case by simp
next
  case (Cons q qs)
  obtain s1 where s1: "handle P q s = Some s1" "without_tls s1" "trace s1 = trace s @ plain_forward q"
    using plain_step [OF assms(1) reachable_ok [OF assms(1) Cons.prems(1)] Cons.prems(2), of q] Cons.prems(3,4)
    by auto
  moreover have "reachable P segs data s1"
    using reachable.handled [OF Cons.prems(1) _ s1(1)] Cons.prems(3) by simp
  ultimately show ?case
    using Cons.IH [of s1] Cons.prems(3,4) by auto
qed

theorem plain_transparent_witness:
  "\<exists>s'. handle_all demo_platform [qConnectStart, aConnectComplete 0, qPutBytesStart, aPutComplete 0 3]
       (fresh\<lparr>mSSLEnabled := False, trace := trace fresh @ [Inet iOpenStart]\<rparr>) = Some s'
     \<and> trace s' = trace fresh @ [Inet iOpenStart, Inet iConnectStart, Client (cConnectComplete 0),
          Inet iPutBytesStart, Client (cPutComplete 0 3)]"
proof -
  let ?s = "fresh\<lparr>mSSLEnabled := False, trace := trace fresh @ [Inet iOpenStart]\<rparr>"
  let ?qs = "[qConnectStart, aConnectComplete 0, qPutBytesStart, aPutComplete 0 3]"
  have "handle demo_platform qOpenStart fresh = Some ?s" by code_simp
  then have "reachable demo_platform blocks (\<lambda>g. g) ?s"
    by (rule reachable.handled [OF fresh_reachable, rotated]) (simp add: admissible_def)
  moreover have "without_tls ?s" by code_simp
  moreover have "all_admissible demo_platform blocks (\<lambda>g. g) ?qs ?s"
    by (rule all_admissible_plain [OF demo_world_ok calculation]) (simp add: admissible_def without_tls_def)
  ultimately obtain s' where "handle_all demo_platform ?qs ?s = Some s'"
    "trace s' = trace ?s @ concat (map plain_forward ?qs)"
    using plain_transparent [OF demo_world_ok, of ?s ?qs] by fastforce
  then show ?thesis by (intro exI [of _ s'] conjI) (assumption, simp)
qed

end
