(* ===== verification/CE_Phases.thy ===== *)
theory CE_Phases
  imports CE_Properties
begin

text \<open>
  The abstract specification of the connection end: the phase of its TLS session, and the
  phases each stimulus may lead to. The detailed machine refines it: the phase of every
  state it reaches is one the specification allows.
\<close>

section \<open>The specification\<close>

datatype phase = Plain | Handshaking | Established | Closing

fun after_handshake :: "phase \<Rightarrow> phase set" where
  "after_handshake Handshaking = {Handshaking, Established, Closing}"
| "after_handshake Established = {Established, Closing}"
| "after_handshake ph = {ph}"

fun phase_next :: "'b stimulus \<Rightarrow> phase \<Rightarrow> phase set" where
  "phase_next qOpenStart ph = {Plain}"
| "phase_next qCloseStart ph = {Plain}"
| "phase_next qConnectStart ph = {ph, Handshaking}"
| "phase_next qTerminateStart ph = {if ph = Established then Closing else ph}"
| "phase_next qPutBytesStart ph = (if ph = Established then {Established, Handshaking} else {ph})"
| "phase_next qGetBytesStart ph = (if ph = Established then {Established, Closing} else {ph})"
| "phase_next (qGetBytesImmediateStart t) ph = (if ph = Established then {Established, Closing} else {ph})"
| "phase_next qHandleTimerTick ph = (if ph = Handshaking then after_handshake ph else {ph})"
| "phase_next (qHandleRequest a b c t) ph = after_handshake ph"
| "phase_next (qProcessOptionStart opt label opcode) ph =
     (if label = kSSLEnableLabel \<and> enabled opt then {ph} \<union> after_handshake Handshaking else {ph})"
| "phase_next (aConnectComplete r) ph = (if r = 0 then after_handshake ph else {ph})"
| "phase_next _ ph = {ph}"

text \<open>The phases a sequence of stimuli may lead to.\<close>

primrec phase_runs :: "'b stimulus list \<Rightarrow> phase \<Rightarrow> phase set" where
  "phase_runs [] ph = {ph}"
| "phase_runs (q # qs) ph = (\<Union>ph' \<in> phase_next q ph. phase_runs qs ph')"

section \<open>The abstraction\<close>

definition phase_of :: "('b, 'm) ce \<Rightarrow> phase" where
  "phase_of s = (if \<not> mSSLConfigured s then Plain else if mClosing s then Closing
     else if mEstablished s then Established else Handshaking)"

lemma phase_of_simps [simp]:
  "phase_of (s\<lparr>trace := tr\<rparr>) = phase_of s" "phase_of (s\<lparr>mbed := m\<rparr>) = phase_of s"
  "phase_of (s\<lparr>clock_ms := c\<rparr>) = phase_of s" "phase_of (s\<lparr>client_put := b\<rparr>) = phase_of s"
  "phase_of (s\<lparr>client_get := b\<rparr>) = phase_of s" "phase_of (s\<lparr>client_threshold := th\<rparr>) = phase_of s"
  "phase_of (s\<lparr>mUpgradable := u\<rparr>) = phase_of s" "phase_of (s\<lparr>mSSLEnabled := u\<rparr>) = phase_of s"
  "phase_of (s\<lparr>put_replies := ps\<rparr>) = phase_of s" "phase_of (s\<lparr>get_replies := gs\<rparr>) = phase_of s"
  "phase_of (s\<lparr>mSSLHostname := h\<rparr>) = phase_of s" "phase_of (s\<lparr>mSSLAuthMode := a\<rparr>) = phase_of s"
  "phase_of (s\<lparr>mSSLLoadRootCertificates := l\<rparr>) = phase_of s"
  "phase_of (s\<lparr>mRootCertificatesHeap := hp\<rparr>) = phase_of s"
  by (simp_all add: phase_of_def)

lemma phase_of_core: "core s' = core s \<Longrightarrow> phase_of s' = phase_of s"
  by (simp add: core_eq phase_of_def)

lemma client_phase: "client k s = Some s' \<Longrightarrow> phase_of s' = phase_of s"
  by (auto simp: client_def split: option.splits)

section \<open>The routines\<close>

lemma handshake_phase:
  assumes "world_ok P segs data" "ce_ok P segs data s" "mSSLConfigured s" "\<not> mClosing s"
    and "DoSSLHandshake P s = Some s'"
  shows "phase_of s' \<in> after_handshake (phase_of s)"
proof -
  obtain q where q: "handshake_outcome P segs data s q s'"
    using DoSSLHandshake_ok [of P segs data s] assms by (auto simp: world_ok_def ce_ok_def)
  then have "setup_of s' = setup_of s" by (simp add: handshake_outcome_def)
  then have "mSSLConfigured s'" using assms(3) by (simp add: setup_of_eq)
  then show ?thesis
    using q assms(3,4) by (cases q) (auto simp: handshake_outcome_def phase_of_def)
qed

lemma read_phase:
  assumes "read_outcome P segs data t s q s'" "mSSLConfigured s" "mEstablished s" "\<not> mClosing s"
  shows "phase_of s' \<in> {Established, Closing}"
proof -
  have "setup_of s' = setup_of s" using assms(1) by (simp add: read_outcome_def)
  then have "mSSLConfigured s'" using assms(2) by (simp add: setup_of_eq)
  then show ?thesis
    using assms by (cases q) (auto simp: read_outcome_def phase_of_def)
qed

lemma configure_phase:
  assumes "world_ok P segs data" "ce_ok P segs data s" "SSLConfigure P s = Some (r, s')"
  shows "if r = 0 then phase_of s' = Handshaking else phase_of s' = phase_of s"
  using SSLConfigure_ok [of P segs data s] assms
  by (auto simp: world_ok_def ce_ok_def engine_ok_def phase_of_def split: if_splits)

lemma terminate_phase:
  assumes "world_ok P segs data" "ce_ok P segs data s" "TerminateStart P s = Some s'"
  shows "phase_of s' = (if phase_of s = Established then Closing else phase_of s)"
proof (cases "mSSLConfigured s \<and> mEstablished s")
  case True
  then obtain s1 m where s1: "close_notify P s = Some (s1\<lparr>mbed := m\<rparr>)" "engine_ok P segs data s1" "core s1 = core s"
    using close_notify_ok [of P segs data s] assms by (auto simp: world_ok_def ce_ok_def)
  have "mInetPConnectionEnd s1 \<noteq> None" "mSSLConfigured s1" using s1(2) by (simp_all add: engine_ok_def)
  then show ?thesis
    using True assms(2,3) s1(1) by (auto simp: TerminateStart_def phase_of_def ce_ok_def)
next
  case False
  then show ?thesis
    using assms(2,3) by (auto simp: TerminateStart_def ce_ok_inet phase_of_def)
qed

lemma put_phase:
  assumes "world_ok P segs data" "ce_ok P segs data s" "PutBytesStart P s = Some s'"
  shows "phase_of s' \<in> phase_next qPutBytesStart (phase_of s)"
proof (cases "mSSLConfigured s \<and> \<not> mClosing s \<and> mEstablished s")
  case False
  then show ?thesis
    using assms(2,3) by (auto simp: PutBytesStart_def ce_ok_client ce_ok_inet phase_of_def split: if_splits)
next
  case True
  obtain buf b where buf: "Getn (bufs P) (client_put s)
      (GetSize (bufs P) (client_put s) - Position (bufs P) (client_put s)) = (buf, b)" by fastforce
  have eng: "engine_ok P segs data (s\<lparr>client_put := b\<rparr>)" "buffer_list (bufs P) segs data" "platform_ok P"
    using assms(1,2) True by (simp_all add: ce_ok_def world_ok_def)
  obtain r m s2 where run: "run (ssl_write P buf (mbed s)) P (s\<lparr>client_put := b\<rparr>) = Some ((r, m), s2)"
    "engine_ok P segs data s2" "core s2 = core (s\<lparr>client_put := b\<rparr>)"
    using run_ok [OF eng(2,3,1) returns_True, of "ssl_write P buf (mbed s)"] by auto
  have phase: "phase_of s2 = Established" using phase_of_core [OF run(3)] True by (simp add: phase_of_def)
  show ?thesis
  proof (cases "r \<ge> 0")
    case r: True
    then show ?thesis
      using True run(1) buf assms(3) phase client_ok [of P segs data] run(2)
      by (auto simp: PutBytesStart_def phase_of_def Let_def split: if_splits)
  next
    case False
    let ?s3 = "s2\<lparr>mbed := m, mEstablished := False\<rparr>"
    obtain s4 m' where s4: "session_reset P ?s3 = Some (s4\<lparr>mbed := m'\<rparr>)" "engine_ok P segs data s4"
      "core s4 = core ?s3"
      using session_reset_ok [OF eng(2,3), of ?s3] run(2) by auto
    have "phase_of s4 = Handshaking"
      using phase_of_core [OF s4(3)] phase by (auto simp: phase_of_def split: if_splits)
    then have "phase_of s' = Handshaking"
      using True run(1) buf assms(3) s4(1) client_ok [OF s4(2)] client_ok [of P segs data "s4\<lparr>mbed := m'\<rparr>"] s4(2) False
      by (auto simp: PutBytesStart_def)
    then show ?thesis using True by (simp add: phase_of_def)
  qed
qed

lemma start_read_phase:
  assumes "world_ok P segs data" "ce_ok P segs data s" "mSSLConfigured s" "mEstablished s"
    and "buf_valid (bufs P) segs data (client_get s)"
    and "threshold_ok P t (length (buf_unread (bufs P) segs data (client_get s)))"
    and "DoSSLRead P t (s\<lparr>mSSLReadBufferSize := n, mSSLReadBuffer := new_ptr P n, mSSLReadCount := 0\<rparr>) = Some s'"
    and "n = GetSize (bufs P) (client_get s) - Position (bufs P) (client_get s)"
  shows "phase_of s' \<in> {Established, Closing}"
proof -
  obtain q where "read_outcome P segs data t
      (s\<lparr>mSSLReadBufferSize := n, mSSLReadBuffer := new_ptr P n, mSSLReadCount := 0\<rparr>) q s'"
    using start_read_outcome [OF assms(1-6)] assms(7,8) by auto
  moreover have "\<not> mClosing s" using assms(2-4) by (auto simp: ce_ok_def)
  ultimately show ?thesis using read_phase assms(3,4) by fastforce
qed

lemma get_phase:
  assumes "world_ok P segs data" "ce_ok P segs data s" "admissible P segs data qGetBytesStart s"
    and "GetBytesStart P s = Some s'"
  shows "phase_of s' \<in> phase_next qGetBytesStart (phase_of s)"
proof (cases "mSSLConfigured s \<and> mEstablished s \<and> mSSLReadBuffer s = None")
  case True
  then have adm: "buf_valid (bufs P) segs data (client_get s)"
    "threshold_ok P 0 (length (buf_unread (bufs P) segs data (client_get s)))"
    using assms(3) by (simp_all add: admissible_def threshold_ok_def)
  have "\<not> mClosing s" using True assms(2) by (auto simp: ce_ok_def)
  then show ?thesis
    using start_read_phase [OF assms(1,2) _ _ adm] True assms(4)
    by (simp add: GetBytesStart_def Let_def phase_of_def)
next
  case False
  then show ?thesis
    using ce_ok_client [OF assms(2)] ce_ok_inet [OF assms(2)] assms(4)
    by (auto simp: GetBytesStart_def split: if_splits)
qed

lemma get_immediate_phase:
  assumes "world_ok P segs data" "ce_ok P segs data s" "admissible P segs data (qGetBytesImmediateStart t) s"
    and "GetBytesImmediateStart P t s = Some s'"
  shows "phase_of s' \<in> phase_next (qGetBytesImmediateStart t) (phase_of s)"
proof (cases "mSSLConfigured s \<and> mEstablished s \<and> mSSLReadBuffer s = None")
  case True
  then have adm: "buf_valid (bufs P) segs data (client_get s)"
    "threshold_ok P t (length (buf_unread (bufs P) segs data (client_get s)))"
    using assms(3) by (simp_all add: admissible_def)
  have "\<not> mClosing s" using True assms(2) by (auto simp: ce_ok_def)
  then show ?thesis
    using start_read_phase [OF assms(1,2) _ _ adm] True assms(4)
    by (simp add: GetBytesImmediateStart_def Let_def phase_of_def)
next
  case False
  then show ?thesis
    using ce_ok_client [OF assms(2)] ce_ok_inet [OF assms(2)] assms(4)
    by (auto simp: GetBytesImmediateStart_def split: if_splits)
qed

lemma timer_phase:
  assumes "world_ok P segs data" "ce_ok P segs data s" "HandleTimerTick P s = Some s'"
  shows "phase_of s' \<in> phase_next qHandleTimerTick (phase_of s)"
proof (cases "mSSLConfigured s \<and> \<not> mEstablished s \<and> \<not> mClosing s \<and> mSSLTimerFin s \<noteq> 0
              \<and> \<not> mSSLTimerFired s \<and> clock_ms s \<ge> mSSLTimerFin s")
  case True
  then obtain s1 where s1: "DoSSLHandshake P s = Some s1" "ce_ok P segs data s1"
    using handshake_ce_ok [OF assms(1,2)] by blast
  then have "phase_of s1 \<in> after_handshake (phase_of s)"
    using handshake_phase [OF assms(1,2)] True by blast
  moreover have "phase_of s = Handshaking" using True by (simp add: phase_of_def)
  ultimately show ?thesis
    using True s1 assms(3) by (auto simp: HandleTimerTick_def Let_def ce_ok_inet)
next
  case False
  then have "s' = s\<lparr>trace := trace s @ [Inet iHandleTimerTick]\<rparr>"
    using assms(3) ce_ok_inet [OF assms(2)] by (auto simp: HandleTimerTick_def Let_def split: if_splits)
  then show ?thesis by simp
qed

lemma message_phase:
  assumes "world_ok P segs data" "ce_ok P segs data s" "admissible P segs data (qHandleRequest a b c t) s"
    and "HandleRequest P a b c t s = Some s'"
  shows "phase_of s' \<in> after_handshake (phase_of s)"
proof (cases "t AND kMsgType_ReservedMask P = kAsyncReadMessageType")
  case False
  then have "phase_of s' = phase_of s" using assms(2,4) by (auto simp: HandleRequest_def ce_ok_inet)
  then show ?thesis by (cases "phase_of s") simp_all
next
  case True
  then have conf: "mSSLConfigured s" using assms(3) by (simp add: admissible_def)
  let ?th = "case client_threshold s of None \<Rightarrow> 0 | Some t \<Rightarrow> t"
  obtain cb where cb: "mInetCECallBack s = Some cb" using assms(2) by (auto simp: ce_ok_def)
  consider "mClosing s" | "\<not> mClosing s" "\<not> mEstablished s" | "\<not> mClosing s" "mEstablished s" "mSSLReadBuffer s = None"
    | "\<not> mClosing s" "mEstablished s" "mSSLReadBuffer s \<noteq> None" by blast
  then show ?thesis
  proof cases
    case 2
    then obtain s1 where s1: "DoSSLHandshake P s = Some s1" "ce_ok P segs data s1"
      using handshake_ce_ok [OF assms(1,2) conf] by blast
    then have "phase_of s1 \<in> after_handshake (phase_of s)"
      using handshake_phase [OF assms(1,2) conf] 2 by blast
    then show ?thesis using 2 s1 True assms(4) by (auto simp: HandleRequest_def ce_ok_client)
  next
    case 4
    then have "read_under_way P segs data s" "threshold_ok P ?th (mSSLReadBufferSize s)" "engine_ok P segs data s"
      using assms(2) conf by (simp_all add: ce_ok_def reading_ok_def)
    then obtain s1 q where s1: "DoSSLRead P ?th s = Some s1" "read_outcome P segs data ?th s q s1"
      using DoSSLRead_ok [of P segs data s ?th] assms(1) by (auto simp: world_ok_def)
    then have "phase_of s1 \<in> {Established, Closing}" using read_phase conf 4 by blast
    moreover have "phase_of s = Established" using 4 conf by (simp add: phase_of_def)
    moreover have "client (cHandleRequest a b c t) s1 = Some s'"
      using 4 s1(1) True assms(4) cb by (simp add: HandleRequest_def Let_def)
    ultimately show ?thesis using client_phase by fastforce
  qed (use True assms(2,4) conf in \<open>auto simp: HandleRequest_def ce_ok_client phase_of_def\<close>)
qed

lemma option_phase:
  assumes "world_ok P segs data" "ce_ok P segs data s"
    and "ProcessOptionStart P opt label opcode s = Some (r, opt', s')"
  shows "phase_of s' \<in> phase_next (qProcessOptionStart opt label opcode) (phase_of s)"
proof (cases "label = kSSLEnableLabel \<and> enabled opt \<and> mUpgradable s")
  case True
  let ?s = "s\<lparr>mSSLEnabled := enabled opt\<rparr>"
  have ok: "ce_ok P segs data ?s" using assms(2) by simp
  obtain r1 s1 where c: "SSLConfigure P ?s = Some (r1, s1)" "ce_ok P segs data s1"
    "r1 = 0 \<longrightarrow> mSSLConfigured s1 \<and> \<not> mClosing s1"
    using configure_ce_ok [OF assms(1) ok] by blast
  have phase1: "if r1 = 0 then phase_of s1 = Handshaking else phase_of s1 = phase_of s"
    using configure_phase [OF assms(1) ok c(1)] by simp
  show ?thesis
  proof (cases "r1 = 0")
    case zero: True
    then obtain s2 where "DoSSLHandshake P s1 = Some s2" using handshake_ce_ok [OF assms(1) c(2)] c(3) by blast
    moreover from this have "phase_of s2 \<in> after_handshake Handshaking"
      using handshake_phase [OF assms(1) c(2)] c(3) zero phase1 by metis
    ultimately show ?thesis
      using True zero c(1) assms(3) by (auto simp: ProcessOptionStart_def Let_def)
  next
    case False
    then show ?thesis
      using True c(1) assms(3) phase1 by (auto simp: ProcessOptionStart_def Let_def)
  qed
next
  case False
  then have "phase_of s' = phase_of s"
    using assms(3) ce_ok_inet [OF assms(2)]
    by (auto simp: ProcessOptionStart_def Let_def option_hostname_def bind_eq_Some_conv
        split: if_splits prod.splits option.splits)
  then show ?thesis by simp
qed

lemma connect_phase:
  assumes "world_ok P segs data" "ce_ok P segs data s" "ConnectStart P s = Some s'"
  shows "phase_of s' \<in> {phase_of s, Handshaking}"
proof (cases "mSSLEnabled s")
  case False
  then show ?thesis using assms(2,3) by (auto simp: ConnectStart_def ce_ok_inet)
next
  case True
  obtain r s1 where c: "SSLConfigure P s = Some (r, s1)" "ce_ok P segs data s1"
    using configure_ce_ok [OF assms(1,2)] by blast
  then show ?thesis
    using True assms(3) configure_phase [OF assms(1,2) c(1)]
    by (auto simp: ConnectStart_def ce_ok_inet ce_ok_client split: if_splits)
qed

lemma connect_complete_phase:
  assumes "world_ok P segs data" "ce_ok P segs data s" "admissible P segs data (aConnectComplete r) s"
    and "ConnectCompleteCB P r s = Some s'"
  shows "phase_of s' \<in> phase_next (aConnectComplete r) (phase_of s)"
proof (cases "mSSLEnabled s \<and> r = 0")
  case True
  then have "mSSLConfigured s" "\<not> mClosing s" "DoSSLHandshake P s = Some s'"
    using assms(3,4) by (simp_all add: admissible_def ConnectCompleteCB_def)
  then show ?thesis using handshake_phase [OF assms(1,2)] True by simp
next
  case False
  then have "phase_of s' = phase_of s"
    using assms(4) by (auto simp: ConnectCompleteCB_def client_def split: option.splits if_splits)
  then show ?thesis by (cases "phase_of s") simp_all
qed

section \<open>The refinement\<close>

lemma put_complete_phase:
  assumes "world_ok P segs data" "ce_ok P segs data s" "handle P (aPutComplete r n) s = Some s'"
  shows "phase_of s' = phase_of s"
proof (cases "mSSLConfigured s")
  case True
  then show ?thesis
    using put_complete_core [OF assms(1,2), of r n] phase_of_core assms(3) by auto
next
  case False
  then show ?thesis
    using assms(2,3) by (auto simp: PutCompleteCB_def PutCompleteCB_with_def ce_ok_client)
qed

lemma get_complete_phase:
  assumes "world_ok P segs data" "ce_ok P segs data s" "handle P (aGetComplete r bs) s = Some s'"
  shows "phase_of s' = phase_of s"
proof (cases "mSSLConfigured s")
  case True
  then show ?thesis
    using get_complete_core [OF assms(1,2), of r bs] phase_of_core assms(3) by auto
next
  case False
  then show ?thesis
    using assms(2,3) by (auto simp: GetCompleteCB_def ce_ok_client)
qed

lemma step_refines:
  assumes "world_ok P segs data" "ce_ok P segs data s" "admissible P segs data q s" "handle P q s = Some s'"
  shows "phase_of s' \<in> phase_next q (phase_of s)"
proof (cases q)
  case (Handed r)
  then show ?thesis using assms(2,4) by (cases r) (auto simp: pass_defs ce_ok_inet)
next
  case (Told c)
  then show ?thesis using assms(2,4) by (cases c) (auto simp: pass_defs ce_ok_client)
next
  case (aPutComplete r n)
  then show ?thesis using put_complete_phase [OF assms(1,2), of r n s'] assms(4) by simp
next
  case (aGetComplete r bs)
  then show ?thesis using get_complete_phase [OF assms(1,2), of r bs s'] assms(4) by simp
next
  case qOpenStart
  then show ?thesis using assms(4) by (auto simp: OpenStart_def inet_def phase_of_def split: option.splits)
next
  case qCloseStart
  then show ?thesis
    using assms(4) ce_ok_inet [OF assms(2)] by (auto simp: CloseStart_def SSLUnconfigure_def phase_of_def split: if_splits)
next
  case (qProcessOptionStart opt label opcode)
  then obtain r opt' where "ProcessOptionStart P opt label opcode s = Some (r, opt', s')"
    using assms(4) by auto
  then show ?thesis using option_phase [OF assms(1,2)] qProcessOptionStart by blast
next
  case qConnectStart
  then show ?thesis using connect_phase [OF assms(1,2)] assms(4) by simp
next
  case qTerminateStart
  then show ?thesis using terminate_phase [OF assms(1,2)] assms(4) by simp
next
  case qPutBytesStart
  then show ?thesis using put_phase [OF assms(1,2)] assms(4) by simp
next
  case qGetBytesStart
  then show ?thesis using get_phase [OF assms(1,2)] assms(3,4) by simp
next
  case (qGetBytesImmediateStart t)
  then show ?thesis using get_immediate_phase [OF assms(1,2)] assms(3,4) by simp
next
  case qHandleTimerTick
  then show ?thesis using timer_phase [OF assms(1,2)] assms(4) by simp
next
  case (qHandleRequest a b c t)
  then show ?thesis using message_phase [OF assms(1,2)] assms(3,4) by simp
next
  case (aConnectComplete r)
  then show ?thesis using connect_complete_phase [OF assms(1,2)] assms(3,4) by simp
qed (use assms(2,4) in \<open>auto simp: ce_ok_inet ce_ok_client PutFramedBytesStart_def KillPutStart_def
       GetFramedBytesStart_def KillGetStart_def split: if_splits\<close>)

text \<open>
  C2. The connection end refines the specification of its phases: from a reachable state,
  every sequence of admissible stimuli is handled and leads to a phase the specification
  allows; so a session is established only out of a handshake, and once closing it takes no
  more data until it is opened, closed or connected again.
\<close>

theorem phases_refined:
  assumes "world_ok P segs data" "reachable P segs data s" "all_admissible P segs data qs s"
  shows "\<exists>s'. handle_all P qs s = Some s' \<and> phase_of s' \<in> phase_runs qs (phase_of s)"
  using assms(2,3)
proof (induction qs arbitrary: s)
  case Nil
  then show ?case by simp
next
  case (Cons q qs)
  then obtain s1 where s1: "handle P q s = Some s1" "all_admissible P segs data qs s1" "admissible P segs data q s"
    by (auto split: option.splits)
  have "phase_of s1 \<in> phase_next q (phase_of s)"
    by (rule step_refines [OF assms(1) reachable_ok [OF assms(1) Cons.prems(1)] s1(3,1)])
  moreover have "reachable P segs data s1" by (rule reachable.handled [OF Cons.prems(1) s1(3,1)])
  ultimately show ?case using Cons.IH [of s1] s1(1,2) by fastforce
qed

theorem phases_refined_witness:
  "\<exists>s'. handle_all demo_platform [aPutComplete 0 2, aGetComplete 0 [7, 8], qTerminateStart] handshaking_demo = Some s'
     \<and> phase_of s' = Handshaking"
proof -
  have adm: "all_admissible demo_platform blocks (\<lambda>g. g) [aPutComplete 0 2, aGetComplete 0 [7, 8], qTerminateStart] handshaking_demo"
    by (rule all_admissible_free [OF demo_world_ok handshaking_reachable]) (auto simp: admissible_def)
  have "phase_of handshaking_demo = Handshaking" by (simp add: phase_of_def handshaking_demo_def)
  then show ?thesis
    using phases_refined [OF demo_world_ok handshaking_reachable adm] by (simp del: handle_all.simps)
qed

end
