(* ===== verification/NS_Runtime.thy ===== *)
theory NS_Runtime
  imports Task_Bindings Calendar
begin

text \<open>
  What the NewtonScript bindings of \<^verbatim>\<open>PMbedTLS.cpp\<close> stand on: references to NewtonScript
  objects, the calls of mbed TLS they make, the state they run in, and computations that
  return, throw a NewtonOS exception or have no defined meaning in C++. The NewtonScript
  scripts and mbed TLS themselves are the fields of the record \<open>env\<close>.
\<close>

section \<open>References and objects\<close>

text \<open>A \<^verbatim>\<open>Ref\<close>: an immediate value, a symbol or a pointer to an object of the heap.\<close>

datatype nsref = NILREF | TRUEREF | Integer int | Symbol string | Obj nat

text \<open>\<^verbatim>\<open>MAKEINT\<close>: an integer has the 30 bits a \<^verbatim>\<open>Ref\<close> leaves beside its tag.\<close>

definition MAKEINT :: "int \<Rightarrow> nsref" where
  "MAKEINT x = Integer ((x + 2 ^ 29) mod 2 ^ 30 - 2 ^ 29)"

definition ISINT :: "nsref \<Rightarrow> bool" where
  "ISINT r = (case r of Integer _ \<Rightarrow> True | _ \<Rightarrow> False)"

definition IsSymbol :: "nsref \<Rightarrow> bool" where
  "IsSymbol r = (case r of Symbol _ \<Rightarrow> True | _ \<Rightarrow> False)"

text \<open>
  A C address: NULL, a block of the C heap, or the data of a NewtonScript object, which a
  binding gets when it is handed a binary that is not a C object.
\<close>

datatype addr = NULL | Block nat | DataOf nsref

text \<open>
  The destructors of C objects; the first is the \<^verbatim>\<open>DisposePtr\<close> of the ROM that
  \<^verbatim>\<open>FreeCObjectBinary\<close> leaves behind.
\<close>

datatype dtor =
    DISPOSE_PTR_PUBLIC_JT
  | kNOPDtor | kEntropyDtor | kCtrDrbgDtor | kPKDtor | kSSLDtor | kSSLCacheDtor
  | kSSLConfigDtor | kSSLSessionDtor | kX509CrtDtor | kX509CrlDtor

text \<open>
  Objects: a binary with its class and bytes, a \<^verbatim>\<open>CObject\<close> binary with the fields \<^verbatim>\<open>ptr\<close>
  and \<^verbatim>\<open>destructor\<close>, an array, and anything else.
\<close>

datatype nsobj =
    Binary string bytes
  | CObjectBin addr dtor
  | Array "nsref list"
  | OtherObject

section \<open>Outcomes\<close>

datatype ns_error =
    kNSErrBadArgs | kNSErrNotAnInteger | kNSErrNotASymbol | kNSErrNotAString
  | kNSErrNotABinaryObject | kNSErrNotAnArrayOrString | kNSErrNotTrueOrNil | kNSErrOutOfBounds

text \<open>
  Exceptions: those of \<^verbatim>\<open>ThrowBadTypeWithFrameData\<close>, of \<^verbatim>\<open>Throw(exMbedTLSException, n)\<close>
  and of \<^verbatim>\<open>ThrowMsg\<close>, \<^verbatim>\<open>OutOfMemory\<close>, and the exceptions of the NewtonScript runtime or of
  a script.
\<close>

datatype exn =
    BadType ns_error nsref
  | exMbedTLSException int
  | Message string
  | OutOfMemoryExn
  | ScriptExn nat

datatype 'a outcome = Returns 'a | Throws exn | Undefined

section \<open>Calls of mbed TLS\<close>

text \<open>
  The calls whose effects stay inside the library, one constructor per function, with the
  values the bindings pass; an enumeration value of its headers is a constructor.
\<close>

datatype authmode = VERIFY_NONE | VERIFY_OPTIONAL | VERIFY_REQUIRED
datatype endpoint = IS_CLIENT | IS_SERVER
datatype transport = TRANSPORT_STREAM | TRANSPORT_DATAGRAM
datatype legacy = LEGACY_NO_RENEGOTIATION | LEGACY_ALLOW_RENEGOTIATION | LEGACY_BREAK_HANDSHAKE
datatype frag_len = MAX_FRAG_LEN_512 | MAX_FRAG_LEN_1024 | MAX_FRAG_LEN_2048 | MAX_FRAG_LEN_4096

datatype ssl_call =
    ssl_init addr
  | ssl_free addr
  | ssl_check_pending addr
  | ssl_close_notify addr
  | ssl_get_alpn_protocol addr
  | ssl_get_bytes_avail addr
  | ssl_get_ciphersuite addr
  | ssl_get_max_frag_len addr
  | ssl_get_peer_cert addr
  | ssl_get_record_expansion addr
  | ssl_get_session addr addr
  | ssl_get_verify_result addr
  | ssl_get_version addr
  | ssl_handshake addr
  | ssl_handshake_step addr
  | ssl_read addr int
  | ssl_renegotiate addr
  | ssl_send_alert_message addr nsref nsref
  | ssl_session_reset addr
  | ssl_set_bio addr
  | ssl_set_client_transport_id addr bytes
  | ssl_set_datagram_packing addr bool
  | ssl_set_hostname addr "bytes option"
  | ssl_set_hs_authmode addr authmode
  | ssl_set_hs_ca_chain addr addr addr
  | ssl_set_hs_own_cert addr addr addr
  | ssl_set_hs_psk addr bytes
  | ssl_set_mtu addr int
  | ssl_set_session addr addr
  | ssl_set_timer_cb addr
  | ssl_setup addr addr
  | ssl_write addr bytes

datatype conf_call =
    config_init addr
  | config_free addr
  | config_defaults addr endpoint transport
  | conf_authmode addr authmode
  | conf_ca_chain addr addr addr
  | conf_endpoint addr endpoint
  | conf_handshake_timeout addr int int
  | conf_legacy_renegotiation addr legacy
  | conf_max_frag_len addr frag_len
  | conf_max_version addr int int
  | conf_min_version addr int int
  | conf_own_cert addr addr addr
  | conf_psk addr bytes bytes
  | conf_renegotiation addr bool
  | conf_renegotiation_enforced addr int
  | conf_rng addr addr
  | conf_session_tickets addr bool
  | conf_sni addr
  | conf_transport addr transport
  | conf_truncated_hmac addr bool
  | conf_verify addr

datatype obj_call =
    entropy_init addr
  | entropy_add_hardclock addr
  | entropy_free addr
  | ctr_drbg_init addr
  | ctr_drbg_free addr
  | ctr_drbg_seed addr addr bytes
  | pk_init addr
  | pk_free addr
  | cache_init addr
  | cache_free addr
  | cache_set_max_entries addr int
  | cache_set_timeout addr int
  | session_init addr
  | session_free addr
  | crt_init addr
  | crt_free addr
  | crt_parse addr bytes
  | crl_init addr
  | crl_free addr

datatype lib_call = SSL ssl_call | Conf conf_call | TLS obj_call

text \<open>
  A call of the library returns, calls back one of the functions that were set, or (on an
  address that is not what it expects) faults. The arguments of a callback are those of its
  C prototype, \<^verbatim>\<open>ctx\<close> first.
\<close>

datatype callback =
    CbSend addr bytes
  | CbRecv addr nat
  | CbSetTimer addr ulong ulong
  | CbGetTimer addr
  | CbSNI addr addr bytes
  | CbVerify addr addr int ulong

datatype cb_reply = Code int | Received int bytes | NoValue | Verified int ulong

datatype 'r lib_io = LibReturns 'r | CallsBack callback "cb_reply \<Rightarrow> 'r lib_io" | LibFaults

text \<open>
  The certificates of a chain as the bindings read them: \<^verbatim>\<open>raw.p\<close> with \<^verbatim>\<open>raw.len\<close>
  (\<open>None\<close> for NULL), the version and the two dates; the texts \<^verbatim>\<open>mbedtls_x509_serial_gets\<close>,
  \<^verbatim>\<open>mbedtls_x509_dn_gets\<close> (issuer, subject) and \<^verbatim>\<open>mbedtls_x509_sig_alg_gets\<close> write, with their
  result.
\<close>

record x509_crt =
  raw :: "bytes option"
  version :: int
  serial_gets :: "int \<times> string"
  issuer_gets :: "int \<times> string"
  subject_gets :: "int \<times> string"
  sig_alg_gets :: "int \<times> string"
  valid_from :: x509_time
  valid_to :: x509_time

section \<open>The state\<close>

text \<open>
  What happened so far: the locking of NewtonScript objects, the C heap, the calls of the
  library with what its callbacks answered, and the calls of scripts.
\<close>

datatype event =
    Locked nsref
  | Unlocked nsref
  | Allocated nat
  | Disposed nat
  | Library lib_call
  | Answered cb_reply
  | Script nsref "nsref list"

text \<open>
  The function references beside an \<^verbatim>\<open>mbedtls_ssl_context\<close> in \<^verbatim>\<open>SSLContextWithCallbacks\<close>
  and beside an \<^verbatim>\<open>mbedtls_ssl_config\<close> in \<^verbatim>\<open>SSLConfigWithCallbacks\<close>.
\<close>

record SSLContextWithCallbacks =
  sendFunction :: nsref
  recvFunction :: nsref
  setTimerFunction :: nsref
  getTimerFunction :: nsref

record SSLConfigWithCallbacks =
  sniFunction :: nsref
  ticketWriteFunction :: nsref
  ticketParseFunction :: nsref
  verifyFunction :: nsref

text \<open>
  \<open>heap\<close> is the NewtonScript heap, \<open>live\<close> the blocks of the C heap in use, \<open>mPointers\<close> the
  contents of the weak array (\<open>None\<close> before \<^verbatim>\<open>New\<close> and after \<^verbatim>\<open>Delete\<close>), \<open>mHandlers\<close> the
  identifiers of the seven event handlers the protocol owns. \<open>inet_name\<close> is the entry of
  the name server for the original inet tool class and \<open>registry\<close> the registered classes
  under the name of the inet tool; \<open>singleton\<close> tells whether the protocol itself is
  registered with the name server.
\<close>

record ns =
  heap :: "nat \<Rightarrow> nsobj option"
  next_obj :: nat
  live :: "nat list"
  next_ptr :: nat
  mPointers :: "nsref list option"
  mHandlers :: "ulong list"
  ssl_refs :: "nat \<Rightarrow> SSLContextWithCallbacks"
  conf_refs :: "nat \<Rightarrow> SSLConfigWithCallbacks"
  history :: "event list"
  inet_name :: "(nat \<times> ulong) option"
  registry :: "nat list"
  singleton :: bool

type_synonym 'a ns_op = "ns \<Rightarrow> 'a outcome \<times> ns"

text \<open>
  The surroundings. What the library answers and what its memory holds depends on all that
  happened before; a script may do anything to the state. The exceptions the runtime throws
  on a wrong argument, the bytes of a new binary and the bytes of a string are its own.
\<close>

record env =
  lib_int :: "event list \<Rightarrow> lib_call \<Rightarrow> int lib_io"
  lib_text :: "event list \<Rightarrow> lib_call \<Rightarrow> string option"
  lib_addr :: "event list \<Rightarrow> lib_call \<Rightarrow> addr"
  lib_read :: "event list \<Rightarrow> addr \<Rightarrow> int \<Rightarrow> (int \<times> bytes) lib_io"
  lib_ulong :: "event list \<Rightarrow> lib_call \<Rightarrow> ulong"
  lib_version :: string
  lib_ciphersuites :: "int list"
  lib_ciphersuite_name :: "int \<Rightarrow> string"
  c_memory :: "event list \<Rightarrow> addr \<Rightarrow> nat \<Rightarrow> byte"
  crt_chain :: "event list \<Rightarrow> addr \<Rightarrow> x509_crt list"
  script :: "nsref \<Rightarrow> nsref list \<Rightarrow> ns \<Rightarrow> nsref outcome \<times> ns"
  ISTRUE :: "nsref \<Rightarrow> bool"
  rint_error :: "nsref \<Rightarrow> exn"
  length_error :: "nsref \<Rightarrow> exn"
  slot_error :: "nsref \<Rightarrow> exn"
  not_binary :: "nsref \<Rightarrow> exn"
  bad_size :: "int \<Rightarrow> exn"
  symbol_data :: "string \<Rightarrow> bytes option"
  cobject_size :: nat
  new_byte :: "event list \<Rightarrow> nat \<Rightarrow> byte"
  string_bytes :: "string \<Rightarrow> bytes"
  MBEDTLS_ERR_SSL_WANT_READ :: int
  MBEDTLS_ERR_SSL_WANT_WRITE :: int
  MBEDTLS_ERR_SSL_ASYNC_IN_PROGRESS :: int
  MBEDTLS_ERR_SSL_CRYPTO_IN_PROGRESS :: int
  MBEDTLS_ERR_SSL_HELLO_VERIFY_REQUIRED :: int
  MBEDTLS_ERR_SSL_PEER_CLOSE_NOTIFY :: int
  MBEDTLS_ERR_X509_FATAL_ERROR :: int
  lookup_result :: "ns \<Rightarrow> int"
  register_name_result :: "ns \<Rightarrow> int"
  register_class_result :: "nat \<Rightarrow> ns \<Rightarrow> int"
  deregister_class_result :: "nat \<Rightarrow> ns \<Rightarrow> int"
  kError_Not_Registered :: int
  own_class :: nat
  lookup_singleton_result :: "ns \<Rightarrow> int"
  protocol_available :: "ns \<Rightarrow> bool"
  register_singleton_result :: "ns \<Rightarrow> int"

end
