(* ===== verification/NS_Objects.thy ===== *)
theory NS_Objects
  imports NS_Runtime
begin

text \<open>
  Computations over the state of the bindings, the operations of the NewtonScript runtime
  the code uses, the four locking macros of \<^verbatim>\<open>PMbedTLS.cpp\<close>, and the discipline they keep:
  every object locked is unlocked, in the reverse order, whether the computation returns or
  throws.
\<close>

section \<open>Computations\<close>

definition return_with :: "'a \<Rightarrow> 'a ns_op" where
  "return_with x s = (Returns x, s)"

definition throw_with :: "exn \<Rightarrow> 'a ns_op" where
  "throw_with e s = (Throws e, s)"

definition undefined_here :: "'a ns_op" where
  "undefined_here s = (Undefined, s)"

definition andthen :: "'a ns_op \<Rightarrow> ('a \<Rightarrow> 'b ns_op) \<Rightarrow> 'b ns_op" where
  "andthen m f s = (case m s of
      (Returns x, s') \<Rightarrow> f x s'
    | (Throws e, s') \<Rightarrow> (Throws e, s')
    | (Undefined, s') \<Rightarrow> (Undefined, s'))"

text \<open>\<^verbatim>\<open>unwind_protect { body } on_unwind { cleanup } end_unwind\<close>: the clean-up runs on both paths.\<close>

definition unwind_protect :: "'a ns_op \<Rightarrow> unit ns_op \<Rightarrow> 'a ns_op" where
  "unwind_protect body cleanup s = (case body s of
      (Undefined, s') \<Rightarrow> (Undefined, s')
    | (r, s') \<Rightarrow> (case cleanup s' of
          (Returns _, s'') \<Rightarrow> (r, s'')
        | (Throws e, s'') \<Rightarrow> (Throws e, s'')
        | (Undefined, s'') \<Rightarrow> (Undefined, s'')))"

definition with_state :: "(ns \<Rightarrow> 'a ns_op) \<Rightarrow> 'a ns_op" where
  "with_state f s = f s s"

definition log_event :: "event \<Rightarrow> ns \<Rightarrow> ns" where
  "log_event e s = s\<lparr>history := history s @ [e]\<rparr>"

text \<open>\<^verbatim>\<open>ThrowBadTypeWithFrameData\<close>.\<close>

definition ThrowBadType :: "ns_error \<Rightarrow> nsref \<Rightarrow> 'a ns_op" where
  "ThrowBadType err r = throw_with (BadType err r)"

section \<open>The C heap\<close>

text \<open>\<^verbatim>\<open>NewPtr\<close> and \<^verbatim>\<open>new\<close> give a block no one else has; running out of memory is not modelled.\<close>

definition NewPtr :: "addr ns_op" where
  "NewPtr s = (Returns (Block (next_ptr s)),
     log_event (Allocated (next_ptr s)) (s\<lparr>next_ptr := Suc (next_ptr s), live := next_ptr s # live s\<rparr>))"

text \<open>\<^verbatim>\<open>DisposePtr\<close> and \<^verbatim>\<open>delete\<close>: nothing for NULL, and no meaning for a block not in use.\<close>

definition DisposePtr :: "addr \<Rightarrow> unit ns_op" where
  "DisposePtr a s = (case a of
      NULL \<Rightarrow> (Returns (), s)
    | Block p \<Rightarrow>
        if p \<in> set (live s) then (Returns (), log_event (Disposed p) (s\<lparr>live := remove1 p (live s)\<rparr>))
        else (Undefined, s)
    | DataOf _ \<Rightarrow> (Undefined, s))"

section \<open>Objects\<close>

definition deref :: "env \<Rightarrow> ns \<Rightarrow> nsref \<Rightarrow> nsobj option" where
  "deref E s r = (case r of
      Obj n \<Rightarrow> heap s n
    | Symbol x \<Rightarrow> map_option (Binary ''symbol'') (symbol_data E x)
    | _ \<Rightarrow> None)"

definition IsBinary :: "env \<Rightarrow> ns \<Rightarrow> nsref \<Rightarrow> bool" where
  "IsBinary E s r = (case deref E s r of
      Some (Binary _ _) \<Rightarrow> True
    | Some (CObjectBin _ _) \<Rightarrow> True
    | _ \<Rightarrow> False)"

definition IsArray :: "env \<Rightarrow> ns \<Rightarrow> nsref \<Rightarrow> bool" where
  "IsArray E s r = (case deref E s r of Some (Array _) \<Rightarrow> True | _ \<Rightarrow> False)"

text \<open>A string is a binary of the class \<^verbatim>\<open>string\<close> or of one of its subclasses.\<close>

definition IsString :: "env \<Rightarrow> ns \<Rightarrow> nsref \<Rightarrow> bool" where
  "IsString E s r = (case deref E s r of
      Some (Binary c _) \<Rightarrow> c = ''string'' \<or> take 7 c = ''string.''
    | _ \<Rightarrow> False)"

definition RINT :: "env \<Rightarrow> nsref \<Rightarrow> int ns_op" where
  "RINT E r = (case r of Integer n \<Rightarrow> return_with n | _ \<Rightarrow> throw_with (rint_error E r))"

definition Length :: "env \<Rightarrow> nsref \<Rightarrow> nat ns_op" where
  "Length E r = with_state (\<lambda>s. case deref E s r of
      Some (Binary _ bs) \<Rightarrow> return_with (length bs)
    | Some (CObjectBin _ _) \<Rightarrow> return_with (cobject_size E)
    | Some (Array rs) \<Rightarrow> return_with (length rs)
    | _ \<Rightarrow> throw_with (length_error E r))"

definition GetArraySlot :: "env \<Rightarrow> nsref \<Rightarrow> nat \<Rightarrow> nsref ns_op" where
  "GetArraySlot E r i = with_state (\<lambda>s. case deref E s r of
      Some (Array rs) \<Rightarrow> if i < length rs then return_with (rs ! i) else throw_with (slot_error E r)
    | _ \<Rightarrow> throw_with (slot_error E r))"

definition new_object :: "nsobj \<Rightarrow> nsref ns_op" where
  "new_object x s = (Returns (Obj (next_obj s)),
     s\<lparr>heap := (heap s)(next_obj s \<mapsto> x), next_obj := Suc (next_obj s)\<rparr>)"

definition AllocateBinary :: "env \<Rightarrow> string \<Rightarrow> int \<Rightarrow> nsref ns_op" where
  "AllocateBinary E c n =
     (if n < 0 then throw_with (bad_size E n)
      else with_state (\<lambda>s. new_object (Binary c (List.map (new_byte E (history s)) [0..<nat n]))))"

definition AllocateArray :: "nat \<Rightarrow> nsref ns_op" where
  "AllocateArray n = new_object (Array (replicate n NILREF))"

definition MakeString :: "env \<Rightarrow> string \<Rightarrow> nsref ns_op" where
  "MakeString E t = new_object (Binary ''string'' (string_bytes E t))"

definition SetArraySlot :: "env \<Rightarrow> nsref \<Rightarrow> nat \<Rightarrow> nsref \<Rightarrow> unit ns_op" where
  "SetArraySlot E r i x s = (case r of
      Obj n \<Rightarrow> (case heap s n of
          Some (Array rs) \<Rightarrow>
            if i < length rs then (Returns (), s\<lparr>heap := (heap s)(n \<mapsto> Array (rs[i := x]))\<rparr>)
            else (Throws (slot_error E r), s)
        | _ \<Rightarrow> (Throws (slot_error E r), s))
    | _ \<Rightarrow> (Throws (slot_error E r), s))"

text \<open>Bytes stored in a binary from its first one, and \<^verbatim>\<open>SetLength\<close>, which cuts or extends it.\<close>

definition store_bytes :: "nsref \<Rightarrow> bytes \<Rightarrow> unit ns_op" where
  "store_bytes r xs s = (case r of
      Obj n \<Rightarrow> (case heap s n of
          Some (Binary c bs) \<Rightarrow>
            if length xs \<le> length bs
            then (Returns (), s\<lparr>heap := (heap s)(n \<mapsto> Binary c (overwrite bs 0 xs))\<rparr>)
            else (Undefined, s)
        | _ \<Rightarrow> (Undefined, s))
    | _ \<Rightarrow> (Undefined, s))"

definition SetLength :: "env \<Rightarrow> nsref \<Rightarrow> nat \<Rightarrow> unit ns_op" where
  "SetLength E r k s = (case r of
      Obj n \<Rightarrow> (case heap s n of
          Some (Binary c bs) \<Rightarrow>
            (Returns (), s\<lparr>heap := (heap s)(n \<mapsto>
               Binary c (take k bs @ List.map (new_byte E (history s)) [length bs..<k]))\<rparr>)
        | _ \<Rightarrow> (Throws (length_error E r), s))
    | _ \<Rightarrow> (Throws (length_error E r), s))"

section \<open>Locking\<close>

text \<open>
  \<^verbatim>\<open>LockedBinaryPtr\<close> gives the \<^verbatim>\<open>ptr\<close> of a C object and the address of the data of any other
  binary.
\<close>

definition LockedBinaryPtr :: "env \<Rightarrow> nsref \<Rightarrow> addr ns_op" where
  "LockedBinaryPtr E r s = (case deref E s r of
      Some (Binary _ _) \<Rightarrow> (Returns (DataOf r), log_event (Locked r) s)
    | Some (CObjectBin p _) \<Rightarrow> (Returns p, log_event (Locked r) s)
    | _ \<Rightarrow> (Throws (not_binary E r), log_event (Locked r) s))"

definition UnlockRefArg :: "nsref \<Rightarrow> unit ns_op" where
  "UnlockRefArg r s = (Returns (), log_event (Unlocked r) s)"

text \<open>The \<open>n\<close> bytes at an address.\<close>

definition read_bytes :: "env \<Rightarrow> ns \<Rightarrow> addr \<Rightarrow> nat \<Rightarrow> bytes" where
  "read_bytes E s a n = (case a of
      DataOf r \<Rightarrow> (case deref E s r of
          Some (Binary _ bs) \<Rightarrow> take n bs
        | _ \<Rightarrow> List.map (c_memory E (history s) a) [0..<n])
    | _ \<Rightarrow> List.map (c_memory E (history s) a) [0..<n])"

definition with_cobject :: "env \<Rightarrow> nsref \<Rightarrow> (addr \<Rightarrow> 'a ns_op) \<Rightarrow> 'a ns_op" where
  "with_cobject E r body = unwind_protect (andthen (LockedBinaryPtr E r) body) (UnlockRefArg r)"

definition with_cobject_opt :: "env \<Rightarrow> nsref \<Rightarrow> (addr \<Rightarrow> 'a ns_op) \<Rightarrow> 'a ns_op" where
  "with_cobject_opt E r body =
     unwind_protect
       (if r = NILREF then body NULL else andthen (LockedBinaryPtr E r) body)
       (if r = NILREF then return_with () else UnlockRefArg r)"

text \<open>
  \<^verbatim>\<open>WITH_LOCKED_BINARY\<close> when the body reads the \<open>n\<close> bytes of the object, its length taken
  before.
\<close>

definition with_locked_bytes :: "env \<Rightarrow> nsref \<Rightarrow> nat \<Rightarrow> (bytes \<Rightarrow> 'a ns_op) \<Rightarrow> 'a ns_op" where
  "with_locked_bytes E r n body =
     with_cobject E r (\<lambda>a. with_state (\<lambda>s. body (read_bytes E s a n)))"

text \<open>
  The characters of a string narrowed to bytes: the target is big-endian, so the low byte of
  a 16-bit character is its second one.
\<close>

fun narrow :: "bytes \<Rightarrow> bytes" where
  "narrow (_ # lo # bs) = lo # narrow bs"
| "narrow _ = []"

lemma length_narrow [simp]: "length (narrow bs) = length bs div 2"
  by (induction bs rule: narrow.induct) simp_all

text \<open>
  \<^verbatim>\<open>WITH_LOCKED_BINARY_MAYBE_STRING\<close>: the body gets the bytes of a binary, or a copy of the
  characters of a string, narrowed, in a block that is disposed of on both paths.
\<close>

definition with_maybe_string :: "env \<Rightarrow> nsref \<Rightarrow> (bytes \<Rightarrow> 'a ns_op) \<Rightarrow> 'a ns_op" where
  "with_maybe_string E r body s =
     (case andthen (Length E r) (\<lambda>n. andthen (LockedBinaryPtr E r) (\<lambda>a. return_with (n, a))) s of
        (Returns (n, a), s1) \<Rightarrow>
          (if IsString E s1 r then
             andthen NewPtr (\<lambda>p.
               unwind_protect (with_state (\<lambda>s2. body (narrow (read_bytes E s2 a n))))
                 (andthen (DisposePtr p) (\<lambda>_. UnlockRefArg r))) s1
           else unwind_protect (with_state (\<lambda>s2. body (read_bytes E s2 a n))) (UnlockRefArg r) s1)
      | (Throws e, s1) \<Rightarrow> unwind_protect (throw_with e) (UnlockRefArg r) s1
      | (Undefined, s1) \<Rightarrow> (Undefined, s1))"

section \<open>The locking discipline\<close>

text \<open>
  The locks still held after some events, innermost first; \<open>None\<close> when an object is unlocked
  that is not the innermost one locked.
\<close>

fun held :: "nsref list \<Rightarrow> event list \<Rightarrow> nsref list option" where
  "held st [] = Some st"
| "held st (Locked r # es) = held (r # st) es"
| "held st (Unlocked r # es) =
     (case st of x # st' \<Rightarrow> if x = r then held st' es else None | [] \<Rightarrow> None)"
| "held st (_ # es) = held st es"

definition nested :: "event list \<Rightarrow> bool" where
  "nested es \<longleftrightarrow> (\<forall>st. held st es = Some st)"

lemma held_append: "held st (xs @ ys) = Option.bind (held st xs) (\<lambda>st'. held st' ys)"
  by (induction st xs rule: held.induct) (auto split: list.splits)

lemma nested_Nil [simp]: "nested []"
  by (simp add: nested_def)

lemma nested_append [intro]: "nested xs \<Longrightarrow> nested ys \<Longrightarrow> nested (xs @ ys)"
  by (simp add: nested_def held_append)

lemma nested_lock: "nested es \<Longrightarrow> nested (Locked r # es @ [Unlocked r])"
  by (simp add: nested_def held_append)

lemma nested_lock_cons: "nested (e # es) \<Longrightarrow> nested ys \<Longrightarrow> nested (e # es @ ys)"
  using nested_append [of "e # es" ys] by simp

text \<open>
  Whatever a computation adds to the history is properly nested, when it returns and when
  it throws.
\<close>

definition keeps_locks :: "'a ns_op \<Rightarrow> bool" where
  "keeps_locks m \<longleftrightarrow> (\<forall>s. fst (m s) \<noteq> Undefined \<longrightarrow>
     (\<exists>es. nested es \<and> history (snd (m s)) = history s @ es))"

named_theorems locks_intros "computations that keep the locking discipline"

lemma keeps_locksI:
  assumes "\<And>s r s'. m s = (r, s') \<Longrightarrow> r \<noteq> Undefined \<Longrightarrow>
    \<exists>es. nested es \<and> history s' = history s @ es"
  shows "keeps_locks m"
  unfolding keeps_locks_def using assms by (metis prod.collapse)

lemma keeps_locksE:
  assumes "keeps_locks m" and "m s = (r, s')" and "r \<noteq> Undefined"
  obtains es where "nested es" and "history s' = history s @ es"
  using assms unfolding keeps_locks_def by (metis fst_conv snd_conv)

lemma keeps_locks_silent:
  assumes "\<And>s. history (snd (m s)) = history s"
  shows "keeps_locks m"
  by (rule keeps_locksI, rule exI [of _ "[]"]) (metis append_Nil2 assms nested_Nil snd_conv)

lemma keeps_locks_log:
  assumes "\<And>s. history (snd (m s)) = history s \<or> history (snd (m s)) = history s @ [e s]"
    and "\<And>s. nested [e s]"
  shows "keeps_locks m"
proof (rule keeps_locksI)
  fix s r s' assume "m s = (r, s')"
  then have "history s' = history s \<or> history s' = history s @ [e s]"
    using assms(1) [of s] by simp
  then show "\<exists>es. nested es \<and> history s' = history s @ es"
    using assms(2) nested_Nil by (metis append_Nil2)
qed

lemma keeps_return [locks_intros]: "keeps_locks (return_with x)"
  by (rule keeps_locks_silent) (simp add: return_with_def)

lemma keeps_throw [locks_intros]: "keeps_locks (throw_with e)"
  by (rule keeps_locks_silent) (simp add: throw_with_def)

lemma keeps_bad_type [locks_intros]: "keeps_locks (ThrowBadType err r)"
  unfolding ThrowBadType_def by (rule keeps_throw)

lemma keeps_undefined [locks_intros]: "keeps_locks undefined_here"
  by (rule keeps_locks_silent) (simp add: undefined_here_def)

lemma keeps_state [locks_intros]: "(\<And>s. keeps_locks (f s)) \<Longrightarrow> keeps_locks (with_state f)"
  by (simp add: keeps_locks_def with_state_def)

lemma keeps_andthen [locks_intros]:
  assumes "keeps_locks m" and "\<And>x. keeps_locks (f x)"
  shows "keeps_locks (andthen m f)"
proof (rule keeps_locksI)
  fix s r s' assume run: "andthen m f s = (r, s')" and r: "r \<noteq> Undefined"
  obtain r1 s1 where m: "m s = (r1, s1)" by fastforce
  show "\<exists>es. nested es \<and> history s' = history s @ es"
  proof (cases r1)
    case (Returns x)
    then have f: "f x s1 = (r, s')" using run m by (simp add: andthen_def)
    obtain es1 where "nested es1" "history s1 = history s @ es1"
      using keeps_locksE [OF assms(1) m] Returns by auto
    moreover obtain es2 where "nested es2" "history s' = history s1 @ es2"
      using keeps_locksE [OF assms(2) f r] by blast
    ultimately show ?thesis by (metis append_assoc nested_append)
  next
    case (Throws e)
    then have "s' = s1" using run m by (simp add: andthen_def)
    then show ?thesis using keeps_locksE [OF assms(1) m] Throws by (metis outcome.distinct(5))
  next
    case Undefined
    then show ?thesis using run m r by (simp add: andthen_def)
  qed
qed

lemma keeps_if [locks_intros]:
  "keeps_locks m \<Longrightarrow> keeps_locks m' \<Longrightarrow> keeps_locks (if b then m else m')"
  by simp

text \<open>A clean-up that itself keeps the discipline, and the unlocking of what was locked.\<close>

lemma keeps_unwind [locks_intros]:
  assumes "keeps_locks m" and "keeps_locks c"
  shows "keeps_locks (unwind_protect m c)"
proof (rule keeps_locksI)
  fix s r s' assume run: "unwind_protect m c s = (r, s')" and r: "r \<noteq> Undefined"
  obtain r1 s1 r2 s2 where m: "m s = (r1, s1)" and c: "c s1 = (r2, s2)" by fastforce
  have "r1 \<noteq> Undefined" "r2 \<noteq> Undefined" "s' = s2"
    using run r m c by (auto simp: unwind_protect_def split: outcome.splits)
  moreover obtain es1 where "nested es1" "history s1 = history s @ es1"
    using keeps_locksE [OF assms(1) m] calculation by blast
  moreover obtain es2 where "nested es2" "history s2 = history s1 @ es2"
    using keeps_locksE [OF assms(2) c] calculation by blast
  ultimately show "\<exists>es. nested es \<and> history s' = history s @ es"
    by (metis append_assoc nested_append)
qed

lemma LockedBinaryPtr_history [simp]:
  "history (snd (LockedBinaryPtr E r s)) = history s @ [Locked r]"
  "fst (LockedBinaryPtr E r s) \<noteq> Undefined"
  by (auto simp: LockedBinaryPtr_def log_event_def split: option.splits nsobj.splits)

lemma keeps_locked [locks_intros]:
  assumes "\<And>a. keeps_locks (body a)"
  shows "keeps_locks (unwind_protect (andthen (LockedBinaryPtr E r) body) (UnlockRefArg r))"
proof (rule keeps_locksI)
  fix s q s'
  assume run: "unwind_protect (andthen (LockedBinaryPtr E r) body) (UnlockRefArg r) s = (q, s')"
    and q: "q \<noteq> Undefined"
  obtain r1 s1 where l: "LockedBinaryPtr E r s = (r1, s1)" by fastforce
  have h1: "history s1 = history s @ [Locked r]" "r1 \<noteq> Undefined"
    using LockedBinaryPtr_history [of E r s] l by simp_all
  obtain r2 s2 where b: "andthen (LockedBinaryPtr E r) body s = (r2, s2)" by fastforce
  have "\<exists>es. nested es \<and> history s2 = history s1 @ es" if "r2 \<noteq> Undefined"
  proof (cases r1)
    case (Returns a)
    then have "body a s1 = (r2, s2)" using b l by (simp add: andthen_def)
    then show ?thesis using keeps_locksE [OF assms] that by metis
  next
    case (Throws e)
    then have "s2 = s1" using b l by (simp add: andthen_def)
    then show ?thesis using nested_Nil by (metis append_Nil2)
  qed (use h1 in simp)
  moreover have "r2 \<noteq> Undefined" "history s' = history s2 @ [Unlocked r]"
    using run q b by (auto simp: unwind_protect_def UnlockRefArg_def log_event_def split: outcome.splits)
  ultimately obtain es where "nested es" "history s' = history s @ Locked r # es @ [Unlocked r]"
    using h1 by auto
  then show "\<exists>es. nested es \<and> history s' = history s @ es" using nested_lock by blast
qed

lemma keeps_cobject [locks_intros]:
  "(\<And>a. keeps_locks (body a)) \<Longrightarrow> keeps_locks (with_cobject E r body)"
  unfolding with_cobject_def by (rule keeps_locked)

lemma keeps_cobject_opt [locks_intros]:
  "(\<And>a. keeps_locks (body a)) \<Longrightarrow> keeps_locks (with_cobject_opt E r body)"
  by (auto simp: with_cobject_opt_def intro!: locks_intros)

lemma keeps_locked_bytes [locks_intros]:
  "(\<And>bs. keeps_locks (body bs)) \<Longrightarrow> keeps_locks (with_locked_bytes E r n body)"
  unfolding with_locked_bytes_def by (intro locks_intros)

lemma nested_silent [simp]: "nested [Allocated p]" "nested [Disposed p]" "nested [Library c]"
    "nested [Answered a]" "nested [Script f xs]"
  by (simp_all add: nested_def)

lemma Length_silent [simp]: "snd (Length E r s) = s" "fst (Length E r s) \<noteq> Undefined"
  by (auto simp: Length_def with_state_def return_with_def throw_with_def split: option.splits nsobj.splits)

lemma keeps_Length [locks_intros]: "keeps_locks (Length E r)"
  by (rule keeps_locks_silent) simp

lemma keeps_RINT [locks_intros]: "keeps_locks (RINT E r)"
  by (auto simp: RINT_def intro: locks_intros split: nsref.split)

lemma keeps_new_object [locks_intros]: "keeps_locks (new_object x)"
  by (rule keeps_locks_silent) (simp add: new_object_def)

lemma keeps_allocate [locks_intros]:
  "keeps_locks (AllocateBinary E c n)" "keeps_locks (AllocateArray k)" "keeps_locks (MakeString E t)"
  by (auto simp: AllocateBinary_def AllocateArray_def MakeString_def intro!: locks_intros)

lemma keeps_slots [locks_intros]:
  "keeps_locks (GetArraySlot E r i)" "keeps_locks (SetArraySlot E r i x)"
  by (auto simp: GetArraySlot_def SetArraySlot_def with_state_def return_with_def throw_with_def
      intro!: keeps_locks_silent split: option.split nsobj.split nsref.split)

lemma keeps_bytes [locks_intros]:
  "keeps_locks (store_bytes r xs)" "keeps_locks (SetLength E r k)"
  by (auto simp: store_bytes_def SetLength_def intro!: keeps_locks_silent
      split: option.split nsobj.split nsref.split)

lemma keeps_NewPtr [locks_intros]: "keeps_locks NewPtr"
  by (rule keeps_locks_log [where e = "\<lambda>s. Allocated (next_ptr s)"])
    (simp_all add: NewPtr_def log_event_def)

lemma DisposePtr_history:
  "history (snd (DisposePtr a s)) = history s \<or>
   history (snd (DisposePtr a s)) = history s @ [Disposed (case a of Block p \<Rightarrow> p | _ \<Rightarrow> 0)]"
  by (auto simp: DisposePtr_def log_event_def split: addr.split)

lemma keeps_DisposePtr [locks_intros]: "keeps_locks (DisposePtr a)"
  by (rule keeps_locks_log [OF DisposePtr_history]) simp

text \<open>
  The string macro takes the length before it locks, and unlocks even when there is no
  length to take: the discipline needs an object that has one.
\<close>

definition has_length :: "env \<Rightarrow> ns \<Rightarrow> nsref \<Rightarrow> bool" where
  "has_length E s r = (case deref E s r of
      Some (Binary _ _) \<Rightarrow> True
    | Some (CObjectBin _ _) \<Rightarrow> True
    | Some (Array _) \<Rightarrow> True
    | _ \<Rightarrow> False)"

lemma IsBinary_has_length: "IsBinary E s r \<Longrightarrow> has_length E s r"
  by (auto simp: IsBinary_def has_length_def split: option.splits nsobj.splits)

lemma deref_heap: "heap s' = heap s \<Longrightarrow> deref E s' r = deref E s r"
  by (cases r) (simp_all add: deref_def)

lemma LockedBinaryPtr_cases:
  obtains (throws) e where "LockedBinaryPtr E r s = (Throws e, log_event (Locked r) s)"
    | (locked) a where "LockedBinaryPtr E r s = (Returns a, log_event (Locked r) s)"
proof (cases "deref E s r")
  case None then show ?thesis using throws by (simp add: LockedBinaryPtr_def)
next
  case (Some x) then show ?thesis using throws locked by (cases x) (simp_all add: LockedBinaryPtr_def)
qed

lemma has_length_heap: "heap s' = heap s \<Longrightarrow> has_length E s' r = has_length E s r"
  unfolding has_length_def using deref_heap by metis

lemma Length_returns: "has_length E s r \<Longrightarrow> \<exists>n. Length E r s = (Returns n, s)"
  by (auto simp: has_length_def Length_def with_state_def return_with_def
      split: option.splits nsobj.splits)

lemma Length_throws: "\<not> has_length E s r \<Longrightarrow> Length E r s = (Throws (length_error E r), s)"
  by (auto simp: has_length_def Length_def with_state_def throw_with_def
      split: option.splits nsobj.splits)

text \<open>The discipline from one state.\<close>

definition keeps_at :: "ns \<Rightarrow> 'a ns_op \<Rightarrow> bool" where
  "keeps_at s m \<longleftrightarrow> (fst (m s) \<noteq> Undefined \<longrightarrow>
     (\<exists>es. nested es \<and> history (snd (m s)) = history s @ es))"

lemma keeps_locks_iff: "keeps_locks m \<longleftrightarrow> (\<forall>s. keeps_at s m)"
  by (simp add: keeps_locks_def keeps_at_def)

lemma keeps_locks_at: "keeps_locks m \<Longrightarrow> keeps_at s m"
  by (simp add: keeps_locks_iff)

lemma keeps_at_state: "keeps_at s (f s) \<Longrightarrow> keeps_at s (with_state f)"
  by (simp add: keeps_at_def with_state_def)

text \<open>A locked section, given what runs between the locking and the unlocking.\<close>

lemma locked_section:
  assumes start: "history s1 = history s @ Locked r # pre"
    and body: "nested es" "history s2 = history s1 @ es"
    and stop: "history s' = history s2 @ post @ [Unlocked r]"
    and silent: "nested pre" "nested post"
  shows "\<exists>es. nested es \<and> history s' = history s @ es"
proof -
  have "nested (Locked r # (pre @ es @ post) @ [Unlocked r])"
    using nested_lock nested_append body(1) silent by blast
  then show ?thesis using assms by (intro exI conjI) auto
qed

lemma cobject_at:
  assumes "\<And>a s1. heap s1 = heap s \<Longrightarrow> keeps_at s1 (body a)"
  shows "keeps_at s (with_cobject E r body)"
  unfolding keeps_at_def
proof
  assume def: "fst (with_cobject E r body s) \<noteq> Undefined"
  obtain r1 s1 where l: "LockedBinaryPtr E r s = (r1, s1)"
    and s1: "s1 = log_event (Locked r) s" "r1 \<noteq> Undefined"
    by (cases rule: LockedBinaryPtr_cases [of E r s]) auto
  obtain r2 s2 where b: "andthen (LockedBinaryPtr E r) body s = (r2, s2)" by fastforce
  have "\<exists>es. nested es \<and> history s2 = history s1 @ es" if "r2 \<noteq> Undefined"
  proof (cases r1)
    case (Returns a)
    then have "body a s1 = (r2, s2)" using b l by (simp add: andthen_def)
    moreover have "keeps_at s1 (body a)" using assms s1 by (simp add: log_event_def)
    ultimately show ?thesis using that by (simp add: keeps_at_def)
  next
    case (Throws e)
    then have "s2 = s1" using b l by (simp add: andthen_def)
    then show ?thesis using nested_Nil by (metis append_Nil2)
  qed (use s1 in simp)
  moreover have "r2 \<noteq> Undefined"
    and "snd (with_cobject E r body s) = log_event (Unlocked r) s2"
    using def b by (auto simp: with_cobject_def unwind_protect_def UnlockRefArg_def split: outcome.splits)
  ultimately obtain es where "nested es" "history s2 = history s1 @ es" by blast
  then show "\<exists>es. nested es \<and> history (snd (with_cobject E r body s)) = history s @ es"
    using locked_section [of s1 s r "[]" es s2 "log_event (Unlocked r) s2" "[]"] s1
      \<open>snd (with_cobject E r body s) = log_event (Unlocked r) s2\<close>
    by (simp add: log_event_def)
qed

text \<open>A string is copied into a block, which the body of the macro is given and which is disposed of
  after it.\<close>

lemma copied_string:
  assumes body: "\<And>bs. keeps_locks (body bs)" and run: "Length E r s = (Returns n, s)"
    "LockedBinaryPtr E r s = (Returns a, s1)" "IsString E s1 r"
    and def: "fst (with_maybe_string E r body s) \<noteq> Undefined"
  shows "\<exists>es s3. nested es \<and> history s3 = history s1 @ es \<and>
    snd (with_maybe_string E r body s) = log_event (Unlocked r) s3"
proof -
  have reads: "keeps_locks (with_state (\<lambda>s2. body (f s2)))" for f :: "ns \<Rightarrow> bytes"
    using body by (rule keeps_state)
  note macro = run with_maybe_string_def andthen_def unwind_protect_def return_with_def UnlockRefArg_def
  define m where "m = with_state (\<lambda>s2. body (narrow (read_bytes E s2 a n)))"
  define p where "p = next_ptr s1"
  define s2 where "s2 = snd (NewPtr s1)"
  have new: "NewPtr s1 = (Returns (Block p), s2)" "history s2 = history s1 @ [Allocated p]"
    by (simp_all add: NewPtr_def s2_def p_def log_event_def)
  obtain r3 s3 where m: "m s2 = (r3, s3)" by fastforce
  obtain r4 s4 where d: "DisposePtr (Block p) s3 = (r4, s4)" by fastforce
  have r: "r3 \<noteq> Undefined" "r4 = Returns ()"
    and last: "snd (with_maybe_string E r body s) = log_event (Unlocked r) s4"
    using def d m by (auto simp: macro new m_def [symmetric] DisposePtr_def split: outcome.splits if_splits)
  have "history s4 = history s3 @ [Disposed p]"
    using d r by (auto simp: DisposePtr_def log_event_def split: if_splits)
  moreover obtain es where es: "nested es" "history s3 = history s2 @ es"
    using keeps_locksE [OF reads m [unfolded m_def] r(1)] by blast
  ultimately have "history s4 = history s1 @ [Allocated p] @ es @ [Disposed p]"
    using new(2) by simp
  moreover have "nested ([Allocated p] @ es @ [Disposed p])"
    by (intro nested_append es(1)) simp_all
  ultimately show ?thesis using last by blast
qed

lemma uncopied_bytes:
  assumes body: "\<And>bs. keeps_locks (body bs)" and run: "Length E r s = (Returns n, s)"
    "LockedBinaryPtr E r s = (Returns a, s1)" "\<not> IsString E s1 r"
    and def: "fst (with_maybe_string E r body s) \<noteq> Undefined"
  shows "\<exists>es s3. nested es \<and> history s3 = history s1 @ es \<and>
    snd (with_maybe_string E r body s) = log_event (Unlocked r) s3"
proof -
  have reads: "keeps_locks (with_state (\<lambda>s2. body (f s2)))" for f :: "ns \<Rightarrow> bytes"
    using body by (rule keeps_state)
  obtain r3 s3 where m: "with_state (\<lambda>s2. body (read_bytes E s2 a n)) s1 = (r3, s3)" by fastforce
  have r: "r3 \<noteq> Undefined" and last: "snd (with_maybe_string E r body s) = log_event (Unlocked r) s3"
    using def m by (auto simp: run with_maybe_string_def andthen_def unwind_protect_def return_with_def
        UnlockRefArg_def split: outcome.splits)
  show ?thesis
    using keeps_locksE [OF reads m r] last by blast
qed

lemma maybe_string_at:
  assumes body: "\<And>bs. keeps_locks (body bs)" and len: "has_length E s r"
  shows "keeps_at s (with_maybe_string E r body)"
  unfolding keeps_at_def
proof
  assume def: "fst (with_maybe_string E r body s) \<noteq> Undefined"
  let ?goal = "\<exists>es. nested es \<and> history (snd (with_maybe_string E r body s)) = history s @ es"
  obtain n where n: "Length E r s = (Returns n, s)" using Length_returns [OF len] ..
  define s1 where "s1 = log_event (Locked r) s"
  have h1: "history s1 = history s @ [Locked r]" by (simp add: s1_def log_event_def)
  have bracketed: ?goal if "nested es" "history s3 = history s1 @ es"
      "snd (with_maybe_string E r body s) = log_event (Unlocked r) s3" for es s3
    using locked_section [of s1 s r "[]" es s3 "log_event (Unlocked r) s3" "[]"] h1 that by (simp add: log_event_def)
  consider (throws) e where "LockedBinaryPtr E r s = (Throws e, s1)"
    | (locked) a where "LockedBinaryPtr E r s = (Returns a, s1)"
    unfolding s1_def by (rule LockedBinaryPtr_cases)
  then show ?goal
  proof cases
    case throws
    then have "snd (with_maybe_string E r body s) = log_event (Unlocked r) s1"
      using n by (simp add: with_maybe_string_def andthen_def unwind_protect_def throw_with_def
          UnlockRefArg_def)
    then show ?thesis using bracketed [of "[]" s1] by simp
  next
    case locked
    show ?thesis
    proof (cases "IsString E s1 r")
      case True
      show ?thesis
        using copied_string [OF body n locked True def] bracketed by blast
    next
      case False
      show ?thesis
        using uncopied_bytes [OF body n locked False def] bracketed by blast
    qed
  qed
qed

end
