(* ===== verification/NS_Registry.thy ===== *)
theory NS_Registry
  imports NS_Objects
begin

text \<open>
  The life of the C objects behind \<^verbatim>\<open>CObject\<close> binaries: their destructors, the weak array
  in which \<^verbatim>\<open>DoAllocateCObjectBinary\<close> registers them, \<^verbatim>\<open>FreeCObjectBinary\<close>, and \<^verbatim>\<open>New\<close>
  and \<^verbatim>\<open>Delete\<close> of the protocol; the exchange of the inet tool's class by
  \<^verbatim>\<open>InstallConnectionEnd\<close> and \<^verbatim>\<open>RemoveConnectionEnd\<close>; the singleton of
  \<^verbatim>\<open>PMbedTLSInterface.cpp\<close>.
\<close>

section \<open>Destructors\<close>

text \<open>A call of the library that returns nothing and does not call back.\<close>

definition lib_effect :: "lib_call \<Rightarrow> unit ns_op" where
  "lib_effect c s = (Returns (), log_event (Library c) s)"

definition EntropyDtor :: "addr \<Rightarrow> unit ns_op" where
  "EntropyDtor p = andthen (lib_effect (TLS (entropy_free p))) (\<lambda>_. DisposePtr p)"

definition CtrDrbgDtor :: "addr \<Rightarrow> unit ns_op" where
  "CtrDrbgDtor p = andthen (lib_effect (TLS (ctr_drbg_free p))) (\<lambda>_. DisposePtr p)"

definition PKDtor :: "addr \<Rightarrow> unit ns_op" where
  "PKDtor p = andthen (lib_effect (TLS (pk_free p))) (\<lambda>_. DisposePtr p)"

definition SSLDtor :: "addr \<Rightarrow> unit ns_op" where
  "SSLDtor p = andthen (lib_effect (SSL (ssl_free p))) (\<lambda>_. DisposePtr p)"

definition SSLCacheDtor :: "addr \<Rightarrow> unit ns_op" where
  "SSLCacheDtor p = andthen (lib_effect (TLS (cache_free p))) (\<lambda>_. DisposePtr p)"

definition SSLConfigDtor :: "addr \<Rightarrow> unit ns_op" where
  "SSLConfigDtor p = andthen (lib_effect (Conf (config_free p))) (\<lambda>_. DisposePtr p)"

definition SSLSessionDtor :: "addr \<Rightarrow> unit ns_op" where
  "SSLSessionDtor p = andthen (lib_effect (TLS (session_free p))) (\<lambda>_. DisposePtr p)"

definition X509CrtDtor :: "addr \<Rightarrow> unit ns_op" where
  "X509CrtDtor p = andthen (lib_effect (TLS (crt_free p))) (\<lambda>_. DisposePtr p)"

definition X509CrlDtor :: "addr \<Rightarrow> unit ns_op" where
  "X509CrlDtor p = andthen (lib_effect (TLS (crl_free p))) (\<lambda>_. DisposePtr p)"

definition NOPDtor :: "addr \<Rightarrow> unit ns_op" where
  "NOPDtor p = return_with ()"

text \<open>\<^verbatim>\<open>cobject->destructor(cobject->ptr)\<close>.\<close>

definition run_dtor :: "dtor \<Rightarrow> addr \<Rightarrow> unit ns_op" where
  "run_dtor d p = (case d of
      DISPOSE_PTR_PUBLIC_JT \<Rightarrow> DisposePtr p
    | kNOPDtor \<Rightarrow> NOPDtor p
    | kEntropyDtor \<Rightarrow> EntropyDtor p
    | kCtrDrbgDtor \<Rightarrow> CtrDrbgDtor p
    | kPKDtor \<Rightarrow> PKDtor p
    | kSSLDtor \<Rightarrow> SSLDtor p
    | kSSLCacheDtor \<Rightarrow> SSLCacheDtor p
    | kSSLConfigDtor \<Rightarrow> SSLConfigDtor p
    | kSSLSessionDtor \<Rightarrow> SSLSessionDtor p
    | kX509CrtDtor \<Rightarrow> X509CrtDtor p
    | kX509CrlDtor \<Rightarrow> X509CrlDtor p)"

section \<open>Registration\<close>

definition AllocateCObjectBinary :: "addr \<Rightarrow> dtor \<Rightarrow> nsref ns_op" where
  "AllocateCObjectBinary p d = new_object (CObjectBin p d)"

text \<open>The first free slot of the weak array takes the reference, or a new one at its end.\<close>

fun register_slot :: "nsref \<Rightarrow> nsref list \<Rightarrow> nsref list" where
  "register_slot r [] = [r]"
| "register_slot r (x # xs) = (if x = NILREF then r # xs else x # register_slot r xs)"

definition DoAllocateCObjectBinary :: "addr \<Rightarrow> dtor \<Rightarrow> nsref ns_op" where
  "DoAllocateCObjectBinary p d =
     andthen (AllocateCObjectBinary p d) (\<lambda>r s. case mPointers s of
         None \<Rightarrow> (Undefined, s)
       | Some rs \<Rightarrow> (Returns r, s\<lparr>mPointers := Some (register_slot r rs)\<rparr>))"

text \<open>
  The body of \<^verbatim>\<open>FreeCObjectBinary\<close> between the locking and the unlocking. A binary that is
  not a C object has no \<^verbatim>\<open>CObject\<close> to read.
\<close>

definition free_cobject :: "nsref \<Rightarrow> unit ns_op" where
  "free_cobject r = with_state (\<lambda>s. case r of
      Obj n \<Rightarrow> (case heap s n of
          Some (CObjectBin p d) \<Rightarrow>
            if p \<noteq> NULL
            then andthen (run_dtor d p) (\<lambda>_ s'.
                   (Returns (), s'\<lparr>heap := (heap s')(n \<mapsto> CObjectBin NULL DISPOSE_PTR_PUBLIC_JT)\<rparr>))
            else return_with ()
        | _ \<Rightarrow> undefined_here)
    | _ \<Rightarrow> undefined_here)"

definition FreeCObjectBinary :: "env \<Rightarrow> nsref \<Rightarrow> unit ns_op" where
  "FreeCObjectBinary E r = with_state (\<lambda>s.
     if IsBinary E s r
     then unwind_protect
            (andthen (\<lambda>s'. (Returns (), log_event (Locked r) s')) (\<lambda>_. free_cobject r))
            (UnlockRefArg r)
     else return_with ())"

section \<open>The class of the inet tool\<close>

definition kInetToolClassInfoVersion :: ulong where
  "kInetToolClassInfoVersion = 0"

text \<open>\<^verbatim>\<open>TUNameServer::Lookup\<close> of the saved class: the error and, without one, the class.\<close>

definition NameServer_Lookup :: "env \<Rightarrow> ns \<Rightarrow> int \<times> nat option" where
  "NameServer_Lookup E s = (case inet_name s of
      None \<Rightarrow> (kError_Not_Registered E, None)
    | Some (c, v) \<Rightarrow> (lookup_result E s, if lookup_result E s = noErr then Some c else None))"

definition NameServer_RegisterName :: "env \<Rightarrow> nat \<Rightarrow> ulong \<Rightarrow> ns \<Rightarrow> int \<times> ns" where
  "NameServer_RegisterName E c v s = (let err = register_name_result E s in
     (err, if err = noErr then s\<lparr>inet_name := Some (c, v)\<rparr> else s))"

definition ClassInfoByName :: "ns \<Rightarrow> nat option" where
  "ClassInfoByName s = (case registry s of [] \<Rightarrow> None | c # _ \<Rightarrow> Some c)"

definition class_Register :: "env \<Rightarrow> nat \<Rightarrow> ns \<Rightarrow> int \<times> ns" where
  "class_Register E c s = (let err = register_class_result E c s in
     (err, if err = noErr then s\<lparr>registry := c # registry s\<rparr> else s))"

definition class_DeRegister :: "env \<Rightarrow> nat \<Rightarrow> ns \<Rightarrow> int \<times> ns" where
  "class_DeRegister E c s = (let err = deregister_class_result E c s in
     (err, if err = noErr then s\<lparr>registry := remove1 c (registry s)\<rparr> else s))"

definition InstallConnectionEnd :: "env \<Rightarrow> nsref ns_op" where
  "InstallConnectionEnd E s =
     (if fst (NameServer_Lookup E s) = kError_Not_Registered E then
        (case ClassInfoByName s of
           None \<Rightarrow> (Returns NILREF, s)
         | Some c \<Rightarrow>
             let (err, s1) = class_DeRegister E c s in
             if err \<noteq> noErr then (Returns (MAKEINT err), s1)
             else let (err, s2) = NameServer_RegisterName E c kInetToolClassInfoVersion s1 in
               if err \<noteq> noErr then (Returns (MAKEINT err), s2)
               else let (err, s3) = class_Register E (own_class E) s2 in
                 if err \<noteq> noErr then (Returns (MAKEINT err), s3)
                 else (Returns TRUEREF, s3))
      else (Returns NILREF, s))"

definition RemoveConnectionEnd :: "env \<Rightarrow> nsref ns_op" where
  "RemoveConnectionEnd E s =
     (let (err, saved) = NameServer_Lookup E s in
      if err = kError_Not_Registered E then (Returns NILREF, s)
      else let s1 = s\<lparr>inet_name := None\<rparr> in
        if ClassInfoByName s1 \<noteq> Some (own_class E) then (Returns (MAKEINT (-1)), s1)
        else let (err, s2) = class_DeRegister E (own_class E) s1 in
          if err \<noteq> noErr then (Returns (MAKEINT err), s2)
          else (case saved of
              None \<Rightarrow> (Undefined, s2)
            | Some c \<Rightarrow>
                let (err, s3) = class_Register E c s2 in
                if err \<noteq> noErr then (Returns (MAKEINT err), s3)
                else (Returns TRUEREF, s3)))"

section \<open>New and Delete\<close>

text \<open>
  \<^verbatim>\<open>New\<close> makes the seven event handlers, which register themselves under their identifiers,
  and a weak array of ten slots.
\<close>

definition PMbedTLS_New :: "unit ns_op" where
  "PMbedTLS_New s = (Returns (),
     s\<lparr>mHandlers := List.map fst registered_handlers, mPointers := Some (replicate 10 NILREF)\<rparr>)"

text \<open>The loop of \<^verbatim>\<open>Delete\<close> over the slots of the weak array.\<close>

fun free_slots :: "env \<Rightarrow> nat list \<Rightarrow> unit ns_op" where
  "free_slots E [] s = (Returns (), s)"
| "free_slots E (i # is) s = (case mPointers s of
      None \<Rightarrow> (Undefined, s)
    | Some rs \<Rightarrow>
        if rs ! i = NILREF then free_slots E is s
        else andthen (FreeCObjectBinary E (rs ! i)) (\<lambda>_. free_slots E is) s)"

definition PMbedTLS_Delete :: "env \<Rightarrow> unit ns_op" where
  "PMbedTLS_Delete E = andthen (RemoveConnectionEnd E) (\<lambda>_ s. case mPointers s of
      None \<Rightarrow> (Undefined, s)
    | Some rs \<Rightarrow> andthen (free_slots E [0..<length rs]) (\<lambda>_ s'.
        (Returns (), s'\<lparr>mPointers := None, mHandlers := []\<rparr>)) s)"

section \<open>The singleton\<close>

text \<open>
  \<^verbatim>\<open>PMbedTLSInterface::GetInterfaceSingleton\<close>: true when there is an instance. \<^verbatim>\<open>New\<close> of the
  protocol allocates the instance and runs \<^verbatim>\<open>PMbedTLS::New\<close>.
\<close>

definition GetInterfaceSingleton :: "env \<Rightarrow> bool \<Rightarrow> bool ns_op" where
  "GetInterfaceSingleton E create s =
     (if singleton s then
        (if lookup_singleton_result E s = noErr then (Returns True, s)
         else (Throws (exMbedTLSException (lookup_singleton_result E s)), s))
      else if create then
        (if protocol_available E s then
           andthen PMbedTLS_New (\<lambda>_ s1.
             let err = register_singleton_result E s1 in
             if err = noErr then (Returns True, s1\<lparr>singleton := True\<rparr>)
             else (Throws (exMbedTLSException err), s1)) s
         else (Throws OutOfMemoryExn, s))
      else (Returns False, s))"

definition DeleteInterfaceSingleton :: "env \<Rightarrow> unit ns_op" where
  "DeleteInterfaceSingleton E = andthen (GetInterfaceSingleton E False) (\<lambda>found.
     if found then andthen (PMbedTLS_Delete E) (\<lambda>_ s. (Returns (), s\<lparr>singleton := False\<rparr>))
     else return_with ())"

section \<open>Casts\<close>

text \<open>An error code as a symbol, an integer or an exception.\<close>

definition CastOrThrowError :: "env \<Rightarrow> int \<Rightarrow> nsref ns_op" where
  "CastOrThrowError E err =
     (if err = 0 then return_with (Symbol ''ok'')
      else if err = MBEDTLS_ERR_SSL_WANT_READ E then return_with (Symbol ''want_read'')
      else if err = MBEDTLS_ERR_SSL_WANT_WRITE E then return_with (Symbol ''want_write'')
      else if err = MBEDTLS_ERR_SSL_ASYNC_IN_PROGRESS E then return_with (Symbol ''async_in_progress'')
      else if err = MBEDTLS_ERR_SSL_CRYPTO_IN_PROGRESS E then return_with (Symbol ''crypto_in_progress'')
      else if err = MBEDTLS_ERR_SSL_HELLO_VERIFY_REQUIRED E then return_with (Symbol ''hello_verify_required'')
      else if err = MBEDTLS_ERR_SSL_PEER_CLOSE_NOTIFY E then return_with (Symbol ''peer_close_notify'')
      else if err < 0 then throw_with (exMbedTLSException err)
      else return_with (MAKEINT err))"

definition CastAuthMode :: "nsref \<Rightarrow> authmode ns_op" where
  "CastAuthMode r =
     (if \<not> IsSymbol r then ThrowBadType kNSErrNotASymbol r
      else if r = Symbol ''none'' then return_with VERIFY_NONE
      else if r = Symbol ''optional'' then return_with VERIFY_OPTIONAL
      else if r = Symbol ''required'' then return_with VERIFY_REQUIRED
      else ThrowBadType kNSErrBadArgs r)"

definition CastEndpoint :: "nsref \<Rightarrow> endpoint ns_op" where
  "CastEndpoint r =
     (if \<not> IsSymbol r then ThrowBadType kNSErrNotASymbol r
      else if r = Symbol ''server'' then return_with IS_SERVER
      else if r = Symbol ''client'' then return_with IS_CLIENT
      else ThrowBadType kNSErrBadArgs r)"

definition CastTransport :: "nsref \<Rightarrow> transport ns_op" where
  "CastTransport r =
     (if \<not> IsSymbol r then ThrowBadType kNSErrNotASymbol r
      else if r = Symbol ''stream'' then return_with TRANSPORT_STREAM
      else if r = Symbol ''datagram'' then return_with TRANSPORT_DATAGRAM
      else ThrowBadType kNSErrBadArgs r)"

lemma keeps_lib_effect [locks_intros]: "keeps_locks (lib_effect c)"
  by (rule keeps_locks_log [where e = "\<lambda>_. Library c"]) (simp_all add: lib_effect_def log_event_def)

lemma keeps_dtors [locks_intros]: "keeps_locks (run_dtor d p)"
  by (cases d) (auto simp: run_dtor_def EntropyDtor_def CtrDrbgDtor_def PKDtor_def SSLDtor_def
      SSLCacheDtor_def SSLConfigDtor_def SSLSessionDtor_def X509CrtDtor_def X509CrlDtor_def
      NOPDtor_def intro!: locks_intros)

lemma keeps_DoAllocate [locks_intros]: "keeps_locks (DoAllocateCObjectBinary p d)"
  unfolding DoAllocateCObjectBinary_def AllocateCObjectBinary_def
  by (intro locks_intros keeps_locks_silent) (simp split: option.split)

lemma keeps_casts [locks_intros]:
  "keeps_locks (CastOrThrowError E err)" "keeps_locks (CastAuthMode r)"
  "keeps_locks (CastEndpoint r)" "keeps_locks (CastTransport r)"
  by (simp_all add: CastOrThrowError_def CastAuthMode_def CastEndpoint_def CastTransport_def locks_intros)

end
