(* ===== verification/NS_Callbacks.thy ===== *)
theory NS_Callbacks
  imports NS_Registry
begin

text \<open>
  The functions \<^verbatim>\<open>PMbedTLS.cpp\<close> sets as callbacks of mbed TLS, each of which calls a
  NewtonScript function kept beside the context or the configuration, and the calls of the
  library that run them.
\<close>

section \<open>Scripts\<close>

definition NSCall :: "env \<Rightarrow> nsref \<Rightarrow> nsref list \<Rightarrow> nsref ns_op" where
  "NSCall E f args s = script E f args (log_event (Script f args) s)"

text \<open>\<^verbatim>\<open>(SSLContextWithCallbacks* ) ctx\<close> and \<^verbatim>\<open>(SSLConfigWithCallbacks* ) ctx\<close>: only a block of the C heap is one.\<close>

definition context_of :: "addr \<Rightarrow> SSLContextWithCallbacks ns_op" where
  "context_of a s = (case a of
      Block p \<Rightarrow> (Returns (ssl_refs s p), s)
    | _ \<Rightarrow> (Undefined, s))"

definition config_of :: "addr \<Rightarrow> SSLConfigWithCallbacks ns_op" where
  "config_of a s = (case a of
      Block p \<Rightarrow> (Returns (conf_refs s p), s)
    | _ \<Rightarrow> (Undefined, s))"

section \<open>Callbacks of a context\<close>

definition SSLSendCallback_ns :: "env \<Rightarrow> addr \<Rightarrow> bytes \<Rightarrow> int ns_op" where
  "SSLSendCallback_ns E ctx buf =
     andthen (context_of ctx) (\<lambda>context.
     andthen (AllocateBinary E ''bytes'' (int (length buf))) (\<lambda>buffer.
     andthen (with_cobject E buffer (\<lambda>_. store_bytes buffer buf)) (\<lambda>_.
     andthen (NSCall E (sendFunction context) [buffer]) (\<lambda>result.
       if result = Symbol ''want_write'' then return_with (MBEDTLS_ERR_SSL_WANT_WRITE E)
       else if \<not> ISINT result then ThrowBadType kNSErrNotAnInteger result
       else RINT E result))))"

text \<open>
  The bytes the script gives are copied whatever their number: more than the \<open>len\<close> the
  library asked for run past the end of its buffer.
\<close>

definition SSLRecvCallback_ns :: "env \<Rightarrow> addr \<Rightarrow> nat \<Rightarrow> (int \<times> bytes) ns_op" where
  "SSLRecvCallback_ns E ctx len =
     andthen (context_of ctx) (\<lambda>context.
     andthen (NSCall E (recvFunction context) [MAKEINT (int len)]) (\<lambda>result.
       if result = Symbol ''want_read'' then return_with (MBEDTLS_ERR_SSL_WANT_READ E, [])
       else with_state (\<lambda>s.
         if IsBinary E s result then
           andthen (Length E result) (\<lambda>count.
             with_locked_bytes E result count (\<lambda>bs.
               if count \<le> len then return_with (int count, bs) else undefined_here))
         else if \<not> ISINT result then ThrowBadType kNSErrNotAnInteger result
         else andthen (RINT E result) (\<lambda>n. return_with (n, [])))))"

definition SSLSetTimerCallback_ns :: "env \<Rightarrow> addr \<Rightarrow> ulong \<Rightarrow> ulong \<Rightarrow> unit ns_op" where
  "SSLSetTimerCallback_ns E ctx int_ms fin_ms =
     andthen (context_of ctx) (\<lambda>context.
     andthen (NSCall E (setTimerFunction context) [MAKEINT (uint int_ms), MAKEINT (uint fin_ms)])
       (\<lambda>_. return_with ()))"

definition SSLGetTimerCallback_ns :: "env \<Rightarrow> addr \<Rightarrow> int ns_op" where
  "SSLGetTimerCallback_ns E ctx =
     andthen (context_of ctx) (\<lambda>context.
     andthen (NSCall E (getTimerFunction context) []) (RINT E))"

section \<open>Callbacks of a configuration\<close>

text \<open>The bytes of a host name as the 16-bit characters of a string, with its final 0.\<close>

fun widen :: "bytes \<Rightarrow> bytes" where
  "widen [] = [0, 0]"
| "widen (b # bs) = 0 # b # widen bs"

lemma length_widen: "length (widen bs) = 2 * (length bs + 1)"
  by (induction bs) simp_all

lemma narrow_widen: "narrow (widen bs) = bs @ [0]"
  by (induction bs) simp_all

definition SSLConfSNICallback :: "env \<Rightarrow> addr \<Rightarrow> addr \<Rightarrow> bytes \<Rightarrow> int ns_op" where
  "SSLConfSNICallback E ctx ssl hostname =
     andthen (config_of ctx) (\<lambda>context.
     andthen (DoAllocateCObjectBinary ssl kNOPDtor) (\<lambda>sslBin.
     andthen (AllocateBinary E ''string'' ((int (length hostname) + 1) * 2)) (\<lambda>hostnameBin.
     andthen (with_cobject E hostnameBin (\<lambda>_. store_bytes hostnameBin (widen hostname))) (\<lambda>_.
     andthen (NSCall E (sniFunction context) [sslBin, hostnameBin]) (RINT E)))))"

definition SSLConfVerifyCallback :: "env \<Rightarrow> addr \<Rightarrow> addr \<Rightarrow> int \<Rightarrow> ulong \<Rightarrow> (int \<times> ulong) ns_op" where
  "SSLConfVerifyCallback E ctx crt certificate_depth flags =
     andthen (config_of ctx) (\<lambda>context.
     andthen (DoAllocateCObjectBinary crt kNOPDtor) (\<lambda>certificate.
     andthen (NSCall E (verifyFunction context)
        [certificate, MAKEINT certificate_depth, MAKEINT (uint flags)]) (\<lambda>newFlags.
       if newFlags = Symbol ''fatal'' then return_with (MBEDTLS_ERR_X509_FATAL_ERROR E, flags)
       else andthen (RINT E newFlags) (\<lambda>n. return_with (0, word_of_int n)))))"

section \<open>Calls of the library\<close>

definition answer :: "('a \<Rightarrow> cb_reply) \<Rightarrow> 'a ns_op \<Rightarrow> cb_reply ns_op" where
  "answer f m = andthen m (\<lambda>x s. (Returns (f x), log_event (Answered (f x)) s))"

definition run_callback :: "env \<Rightarrow> callback \<Rightarrow> cb_reply ns_op" where
  "run_callback E c = (case c of
      CbSend ctx buf \<Rightarrow> answer Code (SSLSendCallback_ns E ctx buf)
    | CbRecv ctx len \<Rightarrow> answer (\<lambda>(n, bs). Received n bs) (SSLRecvCallback_ns E ctx len)
    | CbSetTimer ctx i f \<Rightarrow> answer (\<lambda>_. NoValue) (SSLSetTimerCallback_ns E ctx i f)
    | CbGetTimer ctx \<Rightarrow> answer Code (SSLGetTimerCallback_ns E ctx)
    | CbSNI ctx ssl name \<Rightarrow> answer Code (SSLConfSNICallback E ctx ssl name)
    | CbVerify ctx crt depth flags \<Rightarrow>
        answer (\<lambda>(n, fl). Verified n fl) (SSLConfVerifyCallback E ctx crt depth flags))"

text \<open>An exception of a callback leaves the library and goes on to its caller.\<close>

primrec run_io :: "env \<Rightarrow> 'r lib_io \<Rightarrow> 'r ns_op" where
  "run_io E (LibReturns x) = return_with x"
| "run_io E (CallsBack c k) = andthen (run_callback E c) (\<lambda>r. run_io E (k r))"
| "run_io E LibFaults = undefined_here"

definition mbedtls :: "env \<Rightarrow> lib_call \<Rightarrow> int ns_op" where
  "mbedtls E c s = run_io E (lib_int E (history s) c) (log_event (Library c) s)"

definition mbedtls_void :: "env \<Rightarrow> lib_call \<Rightarrow> unit ns_op" where
  "mbedtls_void E c = andthen (mbedtls E c) (\<lambda>_. return_with ())"

definition mbedtls_text :: "env \<Rightarrow> lib_call \<Rightarrow> string option ns_op" where
  "mbedtls_text E c s = (Returns (lib_text E (history s) c), log_event (Library c) s)"

definition mbedtls_addr :: "env \<Rightarrow> lib_call \<Rightarrow> addr ns_op" where
  "mbedtls_addr E c s = (Returns (lib_addr E (history s) c), log_event (Library c) s)"

definition mbedtls_ulong :: "env \<Rightarrow> lib_call \<Rightarrow> ulong ns_op" where
  "mbedtls_ulong E c s = (Returns (lib_ulong E (history s) c), log_event (Library c) s)"

definition mbedtls_read :: "env \<Rightarrow> addr \<Rightarrow> int \<Rightarrow> (int \<times> bytes) ns_op" where
  "mbedtls_read E ctx len s =
     run_io E (lib_read E (history s) ctx len) (log_event (Library (SSL (ssl_read ctx len))) s)"

section \<open>The discipline\<close>

definition scripts_keep_locks :: "env \<Rightarrow> bool" where
  "scripts_keep_locks E \<longleftrightarrow> (\<forall>f args. keeps_locks (script E f args))"

lemma keeps_pre_log:
  assumes keeps: "\<And>h. keeps_locks (g h)" and e: "nested [e]"
  shows "keeps_locks (\<lambda>s. g (history s) (log_event e s))"
proof (rule keeps_locksI)
  fix s r s' assume run: "g (history s) (log_event e s) = (r, s')" and r: "r \<noteq> Undefined"
  obtain es where es: "nested es" "history s' = history (log_event e s) @ es"
    using keeps_locksE [OF keeps run r] .
  then have "history s' = history s @ [e] @ es" by (simp add: log_event_def)
  then show "\<exists>es. nested es \<and> history s' = history s @ es"
    using nested_append [OF e es(1)] by blast
qed

lemma keeps_NSCall: "scripts_keep_locks E \<Longrightarrow> keeps_locks (NSCall E f args)"
  unfolding scripts_keep_locks_def NSCall_def [abs_def] by (rule keeps_pre_log) simp_all

lemma keeps_contexts [locks_intros]: "keeps_locks (context_of a)" "keeps_locks (config_of a)"
  by (auto simp: context_of_def config_of_def intro!: keeps_locks_silent split: addr.split)

lemma keeps_post_log:
  "nested [e] \<Longrightarrow> keeps_locks (\<lambda>s. (Returns x, log_event e s))"
  by (rule keeps_locks_log [where e = "\<lambda>_. e"]) (simp_all add: log_event_def)

lemma keeps_answer: "keeps_locks m \<Longrightarrow> keeps_locks (answer f m)"
  unfolding answer_def by (intro keeps_andthen keeps_post_log) simp_all

lemma keeps_run_callback: "scripts_keep_locks E \<Longrightarrow> keeps_locks (run_callback E c)"
  by (cases c) (auto simp: run_callback_def SSLSendCallback_ns_def SSLRecvCallback_ns_def
      SSLSetTimerCallback_ns_def SSLGetTimerCallback_ns_def SSLConfSNICallback_def
      SSLConfVerifyCallback_def intro!: keeps_answer locks_intros keeps_NSCall)

lemma keeps_run_io: "scripts_keep_locks E \<Longrightarrow> keeps_locks (run_io E io)"
  by (induction io) (auto intro!: locks_intros keeps_run_callback)

lemma keeps_mbedtls: "scripts_keep_locks E \<Longrightarrow> keeps_locks (mbedtls E c)"
  unfolding mbedtls_def [abs_def]
  by (rule keeps_pre_log [where g = "\<lambda>h. run_io E (lib_int E h c)"]) (simp_all add: keeps_run_io)

lemma keeps_mbedtls_read: "scripts_keep_locks E \<Longrightarrow> keeps_locks (mbedtls_read E ctx len)"
  unfolding mbedtls_read_def [abs_def]
  by (rule keeps_pre_log [where g = "\<lambda>h. run_io E (lib_read E h ctx len)"]) (simp_all add: keeps_run_io)

lemma keeps_mbedtls_void: "scripts_keep_locks E \<Longrightarrow> keeps_locks (mbedtls_void E c)"
  unfolding mbedtls_void_def by (intro locks_intros keeps_mbedtls)

lemma keeps_mbedtls_values [locks_intros]:
  "keeps_locks (mbedtls_text E c)" "keeps_locks (mbedtls_addr E c)" "keeps_locks (mbedtls_ulong E c)"
  by (rule keeps_locks_log [where e = "\<lambda>_. Library c"];
      simp add: mbedtls_text_def mbedtls_addr_def mbedtls_ulong_def log_event_def)+

lemmas keeps_calls = keeps_NSCall keeps_mbedtls keeps_mbedtls_void keeps_mbedtls_read

end
