(* ===== verification/NS_SSL.thy ===== *)
theory NS_SSL
  imports NS_Callbacks
begin

text \<open>
  The bindings of \<^verbatim>\<open>PMbedTLS.cpp\<close> on an SSL context: one definition per method, with the
  locking macros, the checks of the arguments, the call of mbed TLS and what the method
  makes of its result.
\<close>

section \<open>Contexts\<close>

definition no_functions :: SSLContextWithCallbacks where
  "no_functions = \<lparr>sendFunction = NILREF, recvFunction = NILREF, setTimerFunction = NILREF,
     getTimerFunction = NILREF\<rparr>"

text \<open>Assignments to the members beside the context; only a block of the C heap has them.\<close>

definition update_context ::
    "addr \<Rightarrow> (SSLContextWithCallbacks \<Rightarrow> SSLContextWithCallbacks) \<Rightarrow> unit ns_op" where
  "update_context a u s = (case a of
      Block p \<Rightarrow> (Returns (), s\<lparr>ssl_refs := (ssl_refs s)(p := u (ssl_refs s p))\<rparr>)
    | _ \<Rightarrow> (Undefined, s))"

definition SSLNew :: "env \<Rightarrow> nsref ns_op" where
  "SSLNew E =
     andthen NewPtr (\<lambda>st.
     andthen (update_context st (\<lambda>_. no_functions)) (\<lambda>_.
     andthen (lib_effect (SSL (ssl_init st))) (\<lambda>_.
       DoAllocateCObjectBinary st kSSLDtor)))"

section \<open>Queries\<close>

definition SSLCheckPending :: "env \<Rightarrow> nsref \<Rightarrow> nsref ns_op" where
  "SSLCheckPending E inSSLBin =
     andthen (with_cobject E inSSLBin (\<lambda>context. mbedtls E (SSL (ssl_check_pending context))))
       (\<lambda>ret. return_with (MAKEINT ret))"

definition SSLCloseNotify :: "env \<Rightarrow> nsref \<Rightarrow> nsref ns_op" where
  "SSLCloseNotify E inSSLBin =
     andthen (with_cobject E inSSLBin (\<lambda>context. mbedtls E (SSL (ssl_close_notify context))))
       (\<lambda>ret. CastOrThrowError E ret)"

definition SSLGetALPNProtocol :: "env \<Rightarrow> nsref \<Rightarrow> nsref ns_op" where
  "SSLGetALPNProtocol E inSSLBin =
     andthen (with_cobject E inSSLBin (\<lambda>context. mbedtls_text E (SSL (ssl_get_alpn_protocol context))))
       (\<lambda>ret. case ret of
           None \<Rightarrow> return_with NILREF
         | Some t \<Rightarrow> MakeString E t)"

definition SSLGetBytesAvail :: "env \<Rightarrow> nsref \<Rightarrow> nsref ns_op" where
  "SSLGetBytesAvail E inSSLBin =
     andthen (with_cobject E inSSLBin (\<lambda>context. mbedtls E (SSL (ssl_get_bytes_avail context))))
       (\<lambda>ret. return_with (MAKEINT ret))"

definition SSLGetCiphersuite :: "env \<Rightarrow> nsref \<Rightarrow> nsref ns_op" where
  "SSLGetCiphersuite E inSSLBin =
     andthen (with_cobject E inSSLBin (\<lambda>context. mbedtls_text E (SSL (ssl_get_ciphersuite context))))
       (\<lambda>ret. case ret of
           None \<Rightarrow> return_with NILREF
         | Some t \<Rightarrow> MakeString E t)"

definition SSLGetMaxFragLen :: "env \<Rightarrow> nsref \<Rightarrow> nsref ns_op" where
  "SSLGetMaxFragLen E inSSLBin =
     andthen (with_cobject E inSSLBin (\<lambda>context. mbedtls E (SSL (ssl_get_max_frag_len context))))
       (\<lambda>ret. return_with (MAKEINT ret))"

text \<open>As written: the call is \<^verbatim>\<open>mbedtls_ssl_get_max_frag_len\<close> here too.\<close>

definition SSLGetMaxOutRecordPayload :: "env \<Rightarrow> nsref \<Rightarrow> nsref ns_op" where
  "SSLGetMaxOutRecordPayload E inSSLBin =
     andthen (with_cobject E inSSLBin (\<lambda>context. mbedtls E (SSL (ssl_get_max_frag_len context))))
       (\<lambda>ret. if ret \<ge> 0 then return_with (MAKEINT ret) else CastOrThrowError E ret)"

definition SSLGetPeerCert :: "env \<Rightarrow> nsref \<Rightarrow> nsref ns_op" where
  "SSLGetPeerCert E inSSLBin =
     andthen (with_cobject E inSSLBin (\<lambda>context. mbedtls_addr E (SSL (ssl_get_peer_cert context))))
       (\<lambda>ret. if ret = NULL then return_with NILREF else DoAllocateCObjectBinary ret kNOPDtor)"

definition SSLGetRecordExpansion :: "env \<Rightarrow> nsref \<Rightarrow> nsref ns_op" where
  "SSLGetRecordExpansion E inSSLBin =
     andthen (with_cobject E inSSLBin (\<lambda>context. mbedtls E (SSL (ssl_get_record_expansion context))))
       (\<lambda>ret. if ret \<ge> 0 then return_with (MAKEINT ret) else CastOrThrowError E ret)"

definition SSLGetSession :: "env \<Rightarrow> nsref \<Rightarrow> nsref ns_op" where
  "SSLGetSession E inSSLBin =
     andthen NewPtr (\<lambda>session.
     andthen (lib_effect (TLS (session_init session))) (\<lambda>_.
     andthen (with_cobject E inSSLBin (\<lambda>context. mbedtls E (SSL (ssl_get_session context session)))) (\<lambda>ret.
       if ret = 0 then DoAllocateCObjectBinary session kSSLSessionDtor
       else andthen (SSLSessionDtor session) (\<lambda>_. CastOrThrowError E ret))))"

definition SSLGetVerifyResult :: "env \<Rightarrow> nsref \<Rightarrow> nsref ns_op" where
  "SSLGetVerifyResult E inSSLBin =
     andthen (with_cobject E inSSLBin (\<lambda>context. mbedtls_ulong E (SSL (ssl_get_verify_result context))))
       (\<lambda>ret. if ret = - 1 then return_with NILREF else return_with (MAKEINT (uint ret)))"

definition SSLGetVersion :: "env \<Rightarrow> nsref \<Rightarrow> nsref ns_op" where
  "SSLGetVersion E inSSLBin =
     andthen (with_cobject E inSSLBin (\<lambda>context. mbedtls_text E (SSL (ssl_get_version context))))
       (\<lambda>ret. case ret of
           None \<Rightarrow> return_with NILREF
         | Some t \<Rightarrow> MakeString E t)"

section \<open>The session\<close>

definition SSLHandshake :: "env \<Rightarrow> nsref \<Rightarrow> nsref ns_op" where
  "SSLHandshake E inSSLBin =
     andthen (with_cobject E inSSLBin (\<lambda>context. mbedtls E (SSL (ssl_handshake context))))
       (\<lambda>ret. CastOrThrowError E ret)"

definition SSLHandshakeStep :: "env \<Rightarrow> nsref \<Rightarrow> nsref ns_op" where
  "SSLHandshakeStep E inSSLBin =
     andthen (with_cobject E inSSLBin (\<lambda>context. mbedtls E (SSL (ssl_handshake_step context))))
       (\<lambda>ret. CastOrThrowError E ret)"

definition SSLRead :: "env \<Rightarrow> nsref \<Rightarrow> nsref \<Rightarrow> nsref ns_op" where
  "SSLRead E inSSLBin inLen =
     andthen (RINT E inLen) (\<lambda>len.
     andthen (AllocateBinary E ''bytes'' len) (\<lambda>result.
     andthen (with_cobject E inSSLBin (\<lambda>context.
       with_cobject E result (\<lambda>_.
         andthen (mbedtls_read E context len) (\<lambda>(ret, bs).
         andthen (store_bytes result bs) (\<lambda>_. return_with ret))))) (\<lambda>ret.
       if ret = 0 then return_with (Symbol ''eof'')
       else if ret < 0 then CastOrThrowError E ret
       else andthen (SetLength E result (nat ret)) (\<lambda>_. return_with result))))"

definition SSLRenegotiate :: "env \<Rightarrow> nsref \<Rightarrow> nsref ns_op" where
  "SSLRenegotiate E inSSLBin =
     andthen (with_cobject E inSSLBin (\<lambda>context. mbedtls E (SSL (ssl_renegotiate context))))
       (\<lambda>ret. CastOrThrowError E ret)"

text \<open>As written: the references are passed, not the level and the message made from them.\<close>

definition SSLSendAlertMessage :: "env \<Rightarrow> nsref \<Rightarrow> nsref \<Rightarrow> nsref \<Rightarrow> nsref ns_op" where
  "SSLSendAlertMessage E inSSLBin inLevel inMessage =
     (if \<not> (ISINT inLevel \<or> inLevel = Symbol ''warning'' \<or> inLevel = Symbol ''fatal'')
      then ThrowBadType kNSErrBadArgs inLevel
      else if \<not> ISINT inMessage then ThrowBadType kNSErrNotAnInteger inMessage
      else andthen (with_cobject E inSSLBin (\<lambda>context.
             mbedtls E (SSL (ssl_send_alert_message context inLevel inMessage))))
           (\<lambda>ret. CastOrThrowError E ret))"

definition SSLSessionReset :: "env \<Rightarrow> nsref \<Rightarrow> nsref ns_op" where
  "SSLSessionReset E inSSLBin =
     andthen (with_cobject E inSSLBin (\<lambda>context. mbedtls E (SSL (ssl_session_reset context))))
       (\<lambda>ret. CastOrThrowError E ret)"

definition SSLWrite :: "env \<Rightarrow> nsref \<Rightarrow> nsref \<Rightarrow> nsref ns_op" where
  "SSLWrite E inSSLBin inData = with_state (\<lambda>s.
     if \<not> IsBinary E s inData then ThrowBadType kNSErrNotABinaryObject inData
     else
       andthen (Length E inData) (\<lambda>len.
       andthen (with_cobject E inSSLBin (\<lambda>context.
         with_locked_bytes E inData len (\<lambda>bs. mbedtls E (SSL (ssl_write context bs))))) (\<lambda>ret.
         if ret \<ge> 0 then return_with (MAKEINT ret) else CastOrThrowError E ret)))"

section \<open>Settings\<close>

definition SSLSetBIO :: "env \<Rightarrow> nsref \<Rightarrow> nsref \<Rightarrow> nsref \<Rightarrow> nsref ns_op" where
  "SSLSetBIO E inSSLBin inSendCb inRecvCb =
     andthen (with_cobject E inSSLBin (\<lambda>ctx.
       andthen (update_context ctx (\<lambda>c. c\<lparr>sendFunction := inSendCb, recvFunction := inRecvCb\<rparr>))
         (\<lambda>_. mbedtls_void E (SSL (ssl_set_bio ctx)))))
       (\<lambda>_. return_with NILREF)"

definition SSLSetClientTransportID :: "env \<Rightarrow> nsref \<Rightarrow> nsref \<Rightarrow> nsref ns_op" where
  "SSLSetClientTransportID E inSSLBin inTransportLevelInfo =
     andthen (Length E inTransportLevelInfo) (\<lambda>_.
     andthen (with_cobject E inSSLBin (\<lambda>context.
       with_maybe_string E inTransportLevelInfo (\<lambda>bs.
         mbedtls E (SSL (ssl_set_client_transport_id context bs)))))
       (\<lambda>ret. CastOrThrowError E ret))"

definition SSLSetDatagramPacking :: "env \<Rightarrow> nsref \<Rightarrow> nsref \<Rightarrow> nsref ns_op" where
  "SSLSetDatagramPacking E inSSLBin inAllowPacking =
     andthen (with_cobject E inSSLBin (\<lambda>context.
       mbedtls_void E (SSL (ssl_set_datagram_packing context (inAllowPacking \<noteq> NILREF)))))
       (\<lambda>_. return_with NILREF)"

text \<open>
  The name is copied into a buffer of \<^verbatim>\<open>MBEDTLS_SSL_MAX_HOST_NAME_LEN + 1\<close> bytes of the
  stack without a check of its length.
\<close>

definition MBEDTLS_SSL_MAX_HOST_NAME_LEN :: nat where
  "MBEDTLS_SSL_MAX_HOST_NAME_LEN = 255"

text \<open>A C string: the bytes before the first 0.\<close>

definition c_string :: "bytes \<Rightarrow> bytes" where
  "c_string bs = takeWhile (\<lambda>b. b \<noteq> 0) bs"

definition SSLSetHostname :: "env \<Rightarrow> nsref \<Rightarrow> nsref \<Rightarrow> nsref ns_op" where
  "SSLSetHostname E inSSLBin inHostname =
     andthen (with_state (\<lambda>s.
         if IsBinary E s inHostname then
           with_maybe_string E inHostname (\<lambda>bs.
             if length bs \<le> MBEDTLS_SSL_MAX_HOST_NAME_LEN then return_with (Some (c_string bs))
             else undefined_here)
         else if inHostname = NILREF then return_with None
         else ThrowBadType kNSErrNotAString inHostname)) (\<lambda>hostname.
     andthen (with_cobject E inSSLBin (\<lambda>context. mbedtls E (SSL (ssl_set_hostname context hostname))))
       (\<lambda>ret. CastOrThrowError E ret))"

definition SSLSetHsAuthMode :: "env \<Rightarrow> nsref \<Rightarrow> nsref \<Rightarrow> nsref ns_op" where
  "SSLSetHsAuthMode E inSSLBin inAuthmode =
     andthen (CastAuthMode inAuthmode) (\<lambda>authMode.
     andthen (with_cobject E inSSLBin (\<lambda>context.
       mbedtls_void E (SSL (ssl_set_hs_authmode context authMode))))
       (\<lambda>_. return_with NILREF))"

definition SSLSetHsCAChain :: "env \<Rightarrow> nsref \<Rightarrow> nsref \<Rightarrow> nsref \<Rightarrow> nsref ns_op" where
  "SSLSetHsCAChain E inSSLBin inX509CrtBin inX509CrlBin =
     andthen (with_cobject E inSSLBin (\<lambda>context.
       with_cobject_opt E inX509CrtBin (\<lambda>crt.
         with_cobject_opt E inX509CrlBin (\<lambda>crl.
           mbedtls_void E (SSL (ssl_set_hs_ca_chain context crt crl))))))
       (\<lambda>_. return_with NILREF)"

definition SSLSetHsOwnCert :: "env \<Rightarrow> nsref \<Rightarrow> nsref \<Rightarrow> nsref \<Rightarrow> nsref ns_op" where
  "SSLSetHsOwnCert E inSSLBin inX509CrtBin inPKBin =
     andthen (with_cobject E inSSLBin (\<lambda>context.
       with_cobject E inX509CrtBin (\<lambda>crt.
         with_cobject E inPKBin (\<lambda>pk.
           mbedtls E (SSL (ssl_set_hs_own_cert context crt pk))))))
       (\<lambda>ret. CastOrThrowError E ret)"

definition SSLSetHsPSK :: "env \<Rightarrow> nsref \<Rightarrow> nsref \<Rightarrow> nsref ns_op" where
  "SSLSetHsPSK E inSSLBin inPSKBin = with_state (\<lambda>s.
     if \<not> IsBinary E s inPSKBin then ThrowBadType kNSErrNotABinaryObject inPSKBin
     else
       andthen (Length E inPSKBin) (\<lambda>len.
       andthen (with_cobject E inSSLBin (\<lambda>context.
         with_locked_bytes E inPSKBin len (\<lambda>bs. mbedtls E (SSL (ssl_set_hs_psk context bs)))))
         (\<lambda>ret. CastOrThrowError E ret)))"

definition SSLSetMTU :: "env \<Rightarrow> nsref \<Rightarrow> nsref \<Rightarrow> nsref ns_op" where
  "SSLSetMTU E inSSLBin inMTU =
     (if \<not> ISINT inMTU then ThrowBadType kNSErrNotAnInteger inMTU
      else
        andthen (with_cobject E inSSLBin (\<lambda>context.
          andthen (RINT E inMTU) (\<lambda>mtu. mbedtls_void E (SSL (ssl_set_mtu context mtu)))))
          (\<lambda>_. return_with NILREF))"

text \<open>As written: both pointers come from \<^verbatim>\<open>inSSLBin\<close>; \<^verbatim>\<open>inSession\<close> is not used.\<close>

definition SSLSetSession :: "env \<Rightarrow> nsref \<Rightarrow> nsref \<Rightarrow> nsref ns_op" where
  "SSLSetSession E inSSLBin inSession =
     andthen (with_cobject E inSSLBin (\<lambda>context.
       with_cobject E inSSLBin (\<lambda>session.
         mbedtls E (SSL (ssl_set_session context session)))))
       (\<lambda>ret. CastOrThrowError E ret)"

definition SSLSetTimerCb :: "env \<Rightarrow> nsref \<Rightarrow> nsref \<Rightarrow> nsref \<Rightarrow> nsref ns_op" where
  "SSLSetTimerCb E inSSLBin inSetTimerCb inGetTimerCb =
     andthen (with_cobject E inSSLBin (\<lambda>ctx.
       andthen (update_context ctx
          (\<lambda>c. c\<lparr>setTimerFunction := inSetTimerCb, getTimerFunction := inGetTimerCb\<rparr>))
         (\<lambda>_. mbedtls_void E (SSL (ssl_set_timer_cb ctx)))))
       (\<lambda>_. return_with NILREF)"

definition SSLSetup :: "env \<Rightarrow> nsref \<Rightarrow> nsref \<Rightarrow> nsref ns_op" where
  "SSLSetup E inSSLBin inSSLConfigBin =
     andthen (with_cobject E inSSLBin (\<lambda>context.
       with_cobject E inSSLConfigBin (\<lambda>config. mbedtls E (SSL (ssl_setup context config)))))
       (\<lambda>ret. CastOrThrowError E ret)"

section \<open>Caches and sessions\<close>

definition SSLCacheNew :: "env \<Rightarrow> nsref ns_op" where
  "SSLCacheNew E =
     andthen NewPtr (\<lambda>cache.
     andthen (lib_effect (TLS (cache_init cache))) (\<lambda>_.
       DoAllocateCObjectBinary cache kSSLCacheDtor))"

definition SSLCacheSetMaxEntries :: "env \<Rightarrow> nsref \<Rightarrow> nsref \<Rightarrow> nsref ns_op" where
  "SSLCacheSetMaxEntries E inSSLCacheBin inMaxEntries =
     (if \<not> ISINT inMaxEntries then ThrowBadType kNSErrNotAnInteger inMaxEntries
      else
        andthen (with_cobject E inSSLCacheBin (\<lambda>cache.
          andthen (RINT E inMaxEntries) (\<lambda>n. mbedtls_void E (TLS (cache_set_max_entries cache n)))))
          (\<lambda>_. return_with NILREF))"

definition SSLCacheSetTimeout :: "env \<Rightarrow> nsref \<Rightarrow> nsref \<Rightarrow> nsref ns_op" where
  "SSLCacheSetTimeout E inSSLCacheBin inTimeout =
     (if \<not> ISINT inTimeout then ThrowBadType kNSErrNotAnInteger inTimeout
      else
        andthen (with_cobject E inSSLCacheBin (\<lambda>cache.
          andthen (RINT E inTimeout) (\<lambda>n. mbedtls_void E (TLS (cache_set_timeout cache n)))))
          (\<lambda>_. return_with NILREF))"

definition SSLSessionNew :: "env \<Rightarrow> nsref ns_op" where
  "SSLSessionNew E =
     andthen NewPtr (\<lambda>session.
     andthen (lib_effect (TLS (session_init session))) (\<lambda>_.
       DoAllocateCObjectBinary session kSSLSessionDtor))"

end
