(* ===== verification/NS_Conf.thy ===== *)
theory NS_Conf
  imports NS_Callbacks
begin

text \<open>
  The bindings of \<^verbatim>\<open>PMbedTLS.cpp\<close> on an SSL configuration, one definition per method. Those
  the source leaves unimplemented lock the configuration, throw and unlock it.
\<close>

section \<open>Configurations\<close>

definition no_config_functions :: SSLConfigWithCallbacks where
  "no_config_functions = \<lparr>sniFunction = NILREF, ticketWriteFunction = NILREF,
     ticketParseFunction = NILREF, verifyFunction = NILREF\<rparr>"

definition update_config ::
    "addr \<Rightarrow> (SSLConfigWithCallbacks \<Rightarrow> SSLConfigWithCallbacks) \<Rightarrow> unit ns_op" where
  "update_config a u s = (case a of
      Block p \<Rightarrow> (Returns (), s\<lparr>conf_refs := (conf_refs s)(p := u (conf_refs s p))\<rparr>)
    | _ \<Rightarrow> (Undefined, s))"

definition SSLConfigNew :: "env \<Rightarrow> nsref ns_op" where
  "SSLConfigNew E =
     andthen NewPtr (\<lambda>st.
     andthen (update_config st (\<lambda>_. no_config_functions)) (\<lambda>_.
     andthen (lib_effect (Conf (config_init st))) (\<lambda>_.
       DoAllocateCObjectBinary st kSSLConfigDtor)))"

definition SSLConfigDefaults :: "env \<Rightarrow> nsref \<Rightarrow> nsref \<Rightarrow> nsref \<Rightarrow> nsref ns_op" where
  "SSLConfigDefaults E inSSLConfigBin inEndpoint inTransport =
     andthen (CastEndpoint inEndpoint) (\<lambda>endpoint.
     andthen (CastTransport inTransport) (\<lambda>transport.
     andthen (with_cobject E inSSLConfigBin (\<lambda>config.
       mbedtls E (Conf (config_defaults config endpoint transport))))
       (\<lambda>ret. CastOrThrowError E ret)))"

section \<open>Settings\<close>

definition SSLConfAuthMode :: "env \<Rightarrow> nsref \<Rightarrow> nsref \<Rightarrow> nsref ns_op" where
  "SSLConfAuthMode E inSSLConfigBin inAuthMode =
     andthen (CastAuthMode inAuthMode) (\<lambda>authMode.
     andthen (with_cobject E inSSLConfigBin (\<lambda>config. mbedtls_void E (Conf (conf_authmode config authMode))))
       (\<lambda>_. return_with NILREF))"

definition SSLConfCAChain :: "env \<Rightarrow> nsref \<Rightarrow> nsref \<Rightarrow> nsref \<Rightarrow> nsref ns_op" where
  "SSLConfCAChain E inSSLConfigBin inX509CrtBin inX509CrlBin =
     andthen (with_cobject E inSSLConfigBin (\<lambda>config.
       with_cobject_opt E inX509CrlBin (\<lambda>crl.
         with_cobject_opt E inX509CrtBin (\<lambda>crt.
           mbedtls_void E (Conf (conf_ca_chain config crt crl))))))
       (\<lambda>_. return_with NILREF)"

definition SSLConfEndpoint :: "env \<Rightarrow> nsref \<Rightarrow> nsref \<Rightarrow> nsref ns_op" where
  "SSLConfEndpoint E inSSLConfigBin inEndpoint =
     andthen (CastEndpoint inEndpoint) (\<lambda>endpoint.
     andthen (with_cobject E inSSLConfigBin (\<lambda>config. mbedtls_void E (Conf (conf_endpoint config endpoint))))
       (\<lambda>_. return_with NILREF))"

definition SSLConfHandshakeTimeout :: "env \<Rightarrow> nsref \<Rightarrow> nsref \<Rightarrow> nsref \<Rightarrow> nsref ns_op" where
  "SSLConfHandshakeTimeout E inSSLConfigBin inMin inMax =
     andthen (with_cobject E inSSLConfigBin (\<lambda>config.
       andthen (RINT E inMin) (\<lambda>m. andthen (RINT E inMax) (\<lambda>n.
         mbedtls_void E (Conf (conf_handshake_timeout config m n))))))
       (\<lambda>_. return_with NILREF)"

definition SSLConfLegacyRenegotiation :: "env \<Rightarrow> nsref \<Rightarrow> nsref \<Rightarrow> nsref ns_op" where
  "SSLConfLegacyRenegotiation E inSSLConfigBin inAllowLegacy =
     andthen
       (if \<not> IsSymbol inAllowLegacy then ThrowBadType kNSErrNotASymbol inAllowLegacy
        else if inAllowLegacy = Symbol ''no_renegotiation'' then return_with LEGACY_NO_RENEGOTIATION
        else if inAllowLegacy = Symbol ''allow_renegotiation'' then return_with LEGACY_ALLOW_RENEGOTIATION
        else if inAllowLegacy = Symbol ''break_handshake'' then return_with LEGACY_BREAK_HANDSHAKE
        else ThrowBadType kNSErrBadArgs inAllowLegacy) (\<lambda>legacy.
     andthen (with_cobject E inSSLConfigBin (\<lambda>config.
       mbedtls_void E (Conf (conf_legacy_renegotiation config legacy))))
       (\<lambda>_. return_with NILREF))"

definition SSLConfMaxFragLen :: "env \<Rightarrow> nsref \<Rightarrow> nsref \<Rightarrow> nsref ns_op" where
  "SSLConfMaxFragLen E inSSLConfigBin inMaxFragLen =
     (if \<not> ISINT inMaxFragLen then ThrowBadType kNSErrNotAnInteger inMaxFragLen
      else
        andthen (RINT E inMaxFragLen) (\<lambda>maxFragLen.
        andthen
          (if maxFragLen = 512 then return_with MAX_FRAG_LEN_512
           else if maxFragLen = 1024 then return_with MAX_FRAG_LEN_1024
           else if maxFragLen = 2048 then return_with MAX_FRAG_LEN_2048
           else if maxFragLen = 4096 then return_with MAX_FRAG_LEN_4096
           else ThrowBadType kNSErrBadArgs inMaxFragLen) (\<lambda>mfl_code.
        andthen (with_cobject E inSSLConfigBin (\<lambda>config.
          mbedtls E (Conf (conf_max_frag_len config mfl_code))))
          (\<lambda>ret. CastOrThrowError E ret))))"

definition SSLConfMaxVersion :: "env \<Rightarrow> nsref \<Rightarrow> nsref \<Rightarrow> nsref \<Rightarrow> nsref ns_op" where
  "SSLConfMaxVersion E inSSLConfigBin inMajor inMinor =
     andthen (with_cobject E inSSLConfigBin (\<lambda>config.
       andthen (RINT E inMajor) (\<lambda>m. andthen (RINT E inMinor) (\<lambda>n.
         mbedtls_void E (Conf (conf_max_version config m n))))))
       (\<lambda>_. return_with NILREF)"

definition SSLConfMinVersion :: "env \<Rightarrow> nsref \<Rightarrow> nsref \<Rightarrow> nsref \<Rightarrow> nsref ns_op" where
  "SSLConfMinVersion E inSSLConfigBin inMajor inMinor =
     andthen (with_cobject E inSSLConfigBin (\<lambda>config.
       andthen (RINT E inMajor) (\<lambda>m. andthen (RINT E inMinor) (\<lambda>n.
         mbedtls_void E (Conf (conf_min_version config m n))))))
       (\<lambda>_. return_with NILREF)"

definition SSLConfOwnCert :: "env \<Rightarrow> nsref \<Rightarrow> nsref \<Rightarrow> nsref \<Rightarrow> nsref ns_op" where
  "SSLConfOwnCert E inSSLConfigBin inCrtBin inPKBin =
     andthen (with_cobject E inSSLConfigBin (\<lambda>config.
       with_cobject E inCrtBin (\<lambda>crt.
         with_cobject E inPKBin (\<lambda>pk. mbedtls E (Conf (conf_own_cert config crt pk))))))
       (\<lambda>ret. CastOrThrowError E ret)"

definition SSLConfPSK :: "env \<Rightarrow> nsref \<Rightarrow> nsref \<Rightarrow> nsref \<Rightarrow> nsref ns_op" where
  "SSLConfPSK E inSSLConfigBin inPSK inPSKIdentity =
     andthen (Length E inPSK) (\<lambda>pskLen.
     andthen (Length E inPSKIdentity) (\<lambda>pskIdentityLen.
     andthen (with_cobject E inSSLConfigBin (\<lambda>config.
       with_locked_bytes E inPSK pskLen (\<lambda>psk.
         with_locked_bytes E inPSKIdentity pskIdentityLen (\<lambda>identity.
           mbedtls E (Conf (conf_psk config psk identity))))))
       (\<lambda>ret. CastOrThrowError E ret)))"

text \<open>The enabled/disabled, true/nil argument of three methods.\<close>

definition CastEnabled :: "env \<Rightarrow> nsref \<Rightarrow> bool ns_op" where
  "CastEnabled E r =
     (if r = Symbol ''enabled'' then return_with True
      else if r = Symbol ''disabled'' then return_with False
      else if r = NILREF then return_with False
      else if ISTRUE E r then return_with True
      else ThrowBadType kNSErrNotTrueOrNil r)"

definition SSLConfRenegotiation :: "env \<Rightarrow> nsref \<Rightarrow> nsref \<Rightarrow> nsref ns_op" where
  "SSLConfRenegotiation E inSSLConfigBin inRenegotiation =
     andthen (CastEnabled E inRenegotiation) (\<lambda>renegotiation.
     andthen (with_cobject E inSSLConfigBin (\<lambda>config. mbedtls_void E (Conf (conf_renegotiation config renegotiation))))
       (\<lambda>_. return_with NILREF))"

definition SSLConfRenegotiationEnforced :: "env \<Rightarrow> nsref \<Rightarrow> nsref \<Rightarrow> nsref ns_op" where
  "SSLConfRenegotiationEnforced E inSSLConfigBin inMaxRecords =
     andthen (with_cobject E inSSLConfigBin (\<lambda>config.
       andthen (RINT E inMaxRecords) (\<lambda>n. mbedtls_void E (Conf (conf_renegotiation_enforced config n)))))
       (\<lambda>_. return_with NILREF)"

text \<open>
  As written: the context that is locked is a new \<^verbatim>\<open>RefVar\<close>, which is NIL, and not
  \<^verbatim>\<open>inCtrDrbgContextBin\<close>.
\<close>

definition SSLConfRng :: "env \<Rightarrow> nsref \<Rightarrow> nsref \<Rightarrow> nsref ns_op" where
  "SSLConfRng E inSSLConfigBin inCtrDrbgContextBin =
     andthen (with_cobject E inSSLConfigBin (\<lambda>config.
       with_cobject E NILREF (\<lambda>ctr_drbg. mbedtls_void E (Conf (conf_rng config ctr_drbg)))))
       (\<lambda>_. return_with NILREF)"

definition SSLConfSessionTickets :: "env \<Rightarrow> nsref \<Rightarrow> nsref \<Rightarrow> nsref ns_op" where
  "SSLConfSessionTickets E inSSLConfigBin inUseTickets =
     andthen (CastEnabled E inUseTickets) (\<lambda>use_tickets.
     andthen (with_cobject E inSSLConfigBin (\<lambda>config. mbedtls_void E (Conf (conf_session_tickets config use_tickets))))
       (\<lambda>_. return_with NILREF))"

definition SSLConfSNI :: "env \<Rightarrow> nsref \<Rightarrow> nsref \<Rightarrow> nsref ns_op" where
  "SSLConfSNI E inSSLConfigBin inSNICb =
     andthen (with_cobject E inSSLConfigBin (\<lambda>cfg.
       andthen (update_config cfg (\<lambda>c. c\<lparr>sniFunction := inSNICb\<rparr>))
         (\<lambda>_. mbedtls_void E (Conf (conf_sni cfg)))))
       (\<lambda>_. return_with NILREF)"

definition SSLConfTransport :: "env \<Rightarrow> nsref \<Rightarrow> nsref \<Rightarrow> nsref ns_op" where
  "SSLConfTransport E inSSLConfigBin inTransport =
     andthen (CastTransport inTransport) (\<lambda>transport.
     andthen (with_cobject E inSSLConfigBin (\<lambda>config. mbedtls_void E (Conf (conf_transport config transport))))
       (\<lambda>_. return_with NILREF))"

definition SSLConfTruncatedHMAC :: "env \<Rightarrow> nsref \<Rightarrow> nsref \<Rightarrow> nsref ns_op" where
  "SSLConfTruncatedHMAC E inSSLConfigBin inTruncate =
     andthen (CastEnabled E inTruncate) (\<lambda>truncate.
     andthen (with_cobject E inSSLConfigBin (\<lambda>config. mbedtls_void E (Conf (conf_truncated_hmac config truncate))))
       (\<lambda>_. return_with NILREF))"

definition SSLConfVerify :: "env \<Rightarrow> nsref \<Rightarrow> nsref \<Rightarrow> nsref ns_op" where
  "SSLConfVerify E inSSLConfigBin inVerifyCb =
     andthen (with_cobject E inSSLConfigBin (\<lambda>cfg.
       andthen (update_config cfg (\<lambda>c. c\<lparr>verifyFunction := inVerifyCb\<rparr>))
         (\<lambda>_. mbedtls_void E (Conf (conf_verify cfg)))))
       (\<lambda>_. return_with NILREF)"

section \<open>Unimplemented methods\<close>

definition unimplemented :: "env \<Rightarrow> nsref \<Rightarrow> nsref ns_op" where
  "unimplemented E inSSLConfigBin =
     andthen (with_cobject E inSSLConfigBin (\<lambda>config. throw_with (Message ''Unimplemented'')))
       (\<lambda>_ :: unit. return_with NILREF)"

definition SSLConfALPNProtocol :: "env \<Rightarrow> nsref \<Rightarrow> nsref \<Rightarrow> nsref ns_op" where
  "SSLConfALPNProtocol E inSSLConfigBin inProtos =
     unimplemented E inSSLConfigBin"

definition SSLConfARC4Support :: "env \<Rightarrow> nsref \<Rightarrow> nsref \<Rightarrow> nsref ns_op" where
  "SSLConfARC4Support E inSSLConfigBin inARC4 =
     unimplemented E inSSLConfigBin"

definition SSLConfCbcRecordSplitting :: "env \<Rightarrow> nsref \<Rightarrow> nsref \<Rightarrow> nsref ns_op" where
  "SSLConfCbcRecordSplitting E inSSLConfigBin inSplit =
     unimplemented E inSSLConfigBin"

definition SSLConfCertProfile :: "env \<Rightarrow> nsref \<Rightarrow> nsref \<Rightarrow> nsref ns_op" where
  "SSLConfCertProfile E inSSLConfigBin inCrtbin =
     unimplemented E inSSLConfigBin"

definition SSLConfCertReqCAList :: "env \<Rightarrow> nsref \<Rightarrow> nsref \<Rightarrow> nsref ns_op" where
  "SSLConfCertReqCAList E inSSLConfigBin inCertReqCAList =
     unimplemented E inSSLConfigBin"

definition SSLConfCiphersuites :: "env \<Rightarrow> nsref \<Rightarrow> nsref \<Rightarrow> nsref ns_op" where
  "SSLConfCiphersuites E inSSLConfigBin inCiphersuites =
     unimplemented E inSSLConfigBin"

definition SSLConfCiphersuitesForVersion :: "env \<Rightarrow> nsref \<Rightarrow> nsref \<Rightarrow> nsref \<Rightarrow> nsref \<Rightarrow> nsref ns_op" where
  "SSLConfCiphersuitesForVersion E inSSLConfigBin inCiphersuites inMajor inMinor =
     unimplemented E inSSLConfigBin"

definition SSLConfCurves :: "env \<Rightarrow> nsref \<Rightarrow> nsref \<Rightarrow> nsref ns_op" where
  "SSLConfCurves E inSSLConfigBin inCurves =
     unimplemented E inSSLConfigBin"

definition SSLConfDbg :: "env \<Rightarrow> nsref \<Rightarrow> nsref \<Rightarrow> nsref ns_op" where
  "SSLConfDbg E inSSLConfigBin inDebugCb =
     unimplemented E inSSLConfigBin"

definition SSLConfDHParamBin :: "env \<Rightarrow> nsref \<Rightarrow> nsref \<Rightarrow> nsref \<Rightarrow> nsref ns_op" where
  "SSLConfDHParamBin E inSSLConfigBin inDHMP inDHMG =
     unimplemented E inSSLConfigBin"

definition SSLConfDHParamCtx :: "env \<Rightarrow> nsref \<Rightarrow> nsref \<Rightarrow> nsref ns_op" where
  "SSLConfDHParamCtx E inSSLConfigBin inDHMContextBin =
     unimplemented E inSSLConfigBin"

definition SSLConfDHMMinBitlen :: "env \<Rightarrow> nsref \<Rightarrow> nsref \<Rightarrow> nsref ns_op" where
  "SSLConfDHMMinBitlen E inSSLConfigBin inBitlen =
     unimplemented E inSSLConfigBin"

definition SSLConfDTLSAntiReplay :: "env \<Rightarrow> nsref \<Rightarrow> nsref \<Rightarrow> nsref ns_op" where
  "SSLConfDTLSAntiReplay E inSSLConfigBin inMode =
     unimplemented E inSSLConfigBin"

definition SSLConfDTLSBadMACLimit :: "env \<Rightarrow> nsref \<Rightarrow> nsref \<Rightarrow> nsref ns_op" where
  "SSLConfDTLSBadMACLimit E inSSLConfigBin inLimit =
     unimplemented E inSSLConfigBin"

definition SSLConfDTLSCookies :: "env \<Rightarrow> nsref \<Rightarrow> nsref \<Rightarrow> nsref \<Rightarrow> nsref ns_op" where
  "SSLConfDTLSCookies E inSSLConfigBin inCookiesWriteCb inCookiesCheckCb =
     unimplemented E inSSLConfigBin"

definition SSLConfEncryptThenMac :: "env \<Rightarrow> nsref \<Rightarrow> nsref \<Rightarrow> nsref ns_op" where
  "SSLConfEncryptThenMac E inSSLConfigBin inETM =
     unimplemented E inSSLConfigBin"

definition SSLConfExportKeysCb :: "env \<Rightarrow> nsref \<Rightarrow> nsref \<Rightarrow> nsref ns_op" where
  "SSLConfExportKeysCb E inSSLConfigBin inExportKeysCb =
     unimplemented E inSSLConfigBin"

definition SSLConfExtendedMasterSecret :: "env \<Rightarrow> nsref \<Rightarrow> nsref \<Rightarrow> nsref ns_op" where
  "SSLConfExtendedMasterSecret E inSSLConfigBin inEMS =
     unimplemented E inSSLConfigBin"

definition SSLConfFallback :: "env \<Rightarrow> nsref \<Rightarrow> nsref \<Rightarrow> nsref ns_op" where
  "SSLConfFallback E inSSLConfigBin inFallback =
     unimplemented E inSSLConfigBin"

definition SSLConfPSKCb :: "env \<Rightarrow> nsref \<Rightarrow> nsref \<Rightarrow> nsref ns_op" where
  "SSLConfPSKCb E inSSLConfigBin inPSKCb =
     unimplemented E inSSLConfigBin"

definition SSLConfRenegotiationPeriod :: "env \<Rightarrow> nsref \<Rightarrow> nsref \<Rightarrow> nsref ns_op" where
  "SSLConfRenegotiationPeriod E inSSLConfigBin inPeriod =
     unimplemented E inSSLConfigBin"

definition SSLConfSessionCache :: "env \<Rightarrow> nsref \<Rightarrow> nsref \<Rightarrow> nsref ns_op" where
  "SSLConfSessionCache E inSSLConfigBin inCacheBin =
     unimplemented E inSSLConfigBin"

definition SSLConfSessionTicketsCb :: "env \<Rightarrow> nsref \<Rightarrow> nsref \<Rightarrow> nsref \<Rightarrow> nsref ns_op" where
  "SSLConfSessionTicketsCb E inSSLConfigBin inTicketWriteCb inTicketParseCb =
     unimplemented E inSSLConfigBin"

definition SSLConfSigHashes :: "env \<Rightarrow> nsref \<Rightarrow> nsref \<Rightarrow> nsref ns_op" where
  "SSLConfSigHashes E inSSLConfigBin inSigHashes =
     unimplemented E inSSLConfigBin"

end
