(* ===== verification/NS_X509.thy ===== *)
theory NS_X509
  imports NS_Callbacks
begin

text \<open>
  The bindings of \<^verbatim>\<open>PMbedTLS.cpp\<close> on certificates and certificate lists, random
  generators and keys, and the two that only report on the library.
\<close>

section \<open>The library\<close>

text \<open>The version is written with its final 0 into a block of nine bytes.\<close>

definition GetVersion :: "env \<Rightarrow> nsref ns_op" where
  "GetVersion E =
     andthen NewPtr (\<lambda>versionStr.
     andthen (if length (lib_version E) < 9 then return_with () else undefined_here) (\<lambda>_.
     andthen (MakeString E (lib_version E)) (\<lambda>result.
     andthen (DisposePtr versionStr) (\<lambda>_. return_with result))))"

text \<open>The identifiers of the ciphersuites end with a 0.\<close>

fun set_names :: "env \<Rightarrow> nsref \<Rightarrow> nat \<Rightarrow> int list \<Rightarrow> unit ns_op" where
  "set_names E result index [] = return_with ()"
| "set_names E result index (c # cs) =
     andthen (MakeString E (lib_ciphersuite_name E c)) (\<lambda>name.
     andthen (SetArraySlot E result index name) (\<lambda>_. set_names E result (Suc index) cs))"

definition SSLListCiphersuites :: "env \<Rightarrow> nsref ns_op" where
  "SSLListCiphersuites E = (let suites = takeWhile (\<lambda>c. c \<noteq> 0) (lib_ciphersuites E) in
     andthen (AllocateArray (length suites)) (\<lambda>result.
     andthen (set_names E result 0 suites) (\<lambda>_. return_with result)))"

section \<open>Random generators and keys\<close>

definition EntropyNew :: "env \<Rightarrow> nsref ns_op" where
  "EntropyNew E =
     andthen NewPtr (\<lambda>context.
     andthen (lib_effect (TLS (entropy_init context))) (\<lambda>_.
     andthen (lib_effect (TLS (entropy_add_hardclock context))) (\<lambda>_.
       DoAllocateCObjectBinary context kEntropyDtor)))"

definition CtrDrbgNew :: "env \<Rightarrow> nsref ns_op" where
  "CtrDrbgNew E =
     andthen NewPtr (\<lambda>context.
     andthen (lib_effect (TLS (ctr_drbg_init context))) (\<lambda>_.
       DoAllocateCObjectBinary context kCtrDrbgDtor))"

definition CtrDrbgSeed :: "env \<Rightarrow> nsref \<Rightarrow> nsref \<Rightarrow> nsref \<Rightarrow> nsref ns_op" where
  "CtrDrbgSeed E inCtrDrbgContextBin inEntropyContextBin inPersBin =
     andthen (with_cobject E inCtrDrbgContextBin (\<lambda>ctr_drbg.
       with_cobject E inEntropyContextBin (\<lambda>entropy.
         with_maybe_string E inPersBin (\<lambda>pers.
           mbedtls E (TLS (ctr_drbg_seed ctr_drbg entropy pers))))))
       (\<lambda>result. return_with (MAKEINT result))"

definition PKNew :: "env \<Rightarrow> nsref ns_op" where
  "PKNew E =
     andthen NewPtr (\<lambda>context.
     andthen (lib_effect (TLS (pk_init context))) (\<lambda>_.
       DoAllocateCObjectBinary context kPKDtor))"

section \<open>Parsing\<close>

definition X509CrtNew :: "env \<Rightarrow> nsref ns_op" where
  "X509CrtNew E =
     andthen NewPtr (\<lambda>crt.
     andthen (lib_effect (TLS (crt_init crt))) (\<lambda>_.
       DoAllocateCObjectBinary crt kX509CrtDtor))"

definition X509CrlNew :: "env \<Rightarrow> nsref ns_op" where
  "X509CrlNew E =
     andthen NewPtr (\<lambda>crl.
     andthen (lib_effect (TLS (crl_init crl))) (\<lambda>_.
       DoAllocateCObjectBinary crl kX509CrlDtor))"

text \<open>The loop that copies the integers of an array into bytes.\<close>

fun array_bytes :: "env \<Rightarrow> nsref \<Rightarrow> nat list \<Rightarrow> bytes ns_op" where
  "array_bytes E r [] = return_with []"
| "array_bytes E r (i # is) =
     andthen (GetArraySlot E r i) (\<lambda>x.
     andthen (RINT E x) (\<lambda>n.
     andthen (array_bytes E r is) (\<lambda>bs. return_with (word_of_int n # bs))))"

text \<open>The block of the array branch is not disposed of.\<close>

definition X509CrtParse :: "env \<Rightarrow> nsref \<Rightarrow> nsref \<Rightarrow> nsref ns_op" where
  "X509CrtParse E inX509CrtBin inCertificate =
     andthen (with_cobject E inX509CrtBin (\<lambda>crt. with_state (\<lambda>s.
         if IsBinary E s inCertificate then
           with_maybe_string E inCertificate (\<lambda>bs. mbedtls E (TLS (crt_parse crt bs)))
         else if IsArray E s inCertificate then
           andthen (Length E inCertificate) (\<lambda>len.
           andthen NewPtr (\<lambda>certificate.
           andthen (array_bytes E inCertificate [0..<len]) (\<lambda>bs.
             mbedtls E (TLS (crt_parse crt bs)))))
         else ThrowBadType kNSErrNotAnArrayOrString inCertificate)))
       (\<lambda>ret. CastOrThrowError E ret)"

text \<open>As written: the list is parsed as a certificate.\<close>

definition X509CrlParse :: "env \<Rightarrow> nsref \<Rightarrow> nsref \<Rightarrow> nsref ns_op" where
  "X509CrlParse E inX509CrlBin inCRLBin =
     andthen (with_maybe_string E inCRLBin (\<lambda>bs.
       with_cobject E inX509CrlBin (\<lambda>crt. mbedtls E (TLS (crt_parse crt bs)))))
       (\<lambda>ret. CastOrThrowError E ret)"

section \<open>Reading certificates\<close>

text \<open>
  The chain that starts at a certificate, by its \<^verbatim>\<open>next\<close> pointers; reading through NULL has
  no meaning.
\<close>

definition chain_at :: "env \<Rightarrow> addr \<Rightarrow> x509_crt list ns_op" where
  "chain_at E crt s =
     (if crt = NULL then (Undefined, s)
      else case crt_chain E (history s) crt of
          [] \<Rightarrow> (Undefined, s)
        | cs \<Rightarrow> (Returns cs, s))"

text \<open>\<^verbatim>\<open>while (crt->next != NULL) { crt = crt->next; ret++; }\<close>\<close>

fun count_next :: "x509_crt list \<Rightarrow> int \<Rightarrow> int" where
  "count_next (c # c' # cs) ret = count_next (c' # cs) (ret + 1)"
| "count_next _ ret = ret"

definition X509CrtCount :: "env \<Rightarrow> nsref \<Rightarrow> nsref ns_op" where
  "X509CrtCount E inX509CrtBin =
     andthen (with_cobject E inX509CrtBin (\<lambda>crt.
       andthen (chain_at E crt) (\<lambda>cs.
         return_with (if raw (hd cs) \<noteq> None then count_next cs 1 else 0))))
       (\<lambda>ret. return_with (MAKEINT ret))"

text \<open>\<^verbatim>\<open>inIndex\<close> is not used: the certificate is the first one.\<close>

definition X509CrtGetDER :: "env \<Rightarrow> nsref \<Rightarrow> nsref \<Rightarrow> nsref ns_op" where
  "X509CrtGetDER E inX509CrtBin inIndex =
     with_cobject E inX509CrtBin (\<lambda>crt.
       andthen (chain_at E crt) (\<lambda>cs. case raw (hd cs) of
           None \<Rightarrow> return_with NILREF
         | Some der \<Rightarrow>
             andthen (AllocateBinary E ''dem'' (int (length der))) (\<lambda>result.
             andthen (with_cobject E result (\<lambda>_. store_bytes result der)) (\<lambda>_.
               return_with result))))"

text \<open>The loop all the other readers share: \<open>index\<close> steps along the chain.\<close>

fun walk :: "nsref \<Rightarrow> x509_crt list \<Rightarrow> int \<Rightarrow> x509_crt ns_op" where
  "walk inIndex [] index = ThrowBadType kNSErrOutOfBounds inIndex"
| "walk inIndex (c # cs) index =
     (if index = 0 then return_with c else walk inIndex cs (index - 1))"

definition with_certificate :: "env \<Rightarrow> nsref \<Rightarrow> nsref \<Rightarrow> (x509_crt \<Rightarrow> 'a ns_op) \<Rightarrow> 'a ns_op" where
  "with_certificate E inX509CrtBin inIndex body =
     andthen (RINT E inIndex) (\<lambda>index.
       with_cobject E inX509CrtBin (\<lambda>crt.
         andthen (chain_at E crt) (\<lambda>cs.
           if raw (hd cs) = None then ThrowBadType kNSErrOutOfBounds inIndex
           else andthen (walk inIndex cs index) body)))"

text \<open>A text written into a buffer of 512 bytes, unless the result is an error.\<close>

definition text_or_throw :: "env \<Rightarrow> int \<times> string \<Rightarrow> nsref ns_op" where
  "text_or_throw E res = (case res of (r, buf) \<Rightarrow>
     if r < 0 then throw_with (exMbedTLSException r) else MakeString E buf)"

definition X509CrtGetVersion :: "env \<Rightarrow> nsref \<Rightarrow> nsref \<Rightarrow> nsref ns_op" where
  "X509CrtGetVersion E inX509CrtBin inIndex =
     andthen (with_certificate E inX509CrtBin inIndex (\<lambda>crt. return_with (version crt)))
       (\<lambda>result. return_with (MAKEINT result))"

definition X509CrtGetSerialNumber :: "env \<Rightarrow> nsref \<Rightarrow> nsref \<Rightarrow> nsref ns_op" where
  "X509CrtGetSerialNumber E inX509CrtBin inIndex =
     with_certificate E inX509CrtBin inIndex (\<lambda>crt. text_or_throw E (serial_gets crt))"

definition X509CrtGetIssuerName :: "env \<Rightarrow> nsref \<Rightarrow> nsref \<Rightarrow> nsref ns_op" where
  "X509CrtGetIssuerName E inX509CrtBin inIndex =
     with_certificate E inX509CrtBin inIndex (\<lambda>crt. text_or_throw E (issuer_gets crt))"

definition X509CrtGetSubjectName :: "env \<Rightarrow> nsref \<Rightarrow> nsref \<Rightarrow> nsref ns_op" where
  "X509CrtGetSubjectName E inX509CrtBin inIndex =
     with_certificate E inX509CrtBin inIndex (\<lambda>crt. text_or_throw E (subject_gets crt))"

text \<open>The two dates are read after the name of the subject, whose error is thrown.\<close>

definition subject_checked :: "x509_crt \<Rightarrow> 'a \<Rightarrow> 'a ns_op" where
  "subject_checked crt x = (case subject_gets crt of (r, buf) \<Rightarrow>
     if r < 0 then throw_with (exMbedTLSException r) else return_with x)"

definition X509CrtGetIssueDate :: "env \<Rightarrow> nsref \<Rightarrow> nsref \<Rightarrow> nsref ns_op" where
  "X509CrtGetIssueDate E inX509CrtBin inIndex =
     andthen (with_certificate E inX509CrtBin inIndex (\<lambda>crt. subject_checked crt (valid_from crt)))
       (\<lambda>result. return_with (MAKEINT (TimeToLocal1904Minutes result)))"

definition X509CrtGetExpirationDate :: "env \<Rightarrow> nsref \<Rightarrow> nsref \<Rightarrow> nsref ns_op" where
  "X509CrtGetExpirationDate E inX509CrtBin inIndex =
     andthen (with_certificate E inX509CrtBin inIndex (\<lambda>crt. subject_checked crt (valid_to crt)))
       (\<lambda>result. return_with (MAKEINT (TimeToLocal1904Minutes result)))"

definition X509CrtGetSignatureAlgorithm :: "env \<Rightarrow> nsref \<Rightarrow> nsref \<Rightarrow> nsref ns_op" where
  "X509CrtGetSignatureAlgorithm E inX509CrtBin inIndex =
     with_certificate E inX509CrtBin inIndex (\<lambda>crt. text_or_throw E (sig_alg_gets crt))"

end
