(* ===== verification/NS_Module.thy ===== *)
theory NS_Module
  imports NS_SSL NS_Conf NS_X509
begin

text \<open>
  The native module of \<^verbatim>\<open>NTKModule/mbedTLSInterface.cpp\<close>: the functions NewtonScript calls,
  each of which gets the singleton of the protocol, making it when there is none, and calls
  its method; and the table of exported names with their numbers of arguments
  (\<^verbatim>\<open>mbedTLSInterface.exp\<close>).
\<close>

section \<open>Functions\<close>

text \<open>\<^verbatim>\<open>PMbedTLSInterface::GetInterfaceSingleton()->method\<close>.\<close>

definition interface_call :: "env \<Rightarrow> 'a ns_op \<Rightarrow> 'a ns_op" where
  "interface_call E m = andthen (GetInterfaceSingleton E True) (\<lambda>_. m)"

definition GetVersion_fn :: "env \<Rightarrow> nsref ns_op" where
  "GetVersion_fn E =
     interface_call E (GetVersion E)"

definition SSLListCiphersuites_fn :: "env \<Rightarrow> nsref ns_op" where
  "SSLListCiphersuites_fn E =
     interface_call E (SSLListCiphersuites E)"

definition EntropyNew_fn :: "env \<Rightarrow> nsref ns_op" where
  "EntropyNew_fn E =
     interface_call E (EntropyNew E)"

definition CtrDrbgNew_fn :: "env \<Rightarrow> nsref ns_op" where
  "CtrDrbgNew_fn E =
     interface_call E (CtrDrbgNew E)"

definition CtrDrbgSeed_fn :: "env \<Rightarrow> nsref \<Rightarrow> nsref \<Rightarrow> nsref \<Rightarrow> nsref ns_op" where
  "CtrDrbgSeed_fn E inCtrDrbgContextBin inEntropyContextBin inPers =
     interface_call E (CtrDrbgSeed E inCtrDrbgContextBin inEntropyContextBin inPers)"

definition PKNew_fn :: "env \<Rightarrow> nsref ns_op" where
  "PKNew_fn E =
     interface_call E (PKNew E)"

definition SSLNew_fn :: "env \<Rightarrow> nsref ns_op" where
  "SSLNew_fn E =
     interface_call E (SSLNew E)"

definition SSLCheckPending_fn :: "env \<Rightarrow> nsref \<Rightarrow> nsref ns_op" where
  "SSLCheckPending_fn E inSSLBin =
     interface_call E (SSLCheckPending E inSSLBin)"

definition SSLCloseNotify_fn :: "env \<Rightarrow> nsref \<Rightarrow> nsref ns_op" where
  "SSLCloseNotify_fn E inSSLBin =
     interface_call E (SSLCloseNotify E inSSLBin)"

definition SSLGetALPNProtocol_fn :: "env \<Rightarrow> nsref \<Rightarrow> nsref ns_op" where
  "SSLGetALPNProtocol_fn E inSSLBin =
     interface_call E (SSLGetALPNProtocol E inSSLBin)"

definition SSLGetBytesAvail_fn :: "env \<Rightarrow> nsref \<Rightarrow> nsref ns_op" where
  "SSLGetBytesAvail_fn E inSSLBin =
     interface_call E (SSLGetBytesAvail E inSSLBin)"

definition SSLGetCiphersuite_fn :: "env \<Rightarrow> nsref \<Rightarrow> nsref ns_op" where
  "SSLGetCiphersuite_fn E inSSLBin =
     interface_call E (SSLGetCiphersuite E inSSLBin)"

definition SSLGetMaxFragLen_fn :: "env \<Rightarrow> nsref \<Rightarrow> nsref ns_op" where
  "SSLGetMaxFragLen_fn E inSSLBin =
     interface_call E (SSLGetMaxFragLen E inSSLBin)"

definition SSLGetMaxOutRecordPayload_fn :: "env \<Rightarrow> nsref \<Rightarrow> nsref ns_op" where
  "SSLGetMaxOutRecordPayload_fn E inSSLBin =
     interface_call E (SSLGetMaxOutRecordPayload E inSSLBin)"

definition SSLGetPeerCert_fn :: "env \<Rightarrow> nsref \<Rightarrow> nsref ns_op" where
  "SSLGetPeerCert_fn E inSSLBin =
     interface_call E (SSLGetPeerCert E inSSLBin)"

definition SSLGetRecordExpansion_fn :: "env \<Rightarrow> nsref \<Rightarrow> nsref ns_op" where
  "SSLGetRecordExpansion_fn E inSSLBin =
     interface_call E (SSLGetRecordExpansion E inSSLBin)"

definition SSLGetSession_fn :: "env \<Rightarrow> nsref \<Rightarrow> nsref ns_op" where
  "SSLGetSession_fn E inSSLBin =
     interface_call E (SSLGetSession E inSSLBin)"

definition SSLGetVerifyResult_fn :: "env \<Rightarrow> nsref \<Rightarrow> nsref ns_op" where
  "SSLGetVerifyResult_fn E inSSLBin =
     interface_call E (SSLGetVerifyResult E inSSLBin)"

definition SSLGetVersion_fn :: "env \<Rightarrow> nsref \<Rightarrow> nsref ns_op" where
  "SSLGetVersion_fn E inSSLBin =
     interface_call E (SSLGetVersion E inSSLBin)"

definition SSLHandshake_fn :: "env \<Rightarrow> nsref \<Rightarrow> nsref ns_op" where
  "SSLHandshake_fn E inSSLBin =
     interface_call E (SSLHandshake E inSSLBin)"

definition SSLHandshakeStep_fn :: "env \<Rightarrow> nsref \<Rightarrow> nsref ns_op" where
  "SSLHandshakeStep_fn E inSSLBin =
     interface_call E (SSLHandshakeStep E inSSLBin)"

definition SSLRead_fn :: "env \<Rightarrow> nsref \<Rightarrow> nsref \<Rightarrow> nsref ns_op" where
  "SSLRead_fn E inSSLBin inLen =
     interface_call E (SSLRead E inSSLBin inLen)"

definition SSLRenegotiate_fn :: "env \<Rightarrow> nsref \<Rightarrow> nsref ns_op" where
  "SSLRenegotiate_fn E inSSLBin =
     interface_call E (SSLRenegotiate E inSSLBin)"

definition SSLSendAlertMessage_fn :: "env \<Rightarrow> nsref \<Rightarrow> nsref \<Rightarrow> nsref \<Rightarrow> nsref ns_op" where
  "SSLSendAlertMessage_fn E inSSLBin inLevel inMessage =
     interface_call E (SSLSendAlertMessage E inSSLBin inLevel inMessage)"

definition SSLSessionReset_fn :: "env \<Rightarrow> nsref \<Rightarrow> nsref ns_op" where
  "SSLSessionReset_fn E inSSLBin =
     interface_call E (SSLSessionReset E inSSLBin)"

definition SSLSetBIO_fn :: "env \<Rightarrow> nsref \<Rightarrow> nsref \<Rightarrow> nsref \<Rightarrow> nsref ns_op" where
  "SSLSetBIO_fn E inSSLBin inSendCb inRecvCb =
     interface_call E (SSLSetBIO E inSSLBin inSendCb inRecvCb)"

definition SSLSetClientTransportID_fn :: "env \<Rightarrow> nsref \<Rightarrow> nsref \<Rightarrow> nsref ns_op" where
  "SSLSetClientTransportID_fn E inSSLBin inTransportLevelInfo =
     interface_call E (SSLSetClientTransportID E inSSLBin inTransportLevelInfo)"

definition SSLSetDatagramPacking_fn :: "env \<Rightarrow> nsref \<Rightarrow> nsref \<Rightarrow> nsref ns_op" where
  "SSLSetDatagramPacking_fn E inSSLBin inAllowPacking =
     interface_call E (SSLSetDatagramPacking E inSSLBin inAllowPacking)"

definition SSLSetHostname_fn :: "env \<Rightarrow> nsref \<Rightarrow> nsref \<Rightarrow> nsref ns_op" where
  "SSLSetHostname_fn E inSSLBin inHostname =
     interface_call E (SSLSetHostname E inSSLBin inHostname)"

definition SSLSetHsAuthMode_fn :: "env \<Rightarrow> nsref \<Rightarrow> nsref \<Rightarrow> nsref ns_op" where
  "SSLSetHsAuthMode_fn E inSSLBin inAuthmode =
     interface_call E (SSLSetHsAuthMode E inSSLBin inAuthmode)"

definition SSLSetHsCAChain_fn :: "env \<Rightarrow> nsref \<Rightarrow> nsref \<Rightarrow> nsref \<Rightarrow> nsref ns_op" where
  "SSLSetHsCAChain_fn E inSSLBin inX509CrtBin inX509CrlBin =
     interface_call E (SSLSetHsCAChain E inSSLBin inX509CrtBin inX509CrlBin)"

definition SSLSetHsOwnCert_fn :: "env \<Rightarrow> nsref \<Rightarrow> nsref \<Rightarrow> nsref \<Rightarrow> nsref ns_op" where
  "SSLSetHsOwnCert_fn E inSSLBin inX509CrtBin inPKBin =
     interface_call E (SSLSetHsOwnCert E inSSLBin inX509CrtBin inPKBin)"

definition SSLSetHsPSK_fn :: "env \<Rightarrow> nsref \<Rightarrow> nsref \<Rightarrow> nsref ns_op" where
  "SSLSetHsPSK_fn E inSSLBin inPSKBin =
     interface_call E (SSLSetHsPSK E inSSLBin inPSKBin)"

definition SSLSetMTU_fn :: "env \<Rightarrow> nsref \<Rightarrow> nsref \<Rightarrow> nsref ns_op" where
  "SSLSetMTU_fn E inSSLBin inMTU =
     interface_call E (SSLSetMTU E inSSLBin inMTU)"

definition SSLSetSession_fn :: "env \<Rightarrow> nsref \<Rightarrow> nsref \<Rightarrow> nsref ns_op" where
  "SSLSetSession_fn E inSSLBin inSession =
     interface_call E (SSLSetSession E inSSLBin inSession)"

definition SSLSetTimerCb_fn :: "env \<Rightarrow> nsref \<Rightarrow> nsref \<Rightarrow> nsref \<Rightarrow> nsref ns_op" where
  "SSLSetTimerCb_fn E inSSLBin inSetTimerCb inGetTimerCb =
     interface_call E (SSLSetTimerCb E inSSLBin inSetTimerCb inGetTimerCb)"

definition SSLSetup_fn :: "env \<Rightarrow> nsref \<Rightarrow> nsref \<Rightarrow> nsref ns_op" where
  "SSLSetup_fn E inSSLBin inSSLConfigBin =
     interface_call E (SSLSetup E inSSLBin inSSLConfigBin)"

definition SSLWrite_fn :: "env \<Rightarrow> nsref \<Rightarrow> nsref \<Rightarrow> nsref ns_op" where
  "SSLWrite_fn E inSSLBin inData =
     interface_call E (SSLWrite E inSSLBin inData)"

definition SSLCacheNew_fn :: "env \<Rightarrow> nsref ns_op" where
  "SSLCacheNew_fn E =
     interface_call E (SSLCacheNew E)"

definition SSLCacheSetMaxEntries_fn :: "env \<Rightarrow> nsref \<Rightarrow> nsref \<Rightarrow> nsref ns_op" where
  "SSLCacheSetMaxEntries_fn E inSSLCacheBin inMaxEntries =
     interface_call E (SSLCacheSetMaxEntries E inSSLCacheBin inMaxEntries)"

definition SSLCacheSetTimeout_fn :: "env \<Rightarrow> nsref \<Rightarrow> nsref \<Rightarrow> nsref ns_op" where
  "SSLCacheSetTimeout_fn E inSSLCacheBin inTimeout =
     interface_call E (SSLCacheSetTimeout E inSSLCacheBin inTimeout)"

definition SSLConfigNew_fn :: "env \<Rightarrow> nsref ns_op" where
  "SSLConfigNew_fn E =
     interface_call E (SSLConfigNew E)"

definition SSLConfALPNProtocol_fn :: "env \<Rightarrow> nsref \<Rightarrow> nsref \<Rightarrow> nsref ns_op" where
  "SSLConfALPNProtocol_fn E inSSLConfigBin inProtos =
     interface_call E (SSLConfALPNProtocol E inSSLConfigBin inProtos)"

definition SSLConfARC4Support_fn :: "env \<Rightarrow> nsref \<Rightarrow> nsref \<Rightarrow> nsref ns_op" where
  "SSLConfARC4Support_fn E inSSLConfigBin inARC4 =
     interface_call E (SSLConfARC4Support E inSSLConfigBin inARC4)"

definition SSLConfAuthMode_fn :: "env \<Rightarrow> nsref \<Rightarrow> nsref \<Rightarrow> nsref ns_op" where
  "SSLConfAuthMode_fn E inSSLConfigBin inAuthMode =
     interface_call E (SSLConfAuthMode E inSSLConfigBin inAuthMode)"

definition SSLConfCAChain_fn :: "env \<Rightarrow> nsref \<Rightarrow> nsref \<Rightarrow> nsref \<Rightarrow> nsref ns_op" where
  "SSLConfCAChain_fn E inSSLConfigBin inX509CrtBin inX509CrlBin =
     interface_call E (SSLConfCAChain E inSSLConfigBin inX509CrtBin inX509CrlBin)"

definition SSLConfCbcRecordSplitting_fn :: "env \<Rightarrow> nsref \<Rightarrow> nsref \<Rightarrow> nsref ns_op" where
  "SSLConfCbcRecordSplitting_fn E inSSLConfigBin inSplit =
     interface_call E (SSLConfCbcRecordSplitting E inSSLConfigBin inSplit)"

definition SSLConfCertProfile_fn :: "env \<Rightarrow> nsref \<Rightarrow> nsref \<Rightarrow> nsref ns_op" where
  "SSLConfCertProfile_fn E inSSLConfigBin inCrtbin =
     interface_call E (SSLConfCertProfile E inSSLConfigBin inCrtbin)"

definition SSLConfCertReqCAList_fn :: "env \<Rightarrow> nsref \<Rightarrow> nsref \<Rightarrow> nsref ns_op" where
  "SSLConfCertReqCAList_fn E inSSLConfigBin inCertReqCAList =
     interface_call E (SSLConfCertReqCAList E inSSLConfigBin inCertReqCAList)"

definition SSLConfCiphersuites_fn :: "env \<Rightarrow> nsref \<Rightarrow> nsref \<Rightarrow> nsref ns_op" where
  "SSLConfCiphersuites_fn E inSSLConfigBin inCiphersuites =
     interface_call E (SSLConfCiphersuites E inSSLConfigBin inCiphersuites)"

definition SSLConfCiphersuitesForVersion_fn :: "env \<Rightarrow> nsref \<Rightarrow> nsref \<Rightarrow> nsref \<Rightarrow> nsref \<Rightarrow> nsref ns_op" where
  "SSLConfCiphersuitesForVersion_fn E inSSLConfigBin inCiphersuites inMajor inMinor =
     interface_call E (SSLConfCiphersuitesForVersion E inSSLConfigBin inCiphersuites inMajor inMinor)"

definition SSLConfCurves_fn :: "env \<Rightarrow> nsref \<Rightarrow> nsref \<Rightarrow> nsref ns_op" where
  "SSLConfCurves_fn E inSSLConfigBin inCurves =
     interface_call E (SSLConfCurves E inSSLConfigBin inCurves)"

definition SSLConfDbg_fn :: "env \<Rightarrow> nsref \<Rightarrow> nsref \<Rightarrow> nsref ns_op" where
  "SSLConfDbg_fn E inSSLConfigBin inDebugCb =
     interface_call E (SSLConfDbg E inSSLConfigBin inDebugCb)"

definition SSLConfDHParamBin_fn :: "env \<Rightarrow> nsref \<Rightarrow> nsref \<Rightarrow> nsref \<Rightarrow> nsref ns_op" where
  "SSLConfDHParamBin_fn E inSSLConfigBin inDHMP inDHMG =
     interface_call E (SSLConfDHParamBin E inSSLConfigBin inDHMP inDHMG)"

definition SSLConfDHParamCtx_fn :: "env \<Rightarrow> nsref \<Rightarrow> nsref \<Rightarrow> nsref ns_op" where
  "SSLConfDHParamCtx_fn E inSSLConfigBin inDHMContextBin =
     interface_call E (SSLConfDHParamCtx E inSSLConfigBin inDHMContextBin)"

definition SSLConfDHMMinBitlen_fn :: "env \<Rightarrow> nsref \<Rightarrow> nsref \<Rightarrow> nsref ns_op" where
  "SSLConfDHMMinBitlen_fn E inSSLConfigBin inBitlen =
     interface_call E (SSLConfDHMMinBitlen E inSSLConfigBin inBitlen)"

definition SSLConfDTLSAntiReplay_fn :: "env \<Rightarrow> nsref \<Rightarrow> nsref \<Rightarrow> nsref ns_op" where
  "SSLConfDTLSAntiReplay_fn E inSSLConfigBin inMode =
     interface_call E (SSLConfDTLSAntiReplay E inSSLConfigBin inMode)"

definition SSLConfDTLSBadMACLimit_fn :: "env \<Rightarrow> nsref \<Rightarrow> nsref \<Rightarrow> nsref ns_op" where
  "SSLConfDTLSBadMACLimit_fn E inSSLConfigBin inLimit =
     interface_call E (SSLConfDTLSBadMACLimit E inSSLConfigBin inLimit)"

definition SSLConfDTLSCookies_fn :: "env \<Rightarrow> nsref \<Rightarrow> nsref \<Rightarrow> nsref \<Rightarrow> nsref ns_op" where
  "SSLConfDTLSCookies_fn E inSSLConfigBin inCookiesWriteCb inCookiesCheckCb =
     interface_call E (SSLConfDTLSCookies E inSSLConfigBin inCookiesWriteCb inCookiesCheckCb)"

definition SSLConfEncryptThenMac_fn :: "env \<Rightarrow> nsref \<Rightarrow> nsref \<Rightarrow> nsref ns_op" where
  "SSLConfEncryptThenMac_fn E inSSLConfigBin inETM =
     interface_call E (SSLConfEncryptThenMac E inSSLConfigBin inETM)"

definition SSLConfEndpoint_fn :: "env \<Rightarrow> nsref \<Rightarrow> nsref \<Rightarrow> nsref ns_op" where
  "SSLConfEndpoint_fn E inSSLConfigBin inEndpoint =
     interface_call E (SSLConfEndpoint E inSSLConfigBin inEndpoint)"

definition SSLConfExportKeysCb_fn :: "env \<Rightarrow> nsref \<Rightarrow> nsref \<Rightarrow> nsref ns_op" where
  "SSLConfExportKeysCb_fn E inSSLConfigBin inExportKeysCb =
     interface_call E (SSLConfExportKeysCb E inSSLConfigBin inExportKeysCb)"

definition SSLConfExtendedMasterSecret_fn :: "env \<Rightarrow> nsref \<Rightarrow> nsref \<Rightarrow> nsref ns_op" where
  "SSLConfExtendedMasterSecret_fn E inSSLConfigBin inEMS =
     interface_call E (SSLConfExtendedMasterSecret E inSSLConfigBin inEMS)"

definition SSLConfFallback_fn :: "env \<Rightarrow> nsref \<Rightarrow> nsref \<Rightarrow> nsref ns_op" where
  "SSLConfFallback_fn E inSSLConfigBin inFallback =
     interface_call E (SSLConfFallback E inSSLConfigBin inFallback)"

definition SSLConfHandshakeTimeout_fn :: "env \<Rightarrow> nsref \<Rightarrow> nsref \<Rightarrow> nsref \<Rightarrow> nsref ns_op" where
  "SSLConfHandshakeTimeout_fn E inSSLConfigBin inMin inMax =
     interface_call E (SSLConfHandshakeTimeout E inSSLConfigBin inMin inMax)"

definition SSLConfLegacyRenegotiation_fn :: "env \<Rightarrow> nsref \<Rightarrow> nsref \<Rightarrow> nsref ns_op" where
  "SSLConfLegacyRenegotiation_fn E inSSLConfigBin inAllowLegacy =
     interface_call E (SSLConfLegacyRenegotiation E inSSLConfigBin inAllowLegacy)"

definition SSLConfMaxFragLen_fn :: "env \<Rightarrow> nsref \<Rightarrow> nsref \<Rightarrow> nsref ns_op" where
  "SSLConfMaxFragLen_fn E inSSLConfigBin inMaxFragLen =
     interface_call E (SSLConfMaxFragLen E inSSLConfigBin inMaxFragLen)"

definition SSLConfMaxVersion_fn :: "env \<Rightarrow> nsref \<Rightarrow> nsref \<Rightarrow> nsref \<Rightarrow> nsref ns_op" where
  "SSLConfMaxVersion_fn E inSSLConfigBin inMajor inMinor =
     interface_call E (SSLConfMaxVersion E inSSLConfigBin inMajor inMinor)"

definition SSLConfMinVersion_fn :: "env \<Rightarrow> nsref \<Rightarrow> nsref \<Rightarrow> nsref \<Rightarrow> nsref ns_op" where
  "SSLConfMinVersion_fn E inSSLConfigBin inMajor inMinor =
     interface_call E (SSLConfMinVersion E inSSLConfigBin inMajor inMinor)"

definition SSLConfOwnCert_fn :: "env \<Rightarrow> nsref \<Rightarrow> nsref \<Rightarrow> nsref \<Rightarrow> nsref ns_op" where
  "SSLConfOwnCert_fn E inSSLConfigBin inCrtBin inPkBin =
     interface_call E (SSLConfOwnCert E inSSLConfigBin inCrtBin inPkBin)"

definition SSLConfPSK_fn :: "env \<Rightarrow> nsref \<Rightarrow> nsref \<Rightarrow> nsref \<Rightarrow> nsref ns_op" where
  "SSLConfPSK_fn E inSSLConfigBin inPSK inPSKIdentity =
     interface_call E (SSLConfPSK E inSSLConfigBin inPSK inPSKIdentity)"

definition SSLConfPSKCb_fn :: "env \<Rightarrow> nsref \<Rightarrow> nsref \<Rightarrow> nsref ns_op" where
  "SSLConfPSKCb_fn E inSSLConfigBin inPSKCb =
     interface_call E (SSLConfPSKCb E inSSLConfigBin inPSKCb)"

definition SSLConfRenegotiation_fn :: "env \<Rightarrow> nsref \<Rightarrow> nsref \<Rightarrow> nsref ns_op" where
  "SSLConfRenegotiation_fn E inSSLConfigBin inRenegotiation =
     interface_call E (SSLConfRenegotiation E inSSLConfigBin inRenegotiation)"

definition SSLConfRenegotiationEnforced_fn :: "env \<Rightarrow> nsref \<Rightarrow> nsref \<Rightarrow> nsref ns_op" where
  "SSLConfRenegotiationEnforced_fn E inSSLConfigBin inMaxRecords =
     interface_call E (SSLConfRenegotiationEnforced E inSSLConfigBin inMaxRecords)"

definition SSLConfRenegotiationPeriod_fn :: "env \<Rightarrow> nsref \<Rightarrow> nsref \<Rightarrow> nsref ns_op" where
  "SSLConfRenegotiationPeriod_fn E inSSLConfigBin inPeriod =
     interface_call E (SSLConfRenegotiationPeriod E inSSLConfigBin inPeriod)"

definition SSLConfRng_fn :: "env \<Rightarrow> nsref \<Rightarrow> nsref \<Rightarrow> nsref ns_op" where
  "SSLConfRng_fn E inSSLConfigBin inCtrDrbgContextBin =
     interface_call E (SSLConfRng E inSSLConfigBin inCtrDrbgContextBin)"

definition SSLConfSessionCache_fn :: "env \<Rightarrow> nsref \<Rightarrow> nsref \<Rightarrow> nsref ns_op" where
  "SSLConfSessionCache_fn E inSSLConfigBin inCacheBin =
     interface_call E (SSLConfSessionCache E inSSLConfigBin inCacheBin)"

definition SSLConfSessionTickets_fn :: "env \<Rightarrow> nsref \<Rightarrow> nsref \<Rightarrow> nsref ns_op" where
  "SSLConfSessionTickets_fn E inSSLConfigBin inUseTickets =
     interface_call E (SSLConfSessionTickets E inSSLConfigBin inUseTickets)"

definition SSLConfSessionTicketsCb_fn :: "env \<Rightarrow> nsref \<Rightarrow> nsref \<Rightarrow> nsref \<Rightarrow> nsref ns_op" where
  "SSLConfSessionTicketsCb_fn E inSSLConfigBin inTicketWriteCb inTicketParseCb =
     interface_call E (SSLConfSessionTicketsCb E inSSLConfigBin inTicketWriteCb inTicketParseCb)"

definition SSLConfSigHashes_fn :: "env \<Rightarrow> nsref \<Rightarrow> nsref \<Rightarrow> nsref ns_op" where
  "SSLConfSigHashes_fn E inSSLConfigBin inSigHashes =
     interface_call E (SSLConfSigHashes E inSSLConfigBin inSigHashes)"

definition SSLConfSNI_fn :: "env \<Rightarrow> nsref \<Rightarrow> nsref \<Rightarrow> nsref ns_op" where
  "SSLConfSNI_fn E inSSLConfigBin inSNICb =
     interface_call E (SSLConfSNI E inSSLConfigBin inSNICb)"

definition SSLConfTransport_fn :: "env \<Rightarrow> nsref \<Rightarrow> nsref \<Rightarrow> nsref ns_op" where
  "SSLConfTransport_fn E inSSLConfigBin inTransport =
     interface_call E (SSLConfTransport E inSSLConfigBin inTransport)"

definition SSLConfTruncatedHMAC_fn :: "env \<Rightarrow> nsref \<Rightarrow> nsref \<Rightarrow> nsref ns_op" where
  "SSLConfTruncatedHMAC_fn E inSSLConfigBin inTruncate =
     interface_call E (SSLConfTruncatedHMAC E inSSLConfigBin inTruncate)"

definition SSLConfVerify_fn :: "env \<Rightarrow> nsref \<Rightarrow> nsref \<Rightarrow> nsref ns_op" where
  "SSLConfVerify_fn E inSSLConfigBin inVerifyCb =
     interface_call E (SSLConfVerify E inSSLConfigBin inVerifyCb)"

definition SSLConfigDefaults_fn :: "env \<Rightarrow> nsref \<Rightarrow> nsref \<Rightarrow> nsref \<Rightarrow> nsref ns_op" where
  "SSLConfigDefaults_fn E inSSLConfigBin inEndpoint inTransport =
     interface_call E (SSLConfigDefaults E inSSLConfigBin inEndpoint inTransport)"

definition SSLSessionNew_fn :: "env \<Rightarrow> nsref ns_op" where
  "SSLSessionNew_fn E =
     interface_call E (SSLSessionNew E)"

definition X509CrlNew_fn :: "env \<Rightarrow> nsref ns_op" where
  "X509CrlNew_fn E =
     interface_call E (X509CrlNew E)"

definition X509CrlParse_fn :: "env \<Rightarrow> nsref \<Rightarrow> nsref \<Rightarrow> nsref ns_op" where
  "X509CrlParse_fn E inX509CrlBin inCRLBin =
     interface_call E (X509CrlParse E inX509CrlBin inCRLBin)"

definition X509CrtNew_fn :: "env \<Rightarrow> nsref ns_op" where
  "X509CrtNew_fn E =
     interface_call E (X509CrtNew E)"

definition X509CrtParse_fn :: "env \<Rightarrow> nsref \<Rightarrow> nsref \<Rightarrow> nsref ns_op" where
  "X509CrtParse_fn E inX509CrtBin inCertificateBin =
     interface_call E (X509CrtParse E inX509CrtBin inCertificateBin)"

definition X509CrtCount_fn :: "env \<Rightarrow> nsref \<Rightarrow> nsref ns_op" where
  "X509CrtCount_fn E inX509CrtBin =
     interface_call E (X509CrtCount E inX509CrtBin)"

definition X509CrtGetDER_fn :: "env \<Rightarrow> nsref \<Rightarrow> nsref \<Rightarrow> nsref ns_op" where
  "X509CrtGetDER_fn E inX509CrtBin inIndex =
     interface_call E (X509CrtGetDER E inX509CrtBin inIndex)"

definition X509CrtGetVersion_fn :: "env \<Rightarrow> nsref \<Rightarrow> nsref \<Rightarrow> nsref ns_op" where
  "X509CrtGetVersion_fn E inX509CrtBin inIndex =
     interface_call E (X509CrtGetVersion E inX509CrtBin inIndex)"

definition X509CrtGetSerialNumber_fn :: "env \<Rightarrow> nsref \<Rightarrow> nsref \<Rightarrow> nsref ns_op" where
  "X509CrtGetSerialNumber_fn E inX509CrtBin inIndex =
     interface_call E (X509CrtGetSerialNumber E inX509CrtBin inIndex)"

definition X509CrtGetIssuerName_fn :: "env \<Rightarrow> nsref \<Rightarrow> nsref \<Rightarrow> nsref ns_op" where
  "X509CrtGetIssuerName_fn E inX509CrtBin inIndex =
     interface_call E (X509CrtGetIssuerName E inX509CrtBin inIndex)"

definition X509CrtGetSubjectName_fn :: "env \<Rightarrow> nsref \<Rightarrow> nsref \<Rightarrow> nsref ns_op" where
  "X509CrtGetSubjectName_fn E inX509CrtBin inIndex =
     interface_call E (X509CrtGetSubjectName E inX509CrtBin inIndex)"

definition X509CrtGetIssueDate_fn :: "env \<Rightarrow> nsref \<Rightarrow> nsref \<Rightarrow> nsref ns_op" where
  "X509CrtGetIssueDate_fn E inX509CrtBin inIndex =
     interface_call E (X509CrtGetIssueDate E inX509CrtBin inIndex)"

definition X509CrtGetExpirationDate_fn :: "env \<Rightarrow> nsref \<Rightarrow> nsref \<Rightarrow> nsref ns_op" where
  "X509CrtGetExpirationDate_fn E inX509CrtBin inIndex =
     interface_call E (X509CrtGetExpirationDate E inX509CrtBin inIndex)"

definition X509CrtGetSignatureAlgorithm_fn :: "env \<Rightarrow> nsref \<Rightarrow> nsref \<Rightarrow> nsref ns_op" where
  "X509CrtGetSignatureAlgorithm_fn E inX509CrtBin inIndex =
     interface_call E (X509CrtGetSignatureAlgorithm E inX509CrtBin inIndex)"

definition Install_fn :: "env \<Rightarrow> nsref ns_op" where
  "Install_fn E = andthen (GetInterfaceSingleton E True) (\<lambda>_. return_with NILREF)"

definition Remove_fn :: "env \<Rightarrow> nsref ns_op" where
  "Remove_fn E = andthen (DeleteInterfaceSingleton E) (\<lambda>_. return_with NILREF)"

definition InstallConnectionEnd_fn :: "env \<Rightarrow> nsref ns_op" where
  "InstallConnectionEnd_fn E = interface_call E (InstallConnectionEnd E)"

definition RemoveConnectionEnd_fn :: "env \<Rightarrow> nsref ns_op" where
  "RemoveConnectionEnd_fn E = andthen (GetInterfaceSingleton E False) (\<lambda>found.
     if found then RemoveConnectionEnd E else return_with NILREF)"

section \<open>The table of exports\<close>

text \<open>The arguments of a call are as many as the table says.\<close>

definition exports_objects :: "env \<Rightarrow> (string \<times> nat \<times> (nsref list \<Rightarrow> nsref ns_op)) list" where
  "exports_objects E =
    [(''GetVersion'', 0, \<lambda>as. GetVersion_fn E),
     (''SSLListCiphersuites'', 0, \<lambda>as. SSLListCiphersuites_fn E),
     (''EntropyNew'', 0, \<lambda>as. EntropyNew_fn E),
     (''CtrDrbgNew'', 0, \<lambda>as. CtrDrbgNew_fn E),
     (''CtrDrbgSeed'', 3, \<lambda>as. CtrDrbgSeed_fn E (as ! 0) (as ! 1) (as ! 2)),
     (''PKNew'', 0, \<lambda>as. PKNew_fn E),
     (''X509CrlNew'', 0, \<lambda>as. X509CrlNew_fn E),
     (''X509CrlParse'', 2, \<lambda>as. X509CrlParse_fn E (as ! 0) (as ! 1)),
     (''X509CrtNew'', 0, \<lambda>as. X509CrtNew_fn E),
     (''X509CrtParse'', 2, \<lambda>as. X509CrtParse_fn E (as ! 0) (as ! 1)),
     (''X509CrtCount'', 1, \<lambda>as. X509CrtCount_fn E (as ! 0)),
     (''X509CrtGetDER'', 2, \<lambda>as. X509CrtGetDER_fn E (as ! 0) (as ! 1)),
     (''X509CrtGetVersion'', 2, \<lambda>as. X509CrtGetVersion_fn E (as ! 0) (as ! 1)),
     (''X509CrtGetSerialNumber'', 2, \<lambda>as. X509CrtGetSerialNumber_fn E (as ! 0) (as ! 1)),
     (''X509CrtGetIssuerName'', 2, \<lambda>as. X509CrtGetIssuerName_fn E (as ! 0) (as ! 1)),
     (''X509CrtGetSubjectName'', 2, \<lambda>as. X509CrtGetSubjectName_fn E (as ! 0) (as ! 1)),
     (''X509CrtGetIssueDate'', 2, \<lambda>as. X509CrtGetIssueDate_fn E (as ! 0) (as ! 1)),
     (''X509CrtGetExpirationDate'', 2, \<lambda>as. X509CrtGetExpirationDate_fn E (as ! 0) (as ! 1)),
     (''X509CrtGetSignatureAlgorithm'', 2, \<lambda>as. X509CrtGetSignatureAlgorithm_fn E (as ! 0) (as ! 1)),
     (''Install'', 0, \<lambda>as. Install_fn E),
     (''Remove'', 0, \<lambda>as. Remove_fn E),
     (''InstallConnectionEnd'', 0, \<lambda>as. InstallConnectionEnd_fn E),
     (''RemoveConnectionEnd'', 0, \<lambda>as. RemoveConnectionEnd_fn E)]"

definition exports_ssl :: "env \<Rightarrow> (string \<times> nat \<times> (nsref list \<Rightarrow> nsref ns_op)) list" where
  "exports_ssl E =
    [(''SSLNew'', 0, \<lambda>as. SSLNew_fn E),
     (''SSLCheckPending'', 1, \<lambda>as. SSLCheckPending_fn E (as ! 0)),
     (''SSLCloseNotify'', 1, \<lambda>as. SSLCloseNotify_fn E (as ! 0)),
     (''SSLGetALPNProtocol'', 1, \<lambda>as. SSLGetALPNProtocol_fn E (as ! 0)),
     (''SSLGetBytesAvail'', 1, \<lambda>as. SSLGetBytesAvail_fn E (as ! 0)),
     (''SSLGetCiphersuite'', 1, \<lambda>as. SSLGetCiphersuite_fn E (as ! 0)),
     (''SSLGetMaxFragLen'', 1, \<lambda>as. SSLGetMaxFragLen_fn E (as ! 0)),
     (''SSLGetMaxOutRecordPayload'', 1, \<lambda>as. SSLGetMaxOutRecordPayload_fn E (as ! 0)),
     (''SSLGetPeerCert'', 1, \<lambda>as. SSLGetPeerCert_fn E (as ! 0)),
     (''SSLGetRecordExpansion'', 1, \<lambda>as. SSLGetRecordExpansion_fn E (as ! 0)),
     (''SSLGetSession'', 1, \<lambda>as. SSLGetSession_fn E (as ! 0)),
     (''SSLGetVerifyResult'', 1, \<lambda>as. SSLGetVerifyResult_fn E (as ! 0)),
     (''SSLGetVersion'', 1, \<lambda>as. SSLGetVersion_fn E (as ! 0)),
     (''SSLHandshake'', 1, \<lambda>as. SSLHandshake_fn E (as ! 0)),
     (''SSLHandshakeStep'', 1, \<lambda>as. SSLHandshakeStep_fn E (as ! 0)),
     (''SSLRead'', 2, \<lambda>as. SSLRead_fn E (as ! 0) (as ! 1)),
     (''SSLRenegotiate'', 1, \<lambda>as. SSLRenegotiate_fn E (as ! 0)),
     (''SSLSendAlertMessage'', 3, \<lambda>as. SSLSendAlertMessage_fn E (as ! 0) (as ! 1) (as ! 2)),
     (''SSLSessionReset'', 1, \<lambda>as. SSLSessionReset_fn E (as ! 0)),
     (''SSLSetBIO'', 3, \<lambda>as. SSLSetBIO_fn E (as ! 0) (as ! 1) (as ! 2)),
     (''SSLSetClientTransportID'', 2, \<lambda>as. SSLSetClientTransportID_fn E (as ! 0) (as ! 1)),
     (''SSLSetDatagramPacking'', 2, \<lambda>as. SSLSetDatagramPacking_fn E (as ! 0) (as ! 1)),
     (''SSLSetHostname'', 2, \<lambda>as. SSLSetHostname_fn E (as ! 0) (as ! 1)),
     (''SSLSetHsAuthMode'', 2, \<lambda>as. SSLSetHsAuthMode_fn E (as ! 0) (as ! 1)),
     (''SSLSetHsCAChain'', 3, \<lambda>as. SSLSetHsCAChain_fn E (as ! 0) (as ! 1) (as ! 2)),
     (''SSLSetHsOwnCert'', 3, \<lambda>as. SSLSetHsOwnCert_fn E (as ! 0) (as ! 1) (as ! 2)),
     (''SSLSetHsPSK'', 2, \<lambda>as. SSLSetHsPSK_fn E (as ! 0) (as ! 1)),
     (''SSLSetMTU'', 2, \<lambda>as. SSLSetMTU_fn E (as ! 0) (as ! 1)),
     (''SSLSetSession'', 2, \<lambda>as. SSLSetSession_fn E (as ! 0) (as ! 1)),
     (''SSLSetTimerCb'', 3, \<lambda>as. SSLSetTimerCb_fn E (as ! 0) (as ! 1) (as ! 2)),
     (''SSLSetup'', 2, \<lambda>as. SSLSetup_fn E (as ! 0) (as ! 1)),
     (''SSLWrite'', 2, \<lambda>as. SSLWrite_fn E (as ! 0) (as ! 1)),
     (''SSLCacheNew'', 0, \<lambda>as. SSLCacheNew_fn E),
     (''SSLCacheSetMaxEntries'', 2, \<lambda>as. SSLCacheSetMaxEntries_fn E (as ! 0) (as ! 1)),
     (''SSLCacheSetTimeout'', 2, \<lambda>as. SSLCacheSetTimeout_fn E (as ! 0) (as ! 1)),
     (''SSLSessionNew'', 0, \<lambda>as. SSLSessionNew_fn E)]"

definition exports_conf :: "env \<Rightarrow> (string \<times> nat \<times> (nsref list \<Rightarrow> nsref ns_op)) list" where
  "exports_conf E =
    [(''SSLConfigNew'', 0, \<lambda>as. SSLConfigNew_fn E),
     (''SSLConfALPNProtocol'', 2, \<lambda>as. SSLConfALPNProtocol_fn E (as ! 0) (as ! 1)),
     (''SSLConfARC4Support'', 2, \<lambda>as. SSLConfARC4Support_fn E (as ! 0) (as ! 1)),
     (''SSLConfAuthMode'', 2, \<lambda>as. SSLConfAuthMode_fn E (as ! 0) (as ! 1)),
     (''SSLConfCAChain'', 3, \<lambda>as. SSLConfCAChain_fn E (as ! 0) (as ! 1) (as ! 2)),
     (''SSLConfCbcRecordSplitting'', 2, \<lambda>as. SSLConfCbcRecordSplitting_fn E (as ! 0) (as ! 1)),
     (''SSLConfCertProfile'', 2, \<lambda>as. SSLConfCertProfile_fn E (as ! 0) (as ! 1)),
     (''SSLConfCertReqCAList'', 2, \<lambda>as. SSLConfCertReqCAList_fn E (as ! 0) (as ! 1)),
     (''SSLConfCiphersuites'', 2, \<lambda>as. SSLConfCiphersuites_fn E (as ! 0) (as ! 1)),
     (''SSLConfCiphersuitesForVersion'', 4, \<lambda>as. SSLConfCiphersuitesForVersion_fn E (as ! 0) (as ! 1) (as ! 2) (as ! 3)),
     (''SSLConfCurves'', 2, \<lambda>as. SSLConfCurves_fn E (as ! 0) (as ! 1)),
     (''SSLConfDbg'', 2, \<lambda>as. SSLConfDbg_fn E (as ! 0) (as ! 1)),
     (''SSLConfDHParamBin'', 3, \<lambda>as. SSLConfDHParamBin_fn E (as ! 0) (as ! 1) (as ! 2)),
     (''SSLConfDHParamCtx'', 2, \<lambda>as. SSLConfDHParamCtx_fn E (as ! 0) (as ! 1)),
     (''SSLConfDHMMinBitlen'', 2, \<lambda>as. SSLConfDHMMinBitlen_fn E (as ! 0) (as ! 1)),
     (''SSLConfDTLSAntiReplay'', 2, \<lambda>as. SSLConfDTLSAntiReplay_fn E (as ! 0) (as ! 1)),
     (''SSLConfDTLSBadMACLimit'', 2, \<lambda>as. SSLConfDTLSBadMACLimit_fn E (as ! 0) (as ! 1)),
     (''SSLConfDTLSCookies'', 3, \<lambda>as. SSLConfDTLSCookies_fn E (as ! 0) (as ! 1) (as ! 2)),
     (''SSLConfEncryptThenMac'', 2, \<lambda>as. SSLConfEncryptThenMac_fn E (as ! 0) (as ! 1)),
     (''SSLConfEndpoint'', 2, \<lambda>as. SSLConfEndpoint_fn E (as ! 0) (as ! 1)),
     (''SSLConfExportKeysCb'', 2, \<lambda>as. SSLConfExportKeysCb_fn E (as ! 0) (as ! 1)),
     (''SSLConfExtendedMasterSecret'', 2, \<lambda>as. SSLConfExtendedMasterSecret_fn E (as ! 0) (as ! 1)),
     (''SSLConfFallback'', 2, \<lambda>as. SSLConfFallback_fn E (as ! 0) (as ! 1)),
     (''SSLConfHandshakeTimeout'', 3, \<lambda>as. SSLConfHandshakeTimeout_fn E (as ! 0) (as ! 1) (as ! 2)),
     (''SSLConfLegacyRenegotiation'', 2, \<lambda>as. SSLConfLegacyRenegotiation_fn E (as ! 0) (as ! 1)),
     (''SSLConfMaxFragLen'', 2, \<lambda>as. SSLConfMaxFragLen_fn E (as ! 0) (as ! 1)),
     (''SSLConfMaxVersion'', 3, \<lambda>as. SSLConfMaxVersion_fn E (as ! 0) (as ! 1) (as ! 2)),
     (''SSLConfMinVersion'', 3, \<lambda>as. SSLConfMinVersion_fn E (as ! 0) (as ! 1) (as ! 2)),
     (''SSLConfOwnCert'', 3, \<lambda>as. SSLConfOwnCert_fn E (as ! 0) (as ! 1) (as ! 2)),
     (''SSLConfPSK'', 3, \<lambda>as. SSLConfPSK_fn E (as ! 0) (as ! 1) (as ! 2)),
     (''SSLConfPSKCb'', 2, \<lambda>as. SSLConfPSKCb_fn E (as ! 0) (as ! 1)),
     (''SSLConfRenegotiation'', 2, \<lambda>as. SSLConfRenegotiation_fn E (as ! 0) (as ! 1)),
     (''SSLConfRenegotiationEnforced'', 2, \<lambda>as. SSLConfRenegotiationEnforced_fn E (as ! 0) (as ! 1)),
     (''SSLConfRenegotiationPeriod'', 2, \<lambda>as. SSLConfRenegotiationPeriod_fn E (as ! 0) (as ! 1)),
     (''SSLConfRng'', 2, \<lambda>as. SSLConfRng_fn E (as ! 0) (as ! 1)),
     (''SSLConfSessionCache'', 2, \<lambda>as. SSLConfSessionCache_fn E (as ! 0) (as ! 1)),
     (''SSLConfSessionTickets'', 2, \<lambda>as. SSLConfSessionTickets_fn E (as ! 0) (as ! 1)),
     (''SSLConfSessionTicketsCb'', 3, \<lambda>as. SSLConfSessionTicketsCb_fn E (as ! 0) (as ! 1) (as ! 2)),
     (''SSLConfSigHashes'', 2, \<lambda>as. SSLConfSigHashes_fn E (as ! 0) (as ! 1)),
     (''SSLConfSNI'', 2, \<lambda>as. SSLConfSNI_fn E (as ! 0) (as ! 1)),
     (''SSLConfTransport'', 2, \<lambda>as. SSLConfTransport_fn E (as ! 0) (as ! 1)),
     (''SSLConfTruncatedHMAC'', 2, \<lambda>as. SSLConfTruncatedHMAC_fn E (as ! 0) (as ! 1)),
     (''SSLConfVerify'', 2, \<lambda>as. SSLConfVerify_fn E (as ! 0) (as ! 1)),
     (''SSLConfigDefaults'', 3, \<lambda>as. SSLConfigDefaults_fn E (as ! 0) (as ! 1) (as ! 2))]"

lemmas exports_ssl_fns =
  SSLNew_fn_def SSLCheckPending_fn_def SSLCloseNotify_fn_def SSLGetALPNProtocol_fn_def SSLGetBytesAvail_fn_def SSLGetCiphersuite_fn_def SSLGetMaxFragLen_fn_def SSLGetMaxOutRecordPayload_fn_def SSLGetPeerCert_fn_def SSLGetRecordExpansion_fn_def SSLGetSession_fn_def SSLGetVerifyResult_fn_def SSLGetVersion_fn_def SSLHandshake_fn_def SSLHandshakeStep_fn_def SSLRead_fn_def SSLRenegotiate_fn_def SSLSendAlertMessage_fn_def SSLSessionReset_fn_def SSLSetBIO_fn_def SSLSetClientTransportID_fn_def SSLSetDatagramPacking_fn_def SSLSetHostname_fn_def SSLSetHsAuthMode_fn_def SSLSetHsCAChain_fn_def SSLSetHsOwnCert_fn_def SSLSetHsPSK_fn_def SSLSetMTU_fn_def SSLSetSession_fn_def SSLSetTimerCb_fn_def SSLSetup_fn_def SSLWrite_fn_def SSLCacheNew_fn_def SSLCacheSetMaxEntries_fn_def SSLCacheSetTimeout_fn_def SSLSessionNew_fn_def

lemmas exports_conf_fns =
  SSLConfigNew_fn_def SSLConfALPNProtocol_fn_def SSLConfARC4Support_fn_def SSLConfAuthMode_fn_def SSLConfCAChain_fn_def SSLConfCbcRecordSplitting_fn_def SSLConfCertProfile_fn_def SSLConfCertReqCAList_fn_def SSLConfCiphersuites_fn_def SSLConfCiphersuitesForVersion_fn_def SSLConfCurves_fn_def SSLConfDbg_fn_def SSLConfDHParamBin_fn_def SSLConfDHParamCtx_fn_def SSLConfDHMMinBitlen_fn_def SSLConfDTLSAntiReplay_fn_def SSLConfDTLSBadMACLimit_fn_def SSLConfDTLSCookies_fn_def SSLConfEncryptThenMac_fn_def SSLConfEndpoint_fn_def SSLConfExportKeysCb_fn_def SSLConfExtendedMasterSecret_fn_def SSLConfFallback_fn_def SSLConfHandshakeTimeout_fn_def SSLConfLegacyRenegotiation_fn_def SSLConfMaxFragLen_fn_def SSLConfMaxVersion_fn_def SSLConfMinVersion_fn_def SSLConfOwnCert_fn_def SSLConfPSK_fn_def SSLConfPSKCb_fn_def SSLConfRenegotiation_fn_def SSLConfRenegotiationEnforced_fn_def SSLConfRenegotiationPeriod_fn_def SSLConfRng_fn_def SSLConfSessionCache_fn_def SSLConfSessionTickets_fn_def SSLConfSessionTicketsCb_fn_def SSLConfSigHashes_fn_def SSLConfSNI_fn_def SSLConfTransport_fn_def SSLConfTruncatedHMAC_fn_def SSLConfVerify_fn_def SSLConfigDefaults_fn_def

lemmas exports_objects_fns =
  GetVersion_fn_def SSLListCiphersuites_fn_def EntropyNew_fn_def CtrDrbgNew_fn_def CtrDrbgSeed_fn_def PKNew_fn_def X509CrlNew_fn_def X509CrlParse_fn_def X509CrtNew_fn_def X509CrtParse_fn_def X509CrtCount_fn_def X509CrtGetDER_fn_def X509CrtGetVersion_fn_def X509CrtGetSerialNumber_fn_def X509CrtGetIssuerName_fn_def X509CrtGetSubjectName_fn_def X509CrtGetIssueDate_fn_def X509CrtGetExpirationDate_fn_def X509CrtGetSignatureAlgorithm_fn_def Install_fn_def Remove_fn_def InstallConnectionEnd_fn_def RemoveConnectionEnd_fn_def

definition exports :: "env \<Rightarrow> (string \<times> nat \<times> (nsref list \<Rightarrow> nsref ns_op)) list" where
  "exports E = exports_objects E @ exports_ssl E @ exports_conf E"

end
