(* ===== verification/NS_Locks.thy ===== *)
theory NS_Locks
  imports NS_Module
begin

text \<open>
  The locking discipline of the bindings, from the rules of their parts: every exported
  function unlocks what it locks, in reverse order, when it returns and when it throws, as
  long as the scripts it calls do.
\<close>

section \<open>Computations from one state\<close>

lemma andthen_at:
  assumes "keeps_at s m" and "\<And>x s1. m s = (Returns x, s1) \<Longrightarrow> keeps_at s1 (f x)"
  shows "keeps_at s (andthen m f)"
proof -
  obtain r s1 where m: "m s = (r, s1)" by fastforce
  show ?thesis
  proof (cases r)
    case (Returns x)
    then have "keeps_at s1 (f x)" "andthen m f s = f x s1"
      using assms(2) m by (simp_all add: andthen_def)
    moreover obtain es where "nested es" "history s1 = history s @ es"
      using assms(1) m Returns by (auto simp: keeps_at_def)
    ultimately show ?thesis
      by (auto simp: keeps_at_def)
  next
    case (Throws e)
    then show ?thesis using assms(1) m by (simp add: keeps_at_def andthen_def)
  next
    case Undefined
    then show ?thesis using m by (simp add: keeps_at_def andthen_def)
  qed
qed

lemma Length_at:
  assumes "\<And>n. has_length E s r \<Longrightarrow> keeps_at s (f n)"
  shows "keeps_at s (andthen (Length E r) f)"
proof (rule andthen_at)
  show "keeps_at s (Length E r)" by (intro keeps_locks_at locks_intros)
  fix n s1 assume "Length E r s = (Returns n, s1)"
  then show "keeps_at s1 (f n)"
    using Length_throws [of E s r] Length_silent(1) [of E r s] assms [of n]
    by (cases "has_length E s r") auto
qed

section \<open>Bindings\<close>

named_theorems binding_keeps "bindings that keep the locking discipline"

lemma keeps_updates [locks_intros]: "keeps_locks (update_context a u)" "keeps_locks (update_config a v)"
  by (auto simp: update_context_def update_config_def intro!: keeps_locks_silent split: addr.split)

lemma keeps_session_dtor [locks_intros]: "keeps_locks (SSLSessionDtor a)"
  by (simp add: SSLSessionDtor_def locks_intros)

lemma keeps_chain [locks_intros]: "keeps_locks (chain_at E a)"
  by (auto simp: chain_at_def intro!: keeps_locks_silent split: list.split)

lemma keeps_walk [locks_intros]: "keeps_locks (walk r cs i)"
  by (induction r cs i rule: walk.induct) (simp_all add: locks_intros)

lemma keeps_readers [locks_intros]:
  "(\<And>c. keeps_locks (body c)) \<Longrightarrow> keeps_locks (with_certificate E a b body)"
  "keeps_locks (text_or_throw E x)" "keeps_locks (subject_checked c d)"
  by (auto simp: with_certificate_def text_or_throw_def subject_checked_def intro!: locks_intros
      split: prod.split)

lemma keeps_set_names [locks_intros]: "keeps_locks (set_names E r i cs)"
  by (induction E r i cs rule: set_names.induct) (simp_all add: locks_intros)

lemma keeps_array_bytes [locks_intros]: "keeps_locks (array_bytes E r is)"
  by (induction E r "is" rule: array_bytes.induct) (simp_all add: locks_intros)

lemma keeps_CastEnabled [locks_intros]: "keeps_locks (CastEnabled E r)"
  by (simp add: CastEnabled_def locks_intros)

lemma keeps_ListCiphersuites [binding_keeps]: "keeps_locks (SSLListCiphersuites E)"
  by (auto simp: SSLListCiphersuites_def Let_def intro!: locks_intros)

lemma keeps_NS_SSL_0 [binding_keeps]:
  assumes scripts: "scripts_keep_locks E"
  shows "keeps_locks (SSLNew E)"
    "keeps_locks (SSLCheckPending E a)"
    "keeps_locks (SSLCloseNotify E a)"
    "keeps_locks (SSLGetALPNProtocol E a)"
    "keeps_locks (SSLGetBytesAvail E a)"
    "keeps_locks (SSLGetCiphersuite E a)"
    "keeps_locks (SSLGetMaxFragLen E a)"
    "keeps_locks (SSLGetMaxOutRecordPayload E a)"
    "keeps_locks (SSLGetPeerCert E a)"
    "keeps_locks (SSLGetRecordExpansion E a)"
  unfolding SSLNew_def SSLCheckPending_def SSLCloseNotify_def SSLGetALPNProtocol_def SSLGetBytesAvail_def SSLGetCiphersuite_def SSLGetMaxFragLen_def SSLGetMaxOutRecordPayload_def SSLGetPeerCert_def SSLGetRecordExpansion_def
  by ((intro locks_intros keeps_calls scripts impI allI conjI | simp split: option.split prod.split)+)

lemma keeps_NS_SSL_1 [binding_keeps]:
  assumes scripts: "scripts_keep_locks E"
  shows "keeps_locks (SSLGetSession E a)"
    "keeps_locks (SSLGetVerifyResult E a)"
    "keeps_locks (SSLGetVersion E a)"
    "keeps_locks (SSLHandshake E a)"
    "keeps_locks (SSLHandshakeStep E a)"
    "keeps_locks (SSLRead E a b)"
    "keeps_locks (SSLRenegotiate E a)"
    "keeps_locks (SSLSendAlertMessage E a b c)"
    "keeps_locks (SSLSessionReset E a)"
    "keeps_locks (SSLWrite E a b)"
  unfolding SSLGetSession_def SSLGetVerifyResult_def SSLGetVersion_def SSLHandshake_def SSLHandshakeStep_def SSLRead_def SSLRenegotiate_def SSLSendAlertMessage_def SSLSessionReset_def SSLWrite_def
  by ((intro locks_intros keeps_calls scripts impI allI conjI | simp split: option.split prod.split)+)

lemma keeps_NS_SSL_2 [binding_keeps]:
  assumes scripts: "scripts_keep_locks E"
  shows "keeps_locks (SSLSetBIO E a b c)"
    "keeps_locks (SSLSetDatagramPacking E a b)"
    "keeps_locks (SSLSetHsAuthMode E a b)"
    "keeps_locks (SSLSetHsCAChain E a b c)"
    "keeps_locks (SSLSetHsOwnCert E a b c)"
    "keeps_locks (SSLSetHsPSK E a b)"
    "keeps_locks (SSLSetMTU E a b)"
    "keeps_locks (SSLSetSession E a b)"
    "keeps_locks (SSLSetTimerCb E a b c)"
    "keeps_locks (SSLSetup E a b)"
  unfolding SSLSetBIO_def SSLSetDatagramPacking_def SSLSetHsAuthMode_def SSLSetHsCAChain_def SSLSetHsOwnCert_def SSLSetHsPSK_def SSLSetMTU_def SSLSetSession_def SSLSetTimerCb_def SSLSetup_def
  by ((intro locks_intros keeps_calls scripts impI allI conjI | simp split: option.split prod.split)+)

lemma keeps_NS_SSL_3 [binding_keeps]:
  assumes scripts: "scripts_keep_locks E"
  shows "keeps_locks (SSLCacheNew E)"
    "keeps_locks (SSLCacheSetMaxEntries E a b)"
    "keeps_locks (SSLCacheSetTimeout E a b)"
    "keeps_locks (SSLSessionNew E)"
  unfolding SSLCacheNew_def SSLCacheSetMaxEntries_def SSLCacheSetTimeout_def SSLSessionNew_def
  by ((intro locks_intros keeps_calls scripts impI allI conjI | simp split: option.split prod.split)+)

lemma keeps_NS_X509_0 [binding_keeps]:
  assumes scripts: "scripts_keep_locks E"
  shows "keeps_locks (GetVersion E)"
    "keeps_locks (EntropyNew E)"
    "keeps_locks (CtrDrbgNew E)"
    "keeps_locks (PKNew E)"
    "keeps_locks (X509CrtNew E)"
    "keeps_locks (X509CrlNew E)"
    "keeps_locks (X509CrtCount E a)"
    "keeps_locks (X509CrtGetDER E a b)"
    "keeps_locks (X509CrtGetVersion E a b)"
    "keeps_locks (X509CrtGetSerialNumber E a b)"
  unfolding GetVersion_def EntropyNew_def CtrDrbgNew_def PKNew_def X509CrtNew_def X509CrlNew_def X509CrtCount_def X509CrtGetDER_def X509CrtGetVersion_def X509CrtGetSerialNumber_def
  by ((intro locks_intros keeps_calls scripts impI allI conjI | simp split: option.split prod.split)+)

lemma keeps_NS_X509_1 [binding_keeps]:
  assumes scripts: "scripts_keep_locks E"
  shows "keeps_locks (X509CrtGetIssuerName E a b)"
    "keeps_locks (X509CrtGetSubjectName E a b)"
    "keeps_locks (X509CrtGetIssueDate E a b)"
    "keeps_locks (X509CrtGetExpirationDate E a b)"
    "keeps_locks (X509CrtGetSignatureAlgorithm E a b)"
  unfolding X509CrtGetIssuerName_def X509CrtGetSubjectName_def X509CrtGetIssueDate_def X509CrtGetExpirationDate_def X509CrtGetSignatureAlgorithm_def
  by ((intro locks_intros keeps_calls scripts impI allI conjI | simp split: option.split prod.split)+)

lemma keeps_NS_Conf_0 [binding_keeps]:
  assumes scripts: "scripts_keep_locks E"
  shows "keeps_locks (SSLConfigNew E)"
    "keeps_locks (SSLConfigDefaults E a b c)"
    "keeps_locks (SSLConfAuthMode E a b)"
    "keeps_locks (SSLConfCAChain E a b c)"
    "keeps_locks (SSLConfEndpoint E a b)"
    "keeps_locks (SSLConfHandshakeTimeout E a b c)"
    "keeps_locks (SSLConfLegacyRenegotiation E a b)"
    "keeps_locks (SSLConfMaxFragLen E a b)"
    "keeps_locks (SSLConfMaxVersion E a b c)"
    "keeps_locks (SSLConfMinVersion E a b c)"
  unfolding SSLConfigNew_def SSLConfigDefaults_def SSLConfAuthMode_def SSLConfCAChain_def SSLConfEndpoint_def SSLConfHandshakeTimeout_def SSLConfLegacyRenegotiation_def SSLConfMaxFragLen_def SSLConfMaxVersion_def SSLConfMinVersion_def
  by ((intro locks_intros keeps_calls scripts impI allI conjI | simp split: option.split prod.split)+)

lemma keeps_NS_Conf_1 [binding_keeps]:
  assumes scripts: "scripts_keep_locks E"
  shows "keeps_locks (SSLConfOwnCert E a b c)"
    "keeps_locks (SSLConfPSK E a b c)"
    "keeps_locks (SSLConfRenegotiation E a b)"
    "keeps_locks (SSLConfRenegotiationEnforced E a b)"
    "keeps_locks (SSLConfRng E a b)"
    "keeps_locks (SSLConfSessionTickets E a b)"
    "keeps_locks (SSLConfSNI E a b)"
    "keeps_locks (SSLConfTransport E a b)"
    "keeps_locks (SSLConfTruncatedHMAC E a b)"
    "keeps_locks (SSLConfVerify E a b)"
  unfolding SSLConfOwnCert_def SSLConfPSK_def SSLConfRenegotiation_def SSLConfRenegotiationEnforced_def SSLConfRng_def SSLConfSessionTickets_def SSLConfSNI_def SSLConfTransport_def SSLConfTruncatedHMAC_def SSLConfVerify_def
  by ((intro locks_intros keeps_calls scripts impI allI conjI | simp split: option.split prod.split)+)

lemma keeps_unimplemented: "keeps_locks (unimplemented E a)"
  unfolding unimplemented_def by (intro locks_intros)

lemma keeps_unimplemented_methods [binding_keeps]:
  "keeps_locks (SSLConfALPNProtocol E a b)"
  "keeps_locks (SSLConfARC4Support E a b)"
  "keeps_locks (SSLConfCbcRecordSplitting E a b)"
  "keeps_locks (SSLConfCertProfile E a b)"
  "keeps_locks (SSLConfCertReqCAList E a b)"
  "keeps_locks (SSLConfCiphersuites E a b)"
  "keeps_locks (SSLConfCiphersuitesForVersion E a b c d)"
  "keeps_locks (SSLConfCurves E a b)"
  "keeps_locks (SSLConfDbg E a b)"
  "keeps_locks (SSLConfDHParamBin E a b c)"
  "keeps_locks (SSLConfDHParamCtx E a b)"
  "keeps_locks (SSLConfDHMMinBitlen E a b)"
  "keeps_locks (SSLConfDTLSAntiReplay E a b)"
  "keeps_locks (SSLConfDTLSBadMACLimit E a b)"
  "keeps_locks (SSLConfDTLSCookies E a b c)"
  "keeps_locks (SSLConfEncryptThenMac E a b)"
  "keeps_locks (SSLConfExportKeysCb E a b)"
  "keeps_locks (SSLConfExtendedMasterSecret E a b)"
  "keeps_locks (SSLConfFallback E a b)"
  "keeps_locks (SSLConfPSKCb E a b)"
  "keeps_locks (SSLConfRenegotiationPeriod E a b)"
  "keeps_locks (SSLConfSessionCache E a b)"
  "keeps_locks (SSLConfSessionTicketsCb E a b c)"
  "keeps_locks (SSLConfSigHashes E a b)"
  unfolding SSLConfALPNProtocol_def SSLConfARC4Support_def SSLConfCbcRecordSplitting_def SSLConfCertProfile_def SSLConfCertReqCAList_def SSLConfCiphersuites_def SSLConfCiphersuitesForVersion_def SSLConfCurves_def SSLConfDbg_def SSLConfDHParamBin_def SSLConfDHParamCtx_def SSLConfDHMMinBitlen_def SSLConfDTLSAntiReplay_def SSLConfDTLSBadMACLimit_def SSLConfDTLSCookies_def SSLConfEncryptThenMac_def SSLConfExportKeysCb_def SSLConfExtendedMasterSecret_def SSLConfFallback_def SSLConfPSKCb_def SSLConfRenegotiationPeriod_def SSLConfSessionCache_def SSLConfSessionTicketsCb_def SSLConfSigHashes_def
  by (rule keeps_unimplemented)+

text \<open>The bindings with a string argument, from the states in which it has a length.\<close>

lemma maybe_string_calls:
  assumes "scripts_keep_locks E" "has_length E s b" "heap s1 = heap s"
  shows "keeps_at s1 (with_maybe_string E b (\<lambda>bs. mbedtls E (c bs)))"
  using maybe_string_at [OF keeps_mbedtls [OF assms(1)]] assms(2) has_length_heap [OF assms(3)]
  by blast

lemma cast_at:
  "keeps_at s m \<Longrightarrow> keeps_at s (andthen m (CastOrThrowError E))"
  by (rule andthen_at, assumption, rule keeps_locks_at, rule keeps_casts)

lemma SSLSetClientTransportID_keeps:
  assumes "scripts_keep_locks E"
  shows "keeps_locks (SSLSetClientTransportID E a b)"
  unfolding keeps_locks_iff SSLSetClientTransportID_def
  by (intro allI Length_at cast_at cobject_at) (rule maybe_string_calls [OF assms])

lemma SSLSetHostname_keeps:
  assumes "scripts_keep_locks E"
  shows "keeps_locks (SSLSetHostname E a b)"
proof -
  have "keeps_locks (if length bs \<le> MBEDTLS_SSL_MAX_HOST_NAME_LEN
      then return_with (Some (c_string bs)) else undefined_here)" for bs
    by (simp add: locks_intros)
  from maybe_string_at [OF this] have "keeps_locks (with_state (\<lambda>s. if IsBinary E s b
      then with_maybe_string E b (\<lambda>bs. if length bs \<le> MBEDTLS_SSL_MAX_HOST_NAME_LEN
        then return_with (Some (c_string bs)) else undefined_here)
      else if b = NILREF then return_with None else ThrowBadType kNSErrNotAString b))"
    unfolding keeps_locks_iff
    by (intro allI keeps_at_state) (simp add: IsBinary_has_length keeps_locks_at locks_intros)
  then show ?thesis unfolding SSLSetHostname_def
    by (intro keeps_andthen keeps_cobject keeps_casts keeps_mbedtls assms)
qed

lemma X509CrtParse_keeps:
  assumes "scripts_keep_locks E"
  shows "keeps_locks (X509CrtParse E a b)"
proof -
  have array: "keeps_locks (andthen (Length E b) (\<lambda>len. andthen NewPtr (\<lambda>certificate.
      andthen (array_bytes E b [0..<len]) (\<lambda>bs. mbedtls E (f bs)))))" for f
    by (intro locks_intros keeps_mbedtls assms)
  have "keeps_locks (with_state (\<lambda>s.
         if IsBinary E s b then
           with_maybe_string E b (\<lambda>bs. mbedtls E (TLS (crt_parse crt bs)))
         else if IsArray E s b then
           andthen (Length E b) (\<lambda>len.
           andthen NewPtr (\<lambda>certificate.
           andthen (array_bytes E b [0..<len]) (\<lambda>bs.
             mbedtls E (TLS (crt_parse crt bs)))))
         else ThrowBadType kNSErrNotAnArrayOrString b))" for crt
    unfolding keeps_locks_iff
    by (intro allI keeps_at_state)
      (simp add: maybe_string_calls [OF assms IsBinary_has_length] keeps_locks_at array keeps_bad_type)
  then show ?thesis unfolding X509CrtParse_def by (intro keeps_andthen keeps_cobject keeps_casts)
qed

lemma CtrDrbgSeed_at:
  assumes "scripts_keep_locks E" "has_length E s c"
  shows "keeps_at s (CtrDrbgSeed E a b c)"
  unfolding CtrDrbgSeed_def
proof (rule andthen_at)
  show "keeps_at s (with_cobject E a (\<lambda>ctr_drbg. with_cobject E b (\<lambda>entropy.
      with_maybe_string E c (\<lambda>pers. mbedtls E (TLS (ctr_drbg_seed ctr_drbg entropy pers))))))"
    by (intro cobject_at) (simp add: maybe_string_calls [OF assms])
qed (rule keeps_locks_at, rule keeps_return)

lemma X509CrlParse_at:
  assumes "scripts_keep_locks E" "has_length E s b"
  shows "keeps_at s (X509CrlParse E a b)"
  unfolding X509CrlParse_def
  by (rule cast_at, rule maybe_string_at)
    (intro keeps_cobject keeps_mbedtls assms, rule assms)

lemmas string_binding_keeps [binding_keeps] =
  SSLSetClientTransportID_keeps SSLSetHostname_keeps X509CrtParse_keeps

section \<open>The module\<close>

lemma keeps_free_cobject: "keeps_locks (free_cobject r)"
  unfolding free_cobject_def
proof (rule keeps_state)
  fix s
  have "keeps_locks (\<lambda>s'. (Returns (), s'\<lparr>heap := (heap s')(n \<mapsto> x)\<rparr>))" for n x
    by (rule keeps_locks_silent) simp
  then show "keeps_locks (case r of
      Obj n \<Rightarrow> (case heap s n of
          Some (CObjectBin p d) \<Rightarrow>
            if p \<noteq> NULL
            then andthen (run_dtor d p) (\<lambda>_ s'.
                   (Returns (), s'\<lparr>heap := (heap s')(n \<mapsto> CObjectBin NULL DISPOSE_PTR_PUBLIC_JT)\<rparr>))
            else return_with ()
        | _ \<Rightarrow> undefined_here)
    | _ \<Rightarrow> undefined_here)"
    by (auto intro!: locks_intros split: nsref.split option.split nsobj.split)
qed

lemma locked_silent:
  assumes "keeps_locks m"
  shows "keeps_locks (unwind_protect (andthen (\<lambda>s. (Returns (), log_event (Locked r) s)) (\<lambda>_. m)) (UnlockRefArg r))"
proof (rule keeps_locksI)
  fix s q s'
  assume run: "unwind_protect (andthen (\<lambda>s. (Returns (), log_event (Locked r) s)) (\<lambda>_. m)) (UnlockRefArg r) s
      = (q, s')" and q: "q \<noteq> Undefined"
  obtain r1 s1 where m: "m (log_event (Locked r) s) = (r1, s1)" by fastforce
  have r1: "r1 \<noteq> Undefined" and s': "s' = log_event (Unlocked r) s1"
    using run q m by (auto simp: unwind_protect_def andthen_def UnlockRefArg_def split: outcome.splits)
  obtain es where "nested es" "history s1 = history (log_event (Locked r) s) @ es"
    using keeps_locksE [OF assms m r1] .
  then show "\<exists>es. nested es \<and> history s' = history s @ es"
    using locked_section [of "log_event (Locked r) s" s r "[]" es s1 s' "[]"] s'
    by (simp add: log_event_def)
qed

lemma keeps_free: "keeps_locks (FreeCObjectBinary E r)"
  unfolding FreeCObjectBinary_def
  by (intro keeps_state keeps_if locked_silent keeps_free_cobject keeps_return)

lemma keeps_free_slots: "keeps_locks (free_slots E is)"
proof (induction "is")
  case Nil
  show ?case by (rule keeps_locks_silent) simp
next
  case (Cons i "is")
  show ?case unfolding keeps_locks_iff
  proof
    fix s
    show "keeps_at s (free_slots E (i # is))"
    proof (cases "mPointers s")
      case None
      then show ?thesis by (simp add: keeps_at_def)
    next
      case (Some rs)
      have "keeps_locks (andthen (FreeCObjectBinary E (rs ! i)) (\<lambda>_. free_slots E is))"
        using Cons by (intro keeps_andthen keeps_free)
      then show ?thesis using Some keeps_locks_at [OF Cons, of s]
        by (auto simp: keeps_at_def keeps_locks_def)
    qed
  qed
qed

lemma keeps_exchange [locks_intros]:
  "keeps_locks (InstallConnectionEnd E)" "keeps_locks (RemoveConnectionEnd E)"
  by (rule keeps_locks_silent;
      auto simp: InstallConnectionEnd_def RemoveConnectionEnd_def class_Register_def
        class_DeRegister_def NameServer_RegisterName_def Let_def split: option.split prod.split)+

lemma keeps_Delete [locks_intros]: "keeps_locks (PMbedTLS_Delete E)"
proof -
  have "keeps_locks (andthen (free_slots E is) (\<lambda>_ s'. (Returns (), s'\<lparr>mPointers := None, mHandlers := []\<rparr>)))" for "is"
    by (intro keeps_andthen keeps_free_slots keeps_locks_silent) simp
  then show ?thesis unfolding PMbedTLS_Delete_def
    by (intro keeps_andthen keeps_exchange)
      (auto simp: keeps_locks_iff keeps_at_def split: option.split)
qed

lemma keeps_singleton [locks_intros]:
  "keeps_locks (GetInterfaceSingleton E create)" "keeps_locks (DeleteInterfaceSingleton E)"
proof -
  show get: "keeps_locks (GetInterfaceSingleton E c)" for c
    by (rule keeps_locks_silent)
      (simp add: GetInterfaceSingleton_def andthen_def PMbedTLS_New_def Let_def)
  have "keeps_locks (\<lambda>s. (Returns (), s\<lparr>singleton := False\<rparr>))"
    by (rule keeps_locks_silent) simp
  then show "keeps_locks (DeleteInterfaceSingleton E)"
    unfolding DeleteInterfaceSingleton_def
    by (intro keeps_andthen keeps_if get keeps_Delete keeps_return)
qed

lemma keeps_interface_call: "keeps_locks m \<Longrightarrow> keeps_locks (interface_call E m)"
  unfolding interface_call_def by (intro keeps_andthen keeps_singleton)

lemma interface_call_at:
  assumes "\<And>s1. heap s1 = heap s \<Longrightarrow> keeps_at s1 m"
  shows "keeps_at s (interface_call E m)"
  unfolding interface_call_def
proof (rule andthen_at)
  fix x s1 assume "GetInterfaceSingleton E True s = (Returns x, s1)"
  then have "heap s1 = heap s"
    by (auto simp: GetInterfaceSingleton_def andthen_def PMbedTLS_New_def Let_def split: if_splits)
  then show "keeps_at s1 m" by (rule assms)
qed (rule keeps_locks_at, rule keeps_singleton)

text \<open>
  Every exported function but the two whose string argument is not checked before it is
  locked.
\<close>

lemma exports_keep_locks:
  assumes "scripts_keep_locks E"
  shows "list_all (\<lambda>(name, arity, f). name \<in> {''CtrDrbgSeed'', ''X509CrlParse''} \<or>
    (\<forall>as. keeps_locks (f as))) (exports E)"
  unfolding exports_def list_all_append
proof (intro conjI)
  show "list_all (\<lambda>(name, arity, f). name \<in> {''CtrDrbgSeed'', ''X509CrlParse''} \<or>
      (\<forall>as. keeps_locks (f as))) (exports_ssl E)"
    unfolding exports_ssl_def exports_ssl_fns
    by (simp add: keeps_interface_call binding_keeps assms)
  show "list_all (\<lambda>(name, arity, f). name \<in> {''CtrDrbgSeed'', ''X509CrlParse''} \<or>
      (\<forall>as. keeps_locks (f as))) (exports_conf E)"
    unfolding exports_conf_def exports_conf_fns
    by (simp add: keeps_interface_call binding_keeps assms)
  show "list_all (\<lambda>(name, arity, f). name \<in> {''CtrDrbgSeed'', ''X509CrlParse''} \<or>
      (\<forall>as. keeps_locks (f as))) (exports_objects E)"
    unfolding exports_objects_def exports_objects_fns
    by (simp add: keeps_interface_call binding_keeps locks_intros assms)
qed

end
