(* ===== verification/NS_Lifetime.thy ===== *)
theory NS_Lifetime
  imports NS_Module
begin

text \<open>
  The life of the C objects: the invariant that ties the blocks in use, the \<^verbatim>\<open>CObject\<close>
  binaries that own them and the weak array, its preservation by the bindings that make
  objects, by the collection of garbage and by \<^verbatim>\<open>FreeCObjectBinary\<close>, and what \<^verbatim>\<open>Delete\<close>
  leaves.
\<close>

section \<open>Operations on objects\<close>

text \<open>The binding that makes an object with a given destructor.\<close>

definition new_binding :: "env \<Rightarrow> dtor \<Rightarrow> nsref ns_op" where
  "new_binding E d = (case d of
      kEntropyDtor \<Rightarrow> EntropyNew E
    | kCtrDrbgDtor \<Rightarrow> CtrDrbgNew E
    | kPKDtor \<Rightarrow> PKNew E
    | kSSLDtor \<Rightarrow> SSLNew E
    | kSSLCacheDtor \<Rightarrow> SSLCacheNew E
    | kSSLConfigDtor \<Rightarrow> SSLConfigNew E
    | kSSLSessionDtor \<Rightarrow> SSLSessionNew E
    | kX509CrtDtor \<Rightarrow> X509CrtNew E
    | kX509CrlDtor \<Rightarrow> X509CrlNew E
    | _ \<Rightarrow> return_with NILREF)"

text \<open>
  The collection of an object: the runtime runs its destructor and clears its slot of the
  weak array.
\<close>

definition collect :: "nat \<Rightarrow> unit ns_op" where
  "collect n s = (case heap s n of
      Some (CObjectBin a d) \<Rightarrow>
        andthen (run_dtor d a) (\<lambda>_ s'. (Returns (),
          s'\<lparr>heap := (heap s')(n := None),
             mPointers := map_option (List.map (\<lambda>r. if r = Obj n then NILREF else r)) (mPointers s')\<rparr>)) s
    | _ \<Rightarrow> (Returns (), s))"

text \<open>
  \<open>Wrap a\<close> is what \<^verbatim>\<open>SSLGetPeerCert\<close> and the callbacks do with a pointer of the library, an
  object with \<^verbatim>\<open>NOPDtor\<close>.
\<close>

datatype object_op = Make dtor | Wrap nat | Collect nat

definition object_step :: "env \<Rightarrow> object_op \<Rightarrow> unit ns_op" where
  "object_step E x = (case x of
      Make d \<Rightarrow> andthen (new_binding E d) (\<lambda>_. return_with ())
    | Wrap p \<Rightarrow> andthen (DoAllocateCObjectBinary (Block p) kNOPDtor) (\<lambda>_. return_with ())
    | Collect n \<Rightarrow> collect n)"

fun object_steps :: "env \<Rightarrow> object_op list \<Rightarrow> unit ns_op" where
  "object_steps E [] = return_with ()"
| "object_steps E (x # xs) = andthen (object_step E x) (\<lambda>_. object_steps E xs)"

section \<open>The invariant\<close>

definition owns :: "ns \<Rightarrow> nat \<Rightarrow> nat \<Rightarrow> bool" where
  "owns s n p \<longleftrightarrow> (\<exists>d. heap s n = Some (CObjectBin (Block p) d) \<and> d \<noteq> kNOPDtor)"

text \<open>
  Every block in use has one owner; the owners are in the weak array; what is in the weak
  array is a C object of the heap, without its block or with one.
\<close>

definition c_object :: "ns \<Rightarrow> nat \<Rightarrow> bool" where
  "c_object s n \<longleftrightarrow> (\<exists>d. heap s n = Some (CObjectBin NULL d) \<and> (d = DISPOSE_PTR_PUBLIC_JT)) \<or>
     (\<exists>p d. heap s n = Some (CObjectBin (Block p) d))"

definition registry_ok :: "ns \<Rightarrow> bool" where
  "registry_ok s \<longleftrightarrow>
     distinct (live s) \<and> (\<forall>p \<in> set (live s). p < next_ptr s) \<and>
     (\<forall>p. p \<in> set (live s) \<longleftrightarrow> (\<exists>n. owns s n p)) \<and>
     (\<forall>n m p. owns s n p \<longrightarrow> owns s m p \<longrightarrow> n = m) \<and>
     (\<forall>n \<ge> next_obj s. heap s n = None) \<and>
     (\<forall>n a d. heap s n = Some (CObjectBin a d) \<longrightarrow> c_object s n) \<and>
     (\<exists>rs. mPointers s = Some rs \<and>
        (\<forall>n p. owns s n p \<longrightarrow> Obj n \<in> set rs) \<and>
        (\<forall>r \<in> set rs. r = NILREF \<or> (\<exists>n. r = Obj n \<and> c_object s n)))"

lemma set_register_slot: "set (register_slot r rs) - {NILREF} = set (r # rs) - {NILREF}"
  by (induction rs) auto

lemma in_register_slot: "x \<noteq> NILREF \<Longrightarrow> x \<in> set (register_slot r rs) \<longleftrightarrow> x = r \<or> x \<in> set rs"
  using set_register_slot [of r rs] by auto

lemma run_dtor_owned:
  assumes "p \<in> set (live s)" "d \<noteq> kNOPDtor"
  shows "\<exists>h. run_dtor d (Block p) s = (Returns (), s\<lparr>live := remove1 p (live s), history := h\<rparr>)"
  using assms by (cases d) (simp_all add: run_dtor_def EntropyDtor_def CtrDrbgDtor_def PKDtor_def
      SSLDtor_def SSLCacheDtor_def SSLConfigDtor_def SSLSessionDtor_def X509CrtDtor_def X509CrlDtor_def
      andthen_def lib_effect_def DisposePtr_def log_event_def, (rule exI, rule refl)+)

lemma run_dtor_wrapped [simp]: "run_dtor kNOPDtor a s = (Returns (), s)"
  by (simp add: run_dtor_def NOPDtor_def return_with_def)

lemma run_dtor_freed [simp]: "run_dtor DISPOSE_PTR_PUBLIC_JT NULL s = (Returns (), s)"
  by (simp add: run_dtor_def DisposePtr_def)

text \<open>The invariant does not see the history, and the function references.\<close>

lemma registry_ok_frame:
  "live s' = live s \<Longrightarrow> heap s' = heap s \<Longrightarrow> next_ptr s' = next_ptr s \<Longrightarrow> next_obj s' = next_obj s \<Longrightarrow>
    mPointers s' = mPointers s \<Longrightarrow> registry_ok s' = registry_ok s"
  by (simp add: registry_ok_def owns_def c_object_def)

section \<open>Preservation\<close>

text \<open>A new object: its address is a new block, or a pointer of the library with \<^verbatim>\<open>NOPDtor\<close>.\<close>

lemma registry_ok_new:
  assumes ok: "registry_ok s" and heap: "heap s' = (heap s)(next_obj s \<mapsto> CObjectBin (Block p) d)"
    and ptrs: "mPointers s' = map_option (register_slot (Obj (next_obj s))) (mPointers s)"
    and next_obj: "next_obj s' = Suc (next_obj s)"
    and live: "if d = kNOPDtor then live s' = live s \<and> next_ptr s' = next_ptr s
       else p = next_ptr s \<and> live s' = p # live s \<and> next_ptr s' = Suc p"
  shows "registry_ok s'"
proof -
  have fresh: "heap s (next_obj s) = None" using ok by (simp add: registry_ok_def)
  have owns': "owns s' n q \<longleftrightarrow> owns s n q \<or> (d \<noteq> kNOPDtor \<and> n = next_obj s \<and> q = p)" for n q
    using fresh by (auto simp: owns_def heap)
  have obj': "c_object s' n \<longleftrightarrow> c_object s n \<or> n = next_obj s" for n
    using fresh by (auto simp: c_object_def heap)
  have dist: "distinct (live s)" and small: "\<And>q. q \<in> set (live s) \<Longrightarrow> q < next_ptr s"
    using ok unfolding registry_ok_def by blast+
  then have new: "p \<notin> set (live s)" if "d \<noteq> kNOPDtor"
    using live that by auto
  obtain rs where rs: "mPointers s = Some rs" "\<forall>n p. owns s n p \<longrightarrow> Obj n \<in> set rs"
      "\<forall>r \<in> set rs. r = NILREF \<or> (\<exists>n. r = Obj n \<and> c_object s n)"
    using ok by (auto simp: registry_ok_def)
  show ?thesis unfolding registry_ok_def
  proof (intro conjI)
    show "distinct (live s')" using dist live new by (cases "d = kNOPDtor") auto
    show "\<forall>p \<in> set (live s'). p < next_ptr s'"
      using small live by (cases "d = kNOPDtor") (auto intro: less_SucI)
    show "\<forall>q. q \<in> set (live s') \<longleftrightarrow> (\<exists>n. owns s' n q)"
    proof
      fix q
      have "q \<in> set (live s) \<longleftrightarrow> (\<exists>n. owns s n q)" using ok unfolding registry_ok_def by blast
      then show "q \<in> set (live s') \<longleftrightarrow> (\<exists>n. owns s' n q)"
        unfolding owns' using live by (cases "d = kNOPDtor") auto
    qed
    show "\<forall>n m q. owns s' n q \<longrightarrow> owns s' m q \<longrightarrow> n = m"
      using ok new unfolding owns' by (auto simp: registry_ok_def)
    show "\<forall>n \<ge> next_obj s'. heap s' n = None"
      using ok next_obj by (simp add: registry_ok_def heap)
    show "\<forall>n a d. heap s' n = Some (CObjectBin a d) \<longrightarrow> c_object s' n"
      using ok unfolding obj' by (auto simp: registry_ok_def heap split: if_splits)
    show "\<exists>rs. mPointers s' = Some rs \<and> (\<forall>n p. owns s' n p \<longrightarrow> Obj n \<in> set rs) \<and>
        (\<forall>r \<in> set rs. r = NILREF \<or> (\<exists>n. r = Obj n \<and> c_object s' n))"
      using rs unfolding owns' obj' ptrs
      by (auto simp: in_register_slot) (metis in_register_slot)
  qed
qed

lemma object_new_runs:
  assumes "mPointers s = Some rs"
  shows "fst (DoAllocateCObjectBinary a d s) = Returns (Obj (next_obj s))"
    "snd (DoAllocateCObjectBinary a d s) =
       s\<lparr>heap := (heap s)(next_obj s \<mapsto> CObjectBin a d), next_obj := Suc (next_obj s),
         mPointers := Some (register_slot (Obj (next_obj s)) rs)\<rparr>"
  using assms
  by (simp_all add: DoAllocateCObjectBinary_def AllocateCObjectBinary_def new_object_def andthen_def)

lemma new_binding_ok:
  assumes ok: "registry_ok s"
  shows "\<exists>r s'. new_binding E d s = (Returns r, s') \<and> registry_ok s'"
proof -
  obtain rs where rs: "mPointers s = Some rs" using ok by (auto simp: registry_ok_def)
  note run = andthen_def NewPtr_def lib_effect_def log_event_def DoAllocateCObjectBinary_def
    AllocateCObjectBinary_def new_object_def rs update_context_def update_config_def
  show ?thesis
    by (cases d; rule exI, rule exI, rule conjI,
        simp add: new_binding_def EntropyNew_def CtrDrbgNew_def PKNew_def SSLNew_def SSLCacheNew_def
          SSLConfigNew_def SSLSessionNew_def X509CrtNew_def X509CrlNew_def return_with_def run,
        (rule ok | rule registry_ok_new [OF ok, where p = "next_ptr s"], simp_all add: rs)) simp_all
qed

text \<open>An object gives up its block: by \<^verbatim>\<open>FreeCObjectBinary\<close> or by being collected.\<close>

lemma registry_ok_release:
  assumes ok: "registry_ok s" and n: "heap s n = Some (CObjectBin a d)"
    and heap: "heap s' = (heap s)(n := y)" "y = None \<or> y = Some (CObjectBin NULL DISPOSE_PTR_PUBLIC_JT)"
    and live: "live s' = (case a of Block p \<Rightarrow> if d = kNOPDtor then live s else remove1 p (live s) | _ \<Rightarrow> live s)"
    and frame: "next_ptr s' = next_ptr s" "next_obj s' = next_obj s"
    and ptrs: "mPointers s' = (if y = None
        then map_option (List.map (\<lambda>r. if r = Obj n then NILREF else r)) (mPointers s) else mPointers s)"
  shows "registry_ok s'"
proof -
  have owns': "owns s' m q \<longleftrightarrow> owns s m q \<and> m \<noteq> n" for m q
    using heap n by (auto simp: owns_def)
  have obj': "c_object s' m \<longleftrightarrow> (if m = n then y \<noteq> None else c_object s m)" for m
    using heap by (auto simp: c_object_def)
  have dist: "distinct (live s)" and small: "\<forall>p \<in> set (live s). p < next_ptr s"
    and alive: "\<And>p. p \<in> set (live s) \<longleftrightarrow> (\<exists>n. owns s n p)"
    and one: "\<And>n m p. owns s n p \<Longrightarrow> owns s m p \<Longrightarrow> n = m"
    and high: "\<forall>n \<ge> next_obj s. heap s n = None"
    and objs: "\<And>n a d. heap s n = Some (CObjectBin a d) \<Longrightarrow> c_object s n"
    using ok unfolding registry_ok_def by blast+
  obtain rs where rs: "mPointers s = Some rs" "\<And>n p. owns s n p \<Longrightarrow> Obj n \<in> set rs"
      "\<And>r. r \<in> set rs \<Longrightarrow> r = NILREF \<or> (\<exists>n. r = Obj n \<and> c_object s n)"
    using ok unfolding registry_ok_def by blast
  have set_live: "q \<in> set (live s') \<longleftrightarrow> q \<in> set (live s) \<and> \<not> owns s n q" for q
  proof (cases a)
    case (Block p)
    then have "owns s n q \<longleftrightarrow> d \<noteq> kNOPDtor \<and> q = p" using n by (auto simp: owns_def)
    then show ?thesis using dist live Block by (auto simp: set_remove1_eq)
  qed (use n live in \<open>auto simp: owns_def\<close>)
  have "n < next_obj s" using high n by (metis linorder_not_le option.distinct(1))
  show ?thesis unfolding registry_ok_def
  proof (intro conjI)
    show "distinct (live s')" using dist live by (auto split: addr.splits)
    show "\<forall>p \<in> set (live s'). p < next_ptr s'" using small set_live frame by auto
    show "\<forall>q. q \<in> set (live s') \<longleftrightarrow> (\<exists>m. owns s' m q)"
      unfolding set_live owns' alive using one by metis
    show "\<forall>k m q. owns s' k q \<longrightarrow> owns s' m q \<longrightarrow> k = m" unfolding owns' using one by blast
    show "\<forall>m \<ge> next_obj s'. heap s' m = None" using high \<open>n < next_obj s\<close> frame heap by auto
    show "\<forall>m a d. heap s' m = Some (CObjectBin a d) \<longrightarrow> c_object s' m"
      unfolding obj' using heap objs by auto
    show "\<exists>rs. mPointers s' = Some rs \<and> (\<forall>n p. owns s' n p \<longrightarrow> Obj n \<in> set rs) \<and>
        (\<forall>r \<in> set rs. r = NILREF \<or> (\<exists>n. r = Obj n \<and> c_object s' n))"
    proof (cases "y = None")
      case True
      then show ?thesis unfolding owns' obj' ptrs rs(1)
        using rs(2,3) by (auto simp: image_iff)
    next
      case False
      then show ?thesis unfolding owns' obj' ptrs using rs by auto
    qed
  qed
qed

lemma run_dtor_any:
  assumes ok: "registry_ok s" and n: "heap s n = Some (CObjectBin a d)"
  shows "\<exists>h. run_dtor d a s = (Returns (), s\<lparr>live :=
    (case a of Block p \<Rightarrow> if d = kNOPDtor then live s else remove1 p (live s) | _ \<Rightarrow> live s),
    history := h\<rparr>)"
proof -
  have "c_object s n" using ok n unfolding registry_ok_def by blast
  then consider (null) "a = NULL" "d = DISPOSE_PTR_PUBLIC_JT" | (block) p where "a = Block p"
    using n by (auto simp: c_object_def)
  then show ?thesis
  proof cases
    case null
    have "s = s\<lparr>live := live s, history := history s\<rparr>" by simp
    then show ?thesis using null by (auto intro!: exI [of _ "history s"])
  next
    case (block p)
    show ?thesis
    proof (cases "d = kNOPDtor")
      case True
      have "s = s\<lparr>live := live s, history := history s\<rparr>" by simp
      then show ?thesis using True block by (auto intro!: exI [of _ "history s"])
    next
      case False
      then have "owns s n p" using n block by (simp add: owns_def)
      then have "p \<in> set (live s)" using ok unfolding registry_ok_def by blast
      then show ?thesis using run_dtor_owned False block by simp
    qed
  qed
qed

lemma collect_ok:
  assumes ok: "registry_ok s"
  shows "\<exists>s'. collect n s = (Returns (), s') \<and> registry_ok s'"
proof (cases "\<exists>a d. heap s n = Some (CObjectBin a d)")
  case True
  then obtain a d where n: "heap s n = Some (CObjectBin a d)" by blast
  obtain h where "run_dtor d a s = (Returns (), s\<lparr>live :=
      (case a of Block p \<Rightarrow> if d = kNOPDtor then live s else remove1 p (live s) | _ \<Rightarrow> live s),
      history := h\<rparr>)"
    using run_dtor_any [OF ok n] by blast
  then show ?thesis using n
    by (simp add: collect_def andthen_def registry_ok_release [OF ok n, where y = None])
next
  case False
  then have "collect n s = (Returns (), s)"
    by (auto simp: collect_def split: option.split nsobj.split)
  then show ?thesis using ok by simp
qed

lemma object_step_ok:
  assumes ok: "registry_ok s"
  shows "\<exists>s'. object_step E x s = (Returns (), s') \<and> registry_ok s'"
proof (cases x)
  case (Make d)
  then show ?thesis using new_binding_ok [OF ok, of E d]
    by (auto simp: object_step_def andthen_def return_with_def)
next
  case (Wrap p)
  obtain rs where rs: "mPointers s = Some rs" using ok unfolding registry_ok_def by blast
  define s' where "s' = snd (DoAllocateCObjectBinary (Block p) kNOPDtor s)"
  have "registry_ok s'"
    by (rule registry_ok_new [OF ok, where p = p and d = kNOPDtor])
      (simp_all add: s'_def object_new_runs(2) [OF rs] rs)
  moreover have "DoAllocateCObjectBinary (Block p) kNOPDtor s = (Returns (Obj (next_obj s)), s')"
    using object_new_runs(1) [OF rs] by (simp add: s'_def prod_eq_iff)
  ultimately show ?thesis using Wrap by (simp add: object_step_def andthen_def return_with_def)
next
  case (Collect n)
  then show ?thesis using collect_ok [OF ok] by (simp add: object_step_def)
qed

lemma object_steps_ok:
  "registry_ok s \<Longrightarrow> \<exists>s'. object_steps E xs s = (Returns (), s') \<and> registry_ok s'"
proof (induction xs arbitrary: s)
  case Nil
  then show ?case by (simp add: return_with_def)
next
  case (Cons x xs)
  obtain s1 where "object_step E x s = (Returns (), s1)" "registry_ok s1"
    using object_step_ok [OF Cons.prems] by blast
  then show ?case using Cons.IH [of s1] by (simp add: andthen_def)
qed

section \<open>Delete\<close>

lemma free_runs:
  assumes ok: "registry_ok s" and n: "heap s n = Some (CObjectBin a d)"
  shows "\<exists>s'. FreeCObjectBinary E (Obj n) s = (Returns (), s') \<and> registry_ok s' \<and>
    mPointers s' = mPointers s \<and> heap s' = (heap s)(n := heap s' n) \<and> (\<exists>d. heap s' n = Some (CObjectBin NULL d))"
proof -
  have bin: "IsBinary E s (Obj n)" using n by (simp add: IsBinary_def deref_def)
  define s0 where "s0 = log_event (Locked (Obj n)) s"
  have ok0: "registry_ok s0" and n0: "heap s0 n = Some (CObjectBin a d)"
    using ok n registry_ok_frame [of s0 s] by (simp_all add: s0_def log_event_def)
  have run: "FreeCObjectBinary E (Obj n) s = (case free_cobject (Obj n) s0 of
      (Returns _, s1) \<Rightarrow> (Returns (), log_event (Unlocked (Obj n)) s1)
    | (Throws e, s1) \<Rightarrow> (Throws e, log_event (Unlocked (Obj n)) s1)
    | (Undefined, s1) \<Rightarrow> (Undefined, s1))"
    using bin by (simp add: FreeCObjectBinary_def with_state_def unwind_protect_def andthen_def
        UnlockRefArg_def s0_def split: outcome.split prod.split)
  show ?thesis
  proof (cases "a = NULL")
    case True
    then have "free_cobject (Obj n) s0 = (Returns (), s0)"
      using n0 by (simp add: free_cobject_def with_state_def return_with_def)
    moreover have "heap (log_event (Unlocked (Obj n)) s0) = heap s"
        "mPointers (log_event (Unlocked (Obj n)) s0) = mPointers s"
      by (simp_all add: log_event_def s0_def)
    moreover have "registry_ok (log_event (Unlocked (Obj n)) s0)"
      using registry_ok_frame [of "log_event (Unlocked (Obj n)) s0" s] ok
      by (simp add: log_event_def s0_def)
    ultimately show ?thesis using run n True by (simp add: fun_upd_idem)
  next
    case False
    obtain h where h: "run_dtor d a s0 = (Returns (), s0\<lparr>live :=
        (case a of Block p \<Rightarrow> if d = kNOPDtor then live s0 else remove1 p (live s0) | _ \<Rightarrow> live s0),
        history := h\<rparr>)"
      using run_dtor_any [OF ok0 n0] by blast
    have l0: "live s0 = live s" by (simp add: s0_def log_event_def)
    note h = h [unfolded l0]
    define s1 where "s1 = snd (free_cobject (Obj n) s0)"
    have s1: "free_cobject (Obj n) s0 = (Returns (), s1)"
      using h n0 False by (simp add: s1_def free_cobject_def with_state_def andthen_def)
    define s2 where "s2 = log_event (Unlocked (Obj n)) s1"
    have fields: "heap s2 = (heap s)(n \<mapsto> CObjectBin NULL DISPOSE_PTR_PUBLIC_JT)"
        "live s2 = (case a of Block p \<Rightarrow> if d = kNOPDtor then live s else remove1 p (live s) | _ \<Rightarrow> live s)"
        "next_ptr s2 = next_ptr s" "next_obj s2 = next_obj s" "mPointers s2 = mPointers s"
      using h n0 False
      by (simp_all add: s2_def s1_def free_cobject_def with_state_def andthen_def log_event_def l0)
        (simp_all add: s0_def log_event_def)
    have "registry_ok s2"
      by (rule registry_ok_release [OF ok n fields(1) _ fields(2-4)]) (simp_all add: fields(5))
    then show ?thesis using run s1 fields by (simp add: s2_def)
  qed
qed

text \<open>
  After the loop of \<^verbatim>\<open>Delete\<close> no object of the visited slots has a block; objects only lose
  theirs.
\<close>

definition freed :: "ns \<Rightarrow> nsref \<Rightarrow> bool" where
  "freed s r \<longleftrightarrow> r = NILREF \<or> (\<exists>n d. r = Obj n \<and> heap s n = Some (CObjectBin NULL d))"

lemma free_slots_runs:
  assumes "registry_ok s" "mPointers s = Some rs" "set is \<subseteq> {..<length rs}"
  shows "\<exists>s'. free_slots E is s = (Returns (), s') \<and> registry_ok s' \<and> mPointers s' = Some rs \<and>
    (\<forall>i \<in> set is. freed s' (rs ! i)) \<and> (\<forall>r. freed s r \<longrightarrow> freed s' r)"
  using assms
proof (induction "is" arbitrary: s)
  case Nil
  then show ?case by simp
next
  case (Cons i "is")
  have i: "rs ! i \<in> set rs" using Cons.prems(3) by simp
  show ?case
  proof (cases "rs ! i = NILREF")
    case True
    then show ?thesis using Cons.IH [OF Cons.prems(1,2)] Cons.prems
      by (auto simp: freed_def)
  next
    case False
    then obtain n a d where n: "rs ! i = Obj n" "heap s n = Some (CObjectBin a d)"
      using Cons.prems(1,2) i unfolding registry_ok_def c_object_def by fastforce
    obtain s1 where s1: "FreeCObjectBinary E (Obj n) s = (Returns (), s1)" "registry_ok s1"
        "mPointers s1 = mPointers s" "heap s1 = (heap s)(n := heap s1 n)"
        "\<exists>d. heap s1 n = Some (CObjectBin NULL d)"
      using free_runs [OF Cons.prems(1) n(2)] by blast
    have keep: "freed s1 r" if "freed s r" for r
      using that s1(4,5) unfolding freed_def by (metis fun_upd_apply)
    obtain s' where s': "free_slots E is s1 = (Returns (), s')" "registry_ok s'" "mPointers s' = Some rs"
        "\<forall>i \<in> set is. freed s' (rs ! i)" "\<forall>r. freed s1 r \<longrightarrow> freed s' r"
      using Cons.IH [OF s1(2)] s1(3) Cons.prems(2,3) by auto
    have "freed s1 (rs ! i)" using n(1) s1(5) by (simp add: freed_def)
    then have "freed s' (rs ! i)" using s'(5) by blast
    then show ?thesis using s' s1(1) n(1) Cons.prems(2) keep by (auto simp: andthen_def)
  qed
qed

lemma freed_all_live:
  assumes ok: "registry_ok s" and rs: "mPointers s = Some rs" "\<forall>r \<in> set rs. freed s r"
  shows "live s = []"
proof -
  have "\<not> owns s n p" for n p
  proof
    assume own: "owns s n p"
    then have "Obj n \<in> set rs" using ok rs(1) unfolding registry_ok_def by auto
    then have "\<exists>d. heap s n = Some (CObjectBin NULL d)" using rs(2) by (auto simp: freed_def)
    then show False using own by (auto simp: owns_def)
  qed
  moreover have "p \<in> set (live s) \<Longrightarrow> \<exists>n. owns s n p" for p
    using ok unfolding registry_ok_def by blast
  ultimately have "p \<notin> set (live s)" for p by metis
  then show ?thesis by (metis list.set_intros(1) neq_Nil_conv)
qed

text \<open>\<^verbatim>\<open>RemoveConnectionEnd\<close> only touches the name server and the registry of classes.\<close>

lemma remove_runs:
  assumes "\<forall>s. lookup_result E s = noErr"
  shows "\<exists>r s'. RemoveConnectionEnd E s = (Returns r, s') \<and> live s' = live s \<and> heap s' = heap s \<and>
    next_ptr s' = next_ptr s \<and> next_obj s' = next_obj s \<and> mPointers s' = mPointers s \<and>
    history s' = history s"
  using assms by (auto simp: RemoveConnectionEnd_def NameServer_Lookup_def class_Register_def
      class_DeRegister_def Let_def split: option.split prod.split)

lemma Delete_runs:
  assumes ok: "registry_ok s" and look: "\<forall>s. lookup_result E s = noErr"
  shows "\<exists>s'. PMbedTLS_Delete E s = (Returns (), s') \<and> live s' = [] \<and> mPointers s' = None"
proof -
  obtain r s1 where s1: "RemoveConnectionEnd E s = (Returns r, s1)" "registry_ok s1"
    using remove_runs [OF look, of s] registry_ok_frame ok by blast
  obtain rs where rs: "mPointers s1 = Some rs" using s1(2) unfolding registry_ok_def by blast
  obtain s2 where s2: "free_slots E [0..<length rs] s1 = (Returns (), s2)" "registry_ok s2"
      "mPointers s2 = Some rs" "\<forall>i \<in> set [0..<length rs]. freed s2 (rs ! i)"
    using free_slots_runs [OF s1(2) rs, of "[0..<length rs]" E] by (auto simp: subset_iff)
  have "\<forall>r \<in> set rs. freed s2 r" using s2(4) by (auto simp: in_set_conv_nth)
  then have "live s2 = []" using freed_all_live s2(2,3) by blast
  then show ?thesis using s1 rs s2 by (simp add: PMbedTLS_Delete_def andthen_def)
qed

text \<open>A protocol just made.\<close>

lemma New_ok:
  assumes "live s = []" "\<forall>n a d. heap s n \<noteq> Some (CObjectBin a d)" "\<forall>n \<ge> next_obj s. heap s n = None"
  shows "PMbedTLS_New s = (Returns (), snd (PMbedTLS_New s)) \<and> registry_ok (snd (PMbedTLS_New s))"
  using assms by (auto simp: PMbedTLS_New_def registry_ok_def owns_def)

end
