(* ===== verification/NS_Examples.thy ===== *)
theory NS_Examples
  imports NS_Locks NS_Lifetime
begin

text \<open>
  Concrete surroundings for the examples of the bindings: a library that returns 0 from
  every call and reads four bytes, scripts that answer with a binary object, a name server
  and a registry of classes that never fail; and a state with a context, a configuration,
  two random generators and some data.
\<close>

definition demo_crt :: "string \<Rightarrow> x509_crt" where
  "demo_crt name = \<lparr>raw = Some [0x30, 0x82], version = 3, serial_gets = (2, ''01''),
     issuer_gets = (2, ''CA''), subject_gets = (int (length name), name),
     sig_alg_gets = (3, ''RSA''),
     valid_from = \<lparr>x_year = 2020, x_mon = 1, x_day = 1\<rparr>,
     valid_to = \<lparr>x_year = 2030, x_mon = 1, x_day = 1\<rparr>\<rparr>"

definition demo_env :: env where
  "demo_env = \<lparr>
     lib_int = (\<lambda>_ _. LibReturns 0),
     lib_text = (\<lambda>_ _. Some ''TLSv1.2''),
     lib_addr = (\<lambda>_ _. NULL),
     lib_read = (\<lambda>_ _ _. LibReturns (4, [1, 2, 3, 4])),
     lib_ulong = (\<lambda>_ _. 0),
     lib_version = ''2.16.6'',
     lib_ciphersuites = [49195, 49199, 0],
     lib_ciphersuite_name = (\<lambda>c. if c = 49195 then ''A'' else ''B''),
     c_memory = (\<lambda>_ _ _. 0),
     crt_chain = (\<lambda>_ _. [demo_crt ''leaf'', demo_crt ''root'']),
     script = (\<lambda>_ _ s. (Returns (Obj 4), s)),
     ISTRUE = (\<lambda>r. r = TRUEREF),
     rint_error = BadType kNSErrNotAnInteger,
     length_error = (\<lambda>_. ScriptExn 1),
     slot_error = (\<lambda>_. ScriptExn 2),
     not_binary = BadType kNSErrNotABinaryObject,
     bad_size = (\<lambda>_. ScriptExn 3),
     symbol_data = (\<lambda>_. None),
     cobject_size = 24,
     new_byte = (\<lambda>_ _. 0),
     string_bytes = (\<lambda>t. widen (List.map (\<lambda>c. of_nat (of_char c)) t)),
     MBEDTLS_ERR_SSL_WANT_READ = -0x6900,
     MBEDTLS_ERR_SSL_WANT_WRITE = -0x6880,
     MBEDTLS_ERR_SSL_ASYNC_IN_PROGRESS = -0x6500,
     MBEDTLS_ERR_SSL_CRYPTO_IN_PROGRESS = -0x7000,
     MBEDTLS_ERR_SSL_HELLO_VERIFY_REQUIRED = -0x6A80,
     MBEDTLS_ERR_SSL_PEER_CLOSE_NOTIFY = -0x7880,
     MBEDTLS_ERR_X509_FATAL_ERROR = -0x3000,
     lookup_result = (\<lambda>_. 0),
     register_name_result = (\<lambda>_. 0),
     register_class_result = (\<lambda>_ _. 0),
     deregister_class_result = (\<lambda>_ _. 0),
     kError_Not_Registered = -10038,
     own_class = 2,
     lookup_singleton_result = (\<lambda>_. 0),
     protocol_available = (\<lambda>_. True),
     register_singleton_result = (\<lambda>_. 0)\<rparr>"

text \<open>
  Objects 0 and 1 are a context and a configuration, 2 a random generator, 3 a host name, 4
  four bytes and 5 an array of two of them.
\<close>

definition demo_state :: ns where
  "demo_state = \<lparr>
     heap = [0 \<mapsto> CObjectBin (Block 1) kSSLDtor, 1 \<mapsto> CObjectBin (Block 2) kSSLConfigDtor,
       2 \<mapsto> CObjectBin (Block 3) kCtrDrbgDtor, 3 \<mapsto> Binary ''string'' [0, 104, 0, 105, 0, 0],
       4 \<mapsto> Binary ''bytes'' [1, 2, 3, 4], 5 \<mapsto> Array [Integer 48, Integer 130]],
     next_obj = 6, live = [3, 2, 1], next_ptr = 4,
     mPointers = Some [Obj 0, Obj 1, Obj 2, NILREF], mHandlers = [],
     ssl_refs = (\<lambda>_. no_functions), conf_refs = (\<lambda>_. no_config_functions), history = [],
     inet_name = None, registry = [1], singleton = True\<rparr>"

lemma demo_scripts_keep_locks: "scripts_keep_locks demo_env"
  by (simp add: scripts_keep_locks_def demo_env_def keeps_locks_silent)

end
