(* ===== verification/NS_Properties.thy ===== *)
theory NS_Properties
  imports NS_Examples
begin

text \<open>
  Properties of the NewtonScript bindings: the discipline of the locks, the life of the C
  objects, what the readers of certificates, the callbacks and the parsers do with sizes and
  indices, and the exchange of the inet tool's class.
\<close>

lemmas ns_run = andthen_def unwind_protect_def with_cobject_def with_cobject_opt_def
  with_state_def return_with_def throw_with_def undefined_here_def ThrowBadType_def
  UnlockRefArg_def LockedBinaryPtr_def log_event_def

section \<open>Locks\<close>





text \<open>
  Seeding a generator with no personalisation (NIL) throws with an object unlocked that
  was never locked: the length of the text is taken before it is locked.
\<close>

theorem seed_unlocks_unlocked:
  assumes "deref E s a = Some (CObjectBin p d)" and "deref E s b = Some (CObjectBin q d')"
  shows "fst (CtrDrbgSeed E a b NILREF s) = Throws (length_error E NILREF) \<and>
    (\<exists>es. history (snd (CtrDrbgSeed E a b NILREF s)) = history s @ es \<and> held [] es = None)"
  using assms by (simp add: CtrDrbgSeed_def with_maybe_string_def Length_def deref_def [of E _ NILREF]
      ns_run deref_heap [of "s\<lparr>history := h\<rparr>" s for h])

theorem seed_unlocks_unlocked_witness:
  "fst (CtrDrbgSeed demo_env (Obj 2) (Obj 0) NILREF demo_state) = Throws (ScriptExn 1)"
  using seed_unlocks_unlocked [of demo_env demo_state "Obj 2" "Block 3" kCtrDrbgDtor "Obj 0" "Block 1" kSSLDtor]
  by (simp add: deref_def demo_state_def) (simp add: demo_env_def)

section \<open>C objects\<close>

text \<open>
  C6. Whatever objects are made by the bindings, wrapped around pointers of the library and
  collected, \<^verbatim>\<open>Delete\<close> returns and no block of the C heap they own is left in use; none is
  disposed of twice, which would have no defined outcome.
\<close>

theorem delete_frees_everything:
  assumes "\<forall>s. lookup_result E s = noErr"
    and "live s = []" "\<forall>n a d. heap s n \<noteq> Some (CObjectBin a d)" "\<forall>n \<ge> next_obj s. heap s n = None"
  shows "\<exists>s1 s2. andthen PMbedTLS_New (\<lambda>_. object_steps E xs) s = (Returns (), s1) \<and>
    PMbedTLS_Delete E s1 = (Returns (), s2) \<and> live s2 = [] \<and> mPointers s2 = None"
proof -
  have new: "PMbedTLS_New s = (Returns (), snd (PMbedTLS_New s))" "registry_ok (snd (PMbedTLS_New s))"
    using New_ok [OF assms(2-4)] by simp_all
  obtain s1 where s1: "object_steps E xs (snd (PMbedTLS_New s)) = (Returns (), s1)" "registry_ok s1"
    using object_steps_ok [OF new(2)] by blast
  have "andthen PMbedTLS_New (\<lambda>_. object_steps E xs) s = (Returns (), s1)"
    using s1(1) by (simp add: andthen_def PMbedTLS_New_def)
  then show ?thesis using Delete_runs [OF s1(2) assms(1)] by blast
qed

theorem delete_frees_everything_witness:
  "\<exists>s1 s2. andthen PMbedTLS_New (\<lambda>_. object_steps demo_env
       [Make kSSLDtor, Make kEntropyDtor, Wrap 7, Collect 0, Make kX509CrtDtor])
       (demo_state\<lparr>heap := Map.empty, live := []\<rparr>) = (Returns (), s1) \<and>
     PMbedTLS_Delete demo_env s1 = (Returns (), s2) \<and> live s2 = [] \<and> mPointers s2 = None"
  by (rule delete_frees_everything) (simp_all add: demo_env_def)

section \<open>Certificates\<close>





lemma array_bytes_run:
  assumes "heap s a = Some (Array (List.map Integer ns))" and "set is \<subseteq> {..<length ns}"
  shows "array_bytes E (Obj a) is s = (Returns (List.map (\<lambda>i. word_of_int (ns ! i)) is), s)"
  using assms by (induction "is") (simp_all add: GetArraySlot_def deref_def RINT_def ns_run)

text \<open>
  Parsing an array of integers leaves the block of its copy in use, where parsing a
  binary object leaves the C heap as it was.
\<close>

theorem parse_array_leaks:
  assumes "\<And>h bs. lib_int E h (TLS (crt_parse p bs)) = LibReturns 0"
    and "heap s c = Some (CObjectBin p d)"
    and "heap s a = Some (Array (List.map Integer ns))" and "heap s b = Some (Binary ''bytes'' bs)"
  shows "fst (X509CrtParse E (Obj c) (Obj a) s) = Returns (Symbol ''ok'') \<and>
    live (snd (X509CrtParse E (Obj c) (Obj a) s)) = next_ptr s # live s \<and>
    fst (X509CrtParse E (Obj c) (Obj b) s) = Returns (Symbol ''ok'') \<and>
    live (snd (X509CrtParse E (Obj c) (Obj b) s)) = live s"
  using assms
  by (simp add: X509CrtParse_def with_maybe_string_def Length_def IsBinary_def IsArray_def IsString_def
      deref_def NewPtr_def array_bytes_run [where ns = ns] subset_iff mbedtls_def
      CastOrThrowError_def ns_run)

theorem parse_array_leaks_witness:
  "live (snd (X509CrtParse demo_env (Obj 0) (Obj 5) demo_state)) = [4, 3, 2, 1] \<and>
   live (snd (X509CrtParse demo_env (Obj 0) (Obj 4) demo_state)) = [3, 2, 1]"
  using parse_array_leaks [of demo_env "Block 1" demo_state 0 kSSLDtor 5 "[48, 130]" 4 "[1, 2, 3, 4]"]
  by (simp add: demo_state_def) (simp add: demo_env_def)

section \<open>Callbacks and texts\<close>

text \<open>
  The bytes a script gives for \<^verbatim>\<open>recv\<close> are handed to the library when they fit the buffer
  it offered; more of them are copied past its end.
\<close>

theorem recv_callback_bounds:
  assumes "NSCall E (recvFunction (ssl_refs s p)) [MAKEINT (int len)] s = (Returns (Obj n), s1)"
    and "heap s1 n = Some (Binary cls bs)"
  shows "fst (SSLRecvCallback_ns E (Block p) len s) =
    (if length bs \<le> len then Returns (int (length bs), bs) else Undefined)"
  using assms
  by (simp add: SSLRecvCallback_ns_def context_of_def with_locked_bytes_def IsBinary_def deref_def
      Length_def read_bytes_def ns_run)

theorem recv_callback_bounds_witness:
  "fst (SSLRecvCallback_ns demo_env (Block 1) 4 demo_state) = Returns (4, [1, 2, 3, 4]) \<and>
   fst (SSLRecvCallback_ns demo_env (Block 1) 3 demo_state) = Undefined"
  using recv_callback_bounds [of demo_env demo_state 1 4 4 "log_event (Script NILREF [MAKEINT 4]) demo_state"
      "''bytes''" "[1, 2, 3, 4]"]
    recv_callback_bounds [of demo_env demo_state 1 3 4 "log_event (Script NILREF [MAKEINT 3]) demo_state"
      "''bytes''" "[1, 2, 3, 4]"]
  by (simp add: NSCall_def log_event_def demo_env_def demo_state_def no_functions_def)

lemma c_string_append: "0 \<notin> set name \<Longrightarrow> c_string (name @ [0]) = name"
  by (induction name) (auto simp: c_string_def)

text \<open>
  C20. The host name of a NewtonScript string reaches the library unchanged when its
  characters with the final 0 are at most 255; a longer one runs over the buffer of the
  stack.
\<close>

theorem hostname_reaches_library:
  assumes "heap s c = Some (CObjectBin p d)" and "heap s h = Some (Binary ''string'' (widen name))"
    and "0 \<notin> set name" and "\<And>hs. lib_int E hs (SSL (ssl_set_hostname p (Some name))) = LibReturns 0"
  shows "if length name < 255
    then fst (SSLSetHostname E (Obj c) (Obj h) s) = Returns (Symbol ''ok'') \<and>
      Library (SSL (ssl_set_hostname p (Some name))) \<in>
        set (history (snd (SSLSetHostname E (Obj c) (Obj h) s)))
    else fst (SSLSetHostname E (Obj c) (Obj h) s) = Undefined"
proof -
  have widened: "take (length (widen name)) (widen name) = widen name" by simp
  show ?thesis using assms
    by (simp add: SSLSetHostname_def with_maybe_string_def IsBinary_def IsString_def Length_def deref_def
      read_bytes_def NewPtr_def DisposePtr_def MBEDTLS_SSL_MAX_HOST_NAME_LEN_def narrow_widen
      c_string_append length_widen mbedtls_def CastOrThrowError_def ns_run widened)
qed

theorem hostname_reaches_library_witness:
  "fst (SSLSetHostname demo_env (Obj 0) (Obj 3) demo_state) = Returns (Symbol ''ok'')"
  using hostname_reaches_library [of demo_state 0 "Block 1" kSSLDtor 3 "[104, 105]" demo_env]
  by (simp add: demo_state_def) (simp add: demo_env_def)

text \<open>
  C19. A read gives the bytes the library has put in the buffer, \<^verbatim>\<open>eof\<close> for none, and the
  symbol or the exception of an error.
\<close>

theorem read_gives_bytes:
  assumes "heap s c = Some (CObjectBin p d)" and "c < next_obj s" and "0 \<le> len"
    and "\<And>h. lib_read E h p len = LibReturns (ret, bs)" and "length bs = nat ret" and "ret \<le> len"
  shows "(0 < ret \<longrightarrow> fst (SSLRead E (Obj c) (Integer len) s) = Returns (Obj (next_obj s)) \<and>
      heap (snd (SSLRead E (Obj c) (Integer len) s)) (next_obj s) = Some (Binary ''bytes'' bs)) \<and>
    (ret = 0 \<longrightarrow> fst (SSLRead E (Obj c) (Integer len) s) = Returns (Symbol ''eof'')) \<and>
    (ret < 0 \<longrightarrow> fst (SSLRead E (Obj c) (Integer len) s) = fst (CastOrThrowError E ret s))"
proof -
  have "c \<noteq> next_obj s" using assms(2) by simp
  moreover have "length bs \<le> nat len" using assms(5,6) by simp
  moreover have "take (length bs) (overwrite xs 0 bs) = bs" if "length xs = nat len" for xs :: bytes
    using that take_overwrite [of 0 bs xs] calculation(2) by simp
  ultimately show ?thesis using assms
    by (auto simp: SSLRead_def RINT_def AllocateBinary_def new_object_def deref_def mbedtls_read_def
      store_bytes_def SetLength_def CastOrThrowError_def ns_run)
qed

theorem read_gives_bytes_witness:
  "fst (SSLRead demo_env (Obj 0) (Integer 16) demo_state) = Returns (Obj 6)"
  using read_gives_bytes [of demo_state 0 "Block 1" kSSLDtor 16 demo_env 4 "[1, 2, 3, 4]"]
  by (simp add: demo_state_def) (simp add: demo_env_def)

text \<open>No two different results of the library are reported alike.\<close>

theorem results_distinguished:
  assumes "fst (CastOrThrowError E err s) = fst (CastOrThrowError E err' s')"
    and "err < 2 ^ 29" "err' < 2 ^ 29"
  shows "err = err'"
  using assms by (auto simp: CastOrThrowError_def ns_run MAKEINT_def split: if_splits)

theorem results_distinguished_witness:
  "fst (CastOrThrowError demo_env 5 demo_state) \<noteq> fst (CastOrThrowError demo_env 6 demo_state)"
  using results_distinguished [of demo_env 5 demo_state 6 demo_state] by auto

text \<open>
  \<^verbatim>\<open>SSLConfRng\<close> throws for every generator, and mbed TLS is not called.
\<close>

theorem conf_rng_throws:
  assumes "deref E s c = Some (CObjectBin p d)"
  shows "SSLConfRng E c g s = (Throws (not_binary E NILREF),
    s\<lparr>history := history s @ [Locked c, Locked NILREF, Unlocked NILREF, Unlocked c]\<rparr>)"
  using assms by (simp add: SSLConfRng_def deref_def [of E _ NILREF] ns_run)

theorem conf_rng_throws_witness:
  "fst (SSLConfRng demo_env (Obj 1) (Obj 2) demo_state) = Throws (BadType kNSErrNotABinaryObject NILREF)"
  using conf_rng_throws [of demo_env demo_state "Obj 1" "Block 2" kSSLConfigDtor "Obj 2"]
  by (simp add: deref_def demo_state_def) (simp add: demo_env_def)

section \<open>Results\<close>

lemma set_names_run:
  assumes "heap s n = Some (Array rs)" and "n < next_obj s" and "length rs = i + length cs"
    and "\<forall>j < i. \<exists>m. rs ! j = Obj m \<and> m < next_obj s \<and> m \<noteq> n \<and> heap s m = Some (f j)"
    and "\<forall>j < length cs. f (i + j) = Binary ''string'' (string_bytes E (lib_ciphersuite_name E (cs ! j)))"
  shows "\<exists>s' rs'. set_names E (Obj n) i cs s = (Returns (), s') \<and> heap s' n = Some (Array rs') \<and>
    length rs' = length rs \<and> (\<forall>j < length rs. \<exists>m. rs' ! j = Obj m \<and> heap s' m = Some (f j))"
  using assms
proof (induction cs arbitrary: s rs i)
  case Nil
  then show ?case by (auto simp: ns_run)
next
  case (Cons c cs)
  define s1 where "s1 = s\<lparr>next_obj := Suc (next_obj s),
    heap := ((heap s)(next_obj s \<mapsto> f i))(n \<mapsto> Array (rs[i := Obj (next_obj s)]))\<rparr>"
  have "f i = Binary ''string'' (string_bytes E (lib_ciphersuite_name E c))"
    using Cons.prems(5) by (force dest: spec [of _ 0])
  then have run: "set_names E (Obj n) i (c # cs) s = set_names E (Obj n) (Suc i) cs s1"
    using Cons.prems(1-3) by (simp add: MakeString_def new_object_def SetArraySlot_def ns_run s1_def)
  have prems: "heap s1 n = Some (Array (rs[i := Obj (next_obj s)]))" "n < next_obj s1"
    "length (rs[i := Obj (next_obj s)]) = Suc i + length cs"
    using Cons.prems(2,3) by (simp_all add: s1_def)
  have old: "\<forall>j < Suc i. \<exists>m. rs[i := Obj (next_obj s)] ! j = Obj m \<and> m < next_obj s1 \<and> m \<noteq> n \<and>
      heap s1 m = Some (f j)"
  proof (intro allI impI)
    fix j assume "j < Suc i"
    then consider "j < i" | "j = i" by linarith
    then show "\<exists>m. rs[i := Obj (next_obj s)] ! j = Obj m \<and> m < next_obj s1 \<and> m \<noteq> n \<and> heap s1 m = Some (f j)"
    proof cases
      case 1
      then obtain m where "rs ! j = Obj m" "m < next_obj s" "m \<noteq> n" "heap s m = Some (f j)"
        using Cons.prems(4) by blast
      then show ?thesis using 1 by (intro exI [of _ m]) (simp add: s1_def)
    next
      case 2
      then show ?thesis using Cons.prems(2,3) by (intro exI [of _ "next_obj s"]) (simp add: s1_def)
    qed
  qed
  have new: "\<forall>j < length cs. f (Suc i + j) = Binary ''string'' (string_bytes E (lib_ciphersuite_name E (cs ! j)))"
    using Cons.prems(5) by (metis Suc_less_eq add_Suc_shift length_Cons nth_Cons_Suc)
  show ?case using Cons.IH [OF prems old new] unfolding run by simp
qed

text \<open>
  C21. The list of ciphersuites is an array with one string for each identifier before the
  final 0, its name, in their order.
\<close>

theorem ciphersuites_are_strings:
  "\<exists>n s' rs. SSLListCiphersuites E s = (Returns (Obj n), s') \<and> heap s' n = Some (Array rs) \<and>
     length rs = length (takeWhile (\<lambda>c. c \<noteq> 0) (lib_ciphersuites E)) \<and>
     (\<forall>j < length rs. \<exists>m. rs ! j = Obj m \<and>
        heap s' m = Some (Binary ''string'' (string_bytes E (lib_ciphersuite_name E (lib_ciphersuites E ! j)))))"
proof -
  define cs where "cs = takeWhile (\<lambda>c. c \<noteq> 0) (lib_ciphersuites E)"
  define s1 where "s1 = s\<lparr>heap := (heap s)(next_obj s \<mapsto> Array (replicate (length cs) NILREF)),
    next_obj := Suc (next_obj s)\<rparr>"
  define f where "f j = Binary ''string'' (string_bytes E (lib_ciphersuite_name E (lib_ciphersuites E ! j)))" for j
  have "cs ! j = lib_ciphersuites E ! j" if "j < length cs" for j
    using that by (simp add: cs_def takeWhile_nth)
  then obtain s' rs where "set_names E (Obj (next_obj s)) 0 cs s1 = (Returns (), s')"
      "heap s' (next_obj s) = Some (Array rs)" "length rs = length cs"
      "\<forall>j < length cs. \<exists>m. rs ! j = Obj m \<and> heap s' m = Some (f j)"
    using set_names_run [of s1 "next_obj s" "replicate (length cs) NILREF" 0 cs f E]
    by (auto simp: s1_def f_def)
  then show ?thesis
    by (intro exI [of _ "next_obj s"] exI [of _ s'] exI [of _ rs])
      (simp add: SSLListCiphersuites_def AllocateArray_def new_object_def ns_run Let_def f_def
        cs_def [symmetric] s1_def [symmetric])
qed

theorem ciphersuites_are_strings_witness:
  "\<exists>n s' rs. SSLListCiphersuites demo_env demo_state = (Returns (Obj n), s') \<and> heap s' n = Some (Array rs) \<and>
     length rs = 2"
proof -
  have "length (takeWhile (\<lambda>c. c \<noteq> 0) (lib_ciphersuites demo_env)) = 2" by (simp add: demo_env_def)
  then show ?thesis using ciphersuites_are_strings [of demo_env demo_state] by metis
qed

section \<open>The inet tool\<close>

text \<open>
  C16. Installing the connection end and removing it again leaves the state as it was; in
  between, the class registered under the name of the inet tool is
  \<^verbatim>\<open>PMbedTLSConnectionEnd\<close>, and the name server keeps the original class.
\<close>

theorem exchange_roundtrip:
  assumes "kError_Not_Registered E \<noteq> noErr" and "\<forall>s. lookup_result E s = noErr"
    and "\<forall>s. register_name_result E s = noErr" and "\<forall>c s. register_class_result E c s = noErr"
    and "\<forall>c s. deregister_class_result E c s = noErr"
    and "inet_name s = None" and "registry s = c # cs"
  shows "\<exists>s1. InstallConnectionEnd E s = (Returns TRUEREF, s1) \<and>
    ClassInfoByName s1 = Some (own_class E) \<and> NameServer_Lookup E s1 = (noErr, Some c) \<and>
    InstallConnectionEnd E s1 = (Returns NILREF, s1) \<and>
    RemoveConnectionEnd E s1 = (Returns TRUEREF, s)"
  using assms
  by (simp add: InstallConnectionEnd_def RemoveConnectionEnd_def NameServer_Lookup_def
      NameServer_RegisterName_def ClassInfoByName_def class_Register_def class_DeRegister_def)

theorem exchange_roundtrip_witness:
  "\<exists>s1. InstallConnectionEnd demo_env demo_state = (Returns TRUEREF, s1) \<and>
    RemoveConnectionEnd demo_env s1 = (Returns TRUEREF, demo_state)"
  using exchange_roundtrip [of demo_env demo_state 1 "[]"]
  by (auto simp: demo_state_def) (auto simp: demo_env_def)

text \<open>
  When the name server refuses the name, the class of the inet tool stays deregistered
  and no later installation finds it.
\<close>

theorem failed_install_loses_tool:
  assumes "\<forall>c s. deregister_class_result E c s = noErr" and "\<forall>s. register_name_result E s = err"
    and "err \<noteq> noErr" and "inet_name s = None" and "registry s = [c]"
  shows "\<exists>s1. InstallConnectionEnd E s = (Returns (MAKEINT err), s1) \<and> ClassInfoByName s1 = None \<and>
    InstallConnectionEnd E s1 = (Returns NILREF, s1) \<and> RemoveConnectionEnd E s1 = (Returns NILREF, s1)"
  using assms
  by (simp add: InstallConnectionEnd_def RemoveConnectionEnd_def NameServer_Lookup_def
      NameServer_RegisterName_def ClassInfoByName_def class_DeRegister_def)

theorem failed_install_loses_tool_witness:
  "\<exists>s1. InstallConnectionEnd (demo_env\<lparr>register_name_result := \<lambda>_. -1\<rparr>) demo_state = (Returns (MAKEINT (-1)), s1)"
  using failed_install_loses_tool [of "demo_env\<lparr>register_name_result := \<lambda>_. -1\<rparr>" "-1" demo_state 1]
  by (auto simp: demo_state_def) (auto simp: demo_env_def)

end
