(* ===== verification/Event_Proxy.thy ===== *)
theory Event_Proxy
  imports Task_Bindings
begin

text \<open>
  \<^verbatim>\<open>TAEventHandlerProxy\<close>, the base class of the event handlers: it builds a handler object
  with the memory layout of the NewtonOS it runs on, and the callbacks of that object lead
  to the virtual methods of the proxy. The C++ runtime of the ROM, which reads the virtual
  table at the place its version expects, and the ROM's own methods are parameters or
  written from the two layouts the header documents.
\<close>

section \<open>The object\<close>

text \<open>Where a slot of a virtual table leads: a static callback of the proxy, or the ROM's destructor.\<close>

datatype entry = entryDestructor | entryAETestEvent | entryAEHandlerProc | entryAECompletionProc
  | entryIdleProc | entryROMDestructor

record SAEHandlerOS20VTable =
  fLink :: ulong
  fDestructor :: entry
  fAETestEvent :: entry
  fAEHandlerProc :: entry
  fAECompletionProc :: entry
  fIdleProc :: entry

text \<open>
  The virtual methods of a proxy: the default ones of \<^verbatim>\<open>TAEventHandlerProxy\<close> or those of a
  derived class. What a method does is a value of type \<open>'r\<close>.
\<close>

record 'r methods =
  mAETestEvent :: "event \<Rightarrow> bool"
  mAEHandlerProc :: "event \<Rightarrow> 'r"
  mAECompletionProc :: "event \<Rightarrow> 'r"
  mIdleProc :: "event \<Rightarrow> 'r"

text \<open>A word of the handler object.\<close>

datatype 'r cell = Word ulong | TablePtr20 SAEHandlerOS20VTable | TablePtr21 | ProxyPtr "'r methods"

text \<open>
  The members of the proxy; \<open>mEventHandler\<close> is the block (\<open>None\<close> for NULL), \<open>mEventClassPtr\<close>
  and \<open>mEventIDPtr\<close> are places in it. \<open>frees\<close> counts how often the block was freed.
\<close>

record 'r proxy =
  mMethods :: "'r methods"
  mEventHandler :: "'r cell list option"
  mVirtualTable20 :: SAEHandlerOS20VTable
  mEventClassPtr :: nat
  mEventIDPtr :: nat
  frees :: nat

text \<open>
  The two layouts: \<^verbatim>\<open>SAEventHandlerOnOS20\<close> is next, class, ID, idler, table;
  \<^verbatim>\<open>SAEventHandlerOnOS21\<close> is table, next, class, ID, idler. The pointer to the proxy follows.
\<close>

definition on_os20 :: "ulong \<Rightarrow> bool" where
  "on_os20 rom_version \<longleftrightarrow> rom_version < 0x20002"

definition table_offset :: "ulong \<Rightarrow> nat" where
  "table_offset v = (if on_os20 v then 4 else 0)"

definition class_offset :: "ulong \<Rightarrow> nat" where
  "class_offset v = (if on_os20 v then 1 else 2)"

definition id_offset :: "ulong \<Rightarrow> nat" where
  "id_offset v = (if on_os20 v then 2 else 3)"

definition proxy_offset :: nat where
  "proxy_offset = 5"

text \<open>\<^verbatim>\<open>kVirtualTable21\<close> of \<^verbatim>\<open>TAEventHandlerProxy.s\<close>.\<close>

definition kVirtualTable21 :: "entry list" where
  "kVirtualTable21 = [entryROMDestructor, entryAETestEvent, entryAEHandlerProc,
     entryAECompletionProc, entryIdleProc]"

section \<open>Construction and destruction\<close>

text \<open>\<open>block\<close> is the memory of the object after \<^verbatim>\<open>malloc\<close> and the constructor of the ROM.\<close>

definition TAEventHandlerProxy :: "ulong \<Rightarrow> 'r cell list \<Rightarrow> 'r methods \<Rightarrow> 'r proxy" where
  "TAEventHandlerProxy v block m =
     (let block1 = block[proxy_offset := ProxyPtr m];
          table = \<lparr>fLink = 0, fDestructor = entryDestructor, fAETestEvent = entryAETestEvent,
            fAEHandlerProc = entryAEHandlerProc, fAECompletionProc = entryAECompletionProc,
            fIdleProc = entryIdleProc\<rparr> in
      if v < 0x20002
      then \<lparr>mMethods = m, mEventHandler = Some (block1[4 := TablePtr20 table]),
             mVirtualTable20 = table, mEventClassPtr = 1, mEventIDPtr = 2, frees = 0\<rparr>
      else \<lparr>mMethods = m, mEventHandler = Some (block1[0 := TablePtr21]),
             mVirtualTable20 = table, mEventClassPtr = 2, mEventIDPtr = 3, frees = 0\<rparr>)"

definition TAEventHandlerProxy_destructor :: "'r proxy \<Rightarrow> 'r proxy" where
  "TAEventHandlerProxy_destructor p =
     (if mEventHandler p \<noteq> None then p\<lparr>frees := Suc (frees p)\<rparr> else p)"

text \<open>The destructor the system of NewtonOS 2.0 may call.\<close>

definition proxy_AEDestructor :: "'r proxy \<Rightarrow> 'r proxy" where
  "proxy_AEDestructor p = p\<lparr>frees := Suc (frees p), mEventHandler := None\<rparr>"

section \<open>Methods\<close>

definition default_AETestEvent :: "event \<Rightarrow> bool" where
  "default_AETestEvent e = True"

text \<open>The three empty methods do nothing.\<close>

definition default_AEHandlerProc :: "event \<Rightarrow> 's \<Rightarrow> 's" where
  "default_AEHandlerProc e s = s"

definition default_AECompletionProc :: "event \<Rightarrow> 's \<Rightarrow> 's" where
  "default_AECompletionProc e s = s"

definition default_IdleProc :: "event \<Rightarrow> 's \<Rightarrow> 's" where
  "default_IdleProc e s = s"

text \<open>\<^verbatim>\<open>inThis->fProxyPtr\<close>.\<close>

definition fProxyPtr :: "'r cell list \<Rightarrow> 'r methods option" where
  "fProxyPtr block = (case block ! proxy_offset of ProxyPtr m \<Rightarrow> Some m | _ \<Rightarrow> None)"

definition proxy_AETestEvent :: "'r cell list \<Rightarrow> event \<Rightarrow> bool option" where
  "proxy_AETestEvent block e = map_option (\<lambda>m. mAETestEvent m e) (fProxyPtr block)"

definition proxy_AEHandlerProc :: "'r cell list \<Rightarrow> event \<Rightarrow> 'r option" where
  "proxy_AEHandlerProc block e = map_option (\<lambda>m. mAEHandlerProc m e) (fProxyPtr block)"

definition proxy_AECompletionProc :: "'r cell list \<Rightarrow> event \<Rightarrow> 'r option" where
  "proxy_AECompletionProc block e = map_option (\<lambda>m. mAECompletionProc m e) (fProxyPtr block)"

definition proxy_IdleProc :: "'r cell list \<Rightarrow> event \<Rightarrow> 'r option" where
  "proxy_IdleProc block e = map_option (\<lambda>m. mIdleProc m e) (fProxyPtr block)"

text \<open>The accessors read through the saved pointers.\<close>

definition read_word :: "'r cell list option \<Rightarrow> nat \<Rightarrow> ulong option" where
  "read_word b i = (case b of
      None \<Rightarrow> None
    | Some block \<Rightarrow> (case block ! i of Word w \<Rightarrow> Some w | _ \<Rightarrow> None))"

definition GetEventClass :: "'r proxy \<Rightarrow> ulong option" where
  "GetEventClass p = read_word (mEventHandler p) (mEventClassPtr p)"

definition GetEventID :: "'r proxy \<Rightarrow> ulong option" where
  "GetEventID p = read_word (mEventHandler p) (mEventIDPtr p)"

text \<open>
  The methods that only hand on to the object in the ROM: \<open>rom\<close> is what the ROM does with
  the object, with the error it returns. A NULL object has no methods.
\<close>

datatype rom_call =
    romInit ulong ulong
  | romDeferReply
  | romReplyImmed
  | romSetReplyEvent ulong event
  | romSetReplyToken nat
  | romSetReplyTokenEvent nat ulong event
  | romInitIdler ulong ulong bool
  | romInitIdlerUnits ulong nat ulong bool
  | romStartIdle
  | romStopIdle
  | romResetIdle
  | romResetIdleUnits ulong nat
  | romResetIdleTimeout ulong

type_synonym 'r rom = "rom_call \<Rightarrow> 'r cell list \<Rightarrow> int \<times> 'r cell list"

definition on_handler :: "'r rom \<Rightarrow> rom_call \<Rightarrow> 'r proxy \<Rightarrow> (int \<times> 'r proxy) option" where
  "on_handler rom c p = (case mEventHandler p of
      None \<Rightarrow> None
    | Some block \<Rightarrow> (let (err, block') = rom c block in Some (err, p\<lparr>mEventHandler := Some block'\<rparr>)))"

definition proxy_Init :: "'r rom \<Rightarrow> ulong \<Rightarrow> ulong \<Rightarrow> 'r proxy \<Rightarrow> (int \<times> 'r proxy) option" where
  "proxy_Init rom inEventID inEventClass p = on_handler rom (romInit inEventID inEventClass) p"

definition proxy_DeferReply :: "'r rom \<Rightarrow> 'r proxy \<Rightarrow> (int \<times> 'r proxy) option" where
  "proxy_DeferReply rom p = on_handler rom romDeferReply p"

definition proxy_ReplyImmed :: "'r rom \<Rightarrow> 'r proxy \<Rightarrow> (int \<times> 'r proxy) option" where
  "proxy_ReplyImmed rom p = on_handler rom romReplyImmed p"

definition proxy_SetReply :: "'r rom \<Rightarrow> ulong \<Rightarrow> event \<Rightarrow> 'r proxy \<Rightarrow> (int \<times> 'r proxy) option" where
  "proxy_SetReply rom sz e p = on_handler rom (romSetReplyEvent sz e) p"

definition proxy_SetReplyToken :: "'r rom \<Rightarrow> nat \<Rightarrow> 'r proxy \<Rightarrow> (int \<times> 'r proxy) option" where
  "proxy_SetReplyToken rom token p = on_handler rom (romSetReplyToken token) p"

definition proxy_SetReplyTokenEvent ::
    "'r rom \<Rightarrow> nat \<Rightarrow> ulong \<Rightarrow> event \<Rightarrow> 'r proxy \<Rightarrow> (int \<times> 'r proxy) option" where
  "proxy_SetReplyTokenEvent rom token sz e p = on_handler rom (romSetReplyTokenEvent token sz e) p"

definition proxy_InitIdler :: "'r rom \<Rightarrow> ulong \<Rightarrow> ulong \<Rightarrow> bool \<Rightarrow> 'r proxy \<Rightarrow> (int \<times> 'r proxy) option" where
  "proxy_InitIdler rom inIdle inRefCon inStart p = on_handler rom (romInitIdler inIdle inRefCon inStart) p"

definition proxy_InitIdlerUnits ::
    "'r rom \<Rightarrow> ulong \<Rightarrow> nat \<Rightarrow> ulong \<Rightarrow> bool \<Rightarrow> 'r proxy \<Rightarrow> (int \<times> 'r proxy) option" where
  "proxy_InitIdlerUnits rom amount units inRefCon inStart p =
     on_handler rom (romInitIdlerUnits amount units inRefCon inStart) p"

definition proxy_StartIdle :: "'r rom \<Rightarrow> 'r proxy \<Rightarrow> (int \<times> 'r proxy) option" where
  "proxy_StartIdle rom p = on_handler rom romStartIdle p"

definition proxy_StopIdle :: "'r rom \<Rightarrow> 'r proxy \<Rightarrow> (int \<times> 'r proxy) option" where
  "proxy_StopIdle rom p = on_handler rom romStopIdle p"

definition proxy_ResetIdle :: "'r rom \<Rightarrow> 'r proxy \<Rightarrow> (int \<times> 'r proxy) option" where
  "proxy_ResetIdle rom p = on_handler rom romResetIdle p"

definition proxy_ResetIdleUnits :: "'r rom \<Rightarrow> ulong \<Rightarrow> nat \<Rightarrow> 'r proxy \<Rightarrow> (int \<times> 'r proxy) option" where
  "proxy_ResetIdleUnits rom amount units p = on_handler rom (romResetIdleUnits amount units) p"

definition proxy_ResetIdleTimeout :: "'r rom \<Rightarrow> ulong \<Rightarrow> 'r proxy \<Rightarrow> (int \<times> 'r proxy) option" where
  "proxy_ResetIdleTimeout rom inIdle p = on_handler rom (romResetIdleTimeout inIdle) p"

section \<open>Delivery\<close>

text \<open>
  A virtual call of the ROM on the object: slot 0 is the destructor, then the four methods
  in the order of the tables. On NewtonOS 2.0 the table starts with \<^verbatim>\<open>fLink\<close> and is found at
  the end of the object; on 2.1 it is found at the start and holds branches.
\<close>

definition table20_entry :: "SAEHandlerOS20VTable \<Rightarrow> nat \<Rightarrow> entry" where
  "table20_entry t k = [fDestructor t, fAETestEvent t, fAEHandlerProc t, fAECompletionProc t, fIdleProc t] ! k"

definition virtual_entry :: "ulong \<Rightarrow> 'r cell list \<Rightarrow> nat \<Rightarrow> entry option" where
  "virtual_entry v block k = (case block ! table_offset v of
      TablePtr20 t \<Rightarrow> if on_os20 v then Some (table20_entry t k) else None
    | TablePtr21 \<Rightarrow> if on_os20 v then None else Some (kVirtualTable21 ! k)
    | _ \<Rightarrow> None)"

definition call_entry :: "'r cell list \<Rightarrow> entry \<Rightarrow> event \<Rightarrow> 'r option" where
  "call_entry block x e = (case x of
      entryAEHandlerProc \<Rightarrow> proxy_AEHandlerProc block e
    | entryAECompletionProc \<Rightarrow> proxy_AECompletionProc block e
    | entryIdleProc \<Rightarrow> proxy_IdleProc block e
    | _ \<Rightarrow> None)"

definition rom_AEHandlerProc :: "ulong \<Rightarrow> 'r cell list \<Rightarrow> event \<Rightarrow> 'r option" where
  "rom_AEHandlerProc v block e = Option.bind (virtual_entry v block 2) (\<lambda>x. call_entry block x e)"

definition rom_AETestEvent :: "ulong \<Rightarrow> 'r cell list \<Rightarrow> event \<Rightarrow> bool option" where
  "rom_AETestEvent v block e = (case virtual_entry v block 1 of
      Some entryAETestEvent \<Rightarrow> proxy_AETestEvent block e
    | _ \<Rightarrow> None)"

text \<open>
  The constructor of an event handler: the proxy with the handler's \<^verbatim>\<open>AEHandlerProc\<close>, then
  \<^verbatim>\<open>Init\<close> with its identifier and the class of the events.
\<close>

definition handler_methods :: "('n \<Rightarrow> event \<Rightarrow> ('q \<times> 'n) option) \<Rightarrow> ('n \<Rightarrow> ('q \<times> 'n) option) methods" where
  "handler_methods h = \<lparr>mAETestEvent = default_AETestEvent, mAEHandlerProc = (\<lambda>e N. h N e),
     mAECompletionProc = (\<lambda>e N. None), mIdleProc = (\<lambda>e N. None)\<rparr>"

definition install_handler ::
    "ulong \<Rightarrow> (newt \<Rightarrow> (reply \<times> newt) option) rom \<Rightarrow> (newt \<Rightarrow> (reply \<times> newt) option) cell list \<Rightarrow>
     ulong \<times> (newt \<Rightarrow> event \<Rightarrow> (reply \<times> newt) option) \<Rightarrow> (newt \<Rightarrow> (reply \<times> newt) option) proxy" where
  "install_handler v rom block x = (case x of (i, h) \<Rightarrow>
     (case proxy_Init rom i kMbedTLSEventClass (TAEventHandlerProxy v block (handler_methods h)) of
        Some (_, p) \<Rightarrow> p
      | None \<Rightarrow> TAEventHandlerProxy v block (handler_methods h)))"

text \<open>
  The ROM hands an event to the first handler registered for its class and identifier that
  accepts it.
\<close>

fun deliver ::
    "ulong \<Rightarrow> (newt \<Rightarrow> (reply \<times> newt) option) proxy list \<Rightarrow> event \<Rightarrow> newt \<Rightarrow> (reply \<times> newt) option" where
  "deliver v [] e N = None"
| "deliver v (p # ps) e N =
     (case mEventHandler p of
        None \<Rightarrow> deliver v ps e N
      | Some block \<Rightarrow>
          if read_word (Some block) (class_offset v) = Some kMbedTLSEventClass \<and>
             read_word (Some block) (id_offset v) = Some (event_id e) \<and>
             rom_AETestEvent v block e = Some True
          then (case rom_AEHandlerProc v block e of Some f \<Rightarrow> f N | None \<Rightarrow> None)
          else deliver v ps e N)"

text \<open>
  \<^verbatim>\<open>TAEventHandler::Init\<close> of the ROM stores the identifier and the class where its version
  keeps them, and may link the object to the next one.
\<close>

definition rom_init_stores :: "ulong \<Rightarrow> 'r rom \<Rightarrow> bool" where
  "rom_init_stores v rom \<longleftrightarrow> (\<forall>i c block. length block = 6 \<longrightarrow>
     length (snd (rom (romInit i c) block)) = 6 \<and>
     snd (rom (romInit i c) block) ! class_offset v = Word c \<and>
     snd (rom (romInit i c) block) ! id_offset v = Word i \<and>
     snd (rom (romInit i c) block) ! table_offset v = block ! table_offset v \<and>
     snd (rom (romInit i c) block) ! proxy_offset = block ! proxy_offset)"

lemmas layout = on_os20_def table_offset_def class_offset_def id_offset_def proxy_offset_def

lemma proxy_installed:
  assumes "rom_init_stores v rom" and "length block = 6"
    and "proxy_Init rom i c (TAEventHandlerProxy v block m) = Some (err, p)"
  shows "\<exists>b. mEventHandler p = Some b \<and> length b = 6 \<and> b ! class_offset v = Word c \<and>
    b ! id_offset v = Word i \<and> fProxyPtr b = Some m \<and>
    virtual_entry v b k = (if on_os20 v then Some (table20_entry (mVirtualTable20 p) k) else Some (kVirtualTable21 ! k)) \<and>
    mVirtualTable20 p = \<lparr>fLink = 0, fDestructor = entryDestructor, fAETestEvent = entryAETestEvent,
      fAEHandlerProc = entryAEHandlerProc, fAECompletionProc = entryAECompletionProc,
      fIdleProc = entryIdleProc\<rparr> \<and>
    mEventClassPtr p = class_offset v \<and> mEventIDPtr p = id_offset v"
proof -
  define b0 where "b0 = the (mEventHandler (TAEventHandlerProxy v block m))"
  have b0: "mEventHandler (TAEventHandlerProxy v block m) = Some b0" "length b0 = 6"
    using assms(2) by (simp_all add: b0_def TAEventHandlerProxy_def Let_def)
  have p: "p = (TAEventHandlerProxy v block m)\<lparr>mEventHandler := Some (snd (rom (romInit i c) b0))\<rparr>"
    using assms(3) b0 by (auto simp: proxy_Init_def on_handler_def split: prod.splits)
  have "b0 ! proxy_offset = ProxyPtr m"
    using b0 assms(2) by (auto simp: TAEventHandlerProxy_def Let_def layout split: if_splits)
  moreover have "b0 ! table_offset v = (if on_os20 v then TablePtr20 (mVirtualTable20 p) else TablePtr21)"
    using b0 assms(2) unfolding p by (auto simp: TAEventHandlerProxy_def Let_def layout split: if_splits)
  ultimately show ?thesis
    using assms(1) b0(2) unfolding rom_init_stores_def p
    by (auto simp: fProxyPtr_def virtual_entry_def TAEventHandlerProxy_def Let_def layout)
qed

text \<open>The proxy tells the class and the identifier the ROM stored, on both versions.\<close>

lemma accessors_agree:
  assumes "rom_init_stores v rom" and "length block = 6"
    and "proxy_Init rom i c (TAEventHandlerProxy v block m) = Some (err, p)"
  shows "GetEventClass p = Some c \<and> GetEventID p = Some i"
  using proxy_installed [OF assms, of 0] by (auto simp: GetEventClass_def GetEventID_def read_word_def)

lemma install_Some: "\<exists>err p. proxy_Init rom i c (TAEventHandlerProxy v block m) = Some (err, p)"
  by (simp add: proxy_Init_def on_handler_def TAEventHandlerProxy_def Let_def split: prod.split)

lemma deliver_step:
  assumes "rom_init_stores v rom" and "length block = 6"
  shows "deliver v (install_handler v rom block (i, h) # ps) e N =
    (if i = event_id e then h N e else deliver v ps e N)"
proof -
  obtain err p where init: "proxy_Init rom i kMbedTLSEventClass (TAEventHandlerProxy v block (handler_methods h))
      = Some (err, p)" using install_Some by blast
  have p: "install_handler v rom block (i, h) = p" using init by (simp add: install_handler_def)
  obtain b where b: "mEventHandler p = Some b" "b ! class_offset v = Word kMbedTLSEventClass"
      "b ! id_offset v = Word i" "fProxyPtr b = Some (handler_methods h)"
    using proxy_installed [OF assms init] by blast
  have table: "virtual_entry v b 1 = Some entryAETestEvent" "virtual_entry v b 2 = Some entryAEHandlerProc"
    using proxy_installed [OF assms init, of 1] proxy_installed [OF assms init, of 2] b(1)
    by (auto simp: table20_entry_def kVirtualTable21_def split: if_splits)
  show ?thesis unfolding p using b table
    by (simp add: read_word_def rom_AETestEvent_def rom_AEHandlerProc_def proxy_AETestEvent_def
        proxy_AEHandlerProc_def call_entry_def handler_methods_def default_AETestEvent_def)
qed

lemma deliver_map:
  assumes "rom_init_stores v rom" and "length block = 6"
  shows "deliver v (List.map (install_handler v rom block) hs) e N =
    (case map_of hs (event_id e) of None \<Rightarrow> None | Some h \<Rightarrow> h N e)"
  by (induction hs) (auto simp: deliver_step [OF assms] simp del: deliver.simps(2))

text \<open>
  C15. On NewtonOS 2.0 and on 2.1, an event delivered by the ROM to the seven handlers
  \<^verbatim>\<open>PMbedTLS::New\<close> makes is handled by the handler of its identifier: the layout the proxy
  chooses is the one the ROM reads.
\<close>

theorem proxy_delivers:
  assumes "rom_init_stores v rom" and "length block = 6"
  shows "deliver v (List.map (install_handler v rom block) registered_handlers) e N = dispatch N e"
  by (simp add: deliver_map [OF assms] dispatch_def)

definition demo_rom :: "ulong \<Rightarrow> 'r rom" where
  "demo_rom v c block = (case c of
      romInit i cls \<Rightarrow> (0, block[class_offset v := Word cls, id_offset v := Word i])
    | _ \<Rightarrow> (0, block))"

lemma demo_rom_stores: "rom_init_stores v (demo_rom v)"
  by (simp add: rom_init_stores_def demo_rom_def layout)

theorem proxy_delivers_witness:
  "\<forall>e N. deliver 0x20001 (List.map (install_handler 0x20001 (demo_rom 0x20001) (replicate 6 (Word 0)))
     registered_handlers) e N = dispatch N e"
  by (intro allI proxy_delivers demo_rom_stores) simp

text \<open>
  The destructor of the proxy after that of the system on 2.0 does not free again.
\<close>

lemma system_destructor_once:
  "mEventHandler p \<noteq> None \<Longrightarrow> frees (TAEventHandlerProxy_destructor (proxy_AEDestructor p)) = Suc (frees p)"
  by (simp add: TAEventHandlerProxy_destructor_def proxy_AEDestructor_def)

end
