(* ===== verification/PF_Output.thy ===== *)
theory PF_Output
  imports Newton_Prelude
begin

text \<open>
  The output side of \<^verbatim>\<open>NewtonRuntime/printf.c\<close>: the functions a character is given to
  (\<^verbatim>\<open>_out_buffer\<close>, \<^verbatim>\<open>_out_null\<close>, \<^verbatim>\<open>_out_char\<close>, \<^verbatim>\<open>_out_fct\<close>), the string helpers and the loops
  that write a padded field (\<^verbatim>\<open>_out_rev\<close>).

  A character is a \<open>char\<close>, which has 8 bits and is unsigned on the ARM target; \<^verbatim>\<open>size_t\<close>,
  \<^verbatim>\<open>unsigned int\<close> and \<^verbatim>\<open>unsigned long\<close> are 32-bit words. A pointer to characters is the list
  of the characters that may be read from it on, terminator included: reading past the end
  of the list is undefined, the value \<open>None\<close>. An output function takes the character, what
  the \<^verbatim>\<open>buffer\<close> argument points to, the index and the maximal length, and returns what the
  buffer has become.
\<close>

type_synonym cstring = string
type_synonym 'b out_fct = "char \<Rightarrow> 'b \<Rightarrow> ulong \<Rightarrow> ulong \<Rightarrow> 'b option"

abbreviation NUL :: char where
  "NUL \<equiv> CHR 0x00"

subsection \<open>Where a character goes\<close>

definition out_buffer :: "string out_fct" where
  "out_buffer character buffer idx maxlen =
     (if idx < maxlen
      then if unat idx < length buffer then Some (buffer[unat idx := character]) else None
      else Some buffer)"

definition out_null :: "'b out_fct" where
  "out_null character buffer idx maxlen = Some buffer"

text \<open>\<^verbatim>\<open>_putchar\<close> is not defined in the repository: it is a parameter.\<close>

definition out_char :: "(char \<Rightarrow> 'b \<Rightarrow> 'b option) \<Rightarrow> 'b out_fct" where
  "out_char putchar character buffer idx maxlen =
     (if character \<noteq> NUL then putchar character buffer else Some buffer)"

record ('a, 'b) out_fct_wrap =
  fct :: "char \<Rightarrow> 'a \<Rightarrow> 'b \<Rightarrow> 'b option"
  arg :: 'a

definition out_fct :: "('a, 'b) out_fct_wrap \<Rightarrow> 'b out_fct" where
  "out_fct wrap character buffer idx maxlen =
     (if character \<noteq> NUL then fct wrap character (arg wrap) buffer else Some buffer)"

subsection \<open>Strings\<close>

text \<open>The terminator ends the scan before the count is tested, and each test of the count
  decrements it.\<close>

fun strnlen_s :: "cstring \<Rightarrow> ulong \<Rightarrow> ulong option" where
  "strnlen_s [] maxsize = None"
| "strnlen_s (c # s) maxsize =
     (if c \<noteq> NUL \<and> maxsize \<noteq> 0
      then do { n \<leftarrow> strnlen_s s (maxsize - 1); Some (n + 1) }
      else Some 0)"

definition is_digit :: "char \<Rightarrow> bool" where
  "is_digit ch \<longleftrightarrow> of_char ch \<ge> (48 :: nat) \<and> of_char ch \<le> (57 :: nat)"

text \<open>\<^verbatim>\<open>_atoi\<close> returns the number and moves the pointer behind it.\<close>

fun atoi :: "cstring \<Rightarrow> ulong \<Rightarrow> (ulong \<times> cstring) option" where
  "atoi [] i = None"
| "atoi (c # s) i =
     (if is_digit c then atoi s (i * 10 + (of_char c - 48)) else Some (i, c # s))"

subsection \<open>Flags\<close>

definition FLAGS_ZEROPAD :: ulong where "FLAGS_ZEROPAD = push_bit 0 1"
definition FLAGS_LEFT :: ulong where "FLAGS_LEFT = push_bit 1 1"
definition FLAGS_PLUS :: ulong where "FLAGS_PLUS = push_bit 2 1"
definition FLAGS_SPACE :: ulong where "FLAGS_SPACE = push_bit 3 1"
definition FLAGS_HASH :: ulong where "FLAGS_HASH = push_bit 4 1"
definition FLAGS_UPPERCASE :: ulong where "FLAGS_UPPERCASE = push_bit 5 1"
definition FLAGS_CHAR :: ulong where "FLAGS_CHAR = push_bit 6 1"
definition FLAGS_SHORT :: ulong where "FLAGS_SHORT = push_bit 7 1"
definition FLAGS_LONG :: ulong where "FLAGS_LONG = push_bit 8 1"
definition FLAGS_LONG_LONG :: ulong where "FLAGS_LONG_LONG = push_bit 9 1"
definition FLAGS_PRECISION :: ulong where "FLAGS_PRECISION = push_bit 10 1"
definition FLAGS_ADAPT_EXP :: ulong where "FLAGS_ADAPT_EXP = push_bit 11 1"

unbundle bit_operations_syntax

text \<open>The test \<^verbatim>\<open>flags & f\<close>.\<close>

definition has :: "ulong \<Rightarrow> ulong \<Rightarrow> bool" where
  "has flags f \<longleftrightarrow> flags AND f \<noteq> 0"

lemmas FLAGS_defs = FLAGS_ZEROPAD_def FLAGS_LEFT_def FLAGS_PLUS_def FLAGS_SPACE_def
  FLAGS_HASH_def FLAGS_UPPERCASE_def FLAGS_CHAR_def FLAGS_SHORT_def FLAGS_LONG_def
  FLAGS_LONG_LONG_def FLAGS_PRECISION_def FLAGS_ADAPT_EXP_def

lemma has_push_bit: "has flags (push_bit n 1) \<longleftrightarrow> bit flags n"
  by (simp add: has_def and_exp_eq_0_iff_not_bit)

lemma bit_push_bit: "bit (push_bit k 1 :: ulong) n \<longleftrightarrow> n = k \<and> n < 32"
  by (auto simp: bit_simps)

lemma has_or_mask: "has flags (f OR g) \<longleftrightarrow> has flags f \<or> has flags g"
  by (auto simp: has_def bit_eq_iff bit_simps)

lemma bit_clear: "bit (flags AND NOT f :: ulong) n \<longleftrightarrow> bit flags n \<and> \<not> bit f n"
  by (auto simp: bit_simps dest: bit_imp_le_length)

text \<open>With these a test of a flag becomes the test of one bit of the word it started from.\<close>

lemmas has_flag [simp] =
  has_push_bit [of _ 0, folded FLAGS_ZEROPAD_def]
  has_push_bit [of _ 1, folded FLAGS_LEFT_def]
  has_push_bit [of _ 2, folded FLAGS_PLUS_def]
  has_push_bit [of _ 3, folded FLAGS_SPACE_def]
  has_push_bit [of _ 4, folded FLAGS_HASH_def]
  has_push_bit [of _ 5, folded FLAGS_UPPERCASE_def]
  has_push_bit [of _ 6, folded FLAGS_CHAR_def]
  has_push_bit [of _ 7, folded FLAGS_SHORT_def]
  has_push_bit [of _ 8, folded FLAGS_LONG_def]
  has_push_bit [of _ 9, folded FLAGS_LONG_LONG_def]
  has_push_bit [of _ 10, folded FLAGS_PRECISION_def]
  has_push_bit [of _ 11, folded FLAGS_ADAPT_EXP_def]

lemmas bit_flag [simp] =
  bit_push_bit [of 0, folded FLAGS_ZEROPAD_def]
  bit_push_bit [of 1, folded FLAGS_LEFT_def]
  bit_push_bit [of 2, folded FLAGS_PLUS_def]
  bit_push_bit [of 3, folded FLAGS_SPACE_def]
  bit_push_bit [of 4, folded FLAGS_HASH_def]
  bit_push_bit [of 5, folded FLAGS_UPPERCASE_def]
  bit_push_bit [of 6, folded FLAGS_CHAR_def]
  bit_push_bit [of 7, folded FLAGS_SHORT_def]
  bit_push_bit [of 8, folded FLAGS_LONG_def]
  bit_push_bit [of 9, folded FLAGS_LONG_LONG_def]
  bit_push_bit [of 10, folded FLAGS_PRECISION_def]
  bit_push_bit [of 11, folded FLAGS_ADAPT_EXP_def]

lemmas flag_ops [simp] = has_or_mask bit_or_iff bit_clear

subsection \<open>Writing a field\<close>

text \<open>\<^verbatim>\<open>for (i = len; i < width; i++) out(' ', buffer, idx++, maxlen)\<close>, the loop in front of a
  field, and the loop behind it, which counts by the index written to.\<close>

lemma unat_pred: "x \<noteq> 0 \<Longrightarrow> unat (x - 1 :: ulong) = unat x - 1"
  by (simp add: unat_minus_one)

lemma unat_dec_less: "x \<noteq> 0 \<Longrightarrow> unat (x - 1) < unat (x :: ulong)"
  by (simp add: unat_minus_one unat_gt_0)

function pad_spaces ::
    "'b out_fct \<Rightarrow> ulong \<Rightarrow> ulong \<Rightarrow> 'b \<Rightarrow> ulong \<Rightarrow> ulong \<Rightarrow> ('b \<times> ulong) option" where
  "pad_spaces out i width buffer idx maxlen =
     (if i < width
      then do {
        buffer \<leftarrow> out CHR '' '' buffer idx maxlen;
        pad_spaces out (i + 1) width buffer (idx + 1) maxlen
      }
      else Some (buffer, idx))"
  by pat_completeness auto
termination
proof (relation "measure (\<lambda>(out, i, width, _). unat (width - i))", goal_cases)
  case (2 out i width buffer idx maxlen b)
  then have "width - i \<noteq> 0" by simp
  from unat_dec_less [OF this] show ?case by (simp add: diff_diff_add)
qed simp

function pad_spaces_after ::
    "'b out_fct \<Rightarrow> ulong \<Rightarrow> ulong \<Rightarrow> 'b \<Rightarrow> ulong \<Rightarrow> ulong \<Rightarrow> ('b \<times> ulong) option" where
  "pad_spaces_after out start_idx width buffer idx maxlen =
     (if idx - start_idx < width
      then do {
        buffer \<leftarrow> out CHR '' '' buffer idx maxlen;
        pad_spaces_after out start_idx width buffer (idx + 1) maxlen
      }
      else Some (buffer, idx))"
  by pat_completeness auto
termination
proof (relation "measure (\<lambda>(out, start_idx, width, buffer, idx, _). unat (width - (idx - start_idx)))",
    goal_cases)
  case (2 out start_idx width buffer idx maxlen b)
  then have "width - (idx - start_idx) \<noteq> 0" by auto
  from unat_dec_less [OF this] show ?case by (simp add: algebra_simps)
qed simp

declare pad_spaces.simps [simp del] pad_spaces_after.simps [simp del]

text \<open>\<^verbatim>\<open>while (len) out(buf[--len], buffer, idx++, maxlen)\<close>: the array is the list of the
  characters written to it so far, and its length is \<^verbatim>\<open>len\<close>.\<close>

function out_reversed ::
    "'b out_fct \<Rightarrow> string \<Rightarrow> 'b \<Rightarrow> ulong \<Rightarrow> ulong \<Rightarrow> ('b \<times> ulong) option" where
  "out_reversed out buf buffer idx maxlen =
     (if buf \<noteq> []
      then do {
        buffer \<leftarrow> out (last buf) buffer idx maxlen;
        out_reversed out (butlast buf) buffer (idx + 1) maxlen
      }
      else Some (buffer, idx))"
  by pat_completeness auto
termination by (relation "measure (\<lambda>(out, buf, _). length buf)") auto

declare out_reversed.simps [simp del]

definition out_rev ::
    "'b out_fct \<Rightarrow> 'b \<Rightarrow> ulong \<Rightarrow> ulong \<Rightarrow> string \<Rightarrow> ulong \<Rightarrow> ulong \<Rightarrow> ('b \<times> ulong) option" where
  "out_rev out buffer idx maxlen buf width flags = do {
     let start_idx = idx;
     (buffer, idx) \<leftarrow>
       (if \<not> has flags FLAGS_LEFT \<and> \<not> has flags FLAGS_ZEROPAD
        then pad_spaces out (of_nat (length buf)) width buffer idx maxlen
        else Some (buffer, idx));
     (buffer, idx) \<leftarrow> out_reversed out buf buffer idx maxlen;
     (if has flags FLAGS_LEFT
      then pad_spaces_after out start_idx width buffer idx maxlen
      else Some (buffer, idx))
   }"

subsection \<open>A field is its text\<close>

text \<open>
  \<open>emit out xs\<close> gives the characters of \<open>xs\<close> to the output function one by one, with
  consecutive indices. Every function of \<^verbatim>\<open>printf.c\<close> that writes is \<open>emit\<close> of some text,
  whatever the output function does; the lemmas \<open>emits\<close> say of which.
\<close>

named_theorems emits "output functions as the text they emit"

fun emit :: "'b out_fct \<Rightarrow> string \<Rightarrow> 'b \<Rightarrow> ulong \<Rightarrow> ulong \<Rightarrow> ('b \<times> ulong) option" where
  "emit out [] buffer idx maxlen = Some (buffer, idx)"
| "emit out (c # xs) buffer idx maxlen =
     do { buffer \<leftarrow> out c buffer idx maxlen; emit out xs buffer (idx + 1) maxlen }"

lemma emit_text_append: "emit out (xs @ ys) buffer idx maxlen =
    do { (buffer, idx) \<leftarrow> emit out xs buffer idx maxlen; emit out ys buffer idx maxlen }"
  by (induction xs arbitrary: buffer idx) (simp_all split: bind_split)

lemma emit_idx: "emit out xs buffer idx maxlen = Some (buffer', idx') \<Longrightarrow>
    idx' = idx + of_nat (length xs)"
  by (induction xs arbitrary: buffer idx) (fastforce simp: bind_eq_Some_conv algebra_simps)+

definition spaces :: "ulong \<Rightarrow> ulong \<Rightarrow> string" where
  "spaces i width = replicate (unat width - unat i) CHR '' ''"

lemma spaces_step: "i < width \<Longrightarrow> spaces i width = CHR '' '' # spaces (i + 1) width"
proof -
  assume "i < width"
  then have "unat i < unat width" by (simp add: word_less_nat_alt)
  moreover have "unat (i + 1) = Suc (unat i)"
    using calculation ulong_less [of width] by (simp add: unat_word_ariths)
  ultimately show ?thesis by (simp add: spaces_def Suc_diff_Suc flip: replicate_Suc)
qed

lemma spaces_none: "\<not> i < width \<Longrightarrow> spaces i width = []"
  by (simp add: spaces_def word_less_nat_alt)

lemma pad_spaces_emit [emits]: "pad_spaces out i width buffer idx maxlen =
    emit out (spaces i width) buffer idx maxlen"
  by (induction out i width buffer idx maxlen rule: pad_spaces.induct)
    (subst pad_spaces.simps, simp add: spaces_step spaces_none cong: Option.bind_cong)

lemma pad_spaces_after_emit [emits]: "pad_spaces_after out start_idx width buffer idx maxlen =
    emit out (spaces (idx - start_idx) width) buffer idx maxlen"
proof (induction out start_idx width buffer idx maxlen rule: pad_spaces_after.induct)
  case (1 out start_idx width buffer idx maxlen)
  have step: "idx + 1 - start_idx = idx - start_idx + 1" by simp
  show ?case
    by (subst pad_spaces_after.simps)
      (simp add: 1 step spaces_step spaces_none del: diff_add_eq cong: Option.bind_cong)
qed

lemma out_reversed_emit [emits]: "out_reversed out buf buffer idx maxlen =
    emit out (rev buf) buffer idx maxlen"
  by (induction buf arbitrary: buffer idx rule: rev_induct) (subst out_reversed.simps, simp)+

text \<open>The text of a padded field.\<close>

definition field_text :: "string \<Rightarrow> ulong \<Rightarrow> ulong \<Rightarrow> string" where
  "field_text buf width flags =
     (if has flags FLAGS_LEFT then rev buf @ spaces (of_nat (length buf)) width
      else if has flags FLAGS_ZEROPAD then rev buf
      else spaces (of_nat (length buf)) width @ rev buf)"

lemma out_rev_emit [emits]: "out_rev out buffer idx maxlen buf width flags =
    emit out (field_text buf width flags) buffer idx maxlen"
proof -
  have *: "do { (b, i) \<leftarrow> emit out (rev buf) buffer idx maxlen;
                emit out (spaces (i - idx) width) b i maxlen } =
      emit out (rev buf @ spaces (of_nat (length buf)) width) buffer idx maxlen"
    by (cases "emit out (rev buf) buffer idx maxlen") (auto simp: emit_text_append dest: emit_idx)
  show ?thesis
    by (simp add: out_rev_def field_text_def emits emit_text_append *)
qed

end
