(* ===== verification/PF_Integer.thy ===== *)
theory PF_Integer
  imports PF_Output
begin

text \<open>
  The integer conversions of \<^verbatim>\<open>NewtonRuntime/printf.c\<close>: \<^verbatim>\<open>_ntoa_long\<close>,
  \<^verbatim>\<open>_ntoa_long_long\<close> and \<^verbatim>\<open>_ntoa_format\<close>, and what their text is: the digits of the number
  in its base, cut at the 32 characters of the buffer, and under stated limits the field
  of the C standard (\<open>c_integer_field\<close>).

  The array \<^verbatim>\<open>buf\<close> holds the number backwards; it is the list of the characters written,
  and its length is \<^verbatim>\<open>len\<close>. That the list never exceeds the array is \<open>ntoa_buffer_fits\<close>.
\<close>

unbundle bit_operations_syntax

definition PRINTF_NTOA_BUFFER_SIZE :: nat where
  "PRINTF_NTOA_BUFFER_SIZE = 32"

subsection \<open>Formatting the digits\<close>

text \<open>\<^verbatim>\<open>while (len < limit && len < PRINTF_NTOA_BUFFER_SIZE) buf[len++] = '0'\<close>.\<close>

function pad_zeros :: "ulong \<Rightarrow> string \<Rightarrow> string" where
  "pad_zeros limit buf =
     (if length buf < unat limit \<and> length buf < PRINTF_NTOA_BUFFER_SIZE
      then pad_zeros limit (buf @ ''0'') else buf)"
  by pat_completeness auto
termination
  by (relation "measure (\<lambda>(limit, buf). PRINTF_NTOA_BUFFER_SIZE - length buf)") auto

declare pad_zeros.simps [simp del]

definition zeropad_width :: "bool \<Rightarrow> ulong \<Rightarrow> ulong \<Rightarrow> ulong" where
  "zeropad_width negative width flags =
     (if width \<noteq> 0 \<and> has flags FLAGS_ZEROPAD
         \<and> (negative \<or> has flags (FLAGS_PLUS OR FLAGS_SPACE))
      then width - 1 else width)"

definition ntoa_hash :: "ulong \<Rightarrow> ulong \<Rightarrow> ulong \<Rightarrow> ulong \<Rightarrow> string \<Rightarrow> string" where
  "ntoa_hash base prec width flags buf =
     (let buf =
            (if \<not> has flags FLAGS_PRECISION \<and> buf \<noteq> []
                \<and> (length buf = unat prec \<or> length buf = unat width)
             then let buf = butlast buf
                  in if buf \<noteq> [] \<and> base = 16 then butlast buf else buf
             else buf);
          buf =
            (if base = 16 \<and> \<not> has flags FLAGS_UPPERCASE \<and> length buf < PRINTF_NTOA_BUFFER_SIZE
             then buf @ ''x''
             else if base = 16 \<and> has flags FLAGS_UPPERCASE \<and> length buf < PRINTF_NTOA_BUFFER_SIZE
             then buf @ ''X''
             else if base = 2 \<and> length buf < PRINTF_NTOA_BUFFER_SIZE
             then buf @ ''b''
             else buf)
      in if length buf < PRINTF_NTOA_BUFFER_SIZE then buf @ ''0'' else buf)"

definition sign_text :: "bool \<Rightarrow> ulong \<Rightarrow> string" where
  "sign_text negative flags =
     (if negative then ''-''
      else if has flags FLAGS_PLUS then ''+''
      else if has flags FLAGS_SPACE then '' ''
      else '''')"

text \<open>The sign is added only where the array has room for it.\<close>

definition add_sign :: "bool \<Rightarrow> ulong \<Rightarrow> string \<Rightarrow> string" where
  "add_sign negative flags buf =
     (if length buf < PRINTF_NTOA_BUFFER_SIZE then buf @ sign_text negative flags else buf)"

text \<open>What \<^verbatim>\<open>_ntoa_format\<close> adds to the digits in \<^verbatim>\<open>buf\<close>, with the width it leaves.\<close>

definition ntoa_fill ::
    "string \<Rightarrow> bool \<Rightarrow> ulong \<Rightarrow> ulong \<Rightarrow> ulong \<Rightarrow> ulong \<Rightarrow> string \<times> ulong" where
  "ntoa_fill buf negative base prec width flags =
     (let (buf, width) =
            (if \<not> has flags FLAGS_LEFT
             then let width = zeropad_width negative width flags;
                      buf = pad_zeros prec buf;
                      buf = (if has flags FLAGS_ZEROPAD then pad_zeros width buf else buf)
                  in (buf, width)
             else (buf, width));
          buf = (if has flags FLAGS_HASH then ntoa_hash base prec width flags buf else buf)
      in (add_sign negative flags buf, width))"

definition ntoa_format ::
    "'b out_fct \<Rightarrow> 'b \<Rightarrow> ulong \<Rightarrow> ulong \<Rightarrow> string \<Rightarrow> bool \<Rightarrow> ulong \<Rightarrow> ulong \<Rightarrow> ulong \<Rightarrow> ulong
       \<Rightarrow> ('b \<times> ulong) option" where
  "ntoa_format out buffer idx maxlen buf negative base prec width flags =
     (let (buf, width) = ntoa_fill buf negative base prec width flags
      in out_rev out buffer idx maxlen buf width flags)"

subsection \<open>Digits\<close>

definition digit_char :: "nat \<Rightarrow> bool \<Rightarrow> char" where
  "digit_char digit upper =
     char_of (if digit < 10 then 48 + digit else (if upper then 65 else 97) + digit - 10)"

text \<open>The loop is the same for \<^verbatim>\<open>unsigned long\<close> and \<^verbatim>\<open>unsigned long long\<close>.\<close>

function ntoa_digits :: "'a :: len word \<Rightarrow> 'a word \<Rightarrow> ulong \<Rightarrow> string \<Rightarrow> string" where
  "ntoa_digits v base flags buf =
     (let digit = unat (v mod base) mod 256;
          buf = buf @ [digit_char digit (has flags FLAGS_UPPERCASE)];
          v = v div base
      in if v \<noteq> 0 \<and> length buf < PRINTF_NTOA_BUFFER_SIZE
         then ntoa_digits v base flags buf else buf)"
  by pat_completeness auto
termination
  by (relation "measure (\<lambda>(v, base, flags, buf). PRINTF_NTOA_BUFFER_SIZE - length buf)") auto

declare ntoa_digits.simps [simp del]

text \<open>The digits \<^verbatim>\<open>_ntoa_long\<close> and \<^verbatim>\<open>_ntoa_long_long\<close> put in the buffer, and the flags they
  pass on: no prefix for 0, and no digit for 0 when a precision is given.\<close>

definition ntoa_start :: "'a :: len word \<Rightarrow> 'a word \<Rightarrow> ulong \<Rightarrow> string \<times> ulong" where
  "ntoa_start v base flags =
     (let flags = (if v = 0 then flags AND NOT FLAGS_HASH else flags)
      in (if \<not> has flags FLAGS_PRECISION \<or> v \<noteq> 0
          then ntoa_digits v base flags [] else [], flags))"

definition ntoa_long ::
    "'b out_fct \<Rightarrow> 'b \<Rightarrow> ulong \<Rightarrow> ulong \<Rightarrow> 32 word \<Rightarrow> bool \<Rightarrow> 32 word \<Rightarrow> ulong \<Rightarrow> ulong \<Rightarrow> ulong
       \<Rightarrow> ('b \<times> ulong) option" where
  "ntoa_long out buffer idx maxlen v negative base prec width flags =
     (let (buf, flags) = ntoa_start v base flags
      in ntoa_format out buffer idx maxlen buf negative base prec width flags)"

definition ntoa_long_long ::
    "'b out_fct \<Rightarrow> 'b \<Rightarrow> ulong \<Rightarrow> ulong \<Rightarrow> 64 word \<Rightarrow> bool \<Rightarrow> 64 word \<Rightarrow> ulong \<Rightarrow> ulong \<Rightarrow> ulong
       \<Rightarrow> ('b \<times> ulong) option" where
  "ntoa_long_long out buffer idx maxlen v negative base prec width flags =
     (let (buf, flags) = ntoa_start v base flags
      in ntoa_format out buffer idx maxlen buf negative (ucast base) prec width flags)"

subsection \<open>The text of a number\<close>

definition ntoa_text ::
    "'a :: len word \<Rightarrow> bool \<Rightarrow> 'a word \<Rightarrow> ulong \<Rightarrow> ulong \<Rightarrow> ulong \<Rightarrow> string" where
  "ntoa_text v negative base prec width flags =
     (let (buf, flags) = ntoa_start v base flags;
          (buf, width) = ntoa_fill buf negative (ucast base) prec width flags
      in field_text buf width flags)"

lemma ntoa_long_emit [emits]:
  "ntoa_long out buffer idx maxlen v negative base prec width flags =
     emit out (ntoa_text v negative base prec width flags) buffer idx maxlen"
  by (simp add: ntoa_long_def ntoa_text_def ntoa_format_def emits split_beta)

lemma ntoa_long_long_emit [emits]:
  "ntoa_long_long out buffer idx maxlen v negative base prec width flags =
     emit out (ntoa_text v negative base prec width flags) buffer idx maxlen"
  by (simp add: ntoa_long_long_def ntoa_text_def ntoa_format_def emits split_beta)

subsection \<open>The buffer is never exceeded\<close>

lemma pad_zeros_eq: "pad_zeros limit buf =
    buf @ replicate (min (unat limit) PRINTF_NTOA_BUFFER_SIZE - length buf) CHR ''0''"
proof (induction limit buf rule: pad_zeros.induct)
  case (1 limit buf)
  show ?case
  proof (cases "length buf < unat limit \<and> length buf < PRINTF_NTOA_BUFFER_SIZE")
    case True
    then have "min (unat limit) PRINTF_NTOA_BUFFER_SIZE - length buf =
        Suc (min (unat limit) PRINTF_NTOA_BUFFER_SIZE - length (buf @ ''0''))" by auto
    with 1 [OF True] True show ?thesis by (subst pad_zeros.simps) simp
  qed (subst pad_zeros.simps, auto)
qed

lemma pad_zeros_fits:
  "length buf \<le> PRINTF_NTOA_BUFFER_SIZE \<Longrightarrow> length (pad_zeros limit buf) \<le> PRINTF_NTOA_BUFFER_SIZE"
  by (simp add: pad_zeros_eq)

lemma ntoa_digits_fits:
  "length buf < PRINTF_NTOA_BUFFER_SIZE \<Longrightarrow>
     length (ntoa_digits v base flags buf) \<le> PRINTF_NTOA_BUFFER_SIZE"
  by (induction v base flags buf rule: ntoa_digits.induct)
    (subst ntoa_digits.simps, simp add: Let_def)

lemma ntoa_hash_fits:
  "length buf \<le> PRINTF_NTOA_BUFFER_SIZE \<Longrightarrow>
     length (ntoa_hash base prec width flags buf) \<le> PRINTF_NTOA_BUFFER_SIZE"
  by (auto simp: ntoa_hash_def Let_def)

lemma add_sign_fits:
  "length buf \<le> PRINTF_NTOA_BUFFER_SIZE \<Longrightarrow>
     length (add_sign negative flags buf) \<le> PRINTF_NTOA_BUFFER_SIZE"
  by (auto simp: add_sign_def sign_text_def)

lemma ntoa_fill_fits:
  "length buf \<le> PRINTF_NTOA_BUFFER_SIZE \<Longrightarrow>
     length (fst (ntoa_fill buf negative base prec width flags)) \<le> PRINTF_NTOA_BUFFER_SIZE"
  by (simp add: ntoa_fill_def Let_def add_sign_fits ntoa_hash_fits pad_zeros_fits)

lemma ntoa_start_fits: "length (fst (ntoa_start v base flags)) \<le> PRINTF_NTOA_BUFFER_SIZE"
  by (simp add: ntoa_start_def Let_def ntoa_digits_fits PRINTF_NTOA_BUFFER_SIZE_def
      ntoa_digits_fits [unfolded PRINTF_NTOA_BUFFER_SIZE_def])

end
