(* ===== verification/PF_Float.thy ===== *)
theory PF_Float
  imports PF_Integer
begin

text \<open>
  The floating point conversions of \<^verbatim>\<open>NewtonRuntime/printf.c\<close>: \<^verbatim>\<open>_ftoa\<close> and \<^verbatim>\<open>_etoa\<close>.

  The arithmetic on \<^verbatim>\<open>double\<close> is that of a coprocessor reached through the run-time helpers
  of the compiler (\<^verbatim>\<open>__aeabi_dadd\<close> and so on): it is a parameter, the record \<open>soft_float\<close>,
  about which nothing is assumed. A conversion to an integer is undefined where the number is
  out of range, the value \<open>None\<close>. The two functions call each other, and whether they end
  depends on that arithmetic: \<open>ftoa\<close> is a partial function, and \<open>None\<close> is also the value of a
  call that does not return.
\<close>

unbundle bit_operations_syntax

record 'd soft_float =
  dlt :: "'d \<Rightarrow> 'd \<Rightarrow> bool"
  dle :: "'d \<Rightarrow> 'd \<Rightarrow> bool"
  deq :: "'d \<Rightarrow> 'd \<Rightarrow> bool"
  dadd :: "'d \<Rightarrow> 'd \<Rightarrow> 'd"
  dsub :: "'d \<Rightarrow> 'd \<Rightarrow> 'd"
  dmul :: "'d \<Rightarrow> 'd \<Rightarrow> 'd"
  ddiv :: "'d \<Rightarrow> 'd \<Rightarrow> 'd"
  dneg :: "'d \<Rightarrow> 'd"
  of_integer :: "int \<Rightarrow> 'd"
  to_int :: "'d \<Rightarrow> int option"
  to_ulong :: "'d \<Rightarrow> ulong option"
  bits_of :: "'d \<Rightarrow> 64 word"
  of_bits :: "64 word \<Rightarrow> 'd"
  literal :: "int \<Rightarrow> int \<Rightarrow> 'd"
  DBL_MAX :: 'd

text \<open>\<open>literal m e\<close> is the constant \<open>m * 10 ^ e\<close> of the source.\<close>

definition PRINTF_FTOA_BUFFER_SIZE :: nat where
  "PRINTF_FTOA_BUFFER_SIZE = PRINTF_NTOA_BUFFER_SIZE"

definition PRINTF_DEFAULT_FLOAT_PRECISION :: ulong where
  "PRINTF_DEFAULT_FLOAT_PRECISION = 6"

definition PRINTF_MAX_FLOAT :: "'d soft_float \<Rightarrow> 'd" where
  "PRINTF_MAX_FLOAT ff = literal ff 1 9"

subsection \<open>Fixed notation\<close>

definition pow10 :: "'d soft_float \<Rightarrow> 'd list" where
  "pow10 ff = map (\<lambda>i. literal ff (10 ^ i) 0) [0..<10]"

definition pow10_at :: "'d soft_float \<Rightarrow> ulong \<Rightarrow> 'd option" where
  "pow10_at ff prec =
     (if unat prec < length (pow10 ff) then Some (pow10 ff ! unat prec) else None)"

text \<open>The precision is brought down to 9 by zeros, as long as the array has room.\<close>

function limit_precision :: "string \<Rightarrow> ulong \<Rightarrow> string \<times> ulong" where
  "limit_precision buf prec =
     (if length buf < PRINTF_FTOA_BUFFER_SIZE \<and> prec > 9
      then limit_precision (buf @ ''0'') (prec - 1) else (buf, prec))"
  by pat_completeness auto
termination
  by (relation "measure (\<lambda>(buf, prec). PRINTF_FTOA_BUFFER_SIZE - length buf)") auto

text \<open>Rounding the fraction, with a carry into the whole part.\<close>

definition round_fraction ::
    "'d soft_float \<Rightarrow> 'd \<Rightarrow> ulong \<Rightarrow> int \<Rightarrow> 'd \<Rightarrow> ulong \<times> int" where
  "round_fraction ff diff frac whole pow =
     (if dlt ff (literal ff 5 (-1)) diff
      then let frac = frac + 1
           in if dle ff pow (of_integer ff (uint frac)) then (0, s32 (whole + 1)) else (frac, whole)
      else if dlt ff diff (literal ff 5 (-1)) then (frac, whole)
      else if frac = 0 \<or> frac AND 1 \<noteq> 0 then (frac + 1, whole)
      else (frac, whole))"

text \<open>The digits of the fraction, counting \<^verbatim>\<open>count\<close> down, and the zeros it leaves.\<close>

function fraction_digits :: "ulong \<Rightarrow> ulong \<Rightarrow> string \<Rightarrow> string \<times> ulong" where
  "fraction_digits frac count buf =
     (if length buf < PRINTF_FTOA_BUFFER_SIZE
      then let count = count - 1;
               buf = buf @ [char_of (48 + unat (frac mod 10))];
               frac = frac div 10
           in if frac = 0 then (buf, count) else fraction_digits frac count buf
      else (buf, count))"
  by pat_completeness auto
termination
  by (relation "measure (\<lambda>(frac, count, buf). PRINTF_FTOA_BUFFER_SIZE - length buf)") auto

function fraction_zeros :: "ulong \<Rightarrow> string \<Rightarrow> string" where
  "fraction_zeros count buf =
     (if length buf < PRINTF_FTOA_BUFFER_SIZE \<and> count > 0
      then fraction_zeros (count - 1) (buf @ ''0'') else buf)"
  by pat_completeness auto
termination
  by (relation "measure (\<lambda>(count, buf). PRINTF_FTOA_BUFFER_SIZE - length buf)") auto

function whole_digits :: "int \<Rightarrow> string \<Rightarrow> string" where
  "whole_digits whole buf =
     (if length buf < PRINTF_FTOA_BUFFER_SIZE
      then let buf = buf @ [char_of (48 + (whole - c_div whole 10 * 10))];
               whole = c_div whole 10
           in if whole = 0 then buf else whole_digits whole buf
      else buf)"
  by pat_completeness auto
termination
  by (relation "measure (\<lambda>(whole, buf). PRINTF_FTOA_BUFFER_SIZE - length buf)") auto

declare limit_precision.simps [simp del] fraction_digits.simps [simp del]
  fraction_zeros.simps [simp del] whole_digits.simps [simp del]

text \<open>The fraction and the point, or for a precision of 0 the rounding of the whole part.\<close>

definition ftoa_fraction ::
    "'d soft_float \<Rightarrow> 'd \<Rightarrow> ulong \<Rightarrow> int \<Rightarrow> ulong \<Rightarrow> string \<Rightarrow> string \<times> int" where
  "ftoa_fraction ff v prec whole frac buf =
     (if prec = 0
      then let diff = dsub ff v (of_integer ff whole)
           in if (\<not> dlt ff diff (literal ff 5 (-1)) \<or> dlt ff (literal ff 5 (-1)) diff) \<and> odd whole
              then (buf, s32 (whole + 1)) else (buf, whole)
      else let (buf, count) = fraction_digits frac prec buf;
               buf = fraction_zeros count buf;
               buf = (if length buf < PRINTF_FTOA_BUFFER_SIZE then buf @ ''.'' else buf)
           in (buf, whole))"

text \<open>The buffer \<^verbatim>\<open>_ftoa\<close> fills for a number it prints itself, and the width it leaves.\<close>

definition ftoa_fill ::
    "'d soft_float \<Rightarrow> 'd \<Rightarrow> ulong \<Rightarrow> ulong \<Rightarrow> ulong \<Rightarrow> (string \<times> ulong) option" where
  "ftoa_fill ff v prec width flags = do {
     let negative = dlt ff v (literal ff 0 0);
     let v = (if negative then dsub ff (literal ff 0 0) v else v);
     let prec = (if has flags FLAGS_PRECISION then prec else PRINTF_DEFAULT_FLOAT_PRECISION);
     let (buf, prec) = limit_precision [] prec;
     whole \<leftarrow> to_int ff v;
     pow \<leftarrow> pow10_at ff prec;
     let tmp = dmul ff (dsub ff v (of_integer ff whole)) pow;
     frac \<leftarrow> to_ulong ff tmp;
     let diff = dsub ff tmp (of_integer ff (uint frac));
     let (frac, whole) = round_fraction ff diff frac whole pow;
     let (buf, whole) = ftoa_fraction ff v prec whole frac buf;
     let buf = whole_digits whole buf;
     let (buf, width) =
       (if \<not> has flags FLAGS_LEFT \<and> has flags FLAGS_ZEROPAD
        then let width = zeropad_width negative width flags in (pad_zeros width buf, width)
        else (buf, width));
     Some (add_sign negative flags buf, width)
   }"

text \<open>The special values, backwards, and whether the number goes to \<^verbatim>\<open>_etoa\<close>.\<close>

definition special_text :: "'d soft_float \<Rightarrow> 'd \<Rightarrow> ulong \<Rightarrow> string option" where
  "special_text ff v flags =
     (if \<not> deq ff v v then Some ''nan''
      else if dlt ff v (dneg ff (DBL_MAX ff)) then Some ''fni-''
      else if dlt ff (DBL_MAX ff) v then Some (if has flags FLAGS_PLUS then ''fni+'' else ''fni'')
      else None)"

definition too_large :: "'d soft_float \<Rightarrow> 'd \<Rightarrow> bool" where
  "too_large ff v \<longleftrightarrow> dlt ff (PRINTF_MAX_FLOAT ff) v \<or> dlt ff v (dneg ff (PRINTF_MAX_FLOAT ff))"

subsection \<open>Exponential notation\<close>

text \<open>The decimal exponent: an estimate from the binary exponent, and the power of ten computed
  for it, both corrected by one where the power came out too large.\<close>

definition decimal_exponent :: "'d soft_float \<Rightarrow> 'd \<Rightarrow> (int \<times> 'd) option" where
  "decimal_exponent ff v = do {
     let u = bits_of ff v;
     let exp2 = uint (drop_bit 52 u AND 0x7FF) - 1023;
     let f = of_bits ff ((u AND (push_bit 52 1 - 1)) OR push_bit 52 1023);
     expval \<leftarrow> to_int ff (dadd ff
       (dadd ff (literal ff 1760912590558 (-13))
         (dmul ff (of_integer ff exp2) (literal ff 301029995663981 (-15))))
       (dmul ff (dsub ff f (literal ff 15 (-1))) (literal ff 289529654602168 (-15))));
     exp2 \<leftarrow> to_int ff (dadd ff
       (dmul ff (of_integer ff expval) (literal ff 3321928094887362 (-15))) (literal ff 5 (-1)));
     let z = dsub ff (dmul ff (of_integer ff expval) (literal ff 2302585092994046 (-15)))
                     (dmul ff (of_integer ff exp2) (literal ff 6931471805599453 (-16)));
     let z2 = dmul ff z z;
     let f = of_bits ff (push_bit 52 (word_of_int (s32 (exp2 + 1023))));
     let frac = ddiv ff z2 (dadd ff (literal ff 6 0)
                  (ddiv ff z2 (dadd ff (literal ff 10 0) (ddiv ff z2 (literal ff 14 0)))));
     let f = dmul ff f (dadd ff (literal ff 1 0)
               (ddiv ff (dmul ff (literal ff 2 0) z)
                        (dadd ff (dsub ff (literal ff 2 0) z) frac)));
     Some (if dlt ff v f then (s32 (expval - 1), ddiv ff f (literal ff 10 0)) else (expval, f))
   }"

text \<open>How the parts are laid out: the precision and flags of the floating part, the width of
  the exponent (0 for none), and the exponent.\<close>

definition exponent_layout ::
    "'d soft_float \<Rightarrow> 'd \<Rightarrow> int \<Rightarrow> ulong \<Rightarrow> ulong \<Rightarrow> ulong \<times> ulong \<times> ulong \<times> int" where
  "exponent_layout ff v expval prec flags =
     (let minwidth = (if expval < 100 \<and> expval > -100 then 4 else 5)
      in if has flags FLAGS_ADAPT_EXP
         then if dle ff (literal ff 1 (-4)) v \<and> dlt ff v (literal ff 1 6)
              then (if sint prec > expval
                    then word_of_int (s32 (s32 (sint prec - expval) - 1)) else 0,
                    flags OR FLAGS_PRECISION, 0, 0)
              else (if prec > 0 \<and> has flags FLAGS_PRECISION then prec - 1 else prec,
                    flags, minwidth, expval)
         else (prec, flags, minwidth, expval))"

definition float_width :: "ulong \<Rightarrow> ulong \<Rightarrow> ulong \<Rightarrow> ulong" where
  "float_width width minwidth flags =
     (let fwidth = (if width > minwidth then width - minwidth else 0)
      in if has flags FLAGS_LEFT \<and> minwidth \<noteq> 0 then 0 else fwidth)"

record 'd etoa_plan =
  plan_value :: 'd
  plan_prec :: ulong
  plan_fwidth :: ulong
  plan_flags :: ulong
  plan_minwidth :: ulong
  plan_expval :: int

text \<open>What \<^verbatim>\<open>_etoa\<close> computes before it writes anything. \<open>plan_value\<close>, \<open>plan_prec\<close>,
  \<open>plan_fwidth\<close> and \<open>plan_flags\<close> without \<^verbatim>\<open>FLAGS_ADAPT_EXP\<close> are the arguments of the call
  of \<^verbatim>\<open>_ftoa\<close>.\<close>

definition etoa_prepare ::
    "'d soft_float \<Rightarrow> 'd \<Rightarrow> ulong \<Rightarrow> ulong \<Rightarrow> ulong \<Rightarrow> 'd etoa_plan option" where
  "etoa_prepare ff v prec width flags = do {
     let negative = dlt ff v (literal ff 0 0);
     let v = (if negative then dneg ff v else v);
     let prec = (if has flags FLAGS_PRECISION then prec else PRINTF_DEFAULT_FLOAT_PRECISION);
     (expval, f) \<leftarrow> decimal_exponent ff v;
     let (prec, flags, minwidth, expval) = exponent_layout ff v expval prec flags;
     let fwidth = float_width width minwidth flags;
     let v = (if expval \<noteq> 0 then ddiv ff v f else v);
     Some \<lparr>plan_value = (if negative then dneg ff v else v), plan_prec = prec,
           plan_fwidth = fwidth, plan_flags = flags, plan_minwidth = minwidth,
           plan_expval = expval\<rparr>
   }"

text \<open>The exponent part, behind the floating part that began at \<^verbatim>\<open>start_idx\<close>.\<close>

definition etoa_exponent ::
    "'b out_fct \<Rightarrow> 'd etoa_plan \<Rightarrow> ulong \<Rightarrow> ulong \<Rightarrow> 'b \<Rightarrow> ulong \<Rightarrow> ulong \<Rightarrow> ('b \<times> ulong) option" where
  "etoa_exponent out plan start_idx width buffer idx maxlen =
     (if plan_minwidth plan \<noteq> 0
      then do {
        buffer \<leftarrow> out (if has (plan_flags plan) FLAGS_UPPERCASE then CHR ''E'' else CHR ''e'')
                    buffer idx maxlen;
        (buffer, idx) \<leftarrow>
          ntoa_long out buffer (idx + 1) maxlen
            (word_of_int (if plan_expval plan < 0 then - plan_expval plan else plan_expval plan))
            (plan_expval plan < 0) 10 0 (plan_minwidth plan - 1)
            (FLAGS_ZEROPAD OR FLAGS_PLUS);
        if has (plan_flags plan) FLAGS_LEFT
        then pad_spaces_after out start_idx width buffer idx maxlen
        else Some (buffer, idx)
      }
      else Some (buffer, idx))"

subsection \<open>The two functions\<close>

text \<open>The call of \<^verbatim>\<open>_etoa\<close> for a large number is written out in \<open>ftoa\<close>: the tests for special
  values that \<^verbatim>\<open>_etoa\<close> begins with have failed there already.\<close>

partial_function (option) ftoa ::
    "'d soft_float \<Rightarrow> 'b out_fct \<Rightarrow> 'b \<Rightarrow> ulong \<Rightarrow> ulong \<Rightarrow> 'd \<Rightarrow> ulong \<Rightarrow> ulong \<Rightarrow> ulong
       \<Rightarrow> ('b \<times> ulong) option" where
  "ftoa ff out buffer idx maxlen v prec width flags =
     (case special_text ff v flags of
        Some s \<Rightarrow> out_rev out buffer idx maxlen s width flags
      | None \<Rightarrow>
          if too_large ff v
          then do {
            plan \<leftarrow> etoa_prepare ff v prec width flags;
            (buffer', idx') \<leftarrow>
              ftoa ff out buffer idx maxlen (plan_value plan) (plan_prec plan)
                (plan_fwidth plan) (plan_flags plan AND NOT FLAGS_ADAPT_EXP);
            etoa_exponent out plan idx width buffer' idx' maxlen
          }
          else do {
            (buf, width) \<leftarrow> ftoa_fill ff v prec width flags;
            out_rev out buffer idx maxlen buf width flags
          })"

declare ftoa.simps [code]

definition etoa ::
    "'d soft_float \<Rightarrow> 'b out_fct \<Rightarrow> 'b \<Rightarrow> ulong \<Rightarrow> ulong \<Rightarrow> 'd \<Rightarrow> ulong \<Rightarrow> ulong \<Rightarrow> ulong
       \<Rightarrow> ('b \<times> ulong) option" where
  "etoa ff out buffer idx maxlen v prec width flags =
     (if \<not> deq ff v v \<or> dlt ff (DBL_MAX ff) v \<or> dlt ff v (dneg ff (DBL_MAX ff))
      then ftoa ff out buffer idx maxlen v prec width flags
      else do {
        plan \<leftarrow> etoa_prepare ff v prec width flags;
        (buffer', idx') \<leftarrow>
          ftoa ff out buffer idx maxlen (plan_value plan) (plan_prec plan)
            (plan_fwidth plan) (plan_flags plan AND NOT FLAGS_ADAPT_EXP);
        etoa_exponent out plan idx width buffer' idx' maxlen
      })"

lemma special_text_none: "special_text ff v flags = None \<longleftrightarrow>
    \<not> (\<not> deq ff v v \<or> dlt ff (DBL_MAX ff) v \<or> dlt ff v (dneg ff (DBL_MAX ff)))"
  by (simp add: special_text_def)

lemma ftoa_large:
  assumes "special_text ff v flags = None" "too_large ff v"
  shows "ftoa ff out buffer idx maxlen v prec width flags =
    etoa ff out buffer idx maxlen v prec width flags"
proof -
  have "\<not> (\<not> deq ff v v \<or> dlt ff (DBL_MAX ff) v \<or> dlt ff v (dneg ff (DBL_MAX ff)))"
    using assms(1) special_text_none [of ff v flags] by simp
  then show ?thesis by (subst ftoa.simps) (simp add: assms etoa_def)
qed

subsection \<open>The text of a floating point number\<close>

definition exponent_text :: "'d etoa_plan \<Rightarrow> string" where
  "exponent_text plan =
     (if has (plan_flags plan) FLAGS_UPPERCASE then CHR ''E'' else CHR ''e'')
     # ntoa_text (word_of_int (if plan_expval plan < 0 then - plan_expval plan
                               else plan_expval plan) :: 32 word)
         (plan_expval plan < 0) 10 0 (plan_minwidth plan - 1) (FLAGS_ZEROPAD OR FLAGS_PLUS)"

definition with_exponent :: "'d etoa_plan \<Rightarrow> ulong \<Rightarrow> string \<Rightarrow> string" where
  "with_exponent plan width s =
     (if plan_minwidth plan = 0 then s
      else let s = s @ exponent_text plan
           in if has (plan_flags plan) FLAGS_LEFT then s @ spaces (of_nat (length s)) width else s)"

partial_function (option) ftoa_text ::
    "'d soft_float \<Rightarrow> 'd \<Rightarrow> ulong \<Rightarrow> ulong \<Rightarrow> ulong \<Rightarrow> string option" where
  "ftoa_text ff v prec width flags =
     (case special_text ff v flags of
        Some s \<Rightarrow> Some (field_text s width flags)
      | None \<Rightarrow>
          if too_large ff v
          then do {
            plan \<leftarrow> etoa_prepare ff v prec width flags;
            s \<leftarrow> ftoa_text ff (plan_value plan) (plan_prec plan) (plan_fwidth plan)
                  (plan_flags plan AND NOT FLAGS_ADAPT_EXP);
            Some (with_exponent plan width s)
          }
          else do {
            (buf, width) \<leftarrow> ftoa_fill ff v prec width flags;
            Some (field_text buf width flags)
          })"

declare ftoa_text.simps [code]

definition etoa_text ::
    "'d soft_float \<Rightarrow> 'd \<Rightarrow> ulong \<Rightarrow> ulong \<Rightarrow> ulong \<Rightarrow> string option" where
  "etoa_text ff v prec width flags =
     (if \<not> deq ff v v \<or> dlt ff (DBL_MAX ff) v \<or> dlt ff v (dneg ff (DBL_MAX ff))
      then ftoa_text ff v prec width flags
      else do {
        plan \<leftarrow> etoa_prepare ff v prec width flags;
        s \<leftarrow> ftoa_text ff (plan_value plan) (plan_prec plan) (plan_fwidth plan)
              (plan_flags plan AND NOT FLAGS_ADAPT_EXP);
        Some (with_exponent plan width s)
      })"

lemma etoa_exponent_emit:
  assumes "emit out s buffer idx maxlen = Some (buffer', idx')"
  shows "etoa_exponent out plan idx width buffer' idx' maxlen =
    emit out (with_exponent plan width s) buffer idx maxlen"
proof (cases "plan_minwidth plan = 0")
  case True
  with assms show ?thesis by (simp add: etoa_exponent_def with_exponent_def)
next
  case False
  let ?e = "exponent_text plan"
  have exponent: "do {
        b \<leftarrow> out (if has (plan_flags plan) FLAGS_UPPERCASE then CHR ''E'' else CHR ''e'') buffer' idx' maxlen;
        ntoa_long out b (idx' + 1) maxlen
          (word_of_int (if plan_expval plan < 0 then - plan_expval plan else plan_expval plan))
          (plan_expval plan < 0) 10 0 (plan_minwidth plan - 1) (FLAGS_ZEROPAD OR FLAGS_PLUS)
      } = emit out ?e buffer' idx' maxlen"
    by (simp add: exponent_text_def emits)
  have pad: "emit out ?e buffer' idx' maxlen = Some (b, i) \<Longrightarrow>
      i - idx = of_nat (length (s @ ?e))" for b i
    using emit_idx [OF assms] by (auto dest: emit_idx)
  have "etoa_exponent out plan idx width buffer' idx' maxlen = do {
      (b, i) \<leftarrow> emit out ?e buffer' idx' maxlen;
      if has (plan_flags plan) FLAGS_LEFT then pad_spaces_after out idx width b i maxlen
      else Some (b, i) }"
    using False by (simp add: etoa_exponent_def flip: exponent)
  also have "\<dots> = emit out (with_exponent plan width s) buffer idx maxlen"
    using False assms
    by (cases "emit out ?e buffer' idx' maxlen")
      (auto simp: with_exponent_def emit_text_append emits Let_def dest: pad)
  finally show ?thesis .
qed

lemma exponent_emit:
  "(do { (buffer', idx') \<leftarrow> emit out t buffer idx maxlen;
         etoa_exponent out plan idx width buffer' idx' maxlen })
    = emit out (with_exponent plan width t) buffer idx maxlen"
  by (cases "emit out t buffer idx maxlen")
    (auto simp: etoa_exponent_emit with_exponent_def emit_text_append Let_def)

text \<open>Each of the two partial functions is below the other, by induction on its computation.\<close>

lemma ftoa_text_emit:
  fixes out :: "'b out_fct"
  shows "ftoa_text ff v prec width flags = Some s \<Longrightarrow>
    \<forall>buffer idx maxlen. ftoa ff out buffer idx maxlen v prec width flags = emit out s buffer idx maxlen"
proof (erule ftoa_text.raw_induct [rotated, where P = "\<lambda>ff v prec width flags s. \<forall>buffer idx maxlen.
           ftoa ff out buffer idx maxlen v prec width flags = emit out s buffer idx maxlen"],
    intro allI, goal_cases)
  case (1 rec ff v prec width flags s buffer idx maxlen)
  show ?case
  proof (cases "special_text ff v flags")
    case None
    note special = None
    show ?thesis
    proof (cases "too_large ff v")
      case True
      with 1(2) None obtain plan t where plan: "etoa_prepare ff v prec width flags = Some plan"
        and t: "rec ff (plan_value plan) (plan_prec plan) (plan_fwidth plan)
              (plan_flags plan AND NOT FLAGS_ADAPT_EXP) = Some t"
        and s: "s = with_exponent plan width t"
        by (auto simp: bind_eq_Some_conv)
      with 1(1) [OF t] special True plan show ?thesis
        by (subst ftoa.simps) (simp add: s exponent_emit)
    next
      case False
      with 1(2) None show ?thesis
        by (subst ftoa.simps) (auto simp: bind_eq_Some_conv emits)
    qed
  next
    case (Some t)
    with 1(2) show ?thesis by (subst ftoa.simps) (auto simp: emits)
  qed
qed

lemma ftoa_has_text:
  "ftoa ff out buffer idx maxlen v prec width flags = Some r \<Longrightarrow>
     ftoa_text ff v prec width flags \<noteq> None"
proof (erule ftoa.raw_induct [rotated, where P =
      "\<lambda>ff out buffer idx maxlen v prec width flags r. ftoa_text ff v prec width flags \<noteq> None"],
    goal_cases)
  case (1 rec ff out buffer idx maxlen v prec width flags r)
  show ?case
  proof (cases "special_text ff v flags")
    case None
    show ?thesis
    proof (cases "too_large ff v")
      case True
      with 1(2) None obtain plan r' where plan: "etoa_prepare ff v prec width flags = Some plan"
        and r': "rec ff out buffer idx maxlen (plan_value plan) (plan_prec plan) (plan_fwidth plan)
              (plan_flags plan AND NOT FLAGS_ADAPT_EXP) = Some r'"
        by (auto simp: bind_eq_Some_conv)
      with 1(1) [OF r'] None True show ?thesis by (subst ftoa_text.simps) auto
    next
      case False
      with 1(2) None show ?thesis by (subst ftoa_text.simps) (auto simp: bind_eq_Some_conv)
    qed
  qed (subst ftoa_text.simps, simp)
qed

lemma ftoa_emit [emits]: "ftoa ff out buffer idx maxlen v prec width flags =
    do { s \<leftarrow> ftoa_text ff v prec width flags; emit out s buffer idx maxlen }"
proof (cases "ftoa_text ff v prec width flags")
  case None
  then have "ftoa ff out buffer idx maxlen v prec width flags = None"
    using ftoa_has_text by (metis option.exhaust)
  with None show ?thesis by simp
qed (simp add: ftoa_text_emit)

lemma etoa_emit [emits]: "etoa ff out buffer idx maxlen v prec width flags =
    do { s \<leftarrow> etoa_text ff v prec width flags; emit out s buffer idx maxlen }"
  by (simp add: etoa_def etoa_text_def emits bind_assoc exponent_emit)

subsection \<open>The buffer is never exceeded\<close>

lemma limit_precision_eq: "limit_precision buf prec =
    (let n = min (PRINTF_FTOA_BUFFER_SIZE - length buf) (unat prec - 9)
     in (buf @ replicate n CHR ''0'', prec - of_nat n))"
proof (induction buf prec rule: limit_precision.induct)
  case (1 buf prec)
  show ?case
  proof (cases "length buf < PRINTF_FTOA_BUFFER_SIZE \<and> prec > 9")
    case True
    then have "unat prec > 9" by (simp add: word_less_nat_alt)
    then have "unat (prec - 1) = unat prec - 1" by (subst unat_pred) auto
    then have "min (PRINTF_FTOA_BUFFER_SIZE - length buf) (unat prec - 9) =
        Suc (min (PRINTF_FTOA_BUFFER_SIZE - length (buf @ ''0'')) (unat (prec - 1) - 9))"
      using True \<open>unat prec > 9\<close> by auto
    with 1 [OF True] True show ?thesis
      by (subst limit_precision.simps) (simp add: Let_def)
  next
    case False
    then have "min (PRINTF_FTOA_BUFFER_SIZE - length buf) (unat prec - 9) = 0"
      by (auto simp: word_less_nat_alt)
    with False show ?thesis by (subst limit_precision.simps) (auto simp: Let_def)
  qed
qed

lemma limit_precision_fits: "length (fst (limit_precision [] prec)) \<le> PRINTF_FTOA_BUFFER_SIZE"
  by (simp add: limit_precision_eq Let_def)

lemma fraction_digits_fits: "length buf \<le> PRINTF_FTOA_BUFFER_SIZE \<Longrightarrow>
    length (fst (fraction_digits frac count buf)) \<le> PRINTF_FTOA_BUFFER_SIZE"
  by (induction frac count buf rule: fraction_digits.induct)
    (subst fraction_digits.simps, simp add: Let_def)

lemma fraction_zeros_eq: "fraction_zeros count buf =
    buf @ replicate (min (PRINTF_FTOA_BUFFER_SIZE - length buf) (unat count)) CHR ''0''"
proof (induction count buf rule: fraction_zeros.induct)
  case (1 count buf)
  show ?case
  proof (cases "length buf < PRINTF_FTOA_BUFFER_SIZE \<and> count > 0")
    case True
    then have "unat (count - 1) = unat count - 1" "0 < unat count"
      by (auto simp: unat_pred unat_gt_0 word_gt_0)
    then have "min (PRINTF_FTOA_BUFFER_SIZE - length buf) (unat count) =
        Suc (min (PRINTF_FTOA_BUFFER_SIZE - length (buf @ ''0'')) (unat (count - 1)))"
      using True by auto
    with 1 [OF True] True show ?thesis by (subst fraction_zeros.simps) simp
  next
    case False
    then show ?thesis by (subst fraction_zeros.simps) (auto simp: word_gt_0)
  qed
qed

lemma whole_digits_fits: "length buf \<le> PRINTF_FTOA_BUFFER_SIZE \<Longrightarrow>
    length (whole_digits whole buf) \<le> PRINTF_FTOA_BUFFER_SIZE"
  by (induction whole buf rule: whole_digits.induct) (subst whole_digits.simps, simp add: Let_def)

lemma ftoa_fraction_fits: "length buf \<le> PRINTF_FTOA_BUFFER_SIZE \<Longrightarrow>
    length (fst (ftoa_fraction ff v prec whole frac buf)) \<le> PRINTF_FTOA_BUFFER_SIZE"
  using fraction_digits_fits [of buf frac prec]
  by (auto simp: ftoa_fraction_def fraction_zeros_eq Let_def split_def)

lemma ftoa_fill_fits:
  "ftoa_fill ff v prec width flags = Some (buf, width') \<Longrightarrow> length buf \<le> PRINTF_FTOA_BUFFER_SIZE"
  by (auto simp: ftoa_fill_def bind_eq_Some_conv Let_def split_def PRINTF_FTOA_BUFFER_SIZE_def
      intro!: add_sign_fits pad_zeros_fits whole_digits_fits [unfolded PRINTF_FTOA_BUFFER_SIZE_def]
        ftoa_fraction_fits [unfolded PRINTF_FTOA_BUFFER_SIZE_def]
        limit_precision_fits [unfolded PRINTF_FTOA_BUFFER_SIZE_def] split: if_splits)

end
