(* ===== verification/PF_Format.thy ===== *)
theory PF_Format
  imports PF_Float
begin

text \<open>
  \<^verbatim>\<open>_vsnprintf\<close> of \<^verbatim>\<open>NewtonRuntime/printf.c\<close> and the functions the file exports.

  The format is a pointer to characters like any other: the list of what may be read from
  it on. The arguments behind \<^verbatim>\<open>...\<close> are a list; on the target \<^verbatim>\<open>int\<close>, \<^verbatim>\<open>long\<close> and
  \<^verbatim>\<open>size_t\<close> are passed alike, a pointer to characters carries its address and the
  characters behind it, and taking an argument of another kind is undefined. The negation
  of a signed number wraps.
\<close>

unbundle bit_operations_syntax

datatype 'd vararg =
    Word_Arg ulong
  | Long_Long_Arg "64 word"
  | Double_Arg 'd
  | Pointer_Arg ulong cstring

type_synonym 'd va_list = "'d vararg list"

definition va_word :: "'d va_list \<Rightarrow> (ulong \<times> 'd va_list) option" where
  "va_word va = (case va of Word_Arg w # va \<Rightarrow> Some (w, va) | _ \<Rightarrow> None)"

definition va_long_long :: "'d va_list \<Rightarrow> (64 word \<times> 'd va_list) option" where
  "va_long_long va = (case va of Long_Long_Arg w # va \<Rightarrow> Some (w, va) | _ \<Rightarrow> None)"

definition va_double :: "'d va_list \<Rightarrow> ('d \<times> 'd va_list) option" where
  "va_double va = (case va of Double_Arg d # va \<Rightarrow> Some (d, va) | _ \<Rightarrow> None)"

definition va_pointer :: "'d va_list \<Rightarrow> ((ulong \<times> cstring) \<times> 'd va_list) option" where
  "va_pointer va = (case va of Pointer_Arg p s # va \<Rightarrow> Some ((p, s), va) | _ \<Rightarrow> None)"

subsection \<open>Reading a directive\<close>

text \<open>\<^verbatim>\<open>%[flags][width][.precision][length]\<close>, up to the specifier.\<close>

definition flag_of :: "char \<Rightarrow> ulong" where
  "flag_of c =
     (if c = CHR ''0'' then FLAGS_ZEROPAD
      else if c = CHR ''-'' then FLAGS_LEFT
      else if c = CHR ''+'' then FLAGS_PLUS
      else if c = CHR '' '' then FLAGS_SPACE
      else if c = CHR ''#'' then FLAGS_HASH
      else 0)"

fun parse_flags :: "cstring \<Rightarrow> ulong \<Rightarrow> (cstring \<times> ulong) option" where
  "parse_flags [] flags = None"
| "parse_flags (c # fmt) flags =
     (if flag_of c \<noteq> 0 then parse_flags fmt (flags OR flag_of c) else Some (c # fmt, flags))"

definition parse_width ::
    "cstring \<Rightarrow> ulong \<Rightarrow> 'd va_list \<Rightarrow> (cstring \<times> ulong \<times> ulong \<times> 'd va_list) option" where
  "parse_width fmt flags va =
     (case fmt of
        [] \<Rightarrow> None
      | c # rest \<Rightarrow>
          if is_digit c
          then do { (width, fmt) \<leftarrow> atoi fmt 0; Some (fmt, flags, width, va) }
          else if c = CHR ''*''
          then do {
            (w, va) \<leftarrow> va_word va;
            if sint w < 0 then Some (rest, flags OR FLAGS_LEFT, - w, va)
            else Some (rest, flags, w, va)
          }
          else Some (fmt, flags, 0, va))"

definition parse_precision ::
    "cstring \<Rightarrow> ulong \<Rightarrow> 'd va_list \<Rightarrow> (cstring \<times> ulong \<times> ulong \<times> 'd va_list) option" where
  "parse_precision fmt flags va =
     (case fmt of
        [] \<Rightarrow> None
      | c # rest \<Rightarrow>
          if c = CHR ''.''
          then let flags = flags OR FLAGS_PRECISION
               in case rest of
                    [] \<Rightarrow> None
                  | c' # rest' \<Rightarrow>
                      if is_digit c'
                      then do { (precision, fmt) \<leftarrow> atoi rest 0; Some (fmt, flags, precision, va) }
                      else if c' = CHR ''*''
                      then do {
                        (prec, va) \<leftarrow> va_word va;
                        Some (rest', flags, if sint prec > 0 then prec else 0, va)
                      }
                      else Some (rest, flags, 0, va)
          else Some (fmt, flags, 0, va))"

text \<open>\<^verbatim>\<open>ptrdiff_t\<close> and \<^verbatim>\<open>size_t\<close> have the size of \<^verbatim>\<open>long\<close>, \<^verbatim>\<open>intmax_t\<close> that of \<^verbatim>\<open>long long\<close>.\<close>

definition doubled :: "char \<Rightarrow> ulong \<Rightarrow> cstring \<Rightarrow> ulong \<Rightarrow> (cstring \<times> ulong) option" where
  "doubled c f fmt flags =
     (case fmt of
        [] \<Rightarrow> None
      | c' # rest \<Rightarrow> if c' = c then Some (rest, flags OR f) else Some (fmt, flags))"

definition parse_length :: "cstring \<Rightarrow> ulong \<Rightarrow> (cstring \<times> ulong) option" where
  "parse_length fmt flags =
     (case fmt of
        [] \<Rightarrow> None
      | c # rest \<Rightarrow>
          if c = CHR ''l'' then doubled CHR ''l'' FLAGS_LONG_LONG rest (flags OR FLAGS_LONG)
          else if c = CHR ''h'' then doubled CHR ''h'' FLAGS_CHAR rest (flags OR FLAGS_SHORT)
          else if c = CHR ''t'' then Some (rest, flags OR FLAGS_LONG)
          else if c = CHR ''j'' then Some (rest, flags OR FLAGS_LONG_LONG)
          else if c = CHR ''z'' then Some (rest, flags OR FLAGS_LONG)
          else Some (fmt, flags))"

record directive =
  d_flags :: ulong
  d_width :: ulong
  d_precision :: ulong

definition parse_directive ::
    "cstring \<Rightarrow> 'd va_list \<Rightarrow> (cstring \<times> directive \<times> 'd va_list) option" where
  "parse_directive fmt va = do {
     (fmt, flags) \<leftarrow> parse_flags fmt 0;
     (fmt, flags, width, va) \<leftarrow> parse_width fmt flags va;
     (fmt, flags, precision, va) \<leftarrow> parse_precision fmt flags va;
     (fmt, flags) \<leftarrow> parse_length fmt flags;
     Some (fmt, \<lparr>d_flags = flags, d_width = width, d_precision = precision\<rparr>, va)
   }"

subsection \<open>Integers\<close>

definition int_base :: "char \<Rightarrow> ulong" where
  "int_base c =
     (if c = CHR ''x'' \<or> c = CHR ''X'' then 16
      else if c = CHR ''o'' then 8
      else if c = CHR ''b'' then 2
      else 10)"

definition int_flags :: "char \<Rightarrow> ulong \<Rightarrow> ulong" where
  "int_flags c flags =
     (let flags = (if c \<in> {CHR ''x'', CHR ''X'', CHR ''o'', CHR ''b''} then flags
                   else flags AND NOT FLAGS_HASH);
          flags = (if c = CHR ''X'' then flags OR FLAGS_UPPERCASE else flags);
          flags = (if c \<noteq> CHR ''i'' \<and> c \<noteq> CHR ''d''
                   then flags AND NOT (FLAGS_PLUS OR FLAGS_SPACE) else flags)
      in if has flags FLAGS_PRECISION then flags AND NOT FLAGS_ZEROPAD else flags)"

text \<open>The value of an \<^verbatim>\<open>int\<close> argument cut down to a \<^verbatim>\<open>char\<close>, which is unsigned, or to a
  \<^verbatim>\<open>short\<close>, and that of an unsigned one.\<close>

definition signed_arg :: "ulong \<Rightarrow> ulong \<Rightarrow> int" where
  "signed_arg flags w =
     (if has flags FLAGS_CHAR then uint (ucast w :: 8 word)
      else if has flags FLAGS_SHORT then sint (ucast w :: 16 word)
      else sint w)"

definition unsigned_arg :: "ulong \<Rightarrow> ulong \<Rightarrow> ulong" where
  "unsigned_arg flags w =
     (if has flags FLAGS_CHAR then ucast (ucast w :: 8 word)
      else if has flags FLAGS_SHORT then ucast (ucast w :: 16 word)
      else w)"

text \<open>\<^verbatim>\<open>(unsigned)(value > 0 ? value : 0 - value)\<close>.\<close>

definition magnitude :: "int \<Rightarrow> 'a :: len word" where
  "magnitude v = word_of_int (if v > 0 then v else 0 - v)"

definition int_conversion ::
    "'b out_fct \<Rightarrow> 'b \<Rightarrow> ulong \<Rightarrow> ulong \<Rightarrow> char \<Rightarrow> directive \<Rightarrow> 'd va_list
       \<Rightarrow> ('b \<times> ulong \<times> 'd va_list) option" where
  "int_conversion out buffer idx maxlen c d va =
     (let flags = int_flags c (d_flags d);
          base = int_base c;
          precision = d_precision d;
          width = d_width d
      in if c = CHR ''i'' \<or> c = CHR ''d''
         then if has flags FLAGS_LONG_LONG
         then do {
           (w, va) \<leftarrow> va_long_long va;
           let v = sint w;
           (buffer, idx) \<leftarrow> ntoa_long_long out buffer idx maxlen (magnitude v) (v < 0)
             (ucast base) precision width flags;
           Some (buffer, idx, va)
         }
         else if has flags FLAGS_LONG
         then do {
           (w, va) \<leftarrow> va_word va;
           let v = sint w;
           (buffer, idx) \<leftarrow> ntoa_long out buffer idx maxlen (magnitude v) (v < 0)
             base precision width flags;
           Some (buffer, idx, va)
         }
         else do {
           (w, va) \<leftarrow> va_word va;
           let v = signed_arg flags w;
           (buffer, idx) \<leftarrow> ntoa_long out buffer idx maxlen (magnitude v) (v < 0)
             base precision width flags;
           Some (buffer, idx, va)
         }
         else if has flags FLAGS_LONG_LONG
         then do {
           (w, va) \<leftarrow> va_long_long va;
           (buffer, idx) \<leftarrow> ntoa_long_long out buffer idx maxlen w False
             (ucast base) precision width flags;
           Some (buffer, idx, va)
         }
         else if has flags FLAGS_LONG
         then do {
           (w, va) \<leftarrow> va_word va;
           (buffer, idx) \<leftarrow> ntoa_long out buffer idx maxlen w False
             base precision width flags;
           Some (buffer, idx, va)
         }
         else do {
           (w, va) \<leftarrow> va_word va;
           (buffer, idx) \<leftarrow> ntoa_long out buffer idx maxlen (unsigned_arg flags w) False
             base precision width flags;
           Some (buffer, idx, va)
         })"

subsection \<open>Characters, strings and pointers\<close>

text \<open>The padding loops \<^verbatim>\<open>while (l++ < width) out(' ', buffer, idx++, maxlen)\<close> test, step and
  write like \<open>pad_spaces\<close>; the value they leave in \<^verbatim>\<open>l\<close> is not used.\<close>

definition char_conversion ::
    "'b out_fct \<Rightarrow> 'b \<Rightarrow> ulong \<Rightarrow> ulong \<Rightarrow> directive \<Rightarrow> 'd va_list
       \<Rightarrow> ('b \<times> ulong \<times> 'd va_list) option" where
  "char_conversion out buffer idx maxlen d va = do {
     let l = 1;
     (buffer, idx) \<leftarrow>
       (if \<not> has (d_flags d) FLAGS_LEFT then pad_spaces out l (d_width d) buffer idx maxlen
        else Some (buffer, idx));
     (w, va) \<leftarrow> va_word va;
     buffer \<leftarrow> out (char_of (uint w)) buffer idx maxlen;
     (buffer, idx) \<leftarrow>
       (if has (d_flags d) FLAGS_LEFT then pad_spaces out l (d_width d) buffer (idx + 1) maxlen
        else Some (buffer, idx + 1));
     Some (buffer, idx, va)
   }"

text \<open>\<^verbatim>\<open>while ((*p != 0) && (!(flags & FLAGS_PRECISION) || precision--))\<close>.\<close>

fun out_string ::
    "'b out_fct \<Rightarrow> cstring \<Rightarrow> bool \<Rightarrow> ulong \<Rightarrow> 'b \<Rightarrow> ulong \<Rightarrow> ulong \<Rightarrow> ('b \<times> ulong) option" where
  "out_string out [] limited precision buffer idx maxlen = None"
| "out_string out (c # p) limited precision buffer idx maxlen =
     (if c \<noteq> NUL \<and> (\<not> limited \<or> precision \<noteq> 0)
      then do {
        buffer \<leftarrow> out c buffer idx maxlen;
        out_string out p limited (if limited then precision - 1 else precision)
          buffer (idx + 1) maxlen
      }
      else Some (buffer, idx))"

definition string_conversion ::
    "'b out_fct \<Rightarrow> 'b \<Rightarrow> ulong \<Rightarrow> ulong \<Rightarrow> directive \<Rightarrow> 'd va_list
       \<Rightarrow> ('b \<times> ulong \<times> 'd va_list) option" where
  "string_conversion out buffer idx maxlen d va = do {
     let limited = has (d_flags d) FLAGS_PRECISION;
     let precision = d_precision d;
     ((address, p), va) \<leftarrow> va_pointer va;
     l \<leftarrow> strnlen_s p (if precision \<noteq> 0 then precision else - 1);
     let l = (if limited then if l < precision then l else precision else l);
     (buffer, idx) \<leftarrow>
       (if \<not> has (d_flags d) FLAGS_LEFT then pad_spaces out l (d_width d) buffer idx maxlen
        else Some (buffer, idx));
     (buffer, idx) \<leftarrow> out_string out p limited precision buffer idx maxlen;
     (buffer, idx) \<leftarrow>
       (if has (d_flags d) FLAGS_LEFT then pad_spaces out l (d_width d) buffer idx maxlen
        else Some (buffer, idx));
     Some (buffer, idx, va)
   }"

text \<open>\<^verbatim>\<open>uintptr_t\<close> is an \<^verbatim>\<open>unsigned long\<close> of 4 bytes, so \<^verbatim>\<open>is_ll\<close> is false.\<close>

definition pointer_conversion ::
    "'b out_fct \<Rightarrow> 'b \<Rightarrow> ulong \<Rightarrow> ulong \<Rightarrow> directive \<Rightarrow> 'd va_list
       \<Rightarrow> ('b \<times> ulong \<times> 'd va_list) option" where
  "pointer_conversion out buffer idx maxlen d va = do {
     let width = 4 * 2;
     let flags = d_flags d OR (FLAGS_ZEROPAD OR FLAGS_UPPERCASE);
     ((address, p), va) \<leftarrow> va_pointer va;
     (buffer, idx) \<leftarrow> ntoa_long out buffer idx maxlen address False 16 (d_precision d) width flags;
     Some (buffer, idx, va)
   }"

subsection \<open>The specifier\<close>

definition double_conversion ::
    "'d soft_float \<Rightarrow> 'b out_fct \<Rightarrow> 'b \<Rightarrow> ulong \<Rightarrow> ulong \<Rightarrow> char \<Rightarrow> directive \<Rightarrow> 'd va_list
       \<Rightarrow> ('b \<times> ulong \<times> 'd va_list) option" where
  "double_conversion ff out buffer idx maxlen c d va =
     (if c = CHR ''f'' \<or> c = CHR ''F''
      then do {
        let flags = (if c = CHR ''F'' then d_flags d OR FLAGS_UPPERCASE else d_flags d);
        (v, va) \<leftarrow> va_double va;
        (buffer, idx) \<leftarrow> ftoa ff out buffer idx maxlen v (d_precision d) (d_width d) flags;
        Some (buffer, idx, va)
      }
      else do {
        let flags = (if c = CHR ''g'' \<or> c = CHR ''G'' then d_flags d OR FLAGS_ADAPT_EXP else d_flags d);
        let flags = (if c = CHR ''E'' \<or> c = CHR ''G'' then flags OR FLAGS_UPPERCASE else flags);
        (v, va) \<leftarrow> va_double va;
        (buffer, idx) \<leftarrow> etoa ff out buffer idx maxlen v (d_precision d) (d_width d) flags;
        Some (buffer, idx, va)
      })"

text \<open>The case for \<^verbatim>\<open>%\<close> and the default case both write the character itself.\<close>

definition conversion ::
    "'d soft_float \<Rightarrow> 'b out_fct \<Rightarrow> 'b \<Rightarrow> ulong \<Rightarrow> ulong \<Rightarrow> char \<Rightarrow> directive \<Rightarrow> 'd va_list
       \<Rightarrow> ('b \<times> ulong \<times> 'd va_list) option" where
  "conversion ff out buffer idx maxlen c d va =
     (if c \<in> {CHR ''d'', CHR ''i'', CHR ''u'', CHR ''x'', CHR ''X'', CHR ''o'', CHR ''b''}
      then int_conversion out buffer idx maxlen c d va
      else if c \<in> {CHR ''f'', CHR ''F'', CHR ''e'', CHR ''E'', CHR ''g'', CHR ''G''}
      then double_conversion ff out buffer idx maxlen c d va
      else if c = CHR ''c'' then char_conversion out buffer idx maxlen d va
      else if c = CHR ''s'' then string_conversion out buffer idx maxlen d va
      else if c = CHR ''p'' then pointer_conversion out buffer idx maxlen d va
      else do { buffer \<leftarrow> out c buffer idx maxlen; Some (buffer, idx + 1, va) })"

subsection \<open>The loop over the format\<close>

lemma atoi_shorter: "atoi fmt i = Some (w, fmt') \<Longrightarrow> length fmt' \<le> length fmt"
  by (induction fmt arbitrary: i) (fastforce split: if_splits)+

lemma parse_flags_shorter: "parse_flags fmt flags = Some (fmt', flags') \<Longrightarrow> length fmt' \<le> length fmt"
  by (induction fmt arbitrary: flags) (fastforce split: if_splits)+

lemma parse_width_shorter:
  "parse_width fmt flags va = Some (fmt', r) \<Longrightarrow> length fmt' \<le> length fmt"
  by (auto simp: parse_width_def bind_eq_Some_conv dest: atoi_shorter split: list.splits if_splits)

lemma parse_precision_shorter:
  "parse_precision fmt flags va = Some (fmt', r) \<Longrightarrow> length fmt' \<le> length fmt"
  by (auto simp: parse_precision_def bind_eq_Some_conv Let_def dest: atoi_shorter
      split: list.splits if_splits)

lemma parse_length_shorter:
  "parse_length fmt flags = Some (fmt', flags') \<Longrightarrow> length fmt' \<le> length fmt"
  by (auto simp: parse_length_def doubled_def split: list.splits if_splits)

lemma parse_directive_shorter:
  "parse_directive fmt va = Some (fmt', d, va') \<Longrightarrow> length fmt' \<le> length fmt"
  by (fastforce simp: parse_directive_def bind_eq_Some_conv
      dest!: parse_flags_shorter parse_width_shorter parse_precision_shorter parse_length_shorter)

function format_loop ::
    "'d soft_float \<Rightarrow> 'b out_fct \<Rightarrow> 'b \<Rightarrow> ulong \<Rightarrow> ulong \<Rightarrow> cstring \<Rightarrow> 'd va_list
       \<Rightarrow> ('b \<times> ulong) option" where
  "format_loop ff out buffer idx maxlen fmt va =
     (case fmt of
        [] \<Rightarrow> None
      | c # rest \<Rightarrow>
          if c = NUL then Some (buffer, idx)
          else if c \<noteq> CHR ''%''
          then do {
            buffer \<leftarrow> out c buffer idx maxlen;
            format_loop ff out buffer (idx + 1) maxlen rest va
          }
          else do {
            (fmt, d, va) \<leftarrow> parse_directive rest va;
            (case fmt of
               [] \<Rightarrow> None
             | c # rest \<Rightarrow> do {
                 (buffer, idx, va) \<leftarrow> conversion ff out buffer idx maxlen c d va;
                 format_loop ff out buffer idx maxlen rest va
               })
          })"
  by pat_completeness auto
termination
  by (relation "measure (\<lambda>(ff, out, buffer, idx, maxlen, fmt, va). length fmt)")
    (auto dest!: parse_directive_shorter)

declare format_loop.simps [simp del]

definition vsnprintf_run ::
    "'d soft_float \<Rightarrow> 'b out_fct \<Rightarrow> 'b \<Rightarrow> ulong \<Rightarrow> cstring \<Rightarrow> 'd va_list \<Rightarrow> ('b \<times> int) option" where
  "vsnprintf_run ff out buffer maxlen fmt va = do {
     (buffer, idx) \<leftarrow> format_loop ff out buffer 0 maxlen fmt va;
     buffer \<leftarrow> out NUL buffer (if idx < maxlen then idx else maxlen - 1) maxlen;
     Some (buffer, sint idx)
   }"

text \<open>A buffer that is NULL is replaced by the null output.\<close>

definition vsnprintf_internal ::
    "'d soft_float \<Rightarrow> 'b out_fct \<Rightarrow> 'b option \<Rightarrow> ulong \<Rightarrow> cstring \<Rightarrow> 'd va_list
       \<Rightarrow> ('b option \<times> int) option" where
  "vsnprintf_internal ff out buffer maxlen fmt va =
     (case buffer of
        None \<Rightarrow> do { (_, n) \<leftarrow> vsnprintf_run ff out_null () maxlen fmt va; Some (None, n) }
      | Some b \<Rightarrow> do { (b, n) \<leftarrow> vsnprintf_run ff out b maxlen fmt va; Some (Some b, n) })"

subsection \<open>The exported functions\<close>

text \<open>The exported names end in an underscore, here in \<open>_c\<close>. The arguments behind the format
  are the list \<^verbatim>\<open>va_start\<close> gives. \<^verbatim>\<open>printf_\<close> and \<^verbatim>\<open>vprintf_\<close> pass a buffer of one character that nothing is written to: what changes is
  the world \<^verbatim>\<open>_putchar\<close> writes to.\<close>

definition vprintf_c ::
    "'d soft_float \<Rightarrow> (char \<Rightarrow> 'b \<Rightarrow> 'b option) \<Rightarrow> 'b \<Rightarrow> cstring \<Rightarrow> 'd va_list \<Rightarrow> ('b \<times> int) option" where
  "vprintf_c ff putchar world format va = vsnprintf_run ff (out_char putchar) world (- 1) format va"

definition printf_c ::
    "'d soft_float \<Rightarrow> (char \<Rightarrow> 'b \<Rightarrow> 'b option) \<Rightarrow> 'b \<Rightarrow> cstring \<Rightarrow> 'd va_list \<Rightarrow> ('b \<times> int) option" where
  "printf_c ff putchar world format va = vsnprintf_run ff (out_char putchar) world (- 1) format va"

definition sprintf_c ::
    "'d soft_float \<Rightarrow> string option \<Rightarrow> cstring \<Rightarrow> 'd va_list \<Rightarrow> (string option \<times> int) option" where
  "sprintf_c ff buffer format va = vsnprintf_internal ff out_buffer buffer (- 1) format va"

definition snprintf_c ::
    "'d soft_float \<Rightarrow> string option \<Rightarrow> ulong \<Rightarrow> cstring \<Rightarrow> 'd va_list \<Rightarrow> (string option \<times> int) option" where
  "snprintf_c ff buffer count format va = vsnprintf_internal ff out_buffer buffer count format va"

definition vsnprintf_c ::
    "'d soft_float \<Rightarrow> string option \<Rightarrow> ulong \<Rightarrow> cstring \<Rightarrow> 'd va_list \<Rightarrow> (string option \<times> int) option" where
  "vsnprintf_c ff buffer count format va = vsnprintf_internal ff out_buffer buffer count format va"

definition fctprintf ::
    "'d soft_float \<Rightarrow> (char \<Rightarrow> 'a \<Rightarrow> 'b \<Rightarrow> 'b option) \<Rightarrow> 'a \<Rightarrow> 'b \<Rightarrow> cstring \<Rightarrow> 'd va_list
       \<Rightarrow> ('b \<times> int) option" where
  "fctprintf ff out a world format va =
     vsnprintf_run ff (out_fct \<lparr>fct = out, arg = a\<rparr>) world (- 1) format va"

end
