(* ===== verification/PF_Numbers.thy ===== *)
theory PF_Numbers
  imports PF_Integer
begin

unbundle bit_operations_syntax

text \<open>
  What the integer conversions of \<^verbatim>\<open>printf.c\<close> promise: the positional notation of a number
  (\<open>numeral_text\<close>), how it is read back (\<open>numeral_value\<close>, and the code's own \<^verbatim>\<open>_atoi\<close>), and the
  field of the C standard for a number with a precision, a width and flags
  (\<open>c_integer_field\<close>).
\<close>

subsection \<open>Positional notation\<close>

fun numeral_text :: "nat \<Rightarrow> bool \<Rightarrow> nat \<Rightarrow> string" where
  "numeral_text base upper n =
     (if base < 2 \<or> n < base then [digit_char n upper]
      else numeral_text base upper (n div base) @ [digit_char (n mod base) upper])"

declare numeral_text.simps [simp del]

definition digit_value :: "char \<Rightarrow> nat" where
  "digit_value c =
     (let n = of_char c
      in if n < 58 then n - 48 else if n < 91 then n - 55 else n - 87)"

definition numeral_value :: "nat \<Rightarrow> string \<Rightarrow> nat" where
  "numeral_value base s = foldl (\<lambda>n c. n * base + digit_value c) 0 s"

lemma digit_value_char [simp]: "d < 16 \<Longrightarrow> digit_value (digit_char d upper) = d"
  by (simp add: digit_value_def digit_char_def Let_def)

lemma numeral_round_trip:
  "2 \<le> base \<Longrightarrow> base \<le> 16 \<Longrightarrow> numeral_value base (numeral_text base upper n) = n"
proof (induction base upper n rule: numeral_text.induct)
  case (1 base upper n)
  show ?case
  proof (cases "n < base")
    case True
    with 1 show ?thesis by (subst numeral_text.simps) (simp add: numeral_value_def)
  next
    case False
    with 1 have "numeral_value base (numeral_text base upper (n div base)) = n div base" by simp
    moreover have "n mod base < 16"
      using mod_less_divisor [of base n] 1 by linarith
    ultimately show ?thesis
      using 1 False by (subst numeral_text.simps) (simp add: numeral_value_def)
  qed
qed

lemma numeral_length:
  "2 \<le> base \<Longrightarrow> n < base ^ k \<Longrightarrow> 0 < k \<Longrightarrow> length (numeral_text base upper n) \<le> k"
proof (induction k arbitrary: n)
  case (Suc k)
  show ?case
  proof (cases "n < base")
    case False
    have "n div base < base ^ k"
      using Suc.prems by (simp add: less_mult_imp_div_less mult.commute)
    moreover from this False Suc.prems(1) have "0 < k"
      by (cases k) (auto simp: div_eq_0_iff)
    ultimately show ?thesis
      using Suc.IH [of "n div base"] Suc.prems(1) False by (subst numeral_text.simps) simp
  qed (subst numeral_text.simps, simp)
qed simp

lemma numeral_nonempty [simp]: "numeral_text base upper n \<noteq> []"
  by (subst numeral_text.simps) simp

subsection \<open>The digits in the buffer\<close>

text \<open>The buffer holds the lowest digits, as many as it has room for.\<close>

lemma ntoa_digits_numeral:
  assumes "2 \<le> unat base" "unat base \<le> 16" "length buf < PRINTF_NTOA_BUFFER_SIZE"
  shows "ntoa_digits v base flags buf =
    buf @ take (PRINTF_NTOA_BUFFER_SIZE - length buf)
            (rev (numeral_text (unat base) (has flags FLAGS_UPPERCASE) (unat v)))"
  using assms
proof (induction v base flags buf rule: ntoa_digits.induct)
  case (1 v base flags buf)
  let ?u = "has flags FLAGS_UPPERCASE" and ?c = "digit_char (unat v mod unat base) (has flags FLAGS_UPPERCASE)"
  have digit: "unat (v mod base) mod 256 = unat v mod unat base"
  proof -
    have "unat v mod unat base < unat base" using 1(2) by simp
    then show ?thesis using 1(3) by (simp add: unat_mod)
  qed
  have none: "v div base = 0 \<longleftrightarrow> unat v < unat base"
    using 1(2) by (metis div_eq_0_iff unat_div unat_eq_zero not_numeral_le_zero unat_0)
  have room: "PRINTF_NTOA_BUFFER_SIZE - length buf = Suc (PRINTF_NTOA_BUFFER_SIZE - length (buf @ [?c]))"
    using 1(4) by simp
  have digits: "rev (numeral_text (unat base) ?u (unat v)) =
      ?c # (if unat v < unat base then [] else rev (numeral_text (unat base) ?u (unat v div unat base)))"
    using 1(2) by (subst numeral_text.simps) simp
  show ?case
    using 1(1) [OF refl refl refl] 1(2-4)
    by (subst ntoa_digits.simps, subst digits, subst room)
      (auto simp: Let_def digit none unat_div)
qed

text \<open>The value of the digits in the buffer is the number modulo \<open>base ^ 32\<close>.\<close>

lemma numeral_value_drop:
  assumes "\<And>c. c \<in> set s \<Longrightarrow> digit_value c < base"
  shows "numeral_value base (drop (length s - k) s) = numeral_value base s mod base ^ k"
  using assms
proof (induction s arbitrary: k rule: rev_induct)
  case (snoc c s)
  show ?case
  proof (cases k)
    case (Suc j)
    have c: "digit_value c < base" using snoc.prems by simp
    have step: "numeral_value base (t @ [c]) = numeral_value base t * base + digit_value c" for t
      by (simp add: numeral_value_def)
    have "drop (length (s @ [c]) - k) (s @ [c]) = drop (length s - j) s @ [c]"
      using Suc by simp
    then show ?thesis
      using snoc.IH [of j] snoc.prems c Suc
      by (cases "base = 0") (simp_all add: step mod_mult2_eq mult.commute div_mult_self3)
  qed (simp add: numeral_value_def)
qed (simp add: numeral_value_def)

lemma numeral_digits:
  "2 \<le> base \<Longrightarrow> base \<le> 16 \<Longrightarrow> c \<in> set (numeral_text base upper n) \<Longrightarrow> digit_value c < base"
proof (induction base upper n rule: numeral_text.induct)
  case (1 base upper n)
  have "n mod base < base" using 1(2) by simp
  moreover from this 1(3) have "n mod base < 16" by simp
  ultimately show ?case
    using 1 by (cases "n < base") (auto simp: numeral_text.simps [of base upper n])
qed

text \<open>A number whose digits fit is in the buffer with all of them.\<close>

lemma ntoa_digits_all:
  assumes "2 \<le> unat base" "unat base \<le> 16" "unat v < unat base ^ PRINTF_NTOA_BUFFER_SIZE"
  shows "ntoa_digits v base flags [] =
    rev (numeral_text (unat base) (has flags FLAGS_UPPERCASE) (unat v))"
  using assms numeral_length [of "unat base" "unat v" PRINTF_NTOA_BUFFER_SIZE]
  by (simp add: ntoa_digits_numeral PRINTF_NTOA_BUFFER_SIZE_def)

subsection \<open>The field of the C standard\<close>

text \<open>
  A converted number: its digits, at least \<open>prec\<close> of them; in front of them the prefix (the
  sign); and as many spaces or zeros as the width asks for, behind the number, between the
  prefix and the digits, or in front.
\<close>

definition c_integer_field :: "string \<Rightarrow> string \<Rightarrow> nat \<Rightarrow> nat \<Rightarrow> bool \<Rightarrow> bool \<Rightarrow> string" where
  "c_integer_field prefix digits prec width left zero =
     (let digits = replicate (prec - length digits) CHR ''0'' @ digits;
          n = length prefix + length digits
      in if left then prefix @ digits @ replicate (width - n) CHR '' ''
         else if zero then prefix @ replicate (width - n) CHR ''0'' @ digits
         else replicate (width - n) CHR '' '' @ prefix @ digits)"

text \<open>No digits for the number 0 with a precision of 0.\<close>

definition c_digits :: "nat \<Rightarrow> ulong \<Rightarrow> nat \<Rightarrow> string" where
  "c_digits base flags n =
     (if has flags FLAGS_PRECISION \<and> n = 0 then []
      else numeral_text base (has flags FLAGS_UPPERCASE) n)"

text \<open>What \<^verbatim>\<open>_vsnprintf\<close> hands over: no flag 0 with a precision, and the precision 0 when
  none is given.\<close>

definition precision_flags :: "ulong \<Rightarrow> ulong \<Rightarrow> bool" where
  "precision_flags prec flags \<longleftrightarrow>
     (if has flags FLAGS_PRECISION then \<not> has flags FLAGS_ZEROPAD else prec = 0)"

text \<open>The limits of the code: the number, its precision and the width zeros are added up to
  leave room for a sign in the buffer; a precision is not combined with the flag \<open>-\<close>,
  unless the digits alone reach it; the flag \<open>#\<close> is not given.\<close>

definition fits_buffer :: "nat \<Rightarrow> ulong \<Rightarrow> ulong \<Rightarrow> ulong \<Rightarrow> bool" where
  "fits_buffer n prec width flags \<longleftrightarrow>
     n < PRINTF_NTOA_BUFFER_SIZE \<and> unat prec < PRINTF_NTOA_BUFFER_SIZE
     \<and> (has flags FLAGS_LEFT \<longrightarrow> unat prec \<le> n)
     \<and> (has flags FLAGS_ZEROPAD \<and> \<not> has flags FLAGS_LEFT
          \<longrightarrow> unat width < PRINTF_NTOA_BUFFER_SIZE)"

lemma spaces_nat: "n \<le> PRINTF_NTOA_BUFFER_SIZE \<Longrightarrow>
    spaces (of_nat n) width = replicate (unat width - n) CHR '' ''"
  by (simp add: spaces_def PRINTF_NTOA_BUFFER_SIZE_def unat_of_nat)

lemma rev_sign_text [simp]: "rev (sign_text negative flags) = sign_text negative flags"
  by (simp add: sign_text_def)

lemma sign_text_length: "length (sign_text negative flags) \<le> 1"
  by (simp add: sign_text_def)

lemma field_signed:
  assumes "length buf < PRINTF_NTOA_BUFFER_SIZE"
  shows "field_text (add_sign negative flags buf) width flags =
    (let body = sign_text negative flags @ rev buf;
         pad = replicate (unat width - length body) CHR '' ''
     in if has flags FLAGS_LEFT then body @ pad
        else if has flags FLAGS_ZEROPAD then body else pad @ body)"
proof -
  have "length (buf @ sign_text negative flags) \<le> PRINTF_NTOA_BUFFER_SIZE"
    using assms sign_text_length [of negative flags] by simp
  from spaces_nat [OF this] assms show ?thesis
    by (simp add: add_sign_def field_text_def Let_def add.commute)
qed

lemma fill_left:
  assumes "has flags FLAGS_LEFT" "\<not> has flags FLAGS_HASH" "length digits < PRINTF_NTOA_BUFFER_SIZE"
    "unat prec \<le> length digits"
  shows "(let (buf, width) = ntoa_fill (rev digits) negative base prec width flags
          in field_text buf width flags) =
    c_integer_field (sign_text negative flags) digits (unat prec) (unat width) True zero"
  using assms by (simp add: ntoa_fill_def field_signed c_integer_field_def)

lemma fill_zeros:
  assumes "\<not> has flags FLAGS_LEFT" "has flags FLAGS_ZEROPAD" "\<not> has flags FLAGS_HASH" "prec = 0"
    "length digits < PRINTF_NTOA_BUFFER_SIZE" "unat width < PRINTF_NTOA_BUFFER_SIZE"
  shows "(let (buf, width) = ntoa_fill (rev digits) negative base prec width flags
          in field_text buf width flags) =
    c_integer_field (sign_text negative flags) digits 0 (unat width) False True"
proof -
  let ?zeros = "replicate (unat width - (length (sign_text negative flags) + length digits)) CHR ''0''"
  have "unat (zeropad_width negative width flags) = unat width - length (sign_text negative flags)"
    using assms by (auto simp: zeropad_width_def unat_pred sign_text_def)
  then have "pad_zeros (zeropad_width negative width flags) (pad_zeros prec (rev digits)) =
      rev digits @ ?zeros"
    using assms by (simp add: pad_zeros_eq)
  moreover have "length (rev digits @ ?zeros) < PRINTF_NTOA_BUFFER_SIZE"
    using assms by simp
  ultimately show ?thesis
    using assms(1-3) by (simp add: ntoa_fill_def field_signed c_integer_field_def del: length_append)
qed

lemma fill_spaces:
  assumes "\<not> has flags FLAGS_LEFT" "\<not> has flags FLAGS_ZEROPAD" "\<not> has flags FLAGS_HASH"
    "length digits < PRINTF_NTOA_BUFFER_SIZE" "unat prec < PRINTF_NTOA_BUFFER_SIZE"
  shows "(let (buf, width) = ntoa_fill (rev digits) negative base prec width flags
          in field_text buf width flags) =
    c_integer_field (sign_text negative flags) digits (unat prec) (unat width) False False"
proof -
  let ?digits = "replicate (unat prec - length digits) CHR ''0'' @ digits"
  have "pad_zeros prec (rev digits) = rev ?digits"
    using assms by (simp add: pad_zeros_eq)
  moreover have "length (rev ?digits) < PRINTF_NTOA_BUFFER_SIZE"
    using assms by simp
  moreover have "zeropad_width negative width flags = width"
    using assms by (simp add: zeropad_width_def)
  ultimately show ?thesis
    using assms(1-3)
    by (simp add: ntoa_fill_def field_signed c_integer_field_def Let_def del: rev_append)
qed

lemma fill_field:
  assumes "\<not> has flags FLAGS_HASH" "precision_flags prec flags"
    "fits_buffer (length digits) prec width flags"
  shows "(let (buf, width) = ntoa_fill (rev digits) negative base prec width flags
          in field_text buf width flags) =
    c_integer_field (sign_text negative flags) digits (unat prec) (unat width)
      (has flags FLAGS_LEFT) (has flags FLAGS_ZEROPAD)"
proof (cases "has flags FLAGS_LEFT")
  case True
  with assms show ?thesis by (subst fill_left) (auto simp: fits_buffer_def)
next
  case left: False
  show ?thesis
  proof (cases "has flags FLAGS_ZEROPAD")
    case True
    with assms left show ?thesis
      by (subst fill_zeros) (auto simp: fits_buffer_def precision_flags_def split: if_splits)
  next
    case False
    with assms left show ?thesis by (subst fill_spaces) (auto simp: fits_buffer_def)
  qed
qed

lemma sign_text_clear [simp]: "sign_text negative (flags AND NOT FLAGS_HASH) = sign_text negative flags"
  by (simp add: sign_text_def)

lemma ntoa_text_field:
  assumes "2 \<le> unat base" "unat base \<le> 16" "unat v < unat base ^ PRINTF_NTOA_BUFFER_SIZE"
    and "has flags FLAGS_HASH \<Longrightarrow> v = 0" and "precision_flags prec flags"
    and "fits_buffer (length (c_digits (unat base) flags (unat v))) prec width flags"
  shows "ntoa_text v negative base prec width flags =
    c_integer_field (sign_text negative flags) (c_digits (unat base) flags (unat v))
      (unat prec) (unat width) (has flags FLAGS_LEFT) (has flags FLAGS_ZEROPAD)"
proof -
  define fl where "fl = (if v = 0 then flags AND NOT FLAGS_HASH else flags)"
  have same: "has fl f = has flags f" if "f \<in> {FLAGS_LEFT, FLAGS_ZEROPAD, FLAGS_PRECISION, FLAGS_UPPERCASE}" for f
    using that by (auto simp: fl_def)
  have "ntoa_start v base flags = (rev (c_digits (unat base) flags (unat v)), fl)"
    using assms(1-3) ntoa_digits_all [of base v fl]
    by (auto simp: ntoa_start_def c_digits_def fl_def unat_eq_zero Let_def)
  moreover have "\<not> has fl FLAGS_HASH" "precision_flags prec fl"
    "fits_buffer (length (c_digits (unat base) flags (unat v))) prec width fl"
    "sign_text negative fl = sign_text negative flags"
    using assms(4-6) by (auto simp: fl_def precision_flags_def fits_buffer_def)
  ultimately show ?thesis
    using fill_field [of fl prec "c_digits (unat base) flags (unat v)" width negative "ucast base"]
    by (simp add: ntoa_text_def same del: has_flag)
qed

subsection \<open>Reading a number back\<close>

lemma atoi_digits:
  "(\<And>c. c \<in> set t \<Longrightarrow> is_digit c) \<Longrightarrow>
     atoi (t @ s) i = atoi s (foldl (\<lambda>i c. i * 10 + (of_char c - 48)) i t)"
  by (induction t arbitrary: i) simp_all

lemma is_digit_char [simp]: "d < 10 \<Longrightarrow> is_digit (digit_char d upper)"
  by (simp add: is_digit_def digit_char_def)

lemma of_digit_char: "d < 10 \<Longrightarrow> of_char (digit_char d upper) - 48 = (of_nat d :: ulong)"
proof -
  assume "d < 10"
  then have "(of_char (digit_char d upper) :: nat) = 48 + d" by (simp add: digit_char_def)
  then have "(of_char (digit_char d upper) :: ulong) = of_nat (48 + d)" by (metis of_nat_of_char)
  then show ?thesis by simp
qed

lemma decimal_digits: "c \<in> set (numeral_text 10 upper n) \<Longrightarrow> is_digit c"
proof (induction "10 :: nat" upper n rule: numeral_text.induct)
  case (1 upper n)
  then show ?case by (cases "n < 10") (auto simp: numeral_text.simps [of 10 upper n])
qed

lemma decimal_fold:
  "foldl (\<lambda>i c. i * 10 + (of_char c - 48)) (0 :: ulong) (numeral_text 10 upper n) = of_nat n"
proof (induction "10 :: nat" upper n rule: numeral_text.induct)
  case (1 upper n)
  show ?case
  proof (cases "n < 10")
    case True
    then show ?thesis by (subst numeral_text.simps) (simp add: of_digit_char)
  next
    case False
    have "(of_nat (n div 10) * 10 + of_nat (n mod 10) :: ulong) = of_nat (n div 10 * 10 + n mod 10)"
      by (simp only: of_nat_add of_nat_mult of_nat_numeral)
    with False 1 show ?thesis by (subst numeral_text.simps) (simp add: of_digit_char)
  qed
qed

lemma atoi_numeral:
  "\<not> is_digit c \<Longrightarrow> atoi (numeral_text 10 upper n @ c # s) 0 = Some (of_nat n, c # s)"
  by (subst atoi_digits) (auto simp: decimal_digits decimal_fold)

end
