(* ===== verification/PF_Text.thy ===== *)
theory PF_Text
  imports PF_Format PF_Numbers
begin

text \<open>
  The abstract specification of \<^verbatim>\<open>_vsnprintf\<close>: the text a format and its arguments stand
  for (\<open>format_text\<close>), without output function, buffer and index. \<open>format_loop_emit\<close>
  says that the code, for every output function, gives it exactly this text; the sections
  behind it say what that means for a buffer of a certain size, for the null output and
  for an output of single characters.
\<close>

unbundle bit_operations_syntax

subsection \<open>The text of a conversion\<close>

definition int_text :: "char \<Rightarrow> directive \<Rightarrow> 'd va_list \<Rightarrow> (string \<times> 'd va_list) option" where
  "int_text c d va =
     (let flags = int_flags c (d_flags d);
          base = int_base c;
          signed = (c = CHR ''i'' \<or> c = CHR ''d'')
      in if has flags FLAGS_LONG_LONG
         then do {
           (w, va) \<leftarrow> va_long_long va;
           Some (if signed
                 then ntoa_text (magnitude (sint w) :: 64 word) (sint w < 0) (ucast base)
                        (d_precision d) (d_width d) flags
                 else ntoa_text w False (ucast base) (d_precision d) (d_width d) flags, va)
         }
         else do {
           (w, va) \<leftarrow> va_word va;
           let v = (if has flags FLAGS_LONG then sint w else signed_arg flags w);
           let u = (if has flags FLAGS_LONG then w else unsigned_arg flags w);
           Some (if signed
                 then ntoa_text (magnitude v :: 32 word) (v < 0) base (d_precision d) (d_width d) flags
                 else ntoa_text u False base (d_precision d) (d_width d) flags, va)
         })"

definition double_text ::
    "'d soft_float \<Rightarrow> char \<Rightarrow> directive \<Rightarrow> 'd va_list \<Rightarrow> (string \<times> 'd va_list) option" where
  "double_text ff c d va = do {
     (v, va) \<leftarrow> va_double va;
     s \<leftarrow> (if c = CHR ''f'' \<or> c = CHR ''F''
           then ftoa_text ff v (d_precision d) (d_width d)
                  (if c = CHR ''F'' then d_flags d OR FLAGS_UPPERCASE else d_flags d)
           else let flags = (if c = CHR ''g'' \<or> c = CHR ''G'' then d_flags d OR FLAGS_ADAPT_EXP
                             else d_flags d)
                in etoa_text ff v (d_precision d) (d_width d)
                     (if c = CHR ''E'' \<or> c = CHR ''G'' then flags OR FLAGS_UPPERCASE else flags));
     Some (s, va)
   }"

definition padded :: "string \<Rightarrow> ulong \<Rightarrow> directive \<Rightarrow> string" where
  "padded s l d =
     (if has (d_flags d) FLAGS_LEFT then s @ spaces l (d_width d) else spaces l (d_width d) @ s)"

fun string_chars :: "cstring \<Rightarrow> bool \<Rightarrow> ulong \<Rightarrow> string option" where
  "string_chars [] limited precision = None"
| "string_chars (c # p) limited precision =
     (if c \<noteq> NUL \<and> (\<not> limited \<or> precision \<noteq> 0)
      then do {
        s \<leftarrow> string_chars p limited (if limited then precision - 1 else precision);
        Some (c # s)
      }
      else Some [])"

definition string_text :: "directive \<Rightarrow> 'd va_list \<Rightarrow> (string \<times> 'd va_list) option" where
  "string_text d va = do {
     let limited = has (d_flags d) FLAGS_PRECISION;
     ((address, p), va) \<leftarrow> va_pointer va;
     l \<leftarrow> strnlen_s p (if d_precision d \<noteq> 0 then d_precision d else - 1);
     s \<leftarrow> string_chars p limited (d_precision d);
     Some (padded s (if limited then if l < d_precision d then l else d_precision d else l) d, va)
   }"

definition conversion_text ::
    "'d soft_float \<Rightarrow> char \<Rightarrow> directive \<Rightarrow> 'd va_list \<Rightarrow> (string \<times> 'd va_list) option" where
  "conversion_text ff c d va =
     (if c \<in> {CHR ''d'', CHR ''i'', CHR ''u'', CHR ''x'', CHR ''X'', CHR ''o'', CHR ''b''}
      then int_text c d va
      else if c \<in> {CHR ''f'', CHR ''F'', CHR ''e'', CHR ''E'', CHR ''g'', CHR ''G''}
      then double_text ff c d va
      else if c = CHR ''c''
      then do { (w, va) \<leftarrow> va_word va; Some (padded [char_of (uint w)] 1 d, va) }
      else if c = CHR ''s'' then string_text d va
      else if c = CHR ''p''
      then do {
        ((address, p), va) \<leftarrow> va_pointer va;
        Some (ntoa_text address False 16 (d_precision d) 8
                (d_flags d OR (FLAGS_ZEROPAD OR FLAGS_UPPERCASE)), va)
      }
      else Some ([c], va))"

lemma int_conversion_emit: "int_conversion out buffer idx maxlen c d va =
    do { (s, va) \<leftarrow> int_text c d va; (b, i) \<leftarrow> emit out s buffer idx maxlen; Some (b, i, va) }"
  by (cases "va_word va"; cases "va_long_long va")
    (auto simp: int_conversion_def int_text_def emits Let_def)

lemma double_conversion_emit: "double_conversion ff out buffer idx maxlen c d va =
    do { (s, va) \<leftarrow> double_text ff c d va; (b, i) \<leftarrow> emit out s buffer idx maxlen; Some (b, i, va) }"
  by (cases "va_double va") (auto simp: double_conversion_def double_text_def emits bind_assoc Let_def)

text \<open>A text between the two padding loops of \<^verbatim>\<open>%c\<close> and \<^verbatim>\<open>%s\<close>.\<close>

lemma padded_emit:
  "do { (b, i) \<leftarrow> (if \<not> has (d_flags d) FLAGS_LEFT then pad_spaces out l (d_width d) buffer idx maxlen
                   else Some (buffer, idx));
        (b, i) \<leftarrow> emit out s b i maxlen;
        (b, i) \<leftarrow> (if has (d_flags d) FLAGS_LEFT then pad_spaces out l (d_width d) b i maxlen
                   else Some (b, i));
        k b i }
    = do { (b, i) \<leftarrow> emit out (padded s l d) buffer idx maxlen; k b i }"
  by (simp add: padded_def emits emit_text_append bind_assoc split_def)

lemma char_conversion_emit: "char_conversion out buffer idx maxlen d va =
    do { (w, va) \<leftarrow> va_word va;
         (b, i) \<leftarrow> emit out (padded [char_of (uint w)] 1 d) buffer idx maxlen;
         Some (b, i, va) }"
  by (cases "va_word va"; cases "emit out (spaces 1 (d_width d)) buffer idx maxlen")
    (auto simp: char_conversion_def padded_def emits emit_text_append bind_assoc)

lemma out_string_emit: "out_string out p limited precision buffer idx maxlen =
    do { s \<leftarrow> string_chars p limited precision; emit out s buffer idx maxlen }"
proof (induction p arbitrary: precision buffer idx)
  case (Cons c p)
  then show ?case
    by (cases "string_chars p limited (if limited then precision - 1 else precision)") simp_all
qed simp

lemma string_conversion_emit: "string_conversion out buffer idx maxlen d va =
    do { (s, va) \<leftarrow> string_text d va; (b, i) \<leftarrow> emit out s buffer idx maxlen; Some (b, i, va) }"
proof (cases "va_pointer va")
  case (Some r)
  obtain address p va' where r: "r = ((address, p), va')" by (metis prod.exhaust)
  let ?limited = "has (d_flags d) FLAGS_PRECISION" and ?n = "strnlen_s p (if d_precision d \<noteq> 0 then d_precision d else - 1)"
  show ?thesis
  proof (cases "?n = None \<or> string_chars p ?limited (d_precision d) = None")
    case True
    then show ?thesis
      by (auto simp: Some r string_conversion_def string_text_def out_string_emit Let_def split_def
          simp del: has_flag)
  next
    case False
    then obtain n s where n: "?n = Some n" and s: "string_chars p ?limited (d_precision d) = Some s"
      by auto
    have out: "out_string out p ?limited (d_precision d) b i maxlen = emit out s b i maxlen" for b i
      by (simp add: out_string_emit s del: has_flag)
    show ?thesis
      by (simp add: Some r string_conversion_def string_text_def n s out padded_emit Let_def
          del: has_flag split del: if_split)
  qed
qed (simp add: string_conversion_def string_text_def)

lemma pointer_conversion_emit: "pointer_conversion out buffer idx maxlen d va =
    do { ((address, p), va) \<leftarrow> va_pointer va;
         (b, i) \<leftarrow> emit out (ntoa_text address False 16 (d_precision d) 8
                (d_flags d OR (FLAGS_ZEROPAD OR FLAGS_UPPERCASE))) buffer idx maxlen;
         Some (b, i, va) }"
  by (simp add: pointer_conversion_def emits)

lemma conversion_emit: "conversion ff out buffer idx maxlen c d va =
    do { (s, va) \<leftarrow> conversion_text ff c d va; (b, i) \<leftarrow> emit out s buffer idx maxlen; Some (b, i, va) }"
  by (simp add: conversion_def conversion_text_def int_conversion_emit double_conversion_emit
      char_conversion_emit string_conversion_emit pointer_conversion_emit bind_assoc split_def)

subsection \<open>The text of a format\<close>

function format_text :: "'d soft_float \<Rightarrow> cstring \<Rightarrow> 'd va_list \<Rightarrow> string option" where
  "format_text ff fmt va =
     (case fmt of
        [] \<Rightarrow> None
      | c # rest \<Rightarrow>
          if c = NUL then Some []
          else if c \<noteq> CHR ''%''
          then do { s \<leftarrow> format_text ff rest va; Some (c # s) }
          else do {
            (fmt, d, va) \<leftarrow> parse_directive rest va;
            (case fmt of
               [] \<Rightarrow> None
             | c # rest \<Rightarrow> do {
                 (s, va) \<leftarrow> conversion_text ff c d va;
                 t \<leftarrow> format_text ff rest va;
                 Some (s @ t)
               })
          })"
  by pat_completeness auto
termination
  by (relation "measure (\<lambda>(ff, fmt, va). length fmt)") (auto dest!: parse_directive_shorter)

declare format_text.simps [simp del]

lemma directive_emit:
  assumes "\<And>s va' b i. conversion_text ff c d va = Some (s, va') \<Longrightarrow>
    format_loop ff out b i maxlen rest va' =
      do { t \<leftarrow> format_text ff rest va'; emit out t b i maxlen }"
  shows "do { (b, i, va) \<leftarrow> conversion ff out buffer idx maxlen c d va;
              format_loop ff out b i maxlen rest va }
    = do { s \<leftarrow> do { (s, va) \<leftarrow> conversion_text ff c d va; t \<leftarrow> format_text ff rest va; Some (s @ t) };
           emit out s buffer idx maxlen }"
proof (cases "conversion_text ff c d va")
  case (Some q)
  obtain s va' where q: "q = (s, va')" by (cases q)
  with Some assms [of s va'] show ?thesis
    by (cases "format_text ff rest va'")
      (simp_all add: conversion_emit emit_text_append bind_assoc split_def)
qed (simp add: conversion_emit)

lemma format_loop_emit: "format_loop ff out buffer idx maxlen fmt va =
    do { s \<leftarrow> format_text ff fmt va; emit out s buffer idx maxlen }"
proof (induction ff fmt va arbitrary: buffer idx rule: format_text.induct)
  case (1 ff fmt va)
  show ?case
  proof (cases fmt)
    case fmt: (Cons c rest)
    note unfold = format_loop.simps [of ff out buffer idx maxlen "c # rest" va]
      format_text.simps [of ff "c # rest" va]
    consider "c = NUL" | "c \<noteq> NUL" "c \<noteq> CHR ''%''" | "c = CHR ''%''" by auto
    then show ?thesis
    proof cases
      case nul: 1
      then show ?thesis by (simp add: unfold [unfolded nul] fmt)
    next
      case 2
      with 1(1) [OF fmt] show ?thesis
        by (cases "format_text ff rest va") (simp_all add: unfold fmt)
    next
      case percent: 3
      show ?thesis
      proof (cases "parse_directive rest va")
        case (Some r)
        obtain fmt' d va' where r: "r = (fmt', d, va')" by (cases r)
        show ?thesis
        proof (cases fmt')
          case (Cons c' rest')
          have "format_loop ff out b i maxlen rest' va'' =
              do { t \<leftarrow> format_text ff rest' va''; emit out t b i maxlen }"
            if "conversion_text ff c' d va' = Some (s, va'')" for s va'' b i
            using 1(2) [OF fmt] percent Some r Cons that by simp
          then have "do { (b, i, va) \<leftarrow> conversion ff out buffer idx maxlen c' d va';
                  format_loop ff out b i maxlen rest' va }
              = do { s \<leftarrow> do { (s, va) \<leftarrow> conversion_text ff c' d va';
                             t \<leftarrow> format_text ff rest' va; Some (s @ t) };
                     emit out s buffer idx maxlen }"
            by (rule directive_emit)
          then show ?thesis by (simp add: unfold [unfolded percent] fmt percent Some r Cons)
        qed (simp add: unfold [unfolded percent] fmt percent Some r)
      qed (simp add: unfold [unfolded percent] fmt percent)
    qed
  qed (simp add: format_loop.simps [of _ _ _ _ _ "[]"] format_text.simps [of _ "[]"])
qed

subsection \<open>The text in a buffer\<close>

lemma overwrite_Cons:
  "i < length b \<Longrightarrow> overwrite (b[i := c]) (Suc i) ys = overwrite b i (c # ys)"
  by (simp add: overwrite_def take_Suc_conv_app_nth Suc_diff_Suc take_Cons' drop_update_cancel)

lemma overwrite_beyond: "length b \<le> i \<Longrightarrow> overwrite b i ys = b"
  by (simp add: overwrite_def)

text \<open>Characters at and beyond \<^verbatim>\<open>maxlen\<close> are dropped, the others replace those of the
  buffer.\<close>

lemma emit_buffer:
  assumes "unat maxlen \<le> length b" "unat idx + length s < 2 ^ 32"
  shows "emit out_buffer s b idx maxlen =
    Some (overwrite b (unat idx) (take (unat maxlen - unat idx) s), idx + of_nat (length s))"
  using assms
proof (induction s arbitrary: b idx)
  case (Cons c s)
  have step: "unat (1 + idx) = Suc (unat idx)"
    using Cons.prems(2) by (simp add: unat_word_ariths)
  have "emit out_buffer s b' (idx + 1) maxlen =
      Some (overwrite b' (Suc (unat idx)) (take (unat maxlen - Suc (unat idx)) s),
            idx + of_nat (length (c # s)))" if "length b' = length b" for b'
    using Cons.IH [of b' "idx + 1"] Cons.prems that by (simp add: step algebra_simps)
  moreover have "unat maxlen - unat idx = Suc (unat maxlen - Suc (unat idx))" if "idx < maxlen"
    using that by (simp add: word_less_nat_alt)
  moreover have "out_buffer c b idx maxlen = Some (if idx < maxlen then b[unat idx := c] else b)"
    using Cons.prems(1) by (simp add: out_buffer_def word_less_nat_alt)
  ultimately show ?case
    using Cons.prems(1) by (simp add: word_less_nat_alt overwrite_Cons not_less)
qed simp

lemma emit_null: "emit out_null s b idx maxlen = Some (b, idx + of_nat (length s))"
  by (induction s arbitrary: idx) (simp_all add: out_null_def algebra_simps)

text \<open>An output of single characters gets those that are not NUL.\<close>

fun put_all :: "(char \<Rightarrow> 'b \<Rightarrow> 'b option) \<Rightarrow> string \<Rightarrow> 'b \<Rightarrow> 'b option" where
  "put_all put [] world = Some world"
| "put_all put (c # s) world = do { world \<leftarrow> put c world; put_all put s world }"

lemma emit_char: "emit (out_char put) s world idx maxlen =
    do { world \<leftarrow> put_all put (filter (\<lambda>c. c \<noteq> NUL) s) world; Some (world, idx + of_nat (length s)) }"
  by (induction s arbitrary: world idx) (simp_all add: out_char_def algebra_simps)

lemma out_fct_char: "out_fct \<lparr>fct = f, arg = a\<rparr> = out_char (\<lambda>c. f c a)"
  by (simp add: fun_eq_iff out_fct_def out_char_def)

subsection \<open>The number and the field of an integer conversion\<close>

text \<open>With the flags as the code adjusts them.\<close>

definition int_value :: "char \<Rightarrow> ulong \<Rightarrow> 'd va_list \<Rightarrow> (int \<times> 'd va_list) option" where
  "int_value c flags va =
     (let signed = (c = CHR ''i'' \<or> c = CHR ''d'')
      in if has flags FLAGS_LONG_LONG
         then do { (w, va) \<leftarrow> va_long_long va; Some (if signed then sint w else uint w, va) }
         else do {
           (w, va) \<leftarrow> va_word va;
           Some (if signed
                 then if has flags FLAGS_LONG then sint w else signed_arg flags w
                 else uint (if has flags FLAGS_LONG then w else unsigned_arg flags w), va)
         })"

definition c_integer :: "char \<Rightarrow> directive \<Rightarrow> int \<Rightarrow> string" where
  "c_integer c d z =
     (let flags = int_flags c (d_flags d)
      in c_integer_field (sign_text (z < 0) flags) (c_digits (unat (int_base c)) flags (nat \<bar>z\<bar>))
           (unat (d_precision d)) (unat (d_width d))
           (has flags FLAGS_LEFT) (has flags FLAGS_ZEROPAD))"

text \<open>Within the limits of the code, and without the prefix of the flag \<open>#\<close>.\<close>

definition printable :: "char \<Rightarrow> directive \<Rightarrow> int \<Rightarrow> bool" where
  "printable c d z \<longleftrightarrow>
     (let flags = int_flags c (d_flags d)
      in (has flags FLAGS_HASH \<longrightarrow> z = 0)
         \<and> (\<not> has flags FLAGS_PRECISION \<longrightarrow> d_precision d = 0)
         \<and> fits_buffer (length (c_digits (unat (int_base c)) flags (nat \<bar>z\<bar>)))
              (d_precision d) (d_width d) flags)"

lemma numeral_less: "2 \<le> base \<Longrightarrow> n < base ^ length (numeral_text base upper n)"
proof (induction base upper n rule: numeral_text.induct)
  case (1 base upper n)
  show ?case
  proof (cases "n < base")
    case False
    then have "n div base < base ^ length (numeral_text base upper (n div base))"
      using 1 by simp
    then have "n div base + 1 \<le> base ^ length (numeral_text base upper (n div base))" by simp
    then have "base * (n div base + 1) \<le> base ^ Suc (length (numeral_text base upper (n div base)))"
      by (metis mult_le_mono2 power_Suc)
    moreover have "n < base * (n div base + 1)"
      using 1(2) by (simp add: dividend_less_times_div)
    ultimately show ?thesis using False 1(2) by (subst numeral_text.simps) simp
  qed (subst numeral_text.simps, simp)
qed

lemma digits_less:
  assumes "2 \<le> base" "length (c_digits base flags n) < PRINTF_NTOA_BUFFER_SIZE"
  shows "n < base ^ PRINTF_NTOA_BUFFER_SIZE"
proof (cases "n = 0")
  case False
  then have "n < base ^ length (c_digits base flags n)"
    using assms(1) by (simp add: c_digits_def numeral_less)
  also have "\<dots> \<le> base ^ PRINTF_NTOA_BUFFER_SIZE"
    using assms by (intro power_increasing) simp_all
  finally show ?thesis .
qed (use assms in simp)

lemma int_base_range: "unat (int_base c) \<in> {2, 8, 10, 16}"
  by (simp add: int_base_def)

lemma printable_text:
  assumes "printable c d z" and "unat v = nat \<bar>z\<bar>" and "unat base = unat (int_base c)"
  shows "ntoa_text v (z < 0) base (d_precision d) (d_width d) (int_flags c (d_flags d)) =
    c_integer c d z"
proof -
  define flags where "flags = int_flags c (d_flags d)"
  have "precision_flags (d_precision d) flags"
    using assms(1) by (auto simp: printable_def precision_flags_def flags_def int_flags_def Let_def)
  moreover have "fits_buffer (length (c_digits (unat base) flags (unat v))) (d_precision d) (d_width d) flags"
    "has flags FLAGS_HASH \<Longrightarrow> v = 0"
    using assms by (auto simp: printable_def flags_def Let_def unat_eq_zero)
  moreover have "2 \<le> unat base" "unat base \<le> 16"
    using int_base_range [of c] assms(3) by auto
  moreover from this calculation(2) have "unat v < unat base ^ PRINTF_NTOA_BUFFER_SIZE"
    by (auto simp: fits_buffer_def intro!: digits_less [of _ flags])
  ultimately show ?thesis
    by (subst ntoa_text_field) (auto simp: c_integer_def flags_def assms(2,3) Let_def)
qed

lemma magnitude_32: "- (2 ^ 31) \<le> z \<Longrightarrow> z < 2 ^ 31 \<Longrightarrow> unat (magnitude z :: 32 word) = nat \<bar>z\<bar>"
  by (auto simp: magnitude_def unat_eq_nat_uint uint_word_of_int)

lemma magnitude_64: "- (2 ^ 63) \<le> z \<Longrightarrow> z < 2 ^ 63 \<Longrightarrow> unat (magnitude z :: 64 word) = nat \<bar>z\<bar>"
  by (auto simp: magnitude_def unat_eq_nat_uint uint_word_of_int)

lemma sint_32: "- (2 ^ 31) \<le> sint (w :: 32 word)" "sint (w :: 32 word) < 2 ^ 31"
  using sint_greater_eq [of w] sint_less [of w] by simp_all

lemma sint_64: "- (2 ^ 63) \<le> sint (w :: 64 word)" "sint (w :: 64 word) < 2 ^ 63"
  using sint_greater_eq [of w] sint_less [of w] by simp_all

lemma signed_arg_32: "- (2 ^ 31) \<le> signed_arg flags w \<and> signed_arg flags w < 2 ^ 31"
proof -
  have "uint (ucast w :: 8 word) < 2 ^ 31"
    using uint_lt2p [of "ucast w :: 8 word"] by simp
  moreover have "- (2 ^ 31) \<le> uint (ucast w :: 8 word)"
    by (rule order_trans [of _ 0]) simp_all
  moreover have "- (2 ^ 31) \<le> sint (ucast w :: 16 word)" "sint (ucast w :: 16 word) < 2 ^ 31"
    using sint_greater_eq [of "ucast w :: 16 word"] sint_less [of "ucast w :: 16 word"] by simp_all
  ultimately show ?thesis using sint_32 [of w] by (auto simp: signed_arg_def)
qed

lemma nat_abs_uint [simp]: "nat \<bar>uint w\<bar> = unat w"
  by simp

lemma int_text_c:
  assumes "int_value c (int_flags c (d_flags d)) va = Some (z, va')" and "printable c d z"
  shows "int_text c d va = Some (c_integer c d z, va')"
proof -
  define flags where "flags = int_flags c (d_flags d)"
  define signed where "signed = (c = CHR ''i'' \<or> c = CHR ''d'')"
  have base: "unat (ucast (int_base c) :: 64 word) = unat (int_base c)"
    by (simp add: int_base_def)
  show ?thesis
  proof (cases "has flags FLAGS_LONG_LONG")
    case True
    with assms(1) obtain w where w: "va_long_long va = Some (w, va')"
      and z: "z = (if signed then sint w else uint w)"
      by (auto simp: int_value_def bind_eq_Some_conv Let_def simp flip: flags_def signed_def)
    define v where "v = (if signed then magnitude (sint w) else w)"
    have "unat v = nat \<bar>z\<bar>" by (simp add: v_def z magnitude_64 [OF sint_64])
    from printable_text [OF assms(2) this base] True show ?thesis
      by (simp add: int_text_def w z v_def flags_def [symmetric] signed_def [symmetric] split: if_splits)
  next
    case False
    define s where "s = (\<lambda>w. if has flags FLAGS_LONG then sint w else signed_arg flags w)"
    define u where "u = (\<lambda>w. if has flags FLAGS_LONG then w else unsigned_arg flags w)"
    from False assms(1) obtain w where w: "va_word va = Some (w, va')"
      and z: "z = (if signed then s w else uint (u w))"
      by (auto simp: int_value_def bind_eq_Some_conv Let_def s_def u_def simp flip: flags_def signed_def)
    define v :: "32 word" where "v = (if signed then magnitude (s w) else u w)"
    have "- (2 ^ 31) \<le> s w" "s w < 2 ^ 31"
      using signed_arg_32 [of flags w] sint_32 [of w] by (simp_all add: s_def)
    then have "unat v = nat \<bar>z\<bar>" by (simp add: v_def z magnitude_32)
    from printable_text [OF assms(2) this refl] False show ?thesis
      by (simp add: int_text_def w z v_def s_def u_def flags_def [symmetric] signed_def [symmetric]
          Let_def split: if_splits)
  qed
qed

subsection \<open>The contract of an output function\<close>

text \<open>
  What \<^verbatim>\<open>_vsnprintf\<close> needs of an output function to be defined: in the states \<open>ok\<close> it takes
  every character at every index and stays in them. Then the text alone decides whether the
  call is defined and what it returns. A buffer of at least \<^verbatim>\<open>maxlen\<close> characters and the
  null output keep this contract.
\<close>

locale output_function =
  fixes out :: "'b out_fct" and ok :: "ulong \<Rightarrow> 'b \<Rightarrow> bool"
  assumes accepts: "ok maxlen b \<Longrightarrow> \<exists>b'. out c b idx maxlen = Some b' \<and> ok maxlen b'"
begin

lemma emit_accepts: "ok maxlen b \<Longrightarrow>
    \<exists>b'. emit out s b idx maxlen = Some (b', idx + of_nat (length s)) \<and> ok maxlen b'"
proof (induction s arbitrary: b idx)
  case (Cons c s)
  obtain b1 where b1: "out c b idx maxlen = Some b1" "ok maxlen b1"
    using accepts [OF Cons.prems] by blast
  from Cons.IH [OF b1(2), of "idx + 1"] b1(1) show ?case by (auto simp: algebra_simps)
qed simp

lemma run_accepts:
  assumes "ok maxlen b" "format_text ff fmt va = Some s"
  shows "\<exists>b'. vsnprintf_run ff out b maxlen fmt va = Some (b', sint (of_nat (length s) :: ulong))
    \<and> ok maxlen b'"
proof -
  obtain b1 where b1: "emit out s b 0 maxlen = Some (b1, of_nat (length s))" "ok maxlen b1"
    using emit_accepts [OF assms(1), of s 0] by auto
  obtain b2 where b2: "out NUL b1 (if of_nat (length s) < maxlen then of_nat (length s)
      else maxlen - 1) maxlen = Some b2" "ok maxlen b2"
    using accepts [OF b1(2)] by blast
  show ?thesis by (simp add: vsnprintf_run_def format_loop_emit assms(2) b1(1) b2)
qed

lemma run_defined:
  "ok maxlen b \<Longrightarrow> vsnprintf_run ff out b maxlen fmt va = None \<longleftrightarrow> format_text ff fmt va = None"
  using run_accepts [of maxlen b ff fmt va]
  by (cases "format_text ff fmt va") (auto simp: vsnprintf_run_def format_loop_emit)

end

interpretation into_buffer: output_function out_buffer "\<lambda>maxlen b. unat maxlen \<le> length b"
  by unfold_locales (auto simp: out_buffer_def word_less_nat_alt)

interpretation into_nothing: output_function out_null "\<lambda>maxlen b. True"
  by unfold_locales (simp add: out_null_def)

end
