(* ===== verification/PF_Examples.thy ===== *)
theory PF_Examples
  imports PF_Text
begin

text \<open>
  A small arithmetic in which the hypotheses of the properties of the formatted output are
  met: fixed point numbers with six decimals, and formats with their arguments.
\<close>

definition fixed_literal :: "int \<Rightarrow> int \<Rightarrow> int" where
  "fixed_literal m e = (if 0 \<le> e + 6 then m * 10 ^ nat (e + 6) else m div 10 ^ nat (- e - 6))"

definition fixed_point :: "int soft_float" where
  "fixed_point =
     \<lparr>dlt = (<), dle = (\<le>), deq = (=), dadd = (+), dsub = (-),
      dmul = (\<lambda>a b. a * b div 1000000), ddiv = (\<lambda>a b. a * 1000000 div b), dneg = uminus,
      of_integer = (\<lambda>n. n * 1000000),
      to_int = (\<lambda>a. let n = c_div a 1000000
                    in if - (2 ^ 31) \<le> n \<and> n < 2 ^ 31 then Some n else None),
      to_ulong = (\<lambda>a. let n = c_div a 1000000
                      in if 0 \<le> n \<and> n < 2 ^ 32 then Some (word_of_int n) else None),
      bits_of = word_of_int, of_bits = uint,
      literal = fixed_literal, DBL_MAX = 10 ^ 20\<rparr>"

definition cstring :: "string \<Rightarrow> cstring" where
  "cstring s = s @ [NUL]"

end
