(* ===== verification/PF_Standard.thy ===== *)
theory PF_Standard
  imports PF_Examples
begin

text \<open>
  What the C standard asks of the integer conversions, stated on the directive as it is
  written, without the functions of the code: the value an argument is converted to, the sign,
  the digits and the field. The code prints the same within its limits, which are spelled out
  in \<open>within_limits\<close>.
\<close>

unbundle bit_operations_syntax

definition c_signed :: "char \<Rightarrow> bool" where
  "c_signed c \<longleftrightarrow> c \<in> {CHR ''d'', CHR ''i''}"

definition c_base :: "char \<Rightarrow> nat" where
  "c_base c =
     (if c = CHR ''b'' then 2 else if c = CHR ''o'' then 8
      else if c \<in> {CHR ''x'', CHR ''X''} then 16 else 10)"

text \<open>The argument is converted to the type the length modifier names, with the signedness of
  the conversion.\<close>

definition read_as :: "bool \<Rightarrow> 'a :: len word \<Rightarrow> int" where
  "read_as with_sign w = (if with_sign then sint w else uint w)"

definition c_value :: "char \<Rightarrow> ulong \<Rightarrow> 'd va_list \<Rightarrow> (int \<times> 'd va_list) option" where
  "c_value c flags va =
     (if has flags FLAGS_LONG_LONG
      then do { (w, va) \<leftarrow> va_long_long va; Some (read_as (c_signed c) w, va) }
      else do {
        (w, va) \<leftarrow> va_word va;
        Some (if has flags FLAGS_LONG then read_as (c_signed c) w
              else if has flags FLAGS_CHAR then read_as (c_signed c) (ucast w :: 8 word)
              else if has flags FLAGS_SHORT then read_as (c_signed c) (ucast w :: 16 word)
              else read_as (c_signed c) w, va)
      })"

definition c_sign :: "char \<Rightarrow> ulong \<Rightarrow> int \<Rightarrow> string" where
  "c_sign c flags z =
     (if \<not> c_signed c then ''''
      else if z < 0 then ''-''
      else if has flags FLAGS_PLUS then ''+''
      else if has flags FLAGS_SPACE then '' ''
      else '''')"

text \<open>No digits for 0 with a precision of 0, which the field fills up to any other precision.\<close>

definition c_numeral :: "char \<Rightarrow> ulong \<Rightarrow> int \<Rightarrow> string" where
  "c_numeral c flags z =
     (if has flags FLAGS_PRECISION \<and> z = 0 then ''''
      else numeral_text (c_base c) (c = CHR ''X'') (nat \<bar>z\<bar>))"

definition c_conversion :: "char \<Rightarrow> directive \<Rightarrow> int \<Rightarrow> string" where
  "c_conversion c d z =
     (let flags = d_flags d
      in c_integer_field (c_sign c flags z) (c_numeral c flags z)
           (if has flags FLAGS_PRECISION then unat (d_precision d) else 1) (unat (d_width d))
           (has flags FLAGS_LEFT) (has flags FLAGS_ZEROPAD \<and> \<not> has flags FLAGS_PRECISION))"

text \<open>The limits of the code: no prefix asked for; no \<^verbatim>\<open>%hhd\<close> of a negative value; digits,
  precision and a width of zeros within the buffer; a precision with the flag \<open>-\<close> only where
  the digits reach it. The last two hold of every directive that is read from a format.\<close>

definition within_limits :: "char \<Rightarrow> directive \<Rightarrow> int \<Rightarrow> bool" where
  "within_limits c d z \<longleftrightarrow>
     (let flags = d_flags d; n = length (c_numeral c flags z)
      in (has flags FLAGS_HASH \<and> c \<in> {CHR ''x'', CHR ''X'', CHR ''o'', CHR ''b''} \<longrightarrow> z = 0)
         \<and> (c_signed c \<and> has flags FLAGS_CHAR \<longrightarrow> 0 \<le> z)
         \<and> n < 32 \<and> unat (d_precision d) < 32
         \<and> (has flags FLAGS_LEFT \<longrightarrow> unat (d_precision d) \<le> n)
         \<and> (has flags FLAGS_ZEROPAD \<and> \<not> has flags FLAGS_PRECISION \<and> \<not> has flags FLAGS_LEFT
              \<longrightarrow> unat (d_width d) < 32)
         \<and> (\<not> has flags FLAGS_PRECISION \<longrightarrow> d_precision d = 0)
         \<and> \<not> has flags FLAGS_UPPERCASE)"

text \<open>The digits of \<open>numeral_text\<close> are the usual ones.\<close>

lemma digit_char_table:
  "n < 16 \<Longrightarrow> digit_char n upper =
     (if upper then ''0123456789ABCDEF'' else ''0123456789abcdef'') ! n"
proof -
  have "list_all (\<lambda>n. \<forall>upper \<in> {True, False}. digit_char n upper =
      (if upper then ''0123456789ABCDEF'' else ''0123456789abcdef'') ! n) [0..<16]"
    by code_simp
  then show "n < 16 \<Longrightarrow> ?thesis" by (cases upper) (simp_all add: list_all_iff)
qed

subsection \<open>The code within its limits\<close>

lemma int_base_c: "unat (int_base c) = c_base c"
  by (auto simp: int_base_def c_base_def)

lemma bit_clear_two:
  "bit (f AND NOT a AND NOT b :: ulong) n \<longleftrightarrow> bit f n \<and> \<not> bit a n \<and> \<not> bit b n"
  by (auto simp: bit_and_iff bit_not_iff dest: bit_imp_le_length)

lemma int_flags_kept:
  "has (int_flags c f) FLAGS_LEFT = has f FLAGS_LEFT"
  "has (int_flags c f) FLAGS_PRECISION = has f FLAGS_PRECISION"
  "has (int_flags c f) FLAGS_CHAR = has f FLAGS_CHAR"
  "has (int_flags c f) FLAGS_SHORT = has f FLAGS_SHORT"
  "has (int_flags c f) FLAGS_LONG = has f FLAGS_LONG"
  "has (int_flags c f) FLAGS_LONG_LONG = has f FLAGS_LONG_LONG"
  by (simp_all add: int_flags_def bit_clear_two Let_def)

lemma int_flags_cut:
  "has (int_flags c f) FLAGS_ZEROPAD = (has f FLAGS_ZEROPAD \<and> \<not> has f FLAGS_PRECISION)"
  "has (int_flags c f) FLAGS_PLUS = (has f FLAGS_PLUS \<and> c_signed c)"
  "has (int_flags c f) FLAGS_SPACE = (has f FLAGS_SPACE \<and> c_signed c)"
  "has (int_flags c f) FLAGS_UPPERCASE = (has f FLAGS_UPPERCASE \<or> c = CHR ''X'')"
  "has (int_flags c f) FLAGS_HASH =
     (has f FLAGS_HASH \<and> c \<in> {CHR ''x'', CHR ''X'', CHR ''o'', CHR ''b''})"
  by (auto simp: int_flags_def c_signed_def bit_clear_two Let_def)

lemma c_digits_numeral:
  "\<not> has f FLAGS_UPPERCASE \<Longrightarrow> c_digits (c_base c) (int_flags c f) (nat \<bar>z\<bar>) = c_numeral c f z"
  by (simp add: c_digits_def c_numeral_def int_flags_kept int_flags_cut del: has_flag)

lemma limits_printable: "within_limits c d z \<Longrightarrow> printable c d z"
  by (simp add: within_limits_def printable_def fits_buffer_def int_base_c c_digits_numeral
      int_flags_kept int_flags_cut PRINTF_NTOA_BUFFER_SIZE_def Let_def del: has_flag)

lemma numeral_text_nonempty: "numeral_text base upper n \<noteq> []"
  by (subst numeral_text.simps) simp

lemma limits_text:
  assumes "within_limits c d z" and "\<not> c_signed c \<Longrightarrow> 0 \<le> z"
  shows "c_integer c d z = c_conversion c d z"
proof -
  have "sign_text (z < 0) (int_flags c (d_flags d)) = c_sign c (d_flags d) z"
    using assms(2) by (cases "c_signed c") (simp_all add: sign_text_def c_sign_def int_flags_cut del: has_flag)
  moreover have "c_integer_field p s 0 w l b = c_integer_field p s 1 w l b" if "s \<noteq> []" for p s w l b
    using that by (cases s) (simp_all add: c_integer_field_def)
  ultimately show ?thesis
    using assms(1)
    by (auto simp: c_integer_def c_conversion_def within_limits_def int_base_c c_digits_numeral
        int_flags_kept int_flags_cut Let_def c_numeral_def numeral_text_nonempty simp del: has_flag)
qed

lemma unsigned_nonneg: "c_value c f va = Some (z, va') \<Longrightarrow> \<not> c_signed c \<Longrightarrow> 0 \<le> z"
  by (auto simp: c_value_def read_as_def bind_eq_Some_conv split: if_splits)

lemma char_nonneg: "0 \<le> sint (w :: 8 word) \<Longrightarrow> sint w = uint w"
  using sint_less [of w] by (simp add: uint_sint take_bit_int_eq_self)

lemma uint_widened:
  "uint (ucast (w :: 8 word) :: ulong) = uint w" "uint (ucast (v :: 16 word) :: ulong) = uint v"
  by (simp_all add: uint_up_ucast is_up)

lemma limits_value:
  assumes "c_value c (d_flags d) va = Some (z, va')" and "within_limits c d z"
  shows "int_value c (int_flags c (d_flags d)) va = Some (z, va')"
proof -
  have signed: "(c = CHR ''i'' \<or> c = CHR ''d'') = c_signed c" by (auto simp: c_signed_def)
  note defs = c_value_def int_value_def int_flags_kept read_as_def signed Let_def
  show ?thesis
  proof (cases "has (d_flags d) FLAGS_LONG_LONG")
    case True
    with assms(1) show ?thesis by (simp add: defs del: has_flag)
  next
    case False
    with assms(1) obtain w where w: "va_word va = Some (w, va')"
      and z: "z = (if has (d_flags d) FLAGS_LONG then read_as (c_signed c) w
              else if has (d_flags d) FLAGS_CHAR then read_as (c_signed c) (ucast w :: 8 word)
              else if has (d_flags d) FLAGS_SHORT then read_as (c_signed c) (ucast w :: 16 word)
              else read_as (c_signed c) w)"
      by (auto simp: c_value_def bind_eq_Some_conv simp del: has_flag)
    have "c_signed c \<Longrightarrow> has (d_flags d) FLAGS_CHAR \<Longrightarrow> 0 \<le> z"
      using assms(2) by (simp add: within_limits_def Let_def del: has_flag)
    with False w z show ?thesis
      by (simp add: defs signed_arg_def unsigned_arg_def char_nonneg uint_widened del: has_flag split: if_splits)
  qed
qed

theorem integer_conversion_standard:
  assumes "c_value c (d_flags d) va = Some (z, va')" and "within_limits c d z"
  shows "int_text c d va = Some (c_conversion c d z, va')"
  using int_text_c [OF limits_value [OF assms] limits_printable [OF assms(2)]]
    limits_text [OF assms(2) unsigned_nonneg [OF assms(1)]] by simp

end
