(* ===== verification/PF_Properties.thy ===== *)
theory PF_Properties
  imports PF_Standard
begin

text \<open>
  Properties of the formatted output: what \<^verbatim>\<open>snprintf\<close> leaves in a buffer, what it returns,
  which text the conversions give, and where the code departs from the C standard or reads
  outside its arrays.
\<close>

unbundle bit_operations_syntax

section \<open>Buffers\<close>

lemma sint_length: "n < 2 ^ 31 \<Longrightarrow> sint (of_nat n :: ulong) = int n"
  by (subst signed_of_nat) (simp add: signed_take_bit_int_eq_self)

lemma overwrite_0: "length ys \<le> length b \<Longrightarrow> overwrite b 0 ys = ys @ drop (length ys) b"
  by (simp add: overwrite_def)

text \<open>The terminator ends the text or replaces the last character that fits.\<close>

lemma terminate_buffer:
  assumes "0 < m" "m \<le> length b"
  shows "(overwrite b 0 (take m s)) [min (length s) (m - 1) := c] =
    overwrite b 0 (take (m - 1) s @ [c])"
proof (cases "length s < m")
  case True
  then have "drop (length s) b = b ! length s # drop (Suc (length s)) b"
    using assms by (simp add: Cons_nth_drop_Suc)
  moreover have "min (length s) (m - 1) = length s" using True by simp
  ultimately show ?thesis
    using True assms by (simp add: overwrite_0 list_update_append)
next
  case False
  then obtain t where "take m s = take (m - 1) s @ [t]"
    using assms by (metis Suc_pred' hd_drop_conv_nth le_less_trans lessI not_less take_hd_drop)
  moreover have "min (length s) (m - 1) = m - 1" using False by simp
  ultimately show ?thesis
    using False assms by (simp add: overwrite_0 list_update_append)
qed

lemma run_buffer:
  assumes "unat maxlen \<le> length b" "format_text ff fmt va = Some s" "length s < 2 ^ 31"
  shows "vsnprintf_run ff out_buffer b maxlen fmt va =
    Some (if maxlen = 0 then b else overwrite b 0 (take (unat maxlen - 1) s @ [NUL]), int (length s))"
proof -
  let ?n = "of_nat (length s) :: ulong" and ?b = "overwrite b 0 (take (unat maxlen) s)"
  have len: "unat ?n = length s"
    using assms(3) by (simp add: unat_of_nat)
  have "emit out_buffer s b 0 maxlen = Some (?b, ?n)"
    using assms by (subst emit_buffer) simp_all
  then have run: "vsnprintf_run ff out_buffer b maxlen fmt va =
      do { b \<leftarrow> out_buffer NUL ?b (if ?n < maxlen then ?n else maxlen - 1) maxlen;
           Some (b, int (length s)) }"
    using assms(2,3) by (simp add: vsnprintf_run_def format_loop_emit sint_length)
  show ?thesis
  proof (cases "maxlen = 0")
    case False
    then have "0 < unat maxlen" by (simp add: unat_gt_0)
    then have "out_buffer NUL ?b (if ?n < maxlen then ?n else maxlen - 1) maxlen =
        Some (?b [min (length s) (unat maxlen - 1) := NUL])"
      using False assms(1) len by (auto simp: out_buffer_def word_less_nat_alt unat_pred min_def)
    with run False terminate_buffer [of "unat maxlen" b s NUL] \<open>0 < unat maxlen\<close> assms(1)
    show ?thesis by simp
  next
    case True
    with run show ?thesis by (simp add: out_buffer_def)
  qed
qed

text \<open>
  C34. \<^verbatim>\<open>snprintf\<close> with a buffer of at least \<^verbatim>\<open>count\<close> characters writes the text of the format
  cut at \<^verbatim>\<open>count - 1\<close> characters and a terminator, nothing else and nothing outside, and
  returns the length of the whole text; it is undefined exactly where the format and its
  arguments are.
\<close>

theorem snprintf_writes:
  assumes "0 < count" and "unat count \<le> length b"
    and "\<And>s. format_text ff fmt va = Some s \<Longrightarrow> length s < 2 ^ 31"
  shows "snprintf_c ff (Some b) count fmt va =
    map_option (\<lambda>s. (Some (overwrite b 0 (take (unat count - 1) s @ [NUL])), int (length s)))
      (format_text ff fmt va)"
proof (cases "format_text ff fmt va")
  case None
  with into_buffer.run_defined [of count b ff fmt va] assms(2) show ?thesis
    by (simp add: snprintf_c_def vsnprintf_internal_def)
next
  case (Some s)
  with run_buffer [OF assms(2) Some] assms(1,3) show ?thesis
    by (auto simp: snprintf_c_def vsnprintf_internal_def)
qed

text \<open>
  The length asked for with no buffer is the one to allocate: a second call with a
  buffer of one character more leaves the whole text and its terminator in it.
\<close>

theorem snprintf_measures:
  assumes "snprintf_c ff None 0 fmt va = Some (None, n)"
    and "\<And>s. format_text ff fmt va = Some s \<Longrightarrow> length s < 2 ^ 31 - 1"
    and "length b = nat (n + 1)"
  shows "\<exists>s. format_text ff fmt va = Some s \<and> n = int (length s) \<and>
    snprintf_c ff (Some b) (word_of_int (n + 1)) fmt va = Some (Some (s @ [NUL]), n)"
proof -
  obtain s where s: "format_text ff fmt va = Some s"
    using assms(1) into_nothing.run_defined [where maxlen = 0 and b = "()" and ff = ff and fmt = fmt and va = va]
    by (cases "format_text ff fmt va") (auto simp: snprintf_c_def vsnprintf_internal_def)
  then have n: "n = int (length s)"
    using assms(1,2) into_nothing.run_accepts [where maxlen = 0 and b = "()" and ff = ff and fmt = fmt and va = va and s = s]
    by (fastforce simp: snprintf_c_def vsnprintf_internal_def sint_length)
  have "unat (word_of_int (n + 1) :: ulong) = length s + 1"
    using assms(2) [OF s] by (simp add: n unat_word_ariths unat_of_nat)
  moreover from this have "(word_of_int (n + 1) :: ulong) \<noteq> 0" by auto
  ultimately have "snprintf_c ff (Some b) (word_of_int (n + 1)) fmt va = Some (Some (s @ [NUL]), n)"
    using run_buffer [of "word_of_int (n + 1)" b ff fmt va s] assms(2) [OF s] assms(3) s n
    by (simp add: snprintf_c_def vsnprintf_internal_def overwrite_0)
  with s n show ?thesis by blast
qed

lemma snprintf_writes_witness:
  "snprintf_c fixed_point (Some ''........'') 6 (cstring ''%d-%s'')
     [Word_Arg (- 12), Pointer_Arg 4096 (cstring ''abc'')] = Some (Some (''-12-a'' @ [NUL] @ ''..''), 7)"
proof -
  have "format_text fixed_point (cstring ''%d-%s'')
      [Word_Arg (- 12), Pointer_Arg 4096 (cstring ''abc'')] = Some ''-12-abc''"
    by code_simp
  then show ?thesis
    using snprintf_writes [of 6 "''........''" fixed_point "cstring ''%d-%s''"
      "[Word_Arg (- 12), Pointer_Arg 4096 (cstring ''abc'')]"] by (simp add: overwrite_def)
qed

lemma snprintf_measures_witness:
  "\<exists>s. format_text fixed_point (cstring ''%05d'') [Word_Arg 42] = Some s \<and> 5 = int (length s) \<and>
     snprintf_c fixed_point (Some ''......'') (word_of_int (5 + 1)) (cstring ''%05d'') [Word_Arg 42] =
       Some (Some (s @ [NUL]), 5)"
proof (rule snprintf_measures)
  show "snprintf_c fixed_point None 0 (cstring ''%05d'') [Word_Arg 42] = Some (None, 5)"
    by code_simp
  have "format_text fixed_point (cstring ''%05d'') [Word_Arg 42] = Some ''00042''"
    by code_simp
  then show "length s < 2 ^ 31 - 1"
    if "format_text fixed_point (cstring ''%05d'') [Word_Arg 42] = Some s" for s
    using that by auto
qed simp

lemma emit_buffer_open:
  assumes "length b \<le> unat maxlen" "unat idx \<le> length b" "unat idx + length s < unat maxlen"
  shows "emit out_buffer s b idx maxlen =
    (if unat idx + length s \<le> length b
     then Some (overwrite b (unat idx) s, idx + of_nat (length s)) else None)"
  using assms
proof (induction s arbitrary: b idx)
  case (Cons c s)
  have step: "unat (1 + idx) = Suc (unat idx)"
    using Cons.prems(3) ulong_less [of maxlen] by (simp add: unat_word_ariths)
  show ?case
  proof (cases "unat idx < length b")
    case True
    then have "out_buffer c b idx maxlen = Some (b[unat idx := c])"
      using Cons.prems by (simp add: out_buffer_def word_less_nat_alt)
    moreover have "emit out_buffer s (b[unat idx := c]) (idx + 1) maxlen =
        (if Suc (unat idx) + length s \<le> length b
         then Some (overwrite (b[unat idx := c]) (Suc (unat idx)) s, idx + of_nat (length (c # s)))
         else None)"
      using Cons.IH [of "b[unat idx := c]" "idx + 1"] Cons.prems True
      by (simp add: step algebra_simps)
    ultimately show ?thesis using True by (simp add: overwrite_Cons)
  next
    case False
    then show ?thesis using Cons.prems by (simp add: out_buffer_def word_less_nat_alt)
  qed
qed simp

text \<open>
  \<^verbatim>\<open>sprintf\<close> has no bound of its own: it is defined exactly when the text and its
  terminator fit the buffer, and otherwise writes behind it.
\<close>

theorem sprintf_trusts_buffer:
  assumes "length b < 2 ^ 32 - 1" and "\<And>s. format_text ff fmt va = Some s \<Longrightarrow> length s < 2 ^ 31"
  shows "sprintf_c ff (Some b) fmt va =
    do { s \<leftarrow> format_text ff fmt va;
         if length s < length b then Some (Some (overwrite b 0 (s @ [NUL])), int (length s)) else None }"
proof (cases "format_text ff fmt va")
  case (Some s)
  let ?n = "of_nat (length s) :: ulong"
  have len: "unat ?n = length s" "length s < 2 ^ 31"
    using assms(2) [OF Some] by (simp_all add: unat_of_nat)
  have max: "unat (- 1 :: ulong) = 2 ^ 32 - 1" by (simp add: unsigned_minus_1_eq_mask mask_eq_exp_minus_1)
  have "emit out_buffer s b 0 (- 1) =
      (if length s \<le> length b then Some (overwrite b 0 s, ?n) else None)"
    using emit_buffer_open [of b "- 1" 0 s] assms(1) len(2) by (simp add: max)
  moreover have "sint ?n = int (length s)" using len(2) by (rule sint_length)
  moreover have "?n < - 1"
    using len by (simp add: word_less_nat_alt max)
  moreover have "out_buffer NUL (overwrite b 0 s) ?n (- 1) =
      (if length s < length b then Some (overwrite b 0 (s @ [NUL])) else None)"
    if "length s \<le> length b"
    using that len assms(1)
    by (auto simp: out_buffer_def word_less_nat_alt max overwrite_0 list_update_append
        Cons_nth_drop_Suc [symmetric])
  ultimately show ?thesis
    by (auto simp: sprintf_c_def vsnprintf_internal_def vsnprintf_run_def format_loop_emit Some)
qed (simp add: sprintf_c_def vsnprintf_internal_def vsnprintf_run_def format_loop_emit)

lemma sprintf_trusts_buffer_witness:
  "sprintf_c fixed_point (Some ''xxxx'') (cstring ''%x'') [Word_Arg 0xABCD] = None \<and>
   sprintf_c fixed_point (Some ''xxxxx'') (cstring ''%x'') [Word_Arg 0xABCD] =
     Some (Some (''abcd'' @ [NUL]), 4)"
proof -
  have "format_text fixed_point (cstring ''%x'') [Word_Arg 0xABCD] = Some ''abcd''"
    by code_simp
  then show ?thesis
    using sprintf_trusts_buffer [of "''xxxx''" fixed_point "cstring ''%x''" "[Word_Arg 0xABCD]"]
      sprintf_trusts_buffer [of "''xxxxx''" fixed_point "cstring ''%x''" "[Word_Arg 0xABCD]"]
    by (simp add: overwrite_def)
qed

section \<open>Integers\<close>





text \<open>
  The buffer never holds more than its 32 characters, and of a number with more digits it
  holds the lowest 32: what it shows is the number modulo \<open>base ^ 32\<close>. That is the number
  itself for 32 bits, and for 64 bits in every base but 2.
\<close>

theorem digits_kept:
  assumes "2 \<le> unat base" and "unat base \<le> 16"
  shows "length (ntoa_digits v base flags []) \<le> PRINTF_NTOA_BUFFER_SIZE \<and>
    numeral_value (unat base) (rev (ntoa_digits v base flags [])) = unat v mod unat base ^ 32"
proof -
  let ?s = "numeral_text (unat base) (has flags FLAGS_UPPERCASE) (unat v)"
  have "rev (ntoa_digits v base flags []) = drop (length ?s - 32) ?s"
    using assms by (simp add: ntoa_digits_numeral PRINTF_NTOA_BUFFER_SIZE_def rev_take)
  moreover have "numeral_value (unat base) (drop (length ?s - 32) ?s) = unat v mod unat base ^ 32"
    using assms numeral_value_drop [of ?s "unat base" 32]
    by (simp add: numeral_digits numeral_round_trip)
  moreover have "length (ntoa_digits v base flags []) \<le> PRINTF_NTOA_BUFFER_SIZE"
    by (rule ntoa_digits_fits) (simp add: PRINTF_NTOA_BUFFER_SIZE_def)
  ultimately show ?thesis by simp
qed

lemma digits_kept_witness:
  "numeral_value 2 (rev (ntoa_digits (0x100000005 :: 64 word) 2 0 [])) = 5"
  using digits_kept [where base = "2 :: 64 word" and v = "0x100000005" and flags = 0] by simp

definition hex_prefix :: "ulong \<Rightarrow> string" where
  "hex_prefix flags = (if has flags FLAGS_UPPERCASE then ''0X'' else ''0x'')"

lemma hash_hex:
  assumes "length s < 30"
    and "\<not> has flags FLAGS_PRECISION"
  shows "ntoa_hash 16 0 width flags (rev s) =
    rev (hex_prefix flags @ (if s \<noteq> [] \<and> length s = unat width then drop 2 s else s))"
proof -
  have "(let b = butlast (rev s) in if b \<noteq> [] then butlast b else b) = rev (drop 2 s)" if "s \<noteq> []"
    using that by (auto simp: butlast_rev Let_def drop_Suc numeral_2_eq_2 tl_Nil)
  with assms show ?thesis
    by (auto simp: ntoa_hash_def hex_prefix_def PRINTF_NTOA_BUFFER_SIZE_def Let_def)
qed

text \<open>
  A hexadecimal number with the flag \<^verbatim>\<open>#\<close>, without a precision or zeros, has its prefix
  and is padded to its width, unless it has exactly as many digits as the width: then its
  first two digits are taken for padding and lost.
\<close>

theorem hash_takes_digits:
  fixes v width flags :: ulong
  assumes "v \<noteq> 0" and "has flags FLAGS_HASH"
    and "\<not> has flags (FLAGS_PRECISION OR FLAGS_ZEROPAD OR FLAGS_PLUS OR FLAGS_SPACE)"
  shows "ntoa_text v False 16 0 width flags =
    (let s = numeral_text 16 (has flags FLAGS_UPPERCASE) (unat v)
     in if length s = unat width then hex_prefix flags @ drop 2 s
        else c_integer_field (hex_prefix flags) s 0 (unat width) (has flags FLAGS_LEFT) False)"
proof -
  let ?s = "numeral_text 16 (has flags FLAGS_UPPERCASE) (unat v)"
  have s: "length ?s \<le> 8"
    by (rule numeral_length) (use ulong_less [of v] in simp_all)
  have start: "ntoa_start v 16 flags = (rev ?s, flags)"
    using assms ntoa_digits_all [of "16 :: ulong" v flags] ulong_less [of v]
    by (simp add: ntoa_start_def PRINTF_NTOA_BUFFER_SIZE_def Let_def)
  let ?t = "hex_prefix flags @ (if length ?s = unat width then drop 2 ?s else ?s)"
  have t: "length ?t < PRINTF_NTOA_BUFFER_SIZE" "length (hex_prefix flags) = 2"
    using s by (auto simp: hex_prefix_def PRINTF_NTOA_BUFFER_SIZE_def)
  have sign: "sign_text False flags = ''''"
    using assms(3) by (simp add: sign_text_def)
  have "ntoa_fill (rev ?s) False 16 0 width flags = (add_sign False flags (rev ?t), width)"
    using assms s hash_hex [of ?s flags width]
    by (simp add: ntoa_fill_def zeropad_width_def pad_zeros_eq Let_def)
  then have "ntoa_text v False 16 0 width flags =
      (let pad = replicate (unat width - length ?t) CHR '' ''
       in if has flags FLAGS_LEFT then ?t @ pad else pad @ ?t)"
    using assms(3) t field_signed [of "rev ?t" False flags width]
    by (simp add: ntoa_text_def start sign Let_def)
  then show ?thesis
    using t by (simp add: c_integer_field_def Let_def)
qed

lemma hash_takes_digits_witness:
  "ntoa_text (0x1234 :: ulong) False 16 0 4 FLAGS_HASH = ''0x34'' \<and>
   ntoa_text (0x1234 :: ulong) False 16 0 7 FLAGS_HASH = '' 0x1234''"
proof -
  have "ntoa_text (0x1234 :: ulong) False 16 0 width FLAGS_HASH =
    (let s = numeral_text 16 (has FLAGS_HASH FLAGS_UPPERCASE) (unat (0x1234 :: ulong))
     in if length s = unat width then hex_prefix FLAGS_HASH @ drop 2 s
        else c_integer_field (hex_prefix FLAGS_HASH) s 0 (unat width) (has FLAGS_HASH FLAGS_LEFT) False)"
    for width
    by (rule hash_takes_digits) simp_all
  moreover have "numeral_text 16 (has FLAGS_HASH FLAGS_UPPERCASE) (unat (0x1234 :: ulong)) = ''1234''"
    by code_simp
  ultimately show ?thesis
    by (simp add: hex_prefix_def c_integer_field_def)
qed

section \<open>Strings and formats\<close>

lemma strnlen_s_exact:
  "n < length p \<or> NUL \<in> set p \<Longrightarrow> n \<le> unat m \<Longrightarrow> m \<noteq> 0 \<Longrightarrow> unat m = n \<Longrightarrow>
     strnlen_s p m = Some (of_nat (length (takeWhile (\<lambda>c. c \<noteq> NUL) (take n p))))"
proof (induction p arbitrary: n m)
  case (Cons c p)
  obtain k where n: "n = Suc k" using Cons.prems by (cases n) (auto simp: unat_eq_zero)
  have m: "unat (m - 1) = k" using Cons.prems n by (simp add: unat_pred)
  show ?case
  proof (cases "c = NUL \<or> m - 1 = 0")
    case True
    then have "c \<noteq> NUL \<Longrightarrow> k = 0" using m by auto
    moreover have "c \<noteq> NUL \<Longrightarrow> p \<noteq> []" using Cons.prems n by (cases p) auto
    ultimately show ?thesis using Cons.prems True n by (cases p) auto
  next
    case False
    with Cons.IH [of k "m - 1"] Cons.prems n m show ?thesis by (auto simp: add.commute)
  qed
qed auto

lemma strnlen_s_unterminated:
  "NUL \<notin> set p \<Longrightarrow> length p \<le> unat m \<Longrightarrow> strnlen_s p m = None"
proof (induction p arbitrary: m)
  case (Cons c p)
  then have "m \<noteq> 0" by auto
  with Cons show ?case by (auto simp: unat_pred)
qed simp

lemma string_chars_exact:
  "n < length p \<or> NUL \<in> set p \<Longrightarrow> unat m = n \<Longrightarrow>
     string_chars p True m = Some (takeWhile (\<lambda>c. c \<noteq> NUL) (take n p))"
proof (induction p arbitrary: n m)
  case (Cons c p)
  show ?case
  proof (cases "c = NUL \<or> m = 0")
    case True
    with Cons.prems show ?thesis by (cases n) auto
  next
    case False
    then have "n = Suc (unat (m - 1))"
      using Cons.prems by (auto simp: unat_pred unat_gt_0 unat_eq_zero Suc_diff_1)
    with Cons.IH [of "unat (m - 1)" "m - 1"] Cons.prems False show ?thesis by auto
  qed
qed simp

text \<open>
  C37. \<^verbatim>\<open>%s\<close> with a precision prints at most that many characters, but reads one more: it
  is defined exactly when the array holds a terminator or more characters than the
  precision, so an array of just the printed characters is read past its end.
\<close>

theorem precision_reads_one_more:
  assumes "has (d_flags d) FLAGS_PRECISION" and "d_precision d \<noteq> 0"
  shows "string_text d (Pointer_Arg address p # va) =
    (let n = unat (d_precision d); s = takeWhile (\<lambda>c. c \<noteq> NUL) (take n p)
     in if NUL \<in> set p \<or> n < length p then Some (padded s (of_nat (length s)) d, va) else None)"
proof (cases "NUL \<in> set p \<or> unat (d_precision d) < length p")
  case True
  let ?s = "takeWhile (\<lambda>c. c \<noteq> NUL) (take (unat (d_precision d)) p)"
  have "length ?s \<le> unat (d_precision d)"
    by (rule order_trans [OF length_takeWhile_le]) simp
  moreover from this have "unat (of_nat (length ?s) :: ulong) = length ?s"
    using ulong_less [of "d_precision d"] by (simp add: unat_of_nat)
  ultimately have "\<not> (of_nat (length ?s) < d_precision d) \<Longrightarrow> d_precision d = of_nat (length ?s)"
    by (simp add: word_less_nat_alt word_unat_eq_iff)
  with True assms strnlen_s_exact [of "unat (d_precision d)" p "d_precision d"]
    string_chars_exact [of "unat (d_precision d)" p "d_precision d"]
  show ?thesis by (auto simp: string_text_def va_pointer_def Let_def)
next
  case False
  with assms strnlen_s_unterminated [of p "d_precision d"] show ?thesis
    by (simp add: string_text_def va_pointer_def not_less)
qed

lemma precision_reads_one_more_witness:
  "string_text \<lparr>d_flags = FLAGS_PRECISION, d_width = 0, d_precision = 3\<rparr>
     [Pointer_Arg 4096 ''abc'' :: int vararg] = None \<and>
   string_text \<lparr>d_flags = FLAGS_PRECISION, d_width = 0, d_precision = 3\<rparr>
     [Pointer_Arg 4096 ''abcd'' :: int vararg] = Some (''abc'', [])"
  using precision_reads_one_more [of "\<lparr>d_flags = FLAGS_PRECISION, d_width = 0, d_precision = 3\<rparr>"
      4096 "''abc''" "[] :: int va_list"]
    precision_reads_one_more [of "\<lparr>d_flags = FLAGS_PRECISION, d_width = 0, d_precision = 3\<rparr>"
      4096 "''abcd''" "[] :: int va_list"]
  by (simp add: padded_def spaces_def)

text \<open>
  A format that ends inside a directive is read past its terminator: for every text in
  front and every flags behind the percent sign, the call is undefined.
\<close>

lemma parse_flags_end:
  "list_all (\<lambda>c. flag_of c \<noteq> 0) fl \<Longrightarrow> \<exists>flags'. parse_flags (fl @ [NUL]) flags = Some ([NUL], flags')"
  by (induction fl arbitrary: flags) (auto simp: flag_of_def)

lemma format_text_plain:
  "NUL \<notin> set xs \<Longrightarrow> CHR ''%'' \<notin> set xs \<Longrightarrow>
     format_text ff (xs @ fmt) va = map_option (\<lambda>t. xs @ t) (format_text ff fmt va)"
proof (induction xs)
  case (Cons c xs)
  then show ?case
    by (cases "format_text ff fmt va") (auto simp: format_text.simps [of ff "c # (xs @ fmt)"])
qed (cases "format_text ff fmt va"; simp)

theorem open_directive_undefined:
  assumes "NUL \<notin> set xs" and "CHR ''%'' \<notin> set xs" and "list_all (\<lambda>c. flag_of c \<noteq> 0) fl"
  shows "snprintf_c ff (Some b) count (cstring (xs @ CHR ''%'' # fl)) va = None"
proof -
  obtain flags where "parse_flags (fl @ [NUL]) 0 = Some ([NUL], flags)"
    using parse_flags_end [OF assms(3)] by blast
  then have "parse_directive (fl @ [NUL]) va =
      Some ([NUL], \<lparr>d_flags = flags, d_width = 0, d_precision = 0\<rparr>, va)"
    by (simp add: parse_directive_def parse_width_def parse_precision_def parse_length_def is_digit_def)
  then have "format_text ff (CHR ''%'' # fl @ [NUL]) va = None"
    by (subst format_text.simps) (simp add: conversion_text_def format_text.simps [of _ "[]"])
  then have "format_text ff (cstring (xs @ CHR ''%'' # fl)) va = None"
    using format_text_plain [OF assms(1,2), of ff "CHR ''%'' # fl @ [NUL]" va] by (simp add: cstring_def)
  then show ?thesis
    by (simp add: snprintf_c_def vsnprintf_internal_def vsnprintf_run_def format_loop_emit)
qed

lemma open_directive_undefined_witness:
  "snprintf_c fixed_point (Some ''........'') 8 (cstring (''100'' @ CHR ''%'' # '''')) [] = None"
  by (rule open_directive_undefined) simp_all

text \<open>
  An output of single characters, \<^verbatim>\<open>_putchar\<close> or a function given to \<^verbatim>\<open>fctprintf\<close>, gets
  the characters of the text in order, less the NULs and without the terminator, and the
  length of the text is returned.
\<close>

theorem characters_in_order:
  "printf_c ff put world fmt va =
     do { s \<leftarrow> format_text ff fmt va;
          world \<leftarrow> put_all put (filter (\<lambda>c. c \<noteq> NUL) s) world;
          Some (world, sint (of_nat (length s) :: ulong)) } \<and>
   vprintf_c ff put world fmt va = printf_c ff put world fmt va \<and>
   fctprintf ff (\<lambda>c a. put c) a world fmt va = printf_c ff put world fmt va"
  by (simp add: printf_c_def vprintf_c_def fctprintf_def out_fct_char vsnprintf_run_def
      format_loop_emit emit_char out_char_def bind_assoc)

section \<open>Floating point numbers\<close>

lemma pow10_at_none: "pow10_at ff prec = None \<longleftrightarrow> 9 < unat prec"
  by (auto simp: pow10_at_def pow10_def)

lemma limit_precision_end: "9 < unat (snd (limit_precision [] prec)) \<longleftrightarrow> 41 < unat prec"
proof -
  have "unat (prec - of_nat (min 32 (unat prec - 9))) = unat prec - min 32 (unat prec - 9)"
    by (subst unat_sub) (auto simp: word_le_nat_alt unat_of_nat min_def)
  then show ?thesis
    by (auto simp: limit_precision_eq PRINTF_FTOA_BUFFER_SIZE_def PRINTF_NTOA_BUFFER_SIZE_def
        Let_def min_def)
qed

text \<open>
  \<^verbatim>\<open>%f\<close> brings a large precision down by zeros only while its buffer has room: with a
  precision above 41 the table of powers of ten is read past its end, and with any other
  the call is defined wherever the conversions to integers are.
\<close>

theorem float_precision_bound:
  assumes "special_text ff v flags = None" and "\<not> too_large ff v" and "has flags FLAGS_PRECISION"
    and "\<not> dlt ff v (literal ff 0 0)" and "to_int ff v = Some whole"
    and "\<And>k. k < 10 \<Longrightarrow> to_ulong ff (dmul ff (dsub ff v (of_integer ff whole)) (pow10 ff ! k)) \<noteq> None"
  shows "ftoa_text ff v prec width flags = None \<longleftrightarrow> 41 < unat prec"
proof -
  obtain buf prec' where limit: "limit_precision [] prec = (buf, prec')" by fastforce
  with limit_precision_end [of prec] have prec': "9 < unat prec' \<longleftrightarrow> 41 < unat prec" by simp
  have "ftoa_fill ff v prec width flags = None \<longleftrightarrow> 9 < unat prec'"
  proof (cases "9 < unat prec'")
    case True
    then show ?thesis
      using pow10_at_none [of ff prec'] assms
      by (simp add: ftoa_fill_def limit split del: if_split)
  next
    case False
    then have "pow10_at ff prec' = Some (pow10 ff ! unat prec')"
      by (simp add: pow10_at_def pow10_def)
    moreover obtain frac where "to_ulong ff (dmul ff (dsub ff v (of_integer ff whole))
        (pow10 ff ! unat prec')) = Some frac"
      using assms(6) [of "unat prec'"] False by auto
    ultimately show ?thesis
      using assms(3-5) False by (simp add: ftoa_fill_def limit Let_def split_def)
  qed
  then show ?thesis
    using assms(1,2) prec'
    by (subst ftoa_text.simps) (auto simp: split_def split: bind_splits)
qed

lemma float_precision_bound_witness:
  "ftoa_text fixed_point 1500000 42 0 FLAGS_PRECISION = None \<and>
   ftoa_text fixed_point 1500000 41 0 FLAGS_PRECISION \<noteq> None"
proof -
  have "list_all (\<lambda>k. to_ulong fixed_point (dmul fixed_point 500000 (pow10 fixed_point ! k)) \<noteq> None)
      [0..<10]"
    by code_simp
  then have "to_ulong fixed_point (dmul fixed_point (dsub fixed_point 1500000 (of_integer fixed_point 1))
      (pow10 fixed_point ! k)) \<noteq> None" if "k < 10" for k
    using that by (simp add: list_all_iff fixed_point_def)
  then have "ftoa_text fixed_point 1500000 prec 0 FLAGS_PRECISION = None \<longleftrightarrow> 41 < unat prec" for prec
    by (intro float_precision_bound [where whole = 1])
      (simp_all add: fixed_point_def fixed_literal_def special_text_def too_large_def
        PRINTF_MAX_FLOAT_def c_div_def Let_def)
  then show ?thesis by simp
qed

text \<open>
  A fraction that lies exactly between 0.9 and 1.0 at a precision of 1 is rounded up to
  ten tenths without a carry: the digit too many is counted below zero, and thirty zeros
  take the place of the decimal point and of the whole part, whatever that was.
\<close>

theorem halfway_fraction_spoils:
  assumes "special_text ff v flags = None" and "\<not> too_large ff v" and "has flags FLAGS_PRECISION"
    and "\<not> dlt ff v (literal ff 0 0)" and "to_int ff v = Some whole"
    and "tmp = dmul ff (dsub ff v (of_integer ff whole)) (literal ff 10 0)"
    and "to_ulong ff tmp = Some 9"
    and "\<not> dlt ff (literal ff 5 (-1)) (dsub ff tmp (of_integer ff 9))"
    and "\<not> dlt ff (dsub ff tmp (of_integer ff 9)) (literal ff 5 (-1))"
  shows "ftoa_text ff v 1 0 flags = Some (replicate 30 CHR ''0'' @ ''10'')"
proof -
  have limit: "limit_precision [] 1 = ([], 1)"
    by (simp add: limit_precision.simps)
  have pow: "pow10_at ff 1 = Some (literal ff 10 0)"
    by (simp add: pow10_at_def pow10_def)
  have digits: "fraction_digits 10 1 [] = (''01'', - 1)"
    by code_simp
  have zeros: "fraction_zeros (- 1) ''01'' = ''01'' @ replicate 30 CHR ''0''"
    by (simp add: fraction_zeros_eq PRINTF_FTOA_BUFFER_SIZE_def PRINTF_NTOA_BUFFER_SIZE_def
        unsigned_minus_1_eq_mask mask_eq_exp_minus_1)
  have full: "PRINTF_FTOA_BUFFER_SIZE = 32" "PRINTF_NTOA_BUFFER_SIZE = 32"
    by (simp_all add: PRINTF_FTOA_BUFFER_SIZE_def PRINTF_NTOA_BUFFER_SIZE_def)
  have "ftoa_fraction ff v 1 whole 10 [] = (''01'' @ replicate 30 CHR ''0'', whole)"
    by (simp add: ftoa_fraction_def digits zeros full)
  moreover have "round_fraction ff (dsub ff tmp (of_integer ff 9)) 9 whole (literal ff 10 0) = (10, whole)"
    using assms(8,9) by (simp add: round_fraction_def)
  ultimately have "ftoa_fill ff v 1 0 flags = Some (''01'' @ replicate 30 CHR ''0'', 0)"
    using assms(3-7)
    by (simp add: ftoa_fill_def limit pow whole_digits.simps pad_zeros_eq zeropad_width_def
        add_sign_def full Let_def)
  then show ?thesis
    using assms(1,2) by (subst ftoa_text.simps) (simp add: field_text_def spaces_def)
qed

lemma halfway_fraction_spoils_witness:
  "ftoa_text fixed_point 7950000 1 0 FLAGS_PRECISION = Some (replicate 30 CHR ''0'' @ ''10'')"
  by (rule halfway_fraction_spoils [where whole = 7 and tmp = 9500000])
    (simp_all add: fixed_point_def fixed_literal_def special_text_def too_large_def
      PRINTF_MAX_FLOAT_def c_div_def Let_def)

end
