(* ===== verification/Runtime_Library.thy ===== *)
theory Runtime_Library
  imports Calendar "HOL-Library.Sublist"
begin

text \<open>
  The rest of \<^verbatim>\<open>NewtonRuntime/NewtonRuntime.cpp\<close> (\<^verbatim>\<open>calloc\<close> and \<^verbatim>\<open>time\<close> are in
  \<open>Task_Bindings\<close>), \<^verbatim>\<open>EinsteinGlue.cpp\<close>, and the division routines the compiler calls on a
  processor without a division: \<^verbatim>\<open>__udivsi3\<close>, \<^verbatim>\<open>__aeabi_uidivmod\<close> and \<^verbatim>\<open>__umodsi3\<close>.
\<close>

unbundle bit_operations_syntax

section \<open>Exceptions and C functions\<close>

datatype runtime_exception =
    evRootEvent | exRootException | exOutOfMemory | exDivideByZero | exFrames | exStoreError
  | exInterpreter | exInterpreterWithFrameData

fun exception_name :: "runtime_exception \<Rightarrow> string" where
  "exception_name evRootEvent = ''evt''"
| "exception_name exRootException = ''evt.ex''"
| "exception_name exOutOfMemory = ''evt.ex.outofmem''"
| "exception_name exDivideByZero = ''evt.ex.div0''"
| "exception_name exFrames = ''evt.ex.fr''"
| "exception_name exStoreError = ''evt.ex.fr.store''"
| "exception_name exInterpreter = ''evt.ex.fr.intrp''"
| "exception_name exInterpreterWithFrameData = ''evt.ex.fr.intrp;type.ref.frame''"

text \<open>The exception each one is declared below; a handler for an exception catches those whose
  name extends its own.\<close>

fun declared_parent :: "runtime_exception \<Rightarrow> runtime_exception option" where
  "declared_parent exFrames = Some exRootException"
| "declared_parent exStoreError = Some exFrames"
| "declared_parent exInterpreter = Some exFrames"
| "declared_parent exInterpreterWithFrameData = Some exInterpreter"
| "declared_parent _ = None"

lemma declared_names_extend:
  "declared_parent e = Some p \<Longrightarrow> strict_prefix (exception_name p) (exception_name e)"
  by (cases e) (auto simp: strict_prefix_def)

definition gmtime :: "int \<Rightarrow> tm option" where
  "gmtime clock = None"

definition div0 :: "runtime_exception + 'a" where
  "div0 = Inl exDivideByZero"

text \<open>\<^verbatim>\<open>operator delete\<close> with a size, by the one without.\<close>

definition operator_delete :: "('p \<Rightarrow> 's \<Rightarrow> 's) \<Rightarrow> 'p \<Rightarrow> ulong \<Rightarrow> 's \<Rightarrow> 's" where
  "operator_delete delete ptr sz = delete ptr"

text \<open>
  \<^verbatim>\<open>EinsteinLogF\<close>: \<^verbatim>\<open>vsprintf\<close> of the ROM writes the text it makes and a terminator into a
  buffer of 512 characters on the stack, without a bound.
\<close>

definition EinsteinLogF ::
    "('f \<Rightarrow> 'v \<Rightarrow> string) \<Rightarrow> (string \<Rightarrow> 's \<Rightarrow> 's) \<Rightarrow> 'f \<Rightarrow> 'v \<Rightarrow> 's \<Rightarrow> 's option" where
  "EinsteinLogF vsprintf EinsteinLog fmt ap s =
     (let text = vsprintf fmt ap
      in if length text + 1 \<le> 512 then Some (EinsteinLog text s) else None)"

section \<open>Unsigned division\<close>

text \<open>\<^verbatim>\<open>Loop1\<close> and \<^verbatim>\<open>Lbignum\<close>: the divisor is moved up by four bits and then by single bits, and
  \<^verbatim>\<open>curbit\<close> with it.\<close>

partial_function (option) align ::
    "nat \<Rightarrow> ulong \<Rightarrow> ulong \<Rightarrow> ulong \<Rightarrow> ulong \<Rightarrow> (ulong \<times> ulong) option" where
  "align n limit dividend divisor curbit =
     (if divisor < limit \<and> divisor < dividend
      then align n limit dividend (push_bit n divisor) (push_bit n curbit)
      else Some (divisor, curbit))"

definition align_divisor :: "ulong \<Rightarrow> ulong \<Rightarrow> ulong \<Rightarrow> (ulong \<times> ulong) option" where
  "align_divisor dividend divisor curbit = do {
     (divisor, curbit) \<leftarrow> align 4 0x10000000 dividend divisor curbit;
     align 1 0x80000000 dividend divisor curbit
   }"

text \<open>\<^verbatim>\<open>cmp dividend, d; subcs dividend, dividend, d; orrcs result, result, b\<close>.\<close>

definition try_subtract :: "ulong \<Rightarrow> ulong \<Rightarrow> ulong \<times> ulong \<Rightarrow> ulong \<times> ulong" where
  "try_subtract d b r =
     (case r of (dividend, result) \<Rightarrow>
        if dividend \<ge> d then (dividend - d, result OR b) else (dividend, result))"

text \<open>One turn of \<^verbatim>\<open>Loop3\<close>: four such steps, each with divisor and bit one place lower.\<close>

definition div_pass :: "ulong \<Rightarrow> ulong \<Rightarrow> ulong \<Rightarrow> ulong \<Rightarrow> ulong \<times> ulong" where
  "div_pass dividend divisor result curbit =
     (let r = try_subtract divisor curbit (dividend, result);
          r = try_subtract (drop_bit 1 divisor) (drop_bit 1 curbit) r;
          r = try_subtract (drop_bit 2 divisor) (drop_bit 2 curbit) r
      in try_subtract (drop_bit 3 divisor) (drop_bit 3 curbit) r)"

partial_function (option) div_loop ::
    "ulong \<Rightarrow> ulong \<Rightarrow> ulong \<Rightarrow> ulong \<Rightarrow> ulong option" where
  "div_loop dividend divisor result curbit =
     (let (dividend, result) = div_pass dividend divisor result curbit
      in if dividend \<noteq> 0 \<and> drop_bit 4 curbit \<noteq> 0
         then div_loop dividend (drop_bit 4 divisor) result (drop_bit 4 curbit)
         else Some result)"

definition udivsi3 :: "ulong \<Rightarrow> ulong \<Rightarrow> (runtime_exception + ulong) option" where
  "udivsi3 dividend divisor =
     (if divisor = 0 then Some div0
      else if dividend < divisor then Some (Inr 0)
      else do {
        (divisor, curbit) \<leftarrow> align_divisor dividend divisor 1;
        result \<leftarrow> div_loop dividend divisor 0 curbit;
        Some (Inr result)
      })"

definition aeabi_uidivmod :: "ulong \<Rightarrow> ulong \<Rightarrow> (runtime_exception + ulong \<times> ulong) option" where
  "aeabi_uidivmod dividend divisor =
     (case udivsi3 dividend divisor of
        None \<Rightarrow> None
      | Some (Inl e) \<Rightarrow> Some (Inl e)
      | Some (Inr q) \<Rightarrow> Some (Inr (q, dividend - q * divisor)))"

declare align.simps [code] div_loop.simps [code]

section \<open>The remainder\<close>

text \<open>As above, with the subtractions recorded in \<^verbatim>\<open>overdone\<close> by the bit rotated to the right,
  so that those below the last bit are found in the top three.\<close>

definition mod_pass :: "ulong \<Rightarrow> ulong \<Rightarrow> ulong \<Rightarrow> ulong \<times> ulong" where
  "mod_pass dividend divisor curbit =
     (let r = try_subtract divisor 0 (dividend, 0);
          r = try_subtract (drop_bit 1 divisor) (word_rotr 1 curbit) r;
          r = try_subtract (drop_bit 2 divisor) (word_rotr 2 curbit) r
      in try_subtract (drop_bit 3 divisor) (word_rotr 3 curbit) r)"

partial_function (option) mod_loop ::
    "ulong \<Rightarrow> ulong \<Rightarrow> ulong \<Rightarrow> (ulong \<times> ulong \<times> ulong \<times> ulong) option" where
  "mod_loop dividend divisor curbit =
     (let (dividend, overdone) = mod_pass dividend divisor curbit
      in if dividend \<noteq> 0 \<and> drop_bit 4 curbit \<noteq> 0
         then mod_loop dividend (drop_bit 4 divisor) (drop_bit 4 curbit)
         else Some (dividend, divisor, overdone, curbit))"

declare mod_loop.simps [code]

definition restore :: "nat \<Rightarrow> ulong \<Rightarrow> ulong \<Rightarrow> ulong \<Rightarrow> ulong \<Rightarrow> ulong" where
  "restore n divisor overdone ip dividend =
     (if overdone AND word_rotr n ip \<noteq> 0 then dividend + drop_bit n divisor else dividend)"

text \<open>The end of the routine, behind the loop.\<close>

definition fix_up :: "ulong \<Rightarrow> ulong \<Rightarrow> ulong \<Rightarrow> ulong \<Rightarrow> ulong" where
  "fix_up dividend divisor overdone ip =
     (let overdone = overdone AND 0xe0000000
      in if overdone = 0 then dividend
         else restore 1 divisor overdone ip
                (restore 2 divisor overdone ip
                  (restore 3 divisor overdone ip dividend)))"

definition umodsi3 :: "ulong \<Rightarrow> ulong \<Rightarrow> (runtime_exception + ulong) option" where
  "umodsi3 dividend divisor =
     (if divisor = 0 then Some div0
      else if dividend < divisor then Some (Inr dividend)
      else do {
        (divisor, curbit) \<leftarrow> align_divisor dividend divisor 1;
        (dividend, divisor, overdone, ip) \<leftarrow> mod_loop dividend divisor curbit;
        Some (Inr (fix_up dividend divisor overdone ip))
      })"

section \<open>What the loops compute\<close>

text \<open>The words of the loops as natural numbers: the divisor is \<open>d * 2 ^ k\<close> and the bit \<open>2 ^ k\<close>,
  for the original divisor \<open>d\<close> and a \<open>k\<close> for which nothing is shifted out.\<close>

lemma unat_word [simp]: "n < 2 ^ 32 \<Longrightarrow> unat (of_nat n :: ulong) = n"
  by (simp add: unat_of_nat)

lemma push_word: "push_bit n (of_nat m :: ulong) = of_nat (m * 2 ^ n)"
  by (simp add: push_bit_eq_mult)

lemma drop_word:
  assumes "m < 2 ^ 32"
  shows "drop_bit n (of_nat m :: ulong) = of_nat (m div 2 ^ n)"
proof (rule word_unat_eq_iff [THEN iffD2])
  have "m div 2 ^ n < 2 ^ 32" using assms by (rule order_le_less_trans [OF div_le_dividend])
  then show "unat (drop_bit n (of_nat m :: ulong)) = unat (of_nat (m div 2 ^ n) :: ulong)"
    by (simp only: unat_drop_bit_eq unat_word assms) (rule drop_bit_eq_div)
qed

lemma aligned_bit:
  assumes "0 < d" "d * 2 ^ k < (2 :: nat) ^ 32"
  shows "(2 :: nat) ^ k < 2 ^ 32 \<and> k < 32"
proof -
  have "(2 :: nat) ^ k \<le> d * 2 ^ k" using assms(1) by simp
  then have "(2 :: nat) ^ k < 2 ^ 32" using assms(2) by (rule order_le_less_trans)
  then show ?thesis using power_less_imp_less_exp [of "2 :: nat" k 32] by simp
qed

lemma align_ends:
  assumes "0 < d" "d * 2 ^ k < 2 ^ 32" "0 < n" "unat limit * 2 ^ n \<le> 2 ^ 32"
  shows "\<exists>k'. align n limit a (of_nat (d * 2 ^ k)) (of_nat (2 ^ k)) =
      Some (of_nat (d * 2 ^ k'), of_nat (2 ^ k')) \<and> d * 2 ^ k' < 2 ^ 32 \<and>
      (unat limit \<le> d * 2 ^ k' \<or> unat a \<le> d * 2 ^ k')"
  using assms(2)
proof (induction "32 - k" arbitrary: k rule: less_induct)
  case less
  have unat: "unat (of_nat (d * 2 ^ k) :: ulong) = d * 2 ^ k" using less.prems by (rule unat_word)
  have unfold: "align n limit a (of_nat (d * 2 ^ k)) (of_nat (2 ^ k)) =
      (if d * 2 ^ k < unat limit \<and> d * 2 ^ k < unat a
       then align n limit a (of_nat (d * 2 ^ (k + n))) (of_nat (2 ^ (k + n)))
       else Some (of_nat (d * 2 ^ k), of_nat (2 ^ k)))"
    by (subst align.simps)
      (simp only: word_less_nat_alt unat push_word power_add mult.assoc)
  show ?case
  proof (cases "d * 2 ^ k < unat limit \<and> d * 2 ^ k < unat a")
    case True
    then have "d * 2 ^ k * 2 ^ n < unat limit * 2 ^ n" by simp
    then have "d * 2 ^ (k + n) < 2 ^ 32"
      using assms(4) unfolding power_add mult.assoc by (rule order_less_le_trans)
    moreover have "32 - (k + n) < 32 - k"
      using aligned_bit [OF assms(1) less.prems] assms(3) by linarith
    ultimately show ?thesis using less.hyps [of "k + n"] True unfold by simp
  next
    case False
    with unfold less.prems show ?thesis by (intro exI [of _ k]) auto
  qed
qed

text \<open>The divisor ends above half of the dividend.\<close>

lemma align_divisor_ends:
  assumes "d \<noteq> 0" "unat d * 2 ^ i < 2 ^ 32"
  shows "\<exists>k. align_divisor a (of_nat (unat d * 2 ^ i)) (of_nat (2 ^ i)) =
      Some (of_nat (unat d * 2 ^ k), of_nat (2 ^ k)) \<and>
    unat d * 2 ^ k < 2 ^ 32 \<and> unat a < unat d * 2 ^ (k + 1)"
proof -
  have d: "0 < unat d" using assms(1) by (simp add: unat_gt_0)
  obtain k where k: "align 4 0x10000000 a (of_nat (unat d * 2 ^ i)) (of_nat (2 ^ i)) =
      Some (of_nat (unat d * 2 ^ k), of_nat (2 ^ k))"
    "unat d * 2 ^ k < 2 ^ 32"
    using align_ends [OF d assms(2), of 4 "0x10000000" a] by auto
  obtain k' where k': "align 1 0x80000000 a (of_nat (unat d * 2 ^ k)) (of_nat (2 ^ k)) =
      Some (of_nat (unat d * 2 ^ k'), of_nat (2 ^ k'))" "unat d * 2 ^ k' < 2 ^ 32"
    "2 ^ 31 \<le> unat d * 2 ^ k' \<or> unat a \<le> unat d * 2 ^ k'"
    using align_ends [OF d k(2), of 1 "0x80000000" a] by auto
  define x where "x = unat d * 2 ^ k'"
  have "0 < x" using d by (simp add: x_def)
  then have "unat a < x * 2"
    using k'(3) ulong_less [of a] unfolding x_def [symmetric] by auto
  then have "unat a < unat d * 2 ^ k' * 2" by (simp only: x_def)
  then show ?thesis using k k'
    by (auto simp: align_divisor_def simp del: of_nat_mult of_nat_power)
qed

text \<open>The state of the division between two steps: the remainder is below \<open>d * 2 ^ j\<close>, and
  the quotient so far is a multiple of \<open>2 ^ j\<close>.\<close>

definition dividing :: "nat \<Rightarrow> nat \<Rightarrow> nat \<Rightarrow> nat \<Rightarrow> nat \<Rightarrow> bool" where
  "dividing a d j r q \<longleftrightarrow> r < d * 2 ^ j \<and> 2 ^ j dvd q \<and> a = q * d + r"

lemma dividing_end: "dividing a d 0 r q \<Longrightarrow> q = a div d \<and> r = a mod d"
  by (auto simp: dividing_def)

lemma dividing_zero: "dividing a d j 0 q \<Longrightarrow> q = a div d \<and> a mod d = 0"
  by (auto simp: dividing_def)

lemma or_next_bit: "2 ^ Suc j dvd q \<Longrightarrow> (of_nat q :: ulong) OR of_nat (2 ^ j) = of_nat (q + 2 ^ j)"
proof -
  assume "2 ^ Suc j dvd q"
  then obtain m where m: "q = 2 ^ Suc j * m" by blast
  then have "\<not> bit q j" by (simp add: bit_iff_odd)
  then have "q AND 2 ^ j = 0" by (simp add: and_exp_eq_0_iff_not_bit)
  then have "q OR 2 ^ j = q + 2 ^ j" by (simp add: disjunctive_add_eq_or)
  then show ?thesis by (metis of_nat_or_eq)
qed

lemma step_subtracts:
  assumes "dividing a d (Suc j) r q" "d * 2 ^ j < 2 ^ 32" "a < 2 ^ 32"
  shows "\<exists>r' q'. try_subtract (of_nat (d * 2 ^ j)) (of_nat (2 ^ j)) (of_nat r, of_nat q) =
      (of_nat r', of_nat q') \<and> dividing a d j r' q'"
proof -
  have r: "r < 2 ^ 32" using assms(1,3) by (simp add: dividing_def)
  have le: "of_nat r \<ge> (of_nat (d * 2 ^ j) :: ulong) \<longleftrightarrow> d * 2 ^ j \<le> r"
    by (simp only: word_le_nat_alt unat_word r assms(2))
  have bit: "(of_nat q :: ulong) OR of_nat (2 ^ j) = of_nat (q + 2 ^ j)"
    using assms(1) by (intro or_next_bit) (simp add: dividing_def)
  have even: "2 ^ j dvd q" using assms(1) by (auto simp: dividing_def intro: dvd_mult_right)
  show ?thesis
  proof (cases "d * 2 ^ j \<le> r")
    case True
    then have "dividing a d j (r - d * 2 ^ j) (q + 2 ^ j)"
      using assms(1) even by (auto simp: dividing_def algebra_simps)
    with True show ?thesis
      by (intro exI [of _ "r - d * 2 ^ j"] exI [of _ "q + 2 ^ j"])
        (simp add: try_subtract_def le bit of_nat_diff del: of_nat_add of_nat_mult of_nat_power)
  next
    case False
    with assms(1) even show ?thesis
      by (intro exI [of _ r] exI [of _ q])
        (simp add: try_subtract_def le dividing_def del: of_nat_mult of_nat_power)
  qed
qed

lemma drop_aligned:
  assumes "d * 2 ^ k < 2 ^ 32" "i \<le> k"
  shows "drop_bit i (of_nat (d * 2 ^ k) :: ulong) = of_nat (d * 2 ^ (k - i))"
proof -
  have "d * 2 ^ k = d * 2 ^ (k - i) * 2 ^ i"
    using assms(2) by (simp flip: power_add)
  then have "d * 2 ^ k div 2 ^ i = d * 2 ^ (k - i)"
    by (metis nonzero_mult_div_cancel_right power_not_zero zero_neq_numeral)
  then show ?thesis by (simp only: drop_word [OF assms(1)])
qed

lemma drop_curbit:
  assumes "(2 :: nat) ^ k < 2 ^ 32"
  shows "drop_bit i (of_nat (2 ^ k) :: ulong) = (if i \<le> k then of_nat (2 ^ (k - i)) else 0)"
proof (cases "i \<le> k")
  case True
  with drop_aligned [of 1 k i] assms show ?thesis by simp
next
  case False
  then have "(2 :: nat) ^ k div 2 ^ i = 0" by simp
  with False show ?thesis by (simp only: drop_word [OF assms]) simp
qed

lemma shifted_curbit:
  assumes "(2 :: nat) ^ k < 2 ^ 32" "i \<le> k"
  shows "(of_nat (2 ^ (k - i)) :: ulong) \<noteq> 0"
proof -
  have "(2 :: nat) ^ (k - i) \<le> 2 ^ k" by (rule power_increasing) simp_all
  then have "unat (of_nat (2 ^ (k - i)) :: ulong) = 2 ^ (k - i)"
    using assms(1) by (intro unat_word) (rule order_le_less_trans)
  then show ?thesis by (metis power_not_zero unat_0 zero_neq_numeral)
qed

text \<open>One step of a pass, as far as the bit is not shifted out.\<close>

lemma pass_step:
  assumes "dividing a d (k - i + 1) r q" "d * 2 ^ k < 2 ^ 32" "0 < d" "a < 2 ^ 32" "i \<le> k"
  shows "\<exists>r' q'. try_subtract (drop_bit i (of_nat (d * 2 ^ k))) (drop_bit i (of_nat (2 ^ k)))
      (of_nat r, of_nat q) = (of_nat r', of_nat q') \<and> dividing a d (k - i) r' q'"
proof -
  have "d * 2 ^ (k - i) \<le> d * 2 ^ k" by simp
  then have "d * 2 ^ (k - i) < 2 ^ 32" using assms(2) by (rule order_le_less_trans)
  moreover have "drop_bit i (of_nat (2 ^ k) :: ulong) = of_nat (2 ^ (k - i))"
    using aligned_bit [OF assms(3,2)] assms(5) by (simp only: drop_curbit if_True)
  ultimately show ?thesis
    using step_subtracts [of a d "k - i" r q] assms
    by (simp only: drop_aligned Suc_eq_plus1)
qed

lemma try_subtract_0: "snd (try_subtract x 0 p) = snd p"
  by (simp add: try_subtract_def split_def)

lemma div_pass_full:
  assumes "dividing a d (k + 1) r q" "d * 2 ^ k < 2 ^ 32" "0 < d" "a < 2 ^ 32" "3 \<le> k"
  shows "\<exists>r' q'. div_pass (of_nat r) (of_nat (d * 2 ^ k)) (of_nat q) (of_nat (2 ^ k)) =
      (of_nat r', of_nat q') \<and> dividing a d (k - 3) r' q'"
proof -
  note step = pass_step [OF _ assms(2-4)]
  obtain r0 q0 where 0: "try_subtract (of_nat (d * 2 ^ k)) (of_nat (2 ^ k)) (of_nat r, of_nat q) =
      (of_nat r0, of_nat q0)" "dividing a d (k - 1 + 1) r0 q0"
    using step [of 0 r q] assms(1,5) by auto
  obtain r1 q1 where 1: "try_subtract (drop_bit 1 (of_nat (d * 2 ^ k))) (drop_bit 1 (of_nat (2 ^ k)))
      (of_nat r0, of_nat q0) = (of_nat r1, of_nat q1)" "dividing a d (k - 1) r1 q1"
    using step [OF 0(2)] assms(5) by auto
  have "k - 1 = k - 2 + 1" using assms(5) by linarith
  with 1(2) have "dividing a d (k - 2 + 1) r1 q1" by (simp only:)
  then obtain r2 q2 where 2: "try_subtract (drop_bit 2 (of_nat (d * 2 ^ k))) (drop_bit 2 (of_nat (2 ^ k)))
      (of_nat r1, of_nat q1) = (of_nat r2, of_nat q2)" "dividing a d (k - 2) r2 q2"
    using step [of 2 r1 q1] assms(5) by auto
  have "k - 2 = k - 3 + 1" using assms(5) by linarith
  with 2(2) have "dividing a d (k - 3 + 1) r2 q2" by (simp only:)
  then obtain r3 q3 where "try_subtract (drop_bit 3 (of_nat (d * 2 ^ k))) (drop_bit 3 (of_nat (2 ^ k)))
      (of_nat r2, of_nat q2) = (of_nat r3, of_nat q3)" "dividing a d (k - 3) r3 q3"
    using step [of 3 r2 q2] assms(5) by auto
  with 0(1) 1(1) 2(1) show ?thesis
    by (auto simp: div_pass_def Let_def simp del: of_nat_mult of_nat_power)
qed

text \<open>The pass in which the bit is shifted out has the quotient, whatever is subtracted then.\<close>

lemma div_pass_last:
  assumes "dividing a d (k + 1) r q" "d * 2 ^ k < 2 ^ 32" "0 < d" "a < 2 ^ 32" "k < 3"
  shows "snd (div_pass (of_nat r) (of_nat (d * 2 ^ k)) (of_nat q) (of_nat (2 ^ k))) = of_nat (a div d)"
proof -
  note step = pass_step [OF _ assms(2-4)]
  let ?D = "\<lambda>i. drop_bit i (of_nat (d * 2 ^ k)) :: ulong" and ?B = "\<lambda>i. drop_bit i (of_nat (2 ^ k)) :: ulong"
  have out: "?B i = 0" if "k < i" for i
    using that aligned_bit [OF assms(3,2)] by (simp only: drop_curbit not_less [symmetric] not_True_eq_False if_False)
  obtain r0 q0 where 0: "try_subtract (?D 0) (?B 0) (of_nat r, of_nat q) = (of_nat r0, of_nat q0)"
    "dividing a d k r0 q0"
    using step [of 0 r q] assms(1) by auto
  have 1: "\<exists>r1 q1. try_subtract (?D 1) (?B 1) (of_nat r0, of_nat q0) = (of_nat r1, of_nat q1) \<and>
      dividing a d (k - 1) r1 q1" if "1 \<le> k"
    using step [of 1 r0 q0] 0(2) that by simp
  have 2: "\<exists>r2 q2. try_subtract (?D 2) (?B 2) (of_nat r1, of_nat q1) = (of_nat r2, of_nat q2) \<and>
      dividing a d 0 r2 q2" if "k = 2" "dividing a d (k - 1) r1 q1" for r1 q1
    using step [of 2 r1 q1] that by simp
  have pass: "div_pass (of_nat r) (of_nat (d * 2 ^ k)) (of_nat q) (of_nat (2 ^ k)) =
      try_subtract (?D 3) (?B 3) (try_subtract (?D 2) (?B 2) (try_subtract (?D 1) (?B 1)
        (try_subtract (?D 0) (?B 0) (of_nat r, of_nat q))))"
    by (simp add: div_pass_def Let_def)
  consider "k = 0" | "k = 1" | "k = 2" using assms(5) by linarith
  then show ?thesis
  proof cases
    assume k: "k = 0"
    then have "?B 1 = 0" "?B 2 = 0" "?B 3 = 0" using out by simp_all
    moreover have "q0 = a div d" using dividing_end 0(2) k by blast
    ultimately show ?thesis by (simp only: pass 0(1) try_subtract_0 snd_conv)
  next
    assume k: "k = 1"
    with 1 obtain r1 q1 where "try_subtract (?D 1) (?B 1) (of_nat r0, of_nat q0) = (of_nat r1, of_nat q1)"
      "dividing a d 0 r1 q1" by auto
    moreover have "?B 2 = 0" "?B 3 = 0" using out k by simp_all
    ultimately show ?thesis
      using dividing_end [of a d r1 q1] by (simp only: pass 0(1) try_subtract_0 snd_conv)
  next
    assume k: "k = 2"
    with 1 obtain r1 q1 where 1: "try_subtract (?D 1) (?B 1) (of_nat r0, of_nat q0) = (of_nat r1, of_nat q1)"
      "dividing a d (k - 1) r1 q1" by auto
    with 2 k obtain r2 q2 where "try_subtract (?D 2) (?B 2) (of_nat r1, of_nat q1) = (of_nat r2, of_nat q2)"
      "dividing a d 0 r2 q2" by blast
    moreover have "?B 3 = 0" using out k by simp
    ultimately show ?thesis
      using dividing_end [of a d r2 q2] by (simp only: pass 0(1) 1(1) try_subtract_0 snd_conv)
  qed
qed

lemma div_loop_divides:
  assumes "dividing a d (k + 1) r q" "d * 2 ^ k < 2 ^ 32" "0 < d" "a < 2 ^ 32"
  shows "div_loop (of_nat r) (of_nat (d * 2 ^ k)) (of_nat q) (of_nat (2 ^ k)) = Some (of_nat (a div d))"
  using assms(1,2)
proof (induction k arbitrary: r q rule: less_induct)
  case (less k)
  have curbit: "(2 :: nat) ^ k < 2 ^ 32" using aligned_bit [OF assms(3) less.prems(2)] by simp
  let ?p = "div_pass (of_nat r) (of_nat (d * 2 ^ k)) (of_nat q) (of_nat (2 ^ k))"
  have unfold: "div_loop (of_nat r) (of_nat (d * 2 ^ k)) (of_nat q) (of_nat (2 ^ k)) =
      (if fst ?p \<noteq> 0 \<and> drop_bit 4 (of_nat (2 ^ k) :: ulong) \<noteq> 0
       then div_loop (fst ?p) (drop_bit 4 (of_nat (d * 2 ^ k))) (snd ?p) (drop_bit 4 (of_nat (2 ^ k)))
       else Some (snd ?p))"
    by (subst div_loop.simps) (simp only: Let_def split_def)
  show ?case
  proof (cases "k < 3")
    case True
    then have "drop_bit 4 (of_nat (2 ^ k) :: ulong) = 0" by (simp only: drop_curbit [OF curbit]) simp
    with unfold div_pass_last [OF less.prems assms(3,4) True] show ?thesis by (simp only: simp_thms if_False)
  next
    case False
    then obtain r' q' where p: "?p = (of_nat r', of_nat q')" "dividing a d (k - 3) r' q'"
      using div_pass_full [OF less.prems assms(3,4)] by auto
    have r': "r' < 2 ^ 32" using p(2) assms(4) by (simp add: dividing_def)
    show ?thesis
    proof (cases "r' = 0 \<or> k = 3")
      case True
      then have "q' = a div d" using p(2) dividing_zero dividing_end by auto
      moreover have "drop_bit 4 (of_nat (2 ^ k) :: ulong) = 0" if "k = 3"
        using that by (simp only: drop_curbit [OF curbit]) simp
      ultimately show ?thesis using unfold p(1) True by auto
    next
      case more: False
      then have "4 \<le> k" using False by linarith
      have "(of_nat r' :: ulong) \<noteq> 0" using more r' by (metis unat_word unat_0)
      with \<open>4 \<le> k\<close> have "div_loop (of_nat r) (of_nat (d * 2 ^ k)) (of_nat q) (of_nat (2 ^ k)) =
          div_loop (of_nat r') (of_nat (d * 2 ^ (k - 4))) (of_nat q') (of_nat (2 ^ (k - 4)))"
        using unfold p(1) less.prems(2) shifted_curbit [OF curbit \<open>4 \<le> k\<close>]
        by (simp only: drop_aligned drop_curbit [OF curbit] fst_conv snd_conv if_True simp_thms)
      moreover have "k - 3 = k - 4 + 1" using \<open>4 \<le> k\<close> by linarith
      moreover have "d * 2 ^ (k - 4) < 2 ^ 32"
        by (rule order_le_less_trans [OF _ less.prems(2)]) simp
      ultimately show ?thesis using less.IH [of "k - 4" r' q'] p(2) \<open>4 \<le> k\<close> by simp
    qed
  qed
qed

lemma aligned_division:
  assumes "d \<noteq> 0" "unat d * 2 ^ i < 2 ^ 32"
  shows "do {
      (divisor, curbit) \<leftarrow> align_divisor a (of_nat (unat d * 2 ^ i)) (of_nat (2 ^ i));
      div_loop a divisor 0 curbit
    } = Some (a div d)"
proof -
  obtain k where k: "align_divisor a (of_nat (unat d * 2 ^ i)) (of_nat (2 ^ i)) =
      Some (of_nat (unat d * 2 ^ k), of_nat (2 ^ k))"
    "unat d * 2 ^ k < 2 ^ 32" "unat a < unat d * 2 ^ (k + 1)"
    using align_divisor_ends [OF assms] by blast
  have "0 < unat d" using assms(1) by (simp add: unat_gt_0)
  moreover have "dividing (unat a) (unat d) (k + 1) (unat a) 0"
    using k(3) by (simp add: dividing_def)
  ultimately have "div_loop (of_nat (unat a)) (of_nat (unat d * 2 ^ k)) (of_nat 0) (of_nat (2 ^ k)) =
      Some (of_nat (unat a div unat d))"
    using div_loop_divides k(2) ulong_less by blast
  moreover have "(of_nat (unat a div unat d) :: ulong) = a div d"
    by (simp add: unat_div [symmetric])
  ultimately show ?thesis
    using k(1) by (simp del: of_nat_mult of_nat_power)
qed

lemma udivsi3_quotient: "d \<noteq> 0 \<Longrightarrow> udivsi3 a d = Some (Inr (a div d))"
proof (cases "a < d")
  case True
  then have "a div d = 0"
    by (simp add: word_less_nat_alt word_unat_eq_iff unat_div)
  with True show "d \<noteq> 0 \<Longrightarrow> ?thesis" by (simp add: udivsi3_def)
next
  case False
  assume "d \<noteq> 0"
  with False aligned_division [of d 0 a] ulong_less [of d] show ?thesis
    by (simp add: udivsi3_def split_def bind_eq_Some_conv)
qed

text \<open>
  \<^verbatim>\<open>__udivsi3\<close> and \<^verbatim>\<open>__aeabi_uidivmod\<close> end for all arguments and give the quotient and
  the remainder; a division by zero throws.
\<close>

theorem division_exact:
  "udivsi3 a d = Some (if d = 0 then Inl exDivideByZero else Inr (a div d)) \<and>
   aeabi_uidivmod a d = Some (if d = 0 then Inl exDivideByZero else Inr (a div d, a mod d))"
proof (cases "d = 0")
  case True
  then show ?thesis by (simp add: aeabi_uidivmod_def udivsi3_def div0_def)
next
  case False
  then show ?thesis
    by (simp add: udivsi3_quotient aeabi_uidivmod_def minus_div_mult_eq_mod)
qed

section \<open>The remainder by the recorded subtractions\<close>

lemma try_subtract_fst: "fst (try_subtract x b p) = (if fst p \<ge> x then fst p - x else fst p)"
  by (simp add: try_subtract_def split_def)

lemma try_subtract_snd: "snd (try_subtract x b p) = (if fst p \<ge> x then snd p OR b else snd p)"
  by (simp add: try_subtract_def split_def)

lemma mod_pass_fst: "fst (mod_pass r D c) = fst (div_pass r D q c)"
  by (simp add: mod_pass_def div_pass_def Let_def try_subtract_fst)

lemma rotations:
  "word_rotr 1 (1 :: ulong) = 0x80000000" "word_rotr 2 (1 :: ulong) = 0x40000000" "word_rotr 3 (1 :: ulong) = 0x20000000"
  "word_rotr 1 (2 :: ulong) = 1" "word_rotr 2 (2 :: ulong) = 0x80000000" "word_rotr 3 (2 :: ulong) = 0x40000000"
  "word_rotr 1 (4 :: ulong) = 2" "word_rotr 2 (4 :: ulong) = 1" "word_rotr 3 (4 :: ulong) = 0x80000000"
  by code_simp+

text \<open>A pass as three decisions, each of which subtracts and records or does nothing. The fix-up undoes the steps beyond
  the last bit, whichever of them subtracted.\<close>

text \<open>What a pass leaves when it subtracts in the steps with \<open>c1\<close>, \<open>c2\<close> and \<open>c3\<close>.\<close>

definition pass_outcome :: "ulong \<Rightarrow> ulong \<Rightarrow> bool \<Rightarrow> bool \<Rightarrow> bool \<Rightarrow> ulong \<Rightarrow> ulong \<times> ulong" where
  "pass_outcome r2 D c1 c2 c3 c =
     (if c3 then r2 - drop_bit 3 D else r2,
      (if c1 then word_rotr 1 c else 0) OR (if c2 then word_rotr 2 c else 0) OR
      (if c3 then word_rotr 3 c else 0))"

lemma mod_pass_steps: "\<exists>r0 r1 r2 c1 c2 c3.
    r1 = (if c1 then r0 - drop_bit 1 D else r0) \<and> r2 = (if c2 then r1 - drop_bit 2 D else r1) \<and>
    try_subtract D 0 (r, 0) = (r0, 0) \<and> fst (try_subtract (drop_bit 1 D) 0 (r0, 0)) = r1 \<and>
    fst (try_subtract (drop_bit 2 D) 0 (try_subtract (drop_bit 1 D) 0 (r0, 0))) = r2 \<and>
    (\<forall>c. mod_pass r D c = pass_outcome r2 D c1 c2 c3 c)"
proof -
  define r0 where "r0 = fst (try_subtract D 0 (r, 0))"
  define r1 where "r1 = fst (try_subtract (drop_bit 1 D) 0 (r0, 0))"
  define r2 where "r2 = fst (try_subtract (drop_bit 2 D) 0 (r1, 0))"
  show ?thesis
    by (rule exI [of _ r0], rule exI [of _ r1], rule exI [of _ r2], rule exI [of _ "r0 \<ge> drop_bit 1 D"],
        rule exI [of _ "r1 \<ge> drop_bit 2 D"], rule exI [of _ "r2 \<ge> drop_bit 3 D"])
      (simp add: prod_eq_iff pass_outcome_def mod_pass_def Let_def try_subtract_fst try_subtract_snd
        r0_def r1_def r2_def or.assoc)
qed

lemma undo_steps:
  assumes "r1 = (if c1 then r0 - drop_bit 1 D else r0)" "r2 = (if c2 then r1 - drop_bit 2 D else r1)"
  shows "fix_up (fst (pass_outcome r2 D c1 c2 c3 1)) D (snd (pass_outcome r2 D c1 c2 c3 1)) 1 = r0"
    and "fix_up (fst (pass_outcome r2 D c1 c2 c3 2)) D (snd (pass_outcome r2 D c1 c2 c3 2)) 2 = r1"
    and "fix_up (fst (pass_outcome r2 D c1 c2 c3 4)) D (snd (pass_outcome r2 D c1 c2 c3 4)) 4 = r2"
  unfolding assms
  by (cases c1; cases c2; cases c3;
      simp add: pass_outcome_def fix_up_def restore_def Let_def rotations [unfolded One_nat_def])+

lemma fix_up_last:
  "fix_up (fst (mod_pass r D 1)) D (snd (mod_pass r D 1)) 1 = fst (try_subtract D 0 (r, 0))"
  "fix_up (fst (mod_pass r D 2)) D (snd (mod_pass r D 2)) 2 =
    fst (try_subtract (drop_bit 1 D) 0 (try_subtract D 0 (r, 0)))"
  "fix_up (fst (mod_pass r D 4)) D (snd (mod_pass r D 4)) 4 =
    fst (try_subtract (drop_bit 2 D) 0 (try_subtract (drop_bit 1 D) 0 (try_subtract D 0 (r, 0))))"
proof -
  obtain r0 r1 r2 c1 c2 c3 where r: "r1 = (if c1 then r0 - drop_bit 1 D else r0)"
      "r2 = (if c2 then r1 - drop_bit 2 D else r1)"
    and t: "try_subtract D 0 (r, 0) = (r0, 0)" "fst (try_subtract (drop_bit 1 D) 0 (r0, 0)) = r1"
      "fst (try_subtract (drop_bit 2 D) 0 (try_subtract (drop_bit 1 D) 0 (r0, 0))) = r2"
    and "\<forall>c. mod_pass r D c = pass_outcome r2 D c1 c2 c3 c"
    using mod_pass_steps [of D r] by blast
  then have p: "mod_pass r D c = pass_outcome r2 D c1 c2 c3 c" for c by blast
  show "fix_up (fst (mod_pass r D 1)) D (snd (mod_pass r D 1)) 1 = fst (try_subtract D 0 (r, 0))"
    by (simp only: p t fst_conv undo_steps [OF r])
  show "fix_up (fst (mod_pass r D 2)) D (snd (mod_pass r D 2)) 2 =
      fst (try_subtract (drop_bit 1 D) 0 (try_subtract D 0 (r, 0)))"
    by (simp only: p t undo_steps [OF r])
  show "fix_up (fst (mod_pass r D 4)) D (snd (mod_pass r D 4)) 4 =
      fst (try_subtract (drop_bit 2 D) 0 (try_subtract (drop_bit 1 D) 0 (try_subtract D 0 (r, 0))))"
    by (simp only: p t undo_steps [OF r])
qed

text \<open>A pass in which no bit is rotated round leaves nothing to undo, for a bit below the two
  highest.\<close>

lemma high_rotation:
  assumes "3 \<le> k" "k < 30" "i \<in> {1, 2, 3}"
  shows "word_rotr i (of_nat (2 ^ k) :: ulong) AND 0xe0000000 = 0"
proof (rule bit_eqI)
  fix n
  have "(0xe0000000 :: ulong) = push_bit 29 (mask 3)" by (simp add: mask_eq_exp_minus_1)
  then have "bit (0xe0000000 :: ulong) n \<Longrightarrow> n = 29 \<or> n = 30 \<or> n = 31"
    by (auto simp: bit_push_bit_iff bit_mask_iff bit_imp_le_length)
  moreover have "bit (word_rotr i (of_nat (2 ^ k) :: ulong)) n \<Longrightarrow> (n + i) mod 32 = k"
    by (simp add: bit_word_rotr_iff bit_exp_iff)
  moreover have "(n + i) mod 32 \<noteq> k" if "n = 29 \<or> n = 30 \<or> n = 31"
    using that assms by (elim disjE insertE) simp_all
  ultimately show "bit (word_rotr i (of_nat (2 ^ k) :: ulong) AND 0xe0000000) n = bit (0 :: ulong) n"
    unfolding bit_and_iff by (metis bit_0_eq bot_apply bot_bool_def)
qed

lemma fix_up_none:
  assumes "3 \<le> k" "k < 30"
  shows "fix_up x D (snd (mod_pass r D (of_nat (2 ^ k)))) ip = x"
proof -
  have "snd (mod_pass r D (of_nat (2 ^ k))) AND 0xe0000000 = 0"
    using high_rotation [OF assms]
    by (simp add: mod_pass_def Let_def try_subtract_snd bit.conj_disj_distrib2 del: of_nat_power)
  then show ?thesis by (simp add: fix_up_def)
qed

text \<open>The steps of the last pass up to the last bit give the remainder.\<close>

lemma pass_remainder:
  assumes "dividing a d (k - i + 1) r q" "d * 2 ^ k < 2 ^ 32" "0 < d" "a < 2 ^ 32" "i \<le> k"
  shows "\<exists>r' q'. fst (try_subtract (drop_bit i (of_nat (d * 2 ^ k))) b (of_nat r, out)) = of_nat r' \<and>
      dividing a d (k - i) r' q'"
proof -
  obtain r' q' where step: "try_subtract (drop_bit i (of_nat (d * 2 ^ k))) (drop_bit i (of_nat (2 ^ k)))
      (of_nat r, of_nat q) = (of_nat r', of_nat q')" "dividing a d (k - i) r' q'"
    using pass_step [OF assms] by blast
  have "fst (try_subtract (drop_bit i (of_nat (d * 2 ^ k))) b (of_nat r, out)) =
      fst (try_subtract (drop_bit i (of_nat (d * 2 ^ k))) (drop_bit i (of_nat (2 ^ k))) (of_nat r, of_nat q))"
    by (simp add: try_subtract_fst)
  with step show ?thesis by auto
qed

lemma last_remainder:
  assumes "dividing a d (k + 1) r q" "d * 2 ^ k < 2 ^ 32" "0 < d" "a < 2 ^ 32" "k < 3"
  defines "D \<equiv> of_nat (d * 2 ^ k) :: ulong"
  shows "fix_up (fst (mod_pass (of_nat r) D (of_nat (2 ^ k)))) D (snd (mod_pass (of_nat r) D (of_nat (2 ^ k))))
      (of_nat (2 ^ k)) = of_nat (a mod d)"
proof -
  note step = pass_remainder [OF _ assms(2-4), folded D_def]
  have pair: "try_subtract x b (try_subtract y 0 (r, 0)) = try_subtract x b (fst (try_subtract y 0 (r, 0)), 0)"
    for x y b r by (simp add: try_subtract_def)
  have pair': "try_subtract x 0 (try_subtract y 0 (r, 0)) = (fst (try_subtract x 0 (fst (try_subtract y 0 (r, 0)), 0)), 0)"
    for x y r by (simp add: try_subtract_def)
  obtain r0 q0 where 0: "fst (try_subtract D 0 (of_nat r, 0)) = of_nat r0" "dividing a d k r0 q0"
    using step [of 0 r q 0 0] assms(1) by auto
  have 1: "\<exists>r1 q1. fst (try_subtract (drop_bit 1 D) 0 (of_nat r0, 0)) = of_nat r1 \<and> dividing a d (k - 1) r1 q1"
    if "1 \<le> k"
    using step [of 1 r0 q0 0 0] 0(2) that by simp
  consider "k = 0" | "k = 1" | "k = 2" using assms(5) by linarith
  then show ?thesis
  proof cases
    assume k: "k = 0"
    then show ?thesis using fix_up_last(1) [of "of_nat r" D] 0 dividing_end by auto
  next
    assume k: "k = 1"
    then show ?thesis using fix_up_last(2) [of "of_nat r" D] 0 1 dividing_end by (auto simp: pair)
  next
    assume k: "k = 2"
    with 1 obtain r1 q1 where 1: "fst (try_subtract (drop_bit 1 D) 0 (of_nat r0, 0)) = of_nat r1"
      "dividing a d 1 r1 q1" by auto
    obtain r2 q2 where "fst (try_subtract (drop_bit 2 D) 0 (of_nat r1, 0)) = of_nat r2" "dividing a d 0 r2 q2"
      using step [of 2 r1 q1 0 0] 1(2) k by auto
    then show ?thesis
      using fix_up_last(3) [of "of_nat r" D] 0(1) 1(1) k dividing_end by (auto simp: pair' pair)
  qed
qed

lemma mod_loop_ends:
  assumes "dividing a d (k + 1) r q" "d * 2 ^ k < 2 ^ 32" "0 < d" "a < 2 ^ 32" "k < 30"
  shows "\<exists>x D out c. mod_loop (of_nat r) (of_nat (d * 2 ^ k)) (of_nat (2 ^ k)) = Some (x, D, out, c) \<and>
    fix_up x D out c = of_nat (a mod d)"
  using assms(1,2,5)
proof (induction k arbitrary: r q rule: less_induct)
  case (less k)
  have curbit: "(2 :: nat) ^ k < 2 ^ 32" using aligned_bit [OF assms(3) less.prems(2)] by simp
  let ?D = "of_nat (d * 2 ^ k) :: ulong" and ?c = "of_nat (2 ^ k) :: ulong"
  let ?p = "mod_pass (of_nat r) ?D ?c"
  have unfold: "mod_loop (of_nat r) ?D ?c =
      (if fst ?p \<noteq> 0 \<and> drop_bit 4 ?c \<noteq> 0
       then mod_loop (fst ?p) (drop_bit 4 ?D) (drop_bit 4 ?c)
       else Some (fst ?p, ?D, snd ?p, ?c))"
    by (subst mod_loop.simps) (simp only: Let_def split_def)
  show ?case
  proof (cases "k < 3")
    case True
    then have "drop_bit 4 ?c = 0" by (simp only: drop_curbit [OF curbit]) simp
    with unfold last_remainder [OF less.prems(1,2) assms(3,4) True] show ?thesis
      by (simp only: simp_thms if_False) blast
  next
    case False
    then obtain r' q' where p: "fst ?p = of_nat r'" "dividing a d (k - 3) r' q'"
      using div_pass_full [OF less.prems(1,2) assms(3,4)] mod_pass_fst [of "of_nat r" ?D ?c "of_nat q"] by auto
    have none: "fix_up x ?D (snd ?p) ip = x" for x ip
      using False less.prems(3) by (intro fix_up_none) simp_all
    have r': "r' < 2 ^ 32" using p(2) assms(4) by (simp add: dividing_def)
    show ?thesis
    proof (cases "r' = 0 \<or> k = 3")
      case True
      then have "r' = a mod d" using p(2) dividing_zero dividing_end by auto
      moreover have "drop_bit 4 ?c = 0" if "k = 3"
        using that by (simp only: drop_curbit [OF curbit]) simp
      ultimately show ?thesis using unfold p(1) True none by auto
    next
      case more: False
      then have k: "4 \<le> k" "k - 3 = k - 4 + 1" using False by linarith+
      have "(of_nat r' :: ulong) \<noteq> 0" using more r' by (metis unat_word unat_0)
      then have "mod_loop (of_nat r) ?D ?c = mod_loop (of_nat r') (of_nat (d * 2 ^ (k - 4))) (of_nat (2 ^ (k - 4)))"
        using unfold p(1) less.prems(2) k(1) shifted_curbit [OF curbit k(1)]
        by (simp only: drop_aligned drop_curbit [OF curbit] if_True simp_thms)
      moreover have "d * 2 ^ (k - 4) < 2 ^ 32"
        by (rule order_le_less_trans [OF _ less.prems(2)]) simp
      ultimately show ?thesis
        using less.IH [of "k - 4" r' q'] p(2) k less.prems(3) by simp
    qed
  qed
qed

text \<open>
  C38. \<^verbatim>\<open>__umodsi3\<close> ends and gives the remainder for every divisor from 4 on.
\<close>

theorem remainder_exact:
  assumes "4 \<le> d"
  shows "umodsi3 a d = Some (Inr (a mod d))"
proof (cases "a < d")
  case True
  then have "a mod d = a" by (simp add: word_less_nat_alt word_unat_eq_iff unat_mod)
  moreover have "d \<noteq> 0" using assms by auto
  ultimately show ?thesis using True by (simp add: umodsi3_def)
next
  case False
  have "4 \<le> unat d" using assms by (simp add: word_le_nat_alt)
  then have d: "d \<noteq> 0" "0 < unat d" by auto
  obtain k where k: "align_divisor a d 1 = Some (of_nat (unat d * 2 ^ k), of_nat (2 ^ k))"
    "unat d * 2 ^ k < 2 ^ 32" "unat a < unat d * 2 ^ (k + 1)"
    using align_divisor_ends [OF d(1), of 0 a] ulong_less [of d] by auto
  have "(2 :: nat) ^ (k + 2) \<le> unat d * 2 ^ k" using \<open>4 \<le> unat d\<close> by (simp add: power_add)
  then have "(2 :: nat) ^ (k + 2) < 2 ^ 32" using k(2) by (rule order_le_less_trans)
  then have "k < 30" using power_less_imp_less_exp [of "2 :: nat" "k + 2" 32] by simp
  moreover have "dividing (unat a) (unat d) (k + 1) (unat a) 0"
    using k(3) by (simp add: dividing_def)
  ultimately obtain x D out c where
    "mod_loop (of_nat (unat a)) (of_nat (unat d * 2 ^ k)) (of_nat (2 ^ k)) = Some (x, D, out, c)"
    "fix_up x D out c = of_nat (unat a mod unat d)"
    using mod_loop_ends [of "unat a" "unat d" k "unat a" 0] k(2) d(2) ulong_less [of a] by blast
  moreover have "(of_nat (unat a mod unat d) :: ulong) = a mod d"
    by (simp add: unat_mod [symmetric])
  ultimately show ?thesis
    using d(1) False k(1) by (simp add: umodsi3_def)
qed

lemma remainder_exact_witness: "umodsi3 1000000007 10 = Some (Inr 7)"
  using remainder_exact [of 10 1000000007] by simp

text \<open>For 1 and 2 the bit of an early end may be one of the two highest, which the fix-up takes
  for a bit rotated round: it adds back a subtraction that was due.\<close>

lemma remainder_of_2_wrong: "umodsi3 0xC0000000 2 = Some (Inr 0x40000000)"
  by code_simp

end
