(* ===== verification/Runtime_Signed.thy ===== *)
theory Runtime_Signed
  imports Runtime_Library
begin

text \<open>
  The signed division of \<^verbatim>\<open>NewtonRuntime/_divsi3.s\<close>, \<^verbatim>\<open>__divsi3\<close> and \<^verbatim>\<open>__aeabi_idivmod\<close>: it
  takes the magnitudes of its arguments, sets the divisors 1 and those that are a power of two
  apart, and divides the others by the loops of the unsigned division.
\<close>

unbundle bit_operations_syntax

section \<open>The routine\<close>

text \<open>The condition \<^verbatim>\<open>mi\<close>, the highest bit, and \<^verbatim>\<open>rsbmi r, r, #0\<close>.\<close>

definition negative :: "ulong \<Rightarrow> bool" where
  "negative w \<longleftrightarrow> bit w 31"

definition rsbmi :: "bool \<Rightarrow> ulong \<Rightarrow> ulong" where
  "rsbmi mi r = (if mi then 0 - r else r)"

text \<open>\<^verbatim>\<open>ARM_DIV_BODY\<close>: the divisor is first moved up by three bits, if that is possible; the
  alignment and the division loop are those of \<^verbatim>\<open>__udivsi3\<close>.\<close>

definition first_shift :: "ulong \<Rightarrow> ulong \<times> ulong" where
  "first_shift divisor =
     (if divisor AND 0xe0000000 = 0 then (push_bit 3 divisor, 8) else (divisor, 1))"

definition ARM_DIV_BODY :: "ulong \<Rightarrow> ulong \<Rightarrow> ulong option" where
  "ARM_DIV_BODY dividend divisor = do {
     let (divisor, curbit) = first_shift divisor;
     (divisor, curbit) \<leftarrow> align_divisor dividend divisor curbit;
     div_loop dividend divisor 0 curbit
   }"

text \<open>\<^verbatim>\<open>ARM_DIV2_ORDER\<close>: the number of the only bit that is set.\<close>

definition ARM_DIV2_ORDER :: "ulong \<Rightarrow> ulong" where
  "ARM_DIV2_ORDER divisor =
     (let (divisor, order) = (if divisor \<ge> push_bit 16 1 then (drop_bit 16 divisor, 16) else (divisor, 0));
          (divisor, order) =
            (if divisor \<ge> push_bit 8 1 then (drop_bit 8 divisor, order + 8) else (divisor, order));
          (divisor, order) =
            (if divisor \<ge> push_bit 4 1 then (drop_bit 4 divisor, order + 4) else (divisor, order))
      in if divisor > push_bit 2 1 then order + 3 else order + drop_bit 1 divisor)"

definition divsi3 :: "ulong \<Rightarrow> ulong \<Rightarrow> (runtime_exception + ulong) option" where
  "divsi3 r0 r1 =
     (let ip = r0 XOR r1
      in if r1 = 0 then Some div0
      else let r1 = rsbmi (negative r1) r1;
               r2 = r1 - 1
      in if r2 = 0 then Some (Inr (rsbmi (negative (ip XOR r0)) r0))
      else let r3 = rsbmi (negative r0) r0
      in if r3 < r1 then Some (Inr 0)
      else if r3 = r1 then Some (Inr (signed_drop_bit 31 ip OR 1))
      else if r1 AND r2 = 0
      then Some (Inr (rsbmi (negative ip) (drop_bit (unat (ARM_DIV2_ORDER r1)) r3)))
      else do {
        r0 \<leftarrow> ARM_DIV_BODY r3 r1;
        Some (Inr (rsbmi (negative ip) r0))
      })"

definition aeabi_idivmod :: "ulong \<Rightarrow> ulong \<Rightarrow> (runtime_exception + ulong \<times> ulong) option" where
  "aeabi_idivmod dividend divisor =
     (case divsi3 dividend divisor of
        None \<Rightarrow> None
      | Some (Inl e) \<Rightarrow> Some (Inl e)
      | Some (Inr q) \<Rightarrow> Some (Inr (q, dividend - q * divisor)))"

section \<open>Magnitudes and signs\<close>

lemma negative_sint: "negative w \<longleftrightarrow> sint w < 0"
  using bit_last_iff [of w] by (simp add: negative_def)

lemma negative_xor: "negative (a XOR b) \<longleftrightarrow> negative a \<noteq> negative b"
  by (simp add: negative_def bit_xor_iff)

lemma magnitude_uint: "uint (rsbmi (negative w) w) = \<bar>sint w\<bar>"
proof (cases "negative w")
  case True
  then have "- (2 ^ 31) \<le> sint w" "sint w < 0"
    using sint_ge [of w] by (simp_all add: negative_sint)
  moreover have "0 - w = word_of_int (- sint w)" by simp
  ultimately show ?thesis
    using True by (simp only: rsbmi_def if_True uint_word_of_int) simp
next
  case False
  then have "0 \<le> sint w" "sint w < 2 ^ 31"
    using sint_lt [of w] by (simp_all add: negative_sint)
  then have "uint w = sint w"
    by (simp add: uint_sint take_bit_int_eq_self)
  with False \<open>0 \<le> sint w\<close> show ?thesis by (simp add: rsbmi_def)
qed

lemma signed_quotient:
  assumes "uint q = \<bar>sint a\<bar> div \<bar>sint b\<bar>"
  shows "rsbmi (negative (a XOR b)) q = word_of_int (c_div (sint a) (sint b))"
proof -
  define x y where "x = sint a" and "y = sint b"
  have "q = word_of_int (\<bar>x\<bar> div \<bar>y\<bar>)"
    by (simp add: x_def y_def flip: assms)
  moreover have "negative (a XOR b) \<longleftrightarrow> (x < 0) \<noteq> (y < 0)"
    by (simp only: x_def y_def negative_sint [symmetric] negative_xor)
  ultimately show ?thesis
    unfolding x_def [symmetric] y_def [symmetric]
    by (cases x "0 :: int" rule: linorder_cases; cases y "0 :: int" rule: linorder_cases)
      (simp_all add: rsbmi_def c_div_def)
qed

section \<open>The quotient of the magnitudes\<close>

lemma ARM_DIV_BODY_divides:
  assumes "d \<noteq> 0"
  shows "ARM_DIV_BODY a d = Some (a div d)"
proof (cases "d AND 0xe0000000 = 0")
  case True
  have "drop_bit 29 (0xe0000000 :: ulong) = mask 3" by code_simp
  then have "take_bit 3 (drop_bit 29 d) = drop_bit 29 (d AND 0xe0000000)"
    by (simp add: drop_bit_and take_bit_eq_mask)
  with True have "drop_bit 29 d = 0"
    by (simp add: take_bit_drop_bit take_bit_word_eq_self)
  then have "drop_bit 29 (unat d) = 0"
    by (simp only: unat_drop_bit_eq [symmetric] unat_0)
  then have small: "unat d * 2 ^ 3 < 2 ^ 32" by (simp add: drop_bit_eq_div div_eq_0_iff)
  have "first_shift d = (of_nat (unat d * 2 ^ 3), of_nat (2 ^ 3))"
    using True by (simp add: first_shift_def push_bit_eq_mult)
  with aligned_division [OF assms small] show ?thesis
    by (simp add: ARM_DIV_BODY_def del: of_nat_mult of_nat_power)
next
  case False
  with aligned_division [of d 0 a] assms ulong_less [of d] show ?thesis
    by (simp add: ARM_DIV_BODY_def first_shift_def)
qed

text \<open>A word that shares no bit with its predecessor is a power of two: above its highest bit
  both have that bit.\<close>

lemma power_of_two:
  fixes w :: ulong
  assumes "w \<noteq> 0" "w AND (w - 1) = 0"
  shows "\<exists>n < 32. w = 2 ^ n"
proof -
  have "0 < unat w" using assms(1) by (simp add: unat_gt_0)
  then obtain n where n: "2 ^ n \<le> unat w" "unat w < 2 ^ (n + 1)"
    using ex_power_ivl1 [of 2 "unat w"] by auto
  have "(2 :: nat) ^ n < 2 ^ 32" using n(1) ulong_less [of w] by (rule order_le_less_trans)
  then have "n < 32" using power_less_imp_less_exp [of "2 :: nat" n 32] by simp
  have bit: "bit v n" if "2 ^ n \<le> unat v" "unat v < 2 ^ (n + 1)" for v :: ulong
  proof -
    have "unat v div 2 ^ n = 1"
      using that by (intro div_nat_eqI) simp_all
    then have "bit (unat v) n" by (simp add: bit_iff_odd)
    then show ?thesis by (simp add: bit_unsigned_iff)
  qed
  have "unat w = 2 ^ n"
  proof (rule ccontr)
    assume "unat w \<noteq> 2 ^ n"
    then have "2 ^ n \<le> unat (w - 1)" "unat (w - 1) < 2 ^ (n + 1)"
      using n assms(1) by (simp_all add: unat_minus_one)
    then have "bit (w AND (w - 1)) n" using bit n by (simp add: bit_and_iff)
    then show False using assms(2) by simp
  qed
  then have "of_nat (unat w) = (2 ^ n :: ulong)" by simp
  then have "w = 2 ^ n" by simp
  with \<open>n < 32\<close> show ?thesis by blast
qed

lemma order_of_power: "n < 32 \<Longrightarrow> unat (ARM_DIV2_ORDER (2 ^ n)) = n"
proof -
  have "list_all (\<lambda>n. unat (ARM_DIV2_ORDER (2 ^ n)) = n) [0..<32]" by code_simp
  then show "n < 32 \<Longrightarrow> ?thesis" by (simp add: list_all_iff)
qed

lemma shift_divides:
  assumes "w \<noteq> 0" "w AND (w - 1) = 0"
  shows "drop_bit (unat (ARM_DIV2_ORDER w)) v = v div w"
proof -
  obtain n where "n < 32" "w = 2 ^ n" using power_of_two [OF assms] by blast
  then show ?thesis by (simp add: order_of_power drop_bit_eq_div)
qed

section \<open>The result\<close>

lemma division_by_1:
  assumes "rsbmi (negative b) b = 1"
  shows "rsbmi (negative ((a XOR b) XOR a)) a = word_of_int (c_div (sint a) (sint b))"
proof -
  have "\<bar>sint b\<bar> = 1" using magnitude_uint [of b] assms by simp
  then consider "sint b = 1" "\<not> negative b" | "sint b = - 1" "negative b"
    unfolding negative_sint by linarith
  moreover have "negative ((a XOR b) XOR a) \<longleftrightarrow> negative b" by (auto simp: negative_xor)
  ultimately show ?thesis
    by cases (simp_all only: rsbmi_def c_div_def sgn_1 sgn_minus abs_minus abs_1 if_True if_False,
        simp_all add: sgn_mult_abs wi_hom_neg [symmetric])
qed

lemma sign_or_1: "signed_drop_bit 31 ip OR 1 = rsbmi (negative ip) 1"
proof -
  have "signed_drop_bit 31 ip = (if negative ip then - 1 else 0)"
    by (rule bit_word_eqI) (auto simp: negative_def bit_signed_drop_bit_iff not_less less_Suc_eq_0_disj not_less_eq_eq)
  then show ?thesis by (simp add: rsbmi_def)
qed

text \<open>
  \<^verbatim>\<open>__divsi3\<close> and \<^verbatim>\<open>__aeabi_idivmod\<close> end for all arguments and give the quotient rounded
  towards zero, at 32 bits, and the remainder that goes with it; a division by zero throws.
\<close>

theorem signed_division_exact:
  "divsi3 a b = Some (if b = 0 then Inl exDivideByZero
     else Inr (word_of_int (c_div (sint a) (sint b)))) \<and>
   aeabi_idivmod a b = Some (if b = 0 then Inl exDivideByZero
     else Inr (word_of_int (c_div (sint a) (sint b)),
               word_of_int (sint a - c_div (sint a) (sint b) * sint b)))"
proof -
  let ?x = "rsbmi (negative a) a" and ?y = "rsbmi (negative b) b"
  have quotient: "rsbmi (negative (a XOR b)) (?x div ?y) = word_of_int (c_div (sint a) (sint b))"
    by (rule signed_quotient) (simp add: uint_div magnitude_uint)
  have zero: "?y = 0 \<longleftrightarrow> b = 0" by (simp add: rsbmi_def)
  have div: "divsi3 a b = Some (Inr (word_of_int (c_div (sint a) (sint b))))" if "b \<noteq> 0"
  proof -
    consider "?y = 1" | "?y \<noteq> 1" "?x < ?y" | "?y \<noteq> 1" "?x = ?y" | "?y \<noteq> 1" "?y < ?x"
      by fastforce
    then show ?thesis
    proof cases
      case 1
      with division_by_1 [OF 1, of a] that show ?thesis by (simp add: divsi3_def Let_def)
    next
      case 2
      then have "?x div ?y = 0" by (simp add: word_less_nat_alt word_unat_eq_iff unat_div)
      with quotient 2 that show ?thesis by (simp add: divsi3_def Let_def rsbmi_def split: if_splits)
    next
      case 3
      then have "?x div ?y = 1" using that zero by (simp add: word_unat_eq_iff unat_div)
      with quotient 3 that show ?thesis by (simp add: divsi3_def Let_def sign_or_1)
    next
      case 4
      then have "\<not> ?x < ?y" "?x \<noteq> ?y" by auto
      with 4 quotient ARM_DIV_BODY_divides [of ?y ?x] shift_divides [of ?y ?x] zero that
      show ?thesis by (simp add: divsi3_def Let_def)
    qed
  qed
  moreover have "a - word_of_int q * b = word_of_int (sint a - q * sint b)" for q
    by (simp add: wi_hom_sub [symmetric] wi_hom_mult [symmetric])
  ultimately show ?thesis
    by (simp add: aeabi_idivmod_def) (simp add: divsi3_def div0_def)
qed

end
