(* ===== verification/Library_Config.thy ===== *)
theory Library_Config
  imports "HOL-Library.Sublist" Newton_Prelude
begin

text \<open>
  \<^verbatim>\<open>Common/mbedtls/config.h\<close>, the configuration mbed TLS is built with: every option of the
  header, whether it is defined, what it expands to, what its documentation says it requires
  or excludes, and the ciphersuites it says it enables. Names stand without their prefix
  \<^verbatim>\<open>MBEDTLS_\<close>, ciphersuites without \<^verbatim>\<open>MBEDTLS_TLS_\<close>; a definition holds the options of a stretch of
  the header, in their order.
\<close>

type_synonym macro = string

datatype need = Needs macro | One_of "macro list" | Excludes macro

record setting =
  macro_name :: macro
  is_defined :: bool
  expansion :: string
  needs :: "need list"
  enables :: "string list"

text \<open>A macro that is defined, and one whose definition is a comment.\<close>

definition on :: "macro \<Rightarrow> string \<Rightarrow> need list \<Rightarrow> setting" where
  "on m v ns = \<lparr>macro_name = m, is_defined = True, expansion = v, needs = ns, enables = []\<rparr>"

definition off :: "macro \<Rightarrow> string \<Rightarrow> need list \<Rightarrow> setting" where
  "off m v ns = \<lparr>macro_name = m, is_defined = False, expansion = v, needs = ns, enables = []\<rparr>"

definition enabling :: "setting \<Rightarrow> string list \<Rightarrow> setting" where
  "enabling s suites = s\<lparr>enables := suites\<rparr>"

section \<open>The options\<close>

definition curves :: "macro list" where
  "curves = [
    ''ECP_DP_SECP192R1_ENABLED'', ''ECP_DP_SECP224R1_ENABLED'', ''ECP_DP_SECP256R1_ENABLED'',
    ''ECP_DP_SECP384R1_ENABLED'', ''ECP_DP_SECP521R1_ENABLED'', ''ECP_DP_SECP192K1_ENABLED'',
    ''ECP_DP_SECP224K1_ENABLED'', ''ECP_DP_SECP256K1_ENABLED'', ''ECP_DP_BP256R1_ENABLED'',
    ''ECP_DP_BP384R1_ENABLED'', ''ECP_DP_BP512R1_ENABLED'', ''ECP_DP_CURVE25519_ENABLED'',
    ''ECP_DP_CURVE448_ENABLED'']"

definition platform_services :: "setting list" where
  "platform_services = [
    off ''HAVE_ASM'' '''' [],
    on ''NO_UDBL_DIVISION'' '''' [],
    on ''NO_64BIT_MULTIPLICATION'' '''' [],
    off ''HAVE_SSE2'' '''' [],
    on ''HAVE_TIME'' '''' [],
    on ''HAVE_TIME_DATE'' '''' [],
    on ''PLATFORM_MEMORY'' '''' [Needs ''PLATFORM_C'']]"

definition platform_layer :: "setting list" where
  "platform_layer = [
    on ''PLATFORM_NO_STD_FUNCTIONS'' '''' [Needs ''PLATFORM_C''],
    off ''PLATFORM_EXIT_ALT'' '''' [Needs ''PLATFORM_C'', Excludes ''PLATFORM_EXIT_MACRO''],
    off ''PLATFORM_TIME_ALT'' ''''
      [Needs ''PLATFORM_C'', Needs ''HAVE_TIME'', Excludes ''PLATFORM_TIME_MACRO''],
    off ''PLATFORM_FPRINTF_ALT'' ''''
      [Needs ''PLATFORM_C'', Excludes ''PLATFORM_FPRINTF_MACRO''],
    off ''PLATFORM_PRINTF_ALT'' '''' [Needs ''PLATFORM_C'', Excludes ''PLATFORM_PRINTF_MACRO''],
    off ''PLATFORM_SNPRINTF_ALT'' ''''
      [Needs ''PLATFORM_C'', Excludes ''PLATFORM_SNPRINTF_MACRO''],
    off ''PLATFORM_NV_SEED_ALT'' ''''
      [Needs ''PLATFORM_C'', Excludes ''PLATFORM_NV_SEED_READ_MACRO'',
       Excludes ''PLATFORM_NV_SEED_WRITE_MACRO''],
    off ''PLATFORM_SETUP_TEARDOWN_ALT'' '''' [Needs ''PLATFORM_C''],
    off ''DEPRECATED_WARNING'' '''' [],
    off ''DEPRECATED_REMOVED'' '''' [],
    off ''CHECK_PARAMS'' '''' [],
    off ''CHECK_PARAMS_ASSERT'' '''' []]"

definition alternative_modules :: "setting list" where
  "alternative_modules = [
    off ''TIMING_ALT'' '''' [Needs ''TIMING_C''],
    off ''AES_ALT'' '''' [],
    off ''ARC4_ALT'' '''' [],
    off ''ARIA_ALT'' '''' [],
    off ''BLOWFISH_ALT'' '''' [],
    off ''CAMELLIA_ALT'' '''' [],
    off ''CCM_ALT'' '''' [],
    off ''CHACHA20_ALT'' '''' [],
    off ''CHACHAPOLY_ALT'' '''' [],
    off ''CMAC_ALT'' '''' [],
    off ''DES_ALT'' '''' [],
    off ''DHM_ALT'' '''' [],
    off ''ECJPAKE_ALT'' '''' [],
    off ''GCM_ALT'' '''' [],
    off ''NIST_KW_ALT'' '''' [],
    off ''MD2_ALT'' '''' [],
    off ''MD4_ALT'' '''' [],
    off ''MD5_ALT'' '''' [],
    off ''POLY1305_ALT'' '''' [],
    off ''RIPEMD160_ALT'' '''' [],
    off ''RSA_ALT'' '''' [],
    off ''SHA1_ALT'' '''' [],
    off ''SHA256_ALT'' '''' [],
    off ''SHA512_ALT'' '''' [],
    off ''XTEA_ALT'' '''' [],
    off ''ECP_ALT'' '''' [],
    off ''MD2_PROCESS_ALT'' '''' [],
    off ''MD4_PROCESS_ALT'' '''' [],
    off ''MD5_PROCESS_ALT'' '''' [],
    off ''RIPEMD160_PROCESS_ALT'' '''' [],
    off ''SHA1_PROCESS_ALT'' '''' [],
    off ''SHA256_PROCESS_ALT'' '''' [],
    off ''SHA512_PROCESS_ALT'' '''' [],
    off ''DES_SETKEY_ALT'' '''' [],
    off ''DES_CRYPT_ECB_ALT'' '''' [],
    off ''DES3_CRYPT_ECB_ALT'' '''' [],
    off ''AES_SETKEY_ENC_ALT'' '''' [],
    off ''AES_SETKEY_DEC_ALT'' '''' [],
    off ''AES_ENCRYPT_ALT'' '''' [],
    off ''AES_DECRYPT_ALT'' '''' [],
    off ''ECDH_GEN_PUBLIC_ALT'' '''' [],
    off ''ECDH_COMPUTE_SHARED_ALT'' '''' [],
    off ''ECDSA_VERIFY_ALT'' '''' [],
    off ''ECDSA_SIGN_ALT'' '''' [],
    off ''ECDSA_GENKEY_ALT'' '''' []]"

definition curve_and_cipher_modes :: "setting list" where
  "curve_and_cipher_modes = [
    off ''ECP_INTERNAL_ALT'' '''' [],
    off ''ECP_RANDOMIZE_JAC_ALT'' '''' [Needs ''ECP_INTERNAL_ALT''],
    off ''ECP_ADD_MIXED_ALT'' '''' [Needs ''ECP_INTERNAL_ALT''],
    off ''ECP_DOUBLE_JAC_ALT'' '''' [Needs ''ECP_INTERNAL_ALT''],
    off ''ECP_NORMALIZE_JAC_MANY_ALT'' '''' [Needs ''ECP_INTERNAL_ALT''],
    off ''ECP_NORMALIZE_JAC_ALT'' '''' [Needs ''ECP_INTERNAL_ALT''],
    off ''ECP_DOUBLE_ADD_MXZ_ALT'' '''' [Needs ''ECP_INTERNAL_ALT''],
    off ''ECP_RANDOMIZE_MXZ_ALT'' '''' [Needs ''ECP_INTERNAL_ALT''],
    off ''ECP_NORMALIZE_MXZ_ALT'' '''' [Needs ''ECP_INTERNAL_ALT''],
    off ''TEST_NULL_ENTROPY'' '''' [Needs ''ENTROPY_C'', Needs ''NO_DEFAULT_ENTROPY_SOURCES''],
    on ''ENTROPY_HARDWARE_ALT'' '''' [],
    on ''AES_ROM_TABLES'' '''' [],
    off ''AES_FEWER_TABLES'' '''' [],
    off ''CAMELLIA_SMALL_MEMORY'' '''' [],
    on ''CIPHER_MODE_CBC'' '''' [],
    on ''CIPHER_MODE_CFB'' '''' [],
    on ''CIPHER_MODE_CTR'' '''' [],
    on ''CIPHER_MODE_OFB'' '''' [],
    on ''CIPHER_MODE_XTS'' '''' []]"

definition ciphersuite_policy :: "setting list" where
  "ciphersuite_policy = [
    enabling (off ''CIPHER_NULL_CIPHER'' '''' [Needs ''ENABLE_WEAK_CIPHERSUITES''])
      [''ECDH_ECDSA_WITH_NULL_SHA'', ''ECDH_RSA_WITH_NULL_SHA'',
       ''ECDHE_ECDSA_WITH_NULL_SHA'', ''ECDHE_RSA_WITH_NULL_SHA'',
       ''ECDHE_PSK_WITH_NULL_SHA384'', ''ECDHE_PSK_WITH_NULL_SHA256'',
       ''ECDHE_PSK_WITH_NULL_SHA'', ''DHE_PSK_WITH_NULL_SHA384'',
       ''DHE_PSK_WITH_NULL_SHA256'', ''DHE_PSK_WITH_NULL_SHA'', ''RSA_WITH_NULL_SHA256'',
       ''RSA_WITH_NULL_SHA'', ''RSA_WITH_NULL_MD5'', ''RSA_PSK_WITH_NULL_SHA384'',
       ''RSA_PSK_WITH_NULL_SHA256'', ''RSA_PSK_WITH_NULL_SHA'', ''PSK_WITH_NULL_SHA384'',
       ''PSK_WITH_NULL_SHA256'', ''PSK_WITH_NULL_SHA''],
    on ''CIPHER_PADDING_PKCS7'' '''' [],
    on ''CIPHER_PADDING_ONE_AND_ZEROS'' '''' [],
    on ''CIPHER_PADDING_ZEROS_AND_LEN'' '''' [],
    on ''CIPHER_PADDING_ZEROS'' '''' [],
    off ''CTR_DRBG_USE_128_BIT_KEY'' '''' [],
    enabling (off ''ENABLE_WEAK_CIPHERSUITES'' '''' [])
      [''RSA_WITH_DES_CBC_SHA'', ''DHE_RSA_WITH_DES_CBC_SHA''],
    on ''REMOVE_ARC4_CIPHERSUITES'' '''' [],
    on ''REMOVE_3DES_CIPHERSUITES'' '''' [],
    on ''ECP_DP_SECP192R1_ENABLED'' '''' [],
    on ''ECP_DP_SECP224R1_ENABLED'' '''' [],
    on ''ECP_DP_SECP256R1_ENABLED'' '''' [],
    on ''ECP_DP_SECP384R1_ENABLED'' '''' [],
    on ''ECP_DP_SECP521R1_ENABLED'' '''' [],
    on ''ECP_DP_SECP192K1_ENABLED'' '''' [],
    on ''ECP_DP_SECP224K1_ENABLED'' '''' [],
    on ''ECP_DP_SECP256K1_ENABLED'' '''' [],
    on ''ECP_DP_BP256R1_ENABLED'' '''' [],
    on ''ECP_DP_BP384R1_ENABLED'' '''' [],
    on ''ECP_DP_BP512R1_ENABLED'' '''' [],
    on ''ECP_DP_CURVE25519_ENABLED'' '''' [],
    on ''ECP_DP_CURVE448_ENABLED'' '''' [],
    on ''ECP_NIST_OPTIM'' '''' []]"

definition psk_exchanges :: "setting list" where
  "psk_exchanges = [
    off ''ECP_RESTARTABLE'' ''''
      [Excludes ''ECP_ALT'', Excludes ''ECDH_GEN_PUBLIC_ALT'',
       Excludes ''ECDH_COMPUTE_SHARED_ALT'', Excludes ''ECDSA_VERIFY_ALT'',
       Excludes ''ECDSA_SIGN_ALT'', Excludes ''ECDSA_GENKEY_ALT''],
    on ''ECDSA_DETERMINISTIC'' '''' [Needs ''HMAC_DRBG_C''],
    enabling (on ''KEY_EXCHANGE_PSK_ENABLED'' '''' [])
      [''PSK_WITH_AES_256_GCM_SHA384'', ''PSK_WITH_AES_256_CBC_SHA384'',
       ''PSK_WITH_AES_256_CBC_SHA'', ''PSK_WITH_CAMELLIA_256_GCM_SHA384'',
       ''PSK_WITH_CAMELLIA_256_CBC_SHA384'', ''PSK_WITH_AES_128_GCM_SHA256'',
       ''PSK_WITH_AES_128_CBC_SHA256'', ''PSK_WITH_AES_128_CBC_SHA'',
       ''PSK_WITH_CAMELLIA_128_GCM_SHA256'', ''PSK_WITH_CAMELLIA_128_CBC_SHA256'',
       ''PSK_WITH_3DES_EDE_CBC_SHA'', ''PSK_WITH_RC4_128_SHA''],
    enabling (on ''KEY_EXCHANGE_DHE_PSK_ENABLED'' '''' [Needs ''DHM_C''])
      [''DHE_PSK_WITH_AES_256_GCM_SHA384'', ''DHE_PSK_WITH_AES_256_CBC_SHA384'',
       ''DHE_PSK_WITH_AES_256_CBC_SHA'', ''DHE_PSK_WITH_CAMELLIA_256_GCM_SHA384'',
       ''DHE_PSK_WITH_CAMELLIA_256_CBC_SHA384'', ''DHE_PSK_WITH_AES_128_GCM_SHA256'',
       ''DHE_PSK_WITH_AES_128_CBC_SHA256'', ''DHE_PSK_WITH_AES_128_CBC_SHA'',
       ''DHE_PSK_WITH_CAMELLIA_128_GCM_SHA256'', ''DHE_PSK_WITH_CAMELLIA_128_CBC_SHA256'',
       ''DHE_PSK_WITH_3DES_EDE_CBC_SHA'', ''DHE_PSK_WITH_RC4_128_SHA''],
    enabling (on ''KEY_EXCHANGE_ECDHE_PSK_ENABLED'' '''' [Needs ''ECDH_C''])
      [''ECDHE_PSK_WITH_AES_256_CBC_SHA384'', ''ECDHE_PSK_WITH_AES_256_CBC_SHA'',
       ''ECDHE_PSK_WITH_CAMELLIA_256_CBC_SHA384'', ''ECDHE_PSK_WITH_AES_128_CBC_SHA256'',
       ''ECDHE_PSK_WITH_AES_128_CBC_SHA'', ''ECDHE_PSK_WITH_CAMELLIA_128_CBC_SHA256'',
       ''ECDHE_PSK_WITH_3DES_EDE_CBC_SHA'', ''ECDHE_PSK_WITH_RC4_128_SHA''],
    enabling (on ''KEY_EXCHANGE_RSA_PSK_ENABLED'' ''''
      [Needs ''RSA_C'', Needs ''PKCS1_V15'', Needs ''X509_CRT_PARSE_C''])
      [''RSA_PSK_WITH_AES_256_GCM_SHA384'', ''RSA_PSK_WITH_AES_256_CBC_SHA384'',
       ''RSA_PSK_WITH_AES_256_CBC_SHA'', ''RSA_PSK_WITH_CAMELLIA_256_GCM_SHA384'',
       ''RSA_PSK_WITH_CAMELLIA_256_CBC_SHA384'', ''RSA_PSK_WITH_AES_128_GCM_SHA256'',
       ''RSA_PSK_WITH_AES_128_CBC_SHA256'', ''RSA_PSK_WITH_AES_128_CBC_SHA'',
       ''RSA_PSK_WITH_CAMELLIA_128_GCM_SHA256'', ''RSA_PSK_WITH_CAMELLIA_128_CBC_SHA256'',
       ''RSA_PSK_WITH_3DES_EDE_CBC_SHA'', ''RSA_PSK_WITH_RC4_128_SHA'']]"

definition rsa_exchanges :: "setting list" where
  "rsa_exchanges = [
    enabling (on ''KEY_EXCHANGE_RSA_ENABLED'' ''''
      [Needs ''RSA_C'', Needs ''PKCS1_V15'', Needs ''X509_CRT_PARSE_C''])
      [''RSA_WITH_AES_256_GCM_SHA384'', ''RSA_WITH_AES_256_CBC_SHA256'',
       ''RSA_WITH_AES_256_CBC_SHA'', ''RSA_WITH_CAMELLIA_256_GCM_SHA384'',
       ''RSA_WITH_CAMELLIA_256_CBC_SHA256'', ''RSA_WITH_CAMELLIA_256_CBC_SHA'',
       ''RSA_WITH_AES_128_GCM_SHA256'', ''RSA_WITH_AES_128_CBC_SHA256'',
       ''RSA_WITH_AES_128_CBC_SHA'', ''RSA_WITH_CAMELLIA_128_GCM_SHA256'',
       ''RSA_WITH_CAMELLIA_128_CBC_SHA256'', ''RSA_WITH_CAMELLIA_128_CBC_SHA'',
       ''RSA_WITH_3DES_EDE_CBC_SHA'', ''RSA_WITH_RC4_128_SHA'', ''RSA_WITH_RC4_128_MD5''],
    enabling (on ''KEY_EXCHANGE_DHE_RSA_ENABLED'' ''''
      [Needs ''DHM_C'', Needs ''RSA_C'', Needs ''PKCS1_V15'', Needs ''X509_CRT_PARSE_C''])
      [''DHE_RSA_WITH_AES_256_GCM_SHA384'', ''DHE_RSA_WITH_AES_256_CBC_SHA256'',
       ''DHE_RSA_WITH_AES_256_CBC_SHA'', ''DHE_RSA_WITH_CAMELLIA_256_GCM_SHA384'',
       ''DHE_RSA_WITH_CAMELLIA_256_CBC_SHA256'', ''DHE_RSA_WITH_CAMELLIA_256_CBC_SHA'',
       ''DHE_RSA_WITH_AES_128_GCM_SHA256'', ''DHE_RSA_WITH_AES_128_CBC_SHA256'',
       ''DHE_RSA_WITH_AES_128_CBC_SHA'', ''DHE_RSA_WITH_CAMELLIA_128_GCM_SHA256'',
       ''DHE_RSA_WITH_CAMELLIA_128_CBC_SHA256'', ''DHE_RSA_WITH_CAMELLIA_128_CBC_SHA'',
       ''DHE_RSA_WITH_3DES_EDE_CBC_SHA''],
    enabling (on ''KEY_EXCHANGE_ECDHE_RSA_ENABLED'' ''''
      [Needs ''ECDH_C'', Needs ''RSA_C'', Needs ''PKCS1_V15'', Needs ''X509_CRT_PARSE_C''])
      [''ECDHE_RSA_WITH_AES_256_GCM_SHA384'', ''ECDHE_RSA_WITH_AES_256_CBC_SHA384'',
       ''ECDHE_RSA_WITH_AES_256_CBC_SHA'', ''ECDHE_RSA_WITH_CAMELLIA_256_GCM_SHA384'',
       ''ECDHE_RSA_WITH_CAMELLIA_256_CBC_SHA384'', ''ECDHE_RSA_WITH_AES_128_GCM_SHA256'',
       ''ECDHE_RSA_WITH_AES_128_CBC_SHA256'', ''ECDHE_RSA_WITH_AES_128_CBC_SHA'',
       ''ECDHE_RSA_WITH_CAMELLIA_128_GCM_SHA256'', ''ECDHE_RSA_WITH_CAMELLIA_128_CBC_SHA256'',
       ''ECDHE_RSA_WITH_3DES_EDE_CBC_SHA'', ''ECDHE_RSA_WITH_RC4_128_SHA''],
    enabling (on ''KEY_EXCHANGE_ECDHE_ECDSA_ENABLED'' ''''
      [Needs ''ECDH_C'', Needs ''ECDSA_C'', Needs ''X509_CRT_PARSE_C''])
      [''ECDHE_ECDSA_WITH_AES_256_GCM_SHA384'', ''ECDHE_ECDSA_WITH_AES_256_CBC_SHA384'',
       ''ECDHE_ECDSA_WITH_AES_256_CBC_SHA'', ''ECDHE_ECDSA_WITH_CAMELLIA_256_GCM_SHA384'',
       ''ECDHE_ECDSA_WITH_CAMELLIA_256_CBC_SHA384'', ''ECDHE_ECDSA_WITH_AES_128_GCM_SHA256'',
       ''ECDHE_ECDSA_WITH_AES_128_CBC_SHA256'', ''ECDHE_ECDSA_WITH_AES_128_CBC_SHA'',
       ''ECDHE_ECDSA_WITH_CAMELLIA_128_GCM_SHA256'',
       ''ECDHE_ECDSA_WITH_CAMELLIA_128_CBC_SHA256'', ''ECDHE_ECDSA_WITH_3DES_EDE_CBC_SHA'',
       ''ECDHE_ECDSA_WITH_RC4_128_SHA''],
    enabling (on ''KEY_EXCHANGE_ECDH_ECDSA_ENABLED'' ''''
      [Needs ''ECDH_C'', Needs ''X509_CRT_PARSE_C''])
      [''ECDH_ECDSA_WITH_RC4_128_SHA'', ''ECDH_ECDSA_WITH_3DES_EDE_CBC_SHA'',
       ''ECDH_ECDSA_WITH_AES_128_CBC_SHA'', ''ECDH_ECDSA_WITH_AES_256_CBC_SHA'',
       ''ECDH_ECDSA_WITH_AES_128_CBC_SHA256'', ''ECDH_ECDSA_WITH_AES_256_CBC_SHA384'',
       ''ECDH_ECDSA_WITH_AES_128_GCM_SHA256'', ''ECDH_ECDSA_WITH_AES_256_GCM_SHA384'',
       ''ECDH_ECDSA_WITH_CAMELLIA_128_CBC_SHA256'',
       ''ECDH_ECDSA_WITH_CAMELLIA_256_CBC_SHA384'',
       ''ECDH_ECDSA_WITH_CAMELLIA_128_GCM_SHA256'',
       ''ECDH_ECDSA_WITH_CAMELLIA_256_GCM_SHA384'']]"

definition exchanges_and_entropy :: "setting list" where
  "exchanges_and_entropy = [
    enabling (on ''KEY_EXCHANGE_ECDH_RSA_ENABLED'' ''''
      [Needs ''ECDH_C'', Needs ''X509_CRT_PARSE_C''])
      [''ECDH_RSA_WITH_RC4_128_SHA'', ''ECDH_RSA_WITH_3DES_EDE_CBC_SHA'',
       ''ECDH_RSA_WITH_AES_128_CBC_SHA'', ''ECDH_RSA_WITH_AES_256_CBC_SHA'',
       ''ECDH_RSA_WITH_AES_128_CBC_SHA256'', ''ECDH_RSA_WITH_AES_256_CBC_SHA384'',
       ''ECDH_RSA_WITH_AES_128_GCM_SHA256'', ''ECDH_RSA_WITH_AES_256_GCM_SHA384'',
       ''ECDH_RSA_WITH_CAMELLIA_128_CBC_SHA256'', ''ECDH_RSA_WITH_CAMELLIA_256_CBC_SHA384'',
       ''ECDH_RSA_WITH_CAMELLIA_128_GCM_SHA256'', ''ECDH_RSA_WITH_CAMELLIA_256_GCM_SHA384''],
    enabling (off ''KEY_EXCHANGE_ECJPAKE_ENABLED'' ''''
      [Needs ''ECJPAKE_C'', Needs ''SHA256_C'', Needs ''ECP_DP_SECP256R1_ENABLED''])
      [''ECJPAKE_WITH_AES_128_CCM_8''],
    on ''PK_PARSE_EC_EXTENDED'' '''' [],
    on ''ERROR_STRERROR_DUMMY'' '''' [],
    on ''GENPRIME'' '''' [Needs ''BIGNUM_C''],
    off ''FS_IO'' '''' [],
    off ''NO_DEFAULT_ENTROPY_SOURCES'' '''' [],
    on ''NO_PLATFORM_ENTROPY'' '''' [],
    off ''ENTROPY_FORCE_SHA256'' '''' [Needs ''SHA256_C'']]"

definition seed_and_features :: "setting list" where
  "seed_and_features = [
    on ''ENTROPY_NV_SEED'' '''' [Needs ''ENTROPY_C'', Needs ''PLATFORM_C''],
    off ''MEMORY_DEBUG'' '''' [Needs ''MEMORY_BUFFER_ALLOC_C''],
    off ''MEMORY_BACKTRACE'' '''' [Needs ''MEMORY_BUFFER_ALLOC_C''],
    on ''PK_RSA_ALT_SUPPORT'' '''' [],
    on ''PKCS1_V15'' '''' [Needs ''RSA_C''],
    on ''PKCS1_V21'' '''' [Needs ''MD_C'', Needs ''RSA_C''],
    off ''RSA_NO_CRT'' '''' [],
    off ''SELF_TEST'' '''' [],
    off ''SHA256_SMALLER'' '''' [],
    on ''SSL_ALL_ALERT_MESSAGES'' '''' [],
    off ''SSL_ASYNC_PRIVATE'' '''' []]"

definition ssl_extensions :: "setting list" where
  "ssl_extensions = [
    off ''SSL_DEBUG_ALL'' '''' [],
    on ''SSL_ENCRYPT_THEN_MAC'' ''''
      [One_of [''SSL_PROTO_TLS1'', ''SSL_PROTO_TLS1_1'', ''SSL_PROTO_TLS1_2'']],
    on ''SSL_EXTENDED_MASTER_SECRET'' ''''
      [One_of [''SSL_PROTO_TLS1'', ''SSL_PROTO_TLS1_1'', ''SSL_PROTO_TLS1_2'']],
    on ''SSL_FALLBACK_SCSV'' '''' [],
    off ''SSL_HW_RECORD_ACCEL'' '''' [],
    off ''SSL_CBC_RECORD_SPLITTING'' '''' [],
    on ''SSL_RENEGOTIATION'' '''' [],
    off ''SSL_SRV_SUPPORT_SSLV2_CLIENT_HELLO'' '''' [],
    off ''SSL_SRV_RESPECT_CLIENT_PREFERENCE'' '''' [],
    on ''SSL_MAX_FRAGMENT_LENGTH'' '''' []]"

definition ssl_protocols :: "setting list" where
  "ssl_protocols = [
    off ''SSL_PROTO_SSL3'' '''' [Needs ''MD5_C'', Needs ''SHA1_C''],
    on ''SSL_PROTO_TLS1'' '''' [Needs ''MD5_C'', Needs ''SHA1_C''],
    on ''SSL_PROTO_TLS1_1'' '''' [Needs ''MD5_C'', Needs ''SHA1_C''],
    on ''SSL_PROTO_TLS1_2'' '''' [One_of [''SHA1_C'', ''SHA256_C'', ''SHA512_C'']],
    on ''SSL_PROTO_DTLS'' '''' [One_of [''SSL_PROTO_TLS1_1'', ''SSL_PROTO_TLS1_2'']],
    on ''SSL_ALPN'' '''' [],
    on ''SSL_DTLS_ANTI_REPLAY'' '''' [Needs ''SSL_TLS_C'', Needs ''SSL_PROTO_DTLS''],
    on ''SSL_DTLS_HELLO_VERIFY'' '''' [Needs ''SSL_PROTO_DTLS''],
    on ''SSL_DTLS_CLIENT_PORT_REUSE'' '''' [Needs ''SSL_DTLS_HELLO_VERIFY''],
    on ''SSL_DTLS_BADMAC_LIMIT'' '''' [Needs ''SSL_PROTO_DTLS''],
    on ''SSL_SESSION_TICKETS'' '''' []]"

definition ssl_checks :: "setting list" where
  "ssl_checks = [
    on ''SSL_EXPORT_KEYS'' '''' [],
    on ''SSL_SERVER_NAME_INDICATION'' '''' [Needs ''X509_CRT_PARSE_C''],
    on ''SSL_TRUNCATED_HMAC'' '''' [],
    off ''SSL_TRUNCATED_HMAC_COMPAT'' '''' [Needs ''SSL_TRUNCATED_HMAC''],
    off ''THREADING_ALT'' '''' [Needs ''THREADING_C''],
    off ''THREADING_PTHREAD'' '''' [Needs ''THREADING_C''],
    on ''VERSION_FEATURES'' '''' [Needs ''VERSION_C''],
    off ''X509_ALLOW_EXTENSIONS_NON_V3'' '''' [],
    off ''X509_ALLOW_UNSUPPORTED_CRITICAL_EXTENSION'' '''' [],
    on ''X509_CHECK_KEY_USAGE'' '''' [],
    on ''X509_CHECK_EXTENDED_KEY_USAGE'' '''' []]"

definition x509_and_aes :: "setting list" where
  "x509_and_aes = [
    on ''X509_RSASSA_PSS_SUPPORT'' '''' [],
    off ''ZLIB_SUPPORT'' '''' [],
    off ''AESNI_C'' '''' [Needs ''HAVE_ASM''],
    enabling (on ''AES_C'' '''' [])
      [''ECDH_ECDSA_WITH_AES_128_CBC_SHA'', ''ECDH_ECDSA_WITH_AES_256_CBC_SHA'',
       ''ECDH_RSA_WITH_AES_128_CBC_SHA'', ''ECDH_RSA_WITH_AES_256_CBC_SHA'',
       ''ECDH_ECDSA_WITH_AES_128_CBC_SHA256'', ''ECDH_ECDSA_WITH_AES_256_CBC_SHA384'',
       ''ECDH_RSA_WITH_AES_128_CBC_SHA256'', ''ECDH_RSA_WITH_AES_256_CBC_SHA384'',
       ''ECDH_ECDSA_WITH_AES_128_GCM_SHA256'', ''ECDH_ECDSA_WITH_AES_256_GCM_SHA384'',
       ''ECDH_RSA_WITH_AES_128_GCM_SHA256'', ''ECDH_RSA_WITH_AES_256_GCM_SHA384'',
       ''ECDHE_ECDSA_WITH_AES_256_GCM_SHA384'', ''ECDHE_RSA_WITH_AES_256_GCM_SHA384'',
       ''DHE_RSA_WITH_AES_256_GCM_SHA384'', ''ECDHE_ECDSA_WITH_AES_256_CBC_SHA384'',
       ''ECDHE_RSA_WITH_AES_256_CBC_SHA384'', ''DHE_RSA_WITH_AES_256_CBC_SHA256'',
       ''ECDHE_ECDSA_WITH_AES_256_CBC_SHA'', ''ECDHE_RSA_WITH_AES_256_CBC_SHA'',
       ''DHE_RSA_WITH_AES_256_CBC_SHA'', ''ECDHE_ECDSA_WITH_AES_128_GCM_SHA256'',
       ''ECDHE_RSA_WITH_AES_128_GCM_SHA256'', ''DHE_RSA_WITH_AES_128_GCM_SHA256'',
       ''ECDHE_ECDSA_WITH_AES_128_CBC_SHA256'', ''ECDHE_RSA_WITH_AES_128_CBC_SHA256'',
       ''DHE_RSA_WITH_AES_128_CBC_SHA256'', ''ECDHE_ECDSA_WITH_AES_128_CBC_SHA'',
       ''ECDHE_RSA_WITH_AES_128_CBC_SHA'', ''DHE_RSA_WITH_AES_128_CBC_SHA'',
       ''DHE_PSK_WITH_AES_256_GCM_SHA384'', ''ECDHE_PSK_WITH_AES_256_CBC_SHA384'',
       ''DHE_PSK_WITH_AES_256_CBC_SHA384'', ''ECDHE_PSK_WITH_AES_256_CBC_SHA'',
       ''DHE_PSK_WITH_AES_256_CBC_SHA'', ''DHE_PSK_WITH_AES_128_GCM_SHA256'',
       ''ECDHE_PSK_WITH_AES_128_CBC_SHA256'', ''DHE_PSK_WITH_AES_128_CBC_SHA256'',
       ''ECDHE_PSK_WITH_AES_128_CBC_SHA'', ''DHE_PSK_WITH_AES_128_CBC_SHA'',
       ''RSA_WITH_AES_256_GCM_SHA384'', ''RSA_WITH_AES_256_CBC_SHA256'',
       ''RSA_WITH_AES_256_CBC_SHA'', ''RSA_WITH_AES_128_GCM_SHA256'',
       ''RSA_WITH_AES_128_CBC_SHA256'', ''RSA_WITH_AES_128_CBC_SHA'',
       ''RSA_PSK_WITH_AES_256_GCM_SHA384'', ''RSA_PSK_WITH_AES_256_CBC_SHA384'',
       ''RSA_PSK_WITH_AES_256_CBC_SHA'', ''RSA_PSK_WITH_AES_128_GCM_SHA256'',
       ''RSA_PSK_WITH_AES_128_CBC_SHA256'', ''RSA_PSK_WITH_AES_128_CBC_SHA'',
       ''PSK_WITH_AES_256_GCM_SHA384'', ''PSK_WITH_AES_256_CBC_SHA384'',
       ''PSK_WITH_AES_256_CBC_SHA'', ''PSK_WITH_AES_128_GCM_SHA256'',
       ''PSK_WITH_AES_128_CBC_SHA256'', ''PSK_WITH_AES_128_CBC_SHA'']]"

definition stream_and_base :: "setting list" where
  "stream_and_base = [
    enabling (on ''ARC4_C'' '''' [])
      [''ECDH_ECDSA_WITH_RC4_128_SHA'', ''ECDH_RSA_WITH_RC4_128_SHA'',
       ''ECDHE_ECDSA_WITH_RC4_128_SHA'', ''ECDHE_RSA_WITH_RC4_128_SHA'',
       ''ECDHE_PSK_WITH_RC4_128_SHA'', ''DHE_PSK_WITH_RC4_128_SHA'', ''RSA_WITH_RC4_128_SHA'',
       ''RSA_WITH_RC4_128_MD5'', ''RSA_PSK_WITH_RC4_128_SHA'', ''PSK_WITH_RC4_128_SHA''],
    on ''ASN1_PARSE_C'' '''' [],
    on ''ASN1_WRITE_C'' '''' [],
    on ''BASE64_C'' '''' [],
    on ''BIGNUM_C'' '''' [],
    on ''BLOWFISH_C'' '''' []]"

definition block_ciphers :: "setting list" where
  "block_ciphers = [
    enabling (on ''CAMELLIA_C'' '''' [])
      [''ECDH_ECDSA_WITH_CAMELLIA_128_CBC_SHA256'',
       ''ECDH_ECDSA_WITH_CAMELLIA_256_CBC_SHA384'', ''ECDH_RSA_WITH_CAMELLIA_128_CBC_SHA256'',
       ''ECDH_RSA_WITH_CAMELLIA_256_CBC_SHA384'', ''ECDH_ECDSA_WITH_CAMELLIA_128_GCM_SHA256'',
       ''ECDH_ECDSA_WITH_CAMELLIA_256_GCM_SHA384'', ''ECDH_RSA_WITH_CAMELLIA_128_GCM_SHA256'',
       ''ECDH_RSA_WITH_CAMELLIA_256_GCM_SHA384'',
       ''ECDHE_ECDSA_WITH_CAMELLIA_256_GCM_SHA384'',
       ''ECDHE_RSA_WITH_CAMELLIA_256_GCM_SHA384'', ''DHE_RSA_WITH_CAMELLIA_256_GCM_SHA384'',
       ''ECDHE_ECDSA_WITH_CAMELLIA_256_CBC_SHA384'',
       ''ECDHE_RSA_WITH_CAMELLIA_256_CBC_SHA384'', ''DHE_RSA_WITH_CAMELLIA_256_CBC_SHA256'',
       ''DHE_RSA_WITH_CAMELLIA_256_CBC_SHA'', ''ECDHE_ECDSA_WITH_CAMELLIA_128_GCM_SHA256'',
       ''ECDHE_RSA_WITH_CAMELLIA_128_GCM_SHA256'', ''DHE_RSA_WITH_CAMELLIA_128_GCM_SHA256'',
       ''ECDHE_ECDSA_WITH_CAMELLIA_128_CBC_SHA256'',
       ''ECDHE_RSA_WITH_CAMELLIA_128_CBC_SHA256'', ''DHE_RSA_WITH_CAMELLIA_128_CBC_SHA256'',
       ''DHE_RSA_WITH_CAMELLIA_128_CBC_SHA'', ''DHE_PSK_WITH_CAMELLIA_256_GCM_SHA384'',
       ''ECDHE_PSK_WITH_CAMELLIA_256_CBC_SHA384'', ''DHE_PSK_WITH_CAMELLIA_256_CBC_SHA384'',
       ''DHE_PSK_WITH_CAMELLIA_128_GCM_SHA256'', ''DHE_PSK_WITH_CAMELLIA_128_CBC_SHA256'',
       ''ECDHE_PSK_WITH_CAMELLIA_128_CBC_SHA256'', ''RSA_WITH_CAMELLIA_256_GCM_SHA384'',
       ''RSA_WITH_CAMELLIA_256_CBC_SHA256'', ''RSA_WITH_CAMELLIA_256_CBC_SHA'',
       ''RSA_WITH_CAMELLIA_128_GCM_SHA256'', ''RSA_WITH_CAMELLIA_128_CBC_SHA256'',
       ''RSA_WITH_CAMELLIA_128_CBC_SHA'', ''RSA_PSK_WITH_CAMELLIA_256_GCM_SHA384'',
       ''RSA_PSK_WITH_CAMELLIA_256_CBC_SHA384'', ''RSA_PSK_WITH_CAMELLIA_128_GCM_SHA256'',
       ''RSA_PSK_WITH_CAMELLIA_128_CBC_SHA256'', ''PSK_WITH_CAMELLIA_256_GCM_SHA384'',
       ''PSK_WITH_CAMELLIA_256_CBC_SHA384'', ''PSK_WITH_CAMELLIA_128_GCM_SHA256'',
       ''PSK_WITH_CAMELLIA_128_CBC_SHA256''],
    enabling (off ''ARIA_C'' '''' [])
      [''RSA_WITH_ARIA_128_CBC_SHA256'', ''RSA_WITH_ARIA_256_CBC_SHA384'',
       ''DHE_RSA_WITH_ARIA_128_CBC_SHA256'', ''DHE_RSA_WITH_ARIA_256_CBC_SHA384'',
       ''ECDHE_ECDSA_WITH_ARIA_128_CBC_SHA256'', ''ECDHE_ECDSA_WITH_ARIA_256_CBC_SHA384'',
       ''ECDH_ECDSA_WITH_ARIA_128_CBC_SHA256'', ''ECDH_ECDSA_WITH_ARIA_256_CBC_SHA384'',
       ''ECDHE_RSA_WITH_ARIA_128_CBC_SHA256'', ''ECDHE_RSA_WITH_ARIA_256_CBC_SHA384'',
       ''ECDH_RSA_WITH_ARIA_128_CBC_SHA256'', ''ECDH_RSA_WITH_ARIA_256_CBC_SHA384'',
       ''RSA_WITH_ARIA_128_GCM_SHA256'', ''RSA_WITH_ARIA_256_GCM_SHA384'',
       ''DHE_RSA_WITH_ARIA_128_GCM_SHA256'', ''DHE_RSA_WITH_ARIA_256_GCM_SHA384'',
       ''ECDHE_ECDSA_WITH_ARIA_128_GCM_SHA256'', ''ECDHE_ECDSA_WITH_ARIA_256_GCM_SHA384'',
       ''ECDH_ECDSA_WITH_ARIA_128_GCM_SHA256'', ''ECDH_ECDSA_WITH_ARIA_256_GCM_SHA384'',
       ''ECDHE_RSA_WITH_ARIA_128_GCM_SHA256'', ''ECDHE_RSA_WITH_ARIA_256_GCM_SHA384'',
       ''ECDH_RSA_WITH_ARIA_128_GCM_SHA256'', ''ECDH_RSA_WITH_ARIA_256_GCM_SHA384'',
       ''PSK_WITH_ARIA_128_CBC_SHA256'', ''PSK_WITH_ARIA_256_CBC_SHA384'',
       ''DHE_PSK_WITH_ARIA_128_CBC_SHA256'', ''DHE_PSK_WITH_ARIA_256_CBC_SHA384'',
       ''RSA_PSK_WITH_ARIA_128_CBC_SHA256'', ''RSA_PSK_WITH_ARIA_256_CBC_SHA384'',
       ''PSK_WITH_ARIA_128_GCM_SHA256'', ''PSK_WITH_ARIA_256_GCM_SHA384'',
       ''DHE_PSK_WITH_ARIA_128_GCM_SHA256'', ''DHE_PSK_WITH_ARIA_256_GCM_SHA384'',
       ''RSA_PSK_WITH_ARIA_128_GCM_SHA256'', ''RSA_PSK_WITH_ARIA_256_GCM_SHA384'',
       ''ECDHE_PSK_WITH_ARIA_128_CBC_SHA256'', ''ECDHE_PSK_WITH_ARIA_256_CBC_SHA384''],
    on ''CCM_C'' '''' [One_of [''AES_C'', ''CAMELLIA_C'']],
    on ''CERTS_C'' '''' [],
    on ''CHACHA20_C'' '''' []]"

definition random_and_curves :: "setting list" where
  "random_and_curves = [
    on ''CHACHAPOLY_C'' '''' [Needs ''CHACHA20_C'', Needs ''POLY1305_C''],
    on ''CIPHER_C'' '''' [],
    off ''CMAC_C'' '''' [One_of [''AES_C'', ''DES_C'']],
    on ''CTR_DRBG_C'' '''' [Needs ''AES_C''],
    off ''DEBUG_C'' '''' [],
    enabling (on ''DES_C'' '''' [])
      [''ECDH_ECDSA_WITH_3DES_EDE_CBC_SHA'', ''ECDH_RSA_WITH_3DES_EDE_CBC_SHA'',
       ''ECDHE_ECDSA_WITH_3DES_EDE_CBC_SHA'', ''ECDHE_RSA_WITH_3DES_EDE_CBC_SHA'',
       ''DHE_RSA_WITH_3DES_EDE_CBC_SHA'', ''ECDHE_PSK_WITH_3DES_EDE_CBC_SHA'',
       ''DHE_PSK_WITH_3DES_EDE_CBC_SHA'', ''RSA_WITH_3DES_EDE_CBC_SHA'',
       ''RSA_PSK_WITH_3DES_EDE_CBC_SHA'', ''PSK_WITH_3DES_EDE_CBC_SHA''],
    on ''DHM_C'' '''' [],
    on ''ECDH_C'' '''' [Needs ''ECP_C'']]"

definition signatures_and_digests :: "setting list" where
  "signatures_and_digests = [
    on ''ECDSA_C'' '''' [Needs ''ECP_C'', Needs ''ASN1_WRITE_C'', Needs ''ASN1_PARSE_C''],
    off ''ECJPAKE_C'' '''' [Needs ''ECP_C'', Needs ''MD_C''],
    on ''ECP_C'' '''' [Needs ''BIGNUM_C'', One_of curves],
    on ''ENTROPY_C'' '''' [One_of [''SHA512_C'', ''SHA256_C'']],
    on ''ERROR_C'' '''' [],
    on ''GCM_C'' '''' [One_of [''AES_C'', ''CAMELLIA_C'']],
    off ''HAVEGE_C'' '''' [Needs ''TIMING_C''],
    on ''HKDF_C'' '''' [Needs ''MD_C''],
    on ''HMAC_DRBG_C'' '''' [Needs ''MD_C'']]"

definition digests_and_oid :: "setting list" where
  "digests_and_oid = [
    off ''NIST_KW_C'' '''' [Needs ''AES_C'', Needs ''CIPHER_C''],
    on ''MD_C'' '''' [],
    off ''MD2_C'' '''' [],
    off ''MD4_C'' '''' [],
    on ''MD5_C'' '''' [],
    off ''MEMORY_BUFFER_ALLOC_C'' '''' [Needs ''PLATFORM_C'', Needs ''PLATFORM_MEMORY''],
    off ''NET_C'' '''' [],
    on ''OID_C'' '''' []]"

definition keys_and_pem :: "setting list" where
  "keys_and_pem = [
    off ''PADLOCK_C'' '''' [Needs ''HAVE_ASM''],
    on ''PEM_PARSE_C'' '''' [Needs ''BASE64_C''],
    on ''PEM_WRITE_C'' '''' [Needs ''BASE64_C''],
    on ''PK_C'' '''' [One_of [''RSA_C'', ''ECP_C'']],
    on ''PK_PARSE_C'' '''' [Needs ''PK_C''],
    on ''PK_WRITE_C'' '''' [Needs ''PK_C''],
    on ''PKCS5_C'' '''' [Needs ''MD_C''],
    off ''PKCS11_C'' '''' [Needs ''PK_C''],
    on ''PKCS12_C'' '''' [Needs ''ASN1_PARSE_C'', Needs ''CIPHER_C'', Needs ''MD_C'']]"

definition hashes_and_caches :: "setting list" where
  "hashes_and_caches = [
    on ''PLATFORM_C'' '''' [],
    on ''POLY1305_C'' '''' [],
    on ''RIPEMD160_C'' '''' [],
    on ''RSA_C'' '''' [Needs ''BIGNUM_C'', Needs ''OID_C''],
    on ''SHA1_C'' '''' [],
    on ''SHA256_C'' '''' [],
    on ''SHA512_C'' '''' [],
    on ''SSL_CACHE_C'' '''' [Needs ''SSL_CACHE_C''],
    on ''SSL_COOKIE_C'' '''' []]"

definition ssl_modules :: "setting list" where
  "ssl_modules = [
    on ''SSL_TICKET_C'' '''' [Needs ''CIPHER_C''],
    on ''SSL_CLI_C'' '''' [Needs ''SSL_TLS_C''],
    on ''SSL_SRV_C'' '''' [Needs ''SSL_TLS_C''],
    on ''SSL_TLS_C'' ''''
      [Needs ''CIPHER_C'', Needs ''MD_C'', One_of [''SSL_PROTO_SSL3'', ''SSL_PROTO_TLS1'',
       ''SSL_PROTO_TLS1_1'', ''SSL_PROTO_TLS1_2'', ''SSL_PROTO_DTLS'']],
    off ''THREADING_C'' '''' [One_of [''THREADING_ALT'', ''THREADING_PTHREAD'']],
    off ''TIMING_C'' '''' [],
    on ''VERSION_C'' '''' [],
    on ''X509_USE_C'' ''''
      [Needs ''ASN1_PARSE_C'', Needs ''BIGNUM_C'', Needs ''OID_C'', Needs ''PK_PARSE_C''],
    on ''X509_CRT_PARSE_C'' '''' [Needs ''X509_USE_C'']]"

definition certificate_modules_and_sizes :: "setting list" where
  "certificate_modules_and_sizes = [
    on ''X509_CRL_PARSE_C'' '''' [Needs ''X509_USE_C''],
    on ''X509_CSR_PARSE_C'' '''' [Needs ''X509_USE_C''],
    on ''X509_CREATE_C'' '''' [Needs ''BIGNUM_C'', Needs ''OID_C'', Needs ''PK_WRITE_C''],
    on ''X509_CRT_WRITE_C'' '''' [Needs ''X509_CREATE_C''],
    on ''X509_CSR_WRITE_C'' '''' [Needs ''X509_CREATE_C''],
    on ''XTEA_C'' '''' [],
    off ''MPI_WINDOW_SIZE'' ''6'' [],
    off ''MPI_MAX_SIZE'' ''1024'' [],
    off ''CTR_DRBG_ENTROPY_LEN'' ''48'' [],
    off ''CTR_DRBG_RESEED_INTERVAL'' ''10000'' [],
    off ''CTR_DRBG_MAX_INPUT'' ''256'' [],
    off ''CTR_DRBG_MAX_REQUEST'' ''1024'' [],
    off ''CTR_DRBG_MAX_SEED_INPUT'' ''384'' [],
    off ''HMAC_DRBG_RESEED_INTERVAL'' ''10000'' [],
    off ''HMAC_DRBG_MAX_INPUT'' ''256'' [],
    off ''HMAC_DRBG_MAX_REQUEST'' ''1024'' [],
    off ''HMAC_DRBG_MAX_SEED_INPUT'' ''384'' [],
    off ''ECP_MAX_BITS'' ''521'' [],
    off ''ECP_WINDOW_SIZE'' ''6'' [],
    off ''ECP_FIXED_POINT_OPTIM'' ''1'' [],
    off ''ENTROPY_MAX_SOURCES'' ''20'' [],
    off ''ENTROPY_MAX_GATHER'' ''128'' [],
    off ''ENTROPY_MIN_HARDWARE'' ''32'' [],
    on ''ENTROPY_MIN_HARDWARE'' ''0'' [],
    off ''MEMORY_ALIGN_MULTIPLE'' ''4'' [],
    off ''PLATFORM_STD_MEM_HDR'' ''<stdlib.h>'' [],
    off ''PLATFORM_STD_CALLOC'' ''calloc'' [],
    off ''PLATFORM_STD_FREE'' ''free'' [],
    off ''PLATFORM_STD_EXIT'' ''exit'' [],
    off ''PLATFORM_STD_TIME'' ''time'' [Needs ''HAVE_TIME''],
    off ''PLATFORM_STD_FPRINTF'' ''fprintf'' [],
    off ''PLATFORM_STD_PRINTF'' ''printf'' [],
    off ''PLATFORM_STD_SNPRINTF'' ''snprintf'' [],
    off ''PLATFORM_STD_EXIT_SUCCESS'' ''0'' [],
    off ''PLATFORM_STD_EXIT_FAILURE'' ''1'' [],
    off ''PLATFORM_STD_NV_SEED_READ'' ''mbedtls_platform_std_nv_seed_read'' [],
    off ''PLATFORM_STD_NV_SEED_WRITE'' ''mbedtls_platform_std_nv_seed_write'' [],
    off ''PLATFORM_STD_NV_SEED_FILE'' ''seedfile'' [],
    on ''PLATFORM_CALLOC_MACRO'' ''calloc'' [Needs ''PLATFORM_C''],
    on ''PLATFORM_FREE_MACRO'' ''free'' [Needs ''PLATFORM_C'']]"

definition platform_macros :: "setting list" where
  "platform_macros = [
    off ''PLATFORM_EXIT_MACRO'' ''exit'' [Needs ''PLATFORM_C'', Excludes ''PLATFORM_EXIT_ALT''],
    off ''PLATFORM_TIME_MACRO'' ''time''
      [Needs ''PLATFORM_C'', Needs ''HAVE_TIME'', Excludes ''PLATFORM_TIME_ALT''],
    off ''PLATFORM_TIME_TYPE_MACRO'' ''time_t'' [Needs ''PLATFORM_C'', Needs ''HAVE_TIME''],
    off ''PLATFORM_FPRINTF_MACRO'' ''fprintf''
      [Needs ''PLATFORM_C'', Excludes ''PLATFORM_FPRINTF_ALT''],
    off ''PLATFORM_PRINTF_MACRO'' ''printf''
      [Needs ''PLATFORM_C'', Excludes ''PLATFORM_PRINTF_ALT''],
    on ''PLATFORM_SNPRINTF_MACRO'' ''snprintf''
      [Needs ''PLATFORM_C'', Excludes ''PLATFORM_SNPRINTF_ALT''],
    off ''PLATFORM_NV_SEED_READ_MACRO'' ''mbedtls_platform_std_nv_seed_read''
      [Needs ''PLATFORM_C'', Excludes ''PLATFORM_NV_SEED_ALT''],
    off ''PLATFORM_NV_SEED_WRITE_MACRO'' ''mbedtls_platform_std_nv_seed_write''
      [Needs ''PLATFORM_C'', Excludes ''PLATFORM_NV_SEED_ALT''],
    off ''PARAM_FAILED'' ''assert( cond )'' [],
    off ''SSL_CACHE_DEFAULT_TIMEOUT'' ''86400'' [],
    off ''SSL_CACHE_DEFAULT_MAX_ENTRIES'' ''50'' [],
    off ''SSL_MAX_CONTENT_LEN'' ''16384'' [],
    off ''SSL_IN_CONTENT_LEN'' ''16384'' [],
    off ''SSL_OUT_CONTENT_LEN'' ''16384'' [],
    off ''SSL_DTLS_MAX_BUFFERING'' ''32768'' []]"

definition defaults_and_alternatives :: "setting list" where
  "defaults_and_alternatives = [
    off ''SSL_DEFAULT_TICKET_LIFETIME'' ''86400'' [],
    off ''PSK_MAX_LEN'' ''32'' [],
    off ''SSL_COOKIE_TIMEOUT'' ''60'' [],
    off ''SSL_CIPHERSUITES'' ''MBEDTLS_TLS_ECDHE_ECDSA_WITH_AES_256_GCM_SHA384,MBEDTLS_TLS_ECDHE_ECDSA_WITH_AES_128_GCM_SHA256''
      [],
    off ''X509_MAX_INTERMEDIATE_CA'' ''8'' [],
    off ''X509_MAX_FILE_PATH_LEN'' ''512'' [],
    off ''TLS_DEFAULT_ALLOW_SHA1_IN_CERTIFICATES'' '''' [],
    on ''TLS_DEFAULT_ALLOW_SHA1_IN_KEY_EXCHANGE'' '''' [],
    on ''PLATFORM_ZEROIZE_ALT'' '''' [],
    on ''PLATFORM_GMTIME_R_ALT'' '''' [],
    on ''NO_GLOBAL'' '''' []]"

text \<open>The functions the header declares for the macros above.\<close>

definition declared_functions :: "string list" where
  "declared_functions = [''calloc'', ''free'', ''snprintf'', ''mbedtls_hardware_poll'',
    ''mbedtls_platform_std_nv_seed_read'', ''mbedtls_platform_std_nv_seed_write'']"

section \<open>What the configuration gives\<close>

definition configuration :: "setting list" where
  "configuration = platform_services @ platform_layer @ alternative_modules @ curve_and_cipher_modes @
    ciphersuite_policy @ psk_exchanges @ rsa_exchanges @ exchanges_and_entropy @
    seed_and_features @ ssl_extensions @ ssl_protocols @ ssl_checks @ x509_and_aes @
    stream_and_base @ block_ciphers @ random_and_curves @ signatures_and_digests @
    digests_and_oid @ keys_and_pem @ hashes_and_caches @ ssl_modules @
    certificate_modules_and_sizes @ platform_macros @ defaults_and_alternatives"

definition defined_in :: "setting list \<Rightarrow> macro \<Rightarrow> bool" where
  "defined_in cfg m \<longleftrightarrow> list_ex (\<lambda>s. is_defined s \<and> macro_name s = m) cfg"

fun holds_in :: "setting list \<Rightarrow> need \<Rightarrow> bool" where
  "holds_in cfg (Needs m) = defined_in cfg m"
| "holds_in cfg (One_of ms) = list_ex (defined_in cfg) ms"
| "holds_in cfg (Excludes m) = (\<not> defined_in cfg m)"

definition consistent :: "setting list \<Rightarrow> bool" where
  "consistent cfg \<longleftrightarrow> list_all (\<lambda>s. is_defined s \<longrightarrow> list_all (holds_in cfg) (needs s)) cfg"





subsection \<open>Evaluation\<close>

text \<open>The options are long lists of texts: these rules take them apart setting by setting.\<close>

definition names_of :: "setting list \<Rightarrow> macro list" where
  "names_of cfg = map macro_name (filter is_defined cfg)"

definition needs_met :: "(need \<Rightarrow> bool) \<Rightarrow> setting list \<Rightarrow> bool" where
  "needs_met P cfg \<longleftrightarrow> list_all (\<lambda>s. is_defined s \<longrightarrow> list_all P (needs s)) cfg"

lemmas setting_defs = on_def off_def enabling_def

lemma names_simps:
  "names_of [] = []"
  "names_of (on m v ns # cfg) = m # names_of cfg"
  "names_of (off m v ns # cfg) = names_of cfg"
  "names_of (enabling s suites # cfg) = names_of (s # cfg)"
  "names_of (cfg @ cfg') = names_of cfg @ names_of cfg'"
  by (simp_all add: setting_defs names_of_def)

lemma needs_simps:
  "needs_met P []"
  "needs_met P (on m v ns # cfg) \<longleftrightarrow> list_all P ns \<and> needs_met P cfg"
  "needs_met P (off m v ns # cfg) \<longleftrightarrow> needs_met P cfg"
  "needs_met P (enabling s suites # cfg) \<longleftrightarrow> needs_met P (s # cfg)"
  "needs_met P (cfg @ cfg') \<longleftrightarrow> needs_met P cfg \<and> needs_met P cfg'"
  by (simp_all add: setting_defs needs_met_def)



lemmas option_defs = platform_services_def platform_layer_def alternative_modules_def
  curve_and_cipher_modes_def ciphersuite_policy_def psk_exchanges_def rsa_exchanges_def
  exchanges_and_entropy_def seed_and_features_def ssl_extensions_def ssl_protocols_def
  ssl_checks_def x509_and_aes_def stream_and_base_def block_ciphers_def
  random_and_curves_def signatures_and_digests_def digests_and_oid_def keys_and_pem_def
  hashes_and_caches_def ssl_modules_def certificate_modules_and_sizes_def
  platform_macros_def defaults_and_alternatives_def

definition defined_macros :: "macro list" where
  "defined_macros = [
    ''NO_UDBL_DIVISION'', ''NO_64BIT_MULTIPLICATION'', ''HAVE_TIME'', ''HAVE_TIME_DATE'',
    ''PLATFORM_MEMORY'', ''PLATFORM_NO_STD_FUNCTIONS'', ''ENTROPY_HARDWARE_ALT'',
    ''AES_ROM_TABLES'', ''CIPHER_MODE_CBC'', ''CIPHER_MODE_CFB'', ''CIPHER_MODE_CTR'',
    ''CIPHER_MODE_OFB'', ''CIPHER_MODE_XTS'', ''CIPHER_PADDING_PKCS7'',
    ''CIPHER_PADDING_ONE_AND_ZEROS'', ''CIPHER_PADDING_ZEROS_AND_LEN'',
    ''CIPHER_PADDING_ZEROS'', ''REMOVE_ARC4_CIPHERSUITES'', ''REMOVE_3DES_CIPHERSUITES'',
    ''ECP_DP_SECP192R1_ENABLED'', ''ECP_DP_SECP224R1_ENABLED'', ''ECP_DP_SECP256R1_ENABLED'',
    ''ECP_DP_SECP384R1_ENABLED'', ''ECP_DP_SECP521R1_ENABLED'', ''ECP_DP_SECP192K1_ENABLED'',
    ''ECP_DP_SECP224K1_ENABLED'', ''ECP_DP_SECP256K1_ENABLED'', ''ECP_DP_BP256R1_ENABLED'',
    ''ECP_DP_BP384R1_ENABLED'', ''ECP_DP_BP512R1_ENABLED'', ''ECP_DP_CURVE25519_ENABLED'',
    ''ECP_DP_CURVE448_ENABLED'', ''ECP_NIST_OPTIM'', ''ECDSA_DETERMINISTIC'',
    ''KEY_EXCHANGE_PSK_ENABLED'', ''KEY_EXCHANGE_DHE_PSK_ENABLED'',
    ''KEY_EXCHANGE_ECDHE_PSK_ENABLED'', ''KEY_EXCHANGE_RSA_PSK_ENABLED'',
    ''KEY_EXCHANGE_RSA_ENABLED'', ''KEY_EXCHANGE_DHE_RSA_ENABLED'',
    ''KEY_EXCHANGE_ECDHE_RSA_ENABLED'', ''KEY_EXCHANGE_ECDHE_ECDSA_ENABLED'',
    ''KEY_EXCHANGE_ECDH_ECDSA_ENABLED'', ''KEY_EXCHANGE_ECDH_RSA_ENABLED'',
    ''PK_PARSE_EC_EXTENDED'', ''ERROR_STRERROR_DUMMY'', ''GENPRIME'', ''NO_PLATFORM_ENTROPY'',
    ''ENTROPY_NV_SEED'', ''PK_RSA_ALT_SUPPORT'', ''PKCS1_V15'', ''PKCS1_V21'',
    ''SSL_ALL_ALERT_MESSAGES'', ''SSL_ENCRYPT_THEN_MAC'', ''SSL_EXTENDED_MASTER_SECRET'',
    ''SSL_FALLBACK_SCSV'', ''SSL_RENEGOTIATION'', ''SSL_MAX_FRAGMENT_LENGTH'',
    ''SSL_PROTO_TLS1'', ''SSL_PROTO_TLS1_1'', ''SSL_PROTO_TLS1_2'', ''SSL_PROTO_DTLS'',
    ''SSL_ALPN'', ''SSL_DTLS_ANTI_REPLAY'', ''SSL_DTLS_HELLO_VERIFY'',
    ''SSL_DTLS_CLIENT_PORT_REUSE'', ''SSL_DTLS_BADMAC_LIMIT'', ''SSL_SESSION_TICKETS'',
    ''SSL_EXPORT_KEYS'', ''SSL_SERVER_NAME_INDICATION'', ''SSL_TRUNCATED_HMAC'',
    ''VERSION_FEATURES'', ''X509_CHECK_KEY_USAGE'', ''X509_CHECK_EXTENDED_KEY_USAGE'',
    ''X509_RSASSA_PSS_SUPPORT'', ''AES_C'', ''ARC4_C'', ''ASN1_PARSE_C'', ''ASN1_WRITE_C'',
    ''BASE64_C'', ''BIGNUM_C'', ''BLOWFISH_C'', ''CAMELLIA_C'', ''CCM_C'', ''CERTS_C'',
    ''CHACHA20_C'', ''CHACHAPOLY_C'', ''CIPHER_C'', ''CTR_DRBG_C'', ''DES_C'', ''DHM_C'',
    ''ECDH_C'', ''ECDSA_C'', ''ECP_C'', ''ENTROPY_C'', ''ERROR_C'', ''GCM_C'', ''HKDF_C'',
    ''HMAC_DRBG_C'', ''MD_C'', ''MD5_C'', ''OID_C'', ''PEM_PARSE_C'', ''PEM_WRITE_C'', ''PK_C'',
    ''PK_PARSE_C'', ''PK_WRITE_C'', ''PKCS5_C'', ''PKCS12_C'', ''PLATFORM_C'', ''POLY1305_C'',
    ''RIPEMD160_C'', ''RSA_C'', ''SHA1_C'', ''SHA256_C'', ''SHA512_C'', ''SSL_CACHE_C'',
    ''SSL_COOKIE_C'', ''SSL_TICKET_C'', ''SSL_CLI_C'', ''SSL_SRV_C'', ''SSL_TLS_C'',
    ''VERSION_C'', ''X509_USE_C'', ''X509_CRT_PARSE_C'', ''X509_CRL_PARSE_C'',
    ''X509_CSR_PARSE_C'', ''X509_CREATE_C'', ''X509_CRT_WRITE_C'', ''X509_CSR_WRITE_C'',
    ''XTEA_C'', ''ENTROPY_MIN_HARDWARE'', ''PLATFORM_CALLOC_MACRO'', ''PLATFORM_FREE_MACRO'',
    ''PLATFORM_SNPRINTF_MACRO'', ''TLS_DEFAULT_ALLOW_SHA1_IN_KEY_EXCHANGE'',
    ''PLATFORM_ZEROIZE_ALT'', ''PLATFORM_GMTIME_R_ALT'', ''NO_GLOBAL'']"

lemma defined_names: "names_of configuration = defined_macros"
  by (simp only: configuration_def option_defs names_simps append.simps defined_macros_def)

lemma defined_iff: "defined_in configuration m \<longleftrightarrow> m \<in> set defined_macros"
  by (auto simp: defined_names [symmetric] names_of_def defined_in_def list_ex_iff)

lemma needed_macros: "list_all (\<lambda>m. m \<in> set defined_macros)
   [''AES_C'', ''ASN1_PARSE_C'', ''ASN1_WRITE_C'', ''BASE64_C'', ''BIGNUM_C'',
    ''CHACHA20_C'', ''CIPHER_C'', ''DHM_C'', ''ECDH_C'', ''ECDSA_C'', ''ECP_C'',
    ''ENTROPY_C'', ''HMAC_DRBG_C'', ''MD5_C'', ''MD_C'', ''OID_C'', ''PKCS1_V15'', ''PK_C'',
    ''PK_PARSE_C'', ''PK_WRITE_C'', ''PLATFORM_C'', ''POLY1305_C'', ''RSA_C'', ''SHA1_C'',
    ''SSL_CACHE_C'', ''SSL_DTLS_HELLO_VERIFY'', ''SSL_PROTO_DTLS'', ''SSL_TLS_C'',
    ''VERSION_C'', ''X509_CREATE_C'', ''X509_CRT_PARSE_C'', ''X509_USE_C'',
    ''SSL_PROTO_TLS1'', ''SSL_PROTO_TLS1_1'', ''SHA256_C'', ''ECP_DP_SECP256R1_ENABLED'']"
  by (simp add: defined_macros_def)

lemma excluded_macro: "''PLATFORM_SNPRINTF_ALT'' \<notin> set defined_macros"
  by (simp add: defined_macros_def)

lemma list_ex_rules: "list_ex P [] = False" "list_ex P (x # xs) = (P x \<or> list_ex P xs)"
  by simp_all

lemma all_needs_met: "needs_met (holds_in configuration) configuration"
proof -
  define P where "P = holds_in configuration"
  have P: "P (Needs m) = (m \<in> set defined_macros)"
      "P (One_of ms) = list_ex (\<lambda>m. m \<in> set defined_macros) ms"
      "P (Excludes m) = (m \<notin> set defined_macros)" for m ms
    by (simp_all add: P_def defined_iff cong: list_ex_cong)
  have "needs_met P configuration"
    unfolding configuration_def
    by (simp only: needs_simps option_defs list.pred_inject P excluded_macro
        needed_macros [unfolded list.pred_inject simp_thms] simp_thms curves_def list_ex_rules)
  then show ?thesis by (simp add: P_def)
qed

text \<open>The functions that stand for a macro of the platform layer are declared.\<close>

lemma expansions_declared:
  "list_all (\<lambda>s. is_defined s \<and> suffix ''_MACRO'' (macro_name s) \<longrightarrow>
     expansion s \<in> set declared_functions) (certificate_modules_and_sizes @ platform_macros)"
  by code_simp

section \<open>Properties\<close>

text \<open>
  C40. The configuration meets what its documentation asks for: every option that a defined
  option requires is defined, of alternatives at least one, and none that it excludes.
\<close>

theorem requirements_met:
  assumes "s \<in> set configuration" and "is_defined s" and "n \<in> set (needs s)"
  shows "holds_in configuration n"
  using assms all_needs_met by (auto simp: needs_met_def list_all_iff)

lemma requirements_met_witness: "holds_in configuration (Needs ''HMAC_DRBG_C'')"
proof (rule requirements_met)
  show "on ''ECDSA_DETERMINISTIC'' '''' [Needs ''HMAC_DRBG_C''] \<in> set configuration"
    by (simp add: configuration_def psk_exchanges_def del: set_append) (simp add: on_def)
qed (simp_all add: on_def)




end
