(* ===== verification/Arm_Machine.thy ===== *)
theory Arm_Machine
  imports Newton_Prelude
begin

unbundle bit_operations_syntax

text \<open>
  The part of the processor that the hand-written assembly uses: the registers the glue
  names, the condition flags, the two registers of the floating point coprocessor (FPA) and
  memory as words. A program maps addresses to instructions, words, strings and to routines
  that are not part of the glue; \<open>run\<close> executes a number of steps. What the coprocessors
  compute is a parameter (record \<open>coprocessors\<close>). Addresses of loads and stores must be
  multiples of four; the processor of the Newton treats the others in another way, and
  \<open>None\<close> stands for that.
\<close>

section \<open>State\<close>

datatype reg = R0 | R1 | R2 | R3 | R12 | SP | LR | PC

datatype freg = F0 | F1

record flags =
  flag_n :: bool
  flag_z :: bool
  flag_c :: bool
  flag_v :: bool

record 'f cpu =
  regs :: "reg \<Rightarrow> ulong"
  fregs :: "freg \<Rightarrow> 'f"
  cpsr :: flags
  ram :: "ulong \<Rightarrow> ulong"

text \<open>The coprocessors: the three words of a register of the FPA as \<^verbatim>\<open>lfm\<close> loads them, the two
  words of a \<open>double\<close> as \<^verbatim>\<open>stfd\<close> stores them, arithmetic, conversion of a signed integer,
  comparison (with the negated second operand for \<^verbatim>\<open>cnf\<close>), and the trap by which the emulator
  is called.\<close>

datatype dyadic = Adfd | Dvfd | Mufd | Rsfd | Sufd

record 'f coprocessors =
  fpa_register :: "ulong \<times> ulong \<times> ulong \<Rightarrow> 'f"
  fpa_double :: "'f \<Rightarrow> ulong \<times> ulong"
  fpa_dyadic :: "dyadic \<Rightarrow> 'f \<Rightarrow> 'f \<Rightarrow> 'f"
  fpa_float :: "ulong \<Rightarrow> 'f"
  fpa_compare :: "bool \<Rightarrow> 'f \<Rightarrow> 'f \<Rightarrow> flags"
  emulator :: "'f cpu \<Rightarrow> 'f cpu"

text \<open>Coprocessors that compute nothing, for examples.\<close>

definition idle_coprocessors :: "unit coprocessors" where
  "idle_coprocessors =
     \<lparr>fpa_register = \<lambda>_. (), fpa_double = \<lambda>_. (0, 0), fpa_dyadic = \<lambda>_ _ _. (), fpa_float = \<lambda>_. (),
      fpa_compare = \<lambda>_ _ _. \<lparr>flag_n = False, flag_z = False, flag_c = False, flag_v = False\<rparr>,
      emulator = \<lambda>s. s\<rparr>"

section \<open>Instructions\<close>

datatype cond = Always | IfEQ | IfNE | IfCS | IfCC | IfMI | IfHI | IfLS | IfLT | IfLE | IfGE | IfGT | IfVS

datatype operand = Reg reg | Imm ulong | Lsl reg nat | Lsr reg nat | Asr reg nat | Ror reg nat | Lsr_by reg reg

text \<open>A shift by a register takes its lowest byte. The block transfers have \<^verbatim>\<open>r13!\<close> as base: \<^verbatim>\<open>stmfd\<close> is \<^verbatim>\<open>stmdb\<close>, \<^verbatim>\<open>ldmfd\<close> is \<^verbatim>\<open>ldmia\<close> and
  \<^verbatim>\<open>ldmea\<close> is \<^verbatim>\<open>ldmdb\<close>; their lists go up with the numbers of the registers. \<open>Fcmp\<close> is \<^verbatim>\<open>cmf\<close> or
  \<^verbatim>\<open>cmfe\<close>, and with \<open>True\<close> \<^verbatim>\<open>cnfe\<close>; \<open>Ldrlit\<close> loads a word of the program relative to the
  program counter.\<close>

datatype instr =
    Mov cond reg operand
  | Movs cond reg operand
  | Add cond reg reg operand
  | Sub cond reg reg operand
  | Orr cond reg reg operand
  | Rsb cond reg reg operand
  | Subs reg reg operand
  | Eor reg reg operand
  | Ands reg reg operand
  | Tst reg operand
  | Teq reg operand
  | Cmp cond reg operand
  | Mul reg reg reg
  | Ldr reg reg ulong
  | Ldrlit reg ulong
  | Stmdb "reg list"
  | Ldmia "reg list"
  | Ldmdb "reg list"
  | B ulong
  | Bif cond ulong
  | Bl ulong
  | Adr reg ulong
  | Lfmea2
  | Stfd freg
  | Fdyadic dyadic
  | Fltd
  | Fcmp bool
  | Mcr10

datatype 'f cell = Code instr | Data ulong | Text string | Routine "'f cpu \<Rightarrow> 'f cpu"

type_synonym 'f prog = "ulong \<Rightarrow> 'f cell option"

section \<open>Execution\<close>

fun cond_holds :: "cond \<Rightarrow> flags \<Rightarrow> bool" where
  "cond_holds Always f = True"
| "cond_holds IfEQ f = flag_z f"
| "cond_holds IfNE f = (\<not> flag_z f)"
| "cond_holds IfCS f = flag_c f"
| "cond_holds IfCC f = (\<not> flag_c f)"
| "cond_holds IfMI f = flag_n f"
| "cond_holds IfHI f = (flag_c f \<and> \<not> flag_z f)"
| "cond_holds IfLS f = (\<not> flag_c f \<or> flag_z f)"
| "cond_holds IfLT f = (flag_n f \<noteq> flag_v f)"
| "cond_holds IfLE f = (flag_z f \<or> flag_n f \<noteq> flag_v f)"
| "cond_holds IfGE f = (flag_n f = flag_v f)"
| "cond_holds IfGT f = (\<not> flag_z f \<and> flag_n f = flag_v f)"
| "cond_holds IfVS f = flag_v f"

text \<open>The program counter reads as the address of the instruction and 8.\<close>

definition get_reg :: "'f cpu \<Rightarrow> reg \<Rightarrow> ulong" where
  "get_reg s r = (if r = PC then regs s PC + 8 else regs s r)"

fun get_operand :: "'f cpu \<Rightarrow> operand \<Rightarrow> ulong" where
  "get_operand s (Reg r) = get_reg s r"
| "get_operand s (Imm w) = w"
| "get_operand s (Lsl r n) = push_bit n (get_reg s r)"
| "get_operand s (Lsr r n) = drop_bit n (get_reg s r)"
| "get_operand s (Asr r n) = signed_drop_bit n (get_reg s r)"
| "get_operand s (Ror r n) = word_rotr n (get_reg s r)"
| "get_operand s (Lsr_by r q) = drop_bit (unat (get_reg s q AND 0xff)) (get_reg s r)"

text \<open>The carry the shifter gives: the last bit shifted out; a constant of more than eight bits
  is itself the result of a rotation.\<close>

fun carry_out :: "'f cpu \<Rightarrow> operand \<Rightarrow> bool" where
  "carry_out s (Reg r) = flag_c (cpsr s)"
| "carry_out s (Imm w) = (if w \<le> 255 then flag_c (cpsr s) else bit w 31)"
| "carry_out s (Lsl r n) = bit (get_reg s r) (32 - n)"
| "carry_out s (Lsr r n) = bit (get_reg s r) (n - 1)"
| "carry_out s (Asr r n) = bit (get_reg s r) (n - 1)"
| "carry_out s (Ror r n) = bit (get_reg s r) (n - 1)"
| "carry_out s (Lsr_by r q) =
     (let n = unat (get_reg s q AND 0xff) in if n = 0 then flag_c (cpsr s) else bit (get_reg s r) (n - 1))"

text \<open>The flags of a logical operation, and those of a comparison: carry means that nothing was
  borrowed.\<close>

definition logic_flags :: "'f cpu \<Rightarrow> operand \<Rightarrow> ulong \<Rightarrow> 'f cpu" where
  "logic_flags s x w =
     s\<lparr>cpsr := (cpsr s)\<lparr>flag_n := bit w 31, flag_z := (w = 0), flag_c := carry_out s x\<rparr>\<rparr>"

definition compare :: "ulong \<Rightarrow> ulong \<Rightarrow> flags" where
  "compare a b =
     \<lparr>flag_n = bit (a - b) 31, flag_z = (a = b), flag_c = (b \<le> a),
      flag_v = (sint (a - b) \<noteq> sint a - sint b)\<rparr>"

definition advance :: "'f cpu \<Rightarrow> 'f cpu" where
  "advance s = s\<lparr>regs := (regs s)(PC := regs s PC + 4)\<rparr>"

text \<open>A register is set and the next instruction follows, unless it is the program counter.\<close>

definition set_reg :: "reg \<Rightarrow> ulong \<Rightarrow> 'f cpu \<Rightarrow> 'f cpu" where
  "set_reg r w s =
     (if r = PC then s\<lparr>regs := (regs s)(PC := w)\<rparr>
      else advance (s\<lparr>regs := (regs s)(r := w)\<rparr>))"

definition aligned :: "ulong \<Rightarrow> bool" where
  "aligned a = (unat a mod 4 = 0)"

fun store_words :: "ulong \<Rightarrow> ulong list \<Rightarrow> (ulong \<Rightarrow> ulong) \<Rightarrow> (ulong \<Rightarrow> ulong)" where
  "store_words a [] m = m"
| "store_words a (w # ws) m = store_words (a + 4) ws (m(a := w))"

fun load_regs :: "ulong \<Rightarrow> reg list \<Rightarrow> (ulong \<Rightarrow> ulong) \<Rightarrow> (reg \<Rightarrow> ulong) \<Rightarrow> (reg \<Rightarrow> ulong)" where
  "load_regs a [] m rs = rs"
| "load_regs a (r # l) m rs = load_regs (a + 4) l m (rs(r := m a))"

definition words_size :: "'a list \<Rightarrow> ulong" where
  "words_size l = 4 * of_nat (length l)"

definition on_aligned :: "ulong \<Rightarrow> 'a \<Rightarrow> 'a option" where
  "on_aligned a x = (if aligned a then Some x else None)"

fun exec :: "'f coprocessors \<Rightarrow> 'f prog \<Rightarrow> instr \<Rightarrow> 'f cpu \<Rightarrow> 'f cpu option" where
  "exec K P (Mov c r x) s =
     Some (if cond_holds c (cpsr s) then set_reg r (get_operand s x) s else advance s)"
| "exec K P (Movs c r x) s =
     (let w = get_operand s x
      in Some (if cond_holds c (cpsr s) then set_reg r w (logic_flags s x w) else advance s))"
| "exec K P (Add c r q x) s =
     Some (if cond_holds c (cpsr s) then set_reg r (get_reg s q + get_operand s x) s else advance s)"
| "exec K P (Sub c r q x) s =
     Some (if cond_holds c (cpsr s) then set_reg r (get_reg s q - get_operand s x) s else advance s)"
| "exec K P (Orr c r q x) s =
     Some (if cond_holds c (cpsr s) then set_reg r (get_reg s q OR get_operand s x) s else advance s)"
| "exec K P (Rsb c r q x) s =
     Some (if cond_holds c (cpsr s) then set_reg r (get_operand s x - get_reg s q) s else advance s)"
| "exec K P (Subs r q x) s =
     (let a = get_reg s q; b = get_operand s x in Some (set_reg r (a - b) (s\<lparr>cpsr := compare a b\<rparr>)))"
| "exec K P (Eor r q x) s = Some (set_reg r (get_reg s q XOR get_operand s x) s)"
| "exec K P (Ands r q x) s =
     (let w = get_reg s q AND get_operand s x in Some (set_reg r w (logic_flags s x w)))"
| "exec K P (Tst r x) s =
     Some (advance (logic_flags s x (get_reg s r AND get_operand s x)))"
| "exec K P (Teq r x) s =
     Some (advance (logic_flags s x (get_reg s r XOR get_operand s x)))"
| "exec K P (Cmp c r x) s =
     Some (advance (if cond_holds c (cpsr s)
       then s\<lparr>cpsr := compare (get_reg s r) (get_operand s x)\<rparr> else s))"
| "exec K P (Mul r q t) s = Some (set_reg r (get_reg s q * get_reg s t) s)"
| "exec K P (Ldr r q d) s =
     (let a = get_reg s q + d in on_aligned a (set_reg r (ram s a) s))"
| "exec K P (Ldrlit r d) s =
     (case P (regs s PC + 8 + d) of Some (Data w) \<Rightarrow> Some (set_reg r w s) | _ \<Rightarrow> None)"
| "exec K P (Stmdb l) s =
     (let a = regs s SP - words_size l
      in on_aligned a (set_reg SP a (s\<lparr>ram := store_words a (map (get_reg s) l) (ram s)\<rparr>)))"
| "exec K P (Ldmia l) s =
     (let a = regs s SP; s' = s\<lparr>regs := (load_regs a l (ram s) (regs s))(SP := a + words_size l)\<rparr>
      in on_aligned a (if PC \<in> set l then s' else advance s'))"
| "exec K P (Ldmdb l) s =
     (let a = regs s SP - words_size l
      in on_aligned a (set_reg SP a (s\<lparr>regs := load_regs a l (ram s) (regs s)\<rparr>)))"
| "exec K P (B a) s = Some (set_reg PC a s)"
| "exec K P (Bif c a) s = Some (if cond_holds c (cpsr s) then set_reg PC a s else advance s)"
| "exec K P (Bl a) s = Some (set_reg PC a (s\<lparr>regs := (regs s)(LR := regs s PC + 4)\<rparr>))"
| "exec K P (Adr r a) s = Some (set_reg r a s)"
| "exec K P Lfmea2 s =
     (let a = regs s SP - 24;
          f = (\<lambda>b. fpa_register K (ram s b, ram s (b + 4), ram s (b + 8)))
      in on_aligned a (set_reg SP a (s\<lparr>fregs := (fregs s)(F0 := f a, F1 := f (a + 12))\<rparr>)))"
| "exec K P (Stfd f) s =
     (let a = regs s SP; (w, v) = fpa_double K (fregs s f)
      in on_aligned a (advance (s\<lparr>ram := store_words a [w, v] (ram s)\<rparr>)))"
| "exec K P (Fdyadic d) s =
     Some (advance (s\<lparr>fregs := (fregs s)(F0 := fpa_dyadic K d (fregs s F0) (fregs s F1))\<rparr>))"
| "exec K P Fltd s = Some (advance (s\<lparr>fregs := (fregs s)(F0 := fpa_float K (regs s R0))\<rparr>))"
| "exec K P (Fcmp neg) s =
     Some (advance (s\<lparr>cpsr := fpa_compare K neg (fregs s F0) (fregs s F1)\<rparr>))"
| "exec K P Mcr10 s = Some (advance (emulator K s))"

definition step :: "'f coprocessors \<Rightarrow> 'f prog \<Rightarrow> 'f cpu \<Rightarrow> 'f cpu option" where
  "step K P s =
     (case P (regs s PC) of
        Some (Code i) \<Rightarrow> exec K P i s
      | Some (Routine f) \<Rightarrow> Some (f s)
      | _ \<Rightarrow> None)"

fun run :: "'f coprocessors \<Rightarrow> 'f prog \<Rightarrow> nat \<Rightarrow> 'f cpu \<Rightarrow> 'f cpu option" where
  "run K P 0 s = Some s"
| "run K P (Suc n) s = Option.bind (step K P s) (run K P n)"

section \<open>Programs in memory\<close>

fun code_at :: "'f prog \<Rightarrow> ulong \<Rightarrow> 'f cell list \<Rightarrow> bool" where
  "code_at P a [] = True"
| "code_at P a (c # cs) = (P a = Some c \<and> code_at P (a + 4) cs)"

text \<open>A program made of sections, each at its address.\<close>

fun memory_image :: "(ulong \<times> 'f cell list) list \<Rightarrow> 'f prog" where
  "memory_image [] a = None"
| "memory_image ((b, cs) # l) a =
     (if a - b < 4 * of_nat (length cs) \<and> aligned (a - b)
      then Some (cs ! unat ((a - b) div 4)) else memory_image l a)"

lemma run_add: "run K P (m + n) s = Option.bind (run K P m s) (run K P n)"
  by (induction m arbitrary: s) (auto intro: Option.bind_cong)

lemma run_numeral: "run K P (numeral n) s = Option.bind (step K P s) (run K P (pred_numeral n))"
  by (simp add: numeral_eq_Suc)

text \<open>The facts that carry an execution of code at a known address.\<close>

lemma step_code: "P (regs s PC) = Some (Code i) \<Longrightarrow> step K P s = exec K P i s"
  by (simp add: step_def)

lemma step_routine: "P (regs s PC) = Some (Routine f) \<Longrightarrow> step K P s = Some (f s)"
  by (simp add: step_def)

lemma code_at_nth:
  "code_at P a cs \<Longrightarrow> i < length cs \<Longrightarrow> P (a + 4 * of_nat i) = Some (cs ! i)"
proof (induction cs arbitrary: a i)
  case (Cons c cs)
  then show ?case
    using Cons.IH [of "a + 4" "i - 1"] by (cases i) (simp_all add: algebra_simps)
qed simp

lemma code_at_nthI:
  "(\<And>i. i < length cs \<Longrightarrow> P (a + 4 * of_nat i) = Some (cs ! i)) \<Longrightarrow> code_at P a cs"
proof (induction cs arbitrary: a)
  case (Cons c cs)
  have "P (a + 4 + 4 * of_nat i) = Some (cs ! i)" if "i < length cs" for i
    using Cons.prems [of "Suc i"] that by (simp add: algebra_simps)
  with Cons.IH Cons.prems [of 0] show ?case by simp
qed simp

lemma aligned_add: "aligned b \<Longrightarrow> aligned (a + b) = aligned a"
proof -
  have "unat (a + b) mod 4 = (unat a + unat b) mod 4"
    by (simp add: unat_word_ariths mod_mod_cancel)
  moreover assume "aligned b"
  ultimately show ?thesis
    by (simp add: aligned_def) presburger
qed

lemma aligned_diff: "aligned b \<Longrightarrow> aligned (a - b) = aligned a"
  using aligned_add [of b "a - b"] by simp

lemma aligned_numerals [simp]:
  "aligned 0" "aligned 4" "aligned 8" "aligned 12" "aligned 16" "aligned 20" "aligned 24"
  by (simp_all add: aligned_def)

lemma aligned_4: "aligned (4 * of_nat i)"
  by (induction i) (simp_all add: distrib_left aligned_add)

lemma offset_bound:
  assumes "i < n" "n < 2 ^ 30"
  shows "(4 * of_nat i :: ulong) < 4 * of_nat n" "unat (4 * of_nat i div 4 :: ulong) = i"
proof -
  have u: "unat (4 * of_nat k :: ulong) = 4 * k" if "k < 2 ^ 30" for k
    using that by (simp add: unat_word_ariths unat_of_nat)
  from assms show "(4 * of_nat i :: ulong) < 4 * of_nat n"
    by (simp add: word_less_nat_alt u)
  from assms show "unat (4 * of_nat i div 4 :: ulong) = i"
    by (simp add: unat_div u)
qed

lemma memory_image_first: "length cs < 2 ^ 30 \<Longrightarrow> code_at (memory_image ((b, cs) # l)) b cs"
  by (rule code_at_nthI) (simp add: aligned_4 offset_bound)

lemma memory_image_append:
  "memory_image (l @ l') a =
     (case memory_image l a of None \<Rightarrow> memory_image l' a | Some c \<Rightarrow> Some c)"
  by (induction l) auto

named_theorems machine "one step of the machine on the code of the glue"

lemmas [machine] = run_numeral step_def get_reg_def set_reg_def advance_def on_aligned_def Let_def
  logic_flags_def
  aligned_add aligned_diff words_size_def

end
