(* ===== verification/Protocol_Glue.thy ===== *)
theory Protocol_Glue
  imports Arm_Machine
begin

text \<open>
  The macros of the glue files (\<^verbatim>\<open>PMbedTLSInterfaceGlue.s\<close>, \<^verbatim>\<open>PConnectionEndGlue.s\<close> and
  \<^verbatim>\<open>PCECallBackGlue.s\<close>, which hold the same ones) and the entries of the branch tables of the
  \<^verbatim>\<open>.impl.s\<close> files, as code of the machine; and what happens when that code is run. The
  allocation and the release of an instance belong to NewtonOS: they are routines that keep to
  the calling convention (\<open>callee\<close>).
\<close>

section \<open>The macros\<close>

text \<open>\<^verbatim>\<open>_Dispatch slotno\<close>: the object a client holds has at offset 4 the real object, and that has
  at offset 8 its branch table.\<close>

definition dispatch_code :: "nat \<Rightarrow> instr list" where
  "dispatch_code slotno =
     [Ldr R0 R0 4, Ldr R12 R0 8, Add Always PC R12 (Imm (of_nat (slotno * 4)))]"

text \<open>\<^verbatim>\<open>asciz__className\<close>: the address of the name, two instructions on.\<close>

definition asciz_code :: "string \<Rightarrow> 'f cell list" where
  "asciz_code className = [Code (Mov Always R0 (Reg PC)), Code (Mov Always PC (Reg LR)), Text className]"

definition New_code :: "ulong \<Rightarrow> ulong \<Rightarrow> nat \<Rightarrow> instr list" where
  "New_code asciz AllocInstanceByName slotno =
     [Stmdb [R0, R1, R2, R3, LR],
      Mov Always R1 (Reg R0),
      Bl asciz,
      Bl AllocInstanceByName,
      Tst R0 (Reg R0),
      Add Always SP SP (Imm 4),
      Ldmia [R1, R2, R3, LR],
      Mov IfEQ PC (Reg LR)] @ dispatch_code slotno"

definition Delete_code :: "ulong \<Rightarrow> ulong \<Rightarrow> nat \<Rightarrow> instr list" where
  "Delete_code return FreeInstance slotno =
     [Ldr R0 R0 4,
      Stmdb [R0, LR],
      Adr LR return,
      Ldr R12 R0 8,
      Add Always PC R12 (Imm (of_nat (slotno * 4))),
      Ldmia [R0, LR],
      B FreeInstance]"

section \<open>Branch tables\<close>

text \<open>The words of a table: \<^verbatim>\<open>.word 0\<close>, a branch to a method of the class, or \<^verbatim>\<open>mov pc, lr\<close>.\<close>

datatype btable_entry = Reserved | Branch string | Return

fun entry_cell :: "(string \<Rightarrow> ulong) \<Rightarrow> btable_entry \<Rightarrow> 'f cell" where
  "entry_cell method Reserved = Data 0"
| "entry_cell method (Branch m) = Code (B (method m))"
| "entry_cell method Return = Code (Mov Always PC (Reg LR))"

definition btable_at :: "'f prog \<Rightarrow> ulong \<Rightarrow> (string \<Rightarrow> ulong) \<Rightarrow> btable_entry list \<Rightarrow> bool" where
  "btable_at P a method table = code_at P a (map (entry_cell method) table)"

text \<open>A method of \<^verbatim>\<open>PMbedTLSCECallBack\<close>: the word after the header of the object, \<^verbatim>\<open>mThis\<close>, takes
  the place of the object.\<close>

definition forward_code :: "ulong \<Rightarrow> instr list" where
  "forward_code target = [Ldr R0 R0 16, B target]"

section \<open>Objects and routines\<close>

text \<open>An object in memory, as the client holds it: its address, the real object and the table.\<close>

definition object_at :: "'f cpu \<Rightarrow> ulong \<Rightarrow> ulong \<Rightarrow> ulong \<Rightarrow> bool" where
  "object_at s obj this table \<longleftrightarrow>
     aligned obj \<and> aligned this \<and> ram s (obj + 4) = this \<and> ram s (this + 8) = table"

text \<open>What a routine that keeps to the calling convention leaves: the result in \<^verbatim>\<open>r0\<close>, anything
  in \<^verbatim>\<open>r1\<close>, \<^verbatim>\<open>r2\<close>, \<^verbatim>\<open>r3\<close>, \<^verbatim>\<open>r12\<close>, \<^verbatim>\<open>lr\<close>, the flags and the coprocessor, the stack pointer as it was,
  and control back at the caller.\<close>

definition callee ::
    "('f cpu \<Rightarrow> ulong \<times> (ulong \<Rightarrow> ulong)) \<Rightarrow> ('f cpu \<Rightarrow> 'f cpu) \<Rightarrow> 'f cpu \<Rightarrow> 'f cpu" where
  "callee effect scratch s =
     (let (result, m) = effect s
      in (scratch s)\<lparr>regs := (regs (scratch s))(R0 := result, SP := regs s SP, PC := regs s LR),
                     ram := m\<rparr>)"

text \<open>The words of the caller's part of the stack, from the stack pointer on, are not changed.\<close>

definition keeps_words :: "(ulong \<Rightarrow> ulong) \<Rightarrow> (ulong \<Rightarrow> ulong) \<Rightarrow> ulong \<Rightarrow> nat \<Rightarrow> bool" where
  "keeps_words m m' a n = list_all (\<lambda>i. m' (a + 4 * of_nat i) = m (a + 4 * of_nat i)) [0..<n]"

section \<open>Running the code\<close>

lemma dispatch_jumps:
  assumes "code_at P (regs s PC) (map Code (dispatch_code slotno))"
    "object_at s (regs s R0) this table"
  shows "run K P 3 s =
    Some (s\<lparr>regs := (regs s)(R0 := this, R12 := table, PC := table + of_nat (slotno * 4))\<rparr>)"
  using assms
  by (simp add: dispatch_code_def object_at_def machine add.assoc fun_upd_twist)

lemma btable_entry_at:
  assumes "btable_at P a method table" "i < length table"
  shows "P (a + of_nat (i * 4)) = Some (entry_cell method (table ! i))"
  using code_at_nth [of P a "map (entry_cell method) table" i] assms
  by (simp add: btable_at_def mult.commute)

text \<open>A dispatched call: four steps from the stub of the interface to the method of the class.\<close>

lemma dispatch_reaches:
  assumes "code_at P (regs s PC) (map Code (dispatch_code slotno))"
    "object_at s (regs s R0) this tbl"
    "btable_at P tbl method table" "slotno < length table" "table ! slotno = Branch m"
  shows "run K P 4 s = Some (s\<lparr>regs := (regs s)(R0 := this, R12 := tbl, PC := method m)\<rparr>)"
proof -
  have "run K P (3 + 1) s = Option.bind (run K P 3 s) (run K P 1)"
    by (rule run_add)
  with btable_entry_at [OF assms(3,4)] show ?thesis
    by (simp add: dispatch_jumps [OF assms(1,2)] assms(5) step_def set_reg_def)
qed

section \<open>Making an instance\<close>

text \<open>\<^verbatim>\<open>AllocInstanceByName\<close> is given the name that lies at the address in \<^verbatim>\<open>r0\<close> and the address
  of the implementation's name in \<^verbatim>\<open>r1\<close>.\<close>

definition AllocInstanceByName ::
    "'f prog \<Rightarrow> (string \<Rightarrow> ulong \<Rightarrow> (ulong \<Rightarrow> ulong) \<Rightarrow> ulong \<times> (ulong \<Rightarrow> ulong)) \<Rightarrow> 'f cpu
       \<Rightarrow> ulong \<times> (ulong \<Rightarrow> ulong)" where
  "AllocInstanceByName P instances s =
     (case P (regs s R0) of
        Some (Text intfname) \<Rightarrow> instances intfname (regs s R1) (ram s)
      | _ \<Rightarrow> (0, ram s))"

definition New_frame :: "'f cpu \<Rightarrow> ulong \<Rightarrow> ulong" where
  "New_frame s =
     store_words (regs s SP - 20) [regs s R0, regs s R1, regs s R2, regs s R3, regs s LR] (ram s)"

definition New_linked ::
    "'f prog \<Rightarrow> ulong \<Rightarrow> string \<Rightarrow> ('f cpu \<Rightarrow> ulong \<times> (ulong \<Rightarrow> ulong)) \<Rightarrow> ('f cpu \<Rightarrow> 'f cpu) \<Rightarrow> ulong
       \<Rightarrow> ulong \<Rightarrow> bool" where
  "New_linked P new className effect scratch asciz alloc \<longleftrightarrow>
     code_at P new (map Code (New_code asciz alloc 2)) \<and>
     code_at P asciz (asciz_code className) \<and>
     P alloc = Some (Routine (callee effect scratch))"

text \<open>What a call has to keep of the registers: arguments, stack and return address.\<close>

definition kept_args :: "'f cpu \<Rightarrow> 'f cpu \<Rightarrow> bool" where
  "kept_args s s' \<longleftrightarrow> list_all (\<lambda>r. regs s' r = regs s r) [R1, R2, R3, SP, LR]"

text \<open>Ten steps: the arguments are saved, the instance is asked for and the arguments are
  restored.\<close>

lemma New_allocates:
  assumes "New_linked P (regs s PC) className (AllocInstanceByName P instances) scratch asciz alloc"
    "aligned (regs s SP)"
    "instances className (regs s R0) (New_frame s) = (obj, m)"
    "keeps_words (New_frame s) m (regs s SP - 20) 5"
  shows "\<exists>s'. run K P 10 s = Some s' \<and> regs s' R0 = obj \<and> kept_args s s' \<and>
    regs s' PC = regs s PC + 28 \<and> ram s' = m \<and> flag_z (cpsr s') = (obj = 0)"
proof -
  obtain b where b: "regs s SP = b + 20"
    by (metis diff_add_cancel)
  have frame: "New_frame s = store_words b [regs s R0, regs s R1, regs s R2, regs s R3, regs s LR] (ram s)"
    by (simp add: New_frame_def b)
  have words: "m (b + 4) = regs s R1" "m (b + 8) = regs s R2" "m (b + 12) = regs s R3"
      "m (b + 16) = regs s LR"
    using assms(4) by (simp_all add: keeps_words_def b frame upt_rec add.assoc)
  have ab: "aligned b"
    using assms(2) by (simp add: b aligned_add)
  note linked = New_linked_def New_code_def asciz_code_def dispatch_code_def
  show ?thesis
    using assms(1) ab assms(3)
    by (simp add: linked machine b frame callee_def AllocInstanceByName_def kept_args_def add.assoc words)
qed

text \<open>No instance: nil is returned to the caller of \<^verbatim>\<open>New\<close>.\<close>

lemma New_without_instance:
  assumes "New_linked P (regs s PC) className (AllocInstanceByName P instances) scratch asciz alloc"
    "aligned (regs s SP)"
    "instances className (regs s R0) (New_frame s) = (0, m)"
    "keeps_words (New_frame s) m (regs s SP - 20) 5"
  shows "\<exists>s'. run K P 11 s = Some s' \<and> regs s' R0 = 0 \<and> kept_args s s' \<and>
    regs s' PC = regs s LR \<and> ram s' = m"
proof -
  obtain s' where s': "run K P 10 s = Some s'" "regs s' R0 = 0" "kept_args s s'"
      "regs s' PC = regs s PC + 28" "ram s' = m" "flag_z (cpsr s')"
    using New_allocates [OF assms] by auto
  moreover have "P (regs s PC + 28) = Some (Code (Mov IfEQ PC (Reg LR)))"
    using assms(1) by (simp add: New_linked_def New_code_def add.assoc)
  moreover have "run K P (10 + 1) s = Option.bind (run K P 10 s) (run K P 1)"
    by (rule run_add)
  ultimately show ?thesis
    by (simp add: machine kept_args_def)
qed

text \<open>An instance: the method \<^verbatim>\<open>New\<close> of its class is entered with the arguments of the call.\<close>

lemma New_with_instance:
  assumes "New_linked P (regs s PC) className (AllocInstanceByName P instances) scratch asciz alloc"
    "aligned (regs s SP)"
    "instances className (regs s R0) (New_frame s) = (obj, m)" "obj \<noteq> 0"
    "keeps_words (New_frame s) m (regs s SP - 20) 5"
    "aligned obj" "aligned (m (obj + 4))"
    "btable_at P (m (m (obj + 4) + 8)) method table" "2 < length table" "table ! 2 = Branch c"
  shows "\<exists>s'. run K P 15 s = Some s' \<and> regs s' R0 = m (obj + 4) \<and> kept_args s s' \<and>
    regs s' PC = method c \<and> ram s' = m"
proof -
  obtain s' where s': "run K P 10 s = Some s'" "regs s' R0 = obj" "kept_args s s'"
      "regs s' PC = regs s PC + 28" "ram s' = m" "\<not> flag_z (cpsr s')"
    using New_allocates [OF assms(1-3,5)] assms(4) by auto
  define s1 where "s1 = advance s'"
  have code: "P (regs s PC + 28) = Some (Code (Mov IfEQ PC (Reg LR)))"
      "code_at P (regs s1 PC) (map Code (dispatch_code 2))"
    using assms(1) s'(4)
    by (simp_all add: New_linked_def New_code_def s1_def advance_def dispatch_code_def add.assoc)
  have "run K P 1 s' = Some s1"
    using code(1) s'(4,6) by (simp add: step_def s1_def)
  moreover have "run K P 4 s1 =
      Some (s1\<lparr>regs := (regs s1)(R0 := m (obj + 4), R12 := m (m (obj + 4) + 8), PC := method c)\<rparr>)"
    using assms(6-10) s'(2,5) code(2)
    by (intro dispatch_reaches) (simp_all add: object_at_def s1_def advance_def)
  ultimately show ?thesis
    using s' run_add [of K P 10 5 s] run_add [of K P 1 4 s']
    by (simp add: s1_def advance_def kept_args_def)
qed

section \<open>Deleting an instance\<close>

definition Delete_frame :: "'f cpu \<Rightarrow> ulong \<Rightarrow> ulong \<Rightarrow> ulong" where
  "Delete_frame s this = store_words (regs s SP - 8) [this, regs s LR] (ram s)"

text \<open>The method \<^verbatim>\<open>Delete\<close> of the class is called on the real object, which is then given to
  \<^verbatim>\<open>FreeInstance\<close> with the caller's return address.\<close>

lemma Delete_frees:
  assumes "code_at P (regs s PC) (map Code (Delete_code (regs s PC + 20) free 3))"
    "aligned (regs s SP)" "object_at s (regs s R0) this tbl"
    "Delete_frame s this (this + 8) = tbl"
    "btable_at P tbl method table" "3 < length table" "table ! 3 = Branch d"
    "P (method d) = Some (Routine (callee (\<lambda>s. destroy (regs s R0) (ram s)) scratch))"
    "destroy this (Delete_frame s this) = (r, m)"
    "keeps_words (Delete_frame s this) m (regs s SP - 8) 2"
  shows "\<exists>s'. run K P 9 s = Some s' \<and> regs s' R0 = this \<and> regs s' LR = regs s LR \<and>
    regs s' SP = regs s SP \<and> regs s' PC = free \<and> ram s' = m"
proof -
  obtain b where b: "regs s SP = b + 8"
    by (metis diff_add_cancel)
  have frame: "Delete_frame s this = store_words b [this, regs s LR] (ram s)"
    by (simp add: Delete_frame_def b)
  have words: "m b = this" "m (b + 4) = regs s LR"
    using assms(10) by (simp_all add: keeps_words_def b frame upt_rec)
  have ab: "aligned b"
    using assms(2) by (simp add: b aligned_add)
  have entry: "P (tbl + 12) = Some (Code (B (method d)))"
    using btable_entry_at [OF assms(5,6)] assms(7) by simp
  show ?thesis
    using assms(1,3,4,8,9) ab entry
    by (simp add: Delete_code_def object_at_def machine b frame callee_def add.assoc words)
qed

end
