(* ===== verification/Protocol_Declarations.thy ===== *)
theory Protocol_Declarations
  imports Newton_Prelude
begin

text \<open>
  The methods the headers declare: those of the interface \<^verbatim>\<open>PMbedTLSInterface\<close> and of the three
  classes that implement a protocol. The assembly names a method by its mangled name, so the
  types of the parameters are kept, and \<open>mangled\<close> is the name the compiler gives to a method (the
  part of the Itanium C++ ABI these declarations need; the type of a result is no part of it).
  \<^verbatim>\<open>New\<close> and \<^verbatim>\<open>Delete\<close>, which the glue treats in a way of their own, and the functions that are
  not part of the protocol are left out of the lists.
\<close>

section \<open>Types and names\<close>

datatype ctype =
    Builtin char
  | Class string
  | Ptr ctype
  | LRef ctype
  | Const ctype

text \<open>The names of NewtonOS: \<^verbatim>\<open>Size\<close> and \<^verbatim>\<open>NewtonErr\<close> are \<^verbatim>\<open>long\<close>, \<^verbatim>\<open>Boolean\<close> is \<^verbatim>\<open>unsigned char\<close>
  and \<^verbatim>\<open>RefArg\<close> is \<^verbatim>\<open>const RefVar&\<close>.\<close>

abbreviation "Void \<equiv> Builtin (CHR ''v'')"

abbreviation "UChar \<equiv> Builtin (CHR ''h'')"

abbreviation "Long \<equiv> Builtin (CHR ''l'')"

abbreviation "ULong \<equiv> Builtin (CHR ''m'')"

abbreviation "RefArg \<equiv> LRef (Const (Class ''RefVar''))"

type_synonym decl = "string \<times> ctype list"

definition decimal :: "nat \<Rightarrow> string" where
  "decimal n =
     (if n < 10 then [''0123456789'' ! n] else [''0123456789'' ! (n div 10), ''0123456789'' ! (n mod 10)])"

definition source_name :: "string \<Rightarrow> string" where
  "source_name n = decimal (length n) @ n"

text \<open>What has been written before is written as its number among the substitutions.\<close>

fun place_of :: "ctype \<Rightarrow> ctype list \<Rightarrow> nat option" where
  "place_of t [] = None"
| "place_of t (u # us) = (if t = u then Some 0 else map_option Suc (place_of t us))"

fun seq_id :: "nat \<Rightarrow> string" where
  "seq_id 0 = ''S_''"
| "seq_id (Suc i) = ''S'' @ decimal i @ ''_''"

fun mangle :: "ctype list \<Rightarrow> ctype \<Rightarrow> string \<times> ctype list" where
  "mangle subs (Builtin c) = ([c], subs)"
| "mangle subs (Class n) =
     (case place_of (Class n) subs of
        Some i \<Rightarrow> (seq_id i, subs)
      | None \<Rightarrow> (source_name n, subs @ [Class n]))"
| "mangle subs (Ptr t) =
     (case place_of (Ptr t) subs of
        Some i \<Rightarrow> (seq_id i, subs)
      | None \<Rightarrow> (let (s, subs) = mangle subs t in (''P'' @ s, subs @ [Ptr t])))"
| "mangle subs (LRef t) =
     (case place_of (LRef t) subs of
        Some i \<Rightarrow> (seq_id i, subs)
      | None \<Rightarrow> (let (s, subs) = mangle subs t in (''R'' @ s, subs @ [LRef t])))"
| "mangle subs (Const t) =
     (case place_of (Const t) subs of
        Some i \<Rightarrow> (seq_id i, subs)
      | None \<Rightarrow> (let (s, subs) = mangle subs t in (''K'' @ s, subs @ [Const t])))"

fun mangle_params :: "ctype list \<Rightarrow> ctype list \<Rightarrow> string" where
  "mangle_params subs [] = ''''"
| "mangle_params subs (t # ts) = (let (s, subs) = mangle subs t in s @ mangle_params subs ts)"

text \<open>The class is the first substitution. The name of a method is given without the class:
  \<open>symbol\<close> adds it.\<close>

definition mangled :: "string \<Rightarrow> decl \<Rightarrow> string" where
  "mangled class d =
     (case d of (n, ps) \<Rightarrow>
        source_name n @ ''E'' @ (if ps = [] then ''v'' else mangle_params [Class class] ps))"

definition symbol :: "string \<Rightarrow> string \<Rightarrow> string" where
  "symbol class m = ''_ZN'' @ source_name class @ m"

lemmas mangle_defs = source_name_def decimal_def

section \<open>Declarations\<close>


text \<open>\<^verbatim>\<open>PMbedTLSInterface\<close> of \<^verbatim>\<open>Common/PMbedTLSInterface.h\<close>.\<close>

definition PMbedTLSInterface_decls :: "decl list" where
  "PMbedTLSInterface_decls =
   [(''GetVersion'', []), (''SSLListCiphersuites'', []), (''EntropyNew'', []), (''CtrDrbgNew'', []),
    (''CtrDrbgSeed'', [RefArg, RefArg, RefArg]), (''PKNew'', []), (''SSLNew'', []),
    (''SSLCheckPending'', [RefArg]), (''SSLCloseNotify'', [RefArg]), (''SSLGetALPNProtocol'', [RefArg]),
    (''SSLGetBytesAvail'', [RefArg]), (''SSLGetCiphersuite'', [RefArg]), (''SSLGetMaxFragLen'', [RefArg]),
    (''SSLGetMaxOutRecordPayload'', [RefArg]), (''SSLGetPeerCert'', [RefArg]),
    (''SSLGetRecordExpansion'', [RefArg]), (''SSLGetSession'', [RefArg]), (''SSLGetVerifyResult'', [RefArg]),
    (''SSLGetVersion'', [RefArg]), (''SSLHandshake'', [RefArg]), (''SSLHandshakeStep'', [RefArg]),
    (''SSLRead'', [RefArg, RefArg]), (''SSLRenegotiate'', [RefArg]),
    (''SSLSendAlertMessage'', [RefArg, RefArg, RefArg]), (''SSLSessionReset'', [RefArg]),
    (''SSLSetBIO'', [RefArg, RefArg, RefArg]), (''SSLSetClientTransportID'', [RefArg, RefArg]),
    (''SSLSetDatagramPacking'', [RefArg, RefArg]), (''SSLSetHostname'', [RefArg, RefArg]),
    (''SSLSetHsAuthMode'', [RefArg, RefArg]), (''SSLSetHsCAChain'', [RefArg, RefArg, RefArg]),
    (''SSLSetHsOwnCert'', [RefArg, RefArg, RefArg]), (''SSLSetHsPSK'', [RefArg, RefArg]),
    (''SSLSetMTU'', [RefArg, RefArg]), (''SSLSetSession'', [RefArg, RefArg]),
    (''SSLSetTimerCb'', [RefArg, RefArg, RefArg]), (''SSLSetup'', [RefArg, RefArg]),
    (''SSLWrite'', [RefArg, RefArg]), (''SSLCacheNew'', []), (''SSLCacheSetMaxEntries'', [RefArg, RefArg]),
    (''SSLCacheSetTimeout'', [RefArg, RefArg]), (''SSLConfigNew'', []),
    (''SSLConfALPNProtocol'', [RefArg, RefArg]), (''SSLConfARC4Support'', [RefArg, RefArg]),
    (''SSLConfAuthMode'', [RefArg, RefArg]), (''SSLConfCAChain'', [RefArg, RefArg, RefArg]),
    (''SSLConfCbcRecordSplitting'', [RefArg, RefArg]), (''SSLConfCertProfile'', [RefArg, RefArg]),
    (''SSLConfCertReqCAList'', [RefArg, RefArg]), (''SSLConfCiphersuites'', [RefArg, RefArg]),
    (''SSLConfCiphersuitesForVersion'', [RefArg, RefArg, RefArg, RefArg]),
    (''SSLConfCurves'', [RefArg, RefArg]), (''SSLConfDbg'', [RefArg, RefArg]),
    (''SSLConfDHParamBin'', [RefArg, RefArg, RefArg]), (''SSLConfDHParamCtx'', [RefArg, RefArg]),
    (''SSLConfDHMMinBitlen'', [RefArg, RefArg]), (''SSLConfDTLSAntiReplay'', [RefArg, RefArg]),
    (''SSLConfDTLSBadMACLimit'', [RefArg, RefArg]), (''SSLConfDTLSCookies'', [RefArg, RefArg, RefArg]),
    (''SSLConfEncryptThenMac'', [RefArg, RefArg]), (''SSLConfEndpoint'', [RefArg, RefArg]),
    (''SSLConfExportKeysCb'', [RefArg, RefArg]), (''SSLConfExtendedMasterSecret'', [RefArg, RefArg]),
    (''SSLConfFallback'', [RefArg, RefArg]), (''SSLConfHandshakeTimeout'', [RefArg, RefArg, RefArg]),
    (''SSLConfLegacyRenegotiation'', [RefArg, RefArg]), (''SSLConfMaxFragLen'', [RefArg, RefArg]),
    (''SSLConfMaxVersion'', [RefArg, RefArg, RefArg]), (''SSLConfMinVersion'', [RefArg, RefArg, RefArg]),
    (''SSLConfOwnCert'', [RefArg, RefArg, RefArg]), (''SSLConfPSK'', [RefArg, RefArg, RefArg]),
    (''SSLConfPSKCb'', [RefArg, RefArg]), (''SSLConfRenegotiation'', [RefArg, RefArg]),
    (''SSLConfRenegotiationEnforced'', [RefArg, RefArg]), (''SSLConfRenegotiationPeriod'', [RefArg, RefArg]),
    (''SSLConfRng'', [RefArg, RefArg]), (''SSLConfSessionCache'', [RefArg, RefArg]),
    (''SSLConfSessionTickets'', [RefArg, RefArg]), (''SSLConfSessionTicketsCb'', [RefArg, RefArg, RefArg]),
    (''SSLConfSigHashes'', [RefArg, RefArg]), (''SSLConfSNI'', [RefArg, RefArg]),
    (''SSLConfTransport'', [RefArg, RefArg]), (''SSLConfTruncatedHMAC'', [RefArg, RefArg]),
    (''SSLConfVerify'', [RefArg, RefArg]), (''SSLConfigDefaults'', [RefArg, RefArg, RefArg]),
    (''SSLSessionNew'', []), (''X509CrtNew'', []), (''X509CrtParse'', [RefArg, RefArg]),
    (''X509CrtCount'', [RefArg]), (''X509CrtGetDER'', [RefArg, RefArg]),
    (''X509CrtGetVersion'', [RefArg, RefArg]), (''X509CrtGetSerialNumber'', [RefArg, RefArg]),
    (''X509CrtGetIssuerName'', [RefArg, RefArg]), (''X509CrtGetSubjectName'', [RefArg, RefArg]),
    (''X509CrtGetIssueDate'', [RefArg, RefArg]), (''X509CrtGetExpirationDate'', [RefArg, RefArg]),
    (''X509CrtGetSignatureAlgorithm'', [RefArg, RefArg]), (''X509CrlNew'', []),
    (''X509CrlParse'', [RefArg, RefArg]), (''InstallConnectionEnd'', []), (''RemoveConnectionEnd'', [])]"

text \<open>\<^verbatim>\<open>PMbedTLS\<close> of \<^verbatim>\<open>Protocol/PMbedTLS.impl.h\<close>: the methods of the interface.\<close>

definition PMbedTLS_decls :: "decl list" where
  "PMbedTLS_decls =
   [(''GetVersion'', []), (''SSLListCiphersuites'', []), (''EntropyNew'', []), (''CtrDrbgNew'', []),
    (''CtrDrbgSeed'', [RefArg, RefArg, RefArg]), (''PKNew'', []), (''SSLNew'', []),
    (''SSLCheckPending'', [RefArg]), (''SSLCloseNotify'', [RefArg]), (''SSLGetALPNProtocol'', [RefArg]),
    (''SSLGetBytesAvail'', [RefArg]), (''SSLGetCiphersuite'', [RefArg]), (''SSLGetMaxFragLen'', [RefArg]),
    (''SSLGetMaxOutRecordPayload'', [RefArg]), (''SSLGetPeerCert'', [RefArg]),
    (''SSLGetRecordExpansion'', [RefArg]), (''SSLGetSession'', [RefArg]), (''SSLGetVerifyResult'', [RefArg]),
    (''SSLGetVersion'', [RefArg]), (''SSLHandshake'', [RefArg]), (''SSLHandshakeStep'', [RefArg]),
    (''SSLRead'', [RefArg, RefArg]), (''SSLRenegotiate'', [RefArg]),
    (''SSLSendAlertMessage'', [RefArg, RefArg, RefArg]), (''SSLSessionReset'', [RefArg]),
    (''SSLSetBIO'', [RefArg, RefArg, RefArg]), (''SSLSetClientTransportID'', [RefArg, RefArg]),
    (''SSLSetDatagramPacking'', [RefArg, RefArg]), (''SSLSetHostname'', [RefArg, RefArg]),
    (''SSLSetHsAuthMode'', [RefArg, RefArg]), (''SSLSetHsCAChain'', [RefArg, RefArg, RefArg]),
    (''SSLSetHsOwnCert'', [RefArg, RefArg, RefArg]), (''SSLSetHsPSK'', [RefArg, RefArg]),
    (''SSLSetMTU'', [RefArg, RefArg]), (''SSLSetSession'', [RefArg, RefArg]),
    (''SSLSetTimerCb'', [RefArg, RefArg, RefArg]), (''SSLSetup'', [RefArg, RefArg]),
    (''SSLWrite'', [RefArg, RefArg]), (''SSLCacheNew'', []), (''SSLCacheSetMaxEntries'', [RefArg, RefArg]),
    (''SSLCacheSetTimeout'', [RefArg, RefArg]), (''SSLConfigNew'', []),
    (''SSLConfALPNProtocol'', [RefArg, RefArg]), (''SSLConfARC4Support'', [RefArg, RefArg]),
    (''SSLConfAuthMode'', [RefArg, RefArg]), (''SSLConfCAChain'', [RefArg, RefArg, RefArg]),
    (''SSLConfCbcRecordSplitting'', [RefArg, RefArg]), (''SSLConfCertProfile'', [RefArg, RefArg]),
    (''SSLConfCertReqCAList'', [RefArg, RefArg]), (''SSLConfCiphersuites'', [RefArg, RefArg]),
    (''SSLConfCiphersuitesForVersion'', [RefArg, RefArg, RefArg, RefArg]),
    (''SSLConfCurves'', [RefArg, RefArg]), (''SSLConfDbg'', [RefArg, RefArg]),
    (''SSLConfDHParamBin'', [RefArg, RefArg, RefArg]), (''SSLConfDHParamCtx'', [RefArg, RefArg]),
    (''SSLConfDHMMinBitlen'', [RefArg, RefArg]), (''SSLConfDTLSAntiReplay'', [RefArg, RefArg]),
    (''SSLConfDTLSBadMACLimit'', [RefArg, RefArg]), (''SSLConfDTLSCookies'', [RefArg, RefArg, RefArg]),
    (''SSLConfEncryptThenMac'', [RefArg, RefArg]), (''SSLConfEndpoint'', [RefArg, RefArg]),
    (''SSLConfExportKeysCb'', [RefArg, RefArg]), (''SSLConfExtendedMasterSecret'', [RefArg, RefArg]),
    (''SSLConfFallback'', [RefArg, RefArg]), (''SSLConfHandshakeTimeout'', [RefArg, RefArg, RefArg]),
    (''SSLConfLegacyRenegotiation'', [RefArg, RefArg]), (''SSLConfMaxFragLen'', [RefArg, RefArg]),
    (''SSLConfMaxVersion'', [RefArg, RefArg, RefArg]), (''SSLConfMinVersion'', [RefArg, RefArg, RefArg]),
    (''SSLConfOwnCert'', [RefArg, RefArg, RefArg]), (''SSLConfPSK'', [RefArg, RefArg, RefArg]),
    (''SSLConfPSKCb'', [RefArg, RefArg]), (''SSLConfRenegotiation'', [RefArg, RefArg]),
    (''SSLConfRenegotiationEnforced'', [RefArg, RefArg]), (''SSLConfRenegotiationPeriod'', [RefArg, RefArg]),
    (''SSLConfRng'', [RefArg, RefArg]), (''SSLConfSessionCache'', [RefArg, RefArg]),
    (''SSLConfSessionTickets'', [RefArg, RefArg]), (''SSLConfSessionTicketsCb'', [RefArg, RefArg, RefArg]),
    (''SSLConfSigHashes'', [RefArg, RefArg]), (''SSLConfSNI'', [RefArg, RefArg]),
    (''SSLConfTransport'', [RefArg, RefArg]), (''SSLConfTruncatedHMAC'', [RefArg, RefArg]),
    (''SSLConfVerify'', [RefArg, RefArg]), (''SSLConfigDefaults'', [RefArg, RefArg, RefArg]),
    (''SSLSessionNew'', []), (''X509CrlNew'', []), (''X509CrlParse'', [RefArg, RefArg]), (''X509CrtNew'', []),
    (''X509CrtParse'', [RefArg, RefArg]), (''X509CrtCount'', [RefArg]), (''X509CrtGetDER'', [RefArg, RefArg]),
    (''X509CrtGetVersion'', [RefArg, RefArg]), (''X509CrtGetSerialNumber'', [RefArg, RefArg]),
    (''X509CrtGetIssuerName'', [RefArg, RefArg]), (''X509CrtGetSubjectName'', [RefArg, RefArg]),
    (''X509CrtGetIssueDate'', [RefArg, RefArg]), (''X509CrtGetExpirationDate'', [RefArg, RefArg]),
    (''X509CrtGetSignatureAlgorithm'', [RefArg, RefArg]), (''InstallConnectionEnd'', []),
    (''RemoveConnectionEnd'', [])]"

text \<open>\<^verbatim>\<open>PMbedTLSConnectionEnd\<close> of \<^verbatim>\<open>Protocol/PMbedTLSConnectionEnd.impl.h\<close>: the methods of
  \<^verbatim>\<open>PConnectionEnd\<close>.\<close>

definition PMbedTLSConnectionEnd_decls :: "decl list" where
  "PMbedTLSConnectionEnd_decls =
   [(''Init'', [Ptr (Class ''PMuxTool''), Ptr (Class ''PCECallBack''), ULong]),
    (''HandleInternalRequest'', [Ptr Void]), (''HandleInternalEvent'', []), (''OpenStart'', []),
    (''CloseStart'', []), (''BindStart'', []), (''UnbindStart'', []), (''ConnectStart'', []),
    (''ListenStart'', []), (''AcceptStart'', []), (''ReleaseStart'', []), (''TerminateStart'', []),
    (''PutBytesStart'', [Ptr (Class ''CBufferList'')]),
    (''PutFramedBytesStart'', [Ptr (Class ''CBufferList''), UChar]), (''KillPutStart'', []),
    (''GetBytesStart'', [Ptr (Class ''CBufferList'')]),
    (''GetFramedBytesStart'', [Ptr (Class ''CBufferList'')]),
    (''GetBytesImmediateStart'', [Ptr (Class ''CBufferList''), Long]), (''KillGetStart'', []),
    (''HandleTimerTick'', []), (''HandleRequest'', [Ptr UChar, ULong, LRef (Class ''TUMsgToken''), ULong]),
    (''HandleReply'', [ULong, ULong]), (''KillControlStart'', []), (''KillGetCommEventStart'', []),
    (''GetCommEvent'', []), (''ProcessOptionStart'', [Ptr (Class ''TOption''), ULong, ULong]),
    (''ProcessPutBytesOptionStart'', [Ptr (Class ''TOption''), ULong, ULong]),
    (''ProcessGetBytesOptionStart'', [Ptr (Class ''TOption''), ULong, ULong]),
    (''ResArbReleaseStart'', [Ptr UChar, Ptr UChar]), (''ResArbClaimNotification'', [Ptr UChar, Ptr UChar]),
    (''ForwardOptions'', [])]"

text \<open>The callbacks declared after them.\<close>

definition PMbedTLSConnectionEnd_CB_decls :: "decl list" where
  "PMbedTLSConnectionEnd_CB_decls =
   [(''InitCB'', [Ptr (Class ''TConnectionEnd'')]), (''OpenCompleteCB'', [Long]),
    (''CloseCompleteCB'', [Long]), (''BindCompleteCB'', [Long]), (''UnbindCompleteCB'', [Long]),
    (''ConnectCompleteCB'', [Long]), (''ListenCompleteCB'', [Long]), (''AcceptCompleteCB'', [Long]),
    (''TerminateCompleteCB'', []), (''PutCompleteCB'', [Long, ULong]), (''KillPutCompleteCB'', [Long]),
    (''GetCompleteCB'', [Long, UChar, ULong]), (''KillGetCompleteCB'', [Long]),
    (''HandleRequestCB'', [Ptr UChar, ULong, LRef (Class ''TUMsgToken''), ULong]),
    (''HandleReplyCB'', [ULong, ULong]), (''KillControlCompleteCB'', [Long]),
    (''KillGetCommEventCompleteCB'', [Long]), (''GetCommEventCB'', []),
    (''PostCommEventCB'', [LRef (Class ''TCommToolGetEventReply''), Long]),
    (''ProcessOptionCompleteCB'', [ULong]), (''ProcessPutBytesOptionCompleteCB'', [ULong]),
    (''ProcessGetBytesOptionCompleteCB'', [ULong]), (''ResArbReleaseCompleteCB'', [Long]),
    (''FlushChannelCB'', [ULong, Long]), (''StartAbortCB'', [Long]), (''GetAbortErrCB'', []),
    (''GetTerminationEventCB'', []), (''SetTerminationEventCB'', [ULong]),
    (''InitAsyncRPCMsgCB'', [LRef (Class ''TUAsyncMessage''), ULong]), (''GetToolConnectStateCB'', []),
    (''SetToolConnectStateCB'', [ULong]), (''GetConnectInfoCB'', []),
    (''SetConnectInfoCB'', [LRef (Class ''TCMOCTConnectInfo'')]), (''GetCMOTransportInfoCB'', []),
    (''SetCMOTransportInfoCB'', [LRef (Class ''TCMOTransportInfo'')]), (''GetReceiveMessageBufSizeCB'', []),
    (''GetConnectionEndPortCB'', []), (''GetControlOptionsInfoCB'', []), (''GetGetBytesOptionsInfoCB'', []),
    (''GetPutBytesOptionsInfoCB'', []), (''GetCurPutDataCB'', []), (''GetCurPutFrameDataCB'', []),
    (''GetCurPutEndOfFrameCB'', []), (''GetCurGetDataCB'', []), (''GetCurGetFrameDataCB'', []),
    (''GetCurGetNonBlockingCB'', []), (''GetCurGetThresholdCB'', []), (''GetPassiveClaimCB'', []),
    (''SetPassiveClaimCB'', [UChar]), (''GetPassiveStateCB'', []), (''SetPassiveStateCB'', [UChar]),
    (''GetWaitingForResNotifyCB'', []), (''SetWaitingForResNotifyCB'', [UChar]),
    (''GetCurRequestOpCodeCB'', [])]"

text \<open>\<^verbatim>\<open>PMbedTLSCECallBack\<close> of \<^verbatim>\<open>Protocol/PMbedTLSCECallBack.impl.h\<close>: the methods of
  \<^verbatim>\<open>PCECallBack\<close>.\<close>

definition PMbedTLSCECallBack_decls :: "decl list" where
  "PMbedTLSCECallBack_decls =
   [(''Init'', [Ptr (Class ''TConnectionEnd'')]), (''OpenComplete'', [Long]), (''CloseComplete'', [Long]),
    (''BindComplete'', [Long]), (''UnbindComplete'', [Long]), (''ConnectComplete'', [Long]),
    (''ListenComplete'', [Long]), (''AcceptComplete'', [Long]), (''TerminateComplete'', []),
    (''PutComplete'', [Long, ULong]), (''KillPutComplete'', [Long]), (''GetComplete'', [Long, UChar, ULong]),
    (''KillGetComplete'', [Long]),
    (''HandleRequest'', [Ptr UChar, ULong, LRef (Class ''TUMsgToken''), ULong]),
    (''HandleReply'', [ULong, ULong]), (''KillControlComplete'', [Long]),
    (''KillGetCommEventComplete'', [Long]), (''GetCommEvent'', []),
    (''PostCommEvent'', [LRef (Class ''TCommToolGetEventReply''), Long]),
    (''ProcessOptionComplete'', [ULong]), (''ProcessPutBytesOptionComplete'', [ULong]),
    (''ProcessGetBytesOptionComplete'', [ULong]), (''ResArbReleaseComplete'', [Long]),
    (''FlushChannel'', [ULong, Long]), (''StartAbort'', [Long]), (''GetAbortErr'', []),
    (''GetTerminationEvent'', []), (''SetTerminationEvent'', [ULong]),
    (''InitAsyncRPCMsg'', [LRef (Class ''TUAsyncMessage''), ULong]), (''GetToolConnectState'', []),
    (''SetToolConnectState'', [ULong]), (''GetConnectInfo'', []),
    (''SetConnectInfo'', [LRef (Class ''TCMOCTConnectInfo'')]), (''GetCMOTransportInfo'', []),
    (''SetCMOTransportInfo'', [LRef (Class ''TCMOTransportInfo'')]), (''GetReceiveMessageBufSize'', []),
    (''GetConnectionEndPort'', []), (''GetControlOptionsInfo'', []), (''GetGetBytesOptionsInfo'', []),
    (''GetPutBytesOptionsInfo'', []), (''GetCurPutData'', []), (''GetCurPutFrameData'', []),
    (''GetCurPutEndOfFrame'', []), (''GetCurGetData'', []), (''GetCurGetFrameData'', []),
    (''GetCurGetNonBlocking'', []), (''GetCurGetThreshold'', []), (''GetPassiveClaim'', []),
    (''SetPassiveClaim'', [UChar]), (''GetPassiveState'', []), (''SetPassiveState'', [UChar]),
    (''GetWaitingForResNotify'', []), (''SetWaitingForResNotify'', [UChar]), (''GetCurRequestOpCode'', [])]"

section \<open>The mangled names\<close>

lemma source_names_1:
  "source_name ''AcceptComplete'' = ''14AcceptComplete''"
  "source_name ''AcceptCompleteCB'' = ''16AcceptCompleteCB''"
  "source_name ''AcceptStart'' = ''11AcceptStart''"
  "source_name ''BindComplete'' = ''12BindComplete''"
  "source_name ''BindCompleteCB'' = ''14BindCompleteCB''"
  "source_name ''BindStart'' = ''9BindStart''"
  "source_name ''CBufferList'' = ''11CBufferList''"
  "source_name ''CloseComplete'' = ''13CloseComplete''"
  "source_name ''CloseCompleteCB'' = ''15CloseCompleteCB''"
  "source_name ''CloseStart'' = ''10CloseStart''"
  "source_name ''ConnectComplete'' = ''15ConnectComplete''"
  "source_name ''ConnectCompleteCB'' = ''17ConnectCompleteCB''"
  "source_name ''ConnectStart'' = ''12ConnectStart''"
  "source_name ''CtrDrbgNew'' = ''10CtrDrbgNew''"
  "source_name ''CtrDrbgSeed'' = ''11CtrDrbgSeed''"
  "source_name ''EntropyNew'' = ''10EntropyNew''"
  "source_name ''FlushChannel'' = ''12FlushChannel''"
  "source_name ''FlushChannelCB'' = ''14FlushChannelCB''"
  "source_name ''ForwardOptions'' = ''14ForwardOptions''"
  "source_name ''GetAbortErr'' = ''11GetAbortErr''"
  "source_name ''GetAbortErrCB'' = ''13GetAbortErrCB''"
  "source_name ''GetBytesImmediateStart'' = ''22GetBytesImmediateStart''"
  "source_name ''GetBytesStart'' = ''13GetBytesStart''"
  "source_name ''GetCMOTransportInfo'' = ''19GetCMOTransportInfo''"
  "source_name ''GetCMOTransportInfoCB'' = ''21GetCMOTransportInfoCB''"
  "source_name ''GetCommEvent'' = ''12GetCommEvent''"
  "source_name ''GetCommEventCB'' = ''14GetCommEventCB''"
  "source_name ''GetComplete'' = ''11GetComplete''"
  "source_name ''GetCompleteCB'' = ''13GetCompleteCB''"
  "source_name ''GetConnectInfo'' = ''14GetConnectInfo''"
  "source_name ''GetConnectInfoCB'' = ''16GetConnectInfoCB''"
  "source_name ''GetConnectionEndPort'' = ''20GetConnectionEndPort''"
  "source_name ''GetConnectionEndPortCB'' = ''22GetConnectionEndPortCB''"
  "source_name ''GetControlOptionsInfo'' = ''21GetControlOptionsInfo''"
  "source_name ''GetControlOptionsInfoCB'' = ''23GetControlOptionsInfoCB''"
  "source_name ''GetCurGetData'' = ''13GetCurGetData''"
  "source_name ''GetCurGetDataCB'' = ''15GetCurGetDataCB''"
  "source_name ''GetCurGetFrameData'' = ''18GetCurGetFrameData''"
  "source_name ''GetCurGetFrameDataCB'' = ''20GetCurGetFrameDataCB''"
  "source_name ''GetCurGetNonBlocking'' = ''20GetCurGetNonBlocking''"
  by (simp_all add: source_name_def decimal_def)

lemma source_names_2:
  "source_name ''GetCurGetNonBlockingCB'' = ''22GetCurGetNonBlockingCB''"
  "source_name ''GetCurGetThreshold'' = ''18GetCurGetThreshold''"
  "source_name ''GetCurGetThresholdCB'' = ''20GetCurGetThresholdCB''"
  "source_name ''GetCurPutData'' = ''13GetCurPutData''"
  "source_name ''GetCurPutDataCB'' = ''15GetCurPutDataCB''"
  "source_name ''GetCurPutEndOfFrame'' = ''19GetCurPutEndOfFrame''"
  "source_name ''GetCurPutEndOfFrameCB'' = ''21GetCurPutEndOfFrameCB''"
  "source_name ''GetCurPutFrameData'' = ''18GetCurPutFrameData''"
  "source_name ''GetCurPutFrameDataCB'' = ''20GetCurPutFrameDataCB''"
  "source_name ''GetCurRequestOpCode'' = ''19GetCurRequestOpCode''"
  "source_name ''GetCurRequestOpCodeCB'' = ''21GetCurRequestOpCodeCB''"
  "source_name ''GetFramedBytesStart'' = ''19GetFramedBytesStart''"
  "source_name ''GetGetBytesOptionsInfo'' = ''22GetGetBytesOptionsInfo''"
  "source_name ''GetGetBytesOptionsInfoCB'' = ''24GetGetBytesOptionsInfoCB''"
  "source_name ''GetPassiveClaim'' = ''15GetPassiveClaim''"
  "source_name ''GetPassiveClaimCB'' = ''17GetPassiveClaimCB''"
  "source_name ''GetPassiveState'' = ''15GetPassiveState''"
  "source_name ''GetPassiveStateCB'' = ''17GetPassiveStateCB''"
  "source_name ''GetPutBytesOptionsInfo'' = ''22GetPutBytesOptionsInfo''"
  "source_name ''GetPutBytesOptionsInfoCB'' = ''24GetPutBytesOptionsInfoCB''"
  "source_name ''GetReceiveMessageBufSize'' = ''24GetReceiveMessageBufSize''"
  "source_name ''GetReceiveMessageBufSizeCB'' = ''26GetReceiveMessageBufSizeCB''"
  "source_name ''GetTerminationEvent'' = ''19GetTerminationEvent''"
  "source_name ''GetTerminationEventCB'' = ''21GetTerminationEventCB''"
  "source_name ''GetToolConnectState'' = ''19GetToolConnectState''"
  "source_name ''GetToolConnectStateCB'' = ''21GetToolConnectStateCB''"
  "source_name ''GetVersion'' = ''10GetVersion''"
  "source_name ''GetWaitingForResNotify'' = ''22GetWaitingForResNotify''"
  "source_name ''GetWaitingForResNotifyCB'' = ''24GetWaitingForResNotifyCB''"
  "source_name ''HandleInternalEvent'' = ''19HandleInternalEvent''"
  "source_name ''HandleInternalRequest'' = ''21HandleInternalRequest''"
  "source_name ''HandleReply'' = ''11HandleReply''"
  "source_name ''HandleReplyCB'' = ''13HandleReplyCB''"
  "source_name ''HandleRequest'' = ''13HandleRequest''"
  "source_name ''HandleRequestCB'' = ''15HandleRequestCB''"
  "source_name ''HandleTimerTick'' = ''15HandleTimerTick''"
  "source_name ''Init'' = ''4Init''"
  "source_name ''InitAsyncRPCMsg'' = ''15InitAsyncRPCMsg''"
  "source_name ''InitAsyncRPCMsgCB'' = ''17InitAsyncRPCMsgCB''"
  "source_name ''InitCB'' = ''6InitCB''"
  by (simp_all add: source_name_def decimal_def)

lemma source_names_3:
  "source_name ''InstallConnectionEnd'' = ''20InstallConnectionEnd''"
  "source_name ''KillControlComplete'' = ''19KillControlComplete''"
  "source_name ''KillControlCompleteCB'' = ''21KillControlCompleteCB''"
  "source_name ''KillControlStart'' = ''16KillControlStart''"
  "source_name ''KillGetCommEventComplete'' = ''24KillGetCommEventComplete''"
  "source_name ''KillGetCommEventCompleteCB'' = ''26KillGetCommEventCompleteCB''"
  "source_name ''KillGetCommEventStart'' = ''21KillGetCommEventStart''"
  "source_name ''KillGetComplete'' = ''15KillGetComplete''"
  "source_name ''KillGetCompleteCB'' = ''17KillGetCompleteCB''"
  "source_name ''KillGetStart'' = ''12KillGetStart''"
  "source_name ''KillPutComplete'' = ''15KillPutComplete''"
  "source_name ''KillPutCompleteCB'' = ''17KillPutCompleteCB''"
  "source_name ''KillPutStart'' = ''12KillPutStart''"
  "source_name ''ListenComplete'' = ''14ListenComplete''"
  "source_name ''ListenCompleteCB'' = ''16ListenCompleteCB''"
  "source_name ''ListenStart'' = ''11ListenStart''"
  "source_name ''OpenComplete'' = ''12OpenComplete''"
  "source_name ''OpenCompleteCB'' = ''14OpenCompleteCB''"
  "source_name ''OpenStart'' = ''9OpenStart''"
  "source_name ''PCECallBack'' = ''11PCECallBack''"
  "source_name ''PConnectionEnd'' = ''14PConnectionEnd''"
  "source_name ''PKNew'' = ''5PKNew''"
  "source_name ''PMbedTLS'' = ''8PMbedTLS''"
  "source_name ''PMbedTLSCECallBack'' = ''18PMbedTLSCECallBack''"
  "source_name ''PMbedTLSConnectionEnd'' = ''21PMbedTLSConnectionEnd''"
  "source_name ''PMbedTLSInterface'' = ''17PMbedTLSInterface''"
  "source_name ''PMuxTool'' = ''8PMuxTool''"
  "source_name ''PostCommEvent'' = ''13PostCommEvent''"
  "source_name ''PostCommEventCB'' = ''15PostCommEventCB''"
  "source_name ''ProcessGetBytesOptionComplete'' = ''29ProcessGetBytesOptionComplete''"
  "source_name ''ProcessGetBytesOptionCompleteCB'' = ''31ProcessGetBytesOptionCompleteCB''"
  "source_name ''ProcessGetBytesOptionStart'' = ''26ProcessGetBytesOptionStart''"
  "source_name ''ProcessOptionComplete'' = ''21ProcessOptionComplete''"
  "source_name ''ProcessOptionCompleteCB'' = ''23ProcessOptionCompleteCB''"
  "source_name ''ProcessOptionStart'' = ''18ProcessOptionStart''"
  "source_name ''ProcessPutBytesOptionComplete'' = ''29ProcessPutBytesOptionComplete''"
  "source_name ''ProcessPutBytesOptionCompleteCB'' = ''31ProcessPutBytesOptionCompleteCB''"
  "source_name ''ProcessPutBytesOptionStart'' = ''26ProcessPutBytesOptionStart''"
  "source_name ''PutBytesStart'' = ''13PutBytesStart''"
  "source_name ''PutComplete'' = ''11PutComplete''"
  by (simp_all add: source_name_def decimal_def)

lemma source_names_4:
  "source_name ''PutCompleteCB'' = ''13PutCompleteCB''"
  "source_name ''PutFramedBytesStart'' = ''19PutFramedBytesStart''"
  "source_name ''RefVar'' = ''6RefVar''"
  "source_name ''ReleaseStart'' = ''12ReleaseStart''"
  "source_name ''RemoveConnectionEnd'' = ''19RemoveConnectionEnd''"
  "source_name ''ResArbClaimNotification'' = ''23ResArbClaimNotification''"
  "source_name ''ResArbReleaseComplete'' = ''21ResArbReleaseComplete''"
  "source_name ''ResArbReleaseCompleteCB'' = ''23ResArbReleaseCompleteCB''"
  "source_name ''ResArbReleaseStart'' = ''18ResArbReleaseStart''"
  "source_name ''SSLCacheNew'' = ''11SSLCacheNew''"
  "source_name ''SSLCacheSetMaxEntries'' = ''21SSLCacheSetMaxEntries''"
  "source_name ''SSLCacheSetTimeout'' = ''18SSLCacheSetTimeout''"
  "source_name ''SSLCheckPending'' = ''15SSLCheckPending''"
  "source_name ''SSLCloseNotify'' = ''14SSLCloseNotify''"
  "source_name ''SSLConfALPNProtocol'' = ''19SSLConfALPNProtocol''"
  "source_name ''SSLConfARC4Support'' = ''18SSLConfARC4Support''"
  "source_name ''SSLConfAuthMode'' = ''15SSLConfAuthMode''"
  "source_name ''SSLConfCAChain'' = ''14SSLConfCAChain''"
  "source_name ''SSLConfCbcRecordSplitting'' = ''25SSLConfCbcRecordSplitting''"
  "source_name ''SSLConfCertProfile'' = ''18SSLConfCertProfile''"
  "source_name ''SSLConfCertReqCAList'' = ''20SSLConfCertReqCAList''"
  "source_name ''SSLConfCiphersuites'' = ''19SSLConfCiphersuites''"
  "source_name ''SSLConfCiphersuitesForVersion'' = ''29SSLConfCiphersuitesForVersion''"
  "source_name ''SSLConfCurves'' = ''13SSLConfCurves''"
  "source_name ''SSLConfDHMMinBitlen'' = ''19SSLConfDHMMinBitlen''"
  "source_name ''SSLConfDHParamBin'' = ''17SSLConfDHParamBin''"
  "source_name ''SSLConfDHParamCtx'' = ''17SSLConfDHParamCtx''"
  "source_name ''SSLConfDTLSAntiReplay'' = ''21SSLConfDTLSAntiReplay''"
  "source_name ''SSLConfDTLSBadMACLimit'' = ''22SSLConfDTLSBadMACLimit''"
  "source_name ''SSLConfDTLSCookies'' = ''18SSLConfDTLSCookies''"
  "source_name ''SSLConfDbg'' = ''10SSLConfDbg''"
  "source_name ''SSLConfEncryptThenMac'' = ''21SSLConfEncryptThenMac''"
  "source_name ''SSLConfEndpoint'' = ''15SSLConfEndpoint''"
  "source_name ''SSLConfExportKeysCb'' = ''19SSLConfExportKeysCb''"
  "source_name ''SSLConfExtendedMasterSecret'' = ''27SSLConfExtendedMasterSecret''"
  "source_name ''SSLConfFallback'' = ''15SSLConfFallback''"
  "source_name ''SSLConfHandshakeTimeout'' = ''23SSLConfHandshakeTimeout''"
  "source_name ''SSLConfLegacyRenegotiation'' = ''26SSLConfLegacyRenegotiation''"
  "source_name ''SSLConfMaxFragLen'' = ''17SSLConfMaxFragLen''"
  "source_name ''SSLConfMaxVersion'' = ''17SSLConfMaxVersion''"
  by (simp_all add: source_name_def decimal_def)

lemma source_names_5:
  "source_name ''SSLConfMinVersion'' = ''17SSLConfMinVersion''"
  "source_name ''SSLConfOwnCert'' = ''14SSLConfOwnCert''"
  "source_name ''SSLConfPSK'' = ''10SSLConfPSK''"
  "source_name ''SSLConfPSKCb'' = ''12SSLConfPSKCb''"
  "source_name ''SSLConfRenegotiation'' = ''20SSLConfRenegotiation''"
  "source_name ''SSLConfRenegotiationEnforced'' = ''28SSLConfRenegotiationEnforced''"
  "source_name ''SSLConfRenegotiationPeriod'' = ''26SSLConfRenegotiationPeriod''"
  "source_name ''SSLConfRng'' = ''10SSLConfRng''"
  "source_name ''SSLConfSNI'' = ''10SSLConfSNI''"
  "source_name ''SSLConfSessionCache'' = ''19SSLConfSessionCache''"
  "source_name ''SSLConfSessionTickets'' = ''21SSLConfSessionTickets''"
  "source_name ''SSLConfSessionTicketsCb'' = ''23SSLConfSessionTicketsCb''"
  "source_name ''SSLConfSigHashes'' = ''16SSLConfSigHashes''"
  "source_name ''SSLConfTransport'' = ''16SSLConfTransport''"
  "source_name ''SSLConfTruncatedHMAC'' = ''20SSLConfTruncatedHMAC''"
  "source_name ''SSLConfVerify'' = ''13SSLConfVerify''"
  "source_name ''SSLConfigDefaults'' = ''17SSLConfigDefaults''"
  "source_name ''SSLConfigNew'' = ''12SSLConfigNew''"
  "source_name ''SSLGetALPNProtocol'' = ''18SSLGetALPNProtocol''"
  "source_name ''SSLGetBytesAvail'' = ''16SSLGetBytesAvail''"
  "source_name ''SSLGetCiphersuite'' = ''17SSLGetCiphersuite''"
  "source_name ''SSLGetMaxFragLen'' = ''16SSLGetMaxFragLen''"
  "source_name ''SSLGetMaxOutRecordPayload'' = ''25SSLGetMaxOutRecordPayload''"
  "source_name ''SSLGetPeerCert'' = ''14SSLGetPeerCert''"
  "source_name ''SSLGetRecordExpansion'' = ''21SSLGetRecordExpansion''"
  "source_name ''SSLGetSession'' = ''13SSLGetSession''"
  "source_name ''SSLGetVerifyResult'' = ''18SSLGetVerifyResult''"
  "source_name ''SSLGetVersion'' = ''13SSLGetVersion''"
  "source_name ''SSLHandshake'' = ''12SSLHandshake''"
  "source_name ''SSLHandshakeStep'' = ''16SSLHandshakeStep''"
  "source_name ''SSLListCiphersuites'' = ''19SSLListCiphersuites''"
  "source_name ''SSLNew'' = ''6SSLNew''"
  "source_name ''SSLRead'' = ''7SSLRead''"
  "source_name ''SSLRenegotiate'' = ''14SSLRenegotiate''"
  "source_name ''SSLSendAlertMessage'' = ''19SSLSendAlertMessage''"
  "source_name ''SSLSessionNew'' = ''13SSLSessionNew''"
  "source_name ''SSLSessionReset'' = ''15SSLSessionReset''"
  "source_name ''SSLSetBIO'' = ''9SSLSetBIO''"
  "source_name ''SSLSetClientTransportID'' = ''23SSLSetClientTransportID''"
  "source_name ''SSLSetDatagramPacking'' = ''21SSLSetDatagramPacking''"
  by (simp_all add: source_name_def decimal_def)

lemma source_names_6:
  "source_name ''SSLSetHostname'' = ''14SSLSetHostname''"
  "source_name ''SSLSetHsAuthMode'' = ''16SSLSetHsAuthMode''"
  "source_name ''SSLSetHsCAChain'' = ''15SSLSetHsCAChain''"
  "source_name ''SSLSetHsOwnCert'' = ''15SSLSetHsOwnCert''"
  "source_name ''SSLSetHsPSK'' = ''11SSLSetHsPSK''"
  "source_name ''SSLSetMTU'' = ''9SSLSetMTU''"
  "source_name ''SSLSetSession'' = ''13SSLSetSession''"
  "source_name ''SSLSetTimerCb'' = ''13SSLSetTimerCb''"
  "source_name ''SSLSetup'' = ''8SSLSetup''"
  "source_name ''SSLWrite'' = ''8SSLWrite''"
  "source_name ''SetCMOTransportInfo'' = ''19SetCMOTransportInfo''"
  "source_name ''SetCMOTransportInfoCB'' = ''21SetCMOTransportInfoCB''"
  "source_name ''SetConnectInfo'' = ''14SetConnectInfo''"
  "source_name ''SetConnectInfoCB'' = ''16SetConnectInfoCB''"
  "source_name ''SetPassiveClaim'' = ''15SetPassiveClaim''"
  "source_name ''SetPassiveClaimCB'' = ''17SetPassiveClaimCB''"
  "source_name ''SetPassiveState'' = ''15SetPassiveState''"
  "source_name ''SetPassiveStateCB'' = ''17SetPassiveStateCB''"
  "source_name ''SetTerminationEvent'' = ''19SetTerminationEvent''"
  "source_name ''SetTerminationEventCB'' = ''21SetTerminationEventCB''"
  "source_name ''SetToolConnectState'' = ''19SetToolConnectState''"
  "source_name ''SetToolConnectStateCB'' = ''21SetToolConnectStateCB''"
  "source_name ''SetWaitingForResNotify'' = ''22SetWaitingForResNotify''"
  "source_name ''SetWaitingForResNotifyCB'' = ''24SetWaitingForResNotifyCB''"
  "source_name ''StartAbort'' = ''10StartAbort''"
  "source_name ''StartAbortCB'' = ''12StartAbortCB''"
  "source_name ''TCMOCTConnectInfo'' = ''17TCMOCTConnectInfo''"
  "source_name ''TCMOTransportInfo'' = ''17TCMOTransportInfo''"
  "source_name ''TCommToolGetEventReply'' = ''22TCommToolGetEventReply''"
  "source_name ''TConnectionEnd'' = ''14TConnectionEnd''"
  "source_name ''TOption'' = ''7TOption''"
  "source_name ''TUAsyncMessage'' = ''14TUAsyncMessage''"
  "source_name ''TUMsgToken'' = ''10TUMsgToken''"
  "source_name ''TerminateComplete'' = ''17TerminateComplete''"
  "source_name ''TerminateCompleteCB'' = ''19TerminateCompleteCB''"
  "source_name ''TerminateStart'' = ''14TerminateStart''"
  "source_name ''UnbindComplete'' = ''14UnbindComplete''"
  "source_name ''UnbindCompleteCB'' = ''16UnbindCompleteCB''"
  "source_name ''UnbindStart'' = ''11UnbindStart''"
  "source_name ''X509CrlNew'' = ''10X509CrlNew''"
  by (simp_all add: source_name_def decimal_def)

lemma source_names_7:
  "source_name ''X509CrlParse'' = ''12X509CrlParse''"
  "source_name ''X509CrtCount'' = ''12X509CrtCount''"
  "source_name ''X509CrtGetDER'' = ''13X509CrtGetDER''"
  "source_name ''X509CrtGetExpirationDate'' = ''24X509CrtGetExpirationDate''"
  "source_name ''X509CrtGetIssueDate'' = ''19X509CrtGetIssueDate''"
  "source_name ''X509CrtGetIssuerName'' = ''20X509CrtGetIssuerName''"
  "source_name ''X509CrtGetSerialNumber'' = ''22X509CrtGetSerialNumber''"
  "source_name ''X509CrtGetSignatureAlgorithm'' = ''28X509CrtGetSignatureAlgorithm''"
  "source_name ''X509CrtGetSubjectName'' = ''21X509CrtGetSubjectName''"
  "source_name ''X509CrtGetVersion'' = ''17X509CrtGetVersion''"
  "source_name ''X509CrtNew'' = ''10X509CrtNew''"
  "source_name ''X509CrtParse'' = ''12X509CrtParse''"
  by (simp_all add: source_name_def decimal_def)

lemma params_of_PMbedTLSInterface:
  "mangle_params [Class ''PMbedTLSInterface''] [RefArg, RefArg, RefArg] = ''RK6RefVarS2_S2_''"
  "mangle_params [Class ''PMbedTLSInterface''] [RefArg] = ''RK6RefVar''"
  "mangle_params [Class ''PMbedTLSInterface''] [RefArg, RefArg] = ''RK6RefVarS2_''"
  "mangle_params [Class ''PMbedTLSInterface''] [RefArg, RefArg, RefArg, RefArg] = ''RK6RefVarS2_S2_S2_''"
  by (simp_all add: mangle_defs)

lemma params_of_PMbedTLS:
  "mangle_params [Class ''PMbedTLS''] [RefArg, RefArg, RefArg] = ''RK6RefVarS2_S2_''"
  "mangle_params [Class ''PMbedTLS''] [RefArg] = ''RK6RefVar''"
  "mangle_params [Class ''PMbedTLS''] [RefArg, RefArg] = ''RK6RefVarS2_''"
  "mangle_params [Class ''PMbedTLS''] [RefArg, RefArg, RefArg, RefArg] = ''RK6RefVarS2_S2_S2_''"
  by (simp_all add: mangle_defs)

lemma params_of_PConnectionEnd:
  "mangle_params [Class ''PConnectionEnd''] [Ptr (Class ''PMuxTool''), Ptr (Class ''PCECallBack''), ULong] = ''P8PMuxToolP11PCECallBackm''"
  "mangle_params [Class ''PConnectionEnd''] [Ptr Void] = ''Pv''"
  "mangle_params [Class ''PConnectionEnd''] [Ptr (Class ''CBufferList'')] = ''P11CBufferList''"
  "mangle_params [Class ''PConnectionEnd''] [Ptr (Class ''CBufferList''), UChar] = ''P11CBufferListh''"
  "mangle_params [Class ''PConnectionEnd''] [Ptr (Class ''CBufferList''), Long] = ''P11CBufferListl''"
  "mangle_params [Class ''PConnectionEnd''] [Ptr UChar, ULong, LRef (Class ''TUMsgToken''), ULong] = ''PhmR10TUMsgTokenm''"
  "mangle_params [Class ''PConnectionEnd''] [ULong, ULong] = ''mm''"
  "mangle_params [Class ''PConnectionEnd''] [Ptr (Class ''TOption''), ULong, ULong] = ''P7TOptionmm''"
  "mangle_params [Class ''PConnectionEnd''] [Ptr UChar, Ptr UChar] = ''PhS0_''"
  by (simp_all add: mangle_defs)

lemma params_of_PMbedTLSConnectionEnd:
  "mangle_params [Class ''PMbedTLSConnectionEnd''] [Ptr (Class ''PMuxTool''), Ptr (Class ''PCECallBack''), ULong] = ''P8PMuxToolP11PCECallBackm''"
  "mangle_params [Class ''PMbedTLSConnectionEnd''] [Ptr Void] = ''Pv''"
  "mangle_params [Class ''PMbedTLSConnectionEnd''] [Ptr (Class ''CBufferList'')] = ''P11CBufferList''"
  "mangle_params [Class ''PMbedTLSConnectionEnd''] [Ptr (Class ''CBufferList''), UChar] = ''P11CBufferListh''"
  "mangle_params [Class ''PMbedTLSConnectionEnd''] [Ptr (Class ''CBufferList''), Long] = ''P11CBufferListl''"
  "mangle_params [Class ''PMbedTLSConnectionEnd''] [Ptr UChar, ULong, LRef (Class ''TUMsgToken''), ULong] = ''PhmR10TUMsgTokenm''"
  "mangle_params [Class ''PMbedTLSConnectionEnd''] [ULong, ULong] = ''mm''"
  "mangle_params [Class ''PMbedTLSConnectionEnd''] [Ptr (Class ''TOption''), ULong, ULong] = ''P7TOptionmm''"
  "mangle_params [Class ''PMbedTLSConnectionEnd''] [Ptr UChar, Ptr UChar] = ''PhS0_''"
  "mangle_params [Class ''PMbedTLSConnectionEnd''] [Ptr (Class ''TConnectionEnd'')] = ''P14TConnectionEnd''"
  "mangle_params [Class ''PMbedTLSConnectionEnd''] [Long] = ''l''"
  "mangle_params [Class ''PMbedTLSConnectionEnd''] [Long, ULong] = ''lm''"
  "mangle_params [Class ''PMbedTLSConnectionEnd''] [Long, UChar, ULong] = ''lhm''"
  "mangle_params [Class ''PMbedTLSConnectionEnd''] [LRef (Class ''TCommToolGetEventReply''), Long] = ''R22TCommToolGetEventReplyl''"
  "mangle_params [Class ''PMbedTLSConnectionEnd''] [ULong] = ''m''"
  "mangle_params [Class ''PMbedTLSConnectionEnd''] [ULong, Long] = ''ml''"
  "mangle_params [Class ''PMbedTLSConnectionEnd''] [LRef (Class ''TUAsyncMessage''), ULong] = ''R14TUAsyncMessagem''"
  "mangle_params [Class ''PMbedTLSConnectionEnd''] [LRef (Class ''TCMOCTConnectInfo'')] = ''R17TCMOCTConnectInfo''"
  "mangle_params [Class ''PMbedTLSConnectionEnd''] [LRef (Class ''TCMOTransportInfo'')] = ''R17TCMOTransportInfo''"
  "mangle_params [Class ''PMbedTLSConnectionEnd''] [UChar] = ''h''"
  by (simp_all add: mangle_defs)

lemma params_of_PCECallBack:
  "mangle_params [Class ''PCECallBack''] [Ptr (Class ''TConnectionEnd'')] = ''P14TConnectionEnd''"
  "mangle_params [Class ''PCECallBack''] [Long] = ''l''"
  "mangle_params [Class ''PCECallBack''] [Long, ULong] = ''lm''"
  "mangle_params [Class ''PCECallBack''] [Long, UChar, ULong] = ''lhm''"
  "mangle_params [Class ''PCECallBack''] [Ptr UChar, ULong, LRef (Class ''TUMsgToken''), ULong] = ''PhmR10TUMsgTokenm''"
  "mangle_params [Class ''PCECallBack''] [ULong, ULong] = ''mm''"
  "mangle_params [Class ''PCECallBack''] [LRef (Class ''TCommToolGetEventReply''), Long] = ''R22TCommToolGetEventReplyl''"
  "mangle_params [Class ''PCECallBack''] [ULong] = ''m''"
  "mangle_params [Class ''PCECallBack''] [ULong, Long] = ''ml''"
  "mangle_params [Class ''PCECallBack''] [LRef (Class ''TUAsyncMessage''), ULong] = ''R14TUAsyncMessagem''"
  "mangle_params [Class ''PCECallBack''] [LRef (Class ''TCMOCTConnectInfo'')] = ''R17TCMOCTConnectInfo''"
  "mangle_params [Class ''PCECallBack''] [LRef (Class ''TCMOTransportInfo'')] = ''R17TCMOTransportInfo''"
  "mangle_params [Class ''PCECallBack''] [UChar] = ''h''"
  by (simp_all add: mangle_defs)

lemma params_of_PMbedTLSCECallBack:
  "mangle_params [Class ''PMbedTLSCECallBack''] [Ptr (Class ''TConnectionEnd'')] = ''P14TConnectionEnd''"
  "mangle_params [Class ''PMbedTLSCECallBack''] [Long] = ''l''"
  "mangle_params [Class ''PMbedTLSCECallBack''] [Long, ULong] = ''lm''"
  "mangle_params [Class ''PMbedTLSCECallBack''] [Long, UChar, ULong] = ''lhm''"
  "mangle_params [Class ''PMbedTLSCECallBack''] [Ptr UChar, ULong, LRef (Class ''TUMsgToken''), ULong] = ''PhmR10TUMsgTokenm''"
  "mangle_params [Class ''PMbedTLSCECallBack''] [ULong, ULong] = ''mm''"
  "mangle_params [Class ''PMbedTLSCECallBack''] [LRef (Class ''TCommToolGetEventReply''), Long] = ''R22TCommToolGetEventReplyl''"
  "mangle_params [Class ''PMbedTLSCECallBack''] [ULong] = ''m''"
  "mangle_params [Class ''PMbedTLSCECallBack''] [ULong, Long] = ''ml''"
  "mangle_params [Class ''PMbedTLSCECallBack''] [LRef (Class ''TUAsyncMessage''), ULong] = ''R14TUAsyncMessagem''"
  "mangle_params [Class ''PMbedTLSCECallBack''] [LRef (Class ''TCMOCTConnectInfo'')] = ''R17TCMOCTConnectInfo''"
  "mangle_params [Class ''PMbedTLSCECallBack''] [LRef (Class ''TCMOTransportInfo'')] = ''R17TCMOTransportInfo''"
  "mangle_params [Class ''PMbedTLSCECallBack''] [UChar] = ''h''"
  by (simp_all add: mangle_defs)

lemma no_params: "mangled c (n, []) = source_name n @ ''Ev''"
  by (simp add: mangled_def)

lemma some_params: "mangled c (n, p # ps) = source_name n @ ''E'' @ mangle_params [Class c] (p # ps)"
  by (simp add: mangled_def)

lemmas mangling = list.map append.simps no_params some_params
  source_names_1 source_names_2 source_names_3 source_names_4 source_names_5 source_names_6 source_names_7

end
