(* ===== verification/Protocol_Tables.thy ===== *)
theory Protocol_Tables
  imports Protocol_Glue Protocol_Declarations "HOL-Library.Multiset"
begin

text \<open>
  What the assembly files list: the stubs of the three interfaces with their slots, the branch
  tables of the three classes, the methods of \<^verbatim>\<open>PMbedTLSCECallBack\<close> with the methods they
  branch to, and the names in the class information. The locale \<open>protocol_tables\<close> states what a
  protocol needs of them; it is interpreted on the three protocols, so every row is compared
  with the tables and with the headers. Methods are written without the class (\<open>symbol\<close> adds
  it).
\<close>

section \<open>The lists of the files\<close>

text \<open>The lines \<^verbatim>\<open>Dispatch\<close> of \<^verbatim>\<open>Common/PMbedTLSInterfaceGlue.s\<close>.\<close>

definition PMbedTLSInterface_glue :: "(string \<times> nat) list" where
  "PMbedTLSInterface_glue =
   [(''10GetVersionEv'', 4), (''19SSLListCiphersuitesEv'', 5), (''10EntropyNewEv'', 6),
    (''10CtrDrbgNewEv'', 7), (''11CtrDrbgSeedERK6RefVarS2_S2_'', 8), (''5PKNewEv'', 9), (''6SSLNewEv'', 10),
    (''15SSLCheckPendingERK6RefVar'', 11), (''14SSLCloseNotifyERK6RefVar'', 12),
    (''18SSLGetALPNProtocolERK6RefVar'', 13), (''16SSLGetBytesAvailERK6RefVar'', 14),
    (''17SSLGetCiphersuiteERK6RefVar'', 15), (''16SSLGetMaxFragLenERK6RefVar'', 16),
    (''25SSLGetMaxOutRecordPayloadERK6RefVar'', 17), (''14SSLGetPeerCertERK6RefVar'', 18),
    (''21SSLGetRecordExpansionERK6RefVar'', 19), (''13SSLGetSessionERK6RefVar'', 20),
    (''18SSLGetVerifyResultERK6RefVar'', 21), (''13SSLGetVersionERK6RefVar'', 22),
    (''12SSLHandshakeERK6RefVar'', 23), (''16SSLHandshakeStepERK6RefVar'', 24),
    (''7SSLReadERK6RefVarS2_'', 25), (''14SSLRenegotiateERK6RefVar'', 26),
    (''19SSLSendAlertMessageERK6RefVarS2_S2_'', 27), (''15SSLSessionResetERK6RefVar'', 28),
    (''9SSLSetBIOERK6RefVarS2_S2_'', 29), (''23SSLSetClientTransportIDERK6RefVarS2_'', 30),
    (''21SSLSetDatagramPackingERK6RefVarS2_'', 31), (''14SSLSetHostnameERK6RefVarS2_'', 32),
    (''16SSLSetHsAuthModeERK6RefVarS2_'', 33), (''15SSLSetHsCAChainERK6RefVarS2_S2_'', 34),
    (''15SSLSetHsOwnCertERK6RefVarS2_S2_'', 35), (''11SSLSetHsPSKERK6RefVarS2_'', 36),
    (''9SSLSetMTUERK6RefVarS2_'', 37), (''13SSLSetSessionERK6RefVarS2_'', 38),
    (''13SSLSetTimerCbERK6RefVarS2_S2_'', 39), (''8SSLSetupERK6RefVarS2_'', 40),
    (''8SSLWriteERK6RefVarS2_'', 41), (''11SSLCacheNewEv'', 42),
    (''21SSLCacheSetMaxEntriesERK6RefVarS2_'', 43), (''18SSLCacheSetTimeoutERK6RefVarS2_'', 44),
    (''12SSLConfigNewEv'', 45), (''19SSLConfALPNProtocolERK6RefVarS2_'', 46),
    (''18SSLConfARC4SupportERK6RefVarS2_'', 47), (''15SSLConfAuthModeERK6RefVarS2_'', 48),
    (''14SSLConfCAChainERK6RefVarS2_S2_'', 49), (''25SSLConfCbcRecordSplittingERK6RefVarS2_'', 50),
    (''18SSLConfCertProfileERK6RefVarS2_'', 51), (''20SSLConfCertReqCAListERK6RefVarS2_'', 52),
    (''19SSLConfCiphersuitesERK6RefVarS2_'', 53),
    (''29SSLConfCiphersuitesForVersionERK6RefVarS2_S2_S2_'', 54), (''13SSLConfCurvesERK6RefVarS2_'', 55),
    (''10SSLConfDbgERK6RefVarS2_'', 56), (''17SSLConfDHParamBinERK6RefVarS2_S2_'', 57),
    (''17SSLConfDHParamCtxERK6RefVarS2_'', 58), (''19SSLConfDHMMinBitlenERK6RefVarS2_'', 59),
    (''21SSLConfDTLSAntiReplayERK6RefVarS2_'', 60), (''22SSLConfDTLSBadMACLimitERK6RefVarS2_'', 61),
    (''18SSLConfDTLSCookiesERK6RefVarS2_S2_'', 62), (''21SSLConfEncryptThenMacERK6RefVarS2_'', 63),
    (''15SSLConfEndpointERK6RefVarS2_'', 64), (''19SSLConfExportKeysCbERK6RefVarS2_'', 65),
    (''27SSLConfExtendedMasterSecretERK6RefVarS2_'', 66), (''15SSLConfFallbackERK6RefVarS2_'', 67),
    (''23SSLConfHandshakeTimeoutERK6RefVarS2_S2_'', 68), (''26SSLConfLegacyRenegotiationERK6RefVarS2_'', 69),
    (''17SSLConfMaxFragLenERK6RefVarS2_'', 70), (''17SSLConfMaxVersionERK6RefVarS2_S2_'', 71),
    (''17SSLConfMinVersionERK6RefVarS2_S2_'', 72), (''14SSLConfOwnCertERK6RefVarS2_S2_'', 73),
    (''10SSLConfPSKERK6RefVarS2_S2_'', 74), (''12SSLConfPSKCbERK6RefVarS2_'', 75),
    (''20SSLConfRenegotiationERK6RefVarS2_'', 76), (''28SSLConfRenegotiationEnforcedERK6RefVarS2_'', 77),
    (''26SSLConfRenegotiationPeriodERK6RefVarS2_'', 78), (''10SSLConfRngERK6RefVarS2_'', 79),
    (''19SSLConfSessionCacheERK6RefVarS2_'', 80), (''21SSLConfSessionTicketsERK6RefVarS2_'', 81),
    (''23SSLConfSessionTicketsCbERK6RefVarS2_S2_'', 82), (''16SSLConfSigHashesERK6RefVarS2_'', 83),
    (''10SSLConfSNIERK6RefVarS2_'', 84), (''16SSLConfTransportERK6RefVarS2_'', 85),
    (''20SSLConfTruncatedHMACERK6RefVarS2_'', 86), (''13SSLConfVerifyERK6RefVarS2_'', 87),
    (''17SSLConfigDefaultsERK6RefVarS2_S2_'', 88), (''13SSLSessionNewEv'', 89), (''10X509CrlNewEv'', 90),
    (''12X509CrlParseERK6RefVarS2_'', 91), (''10X509CrtNewEv'', 92), (''12X509CrtParseERK6RefVarS2_'', 93),
    (''12X509CrtCountERK6RefVar'', 94), (''13X509CrtGetDERERK6RefVarS2_'', 95),
    (''17X509CrtGetVersionERK6RefVarS2_'', 96), (''22X509CrtGetSerialNumberERK6RefVarS2_'', 97),
    (''20X509CrtGetIssuerNameERK6RefVarS2_'', 98), (''21X509CrtGetSubjectNameERK6RefVarS2_'', 99),
    (''19X509CrtGetIssueDateERK6RefVarS2_'', 100), (''24X509CrtGetExpirationDateERK6RefVarS2_'', 101),
    (''28X509CrtGetSignatureAlgorithmERK6RefVarS2_'', 102), (''20InstallConnectionEndEv'', 103),
    (''19RemoveConnectionEndEv'', 104)]"

text \<open>The lines \<^verbatim>\<open>Dispatch\<close> of \<^verbatim>\<open>Protocol/PConnectionEndGlue.s\<close>.\<close>

definition PConnectionEnd_glue :: "(string \<times> nat) list" where
  "PConnectionEnd_glue =
   [(''4InitEP8PMuxToolP11PCECallBackm'', 4), (''21HandleInternalRequestEPv'', 5),
    (''19HandleInternalEventEv'', 6), (''9OpenStartEv'', 7), (''10CloseStartEv'', 8), (''9BindStartEv'', 9),
    (''11UnbindStartEv'', 10), (''12ConnectStartEv'', 11), (''11ListenStartEv'', 12),
    (''11AcceptStartEv'', 13), (''12ReleaseStartEv'', 14), (''14TerminateStartEv'', 15),
    (''13PutBytesStartEP11CBufferList'', 16), (''19PutFramedBytesStartEP11CBufferListh'', 17),
    (''12KillPutStartEv'', 18), (''13GetBytesStartEP11CBufferList'', 19),
    (''19GetFramedBytesStartEP11CBufferList'', 20), (''22GetBytesImmediateStartEP11CBufferListl'', 21),
    (''12KillGetStartEv'', 22), (''15HandleTimerTickEv'', 23), (''13HandleRequestEPhmR10TUMsgTokenm'', 24),
    (''11HandleReplyEmm'', 25), (''16KillControlStartEv'', 26), (''21KillGetCommEventStartEv'', 27),
    (''12GetCommEventEv'', 28), (''18ProcessOptionStartEP7TOptionmm'', 29),
    (''26ProcessPutBytesOptionStartEP7TOptionmm'', 30), (''26ProcessGetBytesOptionStartEP7TOptionmm'', 31),
    (''18ResArbReleaseStartEPhS0_'', 32), (''23ResArbClaimNotificationEPhS0_'', 33),
    (''14ForwardOptionsEv'', 34)]"

text \<open>The lines \<^verbatim>\<open>Dispatch\<close> of \<^verbatim>\<open>Protocol/PCECallBackGlue.s\<close>.\<close>

definition PCECallBack_glue :: "(string \<times> nat) list" where
  "PCECallBack_glue =
   [(''4InitEP14TConnectionEnd'', 4), (''12OpenCompleteEl'', 5), (''13CloseCompleteEl'', 6),
    (''12BindCompleteEl'', 7), (''14UnbindCompleteEl'', 8), (''15ConnectCompleteEl'', 9),
    (''14ListenCompleteEl'', 10), (''14AcceptCompleteEl'', 11), (''17TerminateCompleteEv'', 12),
    (''11PutCompleteElm'', 13), (''15KillPutCompleteEl'', 14), (''11GetCompleteElhm'', 15),
    (''15KillGetCompleteEl'', 16), (''13HandleRequestEPhmR10TUMsgTokenm'', 17), (''11HandleReplyEmm'', 18),
    (''19KillControlCompleteEl'', 19), (''24KillGetCommEventCompleteEl'', 20), (''12GetCommEventEv'', 21),
    (''13PostCommEventER22TCommToolGetEventReplyl'', 22), (''21ProcessOptionCompleteEm'', 23),
    (''29ProcessPutBytesOptionCompleteEm'', 24), (''29ProcessGetBytesOptionCompleteEm'', 25),
    (''21ResArbReleaseCompleteEl'', 26), (''12FlushChannelEml'', 27), (''10StartAbortEl'', 28),
    (''11GetAbortErrEv'', 29), (''19GetTerminationEventEv'', 30), (''19SetTerminationEventEm'', 31),
    (''15InitAsyncRPCMsgER14TUAsyncMessagem'', 32), (''19GetToolConnectStateEv'', 33),
    (''19SetToolConnectStateEm'', 34), (''14GetConnectInfoEv'', 35),
    (''14SetConnectInfoER17TCMOCTConnectInfo'', 36), (''19GetCMOTransportInfoEv'', 37),
    (''19SetCMOTransportInfoER17TCMOTransportInfo'', 38), (''24GetReceiveMessageBufSizeEv'', 39),
    (''20GetConnectionEndPortEv'', 40), (''21GetControlOptionsInfoEv'', 41),
    (''22GetGetBytesOptionsInfoEv'', 42), (''22GetPutBytesOptionsInfoEv'', 43), (''13GetCurPutDataEv'', 44),
    (''18GetCurPutFrameDataEv'', 45), (''19GetCurPutEndOfFrameEv'', 46), (''13GetCurGetDataEv'', 47),
    (''18GetCurGetFrameDataEv'', 48), (''20GetCurGetNonBlockingEv'', 49), (''18GetCurGetThresholdEv'', 50),
    (''15GetPassiveClaimEv'', 51), (''15SetPassiveClaimEh'', 52), (''15GetPassiveStateEv'', 53),
    (''15SetPassiveStateEh'', 54), (''22GetWaitingForResNotifyEv'', 55), (''22SetWaitingForResNotifyEh'', 56),
    (''19GetCurRequestOpCodeEv'', 57)]"

text \<open>\<^verbatim>\<open>__btbl__\<close> of \<^verbatim>\<open>Protocol/PMbedTLS.impl.s\<close>.\<close>

definition PMbedTLS_btable :: "btable_entry list" where
  "PMbedTLS_btable =
   [Reserved, Branch ''9ClassInfoEv'', Branch ''3NewEv'', Branch ''6DeleteEv'', Branch ''10GetVersionEv'',
    Branch ''19SSLListCiphersuitesEv'', Branch ''10EntropyNewEv'', Branch ''10CtrDrbgNewEv'',
    Branch ''11CtrDrbgSeedERK6RefVarS2_S2_'', Branch ''5PKNewEv'', Branch ''6SSLNewEv'',
    Branch ''15SSLCheckPendingERK6RefVar'', Branch ''14SSLCloseNotifyERK6RefVar'',
    Branch ''18SSLGetALPNProtocolERK6RefVar'', Branch ''16SSLGetBytesAvailERK6RefVar'',
    Branch ''17SSLGetCiphersuiteERK6RefVar'', Branch ''16SSLGetMaxFragLenERK6RefVar'',
    Branch ''25SSLGetMaxOutRecordPayloadERK6RefVar'', Branch ''14SSLGetPeerCertERK6RefVar'',
    Branch ''21SSLGetRecordExpansionERK6RefVar'', Branch ''13SSLGetSessionERK6RefVar'',
    Branch ''18SSLGetVerifyResultERK6RefVar'', Branch ''13SSLGetVersionERK6RefVar'',
    Branch ''12SSLHandshakeERK6RefVar'', Branch ''16SSLHandshakeStepERK6RefVar'',
    Branch ''7SSLReadERK6RefVarS2_'', Branch ''14SSLRenegotiateERK6RefVar'',
    Branch ''19SSLSendAlertMessageERK6RefVarS2_S2_'', Branch ''15SSLSessionResetERK6RefVar'',
    Branch ''9SSLSetBIOERK6RefVarS2_S2_'', Branch ''23SSLSetClientTransportIDERK6RefVarS2_'',
    Branch ''21SSLSetDatagramPackingERK6RefVarS2_'', Branch ''14SSLSetHostnameERK6RefVarS2_'',
    Branch ''16SSLSetHsAuthModeERK6RefVarS2_'', Branch ''15SSLSetHsCAChainERK6RefVarS2_S2_'',
    Branch ''15SSLSetHsOwnCertERK6RefVarS2_S2_'', Branch ''11SSLSetHsPSKERK6RefVarS2_'',
    Branch ''9SSLSetMTUERK6RefVarS2_'', Branch ''13SSLSetSessionERK6RefVarS2_'',
    Branch ''13SSLSetTimerCbERK6RefVarS2_S2_'', Branch ''8SSLSetupERK6RefVarS2_'',
    Branch ''8SSLWriteERK6RefVarS2_'', Branch ''11SSLCacheNewEv'',
    Branch ''21SSLCacheSetMaxEntriesERK6RefVarS2_'', Branch ''18SSLCacheSetTimeoutERK6RefVarS2_'',
    Branch ''12SSLConfigNewEv'', Branch ''19SSLConfALPNProtocolERK6RefVarS2_'',
    Branch ''18SSLConfARC4SupportERK6RefVarS2_'', Branch ''15SSLConfAuthModeERK6RefVarS2_'',
    Branch ''14SSLConfCAChainERK6RefVarS2_S2_'', Branch ''25SSLConfCbcRecordSplittingERK6RefVarS2_'',
    Branch ''18SSLConfCertProfileERK6RefVarS2_'', Branch ''20SSLConfCertReqCAListERK6RefVarS2_'',
    Branch ''19SSLConfCiphersuitesERK6RefVarS2_'',
    Branch ''29SSLConfCiphersuitesForVersionERK6RefVarS2_S2_S2_'', Branch ''13SSLConfCurvesERK6RefVarS2_'',
    Branch ''10SSLConfDbgERK6RefVarS2_'', Branch ''17SSLConfDHParamBinERK6RefVarS2_S2_'',
    Branch ''17SSLConfDHParamCtxERK6RefVarS2_'', Branch ''19SSLConfDHMMinBitlenERK6RefVarS2_'',
    Branch ''21SSLConfDTLSAntiReplayERK6RefVarS2_'', Branch ''22SSLConfDTLSBadMACLimitERK6RefVarS2_'',
    Branch ''18SSLConfDTLSCookiesERK6RefVarS2_S2_'', Branch ''21SSLConfEncryptThenMacERK6RefVarS2_'',
    Branch ''15SSLConfEndpointERK6RefVarS2_'', Branch ''19SSLConfExportKeysCbERK6RefVarS2_'',
    Branch ''27SSLConfExtendedMasterSecretERK6RefVarS2_'', Branch ''15SSLConfFallbackERK6RefVarS2_'',
    Branch ''23SSLConfHandshakeTimeoutERK6RefVarS2_S2_'',
    Branch ''26SSLConfLegacyRenegotiationERK6RefVarS2_'', Branch ''17SSLConfMaxFragLenERK6RefVarS2_'',
    Branch ''17SSLConfMaxVersionERK6RefVarS2_S2_'', Branch ''17SSLConfMinVersionERK6RefVarS2_S2_'',
    Branch ''14SSLConfOwnCertERK6RefVarS2_S2_'', Branch ''10SSLConfPSKERK6RefVarS2_S2_'',
    Branch ''12SSLConfPSKCbERK6RefVarS2_'', Branch ''20SSLConfRenegotiationERK6RefVarS2_'',
    Branch ''28SSLConfRenegotiationEnforcedERK6RefVarS2_'',
    Branch ''26SSLConfRenegotiationPeriodERK6RefVarS2_'', Branch ''10SSLConfRngERK6RefVarS2_'',
    Branch ''19SSLConfSessionCacheERK6RefVarS2_'', Branch ''21SSLConfSessionTicketsERK6RefVarS2_'',
    Branch ''23SSLConfSessionTicketsCbERK6RefVarS2_S2_'', Branch ''16SSLConfSigHashesERK6RefVarS2_'',
    Branch ''10SSLConfSNIERK6RefVarS2_'', Branch ''16SSLConfTransportERK6RefVarS2_'',
    Branch ''20SSLConfTruncatedHMACERK6RefVarS2_'', Branch ''13SSLConfVerifyERK6RefVarS2_'',
    Branch ''17SSLConfigDefaultsERK6RefVarS2_S2_'', Branch ''13SSLSessionNewEv'', Branch ''10X509CrlNewEv'',
    Branch ''12X509CrlParseERK6RefVarS2_'', Branch ''10X509CrtNewEv'', Branch ''12X509CrtParseERK6RefVarS2_'',
    Branch ''12X509CrtCountERK6RefVar'', Branch ''13X509CrtGetDERERK6RefVarS2_'',
    Branch ''17X509CrtGetVersionERK6RefVarS2_'', Branch ''22X509CrtGetSerialNumberERK6RefVarS2_'',
    Branch ''20X509CrtGetIssuerNameERK6RefVarS2_'', Branch ''21X509CrtGetSubjectNameERK6RefVarS2_'',
    Branch ''19X509CrtGetIssueDateERK6RefVarS2_'', Branch ''24X509CrtGetExpirationDateERK6RefVarS2_'',
    Branch ''28X509CrtGetSignatureAlgorithmERK6RefVarS2_'', Branch ''20InstallConnectionEndEv'',
    Branch ''19RemoveConnectionEndEv'']"

text \<open>\<^verbatim>\<open>__btbl__\<close> of \<^verbatim>\<open>Protocol/PMbedTLSConnectionEnd.impl.s\<close>.\<close>

definition PMbedTLSConnectionEnd_btable :: "btable_entry list" where
  "PMbedTLSConnectionEnd_btable =
   [Reserved, Branch ''9ClassInfoEv'', Branch ''3NewEv'', Branch ''6DeleteEv'',
    Branch ''4InitEP8PMuxToolP11PCECallBackm'', Branch ''21HandleInternalRequestEPv'',
    Branch ''19HandleInternalEventEv'', Branch ''9OpenStartEv'', Branch ''10CloseStartEv'',
    Branch ''9BindStartEv'', Branch ''11UnbindStartEv'', Branch ''12ConnectStartEv'',
    Branch ''11ListenStartEv'', Branch ''11AcceptStartEv'', Branch ''12ReleaseStartEv'',
    Branch ''14TerminateStartEv'', Branch ''13PutBytesStartEP11CBufferList'',
    Branch ''19PutFramedBytesStartEP11CBufferListh'', Branch ''12KillPutStartEv'',
    Branch ''13GetBytesStartEP11CBufferList'', Branch ''19GetFramedBytesStartEP11CBufferList'',
    Branch ''22GetBytesImmediateStartEP11CBufferListl'', Branch ''12KillGetStartEv'',
    Branch ''15HandleTimerTickEv'', Branch ''13HandleRequestEPhmR10TUMsgTokenm'', Branch ''11HandleReplyEmm'',
    Branch ''16KillControlStartEv'', Branch ''21KillGetCommEventStartEv'', Branch ''12GetCommEventEv'',
    Branch ''18ProcessOptionStartEP7TOptionmm'', Branch ''26ProcessPutBytesOptionStartEP7TOptionmm'',
    Branch ''26ProcessGetBytesOptionStartEP7TOptionmm'', Branch ''18ResArbReleaseStartEPhS0_'',
    Branch ''23ResArbClaimNotificationEPhS0_'', Branch ''14ForwardOptionsEv'']"

text \<open>\<^verbatim>\<open>__btbl__\<close> of \<^verbatim>\<open>Protocol/PMbedTLSCECallBack.impl.s\<close>.\<close>

definition PMbedTLSCECallBack_btable :: "btable_entry list" where
  "PMbedTLSCECallBack_btable =
   [Reserved, Branch ''9ClassInfoEv'', Return, Branch ''6DeleteEv'', Branch ''4InitEP14TConnectionEnd'',
    Branch ''12OpenCompleteEl'', Branch ''13CloseCompleteEl'', Branch ''12BindCompleteEl'',
    Branch ''14UnbindCompleteEl'', Branch ''15ConnectCompleteEl'', Branch ''14ListenCompleteEl'',
    Branch ''14AcceptCompleteEl'', Branch ''17TerminateCompleteEv'', Branch ''11PutCompleteElm'',
    Branch ''15KillPutCompleteEl'', Branch ''11GetCompleteElhm'', Branch ''15KillGetCompleteEl'',
    Branch ''13HandleRequestEPhmR10TUMsgTokenm'', Branch ''11HandleReplyEmm'',
    Branch ''19KillControlCompleteEl'', Branch ''24KillGetCommEventCompleteEl'', Branch ''12GetCommEventEv'',
    Branch ''13PostCommEventER22TCommToolGetEventReplyl'', Branch ''21ProcessOptionCompleteEm'',
    Branch ''29ProcessPutBytesOptionCompleteEm'', Branch ''29ProcessGetBytesOptionCompleteEm'',
    Branch ''21ResArbReleaseCompleteEl'', Branch ''12FlushChannelEml'', Branch ''10StartAbortEl'',
    Branch ''11GetAbortErrEv'', Branch ''19GetTerminationEventEv'', Branch ''19SetTerminationEventEm'',
    Branch ''15InitAsyncRPCMsgER14TUAsyncMessagem'', Branch ''19GetToolConnectStateEv'',
    Branch ''19SetToolConnectStateEm'', Branch ''14GetConnectInfoEv'',
    Branch ''14SetConnectInfoER17TCMOCTConnectInfo'', Branch ''19GetCMOTransportInfoEv'',
    Branch ''19SetCMOTransportInfoER17TCMOTransportInfo'', Branch ''24GetReceiveMessageBufSizeEv'',
    Branch ''20GetConnectionEndPortEv'', Branch ''21GetControlOptionsInfoEv'',
    Branch ''22GetGetBytesOptionsInfoEv'', Branch ''22GetPutBytesOptionsInfoEv'',
    Branch ''13GetCurPutDataEv'', Branch ''18GetCurPutFrameDataEv'', Branch ''19GetCurPutEndOfFrameEv'',
    Branch ''13GetCurGetDataEv'', Branch ''18GetCurGetFrameDataEv'', Branch ''20GetCurGetNonBlockingEv'',
    Branch ''18GetCurGetThresholdEv'', Branch ''15GetPassiveClaimEv'', Branch ''15SetPassiveClaimEh'',
    Branch ''15GetPassiveStateEv'', Branch ''15SetPassiveStateEh'', Branch ''22GetWaitingForResNotifyEv'',
    Branch ''22SetWaitingForResNotifyEh'', Branch ''19GetCurRequestOpCodeEv'']"

text \<open>The methods below the table of \<^verbatim>\<open>Protocol/PMbedTLSCECallBack.impl.s\<close>, each with the method of
  \<^verbatim>\<open>PMbedTLSConnectionEnd\<close> it branches to.\<close>

definition PMbedTLSCECallBack_forwards :: "(string \<times> string) list" where
  "PMbedTLSCECallBack_forwards =
   [(''4InitEP14TConnectionEnd'', ''6InitCBEP14TConnectionEnd''),
    (''12OpenCompleteEl'', ''14OpenCompleteCBEl''), (''13CloseCompleteEl'', ''15CloseCompleteCBEl''),
    (''12BindCompleteEl'', ''14BindCompleteCBEl''), (''14UnbindCompleteEl'', ''16UnbindCompleteCBEl''),
    (''15ConnectCompleteEl'', ''17ConnectCompleteCBEl''), (''14ListenCompleteEl'', ''16ListenCompleteCBEl''),
    (''14AcceptCompleteEl'', ''16AcceptCompleteCBEl''),
    (''17TerminateCompleteEv'', ''19TerminateCompleteCBEv''), (''11PutCompleteElm'', ''13PutCompleteCBElm''),
    (''15KillPutCompleteEl'', ''17KillPutCompleteCBEl''), (''11GetCompleteElhm'', ''13GetCompleteCBElhm''),
    (''15KillGetCompleteEl'', ''17KillGetCompleteCBEl''),
    (''13HandleRequestEPhmR10TUMsgTokenm'', ''15HandleRequestCBEPhmR10TUMsgTokenm''),
    (''11HandleReplyEmm'', ''13HandleReplyCBEmm''),
    (''19KillControlCompleteEl'', ''21KillControlCompleteCBEl''),
    (''24KillGetCommEventCompleteEl'', ''26KillGetCommEventCompleteCBEl''),
    (''12GetCommEventEv'', ''14GetCommEventCBEv''),
    (''13PostCommEventER22TCommToolGetEventReplyl'', ''15PostCommEventCBER22TCommToolGetEventReplyl''),
    (''21ProcessOptionCompleteEm'', ''23ProcessOptionCompleteCBEm''),
    (''29ProcessPutBytesOptionCompleteEm'', ''31ProcessPutBytesOptionCompleteCBEm''),
    (''29ProcessGetBytesOptionCompleteEm'', ''31ProcessGetBytesOptionCompleteCBEm''),
    (''21ResArbReleaseCompleteEl'', ''23ResArbReleaseCompleteCBEl''),
    (''12FlushChannelEml'', ''14FlushChannelCBEml''), (''10StartAbortEl'', ''12StartAbortCBEl''),
    (''11GetAbortErrEv'', ''13GetAbortErrCBEv''),
    (''19GetTerminationEventEv'', ''21GetTerminationEventCBEv''),
    (''19SetTerminationEventEm'', ''21SetTerminationEventCBEm''),
    (''15InitAsyncRPCMsgER14TUAsyncMessagem'', ''17InitAsyncRPCMsgCBER14TUAsyncMessagem''),
    (''19GetToolConnectStateEv'', ''21GetToolConnectStateCBEv''),
    (''19SetToolConnectStateEm'', ''21SetToolConnectStateCBEm''),
    (''14GetConnectInfoEv'', ''16GetConnectInfoCBEv''),
    (''14SetConnectInfoER17TCMOCTConnectInfo'', ''16SetConnectInfoCBER17TCMOCTConnectInfo''),
    (''19GetCMOTransportInfoEv'', ''21GetCMOTransportInfoCBEv''),
    (''19SetCMOTransportInfoER17TCMOTransportInfo'', ''21SetCMOTransportInfoCBER17TCMOTransportInfo''),
    (''24GetReceiveMessageBufSizeEv'', ''26GetReceiveMessageBufSizeCBEv''),
    (''20GetConnectionEndPortEv'', ''22GetConnectionEndPortCBEv''),
    (''21GetControlOptionsInfoEv'', ''23GetControlOptionsInfoCBEv''),
    (''22GetGetBytesOptionsInfoEv'', ''24GetGetBytesOptionsInfoCBEv''),
    (''22GetPutBytesOptionsInfoEv'', ''24GetPutBytesOptionsInfoCBEv''),
    (''13GetCurPutDataEv'', ''15GetCurPutDataCBEv''),
    (''18GetCurPutFrameDataEv'', ''20GetCurPutFrameDataCBEv''),
    (''19GetCurPutEndOfFrameEv'', ''21GetCurPutEndOfFrameCBEv''),
    (''13GetCurGetDataEv'', ''15GetCurGetDataCBEv''),
    (''18GetCurGetFrameDataEv'', ''20GetCurGetFrameDataCBEv''),
    (''20GetCurGetNonBlockingEv'', ''22GetCurGetNonBlockingCBEv''),
    (''18GetCurGetThresholdEv'', ''20GetCurGetThresholdCBEv''),
    (''15GetPassiveClaimEv'', ''17GetPassiveClaimCBEv''),
    (''15SetPassiveClaimEh'', ''17SetPassiveClaimCBEh''),
    (''15GetPassiveStateEv'', ''17GetPassiveStateCBEv''),
    (''15SetPassiveStateEh'', ''17SetPassiveStateCBEh''),
    (''22GetWaitingForResNotifyEv'', ''24GetWaitingForResNotifyCBEv''),
    (''22SetWaitingForResNotifyEh'', ''24SetWaitingForResNotifyCBEh''),
    (''19GetCurRequestOpCodeEv'', ''21GetCurRequestOpCodeCBEv'')]"

text \<open>The class information of the three files: the names, the entries for the size, for the methods
  \<^verbatim>\<open>Alloc\<close>, \<^verbatim>\<open>Free\<close>, \<^verbatim>\<open>New\<close> and \<^verbatim>\<open>Delete\<close>, a word of 0 standing for none, the version and the
  flags.\<close>

record class_info =
  implname :: string
  protname :: string
  info_sizeof :: btable_entry
  info_alloc :: btable_entry
  info_free :: btable_entry
  info_new :: btable_entry
  info_delete :: btable_entry
  info_version :: ulong
  info_flags :: ulong

definition PMbedTLS_class_info :: class_info where
  "PMbedTLS_class_info =
     \<lparr>implname = ''PMbedTLS'', protname = ''PMbedTLSInterface'',
      info_sizeof = Branch ''6SizeofEv'', info_alloc = Reserved, info_free = Reserved,
      info_new = Branch ''3NewEv'', info_delete = Branch ''6DeleteEv'', info_version = 0x00010000,
      info_flags = 0\<rparr>"

definition PMbedTLSConnectionEnd_class_info :: class_info where
  "PMbedTLSConnectionEnd_class_info =
     \<lparr>implname = ''PInetToolCE'', protname = ''PConnectionEnd'',
      info_sizeof = Branch ''6SizeofEv'', info_alloc = Reserved, info_free = Reserved,
      info_new = Branch ''3NewEv'', info_delete = Branch ''6DeleteEv'', info_version = 0x00000000,
      info_flags = 0\<rparr>"

definition PMbedTLSCECallBack_class_info :: class_info where
  "PMbedTLSCECallBack_class_info =
     \<lparr>implname = ''PMbedTLSCECallBack'', protname = ''PCECallBack'',
      info_sizeof = Branch ''6SizeofEv'', info_alloc = Reserved, info_free = Reserved,
      info_new = Return, info_delete = Branch ''6DeleteEv'', info_version = 0x00000000,
      info_flags = 0\<rparr>"

section \<open>Protocols\<close>

record protocol =
  implementation :: string
  decls :: "decl list"
  glue :: "(string \<times> nat) list"
  btable :: "btable_entry list"
  info :: class_info

abbreviation "interface p \<equiv> protname (info p)"

definition MbedTLS :: protocol where
  "MbedTLS =
     \<lparr>implementation = ''PMbedTLS'', decls = PMbedTLS_decls, glue = PMbedTLSInterface_glue,
      btable = PMbedTLS_btable, info = PMbedTLS_class_info\<rparr>"

definition ConnectionEnd :: protocol where
  "ConnectionEnd =
     \<lparr>implementation = ''PMbedTLSConnectionEnd'', decls = PMbedTLSConnectionEnd_decls,
      glue = PConnectionEnd_glue, btable = PMbedTLSConnectionEnd_btable,
      info = PMbedTLSConnectionEnd_class_info\<rparr>"

definition CECallBack :: protocol where
  "CECallBack =
     \<lparr>implementation = ''PMbedTLSCECallBack'', decls = PMbedTLSCECallBack_decls,
      glue = PCECallBack_glue, btable = PMbedTLSCECallBack_btable,
      info = PMbedTLSCECallBack_class_info\<rparr>"

definition protocols :: "protocol list" where
  "protocols = [MbedTLS, ConnectionEnd, CECallBack]"

text \<open>The stubs are the methods of the header, in its order, with the slots from 4 on; the table
  has branches to the methods of the class in the same places, and \<^verbatim>\<open>New\<close> and \<^verbatim>\<open>Delete\<close> before
  them as the class information says.\<close>

locale protocol_tables =
  fixes p :: protocol
  assumes stubs: "map fst (glue p) = map (mangled (interface p)) (decls p)"
    and slots: "map snd (glue p) = [4..<4 + length (glue p)]"
    and entries: "btable p =
      [Reserved, Branch ''9ClassInfoEv'', info_new (info p), info_delete (info p)] @
      map (\<lambda>d. Branch (mangled (implementation p) d)) (decls p)"
    and same_types: "map (mangled (implementation p)) (decls p) = map (mangled (interface p)) (decls p)"
begin

lemma same_length: "length (decls p) = length (glue p)"
  using stubs by (metis length_map)

lemma glue_nth:
  "i < length (glue p) \<Longrightarrow> glue p ! i = (mangled (interface p) (decls p ! i), i + 4)"
  by (metis add.commute nth_map nth_upt prod.collapse same_length slots stubs
      length_map length_upt add_diff_cancel_left' nat_add_left_cancel_less)

lemma same_name: "d \<in> set (decls p) \<Longrightarrow> mangled (implementation p) d = mangled (interface p) d"
  using same_types by (simp add: map_eq_conv)

lemma btable_nth:
  "i < length (glue p) \<Longrightarrow>
   i + 4 < length (btable p) \<and> btable p ! (i + 4) = Branch (mangled (implementation p) (decls p ! i))"
  by (simp add: entries same_length nth_append)

text \<open>Every slot of a stub is in the table, and holds the method with the same name and types.\<close>

lemma slot_holds_method:
  assumes "(m, slot) \<in> set (glue p)"
  shows "slot < length (btable p) \<and> btable p ! slot = Branch m"
proof -
  obtain i where i: "i < length (glue p)" "glue p ! i = (m, slot)"
    using assms by (meson in_set_conv_nth)
  then show ?thesis
    using glue_nth [OF i(1)] btable_nth [OF i(1)] same_name [of "decls p ! i"] same_length
    by simp
qed

lemma new_and_delete:
  "2 < length (btable p) \<and> btable p ! 2 = info_new (info p)"
  "3 < length (btable p) \<and> btable p ! 3 = info_delete (info p)"
  by (simp_all add: entries)

end

section \<open>The three protocols\<close>

lemmas table_eval = list.map fst_conv snd_conv append.simps mangling

lemma MbedTLS_stubs: "map fst PMbedTLSInterface_glue = map (mangled ''PMbedTLSInterface'') PMbedTLS_decls"
  by (simp only: PMbedTLSInterface_glue_def PMbedTLS_decls_def table_eval params_of_PMbedTLSInterface)

lemma MbedTLS_types: "map (mangled ''PMbedTLS'') PMbedTLS_decls = map (mangled ''PMbedTLSInterface'') PMbedTLS_decls"
  by (simp only: PMbedTLS_decls_def table_eval params_of_PMbedTLS params_of_PMbedTLSInterface)

lemma MbedTLS_entries: "PMbedTLS_btable =
    [Reserved, Branch ''9ClassInfoEv'', Branch ''3NewEv'', Branch ''6DeleteEv''] @
    map (\<lambda>d. Branch (mangled ''PMbedTLS'' d)) PMbedTLS_decls"
  by (simp only: PMbedTLS_btable_def PMbedTLS_decls_def table_eval params_of_PMbedTLS)

lemma ConnectionEnd_stubs:
  "map fst PConnectionEnd_glue = map (mangled ''PConnectionEnd'') PMbedTLSConnectionEnd_decls"
  by (simp only: PConnectionEnd_glue_def PMbedTLSConnectionEnd_decls_def table_eval params_of_PConnectionEnd)

lemma ConnectionEnd_types: "map (mangled ''PMbedTLSConnectionEnd'') PMbedTLSConnectionEnd_decls = map (mangled ''PConnectionEnd'') PMbedTLSConnectionEnd_decls"
  by (simp only: PMbedTLSConnectionEnd_decls_def table_eval params_of_PMbedTLSConnectionEnd params_of_PConnectionEnd)

lemma ConnectionEnd_entries: "PMbedTLSConnectionEnd_btable =
    [Reserved, Branch ''9ClassInfoEv'', Branch ''3NewEv'', Branch ''6DeleteEv''] @
    map (\<lambda>d. Branch (mangled ''PMbedTLSConnectionEnd'' d)) PMbedTLSConnectionEnd_decls"
  by (simp only: PMbedTLSConnectionEnd_btable_def PMbedTLSConnectionEnd_decls_def table_eval
      params_of_PMbedTLSConnectionEnd)

lemma CECallBack_stubs:
  "map fst PCECallBack_glue = map (mangled ''PCECallBack'') PMbedTLSCECallBack_decls"
  by (simp only: PCECallBack_glue_def PMbedTLSCECallBack_decls_def table_eval params_of_PCECallBack)

lemma CECallBack_types: "map (mangled ''PMbedTLSCECallBack'') PMbedTLSCECallBack_decls = map (mangled ''PCECallBack'') PMbedTLSCECallBack_decls"
  by (simp only: PMbedTLSCECallBack_decls_def table_eval params_of_PMbedTLSCECallBack params_of_PCECallBack)

lemma CECallBack_entries: "PMbedTLSCECallBack_btable =
    [Reserved, Branch ''9ClassInfoEv'', Return, Branch ''6DeleteEv''] @
    map (\<lambda>d. Branch (mangled ''PMbedTLSCECallBack'' d)) PMbedTLSCECallBack_decls"
  by (simp only: PMbedTLSCECallBack_btable_def PMbedTLSCECallBack_decls_def table_eval
      params_of_PMbedTLSCECallBack)

lemma glue_slots:
  "map snd PMbedTLSInterface_glue = [4..<4 + length PMbedTLSInterface_glue]"
  "map snd PConnectionEnd_glue = [4..<4 + length PConnectionEnd_glue]"
  "map snd PCECallBack_glue = [4..<4 + length PCECallBack_glue]"
  by (simp_all add: PMbedTLSInterface_glue_def PConnectionEnd_glue_def PCECallBack_glue_def upt_rec)

interpretation mbedtls: protocol_tables MbedTLS
  by unfold_locales
    (simp_all only: MbedTLS_def protocol.simps class_info.simps PMbedTLS_class_info_def
      MbedTLS_stubs MbedTLS_entries MbedTLS_types glue_slots)

interpretation connection_end: protocol_tables ConnectionEnd
  by unfold_locales
    (simp_all only: ConnectionEnd_def protocol.simps class_info.simps PMbedTLSConnectionEnd_class_info_def
      ConnectionEnd_stubs ConnectionEnd_entries
      ConnectionEnd_types glue_slots)

interpretation callback: protocol_tables CECallBack
  by unfold_locales
    (simp_all only: CECallBack_def protocol.simps class_info.simps PMbedTLSCECallBack_class_info_def
      CECallBack_stubs CECallBack_entries CECallBack_types glue_slots)

lemma protocols_ok: "p \<in> set protocols \<Longrightarrow> protocol_tables p"
  using mbedtls.protocol_tables_axioms connection_end.protocol_tables_axioms
    callback.protocol_tables_axioms
  by (auto simp: protocols_def)

text \<open>Each forwarding method has the name and the types of its target, but for \<^verbatim>\<open>CB\<close>.\<close>

lemma forwards:
  "PMbedTLSCECallBack_forwards =
     map (\<lambda>d. (mangled ''PMbedTLSCECallBack'' d, mangled ''PMbedTLSConnectionEnd'' (fst d @ ''CB'', snd d)))
       PMbedTLSCECallBack_decls"
  by (simp only: PMbedTLSCECallBack_forwards_def PMbedTLSCECallBack_decls_def table_eval
      params_of_PMbedTLSConnectionEnd params_of_PMbedTLSCECallBack)

lemma callback_decls:
  "PMbedTLSConnectionEnd_CB_decls = map (\<lambda>d. (fst d @ ''CB'', snd d)) PMbedTLSCECallBack_decls"
  by (simp only: PMbedTLSConnectionEnd_CB_decls_def PMbedTLSCECallBack_decls_def list.map fst_conv snd_conv
      append.simps)

text \<open>The header of the interface declares the certificates before the revocation lists.\<close>

lemma interface_decls:
  "PMbedTLSInterface_decls =
     take 86 PMbedTLS_decls @ take 11 (drop 88 PMbedTLS_decls) @ take 2 (drop 86 PMbedTLS_decls) @
     drop 99 PMbedTLS_decls"
  by (simp add: PMbedTLSInterface_decls_def PMbedTLS_decls_def)

lemma mset_decl_parts:
  "mset (take 86 l) + (mset (take 11 (drop 88 l)) + (mset (take 2 (drop 86 l)) + mset (drop 99 l))) =
   mset (l :: decl list)"
proof -
  have "l = take 86 l @ take 2 (drop 86 l) @ take 11 (drop 88 l) @ drop 99 l"
    using append_take_drop_id [of 86 l] append_take_drop_id [of 2 "drop 86 l"]
      append_take_drop_id [of 11 "drop 88 l"] by simp
  from arg_cong [where f = mset, OF this] show ?thesis
    by (simp only: mset_append ac_simps)
qed

lemma headers_match: "mset PMbedTLSInterface_decls = mset PMbedTLS_decls"
  unfolding interface_decls by (simp add: mset_decl_parts)

end
