(* ===== verification/Protocol_Dispatch.thy ===== *)
theory Protocol_Dispatch
  imports Protocol_Tables
begin

text \<open>
  The properties of the protocol glue: the headers, the stubs and the tables name the same methods
  with the same types; running a stub enters the method of the class; the callbacks of the inet
  tool enter the methods of the connection end; \<^verbatim>\<open>New\<close> and \<^verbatim>\<open>Delete\<close> do what the macros
  promise. Where the linker places a method is a parameter (\<open>link\<close>). The examples use a small
  image in memory.
\<close>

section \<open>Examples' world\<close>

text \<open>A client's object at \<open>0x40\<close>, the real one at \<open>0x80\<close> with its table at \<open>0x1000\<close> and, after the
  header, a pointer to \<open>0xC0\<close>; the stack grows down from \<open>0x800\<close>.\<close>

definition demo_ram :: "ulong \<Rightarrow> ulong" where
  "demo_ram a = (if a = 0x44 then 0x80 else if a = 0x88 then 0x1000 else if a = 0x90 then 0xC0 else 0)"

definition demo_cpu :: "ulong \<Rightarrow> unit cpu" where
  "demo_cpu r0 =
     \<lparr>regs = \<lambda>r. case r of R0 \<Rightarrow> r0 | R1 \<Rightarrow> 1 | R2 \<Rightarrow> 2 | R3 \<Rightarrow> 3 | R12 \<Rightarrow> 0 | SP \<Rightarrow> 0x800 | LR \<Rightarrow> 0x300
        | PC \<Rightarrow> 0x100,
      fregs = \<lambda>_. (),
      cpsr = \<lparr>flag_n = False, flag_z = False, flag_c = False, flag_v = False\<rparr>,
      ram = demo_ram\<rparr>"

definition demo_link :: "string \<Rightarrow> string \<Rightarrow> ulong" where
  "demo_link m c = (if c = m then 0x2000 else 0x3000)"

definition demo_table :: "string \<Rightarrow> protocol \<Rightarrow> ulong \<times> unit cell list" where
  "demo_table m p =
     (0x1000, map (entry_cell (\<lambda>c. demo_link m (symbol (implementation p) c))) (btable p))"

lemma table_sizes: "length (btable p) < 200" if "p \<in> set protocols"
  using that
  by (auto simp: protocols_def MbedTLS_def ConnectionEnd_def CECallBack_def PMbedTLS_btable_def
      PMbedTLSConnectionEnd_btable_def PMbedTLSCECallBack_btable_def)

lemma demo_table_at:
  assumes "p \<in> set protocols"
  shows "btable_at (memory_image (demo_table m p # l)) 0x1000 (\<lambda>c. demo_link m (symbol (implementation p) c)) (btable p)"
  unfolding btable_at_def demo_table_def
  using table_sizes [OF assms] by (intro memory_image_first) simp

text \<open>Code placed below the table is found behind it.\<close>

lemma memory_image_below:
  assumes "p \<in> set protocols" "a < 0x1000"
  shows "memory_image (demo_table m p # l) a = memory_image l a"
proof -
  have "unat (a - 0x1000) = unat a + 2 ^ 32 - 0x1000"
    using assms(2) by (simp add: unat_sub_if_size word_less_nat_alt word_size)
  moreover have "unat (4 * of_nat (length (btable p)) :: ulong) = 4 * length (btable p)"
    using table_sizes [OF assms(1)] by (simp add: unat_word_ariths unat_of_nat)
  ultimately have "\<not> a - 0x1000 < 4 * of_nat (length (btable p))"
    using table_sizes [OF assms(1)] by (simp add: word_less_nat_alt)
  then show ?thesis by (simp add: demo_table_def)
qed

lemma table_size_callback [simp]: "length (btable CECallBack) = 58"
  by (simp add: CECallBack_def PMbedTLSCECallBack_btable_def)

lemma table_size_connection_end [simp]: "length (btable ConnectionEnd) = 35"
  by (simp add: ConnectionEnd_def PMbedTLSConnectionEnd_btable_def)

lemma protocols_simps [simp]:
  "MbedTLS \<in> set protocols" "ConnectionEnd \<in> set protocols" "CECallBack \<in> set protocols"
  by (simp_all add: protocols_def)

section \<open>Names\<close>

text \<open>
  C29. The header \<^verbatim>\<open>PMbedTLSInterface.h\<close> declares exactly the methods of \<^verbatim>\<open>PMbedTLS.impl.h\<close>; for
  each protocol the stubs are, in order, the methods the header of the class declares, with their
  mangled names and the slots from 4 on; and the branch table holds in these slots the methods
  of the class, mangled from the same declarations.
\<close>

theorem headers_match_glue:
  "mset PMbedTLSInterface_decls = mset PMbedTLS_decls \<and>
   list_all (\<lambda>p.
     glue p = zip (map (mangled (interface p)) (decls p)) [4..<4 + length (decls p)] \<and>
     drop 4 (btable p) = map (\<lambda>d. Branch (mangled (implementation p) d)) (decls p)) protocols"
proof
  show "mset PMbedTLSInterface_decls = mset PMbedTLS_decls"
    by (rule headers_match)
  have "glue p = zip (map (mangled (interface p)) (decls p)) [4..<4 + length (decls p)] \<and>
     drop 4 (btable p) = map (\<lambda>d. Branch (mangled (implementation p) d)) (decls p)"
    if "protocol_tables p" for p
    using protocol_tables.stubs [OF that] protocol_tables.slots [OF that] protocol_tables.entries [OF that]
      protocol_tables.same_length [OF that] zip_map_fst_snd [of "glue p"]
    by simp
  then show "list_all (\<lambda>p.
     glue p = zip (map (mangled (interface p)) (decls p)) [4..<4 + length (decls p)] \<and>
     drop 4 (btable p) = map (\<lambda>d. Branch (mangled (implementation p) d)) (decls p)) protocols"
    using protocols_ok by (simp add: list_all_iff)
qed

section \<open>Calls\<close>

text \<open>
  C26. A call through the interface is a call of the class: whatever stub of one of the three
  interfaces is entered, with an object of the class, four steps later the method of the class
  with the same name and types is entered, the real object in \<^verbatim>\<open>r0\<close> in place of the client's,
  with the other arguments, the stack, the return address and the memory as they were.
\<close>

theorem glue_calls_method:
  assumes "p \<in> set protocols" "(m, slot) \<in> set (glue p)"
    "code_at P (regs s PC) (map Code (dispatch_code slot))"
    "object_at s (regs s R0) this tbl"
    "btable_at P tbl (\<lambda>c. link (symbol (implementation p) c)) (btable p)"
  shows "run K P 4 s =
    Some (s\<lparr>regs := (regs s)(R0 := this, R12 := tbl, PC := link (symbol (implementation p) m))\<rparr>)"
  using dispatch_reaches [OF assms(3,4,5)] protocol_tables.slot_holds_method [OF protocols_ok [OF assms(1)] assms(2)]
  by simp

theorem glue_calls_method_witness:
  "run idle_coprocessors
     (memory_image [demo_table (symbol ''PMbedTLSConnectionEnd'' ''11AcceptStartEv'') ConnectionEnd,
             (0x100, map Code (dispatch_code 13))]) 4 (demo_cpu 0x40) =
   Some ((demo_cpu 0x40)\<lparr>regs := (regs (demo_cpu 0x40))(R0 := 0x80, R12 := 0x1000, PC := 0x2000)\<rparr>)"
proof -
  let ?l = "symbol ''PMbedTLSConnectionEnd'' ''11AcceptStartEv''"
  let ?P = "memory_image [demo_table ?l ConnectionEnd, (0x100, map Code (dispatch_code 13))]"
  have slot: "(''11AcceptStartEv'', 13) \<in> set (glue ConnectionEnd)"
    by (simp add: ConnectionEnd_def PConnectionEnd_glue_def)
  have stub: "code_at ?P (regs (demo_cpu 0x40) PC) (map Code (dispatch_code 13))"
    by (simp add: demo_cpu_def dispatch_code_def memory_image_below aligned_def)
  have obj: "object_at (demo_cpu 0x40) (regs (demo_cpu 0x40) R0) 0x80 0x1000"
    by (simp add: object_at_def demo_cpu_def demo_ram_def aligned_def)
  have "implementation ConnectionEnd = ''PMbedTLSConnectionEnd''"
    by (simp add: ConnectionEnd_def)
  then show ?thesis
    using glue_calls_method [OF protocols_simps(2) slot stub obj demo_table_at [OF protocols_simps(2)],
        of idle_coprocessors]
    by (simp add: demo_link_def)
qed

section \<open>Callbacks\<close>

text \<open>
  C27. A callback of the inet tool reaches the connection end: a call of a method of
  \<^verbatim>\<open>PCECallBack\<close> on an object of \<^verbatim>\<open>PMbedTLSCECallBack\<close> enters, six steps later, the method of
  \<^verbatim>\<open>PMbedTLSConnectionEnd\<close> that its header declares with the name followed by \<^verbatim>\<open>CB\<close> and the same
  types, with the connection end \<^verbatim>\<open>mThis\<close> as the object and everything else as it was.
\<close>

theorem callback_reaches_connection_end:
  assumes "(m, slot) \<in> set PCECallBack_glue" "(m, t) \<in> set PMbedTLSCECallBack_forwards"
    "code_at P (regs s PC) (map Code (dispatch_code slot))"
    "object_at s (regs s R0) this tbl"
    "btable_at P tbl (\<lambda>c. link (symbol ''PMbedTLSCECallBack'' c)) PMbedTLSCECallBack_btable"
    "code_at P (link (symbol ''PMbedTLSCECallBack'' m))
       (map Code (forward_code (link (symbol ''PMbedTLSConnectionEnd'' t))))"
  shows "run K P 6 s =
      Some (s\<lparr>regs := (regs s)(R0 := ram s (this + 16), R12 := tbl,
        PC := link (symbol ''PMbedTLSConnectionEnd'' t))\<rparr>) \<and>
    (\<exists>n ps. (n @ ''CB'', ps) \<in> set PMbedTLSConnectionEnd_CB_decls \<and> m = mangled ''PCECallBack'' (n, ps) \<and>
       t = mangled ''PMbedTLSConnectionEnd'' (n @ ''CB'', ps))"
proof
  let ?s = "s\<lparr>regs := (regs s)(R0 := this, R12 := tbl, PC := link (symbol ''PMbedTLSCECallBack'' m))\<rparr>"
  have four: "run K P 4 s = Some ?s"
    using dispatch_reaches [OF assms(3,4,5)] callback.slot_holds_method assms(1)
    by (simp add: CECallBack_def)
  have "aligned (this + 16)"
    using assms(4) by (simp add: object_at_def aligned_add)
  with assms(6) have "run K P 2 ?s =
      Some (s\<lparr>regs := (regs s)(R0 := ram s (this + 16), R12 := tbl,
        PC := link (symbol ''PMbedTLSConnectionEnd'' t))\<rparr>)"
    by (simp add: forward_code_def machine fun_upd_twist)
  then show "run K P 6 s =
      Some (s\<lparr>regs := (regs s)(R0 := ram s (this + 16), R12 := tbl,
        PC := link (symbol ''PMbedTLSConnectionEnd'' t))\<rparr>)"
    using run_add [of K P 4 2 s] four by simp
  obtain n ps where d: "(n, ps) \<in> set PMbedTLSCECallBack_decls" "m = mangled ''PMbedTLSCECallBack'' (n, ps)"
      "t = mangled ''PMbedTLSConnectionEnd'' (n @ ''CB'', ps)"
    using assms(2) by (auto simp: forwards)
  moreover have "mangled ''PMbedTLSCECallBack'' (n, ps) = mangled ''PCECallBack'' (n, ps)"
    using callback.same_name [of "(n, ps)"] d(1) by (simp add: CECallBack_def PMbedTLSCECallBack_class_info_def)
  ultimately show "\<exists>n ps. (n @ ''CB'', ps) \<in> set PMbedTLSConnectionEnd_CB_decls \<and>
      m = mangled ''PCECallBack'' (n, ps) \<and> t = mangled ''PMbedTLSConnectionEnd'' (n @ ''CB'', ps)"
    by (force simp: callback_decls)
qed

theorem callback_reaches_connection_end_witness:
  "(let t = symbol ''PMbedTLSConnectionEnd'' ''19TerminateCompleteCBEv''
    in run idle_coprocessors
     (memory_image [demo_table t CECallBack, (0x100, map Code (dispatch_code 12)),
        (0x3000, map Code (forward_code 0x2000))]) 6 (demo_cpu 0x40) =
   Some ((demo_cpu 0x40)\<lparr>regs := (regs (demo_cpu 0x40))(R0 := 0xC0, R12 := 0x1000, PC := 0x2000)\<rparr>))"
proof -
  let ?t = "symbol ''PMbedTLSConnectionEnd'' ''19TerminateCompleteCBEv''"
  let ?P = "memory_image [demo_table ?t CECallBack, (0x100, map Code (dispatch_code 12)),
        (0x3000, map Code (forward_code 0x2000))]"
  have slot: "(''17TerminateCompleteEv'', 12) \<in> set PCECallBack_glue"
    by (simp add: PCECallBack_glue_def)
  have fwd: "(''17TerminateCompleteEv'', ''19TerminateCompleteCBEv'') \<in> set PMbedTLSCECallBack_forwards"
    by (simp add: PMbedTLSCECallBack_forwards_def)
  have stub: "code_at ?P (regs (demo_cpu 0x40) PC) (map Code (dispatch_code 12))"
    by (simp add: demo_cpu_def dispatch_code_def memory_image_below aligned_def)
  have obj: "object_at (demo_cpu 0x40) (regs (demo_cpu 0x40) R0) 0x80 0x1000"
    by (simp add: object_at_def demo_cpu_def demo_ram_def aligned_def)
  have link: "demo_link ?t (symbol ''PMbedTLSCECallBack'' ''17TerminateCompleteEv'') = 0x3000"
      "demo_link ?t ?t = 0x2000"
    by (simp_all add: demo_link_def symbol_def source_name_def decimal_def)
  have table: "btable_at ?P 0x1000 (\<lambda>c. demo_link ?t (symbol ''PMbedTLSCECallBack'' c)) PMbedTLSCECallBack_btable"
    using demo_table_at [OF protocols_simps(3)] by (simp add: CECallBack_def)
  have fwd_code: "code_at ?P (demo_link ?t (symbol ''PMbedTLSCECallBack'' ''17TerminateCompleteEv''))
      (map Code (forward_code (demo_link ?t ?t)))"
    by (simp add: link forward_code_def demo_table_def table_size_callback aligned_def dispatch_code_def)
  show ?thesis
    using callback_reaches_connection_end [OF slot fwd stub obj table fwd_code, of idle_coprocessors]
    by (simp add: link Let_def demo_cpu_def demo_ram_def)
qed

section \<open>Instances\<close>

text \<open>
  C28. \<^verbatim>\<open>New\<close> of an interface asks NewtonOS for an instance by the name of the interface and the
  name it was given. Without one, nil is returned to the caller; with one, the method \<^verbatim>\<open>New\<close> of
  the class is entered on the real object. Either way the arguments, the stack pointer and the
  return address are those of the call, and the memory is as the allocation left it.
\<close>

theorem new_makes_instance:
  assumes "p \<in> set protocols" "info_new (info p) = Branch c"
    "New_linked P (regs s PC) (interface p) (AllocInstanceByName P instances) scratch asciz alloc"
    "aligned (regs s SP)"
    "instances (interface p) (regs s R0) (New_frame s) = (obj, m)"
    "keeps_words (New_frame s) m (regs s SP - 20) 5"
    "obj = 0 \<or> aligned obj \<and> aligned (m (obj + 4)) \<and>
       btable_at P (m (m (obj + 4) + 8)) (\<lambda>c. link (symbol (implementation p) c)) (btable p)"
  shows "\<exists>s'. run K P (if obj = 0 then 11 else 15) s = Some s' \<and> kept_args s s' \<and> ram s' = m \<and>
    (if obj = 0 then regs s' R0 = 0 \<and> regs s' PC = regs s LR
     else regs s' R0 = m (obj + 4) \<and> regs s' PC = link (symbol (implementation p) c))"
proof (cases "obj = 0")
  case True
  then show ?thesis
    using New_without_instance [OF assms(3,4) _ assms(6)] assms(5) by auto
next
  case False
  then have "aligned obj" "aligned (m (obj + 4))"
      "btable_at P (m (m (obj + 4) + 8)) (\<lambda>c. link (symbol (implementation p) c)) (btable p)"
    using assms(7) by simp_all
  moreover have "2 < length (btable p)" "btable p ! 2 = Branch c"
    using protocol_tables.new_and_delete(1) [OF protocols_ok [OF assms(1)]] assms(2) by simp_all
  ultimately show ?thesis
    using New_with_instance [OF assms(3-5) False assms(6), of "\<lambda>c. link (symbol (implementation p) c)" _ c K]
      False by fastforce
qed

text \<open>
  \<^verbatim>\<open>Delete\<close> of an interface calls the method \<^verbatim>\<open>Delete\<close> of the class on the real object and
  then gives that object to \<^verbatim>\<open>FreeInstance\<close>, with the caller's return address and stack.
\<close>

theorem delete_frees_instance:
  assumes "p \<in> set protocols"
    "code_at P (regs s PC) (map Code (Delete_code (regs s PC + 20) free 3))"
    "aligned (regs s SP)" "object_at s (regs s R0) this tbl"
    "Delete_frame s this (this + 8) = tbl"
    "btable_at P tbl (\<lambda>c. link (symbol (implementation p) c)) (btable p)"
    "P (link (symbol (implementation p) ''6DeleteEv'')) =
       Some (Routine (callee (\<lambda>s. destroy (regs s R0) (ram s)) scratch))"
    "destroy this (Delete_frame s this) = (r, m)"
    "keeps_words (Delete_frame s this) m (regs s SP - 8) 2"
  shows "\<exists>s'. run K P 9 s = Some s' \<and> regs s' R0 = this \<and> regs s' LR = regs s LR \<and>
    regs s' SP = regs s SP \<and> regs s' PC = free \<and> ram s' = m"
proof -
  have "3 < length (btable p)" "btable p ! 3 = Branch ''6DeleteEv''"
    using protocol_tables.new_and_delete(2) [OF protocols_ok [OF assms(1)]] assms(1)
    by (auto simp: protocols_def MbedTLS_def ConnectionEnd_def CECallBack_def PMbedTLS_class_info_def
        PMbedTLSConnectionEnd_class_info_def PMbedTLSCECallBack_class_info_def)
  then show ?thesis
    using Delete_frees [OF assms(2-6) _ _ assms(7-9)] by simp
qed

text \<open>The examples: an allocation that knows the instance at \<open>0x40\<close> or none, and a method \<^verbatim>\<open>Delete\<close>
  that changes nothing.\<close>

definition demo_instances :: "ulong \<Rightarrow> string \<Rightarrow> ulong \<Rightarrow> (ulong \<Rightarrow> ulong) \<Rightarrow> ulong \<times> (ulong \<Rightarrow> ulong)" where
  "demo_instances obj intfname name m = (if intfname = ''PConnectionEnd'' then obj else 0, m)"

definition demo_method :: string where
  "demo_method = symbol ''PMbedTLSConnectionEnd'' ''3NewEv''"

definition demo_sections :: "(ulong \<times> unit cell list) list" where
  "demo_sections =
     [demo_table demo_method ConnectionEnd, (0x100, map Code (New_code 0x200 0x4000 2)),
      (0x200, asciz_code ''PConnectionEnd'')]"

definition demo_new :: "ulong \<Rightarrow> unit prog" where
  "demo_new obj = memory_image (demo_sections @
     [(0x4000, [Routine (callee (AllocInstanceByName (memory_image demo_sections) (demo_instances obj)) id)])])"

lemma first_cell: "(x :: ulong) < 4 \<Longrightarrow> unat (x div 4) = 0"
  by (simp add: unat_div word_less_nat_alt)

lemma demo_alloc:
  "AllocInstanceByName (memory_image demo_sections) I = AllocInstanceByName (demo_new obj) I"
  by (auto simp: fun_eq_iff AllocInstanceByName_def demo_new_def memory_image_append first_cell
      split: option.splits cell.splits)

lemma demo_new_linked:
  "New_linked (demo_new obj) 0x100 ''PConnectionEnd'' (AllocInstanceByName (demo_new obj) (demo_instances obj)) id
     0x200 0x4000"
  unfolding New_linked_def demo_alloc [of _ obj, symmetric]
  by (simp add: demo_new_def demo_sections_def memory_image_below New_code_def dispatch_code_def asciz_code_def
      aligned_def)
    (simp add: demo_table_def table_size_connection_end)

theorem new_makes_instance_witness:
  "(\<exists>s'. run idle_coprocessors (demo_new 0x40) 15 (demo_cpu 0x700) = Some s' \<and> kept_args (demo_cpu 0x700) s' \<and>
      regs s' R0 = 0x80 \<and> regs s' PC = 0x2000) \<and>
   (\<exists>s'. run idle_coprocessors (demo_new 0) 11 (demo_cpu 0x700) = Some s' \<and> kept_args (demo_cpu 0x700) s' \<and>
      regs s' R0 = 0 \<and> regs s' PC = 0x300)"
proof -
  let ?s = "demo_cpu 0x700"
  let ?m = "New_frame ?s"
  have new: "info_new (info ConnectionEnd) = Branch ''3NewEv''" "interface ConnectionEnd = ''PConnectionEnd''"
    by (simp_all add: ConnectionEnd_def PMbedTLSConnectionEnd_class_info_def)
  have linked: "New_linked (demo_new obj) (regs ?s PC) (interface ConnectionEnd)
      (AllocInstanceByName (demo_new obj) (demo_instances obj)) id 0x200 0x4000" for obj
    using demo_new_linked by (simp add: new demo_cpu_def)
  have stack: "aligned (regs ?s SP)"
    by (simp add: demo_cpu_def aligned_def)
  have alloc: "demo_instances obj (interface ConnectionEnd) (regs ?s R0) ?m = (obj, ?m)" for obj
    by (simp add: demo_instances_def new)
  have kept: "keeps_words ?m ?m (regs ?s SP - 20) 5"
    by (simp add: keeps_words_def list_all_iff)
  have m: "?m 0x44 = 0x80" "?m 0x88 = 0x1000"
    by (simp_all add: New_frame_def demo_cpu_def demo_ram_def)
  have obj: "(0x40 :: ulong) = 0 \<or> aligned 0x40 \<and> aligned (?m (0x40 + 4)) \<and>
      btable_at (demo_new 0x40) (?m (?m (0x40 + 4) + 8))
        (\<lambda>c. demo_link demo_method (symbol (implementation ConnectionEnd) c)) (btable ConnectionEnd)"
    using demo_table_at [OF protocols_simps(2)] by (simp add: m aligned_def demo_new_def demo_sections_def)
  have entry: "demo_link demo_method (symbol (implementation ConnectionEnd) ''3NewEv'') = 0x2000"
    by (simp add: demo_link_def demo_method_def ConnectionEnd_def)
  have lr: "regs ?s LR = 0x300"
    by (simp add: demo_cpu_def)
  have none: "(0 :: ulong) = 0 \<or> aligned 0 \<and> aligned (?m (0 + 4)) \<and>
      btable_at (demo_new 0) (?m (?m (0 + 4) + 8))
        (\<lambda>c. demo_link demo_method (symbol (implementation ConnectionEnd) c)) (btable ConnectionEnd)"
    by simp
  show ?thesis
    using new_makes_instance [OF protocols_simps(2) new(1) linked stack alloc kept obj, of idle_coprocessors]
      new_makes_instance [OF protocols_simps(2) new(1) linked stack alloc kept none, of idle_coprocessors]
    by (auto simp: m entry lr)
qed

definition demo_delete :: "unit prog" where
  "demo_delete = memory_image
     [demo_table (symbol ''PMbedTLSConnectionEnd'' ''6DeleteEv'') ConnectionEnd,
      (0x100, map Code (Delete_code 0x114 0x4000 3)),
      (0x2000, [Routine (callee (\<lambda>s. (regs s R0, ram s)) id)])]"

theorem delete_frees_instance_witness:
  "\<exists>s'. run idle_coprocessors demo_delete 9 (demo_cpu 0x40) = Some s' \<and> regs s' R0 = 0x80 \<and>
     regs s' LR = 0x300 \<and> regs s' SP = 0x800 \<and> regs s' PC = 0x4000"
proof -
  let ?s = "demo_cpu 0x40"
  let ?l = "demo_link (symbol ''PMbedTLSConnectionEnd'' ''6DeleteEv'')"
  have regs: "regs ?s LR = 0x300" "regs ?s SP = 0x800"
    by (simp_all add: demo_cpu_def)
  have stub: "code_at demo_delete (regs ?s PC) (map Code (Delete_code (regs ?s PC + 20) 0x4000 3))"
    by (simp add: demo_cpu_def demo_delete_def Delete_code_def memory_image_below aligned_def)
  have stack: "aligned (regs ?s SP)"
    by (simp add: demo_cpu_def aligned_def)
  have obj: "object_at ?s (regs ?s R0) 0x80 0x1000" "Delete_frame ?s 0x80 (0x80 + 8) = 0x1000"
    by (simp_all add: object_at_def Delete_frame_def demo_cpu_def demo_ram_def aligned_def)
  have table: "btable_at demo_delete 0x1000 (\<lambda>c. ?l (symbol (implementation ConnectionEnd) c)) (btable ConnectionEnd)"
    unfolding demo_delete_def by (rule demo_table_at [OF protocols_simps(2)])
  have deleter: "demo_delete (?l (symbol (implementation ConnectionEnd) ''6DeleteEv'')) =
      Some (Routine (callee (\<lambda>s. (\<lambda>this m. (this, m)) (regs s R0) (ram s)) id))"
    by (simp add: demo_link_def ConnectionEnd_def demo_delete_def demo_table_def Delete_code_def aligned_def
        PMbedTLSConnectionEnd_btable_def)
  have kept: "keeps_words (Delete_frame ?s 0x80) (Delete_frame ?s 0x80) (regs ?s SP - 8) 2"
    by (simp add: keeps_words_def list_all_iff)
  show ?thesis
    using delete_frees_instance [OF protocols_simps(2) stub stack obj table deleter refl kept, of idle_coprocessors]
    by (auto simp: regs)
qed

end
