(* ===== verification/Module_Declarations.thy ===== *)
theory Module_Declarations
  imports NS_Module Protocol_Tables
begin

text \<open>
  The functions \<^verbatim>\<open>NTKModule/mbedTLSInterface.cpp\<close> declares with C linkage, compared with the table
  of exports and with the methods of the protocol they call: a NewtonScript function of some
  number of arguments is a C function with one more, the receiver, and calls a method with that
  number.
\<close>

text \<open>The declarations, each with its number of parameters of type \<^verbatim>\<open>RefArg\<close>.\<close>

definition module_prototypes :: "(string \<times> nat) list" where
  "module_prototypes =
   [(''GetVersion'', 1), (''SSLListCiphersuites'', 1), (''EntropyNew'', 1), (''CtrDrbgNew'', 1),
    (''CtrDrbgSeed'', 4), (''PKNew'', 1), (''SSLNew'', 1), (''SSLCheckPending'', 2),
    (''SSLCloseNotify'', 2), (''SSLGetALPNProtocol'', 2), (''SSLGetBytesAvail'', 2),
    (''SSLGetCiphersuite'', 2), (''SSLGetMaxFragLen'', 2), (''SSLGetMaxOutRecordPayload'', 2),
    (''SSLGetPeerCert'', 2), (''SSLGetRecordExpansion'', 2), (''SSLGetSession'', 2),
    (''SSLGetVerifyResult'', 2), (''SSLGetVersion'', 2), (''SSLHandshake'', 2), (''SSLHandshakeStep'', 2),
    (''SSLRead'', 3), (''SSLRenegotiate'', 2), (''SSLSendAlertMessage'', 4), (''SSLSessionReset'', 2),
    (''SSLSetBIO'', 4), (''SSLSetClientTransportID'', 3), (''SSLSetDatagramPacking'', 3),
    (''SSLSetHostname'', 3), (''SSLSetHsAuthMode'', 3), (''SSLSetHsCAChain'', 4), (''SSLSetHsOwnCert'', 4),
    (''SSLSetHsPSK'', 3), (''SSLSetMTU'', 3), (''SSLSetSession'', 3), (''SSLSetTimerCb'', 4),
    (''SSLSetup'', 3), (''SSLWrite'', 3), (''SSLCacheNew'', 1), (''SSLCacheSetMaxEntries'', 3),
    (''SSLCacheSetTimeout'', 3), (''SSLConfigNew'', 1), (''SSLConfALPNProtocol'', 3),
    (''SSLConfARC4Support'', 3), (''SSLConfAuthMode'', 3), (''SSLConfCAChain'', 4),
    (''SSLConfCbcRecordSplitting'', 3), (''SSLConfCertProfile'', 3), (''SSLConfCertReqCAList'', 3),
    (''SSLConfCiphersuites'', 3), (''SSLConfCiphersuitesForVersion'', 5), (''SSLConfCurves'', 3),
    (''SSLConfDbg'', 3), (''SSLConfDHParamBin'', 4), (''SSLConfDHParamCtx'', 3),
    (''SSLConfDHMMinBitlen'', 3), (''SSLConfDTLSAntiReplay'', 3), (''SSLConfDTLSBadMACLimit'', 3),
    (''SSLConfDTLSCookies'', 4), (''SSLConfEncryptThenMac'', 3), (''SSLConfEndpoint'', 3),
    (''SSLConfExportKeysCb'', 3), (''SSLConfExtendedMasterSecret'', 3), (''SSLConfFallback'', 3),
    (''SSLConfHandshakeTimeout'', 4), (''SSLConfLegacyRenegotiation'', 3), (''SSLConfMaxFragLen'', 3),
    (''SSLConfMaxVersion'', 4), (''SSLConfMinVersion'', 4), (''SSLConfOwnCert'', 4), (''SSLConfPSK'', 4),
    (''SSLConfPSKCb'', 3), (''SSLConfRenegotiation'', 3), (''SSLConfRenegotiationEnforced'', 3),
    (''SSLConfRenegotiationPeriod'', 3), (''SSLConfRng'', 3), (''SSLConfSessionCache'', 3),
    (''SSLConfSessionTickets'', 3), (''SSLConfSessionTicketsCb'', 4), (''SSLConfSigHashes'', 3),
    (''SSLConfSNI'', 3), (''SSLConfTransport'', 3), (''SSLConfTruncatedHMAC'', 3), (''SSLConfVerify'', 3),
    (''SSLConfigDefaults'', 4), (''SSLSessionNew'', 1), (''X509CrlNew'', 1), (''X509CrlParse'', 3),
    (''X509CrtNew'', 1), (''X509CrtParse'', 3), (''X509CrtCount'', 2), (''X509CrtGetDER'', 3),
    (''X509CrtGetVersion'', 3), (''X509CrtGetSerialNumber'', 3), (''X509CrtGetIssuerName'', 3),
    (''X509CrtGetSubjectName'', 3), (''X509CrtGetIssueDate'', 3), (''X509CrtGetExpirationDate'', 3),
    (''X509CrtGetSignatureAlgorithm'', 3), (''Install'', 1), (''Remove'', 1), (''InstallConnectionEnd'', 1),
    (''RemoveConnectionEnd'', 1), (''GetRootCertificates'', 1), (''UnloadRootCertificates'', 1)]"

text \<open>The name of an export with its number of arguments.\<close>

definition export_arity :: "string \<times> nat \<times> (nsref list \<Rightarrow> nsref ns_op) \<Rightarrow> string \<times> nat" where
  "export_arity e = (case e of (n, k, f) \<Rightarrow> (n, k))"

definition decl_arity :: "decl \<Rightarrow> string \<times> nat" where
  "decl_arity d = (case d of (n, ps) \<Rightarrow> (n, length ps))"

definition with_receiver :: "string \<times> nat \<Rightarrow> string \<times> nat" where
  "with_receiver e = (case e of (n, k) \<Rightarrow> (n, Suc k))"

lemma arities:
  "export_arity (n, k, f) = (n, k)" "decl_arity (n, ps) = (n, length ps)" "with_receiver (n, k) = (n, Suc k)"
  by (simp_all add: export_arity_def decl_arity_def with_receiver_def)

lemma param_counts:
  "length [] = 0" "length [a] = 1" "length [a, b] = 2" "length [a, b, c] = 3" "length [a, b, c, d] = 4"
  "Suc 0 = 1" "Suc 1 = 2" "Suc 2 = 3" "Suc 3 = 4" "Suc 4 = 5"
  by simp_all

lemmas arity_eval = list.map append.simps arities param_counts

text \<open>The three parts of the table of exports are stretches of the declarations.\<close>

lemma prototypes_in_order:
  "module_prototypes =
     map (with_receiver \<circ> export_arity) (take 6 (exports_objects E)) @
     map (with_receiver \<circ> export_arity) (take 35 (exports_ssl E)) @
     map (with_receiver \<circ> export_arity) (exports_conf E) @
     map (with_receiver \<circ> export_arity) (drop 35 (exports_ssl E)) @
     map (with_receiver \<circ> export_arity) (drop 6 (exports_objects E)) @
     [(''GetRootCertificates'', 1), (''UnloadRootCertificates'', 1)]"
  by (simp add: module_prototypes_def exports_objects_def exports_ssl_def exports_conf_def arities)

lemma methods_in_order:
  "map decl_arity PMbedTLS_decls @ [(''Install'', 0), (''Remove'', 0)] =
     map export_arity (take 6 (exports_objects E)) @
     map export_arity (take 35 (exports_ssl E)) @
     map export_arity (exports_conf E) @
     map export_arity (drop 35 (exports_ssl E)) @
     map export_arity (take 13 (drop 6 (exports_objects E))) @
     map export_arity (drop 21 (exports_objects E)) @
     map export_arity (take 2 (drop 19 (exports_objects E)))"
  by (simp add: PMbedTLS_decls_def exports_objects_def exports_ssl_def exports_conf_def arities)

lemma mset_take_drop: "mset (map f (take n l)) + mset (map f (drop n l)) = mset (map f l)"
  by (metis append_take_drop_id map_append mset_append)

lemma mset_parts: "mset (map f (take 6 l)) + (mset (map f (take 13 (drop 6 l))) +
    (mset (map f (drop 21 l)) + mset (map f (take 2 (drop 19 l))))) = mset (map f l)"
proof -
  have "mset (map f (drop 6 l)) = mset (map f (take 13 (drop 6 l))) + mset (map f (drop 19 l))"
    using mset_take_drop [of f 13 "drop 6 l"] by simp
  moreover have "mset (map f (drop 19 l)) = mset (map f (take 2 (drop 19 l))) + mset (map f (drop 21 l))"
    using mset_take_drop [of f 2 "drop 19 l"] by simp
  ultimately show ?thesis
    using mset_take_drop [of f 6 l] by (simp add: ac_simps)
qed

text \<open>
  The declarations of the native module are the exported functions, each with its arguments
  and the receiver, and two more that are declared only; and the exported functions but
  \<^verbatim>\<open>Install\<close> and \<^verbatim>\<open>Remove\<close> are the methods of the interface, with their numbers of arguments.
\<close>

theorem exports_declared:
  "mset module_prototypes =
     mset (map (with_receiver \<circ> export_arity) (exports E)) +
     {#(''GetRootCertificates'', 1), (''UnloadRootCertificates'', 1)#} \<and>
   mset (map export_arity (exports E)) =
     mset (map decl_arity PMbedTLSInterface_decls) + {#(''Install'', 0), (''Remove'', 0)#}"
proof
  note exports_def [simp]
  show "mset module_prototypes =
     mset (map (with_receiver \<circ> export_arity) (exports E)) +
     {#(''GetRootCertificates'', 1), (''UnloadRootCertificates'', 1)#}"
    using mset_take_drop [of "with_receiver \<circ> export_arity" 6 "exports_objects E"]
      mset_take_drop [of "with_receiver \<circ> export_arity" 35 "exports_ssl E"]
    unfolding prototypes_in_order [of E] by (simp add: ac_simps del: o_apply)
  have "mset (map decl_arity PMbedTLSInterface_decls) = mset (map decl_arity PMbedTLS_decls)"
    using headers_match by (simp only: mset_map)
  moreover have "mset (map decl_arity PMbedTLS_decls) + {#(''Install'', 0), (''Remove'', 0)#} =
      mset (map decl_arity PMbedTLS_decls @ [(''Install'', 0), (''Remove'', 0)])"
    by simp
  ultimately show "mset (map export_arity (exports E)) =
     mset (map decl_arity PMbedTLSInterface_decls) + {#(''Install'', 0), (''Remove'', 0)#}"
    using mset_parts [of export_arity "exports_objects E", symmetric]
      mset_take_drop [of export_arity 35 "exports_ssl E", symmetric]
    unfolding methods_in_order [of E] by (simp add: ac_simps)
qed

end
