(* ===== verification/Runtime_Glue.thy ===== *)
theory Runtime_Glue
  imports Arm_Machine PF_Integer
begin

text \<open>
  The assembly of the runtime other than the divisions: \<^verbatim>\<open>NewtonRuntime.s\<close>, the routines the
  compiler calls for \<^verbatim>\<open>double\<close> and for 64 bit divisions, which the file calls untested and
  incomplete; \<^verbatim>\<open>NewtonPublicAPIs.s\<close>, the jumps into the ROM; and \<^verbatim>\<open>EinsteinGlue.s\<close>, the calls of
  the emulator. Run on the machine the routines
  for \<^verbatim>\<open>double\<close> neither read their operands nor give back the stack, and the 64 bit division
  gives its operands back; so a number of type \<^verbatim>\<open>long long\<close> is printed by \<^verbatim>\<open>printf.c\<close> as one
  character repeated. The library does not divide such numbers: \<^verbatim>\<open>MBEDTLS_NO_UDBL_DIVISION\<close> is
  defined in its configuration.
\<close>

section \<open>NewtonRuntime.s\<close>

definition aeabi_dyadic :: "dyadic \<Rightarrow> instr list" where
  "aeabi_dyadic d =
     [Stmdb [R0, R1, R2, R3], Lfmea2, Fdyadic d, Stfd F0, Ldmdb [R0, R1], Mov Always PC (Reg LR)]"

definition aeabi_dadd :: "instr list" where
  "aeabi_dadd = aeabi_dyadic Adfd"

definition aeabi_ddiv :: "instr list" where
  "aeabi_ddiv = aeabi_dyadic Dvfd"

definition aeabi_dmul :: "instr list" where
  "aeabi_dmul = aeabi_dyadic Mufd"

definition aeabi_drsub :: "instr list" where
  "aeabi_drsub = aeabi_dyadic Rsfd"

definition aeabi_dsub :: "instr list" where
  "aeabi_dsub = aeabi_dyadic Sufd"

definition aeabi_cdcmpeq :: "instr list" where
  "aeabi_cdcmpeq = [Stmdb [R0, R1, R2, R3], Lfmea2, Fcmp False, Mov Always PC (Reg LR)]"

definition aeabi_cdcmple :: "instr list" where
  "aeabi_cdcmple = [Fcmp False, Mov Always PC (Reg LR)]"

definition aeabi_cdrcmple :: "instr list" where
  "aeabi_cdrcmple = [Stmdb [R0, R1, R2, R3], Lfmea2, Fcmp True, Mov Always PC (Reg LR)]"

definition aeabi_dcmp :: "cond \<Rightarrow> instr list" where
  "aeabi_dcmp c =
     [Stmdb [R0, R1, R2, R3], Lfmea2, Fcmp False, Mov c R0 (Imm 1), Mov Always PC (Reg LR)]"

definition aeabi_dcmpeq :: "instr list" where
  "aeabi_dcmpeq = aeabi_dcmp IfEQ"

definition aeabi_dcmplt :: "instr list" where
  "aeabi_dcmplt = aeabi_dcmp IfLT"

definition aeabi_dcmple :: "instr list" where
  "aeabi_dcmple = aeabi_dcmp IfLE"

definition aeabi_dcmpge :: "instr list" where
  "aeabi_dcmpge = aeabi_dcmp IfGE"

definition aeabi_dcmpgt :: "instr list" where
  "aeabi_dcmpgt = aeabi_dcmp IfGT"

definition aeabi_dcmpun :: "instr list" where
  "aeabi_dcmpun = aeabi_dcmp IfVS"

definition aeabi_i2d :: "instr list" where
  "aeabi_i2d = [Fltd, Stfd F0, Ldmdb [R0, R1], Mov Always PC (Reg LR)]"

definition aeabi_ui2d :: "instr list" where
  "aeabi_ui2d = [Fltd, Stfd F0, Ldmdb [R0, R1], Mov Always PC (Reg LR)]"

definition aeabi_uldivmod :: "instr list" where
  "aeabi_uldivmod = [Mov Always PC (Reg LR)]"

definition aeabi_d2uiz :: "instr list" where
  "aeabi_d2uiz = [Mov Always PC (Reg LR)]"

definition aeabi_d2iz :: "instr list" where
  "aeabi_d2iz = [Mov Always PC (Reg LR)]"

definition snprintf_code :: "ulong \<Rightarrow> instr list" where
  "snprintf_code snprintf_c = [B snprintf_c]"

section \<open>EinsteinGlue.s\<close>

definition EinsteinLog_code :: "ulong \<Rightarrow> instr list" where
  "EinsteinLog_code strlen =
     [Stmdb [R0, LR], Bl strlen, Ldmia [R1, LR], Mov Always R0 (Imm 0x100), Add Always R0 R0 (Imm 0x01A),
      Mcr10, Mov Always PC (Reg LR)]"

definition EinsteinBreakInMonitor_code :: "instr list" where
  "EinsteinBreakInMonitor_code =
     [Mov Always R0 (Imm 0x100), Add Always R0 R0 (Imm 0x016), Mcr10, Mov Always PC (Reg LR)]"

section \<open>NewtonPublicAPIs.s\<close>

text \<open>The macros by which a symbol becomes an address of the jump table of the ROM; a destructor
  is told in \<^verbatim>\<open>r1\<close> whether to delete the object. The addresses are the arguments of the macros.\<close>

definition JT :: "ulong \<Rightarrow> 'f cell list" where
  "JT address = [Code (Ldrlit PC (- 4)), Data address]"

definition D0DtorGlue :: "ulong \<Rightarrow> 'f cell list" where
  "D0DtorGlue address = [Code (Mov Always R1 (Imm 1)), Code (Ldrlit PC (- 4)), Data address]"

definition D1DtorGlue :: "ulong \<Rightarrow> 'f cell list" where
  "D1DtorGlue address = [Code (Mov Always R1 (Imm 0)), Code (Ldrlit PC (- 4)), Data address]"

definition D2DtorGlue :: "ulong \<Rightarrow> 'f cell list" where
  "D2DtorGlue address = D1DtorGlue address"

definition StaticNew :: "ulong \<Rightarrow> 'f cell list" where
  "StaticNew constructor = [Code (Mov Always R0 (Imm 0)), Code (B constructor)]"

lemma JT_enters_rom:
  "code_at P (regs s PC) (JT address) \<Longrightarrow> run K P 1 s = Some (s\<lparr>regs := (regs s)(PC := address)\<rparr>)"
  by (simp add: JT_def step_def set_reg_def add.commute [of 4 "regs s PC"])

lemma destructors_enter_rom:
  "code_at P (regs s PC) (D0DtorGlue address) \<Longrightarrow>
   run K P 2 s = Some (s\<lparr>regs := (regs s)(R1 := 1, PC := address)\<rparr>)"
  "code_at P (regs s PC) (D1DtorGlue address) \<Longrightarrow>
   run K P 2 s = Some (s\<lparr>regs := (regs s)(R1 := 0, PC := address)\<rparr>)"
  by (simp_all add: D0DtorGlue_def D1DtorGlue_def machine fun_upd_twist add.assoc
      add.commute [of 8 "regs s PC"])

lemma StaticNew_constructs:
  "code_at P (regs s PC) (StaticNew constructor) \<Longrightarrow>
   run K P 2 s = Some (s\<lparr>regs := (regs s)(R0 := 0, PC := constructor)\<rparr>)"
  by (simp add: StaticNew_def machine fun_upd_twist)

section \<open>Double arithmetic\<close>

text \<open>For the examples: a call with two operands of which the first words are given, and a memory
  in which every word holds its address.\<close>

definition double_call :: "ulong \<Rightarrow> ulong \<Rightarrow> unit cpu" where
  "double_call x y =
     \<lparr>regs = \<lambda>r. case r of R0 \<Rightarrow> x | R1 \<Rightarrow> 0 | R2 \<Rightarrow> y | R3 \<Rightarrow> 0 | R12 \<Rightarrow> 0 | SP \<Rightarrow> 0x800 | LR \<Rightarrow> 0x300
        | PC \<Rightarrow> 0x100,
      fregs = \<lambda>_. (),
      cpsr = \<lparr>flag_n = False, flag_z = False, flag_c = False, flag_v = False\<rparr>,
      ram = id\<rparr>"

text \<open>
  C32. Whatever the operation and whatever the coprocessor computes, the routines for \<^verbatim>\<open>double\<close>
  return the two words that lie 48 bytes below the stack of the caller, a place nothing was
  stored in, and leave the stack pointer there: \<^verbatim>\<open>lfmea\<close> and \<^verbatim>\<open>ldmea\<close> go down where they
  should go up.
\<close>

theorem double_arithmetic_ignores_operands:
  assumes "code_at P (regs s PC) (map Code (aeabi_dyadic d))" "aligned (regs s SP)"
  shows "\<exists>s'. run K P 6 s = Some s' \<and> regs s' PC = regs s LR \<and> regs s' SP = regs s SP - 48 \<and>
    regs s' R0 = ram s (regs s SP - 48) \<and> regs s' R1 = ram s (regs s SP - 44)"
proof -
  obtain b where b: "regs s SP = b + 48"
    by (metis diff_add_cancel)
  have offsets: "aligned (48 :: ulong)" "aligned (32 :: ulong)"
    by (simp_all add: aligned_def)
  then have "aligned b"
    using assms(2) by (simp add: b aligned_add)
  with assms(1) show ?thesis
    by (simp add: machine b aeabi_dyadic_def split_beta add.assoc offsets add.commute [of 4 b])
qed


theorem double_arithmetic_ignores_operands_witness:
  "\<exists>s'. run idle_coprocessors (memory_image [(0x100, map Code aeabi_dadd)]) 6 (double_call 0x3FF00000 0x40000000) =
       Some s' \<and> regs s' PC = 0x300 \<and> regs s' SP = 0x7D0 \<and> regs s' R0 = 0x7D0 \<and> regs s' R1 = 0x7D4"
proof -
  let ?s = "double_call 0x3FF00000 0x40000000"
  have "code_at (memory_image [(0x100, map Code (aeabi_dyadic Adfd))]) (regs ?s PC) (map Code (aeabi_dyadic Adfd))"
    by (simp add: double_call_def aeabi_dyadic_def aligned_def)
  moreover have "aligned (regs ?s SP)"
    by (simp add: double_call_def aligned_def)
  ultimately show ?thesis
    using double_arithmetic_ignores_operands [of _ ?s Adfd idle_coprocessors]
    by (simp add: double_call_def aeabi_dadd_def)
qed

section \<open>Comparisons\<close>

text \<open>The routines that should give 1 or 0 give 1 or the first word of the first operand, and
  leave the stack pointer 40 bytes lower.\<close>

lemma comparison_leaves_operand:
  assumes "code_at P (regs s PC) (map Code (aeabi_dcmp c))" "aligned (regs s SP)"
  shows "\<exists>s' f. run K P 5 s = Some s' \<and> regs s' PC = regs s LR \<and> regs s' SP = regs s SP - 40 \<and>
    regs s' R0 = (if cond_holds c f then 1 else regs s R0)"
proof -
  obtain b where b: "regs s SP = b + 40"
    by (metis diff_add_cancel)
  have "aligned (40 :: ulong)"
    by (simp add: aligned_def)
  then have "aligned b" "aligned (b + 24)"
    using assms(2) by (simp_all add: b aligned_add)
  with assms(1) show ?thesis
    by (simp add: machine b aeabi_dcmp_def add.assoc) blast
qed

text \<open>The conversions of integers store over the two words on top of the caller's stack and
  return the two words below it.\<close>

lemma int_to_double_overwrites_stack:
  assumes "code_at P (regs s PC) (map Code aeabi_i2d)" "aligned (regs s SP)"
  shows "\<exists>s'. run K P 4 s = Some s' \<and> regs s' PC = regs s LR \<and> regs s' SP = regs s SP - 8 \<and>
    regs s' R0 = ram s (regs s SP - 8) \<and> regs s' R1 = ram s (regs s SP - 4) \<and>
    ram s' = (ram s)(regs s SP := fst (fpa_double K (fpa_float K (regs s R0))),
                     regs s SP + 4 := snd (fpa_double K (fpa_float K (regs s R0))))"
proof -
  obtain b where b: "regs s SP = b + 8"
    by (metis diff_add_cancel)
  have "aligned b"
    using assms(2) by (simp add: b aligned_add)
  with assms(1) show ?thesis
    by (simp add: machine b aeabi_i2d_def split_beta add.assoc add.commute [of 4 b])
qed

section \<open>64 bit division\<close>

text \<open>What the registers hold after \<^verbatim>\<open>__aeabi_uldivmod\<close> is what they held before: the
  quotient in \<^verbatim>\<open>r0\<close> and \<^verbatim>\<open>r1\<close> is the dividend, the remainder in \<^verbatim>\<open>r2\<close> and \<^verbatim>\<open>r3\<close> is the divisor.\<close>

lemma uldivmod_returns_operands:
  "code_at P (regs s PC) (map Code aeabi_uldivmod) \<Longrightarrow>
   run K P 1 s = Some (s\<lparr>regs := (regs s)(PC := regs s LR)\<rparr>)"
  by (simp add: aeabi_uldivmod_def step_def set_reg_def get_reg_def)

definition long_pair :: "ulong \<Rightarrow> ulong \<Rightarrow> 64 word" where
  "long_pair high low = word_cat high low"

text \<open>The division of \<^verbatim>\<open>unsigned long long\<close> by that routine, on a machine that only holds it: the
  processor is big-endian, so the first register of a pair has the high word.\<close>

definition uldivmod :: "64 word \<Rightarrow> 64 word \<Rightarrow> (64 word \<times> 64 word) option" where
  "uldivmod v w =
     (let args = (\<lambda>r. case r of R0 \<Rightarrow> ucast (drop_bit 32 v) | R1 \<Rightarrow> ucast v | R2 \<Rightarrow> ucast (drop_bit 32 w)
                    | R3 \<Rightarrow> ucast w | PC \<Rightarrow> 0x100 | LR \<Rightarrow> 0x300 | _ \<Rightarrow> 0);
          s = (double_call 0 0)\<lparr>regs := args\<rparr>
      in map_option (\<lambda>s'. (long_pair (regs s' R0) (regs s' R1), long_pair (regs s' R2) (regs s' R3)))
           (run idle_coprocessors (memory_image [(0x100, map Code aeabi_uldivmod)]) 1 s))"

lemma long_pair_split: "long_pair (ucast (drop_bit 32 v)) (ucast v) = v"
  unfolding long_pair_def by (rule bit_word_eqI) (auto simp: bit_simps not_less)

lemma uldivmod_operands: "uldivmod v w = Some (v, w)"
  by (simp add: uldivmod_def Let_def aeabi_uldivmod_def step_def set_reg_def get_reg_def double_call_def
      aligned_def long_pair_split)

text \<open>The loop of \<^verbatim>\<open>_ntoa_long_long\<close> with the division as a parameter; with the division of C it
  is \<open>ntoa_digits\<close>.\<close>

function ntoa_digits_by ::
    "('a :: len word \<Rightarrow> 'a word \<Rightarrow> 'a word \<times> 'a word) \<Rightarrow> 'a word \<Rightarrow> 'a word \<Rightarrow> ulong \<Rightarrow> string \<Rightarrow> string" where
  "ntoa_digits_by by_base v base flags buf =
     (let digit = unat (snd (by_base v base)) mod 256;
          buf = buf @ [digit_char digit (has flags FLAGS_UPPERCASE)];
          v = fst (by_base v base)
      in if v \<noteq> 0 \<and> length buf < PRINTF_NTOA_BUFFER_SIZE
         then ntoa_digits_by by_base v base flags buf else buf)"
  by pat_completeness auto
termination
  by (relation "measure (\<lambda>(by_base, v, base, flags, buf). PRINTF_NTOA_BUFFER_SIZE - length buf)") auto

declare ntoa_digits_by.simps [simp del]

lemma ntoa_digits_by_division:
  "ntoa_digits_by (\<lambda>v w. (v div w, v mod w)) v base flags buf = ntoa_digits v base flags buf"
proof (induction v base flags buf rule: ntoa_digits.induct)
  case (1 v base flags buf)
  then show ?case
    using ntoa_digits_by.simps [of "\<lambda>v w. (v div w, v mod w)" v base flags buf]
      ntoa_digits.simps [of v base flags buf]
    by (simp add: Let_def)
qed

lemma digits_repeated:
  assumes "v \<noteq> 0" "length buf < PRINTF_NTOA_BUFFER_SIZE"
  shows "ntoa_digits_by (\<lambda>v w. the (uldivmod v w)) v base flags buf =
    buf @ replicate (PRINTF_NTOA_BUFFER_SIZE - length buf)
      (digit_char (unat base mod 256) (has flags FLAGS_UPPERCASE))"
  using assms(2)
proof (induction "PRINTF_NTOA_BUFFER_SIZE - length buf" arbitrary: buf)
  case (Suc n)
  let ?c = "digit_char (unat base mod 256) (has flags FLAGS_UPPERCASE)"
  have IH: "ntoa_digits_by (\<lambda>v w. the (uldivmod v w)) v base flags (buf @ [?c]) =
      (buf @ [?c]) @ replicate (PRINTF_NTOA_BUFFER_SIZE - length (buf @ [?c])) ?c"
    if "length (buf @ [?c]) < PRINTF_NTOA_BUFFER_SIZE"
    using Suc.hyps(1) [of "buf @ [?c]"] Suc.hyps(2) that by simp
  have "PRINTF_NTOA_BUFFER_SIZE - length buf = Suc (PRINTF_NTOA_BUFFER_SIZE - length (buf @ [?c]))"
    using Suc.hyps(2) Suc.prems by simp
  then show ?case
    using IH assms(1) ntoa_digits_by.simps [of "\<lambda>v w. the (uldivmod v w)" v base flags buf]
    by (auto simp: uldivmod_operands Let_def not_less)
qed simp

text \<open>
  C33. With the division the runtime gives the compiler, the loop of \<^verbatim>\<open>_ntoa_long_long\<close> writes
  the same character until the array of 32 is full, for every number but 0: the digit that the
  base itself would be, which is \<^verbatim>\<open>a\<close> for 10.
\<close>

theorem long_long_digits_repeated:
  assumes "v \<noteq> 0"
  shows "ntoa_digits_by (\<lambda>v w. the (uldivmod v w)) v base flags [] =
    replicate PRINTF_NTOA_BUFFER_SIZE (digit_char (unat base mod 256) (has flags FLAGS_UPPERCASE))"
  using digits_repeated [OF assms, of "[]"] by (simp add: PRINTF_NTOA_BUFFER_SIZE_def)

theorem long_long_digits_repeated_witness:
  "ntoa_digits_by (\<lambda>v w. the (uldivmod v w)) 7 10 0 [] = replicate 32 (CHR ''a'')"
  using long_long_digits_repeated [of 7 10 0]
  by (simp add: PRINTF_NTOA_BUFFER_SIZE_def digit_char_def has_def char_of_eq_iff)

section \<open>Calls of the emulator\<close>

text \<open>\<^verbatim>\<open>EinsteinLog\<close> gives the emulator the number of its function and the text, whatever
  \<^verbatim>\<open>strlen\<close> returns, if \<^verbatim>\<open>strlen\<close> leaves the stack as it is.\<close>

lemma EinsteinLog_calls_emulator:
  assumes "code_at P (regs s PC) (map Code (EinsteinLog_code strlen))" "aligned (regs s SP)"
    "P strlen = Some (Routine f)"
    "\<And>t. regs (f t) SP = regs t SP \<and> regs (f t) PC = regs t LR \<and> ram (f t) = ram t"
  shows "\<exists>s'. run K P 6 s = Some s' \<and> regs s' R0 = 0x11A \<and> regs s' R1 = regs s R0 \<and>
    regs s' LR = regs s LR \<and> regs s' SP = regs s SP \<and> P (regs s' PC) = Some (Code Mcr10)"
proof -
  obtain b where b: "regs s SP = b + 8"
    by (metis diff_add_cancel)
  have "aligned b"
    using assms(2) by (simp add: b aligned_add)
  with assms(1,3) show ?thesis
    by (simp add: machine b EinsteinLog_code_def assms(4) add.assoc)
qed

end
