(* ===== verification/Division_Code.thy ===== *)
theory Division_Code
  imports Arm_Machine Runtime_Library
begin

text \<open>
  The instructions of \<^verbatim>\<open>__udivsi3\<close>, \<^verbatim>\<open>__aeabi_uidivmod\<close> and \<^verbatim>\<open>__umodsi3\<close> on the machine, and the
  proof that running them computes what \<open>Runtime_Library\<close> says on the variables the code keeps in
  registers (\<^verbatim>\<open>dividend\<close> in \<^verbatim>\<open>r0\<close>, \<^verbatim>\<open>divisor\<close> in \<^verbatim>\<open>r1\<close>, \<^verbatim>\<open>result\<close> or \<^verbatim>\<open>overdone\<close> in \<^verbatim>\<open>r2\<close>,
  \<^verbatim>\<open>curbit\<close> in \<^verbatim>\<open>r3\<close>): each block of instructions is one of its functions.
\<close>

section \<open>Code\<close>

text \<open>\<^verbatim>\<open>Loop1\<close> and \<^verbatim>\<open>Lbignum\<close>.\<close>

definition align_code :: "nat \<Rightarrow> ulong \<Rightarrow> ulong \<Rightarrow> instr list" where
  "align_code n limit loop =
     [Cmp Always R1 (Imm limit),
      Cmp IfCC R1 (Reg R0),
      Mov IfCC R1 (Lsl R1 n),
      Mov IfCC R3 (Lsl R3 n),
      Bif IfCC loop]"

text \<open>One of the four steps of \<^verbatim>\<open>Loop3\<close>.\<close>

definition subtract_code :: "operand \<Rightarrow> operand \<Rightarrow> instr list" where
  "subtract_code x b = [Cmp Always R0 x, Sub IfCS R0 R0 x, Orr IfCS R2 R2 b]"

definition div_pass_code :: "instr list" where
  "div_pass_code =
     subtract_code (Reg R1) (Reg R3) @ subtract_code (Lsr R1 1) (Lsr R3 1) @
     subtract_code (Lsr R1 2) (Lsr R3 2) @ subtract_code (Lsr R1 3) (Lsr R3 3)"

definition next_pass_code :: "ulong \<Rightarrow> instr list" where
  "next_pass_code loop =
     [Cmp Always R0 (Imm 0), Movs IfNE R3 (Lsr R3 4), Mov IfNE R1 (Lsr R1 4), Bif IfNE loop]"

definition udivsi3_code :: "ulong \<Rightarrow> ulong \<Rightarrow> instr list" where
  "udivsi3_code a throw =
     [Cmp Always R1 (Imm 0),
      Bif IfEQ (a + 136),
      Mov Always R3 (Imm 1),
      Mov Always R2 (Imm 0),
      Cmp Always R0 (Reg R1),
      Bif IfCC (a + 128)] @
     align_code 4 0x10000000 (a + 24) @
     align_code 1 0x80000000 (a + 44) @
     div_pass_code @
     next_pass_code (a + 64) @
     [Mov Always R0 (Reg R2),
      Mov Always PC (Reg LR),
      Stmdb [LR],
      Bl throw,
      Mov Always R0 (Imm 0),
      Ldmia [PC]]"

text \<open>\<^verbatim>\<open>Loop3\<close> of \<^verbatim>\<open>__umodsi3\<close>: the subtractions are recorded by the bit rotated to the right.\<close>

definition record_code :: "nat \<Rightarrow> instr list" where
  "record_code n = subtract_code (Lsr R1 n) (Ror R3 n)"

definition mod_pass_code :: "instr list" where
  "mod_pass_code =
     [Mov Always R2 (Imm 0), Cmp Always R0 (Reg R1), Sub IfCS R0 R0 (Reg R1)] @
     record_code 1 @ record_code 2 @ record_code 3 @ [Mov Always R12 (Reg R3)]"

definition restore_code :: "nat \<Rightarrow> instr list" where
  "restore_code n = [Tst R2 (Ror R12 n), Add IfNE R0 R0 (Lsr R1 n)]"

definition umodsi3_code :: "ulong \<Rightarrow> ulong \<Rightarrow> instr list" where
  "umodsi3_code a throw =
     [Cmp Always R1 (Imm 0),
      Bif IfEQ (a + 164),
      Mov Always R3 (Imm 1),
      Cmp Always R0 (Reg R1),
      Mov IfCC PC (Reg LR)] @
     align_code 4 0x10000000 (a + 20) @
     align_code 1 0x80000000 (a + 40) @
     mod_pass_code @
     next_pass_code (a + 60) @
     [Ands R2 R2 (Imm 0xe0000000), Mov IfEQ PC (Reg LR)] @
     restore_code 3 @ restore_code 2 @ restore_code 1 @
     [Mov Always PC (Reg LR),
      Stmdb [LR],
      Bl throw,
      Mov Always R0 (Imm 0),
      Ldmia [PC]]"

definition uidivmod_code :: "ulong \<Rightarrow> instr list" where
  "uidivmod_code uidiv =
     [Stmdb [R0, R1, R12, LR],
      Bl uidiv,
      Ldmia [R1, R2, R12, LR],
      Mul R3 R0 R2,
      Sub Always R1 R1 (Reg R3),
      Mov Always PC (Reg LR)]"

section \<open>Executions\<close>

definition reaches :: "'f coprocessors \<Rightarrow> 'f prog \<Rightarrow> 'f cpu \<Rightarrow> 'f cpu \<Rightarrow> bool" where
  "reaches K P s t \<longleftrightarrow> (\<exists>n. run K P n s = Some t)"

lemma reaches_run: "run K P n s = Some t \<Longrightarrow> reaches K P s t"
  by (auto simp: reaches_def)

lemma reaches_trans [trans]: "reaches K P s t \<Longrightarrow> reaches K P t u \<Longrightarrow> reaches K P s u"
  unfolding reaches_def by (metis run_add bind.bind_lunit)

text \<open>The state with the program counter, the four registers of the division and the flags
  given.\<close>

definition dividing_at ::
    "'f cpu \<Rightarrow> ulong \<Rightarrow> ulong \<Rightarrow> ulong \<Rightarrow> ulong \<Rightarrow> ulong \<Rightarrow> flags \<Rightarrow> 'f cpu" where
  "dividing_at s a dividend divisor result curbit f =
     s\<lparr>regs := (regs s)(R0 := dividend, R1 := divisor, R2 := result, R3 := curbit, PC := a),
       cpsr := f\<rparr>"

lemma dividing_at_simps [simp]:
  "regs (dividing_at s a d v q c f) R0 = d" "regs (dividing_at s a d v q c f) R1 = v"
  "regs (dividing_at s a d v q c f) R2 = q" "regs (dividing_at s a d v q c f) R3 = c"
  "regs (dividing_at s a d v q c f) PC = a" "regs (dividing_at s a d v q c f) R12 = regs s R12"
  "regs (dividing_at s a d v q c f) LR = regs s LR" "regs (dividing_at s a d v q c f) SP = regs s SP"
  "cpsr (dividing_at s a d v q c f) = f" "ram (dividing_at s a d v q c f) = ram s"
  by (simp_all add: dividing_at_def)

lemma dividing_at_set [simp]:
  "set_reg R0 w (dividing_at s a d v q c f) = dividing_at s (a + 4) w v q c f"
  "set_reg R1 w (dividing_at s a d v q c f) = dividing_at s (a + 4) d w q c f"
  "set_reg R2 w (dividing_at s a d v q c f) = dividing_at s (a + 4) d v w c f"
  "set_reg R3 w (dividing_at s a d v q c f) = dividing_at s (a + 4) d v q w f"
  "set_reg PC w (dividing_at s a d v q c f) = dividing_at s w d v q c f"
  "advance (dividing_at s a d v q c f) = dividing_at s (a + 4) d v q c f"
  "(dividing_at s a d v q c f)\<lparr>cpsr := g\<rparr> = dividing_at s a d v q c g"
  by (simp_all add: dividing_at_def set_reg_def advance_def fun_upd_twist)

lemma dividing_at_self:
  "dividing_at s (regs s PC) (regs s R0) (regs s R1) (regs s R2) (regs s R3) (cpsr s) = s"
  by (simp add: dividing_at_def)

lemma code_at_append:
  "code_at P a (xs @ ys) \<longleftrightarrow> code_at P a xs \<and> code_at P (a + 4 * of_nat (length xs)) ys"
  by (induction xs arbitrary: a) (simp_all add: algebra_simps)

lemmas division_step = run_numeral step_def get_reg_def logic_flags_def compare_def Let_def

subsection \<open>The blocks\<close>

lemma align_code_once:
  assumes "code_at P a (map Code (align_code n limit a))"
  shows "\<exists>f'. run K P 5 (dividing_at s a d v q c f) =
    Some (if v < limit \<and> v < d then dividing_at s a d (push_bit n v) q (push_bit n c) f'
          else dividing_at s (a + 20) d v q c f')"
  using assms
  by (cases "v < limit"; cases "v < d")
    (auto simp: align_code_def division_step add.assoc not_le not_less)

text \<open>The loop is \<open>align\<close>.\<close>

lemma align_code_loops:
  "align n limit d v c = Some r \<Longrightarrow> \<forall>f. code_at P a (map Code (align_code n limit a)) \<longrightarrow>
     (\<exists>f'. reaches K P (dividing_at s a d v q c f) (dividing_at s (a + 20) d (fst r) q (snd r) f'))"
proof (erule align.raw_induct [rotated, where P = "\<lambda>n limit d v c r. \<forall>f.
      code_at P a (map Code (align_code n limit a)) \<longrightarrow>
      (\<exists>f'. reaches K P (dividing_at s a d v q c f) (dividing_at s (a + 20) d (fst r) q (snd r) f'))"],
    intro allI impI, goal_cases)
  case (1 rec n limit d v c r f)
  obtain g where once: "run K P 5 (dividing_at s a d v q c f) =
      Some (if v < limit \<and> v < d then dividing_at s a d (push_bit n v) q (push_bit n c) g
            else dividing_at s (a + 20) d v q c g)"
    using align_code_once [OF 1(3)] by blast
  show ?case
  proof (cases "v < limit \<and> v < d")
    case True
    then obtain f' where "reaches K P (dividing_at s a d (push_bit n v) q (push_bit n c) g)
        (dividing_at s (a + 20) d (fst r) q (snd r) f')"
      using 1(1) [of n limit d "push_bit n v" "push_bit n c" r] 1(2,3) by auto
    with True once show ?thesis
      by (auto intro: reaches_trans [OF reaches_run])
  next
    case False
    with 1(2) have "r = (v, c)" by auto
    moreover have "reaches K P (dividing_at s a d v q c f) (dividing_at s (a + 20) d v q c g)"
      using once False by (intro reaches_run [of _ _ 5]) auto
    ultimately show ?thesis by auto
  qed
qed

lemma align_code_runs:
  assumes "align n limit d v c = Some (v', c')" "code_at P a (map Code (align_code n limit a))"
  shows "\<exists>f'. reaches K P (dividing_at s a d v q c f) (dividing_at s (a + 20) d v' q c' f')"
  using align_code_loops [OF assms(1)] assms(2) by fastforce

lemma subtract_code_runs:
  assumes "code_at P a (map Code (subtract_code x b))" "try_subtract w e (d, q) = (d', q')"
    "\<And>a d q f. get_operand (dividing_at s a d v q c f) x = w"
    "\<And>a d q f. get_operand (dividing_at s a d v q c f) b = e"
  shows "\<exists>f'. reaches K P (dividing_at s a d v q c f) (dividing_at s (a + 12) d' v q' c f')"
proof -
  have "\<exists>f'. run K P 3 (dividing_at s a d v q c f) = Some (dividing_at s (a + 12) d' v q' c f')"
    using assms
    by (cases "w \<le> d")
      (auto simp: subtract_code_def division_step add.assoc try_subtract_def)
  then show ?thesis by (blast intro: reaches_run)
qed

lemma div_pass_runs:
  assumes "code_at P a (map Code div_pass_code)" "div_pass d v q c = (d', q')"
  shows "\<exists>f'. reaches K P (dividing_at s a d v q c f) (dividing_at s (a + 48) d' v q' c f')"
proof -
  have blocks: "code_at P a (map Code (subtract_code (Reg R1) (Reg R3)))"
      "code_at P (a + 12) (map Code (subtract_code (Lsr R1 1) (Lsr R3 1)))"
      "code_at P (a + 24) (map Code (subtract_code (Lsr R1 2) (Lsr R3 2)))"
      "code_at P (a + 36) (map Code (subtract_code (Lsr R1 3) (Lsr R3 3)))"
    using assms(1) by (simp_all add: div_pass_code_def subtract_code_def add.assoc)
  obtain d1 q1 where 1: "try_subtract v c (d, q) = (d1, q1)" by fastforce
  obtain d2 q2 where 2: "try_subtract (drop_bit 1 v) (drop_bit 1 c) (d1, q1) = (d2, q2)" by fastforce
  obtain d3 q3 where 3: "try_subtract (drop_bit 2 v) (drop_bit 2 c) (d2, q2) = (d3, q3)" by fastforce
  have 4: "try_subtract (drop_bit 3 v) (drop_bit 3 c) (d3, q3) = (d', q')"
    using assms(2) 1 2 3 by (simp add: div_pass_def)
  note runs = subtract_code_runs [OF blocks(1) 1] subtract_code_runs [OF blocks(2) 2]
    subtract_code_runs [OF blocks(3) 3] subtract_code_runs [OF blocks(4) 4]
  obtain f1 where r1: "reaches K P (dividing_at s a d v q c f) (dividing_at s (a + 12) d1 v q1 c f1)"
    using runs(1) [of s v c K f] by (auto simp: get_reg_def)
  obtain f2 where r2: "reaches K P (dividing_at s (a + 12) d1 v q1 c f1) (dividing_at s (a + 24) d2 v q2 c f2)"
    using runs(2) [of s v c K f1] by (auto simp: get_reg_def add.assoc)
  obtain f3 where r3: "reaches K P (dividing_at s (a + 24) d2 v q2 c f2) (dividing_at s (a + 36) d3 v q3 c f3)"
    using runs(3) [of s v c K f2] by (auto simp: get_reg_def add.assoc)
  obtain f4 where r4: "reaches K P (dividing_at s (a + 36) d3 v q3 c f3) (dividing_at s (a + 48) d' v q' c f4)"
    using runs(4) [of s v c K f3] by (auto simp: get_reg_def add.assoc)
  show ?thesis
    using reaches_trans [OF r1 reaches_trans [OF r2 reaches_trans [OF r3 r4]]] by blast
qed

text \<open>The end of a turn: back to the loop, or on with the rest.\<close>

lemma next_pass_once:
  assumes "code_at P a (map Code (next_pass_code loop))"
  shows "\<exists>c' f'. run K P 4 (dividing_at s a d v q c f) =
    Some (if d \<noteq> 0 \<and> drop_bit 4 c \<noteq> 0 then dividing_at s loop d (drop_bit 4 v) q (drop_bit 4 c) f'
          else dividing_at s (a + 16) d v q c' f')"
  using assms
  by (cases "d = 0"; cases "drop_bit 4 c = 0")
    (auto simp: next_pass_code_def division_step add.assoc)

lemma div_loop_runs:
  "div_loop d v q c = Some r \<Longrightarrow> \<forall>f.
     code_at P a (map Code (div_pass_code @ next_pass_code a)) \<longrightarrow>
     (\<exists>d' v' c' f'. reaches K P (dividing_at s a d v q c f) (dividing_at s (a + 64) d' v' r c' f'))"
proof (erule div_loop.raw_induct [rotated, where P = "\<lambda>d v q c r. \<forall>f.
     code_at P a (map Code (div_pass_code @ next_pass_code a)) \<longrightarrow>
     (\<exists>d' v' c' f'. reaches K P (dividing_at s a d v q c f) (dividing_at s (a + 64) d' v' r c' f'))"],
    intro allI impI, goal_cases)
  case (1 rec d v q c r f)
  obtain d1 q1 where pass: "div_pass d v q c = (d1, q1)" by fastforce
  have code: "code_at P a (map Code div_pass_code)" "code_at P (a + 48) (map Code (next_pass_code a))"
    using 1(3) by (simp_all add: code_at_append div_pass_code_def subtract_code_def add.assoc)
  obtain f1 where first: "reaches K P (dividing_at s a d v q c f) (dividing_at s (a + 48) d1 v q1 c f1)"
    using div_pass_runs [OF code(1) pass] by blast
  obtain c' f2 where last: "run K P 4 (dividing_at s (a + 48) d1 v q1 c f1) =
      Some (if d1 \<noteq> 0 \<and> drop_bit 4 c \<noteq> 0 then dividing_at s a d1 (drop_bit 4 v) q1 (drop_bit 4 c) f2
            else dividing_at s (a + 48 + 16) d1 v q1 c' f2)"
    using next_pass_once [OF code(2)] by blast
  show ?case
  proof (cases "d1 \<noteq> 0 \<and> drop_bit 4 c \<noteq> 0")
    case True
    then have "\<exists>d' v' c' f'. reaches K P (dividing_at s a d1 (drop_bit 4 v) q1 (drop_bit 4 c) f2)
        (dividing_at s (a + 64) d' v' r c' f')"
      using 1(1) [of d1 "drop_bit 4 v" q1 "drop_bit 4 c" r] 1(2,3) pass by auto
    moreover have "reaches K P (dividing_at s (a + 48) d1 v q1 c f1)
        (dividing_at s a d1 (drop_bit 4 v) q1 (drop_bit 4 c) f2)"
      using last True by (intro reaches_run [of _ _ 4]) auto
    ultimately show ?thesis
      using first by (meson reaches_trans)
  next
    case False
    with 1(2) pass have "q1 = r" by auto
    then have "reaches K P (dividing_at s (a + 48) d1 v q1 c f1) (dividing_at s (a + 64) d1 v r c' f2)"
      using last False by (intro reaches_run [of _ _ 4]) (auto simp: add.assoc)
    then show ?thesis
      using first by (meson reaches_trans)
  qed
qed

section \<open>The unsigned division\<close>

lemma udivsi3_blocks:
  assumes "code_at P a (map Code (udivsi3_code a throw))"
  shows "code_at P (a + 24) (map Code (align_code 4 0x10000000 (a + 24)))"
    "code_at P (a + 44) (map Code (align_code 1 0x80000000 (a + 44)))"
    "code_at P (a + 64) (map Code (div_pass_code @ next_pass_code (a + 64)))"
    "code_at P (a + 128) [Code (Mov Always R0 (Reg R2)), Code (Mov Always PC (Reg LR)), Code (Stmdb [LR]),
       Code (Bl throw)]"
  using assms
  by (simp_all add: udivsi3_code_def code_at_append align_code_def div_pass_code_def subtract_code_def
      next_pass_code_def add.assoc)

lemma udivsi3_entry:
  assumes "code_at P a (map Code (udivsi3_code a throw))" "v \<noteq> 0"
  shows "\<exists>f'. run K P 6 (dividing_at s a d v q c f) =
    Some (dividing_at s (if d < v then a + 128 else a + 24) d v 0 1 f')"
  using assms
  by (cases "d < v") (auto simp: udivsi3_code_def division_step add.assoc not_le)

lemma udivsi3_exit:
  assumes "code_at P a (map Code (udivsi3_code a throw))"
  shows "run K P 2 (dividing_at s (a + 128) d v q c f) = Some (dividing_at s (regs s LR) q v q c f)"
  using udivsi3_blocks(4) [OF assms]
  by (simp add: division_step add.assoc)

text \<open>A divisor of 0: the routine that throws is called, with the return address on the stack.\<close>

lemma udivsi3_throws:
  assumes "code_at P a (map Code (udivsi3_code a throw))" "aligned (regs s SP)"
  shows "\<exists>s'. run K P 4 (dividing_at s a d 0 q c f) = Some s' \<and> regs s' PC = throw \<and>
    ram s' (regs s SP - 4) = regs s LR"
  using assms
  by (auto simp: udivsi3_code_def align_code_def div_pass_code_def subtract_code_def next_pass_code_def
      machine compare_def add.assoc dividing_at_def)

lemma udivsi3_code_runs:
  assumes code: "code_at P a (map Code (udivsi3_code a throw))" and v: "v \<noteq> 0"
  shows "\<exists>v' q' c' f'. reaches K P (dividing_at s a d v q c f) (dividing_at s (regs s LR) (d div v) v' q' c' f')"
proof -
  obtain f1 where entry: "run K P 6 (dividing_at s a d v q c f) =
      Some (dividing_at s (if d < v then a + 128 else a + 24) d v 0 1 f1)"
    using udivsi3_entry [OF code v] by blast
  have "\<exists>d' v' c' f'. reaches K P (dividing_at s a d v q c f) (dividing_at s (a + 128) d' v' (d div v) c' f')"
  proof (cases "d < v")
    case True
    then have "d div v = 0"
      by (simp add: word_less_nat_alt word_unat_eq_iff unat_div)
    with True entry have "reaches K P (dividing_at s a d v q c f) (dividing_at s (a + 128) d v (d div v) 1 f1)"
      by (intro reaches_run [of _ _ 6]) simp
    then show ?thesis by blast
  next
    case False
    have "udivsi3 d v = Some (Inr (d div v))"
      using v by (rule udivsi3_quotient)
    with False v obtain v1 c1 v2 c2 where loops:
        "align 4 0x10000000 d v 1 = Some (v1, c1)" "align 1 0x80000000 d v1 c1 = Some (v2, c2)"
        "div_loop d v2 0 c2 = Some (d div v)"
      by (auto simp: udivsi3_def align_divisor_def split: bind_splits)
    have r1: "reaches K P (dividing_at s a d v q c f) (dividing_at s (a + 24) d v 0 1 f1)"
      using entry False by (intro reaches_run [of _ _ 6]) simp
    obtain f2 where r2: "reaches K P (dividing_at s (a + 24) d v 0 1 f1) (dividing_at s (a + 44) d v1 0 c1 f2)"
      using align_code_runs [OF loops(1) udivsi3_blocks(1) [OF code]] by (fastforce simp: add.assoc)
    obtain f3 where r3: "reaches K P (dividing_at s (a + 44) d v1 0 c1 f2) (dividing_at s (a + 64) d v2 0 c2 f3)"
      using align_code_runs [OF loops(2) udivsi3_blocks(2) [OF code]] by (fastforce simp: add.assoc)
    obtain d' v' c' f' where r4: "reaches K P (dividing_at s (a + 64) d v2 0 c2 f3)
        (dividing_at s (a + 128) d' v' (d div v) c' f')"
      using div_loop_runs [OF loops(3)] udivsi3_blocks(3) [OF code] by (fastforce simp: add.assoc)
    show ?thesis
      using reaches_trans [OF r1 reaches_trans [OF r2 reaches_trans [OF r3 r4]]] by blast
  qed
  then show ?thesis
    using reaches_run [OF udivsi3_exit [OF code]] by (meson reaches_trans)
qed

text \<open>The call of the division from \<^verbatim>\<open>__aeabi_uidivmod\<close>, and what follows its return.\<close>

definition uidivmod_frame :: "'f cpu \<Rightarrow> ulong \<Rightarrow> ulong" where
  "uidivmod_frame s = store_words (regs s SP - 16) [regs s R0, regs s R1, regs s R12, regs s LR] (ram s)"

definition uidivmod_call :: "'f cpu \<Rightarrow> ulong \<Rightarrow> 'f cpu" where
  "uidivmod_call s a =
     s\<lparr>ram := uidivmod_frame s, regs := (regs s)(SP := regs s SP - 16, LR := regs s PC + 8, PC := a)\<rparr>"

lemma uidivmod_calls:
  assumes "code_at P (regs s PC) (map Code (uidivmod_code a))" "aligned (regs s SP)"
  shows "run K P 2 s = Some (uidivmod_call s a)"
  using assms
  by (simp add: machine uidivmod_code_def uidivmod_call_def uidivmod_frame_def fun_upd_twist add.assoc)

lemma uidivmod_returns:
  assumes "code_at P (regs s PC) (map Code (uidivmod_code a))" "aligned (regs s SP)"
  shows "\<exists>s'. run K P 4 (dividing_at (uidivmod_call s a) (regs s PC + 8) w v q c f) = Some s' \<and>
    regs s' R0 = w \<and> regs s' R1 = regs s R0 - w * regs s R1 \<and> regs s' PC = regs s LR \<and>
    regs s' SP = regs s SP \<and> regs s' R12 = regs s R12 \<and> ram s' = uidivmod_frame s"
proof -
  obtain b where b: "regs s SP = b + 16"
    by (metis diff_add_cancel)
  have "aligned b"
    using assms(2) by (simp add: b aligned_add)
  with assms(1) show ?thesis
    by (simp add: machine uidivmod_code_def uidivmod_call_def uidivmod_frame_def dividing_at_def b add.assoc)
qed

text \<open>
  C30. The code of \<^verbatim>\<open>__aeabi_uidivmod\<close>, with that of \<^verbatim>\<open>__udivsi3\<close> which it calls, comes to an
  end for every dividend and divisor. With a divisor of 0 the routine that throws is called;
  otherwise the quotient is in \<^verbatim>\<open>r0\<close> and the remainder in \<^verbatim>\<open>r1\<close>, the caller goes on behind the
  call with its stack pointer, and nothing above that was stored in.
\<close>

theorem uidivmod_code_divides:
  assumes "code_at P (regs s PC) (map Code (uidivmod_code a))" "code_at P a (map Code (udivsi3_code a throw))"
    "aligned (regs s SP)"
  shows "\<exists>s'. reaches K P s s' \<and>
    (if regs s R1 = 0 then regs s' PC = throw
     else regs s' R0 = regs s R0 div regs s R1 \<and> regs s' R1 = regs s R0 mod regs s R1 \<and>
       regs s' PC = regs s LR \<and> regs s' SP = regs s SP \<and> regs s' R12 = regs s R12 \<and>
       ram s' = uidivmod_frame s)"
proof -
  let ?c = "uidivmod_call s a"
  have call: "reaches K P s ?c"
    by (rule reaches_run [OF uidivmod_calls [OF assms(1,3)]])
  have c: "?c = dividing_at ?c a (regs s R0) (regs s R1) (regs s R2) (regs s R3) (cpsr s)" "regs ?c LR = regs s PC + 8"
    using dividing_at_self [of ?c] by (simp_all add: uidivmod_call_def)
  show ?thesis
  proof (cases "regs s R1 = 0")
    case True
    have "aligned (regs ?c SP)"
      using assms(3) by (simp add: uidivmod_call_def aligned_diff)
    from udivsi3_throws [OF assms(2) this] obtain s' where "run K P 4 ?c = Some s'" "regs s' PC = throw"
      using c(1) True by metis
    with True call show ?thesis
      by (auto intro: reaches_trans reaches_run)
  next
    case False
    obtain v' q' c' f' where "reaches K P ?c (dividing_at ?c (regs s PC + 8) (regs s R0 div regs s R1) v' q' c' f')"
      using udivsi3_code_runs [OF assms(2) False] c by metis
    moreover obtain s' where "run K P 4 (dividing_at ?c (regs s PC + 8) (regs s R0 div regs s R1) v' q' c' f') = Some s'"
        "regs s' R0 = regs s R0 div regs s R1" "regs s' R1 = regs s R0 - regs s R0 div regs s R1 * regs s R1"
        "regs s' PC = regs s LR" "regs s' SP = regs s SP" "regs s' R12 = regs s R12" "ram s' = uidivmod_frame s"
      using uidivmod_returns [OF assms(1,3)] by metis
    ultimately show ?thesis
      using call False
      by (intro exI [of _ s']) (auto simp: minus_div_mult_eq_mod intro: reaches_trans reaches_run)
  qed
qed

definition demo_division :: "ulong \<Rightarrow> ulong \<Rightarrow> unit cpu" where
  "demo_division dividend divisor =
     \<lparr>regs = \<lambda>r. case r of R0 \<Rightarrow> dividend | R1 \<Rightarrow> divisor | SP \<Rightarrow> 0x800 | LR \<Rightarrow> 0x300 | PC \<Rightarrow> 0x100 | _ \<Rightarrow> 0,
      fregs = \<lambda>_. (),
      cpsr = \<lparr>flag_n = False, flag_z = False, flag_c = False, flag_v = False\<rparr>,
      ram = id\<rparr>"

theorem uidivmod_code_divides_witness:
  "let P = memory_image [(0x1000, map Code (udivsi3_code 0x1000 0x2000)), (0x100, map Code (uidivmod_code 0x1000))]
   in (\<exists>s'. reaches idle_coprocessors P (demo_division 1000000007 10) s' \<and>
         regs s' R0 = 100000000 \<and> regs s' R1 = 7 \<and> regs s' PC = 0x300) \<and>
      (\<exists>s'. reaches idle_coprocessors P (demo_division 5 0) s' \<and> regs s' PC = 0x2000)"
proof -
  let ?P = "memory_image [(0x1000, map Code (udivsi3_code 0x1000 0x2000)), (0x100, map Code (uidivmod_code 0x1000))]"
  let ?K = idle_coprocessors
  have size: "length (udivsi3_code 0x1000 0x2000) = 38"
    by (simp add: udivsi3_code_def align_code_def div_pass_code_def subtract_code_def next_pass_code_def)
  have uidiv: "code_at ?P 0x1000 (map Code (udivsi3_code 0x1000 0x2000))"
    by (rule memory_image_first) (simp add: size)
  have code: "code_at ?P (regs (demo_division x y) PC) (map Code (uidivmod_code 0x1000))" for x y
    by (simp add: demo_division_def uidivmod_code_def aligned_def size)
  have stack: "aligned (regs (demo_division x y) SP)" for x y
    by (simp add: demo_division_def aligned_def)
  show ?thesis
    using uidivmod_code_divides [OF code uidiv stack, of ?K 1000000007 10]
      uidivmod_code_divides [OF code uidiv stack, of ?K 5 0]
    by (auto simp: Let_def demo_division_def)
qed

section \<open>The remainder\<close>

text \<open>The register \<^verbatim>\<open>ip\<close> keeps the bit of the last turn.\<close>

abbreviation with_ip :: "'f cpu \<Rightarrow> ulong \<Rightarrow> 'f cpu" where
  "with_ip s w \<equiv> s\<lparr>regs := (regs s)(R12 := w)\<rparr>"

lemma dividing_at_ip [simp]:
  "set_reg R12 w (dividing_at s a d v q c f) = dividing_at (with_ip s w) (a + 4) d v q c f"
  by (simp add: dividing_at_def set_reg_def advance_def fun_upd_twist)

lemma umodsi3_blocks:
  assumes "code_at P a (map Code (umodsi3_code a throw))"
  shows "code_at P (a + 20) (map Code (align_code 4 0x10000000 (a + 20)))"
    "code_at P (a + 40) (map Code (align_code 1 0x80000000 (a + 40)))"
    "code_at P (a + 60) (map Code (mod_pass_code @ next_pass_code (a + 60)))"
    "code_at P (a + 128) (map Code ([Ands R2 R2 (Imm 0xe0000000), Mov IfEQ PC (Reg LR)] @
       restore_code 3 @ restore_code 2 @ restore_code 1 @ [Mov Always PC (Reg LR)]))"
  using assms
  by (simp_all add: umodsi3_code_def code_at_append align_code_def mod_pass_code_def record_code_def
      subtract_code_def next_pass_code_def restore_code_def add.assoc)

lemma mod_pass_runs:
  assumes "code_at P a (map Code mod_pass_code)" "mod_pass d v c = (d', q')"
  shows "\<exists>f'. reaches K P (dividing_at s a d v q c f) (dividing_at (with_ip s c) (a + 52) d' v q' c f')"
proof -
  have blocks: "code_at P (a + 12) (map Code (subtract_code (Lsr R1 1) (Ror R3 1)))"
      "code_at P (a + 24) (map Code (subtract_code (Lsr R1 2) (Ror R3 2)))"
      "code_at P (a + 36) (map Code (subtract_code (Lsr R1 3) (Ror R3 3)))"
      "P (a + 48) = Some (Code (Mov Always R12 (Reg R3)))"
    using assms(1) by (simp_all add: mod_pass_code_def record_code_def subtract_code_def add.assoc)
  obtain d1 q1 where 1: "try_subtract v 0 (d, 0) = (d1, q1)" by fastforce
  obtain d2 q2 where 2: "try_subtract (drop_bit 1 v) (word_rotr 1 c) (d1, q1) = (d2, q2)" by fastforce
  obtain d3 q3 where 3: "try_subtract (drop_bit 2 v) (word_rotr 2 c) (d2, q2) = (d3, q3)" by fastforce
  have 4: "try_subtract (drop_bit 3 v) (word_rotr 3 c) (d3, q3) = (d', q')"
    using assms(2) 1 2 3 by (simp add: mod_pass_def)
  note runs = subtract_code_runs [OF blocks(1) 2] subtract_code_runs [OF blocks(2) 3]
    subtract_code_runs [OF blocks(3) 4]
  have "\<exists>f1. run K P 3 (dividing_at s a d v q c f) = Some (dividing_at s (a + 12) d1 v q1 c f1)"
    using assms(1) 1
    by (cases "v \<le> d") (auto simp: mod_pass_code_def division_step add.assoc try_subtract_def)
  then obtain f1 where r1: "reaches K P (dividing_at s a d v q c f) (dividing_at s (a + 12) d1 v q1 c f1)"
    by (blast intro: reaches_run)
  obtain f2 where r2: "reaches K P (dividing_at s (a + 12) d1 v q1 c f1) (dividing_at s (a + 24) d2 v q2 c f2)"
    using runs(1) [of s v c K f1] by (auto simp: get_reg_def add.assoc)
  obtain f3 where r3: "reaches K P (dividing_at s (a + 24) d2 v q2 c f2) (dividing_at s (a + 36) d3 v q3 c f3)"
    using runs(2) [of s v c K f2] by (auto simp: get_reg_def add.assoc)
  obtain f4 where r4: "reaches K P (dividing_at s (a + 36) d3 v q3 c f3) (dividing_at s (a + 48) d' v q' c f4)"
    using runs(3) [of s v c K f3] by (auto simp: get_reg_def add.assoc)
  have r5: "reaches K P (dividing_at s (a + 48) d' v q' c f4) (dividing_at (with_ip s c) (a + 52) d' v q' c f4)"
    using blocks(4) by (intro reaches_run [of _ _ 1]) (simp add: step_def get_reg_def add.assoc)
  show ?thesis
    using reaches_trans [OF r1 reaches_trans [OF r2 reaches_trans [OF r3 reaches_trans [OF r4 r5]]]] by blast
qed

lemma mod_loop_runs:
  "mod_loop d v c = Some r \<Longrightarrow> \<forall>s q f.
     code_at P a (map Code (mod_pass_code @ next_pass_code a)) \<longrightarrow>
     (\<exists>c' f'. reaches K P (dividing_at s a d v q c f)
        (case r of (d', v', q', ip) \<Rightarrow> dividing_at (with_ip s ip) (a + 68) d' v' q' c' f'))"
proof (erule mod_loop.raw_induct [rotated, where P = "\<lambda>d v c r. \<forall>s q f.
     code_at P a (map Code (mod_pass_code @ next_pass_code a)) \<longrightarrow>
     (\<exists>c' f'. reaches K P (dividing_at s a d v q c f)
        (case r of (d', v', q', ip) \<Rightarrow> dividing_at (with_ip s ip) (a + 68) d' v' q' c' f'))"],
    intro allI impI, goal_cases)
  case (1 rec d v c r s q f)
  obtain d1 q1 where pass: "mod_pass d v c = (d1, q1)" by fastforce
  have code: "code_at P a (map Code mod_pass_code)" "code_at P (a + 52) (map Code (next_pass_code a))"
    using 1(3) by (simp_all add: code_at_append mod_pass_code_def record_code_def subtract_code_def add.assoc)
  obtain f1 where first: "reaches K P (dividing_at s a d v q c f) (dividing_at (with_ip s c) (a + 52) d1 v q1 c f1)"
    using mod_pass_runs [OF code(1) pass] by blast
  obtain c' f2 where last: "run K P 4 (dividing_at (with_ip s c) (a + 52) d1 v q1 c f1) =
      Some (if d1 \<noteq> 0 \<and> drop_bit 4 c \<noteq> 0
            then dividing_at (with_ip s c) a d1 (drop_bit 4 v) q1 (drop_bit 4 c) f2
            else dividing_at (with_ip s c) (a + 52 + 16) d1 v q1 c' f2)"
    using next_pass_once [OF code(2)] by blast
  show ?case
  proof (cases "d1 \<noteq> 0 \<and> drop_bit 4 c \<noteq> 0")
    case True
    then have "rec d1 (drop_bit 4 v) (drop_bit 4 c) = Some r"
      using 1(2) pass by auto
    from 1(1) [OF this] 1(3) have "\<exists>c' f'. reaches K P
        (dividing_at (with_ip s c) a d1 (drop_bit 4 v) q1 (drop_bit 4 c) f2)
        (case r of (d', v', q', ip) \<Rightarrow> dividing_at (with_ip (with_ip s c) ip) (a + 68) d' v' q' c' f')"
      by blast
    then have "\<exists>c' f'. reaches K P
        (dividing_at (with_ip s c) a d1 (drop_bit 4 v) q1 (drop_bit 4 c) f2)
        (case r of (d', v', q', ip) \<Rightarrow> dividing_at (with_ip s ip) (a + 68) d' v' q' c' f')"
      by (cases r) simp
    moreover have "reaches K P (dividing_at (with_ip s c) (a + 52) d1 v q1 c f1)
        (dividing_at (with_ip s c) a d1 (drop_bit 4 v) q1 (drop_bit 4 c) f2)"
      using last True by (intro reaches_run [of _ _ 4]) auto
    ultimately show ?thesis
      using first by (meson reaches_trans)
  next
    case False
    with 1(2) pass have r: "r = (d1, v, q1, c)" by auto
    have "reaches K P (dividing_at (with_ip s c) (a + 52) d1 v q1 c f1)
        (dividing_at (with_ip s c) (a + 68) d1 v q1 c' f2)"
      using last False by (intro reaches_run [of _ _ 4]) (auto simp: add.assoc)
    then show ?thesis
      using first by (auto simp: r intro: reaches_trans)
  qed
qed

text \<open>What follows the loop: \<open>fix_up\<close>.\<close>

lemma restore_code_once:
  assumes "code_at P a (map Code (restore_code n))"
  shows "\<exists>f'. run K P 2 (dividing_at s a d v q c f) =
    Some (dividing_at s (a + 8) (restore n v q (regs s R12) d) v q c f')"
  using assms
  by (cases "q AND word_rotr n (regs s R12) = 0")
    (auto simp: restore_code_def division_step add.assoc restore_def)

lemma fix_up_runs:
  assumes "code_at P a (map Code ([Ands R2 R2 (Imm 0xe0000000), Mov IfEQ PC (Reg LR)] @
       restore_code 3 @ restore_code 2 @ restore_code 1 @ [Mov Always PC (Reg LR)]))"
  shows "\<exists>q' f'. reaches K P (dividing_at s a d v q c f)
    (dividing_at s (regs s LR) (fix_up d v q (regs s R12)) v q' c f')"
proof -
  define w where "w = q AND 0xe0000000"
  have code: "P a = Some (Code (Ands R2 R2 (Imm 0xe0000000)))" "P (a + 4) = Some (Code (Mov IfEQ PC (Reg LR)))"
      "P (a + 32) = Some (Code (Mov Always PC (Reg LR)))"
    using assms by (simp_all add: restore_code_def add.assoc)
  have blocks: "code_at P (a + 8) (map Code (restore_code 3))" "code_at P (a + 16) (map Code (restore_code 2))"
      "code_at P (a + 24) (map Code (restore_code 1))"
    using assms by (simp_all add: restore_code_def add.assoc)
  have "\<exists>f1. run K P 2 (dividing_at s a d v q c f) =
      Some (dividing_at s (if w = 0 then regs s LR else a + 8) d v w c f1)"
    using code by (cases "w = 0") (auto simp: division_step w_def add.assoc)
  then obtain f1 where mask: "run K P 2 (dividing_at s a d v q c f) =
      Some (dividing_at s (if w = 0 then regs s LR else a + 8) d v w c f1)"
    by blast
  show ?thesis
  proof (cases "w = 0")
    case True
    then have "fix_up d v q (regs s R12) = d" by (simp add: fix_up_def w_def)
    with True reaches_run [OF mask] show ?thesis by auto
  next
    case False
    define d3 where "d3 = restore 3 v w (regs s R12) d"
    define d2 where "d2 = restore 2 v w (regs s R12) d3"
    define d1 where "d1 = restore 1 v w (regs s R12) d2"
    have fixed: "fix_up d v q (regs s R12) = d1"
      using False by (simp add: fix_up_def w_def d1_def d2_def d3_def Let_def)
    obtain g3 where r3: "run K P 2 (dividing_at s (a + 8) d v w c f1) = Some (dividing_at s (a + 16) d3 v w c g3)"
      using restore_code_once [OF blocks(1)] by (fastforce simp: d3_def add.assoc)
    obtain g2 where r2: "run K P 2 (dividing_at s (a + 16) d3 v w c g3) = Some (dividing_at s (a + 24) d2 v w c g2)"
      using restore_code_once [OF blocks(2)] by (fastforce simp: d2_def add.assoc)
    obtain g1 where r1: "run K P 2 (dividing_at s (a + 24) d2 v w c g2) = Some (dividing_at s (a + 32) d1 v w c g1)"
      using restore_code_once [OF blocks(3)] by (fastforce simp: d1_def add.assoc)
    have r0: "run K P 1 (dividing_at s (a + 32) d1 v w c g1) = Some (dividing_at s (regs s LR) d1 v w c g1)"
      using code(3) by (simp add: step_def get_reg_def)
    have "reaches K P (dividing_at s a d v q c f) (dividing_at s (a + 8) d v w c f1)"
      using reaches_run [OF mask] False by simp
    from reaches_trans [OF this reaches_trans [OF reaches_run [OF r3] reaches_trans [OF reaches_run [OF r2]
        reaches_trans [OF reaches_run [OF r1] reaches_run [OF r0]]]]]
    show ?thesis unfolding fixed by blast
  qed
qed

lemma umodsi3_entry:
  assumes "code_at P a (map Code (umodsi3_code a throw))" "v \<noteq> 0"
  shows "\<exists>f'. run K P 5 (dividing_at s a d v q c f) =
    Some (dividing_at s (if d < v then regs s LR else a + 20) d v q 1 f')"
  using assms
  by (cases "d < v") (auto simp: umodsi3_code_def division_step add.assoc not_le)

text \<open>The remainder is the one of \<open>umodsi3\<close>, for every divisor but 0.\<close>

lemma umodsi3_code_runs:
  assumes code: "code_at P a (map Code (umodsi3_code a throw))" and v: "v \<noteq> 0"
    and result: "umodsi3 d v = Some (Inr r)"
  shows "\<exists>ip v' q' c' f'. reaches K P (dividing_at s a d v q c f)
    (dividing_at (with_ip s ip) (regs s LR) r v' q' c' f')"
proof -
  obtain f1 where entry: "run K P 5 (dividing_at s a d v q c f) =
      Some (dividing_at s (if d < v then regs s LR else a + 20) d v q 1 f1)"
    using umodsi3_entry [OF code v] by blast
  show ?thesis
  proof (cases "d < v")
    case True
    then have "r = d" using result v by (simp add: umodsi3_def)
    then have "reaches K P (dividing_at s a d v q c f)
        (dividing_at (with_ip s (regs s R12)) (regs s LR) r v q 1 f1)"
      using reaches_run [OF entry] True by simp
    then show ?thesis by blast
  next
    case False
    with result v obtain v1 c1 v2 c2 d3 v3 q3 ip where loops:
        "align 4 0x10000000 d v 1 = Some (v1, c1)" "align 1 0x80000000 d v1 c1 = Some (v2, c2)"
        "mod_loop d v2 c2 = Some (d3, v3, q3, ip)" "r = fix_up d3 v3 q3 ip"
      by (auto simp: umodsi3_def align_divisor_def split: bind_splits)
    have r1: "reaches K P (dividing_at s a d v q c f) (dividing_at s (a + 20) d v q 1 f1)"
      using entry False by (intro reaches_run [of _ _ 5]) simp
    obtain f2 where r2: "reaches K P (dividing_at s (a + 20) d v q 1 f1) (dividing_at s (a + 40) d v1 q c1 f2)"
      using align_code_runs [OF loops(1) umodsi3_blocks(1) [OF code]] by (fastforce simp: add.assoc)
    obtain f3 where r3: "reaches K P (dividing_at s (a + 40) d v1 q c1 f2) (dividing_at s (a + 60) d v2 q c2 f3)"
      using align_code_runs [OF loops(2) umodsi3_blocks(2) [OF code]] by (fastforce simp: add.assoc)
    obtain c4 f4 where r4: "reaches K P (dividing_at s (a + 60) d v2 q c2 f3)
        (dividing_at (with_ip s ip) (a + 128) d3 v3 q3 c4 f4)"
      using mod_loop_runs [OF loops(3), of P "a + 60" K] umodsi3_blocks(3) [OF code]
      by (fastforce simp: add.assoc)
    obtain q5 f5 where r5: "reaches K P (dividing_at (with_ip s ip) (a + 128) d3 v3 q3 c4 f4)
        (dividing_at (with_ip s ip) (regs s LR) r v3 q5 c4 f5)"
      using fix_up_runs [OF umodsi3_blocks(4) [OF code], of K "with_ip s ip"] loops(4) by fastforce
    show ?thesis
      using reaches_trans [OF r1 reaches_trans [OF r2 reaches_trans [OF r3 reaches_trans [OF r4 r5]]]] by blast
  qed
qed

end
