(* ===== verification/Arm_Renaming.thy ===== *)
theory Arm_Renaming
  imports Arm_Machine
begin

text \<open>
  Macros of the assembler take registers as arguments. What a stretch of instructions does with
  some registers it does with others in their place: execution commutes with a permutation of
  the registers that keeps the program counter, for the instructions that name all the registers
  they use.
\<close>

text \<open>The state seen with other names: \<open>r\<close> stands for \<open>p r\<close>.\<close>

definition seen :: "(reg \<Rightarrow> reg) \<Rightarrow> 'f cpu \<Rightarrow> 'f cpu" where
  "seen p s = s\<lparr>regs := regs s \<circ> p\<rparr>"

fun rename_operand :: "(reg \<Rightarrow> reg) \<Rightarrow> operand \<Rightarrow> operand" where
  "rename_operand p (Reg r) = Reg (p r)"
| "rename_operand p (Imm w) = Imm w"
| "rename_operand p (Lsl r n) = Lsl (p r) n"
| "rename_operand p (Lsr r n) = Lsr (p r) n"
| "rename_operand p (Asr r n) = Asr (p r) n"
| "rename_operand p (Ror r n) = Ror (p r) n"
| "rename_operand p (Lsr_by r q) = Lsr_by (p r) (p q)"

fun rename :: "(reg \<Rightarrow> reg) \<Rightarrow> instr \<Rightarrow> instr option" where
  "rename p (Mov c r x) = Some (Mov c (p r) (rename_operand p x))"
| "rename p (Movs c r x) = Some (Movs c (p r) (rename_operand p x))"
| "rename p (Add c r q x) = Some (Add c (p r) (p q) (rename_operand p x))"
| "rename p (Sub c r q x) = Some (Sub c (p r) (p q) (rename_operand p x))"
| "rename p (Orr c r q x) = Some (Orr c (p r) (p q) (rename_operand p x))"
| "rename p (Tst r x) = Some (Tst (p r) (rename_operand p x))"
| "rename p (Cmp c r x) = Some (Cmp c (p r) (rename_operand p x))"
| "rename p (B a) = Some (B a)"
| "rename p (Bif c a) = Some (Bif c a)"
| "rename p i = None"

section \<open>Addresses\<close>

lemma aligned_quotient: "aligned w \<Longrightarrow> 4 * of_nat (unat (w div 4)) = w"
proof -
  assume "aligned w"
  then have "4 * (unat w div 4) = unat w"
    unfolding aligned_def by presburger
  then have "4 * of_nat (unat w div 4) = (of_nat (unat w) :: ulong)"
    by (metis of_nat_mult of_nat_numeral)
  then show ?thesis by (simp add: unat_div)
qed

lemma offset_index: "(w :: ulong) < 4 * of_nat n \<Longrightarrow> unat (w div 4) < n"
proof -
  assume "w < 4 * of_nat n"
  then have "unat w < unat (of_nat (4 * n) :: ulong)"
    by (simp add: word_less_nat_alt)
  also have "\<dots> \<le> 4 * n"
    by (simp only: unat_of_nat) simp
  finally show ?thesis by (simp add: unat_div)
qed

section \<open>One instruction\<close>

lemma seen_fields [simp]: "cpsr (seen p s) = cpsr s" "regs (seen p s) r = regs s (p r)"
  by (simp_all add: seen_def)

lemma seen_cpsr [simp]: "seen p (s\<lparr>cpsr := f\<rparr>) = (seen p s)\<lparr>cpsr := f\<rparr>"
  by (simp add: seen_def)

locale renaming =
  fixes p :: "reg \<Rightarrow> reg"
  assumes inj: "inj p" and pc: "p PC = PC"
begin

lemma renamed_pc: "p r = PC \<longleftrightarrow> r = PC"
  using inj pc by (metis injD)

lemma renamed_update: "f(p r := w) \<circ> p = (f \<circ> p)(r := w)" "f(PC := w) \<circ> p = (f \<circ> p)(PC := w)"
  using inj_eq [OF inj] renamed_pc by (auto simp: fun_eq_iff)

lemma seen_advance: "seen p (advance s) = advance (seen p s)"
  by (simp add: seen_def advance_def renamed_update pc)

lemma seen_set_reg: "seen p (set_reg (p r) w s) = set_reg r w (seen p s)"
  using renamed_pc [of r] by (auto simp: seen_def set_reg_def advance_def renamed_update pc)

lemma seen_get_reg: "get_reg (seen p s) r = get_reg s (p r)"
  by (cases "r = PC") (simp_all add: get_reg_def renamed_pc pc)

lemma seen_operand: "get_operand (seen p s) x = get_operand s (rename_operand p x)"
  by (cases x) (simp_all add: seen_get_reg)

lemma seen_carry: "carry_out (seen p s) x = carry_out s (rename_operand p x)"
  by (cases x) (simp_all add: seen_get_reg)

lemma seen_logic_flags: "seen p (logic_flags s (rename_operand p x) w) = logic_flags (seen p s) x w"
  by (simp add: logic_flags_def seen_carry)

lemma exec_renamed:
  assumes "rename p i = Some j"
  shows "map_option (seen p) (exec K P j s) = exec K Q i (seen p s)"
  using assms
  by (cases i)
    (auto simp: seen_advance seen_set_reg seen_get_reg seen_operand seen_logic_flags Let_def
      seen_set_reg [of PC, unfolded pc])

text \<open>What runs under other names runs: \<open>Q\<close> is a part of the program \<open>P\<close> with other names.\<close>

definition names :: "'f prog \<Rightarrow> 'f prog \<Rightarrow> bool" where
  "names Q P \<longleftrightarrow> (\<forall>a c. Q a = Some c \<longrightarrow> (\<exists>i j. c = Code i \<and> rename p i = Some j \<and> P a = Some (Code j)))"

lemma step_renamed:
  assumes "names Q P" "step K Q (seen p s) = Some t'"
  shows "\<exists>t. step K P s = Some t \<and> seen p t = t'"
proof -
  obtain c where "Q (regs s PC) = Some c"
    using assms(2) by (auto simp: step_def pc split: option.splits)
  moreover from this obtain i j where "c = Code i" "rename p i = Some j" "P (regs s PC) = Some (Code j)"
    using assms(1) unfolding names_def by blast
  ultimately show ?thesis
    using assms(2) exec_renamed [of i j K P s Q] by (auto simp: step_def pc)
qed

lemma run_renamed:
  "names Q P \<Longrightarrow> run K Q n (seen p s) = Some t' \<Longrightarrow> \<exists>t. run K P n s = Some t \<and> seen p t = t'"
proof (induction n arbitrary: s)
  case (Suc n)
  then obtain u' where "step K Q (seen p s) = Some u'" "run K Q n u' = Some t'"
    by (auto split: bind_splits)
  with step_renamed [OF Suc.prems(1)] Suc.IH [OF Suc.prems(1)] show ?case by fastforce
qed simp

text \<open>A stretch of code alone in memory, and the same code with its names in the program.\<close>

lemma code_names:
  assumes "list_all2 (\<lambda>i j. rename p i = Some j) cs ds" "code_at P a (map Code ds)"
  shows "names (memory_image [(a, map Code cs)]) P"
  unfolding names_def
proof (intro allI impI)
  fix b c
  let ?i = "unat ((b - a) div 4)"
  assume c: "memory_image [(a, map Code cs)] b = Some c"
  then have lt: "b - a < 4 * of_nat (length cs)" "aligned (b - a)"
    by (simp_all split: if_splits)
  have b: "b = a + 4 * of_nat ?i"
    using aligned_quotient [OF lt(2)] by (simp add: algebra_simps)
  have len: "?i < length cs"
    using lt(1) by (rule offset_index)
  then have "c = Code (cs ! ?i)"
    using c by (simp split: if_splits)
  moreover have "rename p (cs ! ?i) = Some (ds ! ?i)" "?i < length ds"
    using assms(1) len by (auto simp: list_all2_conv_all_nth)
  ultimately show "\<exists>i j. c = Code i \<and> rename p i = Some j \<and> P b = Some (Code j)"
    using code_at_nth [OF assms(2), of ?i] b by auto
qed

end

end
