(* ===== verification/Signed_Code.thy ===== *)
theory Signed_Code
  imports Division_Code Runtime_Signed Arm_Renaming
begin

text \<open>
  The instructions of \<^verbatim>\<open>__divsi3\<close> and \<^verbatim>\<open>__aeabi_idivmod\<close> on the machine, and the proof that running
  them computes what \<open>Runtime_Signed\<close> says. The loops of \<^verbatim>\<open>ARM_DIV_BODY\<close> are those of the unsigned
  division in other registers, which \<open>Arm_Renaming\<close> allows for.
\<close>

section \<open>Code\<close>

definition ARM_DIV_BODY_code :: "reg \<Rightarrow> reg \<Rightarrow> reg \<Rightarrow> reg \<Rightarrow> ulong \<Rightarrow> instr list" where
  "ARM_DIV_BODY_code dividend divisor result curbit a =
     [Tst divisor (Imm 0xe0000000),
      Mov IfEQ divisor (Lsl divisor 3),
      Mov IfEQ curbit (Imm 8),
      Mov IfNE curbit (Imm 1),
      Cmp Always divisor (Imm 0x10000000),
      Cmp IfCC divisor (Reg dividend),
      Mov IfCC divisor (Lsl divisor 4),
      Mov IfCC curbit (Lsl curbit 4),
      Bif IfCC (a + 16),
      Cmp Always divisor (Imm 0x80000000),
      Cmp IfCC divisor (Reg dividend),
      Mov IfCC divisor (Lsl divisor 1),
      Mov IfCC curbit (Lsl curbit 1),
      Bif IfCC (a + 36),
      Mov Always result (Imm 0),
      Cmp Always dividend (Reg divisor),
      Sub IfCS dividend dividend (Reg divisor),
      Orr IfCS result result (Reg curbit),
      Cmp Always dividend (Lsr divisor 1),
      Sub IfCS dividend dividend (Lsr divisor 1),
      Orr IfCS result result (Lsr curbit 1),
      Cmp Always dividend (Lsr divisor 2),
      Sub IfCS dividend dividend (Lsr divisor 2),
      Orr IfCS result result (Lsr curbit 2),
      Cmp Always dividend (Lsr divisor 3),
      Sub IfCS dividend dividend (Lsr divisor 3),
      Orr IfCS result result (Lsr curbit 3),
      Cmp Always dividend (Imm 0),
      Movs IfNE curbit (Lsr curbit 4),
      Mov IfNE divisor (Lsr divisor 4),
      Bif IfNE (a + 60)]"

definition ARM_DIV2_ORDER_code :: "reg \<Rightarrow> reg \<Rightarrow> instr list" where
  "ARM_DIV2_ORDER_code divisor order =
     [Cmp Always divisor (Imm (push_bit 16 1)),
      Mov IfCS divisor (Lsr divisor 16),
      Mov IfCS order (Imm 16),
      Mov IfCC order (Imm 0),
      Cmp Always divisor (Imm (push_bit 8 1)),
      Mov IfCS divisor (Lsr divisor 8),
      Add IfCS order order (Imm 8),
      Cmp Always divisor (Imm (push_bit 4 1)),
      Mov IfCS divisor (Lsr divisor 4),
      Add IfCS order order (Imm 4),
      Cmp Always divisor (Imm (push_bit 2 1)),
      Add IfHI order order (Imm 3),
      Add IfLS order order (Lsr divisor 1)]"

definition divsi3_code :: "ulong \<Rightarrow> ulong \<Rightarrow> instr list" where
  "divsi3_code a throw =
     [Cmp Always R1 (Imm 0),
      Eor R12 R0 (Reg R1),
      Bif IfEQ (a + 280),
      Rsb IfMI R1 R1 (Imm 0),
      Subs R2 R1 (Imm 1),
      Bif IfEQ (a + 184),
      Movs Always R3 (Reg R0),
      Rsb IfMI R3 R0 (Imm 0),
      Cmp Always R3 (Reg R1),
      Bif IfLS (a + 196),
      Tst R1 (Reg R2),
      Bif IfEQ (a + 212)] @
     ARM_DIV_BODY_code R3 R1 R0 R2 (a + 48) @
     [Cmp Always R12 (Imm 0),
      Rsb IfMI R0 R0 (Imm 0),
      Mov Always PC (Reg LR),
      Teq R12 (Reg R0),
      Rsb IfMI R0 R0 (Imm 0),
      Mov Always PC (Reg LR),
      Mov IfCC R0 (Imm 0),
      Mov IfEQ R0 (Asr R12 31),
      Orr IfEQ R0 R0 (Imm 1),
      Mov Always PC (Reg LR)] @
     ARM_DIV2_ORDER_code R1 R2 @
     [Cmp Always R12 (Imm 0),
      Mov Always R0 (Lsr_by R3 R2),
      Rsb IfMI R0 R0 (Imm 0),
      Mov Always PC (Reg LR),
      Stmdb [LR],
      Bl throw,
      Mov Always R0 (Imm 0),
      Ldmia [PC]]"

definition idivmod_code :: "ulong \<Rightarrow> instr list" where
  "idivmod_code idiv =
     [Stmdb [R0, R1, R12, LR],
      Bl idiv,
      Ldmia [R1, R2, R12, LR],
      Mul R3 R0 R2,
      Sub Always R1 R1 (Reg R3),
      Mov Always PC (Reg LR)]"

section \<open>The loops\<close>

lemma body_blocks:
  "ARM_DIV_BODY_code R0 R1 R2 R3 a =
     [Tst R1 (Imm 0xe0000000), Mov IfEQ R1 (Lsl R1 3), Mov IfEQ R3 (Imm 8), Mov IfNE R3 (Imm 1)] @
     align_code 4 0x10000000 (a + 16) @ align_code 1 0x80000000 (a + 36) @ [Mov Always R2 (Imm 0)] @
     div_pass_code @ next_pass_code (a + 60)"
  by (simp add: ARM_DIV_BODY_code_def align_code_def div_pass_code_def subtract_code_def next_pass_code_def)

lemma body_blocks_at:
  assumes "code_at P a (map Code (ARM_DIV_BODY_code R0 R1 R2 R3 a))"
  shows "code_at P a (map Code [Tst R1 (Imm 0xe0000000), Mov IfEQ R1 (Lsl R1 3), Mov IfEQ R3 (Imm 8), Mov IfNE R3 (Imm 1)])"
    "code_at P (a + 16) (map Code (align_code 4 0x10000000 (a + 16)))"
    "code_at P (a + 36) (map Code (align_code 1 0x80000000 (a + 36)))"
    "code_at P (a + 56) [Code (Mov Always R2 (Imm 0))]"
    "code_at P (a + 60) (map Code (div_pass_code @ next_pass_code (a + 60)))"
  using assms unfolding body_blocks
  by (simp_all add: code_at_append align_code_def div_pass_code_def subtract_code_def next_pass_code_def add.assoc)

lemma first_shift_runs:
  assumes "code_at P a (map Code [Tst R1 (Imm 0xe0000000), Mov IfEQ R1 (Lsl R1 3), Mov IfEQ R3 (Imm 8), Mov IfNE R3 (Imm 1)])"
    "first_shift v = (v', c')"
  shows "\<exists>f'. run K P 4 (dividing_at s a d v q c f) = Some (dividing_at s (a + 16) d v' q c' f')"
  using assms
  by (cases "v AND 0xe0000000 = 0") (auto simp: first_shift_def division_step add.assoc)

lemma body_runs:
  assumes "ARM_DIV_BODY d v = Some r" "code_at P a (map Code (ARM_DIV_BODY_code R0 R1 R2 R3 a))"
  shows "\<exists>d' v' c' f'. reaches K P (dividing_at s a d v q c f) (dividing_at s (a + 124) d' v' r c' f')"
proof -
  note code = body_blocks_at [OF assms(2)]
  obtain v0 c0 where shift: "first_shift v = (v0, c0)" by fastforce
  with assms(1) obtain v1 c1 v2 c2 where loops: "align 4 0x10000000 d v0 c0 = Some (v1, c1)"
      "align 1 0x80000000 d v1 c1 = Some (v2, c2)" "div_loop d v2 0 c2 = Some r"
    by (auto simp: ARM_DIV_BODY_def align_divisor_def split: bind_splits)
  obtain f0 where r0: "reaches K P (dividing_at s a d v q c f) (dividing_at s (a + 16) d v0 q c0 f0)"
    using first_shift_runs [OF code(1) shift] reaches_run by blast
  obtain f1 where r1: "reaches K P (dividing_at s (a + 16) d v0 q c0 f0) (dividing_at s (a + 36) d v1 q c1 f1)"
    using align_code_runs [OF loops(1) code(2)] by (fastforce simp: add.assoc)
  obtain f2 where r2: "reaches K P (dividing_at s (a + 36) d v1 q c1 f1) (dividing_at s (a + 56) d v2 q c2 f2)"
    using align_code_runs [OF loops(2) code(3)] by (fastforce simp: add.assoc)
  have "run K P 1 (dividing_at s (a + 56) d v2 q c2 f2) = Some (dividing_at s (a + 60) d v2 0 c2 f2)"
    using code(4) by (simp add: division_step add.assoc)
  then have r3: "reaches K P (dividing_at s (a + 56) d v2 q c2 f2) (dividing_at s (a + 60) d v2 0 c2 f2)"
    by (rule reaches_run)
  obtain d' v' c' f' where r4: "reaches K P (dividing_at s (a + 60) d v2 0 c2 f2) (dividing_at s (a + 124) d' v' r c' f')"
    using div_loop_runs [OF loops(3)] code(5) by (fastforce simp: add.assoc)
  show ?thesis
    using reaches_trans [OF r0 reaches_trans [OF r1 reaches_trans [OF r2 reaches_trans [OF r3 r4]]]] by blast
qed

section \<open>The same loops in other registers\<close>

text \<open>\<^verbatim>\<open>ARM_DIV_BODY r3, r1, r0, r2\<close>: the dividend is in \<^verbatim>\<open>r3\<close>, the result in \<^verbatim>\<open>r0\<close>, the bit in
  \<^verbatim>\<open>r2\<close>.\<close>

fun body_regs :: "reg \<Rightarrow> reg" where
  "body_regs R0 = R3"
| "body_regs R1 = R1"
| "body_regs R2 = R0"
| "body_regs R3 = R2"
| "body_regs r = r"

interpretation body: renaming body_regs
proof
  show "inj body_regs"
  proof (rule injI)
    fix r q assume "body_regs r = body_regs q"
    then show "r = q" by (cases r; cases q) simp_all
  qed
qed simp

lemma body_code_renamed:
  "list_all2 (\<lambda>i j. rename body_regs i = Some j)
     (ARM_DIV_BODY_code R0 R1 R2 R3 a) (ARM_DIV_BODY_code R3 R1 R0 R2 a)"
  by (simp add: ARM_DIV_BODY_code_def)

lemma seen_dividing:
  "seen body_regs (dividing_at s a w v c d f) = dividing_at (seen body_regs s) a d v w c f"
proof -
  have "regs (seen body_regs (dividing_at s a w v c d f)) r = regs (dividing_at (seen body_regs s) a d v w c f) r"
    for r by (cases r) (simp_all add: dividing_at_def)
  then show ?thesis
    by (auto simp: seen_def dividing_at_def fun_eq_iff intro!: cpu.equality)
qed

lemma seen_eq: "seen body_regs s = seen body_regs t \<Longrightarrow> s = t"
proof -
  assume eq: "seen body_regs s = seen body_regs t"
  have "regs s (body_regs r) = regs t (body_regs r)" for r
    using arg_cong [OF eq, of "\<lambda>s. regs s r"] by simp
  from this [of R0] this [of R1] this [of R2] this [of R3] this [of R12] this [of SP] this [of LR] this [of PC]
  have "regs s r = regs t r" for r by (cases r) simp_all
  then show ?thesis
    using arg_cong [OF eq, of fregs] arg_cong [OF eq, of cpsr] arg_cong [OF eq, of ram]
      arg_cong [OF eq, of cpu.more]
    by (intro cpu.equality) (auto simp: seen_def)
qed

lemma body_code_runs:
  assumes "ARM_DIV_BODY d v = Some r" "code_at P a (map Code (ARM_DIV_BODY_code R3 R1 R0 R2 a))"
  shows "\<exists>v' c' d' f'. reaches K P (dividing_at s a w v c d f) (dividing_at s (a + 124) r v' c' d' f')"
proof -
  let ?Q = "memory_image [(a, map Code (ARM_DIV_BODY_code R0 R1 R2 R3 a))]"
  have code: "code_at ?Q a (map Code (ARM_DIV_BODY_code R0 R1 R2 R3 a))"
    by (rule memory_image_first) (simp add: ARM_DIV_BODY_code_def)
  obtain d' v' c' f' n where "run K ?Q n (dividing_at (seen body_regs s) a d v w c f) =
      Some (dividing_at (seen body_regs s) (a + 124) d' v' r c' f')"
    using body_runs [OF assms(1) code, of K "seen body_regs s" w c f] unfolding reaches_def by blast
  then obtain t where "run K P n (dividing_at s a w v c d f) = Some t"
      "seen body_regs t = seen body_regs (dividing_at s (a + 124) r v' c' d' f')"
    using body.run_renamed [OF body.code_names [OF body_code_renamed assms(2)]] seen_dividing by metis
  then show ?thesis
    using seen_eq reaches_run by metis
qed

section \<open>The parts of the routine\<close>

lemma divsi3_blocks:
  assumes "code_at P a (map Code (divsi3_code a throw))"
  shows "code_at P a (map Code [Cmp Always R1 (Imm 0), Eor R12 R0 (Reg R1), Bif IfEQ (a + 280),
      Rsb IfMI R1 R1 (Imm 0), Subs R2 R1 (Imm 1), Bif IfEQ (a + 184)])"
    "code_at P (a + 24) (map Code [Movs Always R3 (Reg R0), Rsb IfMI R3 R0 (Imm 0), Cmp Always R3 (Reg R1),
      Bif IfLS (a + 196), Tst R1 (Reg R2), Bif IfEQ (a + 212)])"
    "code_at P (a + 48) (map Code (ARM_DIV_BODY_code R3 R1 R0 R2 (a + 48)))"
    "code_at P (a + 172) (map Code [Cmp Always R12 (Imm 0), Rsb IfMI R0 R0 (Imm 0), Mov Always PC (Reg LR)])"
    "code_at P (a + 184) (map Code [Teq R12 (Reg R0), Rsb IfMI R0 R0 (Imm 0), Mov Always PC (Reg LR)])"
    "code_at P (a + 196) (map Code [Mov IfCC R0 (Imm 0), Mov IfEQ R0 (Asr R12 31), Orr IfEQ R0 R0 (Imm 1),
      Mov Always PC (Reg LR)])"
    "code_at P (a + 212) (map Code (ARM_DIV2_ORDER_code R1 R2))"
    "code_at P (a + 264) (map Code [Cmp Always R12 (Imm 0), Mov Always R0 (Lsr_by R3 R2), Rsb IfMI R0 R0 (Imm 0),
      Mov Always PC (Reg LR)])"
    "code_at P (a + 280) (map Code [Stmdb [LR], Bl throw])"
  using assms
  by (simp_all add: divsi3_code_def code_at_append ARM_DIV_BODY_code_def ARM_DIV2_ORDER_code_def add.assoc)

lemma divsi3_signs:
  assumes "code_at P a (map Code (divsi3_code a throw))" "v \<noteq> 0" "u = rsbmi (negative v) v"
  shows "\<exists>f'. run K P 6 (dividing_at s a d v q c f) =
    Some (dividing_at (with_ip s (d XOR v)) (if u - 1 = 0 then a + 184 else a + 24) d u (u - 1) c f')"
  using divsi3_blocks(1) [OF assms(1)] assms(2,3)
  by (cases "bit v 31"; cases "u - 1 = 0")
    (auto simp: division_step add.assoc rsbmi_def negative_def)

lemma divsi3_compares:
  assumes "code_at P a (map Code (divsi3_code a throw))" "x = rsbmi (negative d) d" "x \<le> u"
  shows "\<exists>f'. run K P 4 (dividing_at s (a + 24) d u w c f) = Some (dividing_at s (a + 196) d u w x f') \<and>
    (flag_c f' \<longleftrightarrow> u \<le> x) \<and> (flag_z f' \<longleftrightarrow> x = u)"
  using divsi3_blocks(2) [OF assms(1)] assms(2,3)
  by (cases "bit d 31"; cases "x = u")
    (auto simp: division_step add.assoc rsbmi_def negative_def)

lemma divsi3_chooses:
  assumes "code_at P a (map Code (divsi3_code a throw))" "x = rsbmi (negative d) d" "u < x"
  shows "\<exists>f'. run K P 6 (dividing_at s (a + 24) d u w c f) =
    Some (dividing_at s (if u AND w = 0 then a + 212 else a + 48) d u w x f')"
  using divsi3_blocks(2) [OF assms(1)] assms(2,3)
  by (cases "bit d 31"; cases "u AND w = 0")
    (auto simp: division_step add.assoc rsbmi_def negative_def)

lemma order_runs:
  assumes "code_at P a (map Code (ARM_DIV2_ORDER_code R1 R2))"
  shows "\<exists>u' f'. run K P 13 (dividing_at s a d u w c f) =
    Some (dividing_at s (a + 52) d u' (ARM_DIV2_ORDER u) c f')"
proof -
  define u1 o1 where "u1 = (if u \<ge> push_bit 16 1 then drop_bit 16 u else u)"
    and "o1 = (if u \<ge> push_bit 16 1 then 16 else 0 :: ulong)"
  define u2 o2 where "u2 = (if u1 \<ge> push_bit 8 1 then drop_bit 8 u1 else u1)"
    and "o2 = (if u1 \<ge> push_bit 8 1 then o1 + 8 else o1)"
  define u3 o3 where "u3 = (if u2 \<ge> push_bit 4 1 then drop_bit 4 u2 else u2)"
    and "o3 = (if u2 \<ge> push_bit 4 1 then o2 + 4 else o2)"
  have order: "ARM_DIV2_ORDER u = (if u3 > push_bit 2 1 then o3 + 3 else o3 + drop_bit 1 u3)"
    by (simp add: ARM_DIV2_ORDER_def u1_def o1_def u2_def o2_def u3_def o3_def)
  have code: "code_at P a (map Code [Cmp Always R1 (Imm (push_bit 16 1)), Mov IfCS R1 (Lsr R1 16),
        Mov IfCS R2 (Imm 16), Mov IfCC R2 (Imm 0)])"
      "code_at P (a + 16) (map Code [Cmp Always R1 (Imm (push_bit 8 1)), Mov IfCS R1 (Lsr R1 8),
        Add IfCS R2 R2 (Imm 8)])"
      "code_at P (a + 28) (map Code [Cmp Always R1 (Imm (push_bit 4 1)), Mov IfCS R1 (Lsr R1 4),
        Add IfCS R2 R2 (Imm 4)])"
      "code_at P (a + 40) (map Code [Cmp Always R1 (Imm (push_bit 2 1)), Add IfHI R2 R2 (Imm 3),
        Add IfLS R2 R2 (Lsr R1 1)])"
    using assms by (simp_all add: ARM_DIV2_ORDER_code_def add.assoc)
  obtain f1 where r1: "run K P 4 (dividing_at s a d u w c f) = Some (dividing_at s (a + 16) d u1 o1 c f1)"
    using code(1) by (cases "u \<ge> push_bit 16 1") (auto simp: division_step add.assoc u1_def o1_def)
  obtain f2 where r2: "run K P 3 (dividing_at s (a + 16) d u1 o1 c f1) = Some (dividing_at s (a + 28) d u2 o2 c f2)"
    using code(2) by (cases "u1 \<ge> push_bit 8 1") (auto simp: division_step add.assoc u2_def o2_def)
  obtain f3 where r3: "run K P 3 (dividing_at s (a + 28) d u2 o2 c f2) = Some (dividing_at s (a + 40) d u3 o3 c f3)"
    using code(3) by (cases "u2 \<ge> push_bit 4 1") (auto simp: division_step add.assoc u3_def o3_def)
  have last: "P (a + 40) = Some (Code (Cmp Always R1 (Imm 4)))" "P (a + 44) = Some (Code (Add IfHI R2 R2 (Imm 3)))"
      "P (a + 48) = Some (Code (Add IfLS R2 R2 (Lsr R1 1)))"
    using code(4) by (simp_all add: add.assoc)
  consider "\<not> 4 \<le> u3" "\<not> 4 < u3" "u3 \<noteq> 4" | "u3 = 4" | "4 < u3" "4 \<le> u3" "u3 \<noteq> 4"
    by fastforce
  then have "\<exists>f4. run K P 3 (dividing_at s (a + 40) d u3 o3 c f3) =
      Some (dividing_at s (a + 52) d u3 (ARM_DIV2_ORDER u) c f4)"
    unfolding order
    by cases (auto simp: division_step add.assoc last [unfolded One_nat_def])
  then obtain f4 where r4: "run K P 3 (dividing_at s (a + 40) d u3 o3 c f3) =
      Some (dividing_at s (a + 52) d u3 (ARM_DIV2_ORDER u) c f4)"
    by blast
  have "run K P (4 + (3 + (3 + 3))) (dividing_at s a d u w c f) =
      Some (dividing_at s (a + 52) d u3 (ARM_DIV2_ORDER u) c f4)"
    unfolding run_add by (simp only: r1 r2 r3 r4 bind.bind_lunit)
  then show ?thesis by auto
qed

text \<open>The four ends of the routine.\<close>

lemma divsi3_ends:
  assumes "code_at P a (map Code (divsi3_code a throw))"
  shows "\<exists>f'. run K P 3 (dividing_at s (a + 184) d u w c f) =
      Some (dividing_at s (regs s LR) (rsbmi (negative (regs s R12 XOR d)) d) u w c f')"
    "\<exists>f'. run K P 3 (dividing_at s (a + 172) d u w c f) =
      Some (dividing_at s (regs s LR) (rsbmi (negative (regs s R12)) d) u w c f')"
    "\<exists>f'. run K P 4 (dividing_at s (a + 264) d u w c f) =
      Some (dividing_at s (regs s LR) (rsbmi (negative (regs s R12)) (drop_bit (unat (w AND 0xff)) c)) u w c f')"
    "run K P 4 (dividing_at s (a + 196) d u w c f) =
      Some (dividing_at s (regs s LR)
        (if flag_z f then signed_drop_bit 31 (regs s R12) OR 1 else if flag_c f then d else 0) u w c f)"
proof -
  note code = divsi3_blocks [OF assms]
  show "\<exists>f'. run K P 3 (dividing_at s (a + 184) d u w c f) =
      Some (dividing_at s (regs s LR) (rsbmi (negative (regs s R12 XOR d)) d) u w c f')"
    using code(5) by (cases "bit (regs s R12 XOR d) 31") (auto simp: division_step add.assoc rsbmi_def negative_def)
  show "\<exists>f'. run K P 3 (dividing_at s (a + 172) d u w c f) =
      Some (dividing_at s (regs s LR) (rsbmi (negative (regs s R12)) d) u w c f')"
    using code(4) by (cases "bit (regs s R12) 31") (auto simp: division_step add.assoc rsbmi_def negative_def)
  show "\<exists>f'. run K P 4 (dividing_at s (a + 264) d u w c f) =
      Some (dividing_at s (regs s LR) (rsbmi (negative (regs s R12)) (drop_bit (unat (w AND 0xff)) c)) u w c f')"
    using code(8) by (cases "bit (regs s R12) 31") (auto simp: division_step add.assoc rsbmi_def negative_def)
  show "run K P 4 (dividing_at s (a + 196) d u w c f) =
      Some (dividing_at s (regs s LR)
        (if flag_z f then signed_drop_bit 31 (regs s R12) OR 1 else if flag_c f then d else 0) u w c f)"
    using code(6) by (cases "flag_c f"; cases "flag_z f") (auto simp: division_step add.assoc)
qed

section \<open>The signed division\<close>

lemma order_byte:
  assumes "u \<noteq> 0" "u AND (u - 1) = 0"
  shows "unat (ARM_DIV2_ORDER u AND 0xff) = unat (ARM_DIV2_ORDER u)"
proof -
  obtain n where n: "n < 32" "u = 2 ^ n"
    using power_of_two [OF assms] by blast
  have "(0xff :: ulong) = mask 8" by code_simp
  then have "ARM_DIV2_ORDER u AND 0xff = take_bit 8 (ARM_DIV2_ORDER u)"
    by (simp only: take_bit_eq_mask)
  then have "unat (ARM_DIV2_ORDER u AND 0xff) = take_bit 8 (unat (ARM_DIV2_ORDER u))"
    by (simp add: unsigned_take_bit_eq)
  then show ?thesis
    using n order_of_power [OF n(1)] by (simp add: take_bit_eq_mod)
qed

text \<open>From the comparison of the magnitudes on: the three ways to the quotient.\<close>

lemma divsi3_magnitudes:
  assumes code: "code_at P a (map Code (divsi3_code a throw))" and u: "u \<noteq> 0" "u - 1 \<noteq> 0"
    and x: "x = rsbmi (negative d) d" and q: "ip = regs s R12"
    and result: "Some r = (if x < u then Some 0 else if x = u then Some (signed_drop_bit 31 ip OR 1)
      else if u AND (u - 1) = 0 then Some (rsbmi (negative ip) (drop_bit (unat (ARM_DIV2_ORDER u)) x))
      else map_option (rsbmi (negative ip)) (ARM_DIV_BODY x u))"
  shows "\<exists>u' w' c' f'. reaches K P (dividing_at s (a + 24) d u (u - 1) c f) (dividing_at s (regs s LR) r u' w' c' f')"
proof -
  let ?s = "dividing_at s (a + 24) d u (u - 1) c f"
  consider "x \<le> u" | "u < x" "u AND (u - 1) = 0" | "u < x" "u AND (u - 1) \<noteq> 0"
    by fastforce
  then show ?thesis
  proof cases
    case 1
    obtain g where g: "run K P 4 ?s = Some (dividing_at s (a + 196) d u (u - 1) x g)"
        "flag_c g \<longleftrightarrow> u \<le> x" "flag_z g \<longleftrightarrow> x = u"
      using divsi3_compares [OF code x 1] by blast
    have "r = (if flag_z g then signed_drop_bit 31 (regs s R12) OR 1 else if flag_c g then d else 0)"
      using 1 result g(2,3) q by (auto split: if_splits)
    then have "run K P 4 (dividing_at s (a + 196) d u (u - 1) x g) = Some (dividing_at s (regs s LR) r u (u - 1) x g)"
      using divsi3_ends(4) [OF code] by simp
    then show ?thesis
      using g(1) by (meson reaches_run reaches_trans)
  next
    case 2
    obtain g where g: "run K P 6 ?s = Some (dividing_at s (a + 212) d u (u - 1) x g)"
      using divsi3_chooses [OF code x 2(1), of K s "u - 1" c f] 2(2) by auto
    obtain u' h where h: "run K P 13 (dividing_at s (a + 212) d u (u - 1) x g) =
        Some (dividing_at s (a + 264) d u' (ARM_DIV2_ORDER u) x h)"
      using order_runs [OF divsi3_blocks(7) [OF code], of K s d u "u - 1" x g] by (auto simp: add.assoc)
    have "\<not> x < u" "x \<noteq> u" using 2(1) by auto
    then have "r = rsbmi (negative (regs s R12)) (drop_bit (unat (ARM_DIV2_ORDER u AND 0xff)) x)"
      using result q order_byte [OF u(1) 2(2)] 2(2) by simp
    then obtain k where "run K P 4 (dividing_at s (a + 264) d u' (ARM_DIV2_ORDER u) x h) =
        Some (dividing_at s (regs s LR) r u' (ARM_DIV2_ORDER u) x k)"
      using divsi3_ends(3) [OF code] by blast
    then show ?thesis
      using g h by (meson reaches_run reaches_trans)
  next
    case 3
    obtain g where g: "run K P 6 ?s = Some (dividing_at s (a + 48) d u (u - 1) x g)"
      using divsi3_chooses [OF code x 3(1), of K s "u - 1" c f] 3(2) by auto
    have "\<not> x < u" "x \<noteq> u" using 3(1) by auto
    then obtain z where z: "ARM_DIV_BODY x u = Some z" "r = rsbmi (negative (regs s R12)) z"
      using result q 3(2) by (cases "ARM_DIV_BODY x u") auto
    obtain u' c' d' h where h: "reaches K P (dividing_at s (a + 48) d u (u - 1) x g)
        (dividing_at s (a + 172) z u' c' d' h)"
      using body_code_runs [OF z(1) divsi3_blocks(3) [OF code], of K s d "u - 1" g] by (auto simp: add.assoc)
    obtain k where "run K P 3 (dividing_at s (a + 172) z u' c' d' h) = Some (dividing_at s (regs s LR) r u' c' d' k)"
      using divsi3_ends(2) [OF code] z(2) by blast
    then show ?thesis
      using g h by (meson reaches_run reaches_trans)
  qed
qed

lemma divsi3_code_runs:
  assumes code: "code_at P a (map Code (divsi3_code a throw))" and r: "divsi3 d v = Some (Inr r)"
  shows "\<exists>u' w' c' f'. reaches K P (dividing_at s a d v q c f)
    (dividing_at (with_ip s (d XOR v)) (regs s LR) r u' w' c' f')"
proof -
  let ?u = "rsbmi (negative v) v" and ?s = "with_ip s (d XOR v)"
  have v: "v \<noteq> 0"
    using r by (auto simp: divsi3_def div0_def)
  obtain g where g: "reaches K P (dividing_at s a d v q c f)
      (dividing_at ?s (if ?u - 1 = 0 then a + 184 else a + 24) d ?u (?u - 1) c g)"
    using divsi3_signs [OF code v refl] reaches_run by blast
  show ?thesis
  proof (cases "?u - 1 = 0")
    case True
    then have "r = rsbmi (negative (regs ?s R12 XOR d)) d"
      using r v by (simp add: divsi3_def Let_def)
    then obtain h where "run K P 3 (dividing_at ?s (a + 184) d ?u (?u - 1) c g) =
        Some (dividing_at ?s (regs ?s LR) r ?u (?u - 1) c h)"
      using divsi3_ends(1) [OF code] by blast
    then have "reaches K P (dividing_at ?s (a + 184) d ?u (?u - 1) c g)
        (dividing_at ?s (regs s LR) r ?u (?u - 1) c h)"
      by (intro reaches_run [of _ _ 3]) simp
    moreover have "reaches K P (dividing_at s a d v q c f) (dividing_at ?s (a + 184) d ?u (?u - 1) c g)"
      using g unfolding True by simp
    ultimately show ?thesis by (meson reaches_trans)
  next
    case False
    have "?u \<noteq> 0" using v by (simp add: rsbmi_def)
    moreover have "Some r = (let x = rsbmi (negative d) d in if x < ?u then Some 0
        else if x = ?u then Some (signed_drop_bit 31 (d XOR v) OR 1)
        else if ?u AND (?u - 1) = 0
        then Some (rsbmi (negative (d XOR v)) (drop_bit (unat (ARM_DIV2_ORDER ?u)) x))
        else map_option (rsbmi (negative (d XOR v))) (ARM_DIV_BODY x ?u))"
      using r v False by (auto simp: divsi3_def Let_def split: if_splits bind_splits)
    ultimately obtain u' w' c' f' where "reaches K P (dividing_at ?s (a + 24) d ?u (?u - 1) c g)
        (dividing_at ?s (regs ?s LR) r u' w' c' f')"
      using divsi3_magnitudes [OF code _ False refl, where ip = "d XOR v" and s = ?s and r = r and d = d
          and K = K and c = c and f = g] unfolding Let_def by auto
    then have "reaches K P (dividing_at ?s (a + 24) d ?u (?u - 1) c g) (dividing_at ?s (regs s LR) r u' w' c' f')"
      by simp
    moreover have "reaches K P (dividing_at s a d v q c f) (dividing_at ?s (a + 24) d ?u (?u - 1) c g)"
      using g False by simp
    ultimately show ?thesis by (meson reaches_trans)
  qed
qed

lemma divsi3_throws:
  assumes "code_at P a (map Code (divsi3_code a throw))" "aligned (regs s SP)"
  shows "\<exists>s'. run K P 5 (dividing_at s a d 0 q c f) = Some s' \<and> regs s' PC = throw"
  using divsi3_blocks(1,9) [OF assms(1)] assms(2)
  by (auto simp: machine compare_def add.assoc dividing_at_def)

text \<open>\<^verbatim>\<open>__aeabi_idivmod\<close> differs from \<^verbatim>\<open>__aeabi_uidivmod\<close> in the division it calls; that one uses \<^verbatim>\<open>ip\<close>,
  which the frame restores.\<close>

lemma idivmod_calls:
  assumes "code_at P (regs s PC) (map Code (idivmod_code a))" "aligned (regs s SP)"
  shows "run K P 2 s = Some (uidivmod_call s a)"
  using assms uidivmod_calls [of P s a K] by (simp add: idivmod_code_def uidivmod_code_def)

lemma idivmod_returns:
  assumes "code_at P (regs s PC) (map Code (idivmod_code a))" "aligned (regs s SP)"
  shows "\<exists>s'. run K P 4 (dividing_at (with_ip (uidivmod_call s a) ip) (regs s PC + 8) w v q c f) = Some s' \<and>
    regs s' R0 = w \<and> regs s' R1 = regs s R0 - w * regs s R1 \<and> regs s' PC = regs s LR \<and>
    regs s' SP = regs s SP \<and> regs s' R12 = regs s R12 \<and> ram s' = uidivmod_frame s"
proof -
  obtain b where b: "regs s SP = b + 16"
    by (metis diff_add_cancel)
  have "aligned b"
    using assms(2) by (simp add: b aligned_add)
  with assms(1) show ?thesis
    by (simp add: machine b idivmod_code_def uidivmod_call_def uidivmod_frame_def dividing_at_def add.assoc)
qed

text \<open>
  C31. The code of \<^verbatim>\<open>__aeabi_idivmod\<close>, with that of \<^verbatim>\<open>__divsi3\<close> which it calls, comes to an end for
  every dividend and divisor. With a divisor of 0 the routine that throws is called; otherwise the
  quotient, rounded towards zero, is in \<^verbatim>\<open>r0\<close> and the remainder that goes with it in \<^verbatim>\<open>r1\<close>, both at
  32 bits, and the caller goes on behind the call with its stack pointer and \<^verbatim>\<open>ip\<close>, nothing above
  the stack pointer stored in.
\<close>

theorem idivmod_code_divides:
  assumes "code_at P (regs s PC) (map Code (idivmod_code a))" "code_at P a (map Code (divsi3_code a throw))"
    "aligned (regs s SP)"
  shows "\<exists>s'. reaches K P s s' \<and>
    (if regs s R1 = 0 then regs s' PC = throw
     else regs s' R0 = word_of_int (c_div (sint (regs s R0)) (sint (regs s R1))) \<and>
       regs s' R1 = word_of_int (sint (regs s R0) -
         c_div (sint (regs s R0)) (sint (regs s R1)) * sint (regs s R1)) \<and>
       regs s' PC = regs s LR \<and> regs s' SP = regs s SP \<and> regs s' R12 = regs s R12 \<and>
       ram s' = uidivmod_frame s)"
proof -
  let ?c = "uidivmod_call s a" and ?ip = "regs s R0 XOR regs s R1"
  let ?q = "c_div (sint (regs s R0)) (sint (regs s R1))"
  have call: "reaches K P s ?c"
    by (rule reaches_run [OF idivmod_calls [OF assms(1,3)]])
  have c: "?c = dividing_at ?c a (regs s R0) (regs s R1) (regs s R2) (regs s R3) (cpsr s)" "regs ?c LR = regs s PC + 8"
    using dividing_at_self [of ?c] by (simp_all add: uidivmod_call_def)
  show ?thesis
  proof (cases "regs s R1 = 0")
    case True
    have "aligned (regs ?c SP)"
      using assms(3) by (simp add: uidivmod_call_def aligned_diff)
    from divsi3_throws [OF assms(2) this] obtain s' where "run K P 5 ?c = Some s'" "regs s' PC = throw"
      using c(1) True by metis
    with True call show ?thesis
      by (auto intro: reaches_trans reaches_run)
  next
    case False
    then have "divsi3 (regs s R0) (regs s R1) = Some (Inr (word_of_int ?q))"
      using signed_division_exact by simp
    then obtain v' q' c' f' where
        divided: "reaches K P ?c (dividing_at (with_ip ?c ?ip) (regs s PC + 8) (word_of_int ?q) v' q' c' f')"
      using divsi3_code_runs [OF assms(2)] c by metis
    obtain s' where
        returned: "run K P 4 (dividing_at (with_ip ?c ?ip) (regs s PC + 8) (word_of_int ?q) v' q' c' f') = Some s'"
        and s': "regs s' R0 = word_of_int ?q" "regs s' R1 = regs s R0 - word_of_int ?q * regs s R1"
        "regs s' PC = regs s LR" "regs s' SP = regs s SP" "regs s' R12 = regs s R12" "ram s' = uidivmod_frame s"
      using idivmod_returns [OF assms(1,3)] by metis
    have "reaches K P s s'"
      by (rule reaches_trans [OF call reaches_trans [OF divided reaches_run [OF returned]]])
    moreover have "regs s R0 - word_of_int ?q * regs s R1 = word_of_int (sint (regs s R0) - ?q * sint (regs s R1))"
      by (simp add: wi_hom_sub [symmetric] wi_hom_mult [symmetric])
    ultimately show ?thesis
      using False s' by (intro exI [of _ s']) simp
  qed
qed

theorem idivmod_code_divides_witness:
  "let P = memory_image [(0x1000, map Code (divsi3_code 0x1000 0x2000)), (0x100, map Code (idivmod_code 0x1000))]
   in (\<exists>s'. reaches idle_coprocessors P (demo_division (- 1000000007) 10) s' \<and>
         regs s' R0 = - 100000000 \<and> regs s' R1 = - 7 \<and> regs s' PC = 0x300) \<and>
      (\<exists>s'. reaches idle_coprocessors P (demo_division 5 0) s' \<and> regs s' PC = 0x2000)"
proof -
  let ?P = "memory_image [(0x1000, map Code (divsi3_code 0x1000 0x2000)), (0x100, map Code (idivmod_code 0x1000))]"
  let ?K = idle_coprocessors
  have size: "length (divsi3_code 0x1000 0x2000) = 74"
    by (simp add: divsi3_code_def ARM_DIV_BODY_code_def ARM_DIV2_ORDER_code_def)
  have idiv: "code_at ?P 0x1000 (map Code (divsi3_code 0x1000 0x2000))"
    by (rule memory_image_first) (simp add: size)
  have code: "code_at ?P (regs (demo_division x y) PC) (map Code (idivmod_code 0x1000))" for x y
    by (simp add: demo_division_def idivmod_code_def aligned_def size)
  have stack: "aligned (regs (demo_division x y) SP)" for x y
    by (simp add: demo_division_def aligned_def)
  have demo: "regs (demo_division x y) R0 = x" "regs (demo_division x y) R1 = y"
      "regs (demo_division x y) LR = 0x300" for x y
    by (simp_all add: demo_division_def)
  have sints: "sint (- 1000000007 :: ulong) = - 1000000007" "sint (10 :: ulong) = 10"
    by simp_all
  have q: "c_div (- 1000000007) 10 = - 100000000" "- 1000000007 - - 100000000 * 10 = (- 7 :: int)"
    by (simp_all add: c_div_def)
  have "\<exists>s'. reaches ?K ?P (demo_division (- 1000000007) 10) s' \<and> regs s' R0 = word_of_int (- 100000000) \<and>
      regs s' R1 = word_of_int (- 7) \<and> regs s' PC = 0x300"
    using idivmod_code_divides [OF code idiv stack, of ?K "- 1000000007" 10]
    unfolding demo sints q by auto
  moreover have "\<exists>s'. reaches ?K ?P (demo_division 5 0) s' \<and> regs s' PC = 0x2000"
    using idivmod_code_divides [OF code idiv stack, of ?K 5 0] unfolding demo by auto
  ultimately show ?thesis
    unfolding Let_def by simp
qed

end
