(* ===== verification/Spec2Isabelle.thy ===== *)
theory Spec2Isabelle
  imports Root_Certificates Task_Bindings Platform_Time Calendar
    CE_Buffers CE_State Root_Loading CE_Engine CE_Requests CE_Callbacks CE_Streams CE_Handlers
    CE_Machine CE_Receive CE_Demo CE_Examples CE_Properties CE_Plain CE_Phases NS_Properties Event_Proxy
    PF_Properties Runtime_Signed Library_Config Protocol_Dispatch Module_Declarations Runtime_Glue
    Signed_Code NS_Examples
begin

text \<open>
  A verification development of the mbed TLS port for NewtonOS.

  \<^bold>\<open>The program.\<close> The port brings mbed TLS to the Newton in two ways. The first is a proxy
  between an endpoint and the NIE connection end (the inet tool): the class
  \<^verbatim>\<open>PMbedTLSConnectionEnd\<close>, which takes every request of a client and every completion of
  the inet tool and runs TLS in between when an option has enabled it. The second is a set
  of NewtonScript bindings: the class \<^verbatim>\<open>PMbedTLS\<close>, whose methods lock NewtonScript objects
  that hold pointers to mbed TLS structures, call the library and cast its results, and the
  native module \<^verbatim>\<open>NTKModule/mbedTLSInterface.cpp\<close> that exports them. Both use services that
  only run in the NewtApp task (entropy, the stored seed, the time zone, the serial number,
  the root certificates of two soups); \<^verbatim>\<open>NewtonBindings.cpp\<close> calls them directly in that
  task and otherwise sends an event, answered by a handler built on
  \<^verbatim>\<open>TAEventHandlerProxy\<close>. The connection end asks the bindings for the serial number and
  the root certificates; the library asks them for entropy and the time. \<^verbatim>\<open>PMbedTLS\<close> also
  exchanges the registered class of the inet tool for the connection end and back. Below both
  lies a small C runtime: \<^verbatim>\<open>printf.c\<close>, through which mbed TLS formats every text, and the
  division routines the compiler calls, since the processor has no division.

  \<^bold>\<open>Theories and code.\<close>

  \<^item> \<open>Newton_Prelude\<close>: machine types, C arithmetic on 32 bits, memory blocks.
  \<^item> \<open>Calendar\<close>, \<open>Platform_Time\<close>: \<^verbatim>\<open>mbedtls_platform_gmtime_r\<close>, \<^verbatim>\<open>TimeToLocal1904Minutes\<close>
    and \<^verbatim>\<open>time\<close> (\<^verbatim>\<open>Protocol/NewtonBindings.cpp\<close>, \<^verbatim>\<open>NewtonRuntime/NewtonRuntime.cpp\<close>).
  \<^item> \<open>Root_Certificates\<close>: \<^verbatim>\<open>GetRootCertificate\<close> and \<^verbatim>\<open>ListRootCertificates\<close> of
    \<^verbatim>\<open>Protocol/PMbedTLS.cpp\<close> over the record \<open>soups\<close>.
  \<^item> \<open>Task_Bindings\<close>: the services of \<^verbatim>\<open>PMbedTLS.cpp\<close>, the events and handlers of
    \<^verbatim>\<open>mbedTLSEvents\<close>, the bindings of \<^verbatim>\<open>NewtonBindings.cpp\<close>; \<^verbatim>\<open>calloc\<close>.
  \<^item> \<open>Event_Proxy\<close>: \<^verbatim>\<open>TAEventHandlerProxy\<close>, the handler object of NewtonOS 2.0 and of 2.1.
  \<^item> \<open>CE_Buffers\<close>, \<open>CE_State\<close>: the buffers of \<^verbatim>\<open>BufferInterface.md\<close> as an interface (locale
    \<open>buffer_list\<close>); the members of the connection end (record \<open>ce\<close>) and what surrounds it
    (record \<open>platform\<close>).
  \<^item> \<open>Root_Loading\<close>, \<open>CE_Engine\<close>, \<open>CE_Requests\<close>, \<open>CE_Callbacks\<close>: the methods of
    \<^verbatim>\<open>Protocol/PMbedTLSConnectionEnd.cpp\<close>, under their names.
  \<^item> \<open>CE_Streams\<close>, \<open>CE_Handlers\<close>, \<open>CE_Machine\<close>, \<open>CE_Receive\<close>: the contracts of the callbacks
    (locales \<open>callback_invariant\<close>, \<open>callback_contract\<close>), the invariants and the machine of
    stimuli with its reachable states.
  \<^item> \<open>CE_Plain\<close>, \<open>CE_Phases\<close>, \<open>CE_Properties\<close>: the reference forwarder, the specification of
    the session's phases, the properties; \<open>CE_Demo\<close> and \<open>CE_Examples\<close> hold a small world in
    which the hypotheses are met.
  \<^item> \<open>NS_Runtime\<close>, \<open>NS_Objects\<close>: references, objects, exceptions and calls of the library;
    computations and the locking macros of \<^verbatim>\<open>PMbedTLS.cpp\<close>.
  \<^item> \<open>NS_Registry\<close>: C objects and their destructors, the weak array, \<^verbatim>\<open>New\<close> and \<^verbatim>\<open>Delete\<close>,
    the exchange of the inet tool's class, the casts, and the singleton of
    \<^verbatim>\<open>Common/PMbedTLSInterface.cpp\<close>.
  \<^item> \<open>NS_Callbacks\<close>, \<open>NS_SSL\<close>, \<open>NS_Conf\<close>, \<open>NS_X509\<close>: the callbacks given to the library and
    every binding, under the names of the methods (with the suffix \<open>_ns\<close> where the
    connection end has a method of the same name).
  \<^item> \<open>NS_Module\<close>: the functions of the native module (suffix \<open>_fn\<close>) and the table
    \<^verbatim>\<open>mbedTLSInterface.exp\<close>.
  \<^item> \<open>NS_Locks\<close>, \<open>NS_Lifetime\<close>, \<open>NS_Properties\<close>: the locking discipline, the life of the C
    objects, the properties; \<open>NS_Examples\<close> holds the world of their examples.

  \<^item> \<open>PF_Output\<close>, \<open>PF_Integer\<close>, \<open>PF_Float\<close>, \<open>PF_Format\<close>: the functions of
    \<^verbatim>\<open>NewtonRuntime/printf.c\<close>, from the output functions to the exported ones (a leading
    underscore of a name is dropped, a trailing one is \<open>_c\<close>). \<open>PF_Numbers\<close> and \<open>PF_Text\<close>
    hold their specification, the numerals and the text of a format, and the locale
    \<open>output_function\<close>; \<open>PF_Standard\<close> what C asks of the integers;
    \<open>PF_Properties\<close> the properties, \<open>PF_Examples\<close> the arithmetic of their examples.
  \<^item> \<open>Runtime_Library\<close>, \<open>Runtime_Signed\<close>: the rest of \<^verbatim>\<open>NewtonRuntime.cpp\<close>,
    \<^verbatim>\<open>EinsteinGlue.cpp\<close> and the division routines of \<^verbatim>\<open>_udivsi3.s\<close>, \<^verbatim>\<open>_umodsi3.s\<close> and
    \<^verbatim>\<open>_divsi3.s\<close>, instruction by instruction on the registers that hold their variables.

  \<^item> \<open>Arm_Machine\<close>: the instructions of the processor that the assembly uses, with registers,
    flags and memory; the coprocessors are a parameter (record \<open>coprocessors\<close>).
  \<^item> \<open>Protocol_Declarations\<close>, \<open>Protocol_Tables\<close>, \<open>Module_Declarations\<close>: the methods the headers
    declare, with the mangling of their names; the stubs, branch tables, class information and
    forwarding methods of \<^verbatim>\<open>PMbedTLSInterfaceGlue.s\<close>, \<^verbatim>\<open>PConnectionEndGlue.s\<close>,
    \<^verbatim>\<open>PCECallBackGlue.s\<close> and the three \<^verbatim>\<open>.impl.s\<close> files (locale \<open>protocol_tables\<close>); the
    declarations of the native module.
  \<^item> \<open>Protocol_Glue\<close>, \<open>Protocol_Dispatch\<close>: the instructions of these stubs and what running
    them does.
  \<^item> \<open>Runtime_Glue\<close>: \<^verbatim>\<open>NewtonRuntime.s\<close>, \<^verbatim>\<open>EinsteinGlue.s\<close> and the macros of
    \<^verbatim>\<open>NewtonPublicAPIs.s\<close>; \<open>Division_Code\<close>, \<open>Signed_Code\<close>: the instructions of the divisions, which
    implement the functions of \<open>Runtime_Library\<close> and \<open>Runtime_Signed\<close>; \<open>Arm_Renaming\<close>: code
    with other registers (locale \<open>renaming\<close>).

  \<^item> \<open>Library_Config\<close>: the options of \<^verbatim>\<open>Common/mbedtls/config.h\<close>, with what their documentation
    says they require and the ciphersuites it says they enable.

  \<^bold>\<open>State and effects.\<close> The connection end is a record passed from call to call; a method
  returns \<open>None\<close> when it calls or stores through NULL or does not end, and what it asks of
  the inet tool and of the client is added to a trace. A call of mbed TLS that may call back
  is a tree (\<open>io\<close>) whose nodes are the callbacks and whose leaves are results; theorems
  quantify over all trees. The bindings are computations over the record \<open>ns\<close> that return,
  throw an exception, or have no defined meaning; locking, the C heap, calls of the library
  and of scripts are added to a history, on which the answers of the library depend.
  Scripts may change the whole state; a theorem that needs more says so
  (\<open>scripts_keep_locks\<close>).

  \<^bold>\<open>What the lemmas show.\<close> For the connection end: in every state reached by a sequence of
  stimuli in which client and inet tool keep to their order, each further one is handled;
  the bytes of both directions keep their order; the phases refine their specification; and
  without TLS the proxy is the reference forwarder. The hypotheses (\<open>platform_ok\<close>,
  \<open>world_ok\<close>, \<open>reads_progress\<close>) state what the library and memory are documented to do, and
  theorems of their own show what happens where the code relies on more: a read that makes
  no progress, a message after the connection is closed, a clock that wraps. For the
  bindings: every exported function keeps the locking discipline; the registry of C objects
  keeps its invariant and \<^verbatim>\<open>Delete\<close> frees every block once; indices, sizes and texts are
  accepted exactly where the code checks them. For the services: a call through an event
  gives what a direct call gives, on either NewtonOS; the dates are those of the calendar;
  the root certificates are listed and read within their buffers. For the runtime: a format
  has a text that does not depend on where it goes (\<open>format_text\<close>), every output function
  receives that text in order, \<^verbatim>\<open>snprintf\<close> stays within its buffer, the integers are those
  of the C standard where the buffer of 32 digits holds them, and theorems of their own say
  where the code reads outside a table or past a terminator; the divisions end and are exact,
  the remainder for all divisors but 1 and 2, for which a counterexample is evaluated, and the
  instructions compute what their functions say. The routines for \<^verbatim>\<open>double\<close> and for 64 bit
  divisions are shown not to compute: their file calls them untested. For the protocols: a call
  through an interface enters the method of the class that the headers pair it with, a callback
  of the inet tool the method of the connection end, and every function of the native module
  has its method (\<open>exports_reach_class\<close>, below). For
  the configuration: its options meet each other's requirements, and no ciphersuite it lists
  by default goes without encryption or with RC4 or DES.

  \<^bold>\<open>Loops.\<close> \<^verbatim>\<open>DoSSLRead\<close>, the loading of the root certificates and the moving of segments
  between the two send buffers may run for ever: they are partial functions into \<open>option\<close>,
  and that they return is proved from the progress of the library, from the sizes of the
  certificates and from the number of segments. So may the loops of the divisions, which are
  proved to end from the place of the divisor's highest bit, and the mutual calls of
  \<^verbatim>\<open>_ftoa\<close> and \<^verbatim>\<open>_etoa\<close>, which depend on the arithmetic. All other loops run over a list or an
  index that decreases, and are total.

  \<^bold>\<open>Not modelled.\<close> mbed TLS itself, the NewtonScript runtime and the ROM of NewtonOS are not
  in the repository: they are parameters, or, for references, objects, arrays and the
  virtual tables, the part of their documented behaviour the code uses. Running out of
  memory is modelled where the code tests for it (the certificate blocks, the heap of the
  connection end) and not in the bindings, which do not test. Garbage is collected between
  bindings, not inside them. Of the configuration header the options are modelled, not what
  the library makes of them, nor the file of the user it may include. The arithmetic on
  \<^verbatim>\<open>double\<close> of the formatted output is a parameter (record \<open>soft_float\<close>), and its 64 bit
  divisions are those of C: what the routines of \<^verbatim>\<open>NewtonRuntime.s\<close> would make of them is shown
  separately in \<open>Runtime_Glue\<close>. The places of methods in memory and the addresses of the ROM's
  jump table are arguments. The packages under \<^verbatim>\<open>NTK Projects\<close> are written in NewtonScript.
\<close>

section \<open>From a script to the class\<close>

lemma methods_take_references: "list_all (\<lambda>d. list_all ((=) RefArg) (snd d)) PMbedTLS_decls"
  by (simp add: PMbedTLS_decls_def)

lemma all_equal: "list_all ((=) x) xs \<Longrightarrow> xs = replicate (length xs) x"
  by (induction xs) auto

text \<open>The methods of the interface that an export names.\<close>

lemma export_declared:
  assumes "(n, k, f) \<in> set (exports E)" "n \<notin> {''Install'', ''Remove''}"
  shows "(n, replicate k RefArg) \<in> set PMbedTLS_decls"
proof -
  have "(n, k) \<in> set (map export_arity (exports E))"
    using imageI [OF assms(1), of export_arity] by (simp add: arities)
  moreover have "set (map export_arity (exports E)) =
      set (map decl_arity PMbedTLSInterface_decls) \<union> {(''Install'', 0), (''Remove'', 0)}"
    using arg_cong [where f = set_mset, OF conjunct2 [OF exports_declared [of E]]] by simp
  ultimately have "(n, k) \<in> set (map decl_arity PMbedTLSInterface_decls)"
    using assms(2) by auto
  then obtain d where d: "d \<in> set PMbedTLS_decls" "fst d = n" "length (snd d) = k"
    using mset_eq_setD [OF headers_match] by (auto simp: arities)
  then have "snd d = replicate k RefArg"
    using methods_take_references all_equal [of RefArg "snd d"] by (simp add: list_all_iff)
  with d show ?thesis by (metis prod.collapse)
qed

text \<open>
  C25. What a script calls is what the class implements: for every function the module exports, but
  \<^verbatim>\<open>Install\<close> and \<^verbatim>\<open>Remove\<close>, the interface has a stub with its name and its number of arguments, all
  references, and the slot of the branch table this stub jumps to holds the method of \<^verbatim>\<open>PMbedTLS\<close>
  with the same name and types.
\<close>

theorem exports_reach_class:
  assumes "(n, k, f) \<in> set (exports E)" "n \<notin> {''Install'', ''Remove''}"
  shows "\<exists>slot.
    (mangled ''PMbedTLSInterface'' (n, replicate k RefArg), slot) \<in> set PMbedTLSInterface_glue \<and>
    slot < length PMbedTLS_btable \<and>
    PMbedTLS_btable ! slot = Branch (mangled ''PMbedTLS'' (n, replicate k RefArg))"
proof -
  have tables: "glue MbedTLS = PMbedTLSInterface_glue" "btable MbedTLS = PMbedTLS_btable"
    "decls MbedTLS = PMbedTLS_decls" "interface MbedTLS = ''PMbedTLSInterface''"
    "implementation MbedTLS = ''PMbedTLS''"
    by (simp_all add: MbedTLS_def PMbedTLS_class_info_def)
  obtain i where i: "i < length PMbedTLS_decls" "PMbedTLS_decls ! i = (n, replicate k RefArg)"
    using export_declared [OF assms] by (meson in_set_conv_nth)
  then have len: "i < length (glue MbedTLS)"
    using mbedtls.same_length by (simp add: tables)
  have "(mangled ''PMbedTLSInterface'' (n, replicate k RefArg), i + 4) \<in> set PMbedTLSInterface_glue"
    using mbedtls.glue_nth [OF len] nth_mem [OF len] i(2) by (simp add: tables)
  then show ?thesis
    using mbedtls.btable_nth [OF len] i(2) by (auto simp: tables)
qed

theorem exports_reach_class_witness:
  "\<exists>slot.
    (mangled ''PMbedTLSInterface'' (''SSLRead'', replicate 2 RefArg), slot) \<in> set PMbedTLSInterface_glue \<and>
    slot < length PMbedTLS_btable \<and>
    PMbedTLS_btable ! slot = Branch (mangled ''PMbedTLS'' (''SSLRead'', replicate 2 RefArg))"
proof -
  have "(''SSLRead'', 2, \<lambda>as. SSLRead_fn demo_env (as ! 0) (as ! 1)) \<in> set (exports demo_env)"
    by (simp add: exports_def exports_ssl_def)
  then show ?thesis by (rule exports_reach_class) simp
qed

end
